(* ===== verification/WA_Prelude.thy ===== *)
theory WA_Prelude
  imports Complex_Main "HOL-Library.AList"
begin

text \<open>
  Shared vocabulary of the development.

  \<^item> JavaScript objects used as dictionaries (\<open>Record<string, T>\<close>) are association lists:
    \<open>map_of\<close> reads, \<open>AList.update\<close> writes (in place, or appended at the end, which is the
    insertion order \<open>Object.values\<close> reports) and \<open>AList.delete\<close> is the \<open>delete\<close> operator.
  \<^item> A \<open>Date\<close> or an ISO string produced by \<open>toISOString\<close> is the number of milliseconds it
    stands for, an \<open>int\<close>. A \<open>Date\<close> that the source may receive invalid is an
    \<open>int option\<close> (\<open>None\<close> is \<open>NaN\<close>).
  \<^item> Strings are ASCII character lists (identifiers, digests and codes).
\<close>

type_synonym millis = int
type_synonym js_date = "millis option"

record js_timestamp =
  ts_text :: string
  ts_value :: js_date

text \<open>The collections of the development: simplification of whole components and the
  proof rules of the state-and-error monad.\<close>

named_theorems wp_rules
named_theorems wp_split

subsection \<open>Association lists\<close>

lemma map_of_update [simp]: "map_of (AList.update k v xs) = (map_of xs)(k \<mapsto> v)"
  by (simp add: update_conv')

lemma map_of_delete [simp]: "map_of (AList.delete k xs) = (map_of xs)(k := None)"
  by (simp add: delete_conv')

lemma map_of_eq_Some_set: "map_of xs k = Some v \<Longrightarrow> (k, v) \<in> set xs"
  by (rule map_of_SomeD)

lemma distinct_fst_map_of:
  "distinct (map fst xs) \<Longrightarrow> (k, v) \<in> set xs \<longleftrightarrow> map_of xs k = Some v"
  by (auto simp: map_of_eq_Some_iff)

lemma keys_update: "fst ` set (AList.update k v xs) = insert k (fst ` set xs)"
  by (simp add: dom_update)

lemma length_update_new: "map_of xs k = None \<Longrightarrow> length (AList.update k v xs) = Suc (length xs)"
  by (induction xs) (auto split: if_splits)

lemma length_update_old: "map_of xs k \<noteq> None \<Longrightarrow> length (AList.update k v xs) = length xs"
  by (induction xs) (auto split: if_splits)

lemma set_update_subset: "set (AList.update k v xs) \<subseteq> insert (k, v) (set xs)"
  by (induction xs) auto

lemma set_delete_subset: "set (AList.delete k xs) \<subseteq> set xs"
  by (auto simp: AList.delete_eq)

lemma length_delete_le: "length (AList.delete k xs) \<le> length xs"
  by (simp add: AList.delete_eq)

lemma distinct_delete_fst: "distinct (map fst xs) \<Longrightarrow> distinct (map fst (AList.delete k xs))"
  by (rule distinct_delete)

subsection \<open>Sorting by a comparison\<close>

text \<open>\<open>Array.prototype.sort\<close> with a comparison function.\<close>

fun insort_by :: "('a \<Rightarrow> 'a \<Rightarrow> bool) \<Rightarrow> 'a \<Rightarrow> 'a list \<Rightarrow> 'a list" where
  "insort_by le x [] = [x]"
| "insort_by le x (y # ys) = (if le x y then x # y # ys else y # insort_by le x ys)"

definition sort_by :: "('a \<Rightarrow> 'a \<Rightarrow> bool) \<Rightarrow> 'a list \<Rightarrow> 'a list" where
  "sort_by le xs = foldr (insort_by le) xs []"

lemma set_insort_by [simp]: "set (insort_by le x ys) = insert x (set ys)"
  by (induction ys) auto

lemma set_sort_by [simp]: "set (sort_by le xs) = set xs"
  by (induction xs) (simp_all add: sort_by_def)

lemma length_insort_by [simp]: "length (insort_by le x ys) = Suc (length ys)"
  by (induction ys) auto

lemma length_sort_by [simp]: "length (sort_by le xs) = length xs"
  by (induction xs) (simp_all add: sort_by_def)

subsection \<open>Integer arithmetic as in JavaScript and SQL\<close>

text \<open>\<open>Math.ceil(a / b)\<close> for integers with a positive divisor.\<close>

definition ceil_div :: "int \<Rightarrow> int \<Rightarrow> int" where
  "ceil_div a b = - ((- a) div b)"

lemma ceil_div_upper: "0 < b \<Longrightarrow> a \<le> ceil_div a b * b"
proof -
  assume b: "0 < b"
  have "(- a) div b * b \<le> - a"
    using b by (metis div_mult_mod_eq le_add_same_cancel1 pos_mod_sign)
  then show ?thesis by (simp add: ceil_div_def)
qed

lemma ceil_div_pos: "0 < a \<Longrightarrow> 0 < b \<Longrightarrow> 0 < ceil_div a b"
  using ceil_div_upper [of b a] by (meson less_le_trans not_le zero_less_mult_pos2)

end
