(* ===== verification/Js_Values.thy ===== *)
theory Js_Values
  imports WA_Prelude
begin

text \<open>
  The parts of JavaScript's standard library the modelled sources use on unknown data: plain
  values as \<open>JSON.parse\<close> yields them, ASCII case folding, \<open>trim\<close>, \<open>startsWith\<close>/\<open>endsWith\<close>, splitting at a
  separator, fixed-shape regular expressions, and the members of a parsed \<open>URL\<close>. The coercions
  \<open>String(v)\<close>, \<open>Number(v)\<close> and the \<open>URL\<close> constructor are arguments of the definitions that
  need them.
\<close>

datatype js_value =
    JUndefined
  | JNull
  | JBool bool
  | JNumber rat
  | JString string
  | JArray "js_value list"
  | JObject "(string \<times> js_value) list"

text \<open>Property access on an object; a missing property is \<open>undefined\<close>.\<close>

fun js_field :: "js_value \<Rightarrow> string \<Rightarrow> js_value" where
  "js_field (JObject ps) k = (case map_of ps k of Some v \<Rightarrow> v | None \<Rightarrow> JUndefined)"
| "js_field _ _ = JUndefined"

fun js_nullish :: "js_value \<Rightarrow> bool" where
  "js_nullish JUndefined = True"
| "js_nullish JNull = True"
| "js_nullish _ = False"

record js_coercions =
  to_text :: "js_value \<Rightarrow> string"
  to_number :: "js_value \<Rightarrow> rat option"

record url =
  url_protocol :: string
  url_hostname :: string
  url_pathname :: string
  url_search :: string
  url_hash :: string
  url_username :: string
  url_password :: string
  url_origin :: string
  url_href :: string

definition max_safe_integer :: int where
  "max_safe_integer = 2 ^ 53 - 1"

definition is_safe_integer :: "rat \<Rightarrow> bool" where
  "is_safe_integer q \<longleftrightarrow> of_int \<lfloor>q\<rfloor> = q \<and> \<bar>\<lfloor>q\<rfloor>\<bar> \<le> max_safe_integer"

definition safe_int :: "int \<Rightarrow> bool" where
  "safe_int n \<longleftrightarrow> \<bar>n\<bar> \<le> max_safe_integer"

subsection \<open>Characters and strings\<close>

definition code_of :: "char \<Rightarrow> nat" where
  "code_of c = of_char c"

definition char_between :: "char \<Rightarrow> char \<Rightarrow> char \<Rightarrow> bool" where
  "char_between lo hi c \<longleftrightarrow> code_of lo \<le> code_of c \<and> code_of c \<le> code_of hi"

definition is_digit :: "char \<Rightarrow> bool" where
  "is_digit c = char_between CHR ''0'' CHR ''9'' c"

definition lower_char :: "char \<Rightarrow> char" where
  "lower_char c = (if char_between CHR ''A'' CHR ''Z'' c then char_of (code_of c + 32) else c)"

definition to_lower :: "string \<Rightarrow> string" where
  "to_lower s = map lower_char s"

definition is_letter :: "char \<Rightarrow> bool" where
  "is_letter c = char_between CHR ''a'' CHR ''z'' (lower_char c)"

definition is_hex :: "char \<Rightarrow> bool" where
  "is_hex c \<longleftrightarrow> is_digit c \<or> char_between CHR ''a'' CHR ''f'' (lower_char c)"

definition is_space :: "char \<Rightarrow> bool" where
  "is_space c \<longleftrightarrow> code_of c \<in> {9, 10, 11, 12, 13, 32}"

definition trim :: "string \<Rightarrow> string" where
  "trim s = rev (dropWhile is_space (rev (dropWhile is_space s)))"

definition starts_with :: "string \<Rightarrow> string \<Rightarrow> bool" where
  "starts_with p s \<longleftrightarrow> take (length p) s = p"

definition ends_with :: "string \<Rightarrow> string \<Rightarrow> bool" where
  "ends_with p s \<longleftrightarrow> length p \<le> length s \<and> drop (length s - length p) s = p"

text \<open>\<open>String(n)\<close> of an integer.\<close>

fun decimal_digits :: "nat \<Rightarrow> nat \<Rightarrow> string" where
  "decimal_digits 0 n = []"
| "decimal_digits (Suc fuel) n =
     (if n < 10 then [char_of (48 + n)] else decimal_digits fuel (n div 10) @ [char_of (48 + n mod 10)])"

definition text_of_int :: "int \<Rightarrow> string" where
  "text_of_int n = (if n < 0 then ''-'' else []) @ decimal_digits (Suc (nat \<bar>n\<bar>)) (nat \<bar>n\<bar>)"

fun split_on :: "char \<Rightarrow> string \<Rightarrow> string list" where
  "split_on c [] = [[]]"
| "split_on c (x # xs) =
     (if x = c then [] # split_on c xs
      else (case split_on c xs of [] \<Rightarrow> [[x]] | p # ps \<Rightarrow> (x # p) # ps))"

fun join_with :: "string \<Rightarrow> string list \<Rightarrow> string" where
  "join_with sep [] = []"
| "join_with sep [x] = x"
| "join_with sep (x # y # ys) = x @ sep @ join_with sep (y # ys)"

text \<open>A regular expression of fixed length: one test per character.\<close>

definition matches :: "(char \<Rightarrow> bool) list \<Rightarrow> string \<Rightarrow> bool" where
  "matches ps s = list_all2 (\<lambda>p c. p c) ps s"

definition nat_of_digits :: "string \<Rightarrow> int" where
  "nat_of_digits s = foldl (\<lambda>n c. n * 10 + int (code_of c) - 48) 0 s"

text \<open>\<open>uuid_pattern v\<close>: the hyphenated hexadecimal shape whose version digit satisfies \<open>v\<close>.\<close>

definition uuid_pattern :: "(char \<Rightarrow> bool) \<Rightarrow> (char \<Rightarrow> bool) list" where
  "uuid_pattern v =
     replicate 8 is_hex @ [(=) CHR ''-''] @ replicate 4 is_hex @ [(=) CHR ''-'', v]
       @ replicate 3 is_hex @ [(=) CHR ''-'', \<lambda>c. lower_char c \<in> set ''89ab'']
       @ replicate 3 is_hex @ [(=) CHR ''-''] @ replicate 12 is_hex"

lemma matches_length: "matches ps s \<Longrightarrow> length s = length ps"
  by (auto simp: matches_def dest: list_all2_lengthD)

lemma starts_with_append [simp]: "starts_with p (p @ s)"
  by (simp add: starts_with_def)

lemma trim_length: "length (trim s) \<le> length s"
  unfolding trim_def by (metis length_dropWhile_le length_rev le_trans)

end
