(* ===== verification/Connector_Protocol.thy ===== *)
theory Connector_Protocol
  imports Js_Values
begin

text \<open>
  \<open>packages/openwa-connector-plugin/src/protocol.ts\<close>: commands, delivery evidence, and the
  admission checks of a command body. JSON parsing and the Ajv schema validator are the argument
  \<open>decode\<close> of \<open>parse_command\<close>: it yields the schema errors or a typed command.
\<close>

definition protocol_version :: int where
  "protocol_version = 1"

definition journal_schema_version :: int where
  "journal_schema_version = 1"

text \<open>The two commands differ in their content; \<open>operation\<close> is determined by it.\<close>

datatype content =
    Text_Content (content_text: string)
  | Image_Content (img_filename: string) (img_mimeType: string) (img_byteSize: int)
      (img_sha256: string) (img_mediaUrl: string) (img_caption: string)

datatype operation = SEND_TEXT | SEND_IMAGE

record command =
  cmd_protocolVersion :: int
  cmd_commandId :: string
  cmd_attemptId :: string
  cmd_sessionId :: string
  cmd_recipientId :: string
  cmd_safetyPermitId :: string
  cmd_bindingGeneration :: int
  cmd_createdAt :: js_timestamp
  cmd_expiresAt :: js_timestamp
  cmd_content :: content

fun content_operation :: "content \<Rightarrow> operation" where
  "content_operation (Text_Content _) = SEND_TEXT"
| "content_operation (Image_Content _ _ _ _ _ _) = SEND_IMAGE"

datatype evidence_kind =
    COMMAND_RECEIVED | EV_SEND_STARTED | EV_SEND_ACCEPTED | EV_SEND_REJECTED
  | EV_SEND_INDETERMINATE | ACK_SENT | ACK_DELIVERED | ACK_READ | ACK_FAILED

datatype delivery_status =
  DS_PENDING | DS_ACCEPTED | DS_SENT | DS_DELIVERED | DS_READ | DS_FAILED | DS_INDETERMINATE

datatype error_class =
    EC_SAFE_REJECTION | EC_RATE_LIMITED | EC_SESSION_RESTRICTED | EC_TRANSIENT_FAILURE
  | EC_AMBIGUOUS | EC_INVALID_COMMAND | EC_EXPIRED_COMMAND | EC_BINDING_MISMATCH

record evidence =
  ev_protocolVersion :: int
  ev_eventId :: string
  ev_commandId :: string
  ev_attemptId :: string
  ev_sessionId :: string
  ev_sequence :: nat
  ev_kind :: evidence_kind
  ev_openwaMessageId :: "string option"
  ev_deliveryStatus :: delivery_status
  ev_errorClass :: "error_class option"
  ev_errorCode :: "string option"
  ev_bindingGeneration :: int
  ev_pluginVersion :: string
  ev_occurredAt :: millis
  ev_payloadSha256 :: string

text \<open>\<open>createEvidence\<close>; the random event id is an argument.\<close>

definition create_evidence ::
  "string \<Rightarrow> command \<Rightarrow> string \<Rightarrow> string \<Rightarrow> nat \<Rightarrow> evidence_kind \<Rightarrow> delivery_status
     \<Rightarrow> string option \<Rightarrow> error_class option \<Rightarrow> string option \<Rightarrow> millis \<Rightarrow> evidence" where
  "create_evidence event_id cmd digest version seq_no kind status message_id err_class err_code now =
     \<lparr>ev_protocolVersion = protocol_version,
      ev_eventId = event_id,
      ev_commandId = cmd_commandId cmd,
      ev_attemptId = cmd_attemptId cmd,
      ev_sessionId = cmd_sessionId cmd,
      ev_sequence = seq_no,
      ev_kind = kind,
      ev_openwaMessageId = message_id,
      ev_deliveryStatus = status,
      ev_errorClass = err_class,
      ev_errorCode = err_code,
      ev_bindingGeneration = cmd_bindingGeneration cmd,
      ev_pluginVersion = version,
      ev_occurredAt = now,
      ev_payloadSha256 = digest\<rparr>"

datatype protocol_error =
    Invalid_Command string
  | Url_Type_Error

datatype decoded =
    Not_Json
  | Schema_Errors "(string \<times> string option) list"
  | Decoded command

definition format_errors :: "(string \<times> string option) list \<Rightarrow> string" where
  "format_errors errors =
     (let text = join_with ''; '' (map (\<lambda>(path, message).
           (if path = [] then ''/'' else path) @ '' '' @
           (case message of Some m \<Rightarrow> m | None \<Rightarrow> ''invalid'')) (take 3 errors))
      in if text = [] then ''invalid'' else text)"

definition loopback_hosts :: "string list" where
  "loopback_hosts = [''127.0.0.1'', ''::1'', ''localhost'']"

definition url_is_loopback :: "url \<Rightarrow> bool" where
  "url_is_loopback u \<longleftrightarrow> url_hostname u \<in> set loopback_hosts"

definition validate_media_url :: "(string \<Rightarrow> url option) \<Rightarrow> string \<Rightarrow> protocol_error + unit" where
  "validate_media_url new_url value =
     (case new_url value of
        None \<Rightarrow> Inl Url_Type_Error
      | Some u \<Rightarrow>
          if \<not> (url_protocol u = ''https:'' \<or> (url_protocol u = ''http:'' \<and> url_is_loopback u))
             \<or> url_username u \<noteq> [] \<or> url_password u \<noteq> [] \<or> url_hash u \<noteq> []
          then Inl (Invalid_Command ''media URL must use HTTPS without credentials or fragments'')
          else Inr ())"

definition maximum_expiry_window_ms :: int where
  "maximum_expiry_window_ms = 3600000"

definition expiry_window_ok :: "command \<Rightarrow> bool" where
  "expiry_window_ok c =
     (case (ts_value (cmd_createdAt c), ts_value (cmd_expiresAt c)) of
        (Some created, Some expires) \<Rightarrow>
          created < expires \<and> expires - created \<le> maximum_expiry_window_ms
      | _ \<Rightarrow> False)"

definition parse_command ::
  "(string \<Rightarrow> decoded) \<Rightarrow> (string \<Rightarrow> url option) \<Rightarrow> string \<Rightarrow> protocol_error + command" where
  "parse_command decode new_url raw =
     (case decode raw of
        Not_Json \<Rightarrow> Inl (Invalid_Command ''command body is not valid JSON'')
      | Schema_Errors errors \<Rightarrow>
          Inl (Invalid_Command (''command schema mismatch: '' @ format_errors errors))
      | Decoded c \<Rightarrow>
          if \<not> expiry_window_ok c then Inl (Invalid_Command ''command expiry window is invalid'')
          else (case cmd_content c of
                  Image_Content _ _ _ _ media_url _ \<Rightarrow>
                    (case validate_media_url new_url media_url of
                       Inl e \<Rightarrow> Inl e
                     | Inr _ \<Rightarrow> Inr c)
                | Text_Content _ \<Rightarrow> Inr c))"

definition extract_openwa_message_id :: "js_value \<Rightarrow> string option" where
  "extract_openwa_message_id result =
     (case js_field result ''messageId'' of
        JString s \<Rightarrow> if trim s \<noteq> [] \<and> length s \<le> 512 then Some s else None
      | _ \<Rightarrow> None)"

subsection \<open>Facts\<close>

lemma create_evidence_sel [simp]:
  "ev_kind (create_evidence i c d v n k s m ec er t) = k"
  "ev_sequence (create_evidence i c d v n k s m ec er t) = n"
  "ev_eventId (create_evidence i c d v n k s m ec er t) = i"
  "ev_commandId (create_evidence i c d v n k s m ec er t) = cmd_commandId c"
  "ev_sessionId (create_evidence i c d v n k s m ec er t) = cmd_sessionId c"
  "ev_attemptId (create_evidence i c d v n k s m ec er t) = cmd_attemptId c"
  "ev_payloadSha256 (create_evidence i c d v n k s m ec er t) = d"
  "ev_bindingGeneration (create_evidence i c d v n k s m ec er t) = cmd_bindingGeneration c"
  "ev_openwaMessageId (create_evidence i c d v n k s m ec er t) = m"
  "ev_deliveryStatus (create_evidence i c d v n k s m ec er t) = s"
  "ev_errorClass (create_evidence i c d v n k s m ec er t) = ec"
  by (simp_all add: create_evidence_def)

lemma parse_command_decodes: "parse_command decode new_url raw = Inr c \<Longrightarrow> decode raw = Decoded c"
  by (auto simp: parse_command_def split: decoded.splits if_splits content.splits sum.splits)

lemma parse_command_window: "parse_command decode new_url raw = Inr c \<Longrightarrow> expiry_window_ok c"
  by (auto simp: parse_command_def split: decoded.splits if_splits content.splits sum.splits)

lemma validate_media_url_ok:
  "validate_media_url new_url v = Inr x \<longleftrightarrow>
     (\<exists>u. new_url v = Some u \<and> (url_protocol u = ''https:'' \<or> url_protocol u = ''http:'' \<and> url_is_loopback u)
        \<and> url_username u = [] \<and> url_password u = [] \<and> url_hash u = [])"
  by (auto simp: validate_media_url_def split: option.splits)

end
