(* ===== verification/Connector_Config.thy ===== *)
theory Connector_Config
  imports Connector_Protocol
begin

text \<open>
  \<open>packages/openwa-connector-plugin/src/config.ts\<close>: reading and validating the plugin's
  configuration. The raw object is a dictionary of unknown values; \<open>String\<close>, \<open>Number\<close> and the
  \<open>URL\<close> constructor are arguments.
\<close>

record connector_config =
  cfg_eventInboxBaseUrl :: string
  cfg_connectorId :: string
  cfg_connectorToken :: string
  cfg_sessionId :: string
  cfg_heartbeatIntervalSeconds :: rat
  cfg_storagePressureThreshold :: rat

datatype config_error =
    Base_Url_Required | Base_Url_Invalid | Base_Url_Not_Origin | Token_Invalid
  | Session_Not_Uuid | Number_Out_Of_Range rat rat

definition bounded_number ::
  "js_coercions \<Rightarrow> js_value \<Rightarrow> rat \<Rightarrow> rat \<Rightarrow> rat \<Rightarrow> config_error + rat" where
  "bounded_number js value fallback minimum maximum =
     (if value = JUndefined \<or> value = JNull \<or> value = JString [] then Inr fallback
      else (case to_number js value of
              None \<Rightarrow> Inl (Number_Out_Of_Range minimum maximum)
            | Some n \<Rightarrow>
                if n < minimum \<or> maximum < n then Inl (Number_Out_Of_Range minimum maximum)
                else Inr n))"

text \<open>\<open>String(value ?? '')\<close>.\<close>

definition text_or_empty :: "js_coercions \<Rightarrow> js_value \<Rightarrow> string" where
  "text_or_empty js v = (if js_nullish v then [] else to_text js v)"

definition is_uuid :: "string \<Rightarrow> bool" where
  "is_uuid s = matches (uuid_pattern (\<lambda>c. char_between CHR ''1'' CHR ''8'' c)) s"

definition is_uuid_v4 :: "string \<Rightarrow> bool" where
  "is_uuid_v4 s = matches (uuid_pattern (\<lambda>c. c = CHR ''4'')) s"

definition is_generation_digits :: "string \<Rightarrow> bool" where
  "is_generation_digits s =
     (case s of [] \<Rightarrow> False | d # ds \<Rightarrow> char_between CHR ''1'' CHR ''9'' d \<and> list_all is_digit ds)"

definition is_base64url :: "char \<Rightarrow> bool" where
  "is_base64url c \<longleftrightarrow> is_letter c \<or> is_digit c \<or> c = CHR ''_'' \<or> c = CHR ''-''"

text \<open>The token pattern has four fields separated by dots, none of which contains a dot. The
  result is the connector id the token names.\<close>

definition token_connector_id :: "string \<Rightarrow> string option" where
  "token_connector_id token =
     (case split_on CHR ''.'' token of
        [version, connector, generation, secret] \<Rightarrow>
          if to_lower version = ''wac1'' \<and> is_uuid_v4 connector \<and> is_generation_digits generation
             \<and> nat_of_digits generation \<le> max_safe_integer
             \<and> length secret = 43 \<and> list_all is_base64url secret
          then Some (to_lower connector) else None
      | _ \<Rightarrow> None)"

definition base_url_is_origin :: "url \<Rightarrow> bool" where
  "base_url_is_origin u \<longleftrightarrow>
     (url_protocol u = ''https:'' \<or> (url_protocol u = ''http:'' \<and> url_is_loopback u))
     \<and> (url_pathname u = [] \<or> url_pathname u = ''/'') \<and> url_search u = [] \<and> url_hash u = []
     \<and> url_username u = [] \<and> url_password u = []"

definition read_config ::
  "js_coercions \<Rightarrow> (string \<Rightarrow> url option) \<Rightarrow> js_value \<Rightarrow> config_error + connector_config" where
  "read_config js new_url raw =
     (let base_url = trim (text_or_empty js (js_field raw ''eventInboxBaseUrl''));
          token = text_or_empty js (js_field raw ''connectorToken'');
          session = trim (text_or_empty js (js_field raw ''sessionId''))
      in case bounded_number js (js_field raw ''heartbeatIntervalSeconds'') 10 5 60 of
           Inl e \<Rightarrow> Inl e
         | Inr heartbeat \<Rightarrow>
        (case bounded_number js (js_field raw ''storagePressureThreshold'') (3/4) (1/2) (19/20) of
           Inl e \<Rightarrow> Inl e
         | Inr threshold \<Rightarrow>
             if base_url = [] then Inl Base_Url_Required
             else (case new_url base_url of
                     None \<Rightarrow> Inl Base_Url_Invalid
                   | Some u \<Rightarrow>
                       if \<not> base_url_is_origin u then Inl Base_Url_Not_Origin
                       else (case token_connector_id token of
                               None \<Rightarrow> Inl Token_Invalid
                             | Some connector \<Rightarrow>
                                 if \<not> is_uuid session then Inl Session_Not_Uuid
                                 else Inr \<lparr>cfg_eventInboxBaseUrl = url_origin u,
                                           cfg_connectorId = connector,
                                           cfg_connectorToken = token,
                                           cfg_sessionId = session,
                                           cfg_heartbeatIntervalSeconds = heartbeat,
                                           cfg_storagePressureThreshold = threshold\<rparr>))))"

text \<open>What a configuration promises to the rest of the plugin.\<close>

definition config_ok :: "connector_config \<Rightarrow> bool" where
  "config_ok c \<longleftrightarrow>
     5 \<le> cfg_heartbeatIntervalSeconds c \<and> cfg_heartbeatIntervalSeconds c \<le> 60
     \<and> 1/2 \<le> cfg_storagePressureThreshold c \<and> cfg_storagePressureThreshold c \<le> 19/20
     \<and> is_uuid (cfg_sessionId c)
     \<and> token_connector_id (cfg_connectorToken c) = Some (cfg_connectorId c)"

lemma bounded_number_bounds:
  "bounded_number js v d lo hi = Inr n \<Longrightarrow> lo \<le> d \<Longrightarrow> d \<le> hi \<Longrightarrow> lo \<le> n \<and> n \<le> hi"
  by (auto simp: bounded_number_def split: if_splits option.splits)

lemma read_config_ok: "read_config js new_url raw = Inr c \<Longrightarrow> config_ok c"
  by (auto simp: read_config_def config_ok_def Let_def
      split: sum.splits if_splits option.splits dest!: bounded_number_bounds)

lemma read_config_origin:
  "read_config js new_url raw = Inr c \<Longrightarrow>
     \<exists>u. new_url (trim (text_or_empty js (js_field raw ''eventInboxBaseUrl''))) = Some u
       \<and> base_url_is_origin u \<and> cfg_eventInboxBaseUrl c = url_origin u"
  by (auto simp: read_config_def Let_def split: sum.splits if_splits option.splits)

lemma split_on_nonempty: "split_on c s \<noteq> []"
  by (induction s) (auto split: list.splits)

lemma split_on_chars: "p \<in> set (split_on c s) \<Longrightarrow> c \<notin> set p"
  by (induction s arbitrary: p) (auto split: if_splits list.splits)

lemma read_config_connector_uuid:
  "read_config js new_url raw = Inr c \<Longrightarrow> length (cfg_connectorId c) = 36"
  by (auto simp: read_config_def token_connector_id_def is_uuid_v4_def uuid_pattern_def to_lower_def
      Let_def split: sum.splits if_splits option.splits list.splits dest!: matches_length)

end
