(* ===== verification/Connector_Bindings.thy ===== *)
theory Connector_Bindings
  imports Connector_Protocol
begin

text \<open>
  \<open>packages/openwa-connector-plugin/src/bindings.ts\<close>: the binding generations the Event Inbox
  has announced for this connector, the newest of which admits commands. The persisted value is
  what was read back from the plugin storage, \<open>None\<close> when there is none.
\<close>

record binding =
  bd_sessionId :: string
  bd_connectorId :: string
  bd_webhookId :: string
  bd_generation :: int
  bd_updatedAt :: js_timestamp

record binding_state =
  bs_schemaVersion :: int
  bs_sessionId :: string
  bs_bindings :: "binding list"

record binding_store =
  st_session :: string
  st_connector :: string
  st_bindings :: "binding list"
  st_persisted :: "binding_state option"

definition maximum_retained_bindings :: nat where
  "maximum_retained_bindings = 32"

definition valid_binding :: "string \<Rightarrow> string \<Rightarrow> binding \<Rightarrow> bool" where
  "valid_binding session connector b \<longleftrightarrow>
     bd_sessionId b = session \<and> bd_connectorId b = connector
     \<and> 1 \<le> length (bd_webhookId b) \<and> length (bd_webhookId b) \<le> 512
     \<and> safe_int (bd_generation b) \<and> 0 < bd_generation b
     \<and> ts_value (bd_updatedAt b) \<noteq> None"

text \<open>\<open>array.slice(-n)\<close>.\<close>

definition slice_last :: "nat \<Rightarrow> 'a list \<Rightarrow> 'a list" where
  "slice_last n xs = drop (length xs - n) xs"

definition sort_by_generation :: "binding list \<Rightarrow> binding list" where
  "sort_by_generation = sort_key bd_generation"

definition bindings_load :: "binding_store \<Rightarrow> binding_store" where
  "bindings_load s =
     (case st_persisted s of
        None \<Rightarrow> s\<lparr>st_bindings := []\<rparr>
      | Some v \<Rightarrow>
          if bs_schemaVersion v \<noteq> 1 \<or> bs_sessionId v \<noteq> st_session s then s\<lparr>st_bindings := []\<rparr>
          else s\<lparr>st_bindings := slice_last maximum_retained_bindings
                   (sort_by_generation
                     (filter (valid_binding (st_session s) (st_connector s)) (bs_bindings v)))\<rparr>)"

definition bindings_current :: "binding_store \<Rightarrow> binding option" where
  "bindings_current s = (if st_bindings s = [] then None else Some (last (st_bindings s)))"

definition bindings_find :: "binding_store \<Rightarrow> int \<Rightarrow> binding option" where
  "bindings_find s g = List.find (\<lambda>b. bd_generation b = g) (st_bindings s)"

text \<open>The loop over the incoming bindings: \<open>None\<close> is the thrown conflict.\<close>

fun merge_bindings :: "(int \<times> binding) list \<Rightarrow> binding list \<Rightarrow> (int \<times> binding) list option" where
  "merge_bindings m [] = Some m"
| "merge_bindings m (b # bs) =
     (case map_of m (bd_generation b) of
        Some e \<Rightarrow>
          if bd_connectorId e \<noteq> bd_connectorId b \<or> bd_webhookId e \<noteq> bd_webhookId b then None
          else merge_bindings (AList.update (bd_generation b) b m) bs
      | None \<Rightarrow> merge_bindings (AList.update (bd_generation b) b m) bs)"

text \<open>\<open>new Map(entries)\<close>: later entries replace the value of an earlier key.\<close>

definition map_from_entries :: "('k \<times> 'v) list \<Rightarrow> ('k \<times> 'v) list" where
  "map_from_entries es = foldl (\<lambda>m (k, v). AList.update k v m) [] es"

datatype binding_error = Conflicting_Generation

definition bindings_apply :: "binding_store \<Rightarrow> binding list \<Rightarrow> binding_error + (bool \<times> binding_store)" where
  "bindings_apply s bs =
     (let incoming = filter (valid_binding (st_session s) (st_connector s)) bs
      in if incoming = [] then Inr (False, s)
         else (case merge_bindings (map_from_entries (map (\<lambda>b. (bd_generation b, b)) (st_bindings s))) incoming of
                 None \<Rightarrow> Inl Conflicting_Generation
               | Some m \<Rightarrow>
                   let next = slice_last maximum_retained_bindings (sort_by_generation (map snd m));
                       changed = (next \<noteq> st_bindings s);
                       s' = s\<lparr>st_bindings := next\<rparr>
                   in Inr (changed,
                        if changed
                        then s'\<lparr>st_persisted := Some \<lparr>bs_schemaVersion = 1, bs_sessionId = st_session s, bs_bindings = next\<rparr>\<rparr>
                        else s')))"

subsection \<open>The invariant of the store\<close>

text \<open>Generations strictly ascend, so the newest binding is the last one and \<open>find\<close> is a function of
  the generation; every binding is valid for this connector; at most 32 are kept.\<close>

definition bindings_inv :: "binding_store \<Rightarrow> bool" where
  "bindings_inv s \<longleftrightarrow>
     sorted_wrt (<) (map bd_generation (st_bindings s))
     \<and> length (st_bindings s) \<le> maximum_retained_bindings
     \<and> (\<forall>b \<in> set (st_bindings s). valid_binding (st_session s) (st_connector s) b)"

lemma slice_last_length: "length (slice_last n xs) \<le> n"
  by (simp add: slice_last_def)

lemma slice_last_subset: "set (slice_last n xs) \<subseteq> set xs"
  by (auto simp: slice_last_def dest: in_set_dropD)

lemma sorted_wrt_slice_last: "sorted_wrt P xs \<Longrightarrow> sorted_wrt P (slice_last n xs)"
  by (simp add: slice_last_def sorted_wrt_drop)

lemma map_slice_last: "map f (slice_last n xs) = slice_last n (map f xs)"
  by (simp add: slice_last_def drop_map)

definition generation_map :: "(int \<times> binding) list \<Rightarrow> bool" where
  "generation_map m \<longleftrightarrow> distinct (map fst m) \<and> (\<forall>(k, b) \<in> set m. k = bd_generation b)"

lemma generation_map_update:
  "generation_map m \<Longrightarrow> generation_map (AList.update (bd_generation b) b m)"
  unfolding generation_map_def
  using set_update_subset [of "bd_generation b" b m] by (auto simp: distinct_update)

lemma generation_map_from_entries:
  "generation_map (map_from_entries (map (\<lambda>b. (bd_generation b, b)) bs))"
proof -
  have "generation_map (foldl (\<lambda>m (k, v). AList.update k v m) m (map (\<lambda>b. (bd_generation b, b)) bs))"
    if "generation_map m" for m
    using that by (induction bs arbitrary: m) (auto intro: generation_map_update)
  moreover have "generation_map []" by (simp add: generation_map_def)
  ultimately show ?thesis by (simp add: map_from_entries_def)
qed

lemma map_of_from_entries:
  "map_of (map_from_entries es) k = map_of (rev es) k"
proof -
  have "map_of (foldl (\<lambda>m (k, v). AList.update k v m) m es) k
      = (case map_of (rev es) k of None \<Rightarrow> map_of m k | Some v \<Rightarrow> Some v)" for m
    by (induction es arbitrary: m) (auto split: option.splits)
  then show ?thesis by (simp add: map_from_entries_def split: option.splits)
qed

lemma merge_bindings_generation_map:
  "generation_map m \<Longrightarrow> merge_bindings m bs = Some m' \<Longrightarrow> generation_map m'"
  by (induction m bs rule: merge_bindings.induct)
    (auto split: option.splits if_splits intro: generation_map_update)

lemma values_update: "snd ` set (AList.update k v m) \<subseteq> insert v (snd ` set m)"
  using set_update_subset [of k v m] by auto

lemma merge_bindings_values:
  "merge_bindings m bs = Some m' \<Longrightarrow> snd ` set m' \<subseteq> snd ` set m \<union> set bs"
proof (induction m bs rule: merge_bindings.induct)
  case (2 m b bs)
  let ?m = "AList.update (bd_generation b) b m"
  have "merge_bindings ?m bs = Some m'"
    using "2.prems" by (auto split: option.splits if_splits)
  moreover from this have "snd ` set m' \<subseteq> snd ` set ?m \<union> set bs"
    using 2 by (auto split: option.splits if_splits)
  ultimately show ?case using values_update [of "bd_generation b" b m] by (simp, blast)
qed simp

lemma map_from_entries_values: "snd ` set (map_from_entries es) \<subseteq> snd ` set es"
proof -
  have gen: "snd ` set (foldl (\<lambda>m (k, v). AList.update k v m) m es) \<subseteq> snd ` set m \<union> snd ` set es" for m
  proof (induction es arbitrary: m)
    case (Cons e es)
    obtain k v where e: "e = (k, v)" by fastforce
    show ?case
      using Cons [of "AList.update k v m"] values_update [of k v m] e by (simp, blast)
  qed simp
  show ?thesis using gen [of "[]"] by (simp add: map_from_entries_def)
qed

lemma generation_map_keys: "generation_map m \<Longrightarrow> map bd_generation (map snd m) = map fst m"
  by (auto simp: generation_map_def)

lemma distinct_sort_by_generation:
  assumes "distinct (map bd_generation bs)"
  shows "distinct (map bd_generation (sort_by_generation bs))"
  using assms by (simp add: sort_by_generation_def distinct_map)

lemma generation_map_strict:
  assumes "generation_map m"
  shows "sorted_wrt (<) (map bd_generation (sort_by_generation (map snd m)))"
proof -
  have "distinct (map bd_generation (map snd m))"
    unfolding generation_map_keys [OF assms] using assms by (simp add: generation_map_def)
  from distinct_sort_by_generation [OF this]
  have "distinct (map bd_generation (sort_by_generation (map snd m)))" .
  moreover have "sorted (map bd_generation (sort_by_generation (map snd m)))"
    by (simp add: sort_by_generation_def)
  ultimately show ?thesis by (simp add: strict_sorted_iff)
qed

subsection \<open>Every operation keeps it\<close>

lemma strict_filter:
  "sorted_wrt (<) (map f xs) \<Longrightarrow> sorted_wrt (<) (map f (filter P xs))" for f :: "'a \<Rightarrow> int"
  by (induction xs) auto

lemma bindings_apply_cases:
  assumes "bindings_apply s bs = Inr (changed, s')"
  obtains (none) "s' = s" "\<not> changed" "filter (valid_binding (st_session s) (st_connector s)) bs = []"
  | (merged) m where
      "merge_bindings (map_from_entries (map (\<lambda>b. (bd_generation b, b)) (st_bindings s)))
         (filter (valid_binding (st_session s) (st_connector s)) bs) = Some m"
      "generation_map m"
      "st_bindings s' = slice_last maximum_retained_bindings (sort_by_generation (map snd m))"
      "st_session s' = st_session s" "st_connector s' = st_connector s"
      "changed \<longleftrightarrow> st_bindings s' \<noteq> st_bindings s"
proof (cases "filter (valid_binding (st_session s) (st_connector s)) bs = []")
  case True
  with assms none show ?thesis by (auto simp: bindings_apply_def)
next
  case False
  with assms obtain m where m: "merge_bindings (map_from_entries (map (\<lambda>b. (bd_generation b, b)) (st_bindings s)))
         (filter (valid_binding (st_session s) (st_connector s)) bs) = Some m"
    by (auto simp: bindings_apply_def Let_def split: option.splits)
  from merge_bindings_generation_map [OF generation_map_from_entries m]
  have "generation_map m" .
  with assms False m merged show ?thesis
    by (auto simp: bindings_apply_def Let_def split: if_splits)
qed

lemma bindings_apply_values:
  assumes "merge_bindings (map_from_entries (map (\<lambda>b. (bd_generation b, b)) (st_bindings s)))
      (filter P bs) = Some m"
  shows "snd ` set m \<subseteq> set (st_bindings s) \<union> {b \<in> set bs. P b}"
  using merge_bindings_values [OF assms]
    map_from_entries_values [of "map (\<lambda>b. (bd_generation b, b)) (st_bindings s)"]
  by (auto simp: image_image)

lemma bindings_apply_inv:
  assumes "bindings_inv s" and ap: "bindings_apply s bs = Inr (changed, s')"
  shows "bindings_inv s'"
  using ap
proof (cases rule: bindings_apply_cases)
  case none
  with assms show ?thesis by simp
next
  case (merged m)
  have "set (st_bindings s') \<subseteq> snd ` set m"
    unfolding merged(3) using slice_last_subset by (fastforce simp: sort_by_generation_def)
  with bindings_apply_values [OF merged(1)] assms(1)
  have "\<forall>b \<in> set (st_bindings s'). valid_binding (st_session s) (st_connector s) b"
    unfolding bindings_inv_def by blast
  with generation_map_strict [OF merged(2)] merged(3-5) show ?thesis
    by (auto simp: bindings_inv_def map_slice_last sorted_wrt_slice_last slice_last_length)
qed

lemma sort_by_generation_strict:
  "sorted_wrt (<) (map bd_generation xs) \<Longrightarrow> sort_by_generation xs = xs"
  by (simp add: sort_by_generation_def sort_key_id_if_sorted strict_sorted_iff)

text \<open>The newest generation survives the truncation: it is the last of the sorted list.\<close>

lemma last_slice_last: "xs \<noteq> [] \<Longrightarrow> 0 < n \<Longrightarrow> last (slice_last n xs) = last xs"
  by (simp add: slice_last_def)

lemma slice_last_Nil [simp]:
  assumes "0 < n"
  shows "slice_last n xs = [] \<longleftrightarrow> xs = []"
proof (cases "xs = []")
  case False
  with assms have "length xs - n < length xs" by (simp add: diff_less)
  with False show ?thesis by (simp add: slice_last_def)
qed (simp add: slice_last_def)

lemma strict_last_max:
  "sorted_wrt (<) (map f xs) \<Longrightarrow> x \<in> set xs \<Longrightarrow> f x \<le> f (last xs)" for f :: "'a \<Rightarrow> int"
  by (induction xs) (auto simp: less_imp_le)

definition current_generation :: "binding_store \<Rightarrow> int" where
  "current_generation s = (case bindings_current s of None \<Rightarrow> 0 | Some b \<Rightarrow> bd_generation b)"

lemma merge_bindings_keeps_keys:
  "merge_bindings m bs = Some m' \<Longrightarrow> fst ` set m \<union> bd_generation ` set bs \<subseteq> fst ` set m'"
  by (induction m bs rule: merge_bindings.induct)
    (auto split: option.splits if_splits simp: keys_update)

lemma map_from_entries_keys: "fst ` set (map_from_entries es) = fst ` set es"
proof -
  have gen: "fst ` set (foldl (\<lambda>m (k, v). AList.update k v m) m es) = fst ` set m \<union> fst ` set es" for m
  proof (induction es arbitrary: m)
    case (Cons e es)
    obtain k v where e: "e = (k, v)" by fastforce
    show ?case using Cons [of "AList.update k v m"] e keys_update [of k v m] by simp
  qed simp
  show ?thesis using gen [of "[]"] by (simp add: map_from_entries_def)
qed

lemma bindings_apply_current:
  assumes inv: "bindings_inv s" and ap: "bindings_apply s bs = Inr (changed, s')"
    and g: "g \<in> bd_generation ` (set (st_bindings s) \<union>
              {b \<in> set bs. valid_binding (st_session s) (st_connector s) b})"
  shows "g \<le> current_generation s'"
  using ap
proof (cases rule: bindings_apply_cases)
  case none
  then have "{b \<in> set bs. valid_binding (st_session s) (st_connector s) b} = {}"
    by (auto simp: filter_empty_conv)
  with g obtain b where "b \<in> set (st_bindings s)" and "g = bd_generation b" by auto
  with inv none strict_last_max [of bd_generation "st_bindings s" b] show ?thesis
    by (auto simp: current_generation_def bindings_current_def bindings_inv_def)
next
  case (merged m)
  let ?xs = "sort_by_generation (map snd m)"
  have "g \<in> fst ` set m"
    using g merge_bindings_keeps_keys [OF merged(1)] map_from_entries_keys
      [of "map (\<lambda>b. (bd_generation b, b)) (st_bindings s)"] by (auto simp: image_image)
  then have "g \<in> set (map fst m)" by simp
  then have "g \<in> bd_generation ` set ?xs"
    unfolding generation_map_keys [OF merged(2), symmetric] by (auto simp: sort_by_generation_def)
  with strict_last_max [OF generation_map_strict [OF merged(2)]] have "g \<le> bd_generation (last ?xs)"
    and "?xs \<noteq> []" by auto
  then show ?thesis
    by (simp add: current_generation_def bindings_current_def merged(3) last_slice_last
        maximum_retained_bindings_def)
qed

end
