(* ===== verification/Fault_Monad.thy ===== *)
theory Fault_Monad
  imports WA_Prelude
begin

text \<open>
  Asynchronous methods that mutate an object and may throw. A computation takes the state and
  returns the thrown error or the result, together with the state at that moment: what was
  written before a throw stays written, as in the source. The triple \<open>valid P m Q E\<close> says that
  from a state in \<open>P\<close> the computation either returns \<open>x\<close> in a state of \<open>Q x\<close> or throws in a
  state of \<open>E\<close>; \<open>keeps I m\<close> is the invariant form that covers both exits.
\<close>

type_synonym ('s, 'e, 'a) fm = "'s \<Rightarrow> ('e + 'a) \<times> 's"

definition fok :: "'a \<Rightarrow> ('s, 'e, 'a) fm" where
  "fok x s = (Inr x, s)"

definition fthrow :: "'e \<Rightarrow> ('s, 'e, 'a) fm" where
  "fthrow e s = (Inl e, s)"

definition fbind :: "('s, 'e, 'a) fm \<Rightarrow> ('a \<Rightarrow> ('s, 'e, 'b) fm) \<Rightarrow> ('s, 'e, 'b) fm" where
  "fbind m f s = (case m s of (Inl e, s') \<Rightarrow> (Inl e, s') | (Inr x, s') \<Rightarrow> f x s')"

definition fget :: "('s \<Rightarrow> 'a) \<Rightarrow> ('s, 'e, 'a) fm" where
  "fget f s = (Inr (f s), s)"

definition fmodify :: "('s \<Rightarrow> 's) \<Rightarrow> ('s, 'e, unit) fm" where
  "fmodify f s = (Inr (), f s)"

definition fthen :: "('s, 'e, unit) fm \<Rightarrow> ('s, 'e, 'b) fm \<Rightarrow> ('s, 'e, 'b) fm" where
  "fthen m k = fbind m (\<lambda>_. k)"

text \<open>A \<open>try ... catch\<close>: the handler runs in the state the throw left.\<close>

definition fcatch :: "('s, 'e, 'a) fm \<Rightarrow> ('e \<Rightarrow> ('s, 'e, 'a) fm) \<Rightarrow> ('s, 'e, 'a) fm" where
  "fcatch m h s = (case m s of (Inl e, s') \<Rightarrow> h e s' | (Inr x, s') \<Rightarrow> (Inr x, s'))"

text \<open>A \<open>for ... of\<close> loop with an accumulator, and one without.\<close>

fun ffold :: "('x \<Rightarrow> 'a \<Rightarrow> ('s, 'e, 'a) fm) \<Rightarrow> 'x list \<Rightarrow> 'a \<Rightarrow> ('s, 'e, 'a) fm" where
  "ffold f [] a = fok a"
| "ffold f (x # xs) a = fbind (f x a) (ffold f xs)"

definition fiter :: "('x \<Rightarrow> ('s, 'e, unit) fm) \<Rightarrow> 'x list \<Rightarrow> ('s, 'e, unit) fm" where
  "fiter f xs = ffold (\<lambda>x _. f x) xs ()"

definition valid ::
  "('s \<Rightarrow> bool) \<Rightarrow> ('s, 'e, 'a) fm \<Rightarrow> ('a \<Rightarrow> 's \<Rightarrow> bool) \<Rightarrow> ('s \<Rightarrow> bool) \<Rightarrow> bool" where
  "valid P m Q E \<longleftrightarrow>
     (\<forall>s. P s \<longrightarrow> (case fst (m s) of Inl _ \<Rightarrow> E (snd (m s)) | Inr x \<Rightarrow> Q x (snd (m s))))"

definition keeps :: "('s \<Rightarrow> bool) \<Rightarrow> ('s, 'e, 'a) fm \<Rightarrow> bool" where
  "keeps I m \<longleftrightarrow> (\<forall>s. I s \<longrightarrow> I (snd (m s)))"

lemma keepsD: "keeps I m \<Longrightarrow> I s \<Longrightarrow> I (snd (m s))"
  by (simp add: keeps_def)

lemma keepsI: "(\<And>s. I s \<Longrightarrow> I (snd (m s))) \<Longrightarrow> keeps I m"
  by (simp add: keeps_def)

lemma keeps_valid: "valid I m (\<lambda>_. I) I \<Longrightarrow> keeps I m"
  by (auto simp: keeps_def valid_def split: sum.splits)

lemma valid_keeps: "keeps I m \<Longrightarrow> valid I m (\<lambda>_. I) I"
  by (simp add: keeps_def valid_def split: sum.splits)

lemma validD_ok: "valid P m Q E \<Longrightarrow> P s \<Longrightarrow> m s = (Inr x, s') \<Longrightarrow> Q x s'"
  unfolding valid_def by force

lemma validD_err: "valid P m Q E \<Longrightarrow> P s \<Longrightarrow> m s = (Inl e, s') \<Longrightarrow> E s'"
  unfolding valid_def by force

lemma validI:
  assumes "\<And>s e s'. P s \<Longrightarrow> m s = (Inl e, s') \<Longrightarrow> E s'"
    and "\<And>s x s'. P s \<Longrightarrow> m s = (Inr x, s') \<Longrightarrow> Q x s'"
  shows "valid P m Q E"
  unfolding valid_def using assms by (metis (mono_tags, lifting) old.sum.exhaust
      old.sum.simps(5) old.sum.simps(6) prod.collapse)

lemma fbind_ok: "m s = (Inr x, s') \<Longrightarrow> fbind m f s = f x s'"
  by (simp add: fbind_def)

lemma fbind_err: "m s = (Inl e, s') \<Longrightarrow> fbind m f s = (Inl e, s')"
  by (simp add: fbind_def)

lemma fbind_cases:
  assumes "fbind m f s = r"
  obtains (err) e s' where "m s = (Inl e, s')" "r = (Inl e, s')"
    | (ok) x s' where "m s = (Inr x, s')" "f x s' = r"
  using assms by (cases "m s"; cases "fst (m s)") (auto simp: fbind_def)

lemma valid_fok [wp_rules]: "(\<And>s. P s \<Longrightarrow> Q x s) \<Longrightarrow> valid P (fok x) Q E"
  by (simp add: valid_def fok_def)

lemma valid_fthrow [wp_rules]: "(\<And>s. P s \<Longrightarrow> E s) \<Longrightarrow> valid P (fthrow e) Q E"
  by (simp add: valid_def fthrow_def)

lemma valid_fget [wp_rules]: "(\<And>s. P s \<Longrightarrow> Q (f s) s) \<Longrightarrow> valid P (fget f) Q E"
  by (simp add: valid_def fget_def)

lemma valid_fmodify [wp_rules]: "(\<And>s. P s \<Longrightarrow> Q () (f s)) \<Longrightarrow> valid P (fmodify f) Q E"
  by (simp add: valid_def fmodify_def)

lemma valid_fbind:
  assumes m: "valid P m R E" and f: "\<And>x. valid (R x) (f x) Q E"
  shows "valid P (fbind m f) Q E"
proof (rule validI)
  fix s e s' assume "P s" and "fbind m f s = (Inl e, s')"
  from this(2) show "E s'"
  proof (cases rule: fbind_cases)
    case (err e s'')
    then show ?thesis using validD_err [OF m \<open>P s\<close>] by simp
  next
    case (ok x s'')
    then show ?thesis using validD_err [OF f] validD_ok [OF m \<open>P s\<close>] by blast
  qed
next
  fix s x s' assume "P s" and "fbind m f s = (Inr x, s')"
  from this(2) show "Q x s'"
    by (cases rule: fbind_cases) (use validD_ok [OF f] validD_ok [OF m \<open>P s\<close>] in auto)
qed

lemma valid_fthen:
  assumes "valid P m (\<lambda>_. R) E" and "valid R k Q E"
  shows "valid P (fthen m k) Q E"
  unfolding fthen_def by (rule valid_fbind [OF assms(1)]) (rule assms(2))

lemma valid_weaken:
  assumes "valid P' m Q' E'" "\<And>s. P s \<Longrightarrow> P' s" "\<And>x s. Q' x s \<Longrightarrow> Q x s" "\<And>s. E' s \<Longrightarrow> E s"
  shows "valid P m Q E"
  by (rule validI) (use assms in \<open>blast dest: validD_ok validD_err\<close>)+

lemma valid_pure: "(p \<Longrightarrow> valid P m Q E) \<Longrightarrow> valid (\<lambda>s. p \<and> P s) m Q E"
  by (auto simp: valid_def)

subsection \<open>Invariants through the control structure\<close>

lemma keeps_fok [intro, simp]: "keeps I (fok x)"
  by (simp add: keeps_def fok_def)

lemma keeps_fthrow [intro, simp]: "keeps I (fthrow e)"
  by (simp add: keeps_def fthrow_def)

lemma keeps_fget [intro, simp]: "keeps I (fget f)"
  by (simp add: keeps_def fget_def)

lemma keeps_fmodify: "(\<And>s. I s \<Longrightarrow> I (f s)) \<Longrightarrow> keeps I (fmodify f)"
  by (simp add: keeps_def fmodify_def)

lemma keeps_fbind:
  assumes "keeps I m" "\<And>x. keeps I (f x)"
  shows "keeps I (fbind m f)"
  by (rule keeps_valid) (rule valid_fbind [OF valid_keeps valid_keeps], use assms in auto)

lemma keeps_fthen: "keeps I m \<Longrightarrow> keeps I k \<Longrightarrow> keeps I (fthen m k)"
  unfolding fthen_def by (rule keeps_fbind)

lemma keeps_fcatch:
  assumes m: "keeps I m" and h: "\<And>e. keeps I (h e)"
  shows "keeps I (fcatch m h)"
proof (rule keepsI)
  fix s assume "I s"
  then have "I (snd (m s))" by (rule keepsD [OF m])
  then show "I (snd (fcatch m h s))"
    by (cases "m s"; cases "fst (m s)") (auto simp: fcatch_def intro: keepsD [OF h])
qed

lemma keeps_ffold: "(\<And>x a. keeps I (f x a)) \<Longrightarrow> keeps I (ffold f xs a)"
  by (induction xs arbitrary: a) (auto intro: keeps_fbind)

lemma keeps_fiter: "(\<And>x. keeps I (f x)) \<Longrightarrow> keeps I (fiter f xs)"
  unfolding fiter_def by (rule keeps_ffold)

lemmas keeps_rules = keeps_fok keeps_fthrow keeps_fget keeps_fbind keeps_fthen keeps_fcatch
  keeps_ffold keeps_fiter

end
