(* ===== verification/Connector_Journal.thy ===== *)
theory Connector_Journal
  imports Connector_Protocol Fault_Monad
begin

text \<open>
  \<open>packages/openwa-connector-plugin/src/journal.ts\<close>: the durable command journal of the plugin.

  The plugin storage (an interface of OpenWA, \<open>openwa.ts\<close>) is a dictionary from string keys to
  JSON values: \<open>get\<close> returns a fresh copy of what \<open>set\<close> stored last, \<open>delete\<close> removes it, \<open>list\<close>
  reports the keys. Any call may throw: \<open>env_fault n\<close> decides it for the n-th call, and everything
  stored before stays stored, so a fault stands for a crash at that point as well. \<open>AsyncMutex.run\<close>
  makes each public method one atomic computation. Random event ids come from \<open>env_uuid\<close>, the
  first hexadecimal digit of a SHA-256 digest is \<open>env_shard\<close>, the byte length of a serialised value
  is \<open>env_json_bytes\<close> and the collation of message ids is \<open>env_id_le\<close>.
\<close>

section \<open>State\<close>

datatype journal_status =
  RECEIVED | SEND_STARTED | SEND_ACCEPTED | SEND_REJECTED | SEND_INDETERMINATE

record journal_evidence =
  je_evidence :: evidence
  je_deliveredAt :: "millis option"
  je_attempts :: nat
  je_lastAttemptAt :: "millis option"
  je_lastError :: "string option"

record command_record =
  rec_command :: command
  rec_payloadSha256 :: string
  rec_webhookId :: string
  rec_state :: journal_status
  rec_openwaMessageId :: "string option"
  rec_evidence :: "journal_evidence list"
  rec_createdAt :: millis
  rec_updatedAt :: millis

record pointer =
  ptr_bucketKey :: string
  ptr_payloadSha256 :: string

record message_pointer =
  mp_commandId :: string
  mp_sessionId :: string

datatype ack_status = Ack_sent | Ack_delivered | Ack_read | Ack_failed

record orphan_ack =
  oa_sessionId :: string
  oa_status :: ack_status
  oa_occurredAt :: js_date

text \<open>What a storage key can hold. \<open>Foreign\<close> is any value none of the loaders accepts.\<close>

datatype stored =
    Command_Bucket "(string \<times> command_record) list"
  | Pointer_Bucket "(string \<times> pointer) list"
  | Message_Bucket "(string \<times> message_pointer) list"
  | Orphan_Bucket "(string \<times> orphan_ack) list"
  | Foreign

record send_race =
  race_sessionId :: string
  race_startedAt :: millis
  race_deadline :: js_date

record journal =
  j_store :: "(string \<times> stored) list"
  j_races :: "(string \<times> send_race) list"
  j_uuids :: nat
  j_calls :: nat

record journal_env =
  env_version :: string
  env_storageQuotaBytes :: int
  env_terminalRetentionMs :: int
  env_orphanRetentionMs :: int
  env_orphanRaceWindowMs :: int
  env_maximumOrphans :: int
  env_shard :: "string \<Rightarrow> string"
  env_json_bytes :: "stored \<Rightarrow> int"
  env_uuid :: "nat \<Rightarrow> string"
  env_id_le :: "string \<Rightarrow> string \<Rightarrow> bool"
  env_fault :: "nat \<Rightarrow> bool"

datatype journal_error =
    Storage_Fault
  | Digest_Conflict
  | Bucket_Digest_Conflict
  | Bad_Utilization_Limit
  | Capacity_Exceeded rat
  | Command_Not_Indexed
  | Indexed_Record_Missing
  | Index_Digest_Mismatch
  | Bucket_Corrupt string
  | Pointer_Bucket_Corrupt string
  | Message_Index_Corrupt string
  | Orphan_Bucket_Corrupt string
  | Pointer_Conflict
  | Message_Id_Conflict
  | Cannot_Accept journal_status
  | Cannot_Start journal_status
  | Cannot_Reject journal_status
  | Invalid_Date

type_synonym 'a jm = "(journal, journal_error, 'a) fm"

section \<open>Constants, keys and limits\<close>

definition journal_prefix :: string where
  "journal_prefix = ''wa-studio:v1:journal:''"

definition command_prefix :: string where
  "command_prefix = journal_prefix @ ''commands:''"

definition pointer_prefix :: string where
  "pointer_prefix = ''wa-studio:v1:journal:index:''"

definition message_prefix :: string where
  "message_prefix = ''wa-studio:v1:journal:message:''"

definition orphan_prefix :: string where
  "orphan_prefix = ''wa-studio:v1:journal:orphan:''"

definition package_overhead_bytes :: int where
  "package_overhead_bytes = 512 * 1024"

definition maximum_ack_clock_skew_ms :: int where
  "maximum_ack_clock_skew_ms = 30 * 1000"

definition default_storage_quota_bytes :: int where
  "default_storage_quota_bytes = 50 * 1024 * 1024"

definition default_terminal_retention_ms :: int where
  "default_terminal_retention_ms = 7 * 24 * 60 * 60 * 1000"

definition default_orphan_retention_ms :: int where
  "default_orphan_retention_ms = 10 * 60 * 1000"

definition default_orphan_race_window_ms :: int where
  "default_orphan_race_window_ms = 5 * 60 * 1000"

definition default_maximum_orphans :: int where
  "default_maximum_orphans = 128"

definition positive_integer :: "int option \<Rightarrow> int \<Rightarrow> int option" where
  "positive_integer value fallback =
     (let resolved = (case value of Some v \<Rightarrow> v | None \<Rightarrow> fallback)
      in if \<not> safe_int resolved \<or> resolved \<le> 0 then None else Some resolved)"

text \<open>\<open>createdAt.slice(0, 10).replaceAll('-', '')\<close>.\<close>

definition day_of :: "string \<Rightarrow> string" where
  "day_of created = filter (\<lambda>c. c \<noteq> CHR ''-'') (take 10 created)"

definition command_bucket_key :: "journal_env \<Rightarrow> command \<Rightarrow> string" where
  "command_bucket_key E c = command_prefix @ cmd_sessionId c @ '':'' @ day_of (ts_text (cmd_createdAt c))
     @ '':'' @ env_shard E (cmd_commandId c)"

definition pointer_key :: "journal_env \<Rightarrow> string \<Rightarrow> string" where
  "pointer_key E cid = pointer_prefix @ env_shard E cid"

definition message_key :: "journal_env \<Rightarrow> string \<Rightarrow> string" where
  "message_key E mid = message_prefix @ env_shard E mid"

definition orphan_key :: "journal_env \<Rightarrow> string \<Rightarrow> string" where
  "orphan_key E mid = orphan_prefix @ env_shard E mid"

definition is_terminal :: "journal_status \<Rightarrow> bool" where
  "is_terminal st \<longleftrightarrow> st \<in> {SEND_ACCEPTED, SEND_REJECTED, SEND_INDETERMINATE}"

definition should_replace_ack :: "ack_status \<Rightarrow> ack_status \<Rightarrow> bool" where
  "should_replace_ack current next =
     (if current = next \<or> current = Ack_read then False
      else if next = Ack_read then True
      else if next = Ack_delivered then current \<noteq> Ack_delivered
      else next = Ack_failed \<and> current = Ack_sent)"

definition pending_evidence :: "evidence \<Rightarrow> journal_evidence" where
  "pending_evidence e = \<lparr>je_evidence = e, je_deliveredAt = None, je_attempts = 0,
     je_lastAttemptAt = None, je_lastError = None\<rparr>"

section \<open>Storage calls\<close>

definition storage_call :: "journal_env \<Rightarrow> (journal \<Rightarrow> 'a \<times> journal) \<Rightarrow> 'a jm" where
  "storage_call E f s =
     (let s' = s\<lparr>j_calls := Suc (j_calls s)\<rparr>
      in if env_fault E (j_calls s) then (Inl Storage_Fault, s')
         else (Inr (fst (f s')), snd (f s')))"

definition storage_get :: "journal_env \<Rightarrow> string \<Rightarrow> stored option jm" where
  "storage_get E k = storage_call E (\<lambda>s. (map_of (j_store s) k, s))"

definition storage_set :: "journal_env \<Rightarrow> string \<Rightarrow> stored \<Rightarrow> unit jm" where
  "storage_set E k v = storage_call E (\<lambda>s. ((), s\<lparr>j_store := AList.update k v (j_store s)\<rparr>))"

definition storage_delete :: "journal_env \<Rightarrow> string \<Rightarrow> unit jm" where
  "storage_delete E k = storage_call E (\<lambda>s. ((), s\<lparr>j_store := AList.delete k (j_store s)\<rparr>))"

definition storage_list :: "journal_env \<Rightarrow> string \<Rightarrow> string list jm" where
  "storage_list E p = storage_call E (\<lambda>s. (filter (starts_with p) (map fst (j_store s)), s))"

definition random_uuid :: "journal_env \<Rightarrow> string jm" where
  "random_uuid E s = (Inr (env_uuid E (j_uuids s)), s\<lparr>j_uuids := Suc (j_uuids s)\<rparr>)"

section \<open>Loading buckets\<close>

definition load_command_bucket :: "journal_env \<Rightarrow> string \<Rightarrow> bool \<Rightarrow> (string \<times> command_record) list jm" where
  "load_command_bucket E key create = fbind (storage_get E key) (\<lambda>v.
     case v of
       None \<Rightarrow> if create then fok [] else fthrow (Bucket_Corrupt key)
     | Some (Command_Bucket b) \<Rightarrow> fok b
     | Some _ \<Rightarrow> fthrow (Bucket_Corrupt key))"

definition load_pointer_bucket :: "journal_env \<Rightarrow> string \<Rightarrow> (string \<times> pointer) list jm" where
  "load_pointer_bucket E cid = fbind (storage_get E (pointer_key E cid)) (\<lambda>v.
     case v of
       None \<Rightarrow> fok []
     | Some (Pointer_Bucket b) \<Rightarrow> fok b
     | Some _ \<Rightarrow> fthrow (Pointer_Bucket_Corrupt (pointer_key E cid)))"

definition load_message_index :: "journal_env \<Rightarrow> string \<Rightarrow> (string \<times> message_pointer) list jm" where
  "load_message_index E mid = fbind (storage_get E (message_key E mid)) (\<lambda>v.
     case v of
       None \<Rightarrow> fok []
     | Some (Message_Bucket b) \<Rightarrow> fok b
     | Some _ \<Rightarrow> fthrow (Message_Index_Corrupt (message_key E mid)))"

definition load_orphan_bucket_by_key :: "journal_env \<Rightarrow> string \<Rightarrow> (string \<times> orphan_ack) list jm" where
  "load_orphan_bucket_by_key E key = fbind (storage_get E key) (\<lambda>v.
     case v of
       None \<Rightarrow> fok []
     | Some (Orphan_Bucket b) \<Rightarrow> fok b
     | Some _ \<Rightarrow> fthrow (Orphan_Bucket_Corrupt key))"

definition load_orphan_bucket :: "journal_env \<Rightarrow> string \<Rightarrow> (string \<times> orphan_ack) list jm" where
  "load_orphan_bucket E mid = load_orphan_bucket_by_key E (orphan_key E mid)"

definition find_pointer :: "journal_env \<Rightarrow> string \<Rightarrow> pointer option jm" where
  "find_pointer E cid = fbind (load_pointer_bucket E cid) (\<lambda>b. fok (map_of b cid))"

definition set_pointer :: "journal_env \<Rightarrow> string \<Rightarrow> string \<Rightarrow> string \<Rightarrow> unit jm" where
  "set_pointer E cid bucket_key digest = fbind (load_pointer_bucket E cid) (\<lambda>b.
     case map_of b cid of
       Some p \<Rightarrow>
         if ptr_bucketKey p \<noteq> bucket_key \<or> ptr_payloadSha256 p \<noteq> digest then fthrow Pointer_Conflict
         else fok ()
     | None \<Rightarrow> storage_set E (pointer_key E cid)
         (Pointer_Bucket (AList.update cid \<lparr>ptr_bucketKey = bucket_key, ptr_payloadSha256 = digest\<rparr> b)))"

definition delete_pointer :: "journal_env \<Rightarrow> string \<Rightarrow> unit jm" where
  "delete_pointer E cid = fbind (load_pointer_bucket E cid) (\<lambda>b.
     let b' = AList.delete cid b
     in if b' = [] then storage_delete E (pointer_key E cid)
        else storage_set E (pointer_key E cid) (Pointer_Bucket b'))"

definition set_message_pointer :: "journal_env \<Rightarrow> string \<Rightarrow> string \<Rightarrow> string \<Rightarrow> unit jm" where
  "set_message_pointer E mid cid session = fbind (load_message_index E mid) (\<lambda>b.
     case map_of b mid of
       Some p \<Rightarrow>
         if mp_commandId p \<noteq> cid \<or> mp_sessionId p \<noteq> session then fthrow Message_Id_Conflict
         else fok ()
     | None \<Rightarrow> storage_set E (message_key E mid)
         (Message_Bucket (AList.update mid \<lparr>mp_commandId = cid, mp_sessionId = session\<rparr> b)))"

definition delete_message_pointer :: "journal_env \<Rightarrow> string \<Rightarrow> unit jm" where
  "delete_message_pointer E mid = fbind (load_message_index E mid) (\<lambda>b.
     let b' = AList.delete mid b
     in if b' = [] then storage_delete E (message_key E mid)
        else storage_set E (message_key E mid) (Message_Bucket b'))"

definition load_record :: "journal_env \<Rightarrow> string \<Rightarrow> string \<Rightarrow> command_record jm" where
  "load_record E bucket_key cid = fbind (load_command_bucket E bucket_key False) (\<lambda>b.
     case map_of b cid of
       None \<Rightarrow> fthrow Indexed_Record_Missing
     | Some r \<Rightarrow> fok r)"

text \<open>The bucket key, the bucket and the record a mutation works on.\<close>

definition mutable_record ::
  "journal_env \<Rightarrow> string \<Rightarrow> (string \<times> (string \<times> command_record) list \<times> command_record) jm" where
  "mutable_record E cid = fbind (find_pointer E cid) (\<lambda>p.
     case p of
       None \<Rightarrow> fthrow Command_Not_Indexed
     | Some p \<Rightarrow> fbind (load_command_bucket E (ptr_bucketKey p) False) (\<lambda>b.
         case map_of b cid of
           None \<Rightarrow> fthrow Indexed_Record_Missing
         | Some r \<Rightarrow>
             if rec_payloadSha256 r \<noteq> ptr_payloadSha256 p then fthrow Index_Digest_Mismatch
             else fok (ptr_bucketKey p, b, r)))"

definition save_record ::
  "journal_env \<Rightarrow> string \<Rightarrow> (string \<times> command_record) list \<Rightarrow> string \<Rightarrow> command_record \<Rightarrow> unit jm" where
  "save_record E key b cid r = storage_set E key (Command_Bucket (AList.update cid r b))"

definition list_journal_keys :: "journal_env \<Rightarrow> string list jm" where
  "list_journal_keys E = storage_list E journal_prefix"

definition list_command_keys :: "journal_env \<Rightarrow> string list jm" where
  "list_command_keys E = storage_list E command_prefix"

definition storage_utilization :: "journal_env \<Rightarrow> string list \<Rightarrow> rat jm" where
  "storage_utilization E keys = fbind
     (ffold (\<lambda>key bytes. fbind (storage_get E key) (\<lambda>v.
        case v of
          None \<Rightarrow> fok bytes
        | Some value \<Rightarrow> fok (bytes + int (length key) + env_json_bytes E value)))
        keys package_overhead_bytes)
     (\<lambda>bytes. fok (min 1 (of_int bytes / of_int (env_storageQuotaBytes E))))"

section \<open>Evidence\<close>

record transition =
  tr_state :: journal_status
  tr_kind :: evidence_kind
  tr_status :: delivery_status
  tr_errorClass :: "error_class option"
  tr_errorCode :: "string option"
  tr_messageId :: "string option"
  tr_now :: millis

definition has_kind :: "command_record \<Rightarrow> evidence_kind \<Rightarrow> bool" where
  "has_kind r k \<longleftrightarrow> list_ex (\<lambda>e. ev_kind (je_evidence e) = k) (rec_evidence r)"

definition append_evidence :: "journal_env \<Rightarrow> command_record \<Rightarrow> transition \<Rightarrow> command_record jm" where
  "append_evidence E r t =
     (if has_kind r (tr_kind t) then fok r
      else fbind (random_uuid E) (\<lambda>eid.
        fok (r\<lparr>rec_evidence := rec_evidence r @ [pending_evidence
                 (create_evidence eid (rec_command r) (rec_payloadSha256 r) (env_version E)
                   (length (rec_evidence r) + 1) (tr_kind t) (tr_status t)
                   (case tr_messageId t of Some m \<Rightarrow> Some m | None \<Rightarrow> rec_openwaMessageId r)
                   (tr_errorClass t) (tr_errorCode t) (tr_now t))],
               rec_state := tr_state t,
               rec_updatedAt := tr_now t\<rparr>)))"

fun ack_kind :: "ack_status \<Rightarrow> evidence_kind" where
  "ack_kind Ack_sent = ACK_SENT"
| "ack_kind Ack_delivered = ACK_DELIVERED"
| "ack_kind Ack_read = ACK_READ"
| "ack_kind Ack_failed = ACK_FAILED"

fun ack_delivery_status :: "ack_status \<Rightarrow> delivery_status" where
  "ack_delivery_status Ack_sent = DS_SENT"
| "ack_delivery_status Ack_delivered = DS_DELIVERED"
| "ack_delivery_status Ack_read = DS_READ"
| "ack_delivery_status Ack_failed = DS_FAILED"

text \<open>Acknowledgements that later evidence has already overtaken, or that are recorded.\<close>

definition ack_superseded :: "command_record \<Rightarrow> ack_status \<Rightarrow> bool" where
  "ack_superseded r status \<longleftrightarrow>
     (status = Ack_sent \<and> (has_kind r ACK_SENT \<or> has_kind r ACK_DELIVERED \<or> has_kind r ACK_READ))
     \<or> (status = Ack_delivered \<and> has_kind r ACK_READ)
     \<or> (status = Ack_failed \<and> (has_kind r ACK_DELIVERED \<or> has_kind r ACK_READ))
     \<or> has_kind r (ack_kind status)"

definition append_ack_evidence ::
  "journal_env \<Rightarrow> command_record \<Rightarrow> ack_status \<Rightarrow> js_date \<Rightarrow> command_record option jm" where
  "append_ack_evidence E r status occurred =
     (case rec_openwaMessageId r of
        None \<Rightarrow> fok None
      | Some mid \<Rightarrow>
          if mid = [] \<or> rec_state r \<noteq> SEND_ACCEPTED \<or> ack_superseded r status then fok None
          else fbind (random_uuid E) (\<lambda>eid.
            case occurred of
              None \<Rightarrow> fthrow Invalid_Date
            | Some at_ms \<Rightarrow>
                fok (Some (r\<lparr>rec_evidence := rec_evidence r @ [pending_evidence
                     (create_evidence eid (rec_command r) (rec_payloadSha256 r) (env_version E)
                       (length (rec_evidence r) + 1) (ack_kind status) (ack_delivery_status status)
                       (Some mid)
                       (if status = Ack_failed then Some EC_TRANSIENT_FAILURE else None)
                       (if status = Ack_failed then Some ''OPENWA_DELIVERY_FAILED'' else None) at_ms)],
                   rec_updatedAt := at_ms\<rparr>))))"

section \<open>Send races and orphan acknowledgements\<close>

definition forget_race :: "string \<Rightarrow> unit jm" where
  "forget_race cid = fmodify (\<lambda>s. s\<lparr>j_races := AList.delete cid (j_races s)\<rparr>)"

definition track_active_send :: "journal_env \<Rightarrow> command_record \<Rightarrow> unit jm" where
  "track_active_send E r = fmodify (\<lambda>s. s\<lparr>j_races := AList.update (cmd_commandId (rec_command r))
     \<lparr>race_sessionId = cmd_sessionId (rec_command r),
      race_startedAt = rec_updatedAt r,
      race_deadline = map_option (\<lambda>expires. min (rec_updatedAt r + env_orphanRaceWindowMs E)
                        (expires + maximum_ack_clock_skew_ms)) (ts_value (cmd_expiresAt (rec_command r)))\<rparr>
     (j_races s)\<rparr>)"

definition race_covers :: "string \<Rightarrow> millis \<Rightarrow> send_race \<Rightarrow> bool" where
  "race_covers session at_ms race \<longleftrightarrow>
     race_sessionId race = session \<and> race_startedAt race - maximum_ack_clock_skew_ms \<le> at_ms
     \<and> (case race_deadline race of None \<Rightarrow> False | Some d \<Rightarrow> at_ms \<le> d)"

definition has_active_race_candidate :: "journal \<Rightarrow> string \<Rightarrow> js_date \<Rightarrow> bool" where
  "has_active_race_candidate s session occurred =
     (case occurred of
        None \<Rightarrow> False
      | Some at_ms \<Rightarrow> list_ex (\<lambda>(_, race). race_covers session at_ms race) (j_races s))"

text \<open>A stable insertion sort for a comparison that is not a key.\<close>

record retained_ack =
  ra_key :: string
  ra_messageId :: string
  ra_occurredAt :: millis

definition retained_le :: "journal_env \<Rightarrow> retained_ack \<Rightarrow> retained_ack \<Rightarrow> bool" where
  "retained_le E a b \<longleftrightarrow> ra_occurredAt a < ra_occurredAt b
     \<or> (ra_occurredAt a = ra_occurredAt b \<and> env_id_le E (ra_messageId a) (ra_messageId b))"

record prune_state =
  pr_buckets :: "(string \<times> (string \<times> orphan_ack) list) list"
  pr_changed :: "string list"
  pr_retained :: "retained_ack list"
  pr_removed :: nat

definition add_key :: "string \<Rightarrow> string list \<Rightarrow> string list" where
  "add_key k ks = (if k \<in> set ks then ks else ks @ [k])"

definition bucket_of :: "prune_state \<Rightarrow> string \<Rightarrow> (string \<times> orphan_ack) list" where
  "bucket_of p key = (case map_of (pr_buckets p) key of Some b \<Rightarrow> b | None \<Rightarrow> [])"

definition drop_orphan :: "string \<Rightarrow> string \<Rightarrow> prune_state \<Rightarrow> prune_state" where
  "drop_orphan key mid p = p\<lparr>pr_buckets := AList.update key (AList.delete mid (bucket_of p key)) (pr_buckets p),
     pr_changed := add_key key (pr_changed p), pr_removed := Suc (pr_removed p)\<rparr>"

definition orphan_stale :: "journal_env \<Rightarrow> millis \<Rightarrow> orphan_ack \<Rightarrow> bool" where
  "orphan_stale E now ack =
     (case oa_occurredAt ack of
        None \<Rightarrow> True
      | Some at_ms \<Rightarrow> now + maximum_ack_clock_skew_ms < at_ms \<or> env_orphanRetentionMs E < now - at_ms)"

definition prune_entry :: "journal_env \<Rightarrow> millis \<Rightarrow> string \<Rightarrow> prune_state \<Rightarrow> string \<times> orphan_ack \<Rightarrow> prune_state" where
  "prune_entry E now key p entry =
     (if orphan_stale E now (snd entry) then drop_orphan key (fst entry) p
      else p\<lparr>pr_retained := pr_retained p @ [\<lparr>ra_key = key, ra_messageId = fst entry,
              ra_occurredAt = the (oa_occurredAt (snd entry))\<rparr>]\<rparr>)"

definition prune_bucket :: "journal_env \<Rightarrow> millis \<Rightarrow> string \<Rightarrow> prune_state \<Rightarrow> prune_state jm" where
  "prune_bucket E now key p = fbind (load_orphan_bucket_by_key E key) (\<lambda>b.
     fok (foldl (prune_entry E now key) (p\<lparr>pr_buckets := AList.update key b (pr_buckets p)\<rparr>) b))"

definition prune_excess :: "journal_env \<Rightarrow> int \<Rightarrow> prune_state \<Rightarrow> prune_state" where
  "prune_excess E retain_at_most p =
     (let excess = max 0 (int (length (pr_retained p)) - max 0 retain_at_most)
      in foldl (\<lambda>p a. drop_orphan (ra_key a) (ra_messageId a) p) p
           (take (nat excess) (sort_by (retained_le E) (pr_retained p))))"

definition write_orphan_bucket :: "journal_env \<Rightarrow> string \<Rightarrow> (string \<times> orphan_ack) list \<Rightarrow> unit jm" where
  "write_orphan_bucket E key b =
     (if b = [] then storage_delete E key else storage_set E key (Orphan_Bucket b))"

definition prune_orphans :: "journal_env \<Rightarrow> millis \<Rightarrow> int \<Rightarrow> nat jm" where
  "prune_orphans E now retain_at_most =
     fbind (storage_list E orphan_prefix) (\<lambda>keys.
     fbind (ffold (prune_bucket E now) keys
              \<lparr>pr_buckets = [], pr_changed = [], pr_retained = [], pr_removed = 0\<rparr>) (\<lambda>p.
     let p' = prune_excess E retain_at_most p
     in fthen (fiter (\<lambda>key. write_orphan_bucket E key (bucket_of p' key)) (pr_changed p'))
          (fok (pr_removed p'))))"

definition store_orphan_ack ::
  "journal_env \<Rightarrow> string \<Rightarrow> string \<Rightarrow> ack_status \<Rightarrow> js_date \<Rightarrow> js_date \<Rightarrow> unit jm" where
  "store_orphan_ack E session mid status occurred observed =
     (case (occurred, observed) of
        (Some at_ms, Some now) \<Rightarrow>
          if now + maximum_ack_clock_skew_ms < at_ms \<or> env_orphanRetentionMs E < now - at_ms then fok ()
          else fbind (load_orphan_bucket E mid) (\<lambda>b.
            let entry = \<lparr>oa_sessionId = session, oa_status = status, oa_occurredAt = Some at_ms\<rparr>
            in case map_of b mid of
                 Some current \<Rightarrow>
                   if should_replace_ack (oa_status current) status
                   then storage_set E (orphan_key E mid) (Orphan_Bucket (AList.update mid entry b))
                   else fok ()
               | None \<Rightarrow>
                   fbind (prune_orphans E now (env_maximumOrphans E - 1)) (\<lambda>_.
                   fbind (load_orphan_bucket E mid) (\<lambda>b'.
                     storage_set E (orphan_key E mid) (Orphan_Bucket (AList.update mid entry b')))))
      | _ \<Rightarrow> fok ())"

text \<open>The record and the bucket are the live objects of the caller: the result is the record as the
  method leaves it.\<close>

definition apply_orphan_ack ::
  "journal_env \<Rightarrow> command_record \<Rightarrow> string \<Rightarrow> (string \<times> command_record) list \<Rightarrow> string \<Rightarrow> string
     \<Rightarrow> command_record jm" where
  "apply_orphan_ack E r bucket_key b cid mid = fbind (load_orphan_bucket E mid) (\<lambda>ob.
     case map_of ob mid of
       None \<Rightarrow> fok r
     | Some orphan \<Rightarrow>
         if oa_sessionId orphan \<noteq> cmd_sessionId (rec_command r) then fok r
         else fbind (append_ack_evidence E r (oa_status orphan) (oa_occurredAt orphan)) (\<lambda>changed.
           fthen (case changed of None \<Rightarrow> fok () | Some r' \<Rightarrow> save_record E bucket_key b cid r')
           (fthen (write_orphan_bucket E (orphan_key E mid) (AList.delete mid ob))
             (fok (case changed of None \<Rightarrow> r | Some r' \<Rightarrow> r')))))"

end
