(* ===== verification/Journal_Operations.thy ===== *)
theory Journal_Operations
  imports Connector_Journal
begin

text \<open>
  The public methods of \<open>ConnectorJournal\<close>, each one atomic computation on the journal (the mutex
  serialises them). The clock readings are arguments.
\<close>

record receive_result =
  rr_record :: command_record
  rr_created :: bool

definition new_record :: "journal_env \<Rightarrow> command \<Rightarrow> string \<Rightarrow> string \<Rightarrow> millis \<Rightarrow> string \<Rightarrow> command_record" where
  "new_record E cmd digest webhook now eid =
     \<lparr>rec_command = cmd, rec_payloadSha256 = digest, rec_webhookId = webhook,
      rec_state = RECEIVED, rec_openwaMessageId = None,
      rec_evidence = [pending_evidence (create_evidence eid cmd digest (env_version E) 1
         COMMAND_RECEIVED DS_PENDING None None None now)],
      rec_createdAt = now, rec_updatedAt = now\<rparr>"

text \<open>The admission of a command that neither the index nor its bucket knows.\<close>

definition receive_new ::
  "journal_env \<Rightarrow> command \<Rightarrow> string \<Rightarrow> string \<Rightarrow> millis \<Rightarrow> rat \<Rightarrow> (string \<times> command_record) list
     \<Rightarrow> receive_result jm" where
  "receive_new E cmd digest webhook now max_utilization b =
     (let cid = cmd_commandId cmd; key = command_bucket_key E cmd in
      if max_utilization \<le> 0 \<or> 1 < max_utilization then fthrow Bad_Utilization_Limit
      else fbind (list_journal_keys E) (\<lambda>keys.
        fbind (storage_utilization E keys) (\<lambda>utilization.
        if max_utilization \<le> utilization then fthrow (Capacity_Exceeded utilization)
        else fbind (random_uuid E) (\<lambda>eid.
          (let r = new_record E cmd digest webhook now eid in
           fthen (save_record E key b cid r)
           (fthen (set_pointer E cid key digest)
             (fok \<lparr>rr_record = r, rr_created = True\<rparr>)))))))"

definition receive ::
  "journal_env \<Rightarrow> command \<Rightarrow> string \<Rightarrow> string \<Rightarrow> millis \<Rightarrow> rat \<Rightarrow> receive_result jm" where
  "receive E cmd digest webhook now max_utilization =
     (let cid = cmd_commandId cmd in
      fbind (find_pointer E cid) (\<lambda>p.
      case p of
        Some p \<Rightarrow>
          if ptr_payloadSha256 p \<noteq> digest then fthrow Digest_Conflict
          else fbind (load_record E (ptr_bucketKey p) cid) (\<lambda>r. fok \<lparr>rr_record = r, rr_created = False\<rparr>)
      | None \<Rightarrow>
          (let key = command_bucket_key E cmd in
           fbind (load_command_bucket E key True) (\<lambda>b.
           case map_of b cid of
             Some r \<Rightarrow>
               if rec_payloadSha256 r \<noteq> digest then fthrow Bucket_Digest_Conflict
               else fthen (set_pointer E cid key digest) (fok \<lparr>rr_record = r, rr_created = False\<rparr>)
           | None \<Rightarrow> receive_new E cmd digest webhook now max_utilization b))))"

definition journal_get :: "journal_env \<Rightarrow> string \<Rightarrow> command_record option jm" where
  "journal_get E cid = fbind (find_pointer E cid) (\<lambda>p.
     case p of
       None \<Rightarrow> fok None
     | Some p \<Rightarrow> fbind (load_record E (ptr_bucketKey p) cid) (\<lambda>r. fok (Some r)))"

definition track_or_forget :: "journal_env \<Rightarrow> string \<Rightarrow> command_record \<Rightarrow> unit jm" where
  "track_or_forget E cid r =
     (if rec_state r = SEND_STARTED then track_active_send E r else forget_race cid)"

definition journal_transition :: "journal_env \<Rightarrow> string \<Rightarrow> transition \<Rightarrow> command_record jm" where
  "journal_transition E cid t = fbind (mutable_record E cid) (\<lambda>(key, b, r).
     if rec_state r = tr_state t then
       fthen (if rec_state r = SEND_STARTED then track_active_send E r else fok ()) (fok r)
     else if is_terminal (rec_state r) then fthen (forget_race cid) (fok r)
     else if tr_state t = SEND_STARTED \<and> rec_state r \<noteq> RECEIVED then fthrow (Cannot_Start (rec_state r))
     else if tr_state t = SEND_REJECTED \<and> rec_state r \<noteq> RECEIVED then fthrow (Cannot_Reject (rec_state r))
     else fbind (append_evidence E r t) (\<lambda>r'.
       fthen (track_or_forget E cid r') (fthen (save_record E key b cid r') (fok r'))))"

definition started_transition :: "millis \<Rightarrow> transition" where
  "started_transition now = \<lparr>tr_state = SEND_STARTED, tr_kind = EV_SEND_STARTED, tr_status = DS_PENDING,
     tr_errorClass = None, tr_errorCode = None, tr_messageId = None, tr_now = now\<rparr>"

definition rejected_transition :: "error_class \<Rightarrow> string \<Rightarrow> millis \<Rightarrow> transition" where
  "rejected_transition ec code now = \<lparr>tr_state = SEND_REJECTED, tr_kind = EV_SEND_REJECTED, tr_status = DS_FAILED,
     tr_errorClass = Some ec, tr_errorCode = Some code, tr_messageId = None, tr_now = now\<rparr>"

definition indeterminate_transition :: "string \<Rightarrow> millis \<Rightarrow> transition" where
  "indeterminate_transition code now = \<lparr>tr_state = SEND_INDETERMINATE, tr_kind = EV_SEND_INDETERMINATE,
     tr_status = DS_INDETERMINATE, tr_errorClass = Some EC_AMBIGUOUS, tr_errorCode = Some code,
     tr_messageId = None, tr_now = now\<rparr>"

definition accepted_transition :: "string \<Rightarrow> millis \<Rightarrow> transition" where
  "accepted_transition mid now = \<lparr>tr_state = SEND_ACCEPTED, tr_kind = EV_SEND_ACCEPTED, tr_status = DS_ACCEPTED,
     tr_errorClass = None, tr_errorCode = None, tr_messageId = Some mid, tr_now = now\<rparr>"

definition mark_started :: "journal_env \<Rightarrow> string \<Rightarrow> millis \<Rightarrow> command_record jm" where
  "mark_started E cid now = journal_transition E cid (started_transition now)"

definition mark_rejected :: "journal_env \<Rightarrow> string \<Rightarrow> error_class \<Rightarrow> string \<Rightarrow> millis \<Rightarrow> command_record jm" where
  "mark_rejected E cid ec code now = journal_transition E cid (rejected_transition ec code now)"

definition mark_indeterminate :: "journal_env \<Rightarrow> string \<Rightarrow> string \<Rightarrow> millis \<Rightarrow> command_record jm" where
  "mark_indeterminate E cid code now = journal_transition E cid (indeterminate_transition code now)"

definition mark_accepted :: "journal_env \<Rightarrow> string \<Rightarrow> string \<Rightarrow> millis \<Rightarrow> command_record jm" where
  "mark_accepted E cid mid now = fbind (mutable_record E cid) (\<lambda>(key, b, r).
     if is_terminal (rec_state r) then fthen (forget_race cid) (fok r)
     else if rec_state r \<noteq> SEND_STARTED then fthrow (Cannot_Accept (rec_state r))
     else fbind (append_evidence E r (accepted_transition mid now)) (\<lambda>r1.
       let r2 = r1\<lparr>rec_openwaMessageId := Some mid\<rparr>
       in fthen (forget_race cid)
          (fthen (save_record E key b cid r2)
          (fthen (set_message_pointer E mid cid (cmd_sessionId (rec_command r2)))
            (apply_orphan_ack E r2 key (AList.update cid r2 b) cid mid)))))"

definition append_acknowledgement ::
  "journal_env \<Rightarrow> string \<Rightarrow> string \<Rightarrow> ack_status \<Rightarrow> js_date \<Rightarrow> js_date \<Rightarrow> bool jm" where
  "append_acknowledgement E session mid status occurred observed =
     fbind (load_message_index E mid) (\<lambda>idx.
     case map_of idx mid of
       None \<Rightarrow> fbind (fget (\<lambda>s. has_active_race_candidate s session occurred)) (\<lambda>candidate.
         if \<not> candidate then fok False
         else fthen (store_orphan_ack E session mid status occurred observed) (fok False))
     | Some p \<Rightarrow>
         if mp_sessionId p \<noteq> session then fok False
         else fbind (mutable_record E (mp_commandId p)) (\<lambda>(key, b, r).
           fbind (append_ack_evidence E r status occurred) (\<lambda>changed.
             case changed of
               None \<Rightarrow> fok False
             | Some r' \<Rightarrow> fthen (save_record E key b (mp_commandId p) r') (fok True))))"

definition scan_records :: "journal_env \<Rightarrow> command_record list jm" where
  "scan_records E = fbind (list_command_keys E) (\<lambda>keys.
     ffold (\<lambda>key acc. fbind (load_command_bucket E key False) (\<lambda>b. fok (acc @ map snd b))) keys [])"

definition undelivered :: "command_record \<Rightarrow> bool" where
  "undelivered r \<longleftrightarrow> list_ex (\<lambda>e. je_deliveredAt e = None) (rec_evidence r)"

definition pending_records :: "journal_env \<Rightarrow> nat \<Rightarrow> command_record list jm" where
  "pending_records E limit = fbind (scan_records E) (\<lambda>rs.
     fok (take limit (sort_key rec_createdAt (filter undelivered rs))))"

text \<open>The first entry with the event id, if it is still undelivered, is rewritten by \<open>f\<close>.\<close>

fun update_entry :: "string \<Rightarrow> (journal_evidence \<Rightarrow> journal_evidence) \<Rightarrow> journal_evidence list
    \<Rightarrow> journal_evidence list option" where
  "update_entry eid f [] = None"
| "update_entry eid f (e # es) =
     (if ev_eventId (je_evidence e) = eid then (if je_deliveredAt e \<noteq> None then None else Some (f e # es))
      else map_option (\<lambda>es'. e # es') (update_entry eid f es))"

definition touch_evidence ::
  "journal_env \<Rightarrow> string \<Rightarrow> string \<Rightarrow> millis \<Rightarrow> (journal_evidence \<Rightarrow> journal_evidence) \<Rightarrow> unit jm" where
  "touch_evidence E cid eid now f = fbind (mutable_record E cid) (\<lambda>(key, b, r).
     case update_entry eid f (rec_evidence r) of
       None \<Rightarrow> fok ()
     | Some es \<Rightarrow> save_record E key b cid (r\<lparr>rec_evidence := es, rec_updatedAt := now\<rparr>))"

definition delivered_entry :: "millis \<Rightarrow> journal_evidence \<Rightarrow> journal_evidence" where
  "delivered_entry now e = e\<lparr>je_deliveredAt := Some now, je_attempts := je_attempts e + 1,
     je_lastAttemptAt := Some now, je_lastError := None\<rparr>"

definition failed_entry :: "millis \<Rightarrow> string \<Rightarrow> journal_evidence \<Rightarrow> journal_evidence" where
  "failed_entry now err e = e\<lparr>je_attempts := je_attempts e + 1, je_lastAttemptAt := Some now,
     je_lastError := Some (take 256 err)\<rparr>"

definition mark_evidence_delivered :: "journal_env \<Rightarrow> string \<Rightarrow> string \<Rightarrow> millis \<Rightarrow> unit jm" where
  "mark_evidence_delivered E cid eid now = touch_evidence E cid eid now (delivered_entry now)"

definition note_evidence_failure :: "journal_env \<Rightarrow> string \<Rightarrow> string \<Rightarrow> string \<Rightarrow> millis \<Rightarrow> unit jm" where
  "note_evidence_failure E cid eid err now = touch_evidence E cid eid now (failed_entry now err)"

record recovery =
  rcv_resumable :: "command_record list"
  rcv_indeterminate :: nat

record recover_bucket_state =
  rb_bucket :: "(string \<times> command_record) list"
  rb_changed :: bool
  rb_recovery :: recovery

definition restart_transition :: "millis \<Rightarrow> transition" where
  "restart_transition now = indeterminate_transition ''PLUGIN_RESTART_AFTER_SEND_STARTED'' now"

definition recover_record ::
  "journal_env \<Rightarrow> millis \<Rightarrow> string \<Rightarrow> string \<times> command_record \<Rightarrow> recover_bucket_state \<Rightarrow> recover_bucket_state jm" where
  "recover_record E now key entry acc =
     (let r = snd entry; cid = cmd_commandId (rec_command r) in
      fthen (set_pointer E cid key (rec_payloadSha256 r))
      (fthen (case rec_openwaMessageId r of
                None \<Rightarrow> fok ()
              | Some mid \<Rightarrow> if mid = [] then fok ()
                  else set_message_pointer E mid cid (cmd_sessionId (rec_command r)))
      (if rec_state r = SEND_STARTED then
         fthen (forget_race cid)
         (fbind (append_evidence E r (restart_transition now)) (\<lambda>r'.
           fok (acc\<lparr>rb_bucket := AList.update (fst entry) r' (rb_bucket acc), rb_changed := True,
             rb_recovery := (rb_recovery acc)\<lparr>rcv_indeterminate := Suc (rcv_indeterminate (rb_recovery acc))\<rparr>\<rparr>)))
       else if rec_state r = RECEIVED then
         fok (acc\<lparr>rb_recovery := (rb_recovery acc)\<lparr>rcv_resumable := rcv_resumable (rb_recovery acc) @ [r]\<rparr>\<rparr>)
       else fok acc)))"

definition recover_bucket :: "journal_env \<Rightarrow> millis \<Rightarrow> string \<Rightarrow> recovery \<Rightarrow> recovery jm" where
  "recover_bucket E now key rcv = fbind (load_command_bucket E key False) (\<lambda>b.
     fbind (ffold (recover_record E now key) b \<lparr>rb_bucket = b, rb_changed = False, rb_recovery = rcv\<rparr>) (\<lambda>acc.
     fthen (if rb_changed acc then storage_set E key (Command_Bucket (rb_bucket acc)) else fok ())
       (fok (rb_recovery acc))))"

definition recover :: "journal_env \<Rightarrow> millis \<Rightarrow> recovery jm" where
  "recover E now = fbind (list_command_keys E) (\<lambda>keys.
     ffold (recover_bucket E now) keys \<lparr>rcv_resumable = [], rcv_indeterminate = 0\<rparr>)"

record journal_stats =
  js_pendingCount :: nat
  js_oldestPendingSeconds :: "int option"
  js_storageUtilization :: rat
  js_totalRecords :: nat

definition counts_as_pending :: "command_record \<Rightarrow> bool" where
  "counts_as_pending r \<longleftrightarrow> rec_state r = RECEIVED \<or> rec_state r = SEND_STARTED \<or> undelivered r"

definition stats :: "journal_env \<Rightarrow> millis \<Rightarrow> journal_stats jm" where
  "stats E now = fbind (list_journal_keys E) (\<lambda>journal_keys.
     fbind (ffold (\<lambda>key acc. fbind (load_command_bucket E key False) (\<lambda>b. fok (acc @ map snd b)))
              (filter (starts_with command_prefix) journal_keys) []) (\<lambda>rs.
     let pending = filter counts_as_pending rs;
         oldest = (if pending = [] then None else Some (Min (set (map rec_createdAt pending))))
     in fbind (storage_utilization E journal_keys) (\<lambda>utilization.
       fok \<lparr>js_pendingCount = length pending,
            js_oldestPendingSeconds = map_option (\<lambda>o'. max 0 ((now - o') div 1000)) oldest,
            js_storageUtilization = utilization,
            js_totalRecords = length rs\<rparr>)))"

definition compactable :: "journal_env \<Rightarrow> millis \<Rightarrow> command_record \<Rightarrow> bool" where
  "compactable E now r \<longleftrightarrow>
     is_terminal (rec_state r) \<and> \<not> undelivered r \<and> env_terminalRetentionMs E \<le> now - rec_updatedAt r"

definition compact_entry ::
  "journal_env \<Rightarrow> millis \<Rightarrow> string \<times> command_record \<Rightarrow> (string \<times> command_record) list \<times> nat
     \<Rightarrow> ((string \<times> command_record) list \<times> nat) jm" where
  "compact_entry E now entry acc =
     (if \<not> compactable E now (snd entry) then fok acc
      else fthen (delete_pointer E (fst entry))
        (fthen (case rec_openwaMessageId (snd entry) of
                  None \<Rightarrow> fok ()
                | Some mid \<Rightarrow> if mid = [] then fok () else delete_message_pointer E mid)
          (fok (AList.delete (fst entry) (fst acc), Suc (snd acc)))))"

definition compact_bucket :: "journal_env \<Rightarrow> millis \<Rightarrow> string \<Rightarrow> nat \<Rightarrow> nat jm" where
  "compact_bucket E now key removed = fbind (load_command_bucket E key False) (\<lambda>b.
     fbind (ffold (compact_entry E now) b (b, removed)) (\<lambda>acc.
     fthen (if fst acc = [] then storage_delete E key else storage_set E key (Command_Bucket (fst acc)))
       (fok (snd acc))))"

definition compact :: "journal_env \<Rightarrow> millis \<Rightarrow> nat jm" where
  "compact E now = fbind (list_command_keys E) (\<lambda>keys.
     fbind (ffold (compact_bucket E now) keys 0) (\<lambda>removed.
     fbind (prune_orphans E now (env_maximumOrphans E)) (\<lambda>pruned. fok (removed + pruned))))"

end
