(* ===== verification/Event_Inbox_Client.thy ===== *)
theory Event_Inbox_Client
  imports Connector_Config Connector_Bindings Journal_Operations
begin

text \<open>
  \<open>packages/openwa-connector-plugin/src/event-inbox-client.ts\<close>: the three requests the plugin makes
  to the Event Inbox. The network is an argument: what \<open>net.fetch\<close> gave for the request, a failure
  with its sanitised code or a response. \<open>JSON.parse\<close>, \<open>new Date\<close> and \<open>Number\<close> are arguments too.
\<close>

datatype inbox_operation = Op_heartbeat | Op_evidence | Op_media

text \<open>\<open>EventInboxRequestError\<close>, without its message.\<close>

record inbox_error =
  ie_operation :: inbox_operation
  ie_status :: "int option"
  ie_persistent :: bool

record net_response =
  nr_ok :: bool
  nr_status :: int
  nr_headers :: "(string \<times> string) list"
  nr_body :: string

text \<open>A thrown \<open>net.fetch\<close> carries the name \<open>safeErrorCode\<close> extracted.\<close>

type_synonym fetch_result = "string + net_response"

datatype request_body =
    No_Body
  | Heartbeat_Body (hb_pluginVersion: string) (hb_protocolVersion: int) (hb_journalSchemaVersion: int)
      (hb_sessionId: string) (hb_bindingGeneration: int) (hb_stats: journal_stats) (hb_blockedReason: "string option")
  | Evidence_Body (eb_bindingGeneration: int) (eb_timestamp: millis) (eb_sessionId: string)
      (eb_idempotencyKey: string) (eb_deliveryId: string) (eb_data: evidence)

record net_request =
  rq_url :: string
  rq_method :: string
  rq_headers :: "(string \<times> string) list"
  rq_body :: request_body
  rq_timeoutMs :: int

definition request_timeout_ms :: int where
  "request_timeout_ms = 5000"

definition persistent_statuses :: "int list" where
  "persistent_statuses = [400, 401, 403, 409, 422]"

definition json_headers :: "string \<Rightarrow> (string \<times> string) list" where
  "json_headers token = [(''accept'', ''application/json''), (''authorization'', ''Bearer '' @ token),
     (''content-type'', ''application/json'')]"

text \<open>\<open>resolve path base\<close> is \<open>new URL(path, base).toString()\<close>.\<close>

definition heartbeat_request ::
  "(string \<Rightarrow> string \<Rightarrow> string) \<Rightarrow> connector_config \<Rightarrow> string \<Rightarrow> journal_stats \<Rightarrow> int \<Rightarrow> string option \<Rightarrow> net_request" where
  "heartbeat_request resolve config version st generation blocked =
     \<lparr>rq_url = resolve ''/api/v1/event-inbox/connectors/heartbeat'' (cfg_eventInboxBaseUrl config),
      rq_method = ''POST'', rq_headers = json_headers (cfg_connectorToken config),
      rq_body = Heartbeat_Body version protocol_version journal_schema_version (cfg_sessionId config)
        generation st blocked,
      rq_timeoutMs = request_timeout_ms\<rparr>"

definition evidence_request ::
  "(string \<Rightarrow> string \<Rightarrow> string) \<Rightarrow> connector_config \<Rightarrow> command_record \<Rightarrow> nat \<Rightarrow> net_request option" where
  "evidence_request resolve config r i =
     (if i < length (rec_evidence r) then
        (let ev = je_evidence (rec_evidence r ! i) in
         Some \<lparr>rq_url = resolve ''/api/v1/event-inbox/connectors/events'' (cfg_eventInboxBaseUrl config),
           rq_method = ''POST'', rq_headers = json_headers (cfg_connectorToken config),
           rq_body = Evidence_Body (ev_bindingGeneration ev) (ev_occurredAt ev) (ev_sessionId ev)
             (ev_eventId ev @ ''_'' @ rec_webhookId r) (ev_eventId ev) ev,
           rq_timeoutMs = request_timeout_ms\<rparr>)
      else None)"

definition media_request :: "url \<Rightarrow> string \<Rightarrow> net_request" where
  "media_request media_url mime =
     \<lparr>rq_url = url_href media_url, rq_method = ''HEAD'', rq_headers = [(''accept'', mime)],
      rq_body = No_Body, rq_timeoutMs = request_timeout_ms\<rparr>"

text \<open>The part of \<open>requestAbsolute\<close> after the call of \<open>net.fetch\<close>.\<close>

definition request_absolute :: "inbox_operation \<Rightarrow> fetch_result \<Rightarrow> inbox_error + net_response" where
  "request_absolute operation result =
     (case result of
        Inl code \<Rightarrow> Inl \<lparr>ie_operation = operation, ie_status = None, ie_persistent = False\<rparr>
      | Inr response \<Rightarrow>
          if \<not> nr_ok response then
            Inl \<lparr>ie_operation = operation, ie_status = Some (nr_status response),
                 ie_persistent = nr_status response \<in> set persistent_statuses\<rparr>
          else Inr response)"

definition parse_json_object ::
  "(string \<Rightarrow> js_value option) \<Rightarrow> string \<Rightarrow> inbox_operation \<Rightarrow> inbox_error + js_value" where
  "parse_json_object json body operation =
     (case json body of
        Some (JObject ps) \<Rightarrow> Inr (JObject ps)
      | _ \<Rightarrow> Inl \<lparr>ie_operation = operation, ie_status = Some 200, ie_persistent = True\<rparr>)"

definition invalid_binding_error :: inbox_error where
  "invalid_binding_error = \<lparr>ie_operation = Op_heartbeat, ie_status = Some 200, ie_persistent = True\<rparr>"

definition safe_generation :: "js_value \<Rightarrow> int option" where
  "safe_generation v =
     (case v of JNumber q \<Rightarrow> if is_safe_integer q then Some \<lfloor>q\<rfloor> else None | _ \<Rightarrow> None)"

definition parse_binding ::
  "(string \<Rightarrow> js_date) \<Rightarrow> js_value \<Rightarrow> string \<Rightarrow> string \<Rightarrow> inbox_error + binding" where
  "parse_binding date value connector session =
     (case (js_field value ''webhookId'', safe_generation (js_field value ''generation''), js_field value ''updatedAt'') of
        (JString webhook, Some generation, JString updated) \<Rightarrow>
          if js_field value ''sessionId'' \<noteq> JString session \<or> js_field value ''connectorId'' \<noteq> JString connector
             \<or> length webhook < 1 \<or> 512 < length webhook \<or> generation < 1 \<or> date updated = None
          then Inl invalid_binding_error
          else Inr \<lparr>bd_sessionId = session, bd_connectorId = connector, bd_webhookId = webhook,
                    bd_generation = generation, bd_updatedAt = \<lparr>ts_text = updated, ts_value = date updated\<rparr>\<rparr>
      | _ \<Rightarrow> Inl invalid_binding_error)"

text \<open>\<open>body.bindings.map(parseBinding)\<close>: the first invalid binding is thrown.\<close>

fun parse_bindings ::
  "(string \<Rightarrow> js_date) \<Rightarrow> string \<Rightarrow> string \<Rightarrow> js_value list \<Rightarrow> inbox_error + binding list" where
  "parse_bindings date connector session [] = Inr []"
| "parse_bindings date connector session (v # vs) =
     (case parse_binding date v connector session of
        Inl e \<Rightarrow> Inl e
      | Inr b \<Rightarrow> (case parse_bindings date connector session vs of Inl e \<Rightarrow> Inl e | Inr bs \<Rightarrow> Inr (b # bs)))"

definition heartbeat ::
  "(string \<Rightarrow> js_value option) \<Rightarrow> (string \<Rightarrow> js_date) \<Rightarrow> connector_config \<Rightarrow> fetch_result
     \<Rightarrow> inbox_error + binding list" where
  "heartbeat json date config result =
     (case request_absolute Op_heartbeat result of
        Inl e \<Rightarrow> Inl e
      | Inr response \<Rightarrow>
     (case parse_json_object json (nr_body response) Op_heartbeat of
        Inl e \<Rightarrow> Inl e
      | Inr body \<Rightarrow>
     (case (js_field body ''protocolVersion'', js_field body ''bindings'') of
        (JNumber v, JArray bs) \<Rightarrow>
          if v \<noteq> of_int protocol_version
          then Inl \<lparr>ie_operation = Op_heartbeat, ie_status = Some (nr_status response), ie_persistent = True\<rparr>
          else parse_bindings date (cfg_connectorId config) (cfg_sessionId config) bs
      | _ \<Rightarrow> Inl \<lparr>ie_operation = Op_heartbeat, ie_status = Some (nr_status response), ie_persistent = True\<rparr>)))"

definition post_evidence :: "(string \<Rightarrow> js_value option) \<Rightarrow> fetch_result \<Rightarrow> inbox_error + unit" where
  "post_evidence json result =
     (case request_absolute Op_evidence result of
        Inl e \<Rightarrow> Inl e
      | Inr response \<Rightarrow>
     (case parse_json_object json (nr_body response) Op_evidence of
        Inl e \<Rightarrow> Inl e
      | Inr body \<Rightarrow>
          if js_field body ''accepted'' \<noteq> JBool True
             \<or> (js_field body ''duplicate'' \<noteq> JBool True \<and> js_field body ''duplicate'' \<noteq> JBool False)
          then Inl \<lparr>ie_operation = Op_evidence, ie_status = Some (nr_status response), ie_persistent = True\<rparr>
          else Inr ()))"

definition header :: "net_response \<Rightarrow> string \<Rightarrow> string option" where
  "header response name =
     (case List.find (\<lambda>(k, v). to_lower k = to_lower name) (nr_headers response) of
        None \<Rightarrow> None | Some (k, v) \<Rightarrow> Some v)"

text \<open>\<open>header(...)?.split(';', 1)[0]?.trim().toLowerCase()\<close>.\<close>

definition media_type :: "string \<Rightarrow> string" where
  "media_type v = to_lower (trim (hd (split_on CHR '';'' v)))"

text \<open>The media check fails before any request when the origins differ.\<close>

definition media_origin_error :: inbox_error where
  "media_origin_error = \<lparr>ie_operation = Op_media, ie_status = None, ie_persistent = True\<rparr>"

definition media_matches ::
  "(string option \<Rightarrow> rat option) \<Rightarrow> net_response \<Rightarrow> int \<Rightarrow> string \<Rightarrow> string \<Rightarrow> bool" where
  "media_matches number response bytes mime sha \<longleftrightarrow>
     (case number (header response ''content-length'') of
        None \<Rightarrow> False | Some q \<Rightarrow> is_safe_integer q \<and> q = of_int bytes)
     \<and> map_option media_type (header response ''content-type'') = Some mime
     \<and> header response ''x-wa-content-sha256'' = Some sha"

text \<open>The \<open>URL\<close> constructor may throw a \<open>TypeError\<close>, which is not an \<open>EventInboxRequestError\<close>.\<close>

datatype media_failure = Media_Error inbox_error | Media_Url_Error

definition verify_media ::
  "(string option \<Rightarrow> rat option) \<Rightarrow> (string \<Rightarrow> url option) \<Rightarrow> connector_config \<Rightarrow> content \<Rightarrow> fetch_result
     \<Rightarrow> media_failure + unit" where
  "verify_media number new_url config c result =
     (case c of
        Text_Content _ \<Rightarrow> Inr ()
      | Image_Content _ mime bytes sha media _ \<Rightarrow>
          (case (new_url media, new_url (cfg_eventInboxBaseUrl config)) of
             (Some m, Some base) \<Rightarrow>
               if url_origin m \<noteq> url_origin base then Inl (Media_Error media_origin_error)
               else (case request_absolute Op_media result of
                       Inl e \<Rightarrow> Inl (Media_Error e)
                     | Inr response \<Rightarrow>
                         if media_matches number response bytes mime sha then Inr ()
                         else Inl (Media_Error \<lparr>ie_operation = Op_media, ie_status = Some (nr_status response),
                           ie_persistent = True\<rparr>))
           | _ \<Rightarrow> Inl Media_Url_Error))"

subsection \<open>Facts\<close>

lemma parse_binding_valid:
  "parse_binding date v connector session = Inr b \<Longrightarrow> valid_binding session connector b"
  by (auto simp: parse_binding_def valid_binding_def safe_generation_def is_safe_integer_def safe_int_def
      Suc_le_eq split: js_value.splits option.splits if_splits)

lemma parse_bindings_valid:
  "parse_bindings date connector session vs = Inr bs \<Longrightarrow> list_all (valid_binding session connector) bs"
  by (induction vs arbitrary: bs) (auto split: sum.splits dest: parse_binding_valid)

lemma heartbeat_valid:
  assumes "heartbeat json date config result = Inr bs"
  shows "list_all (valid_binding (cfg_sessionId config) (cfg_connectorId config)) bs"
  using assms by (auto simp: heartbeat_def split: sum.splits js_value.splits if_splits dest: parse_bindings_valid)

lemma post_evidence_accepted:
  assumes "post_evidence json result = Inr u"
  obtains response ps where "result = Inr response" "nr_ok response" "json (nr_body response) = Some (JObject ps)"
    "map_of ps ''accepted'' = Some (JBool True)"
  using assms by (auto simp: post_evidence_def request_absolute_def parse_json_object_def
      split: sum.splits if_splits option.splits js_value.splits)

end
