(* ===== verification/Connector_Runtime.thy ===== *)
theory Connector_Runtime
  imports Event_Inbox_Client
begin

text \<open>
  \<open>packages/openwa-connector-plugin/src/connector.ts\<close>: the plugin that owns the journal, the bindings
  and the Event Inbox client. The asynchronous methods are coroutines: the state holds, for every
  \<open>execute\<close>, ingress, enabling, stop and flush in flight and for the maintenance tick, the point it awaits
  at, and a step runs one of them from there to its next call of the journal, the network or the host. (An \<open>await\<close>
  that only hands on a resolved promise lets no other I/O come in between and ends no step.) The host decides the
  outcome of network calls and of \<open>conversations.send\<close>. \<open>cn_sends\<close> is a ghost: the command ids for which \<open>conversations.send\<close> was
  called, in order, since the beginning of time.
\<close>

datatype exec_phase =
    Ex_Reject error_class string
  | Ex_Media
  | Ex_Mark
  | Ex_Sending
  | Ex_Accept string
  | Ex_Indeterminate string
  | Ex_Wait

datatype flush_phase = Fl_Load | Fl_Post command_record nat

datatype tick_phase =
    T_Stats
  | T_Beat int "string option"
  | T_Beat_Again "string option"
  | T_Flush "string list"
  | T_Wait string "string list"
  | T_Compact

text \<open>\<open>handleIngress\<close>: the storage threshold, the digest of the body and the webhook of the binding are those read on
  entry; a compaction keeps the time it was decided at.\<close>

datatype ingress_phase =
    In_Receive rat string string
  | In_Compact rat string string millis
  | In_Stats rat string string
  | In_Again rat string string
  | In_Ambiguous
  | In_Rotated

datatype enable_phase = En_Load | En_Recover

datatype stop_phase = St_Load | St_Flush "string list" | St_Wait string "string list"

record connector =
  cn_journal :: journal
  cn_bindings :: binding_store
  cn_config :: "connector_config option"
  cn_context :: bool
  cn_stopped :: bool
  cn_tick :: "tick_phase option"
  cn_lastCompactedAt :: millis
  cn_lastPressureCompactedAt :: millis
  cn_lastHeartbeatAt :: "millis option"
  cn_lastError :: "string option"
  cn_blockedReason :: "string option"
  cn_stats :: journal_stats
  cn_execs :: "(string \<times> command \<times> exec_phase) list"
  cn_flushing :: "(string \<times> flush_phase) list"
  cn_flushRequested :: "string list"
  cn_pendingFlush :: "string list"
  cn_ingress :: "(command \<times> ingress_phase) list"
  cn_enabling :: "enable_phase list"
  cn_stops :: "stop_phase list"
  cn_resumable :: "command_record list"
  cn_sends :: "string list"

record connector_env =
  ce_journal :: journal_env
  ce_js :: js_coercions
  ce_url :: "string \<Rightarrow> url option"
  ce_decode :: "string \<Rightarrow> decoded"
  ce_sha256 :: "string \<Rightarrow> string"
  ce_json :: "string \<Rightarrow> js_value option"
  ce_date :: "string \<Rightarrow> js_date"
  ce_number :: "string option \<Rightarrow> rat option"
  ce_fault_name :: string

definition compact_interval_ms :: int where
  "compact_interval_ms = 60 * 60 * 1000"

definition pressure_compaction_interval_ms :: int where
  "pressure_compaction_interval_ms = 60 * 1000"

text \<open>\<open>activeCommands\<close> is the set of the commands with an \<open>execute\<close> in flight.\<close>

definition cn_active :: "connector \<Rightarrow> string \<Rightarrow> bool" where
  "cn_active s cid \<longleftrightarrow> map_of (cn_execs s) cid \<noteq> None"

definition jrun :: "'a jm \<Rightarrow> connector \<Rightarrow> (journal_error + 'a) \<times> connector" where
  "jrun m s = (fst (m (cn_journal s)), s\<lparr>cn_journal := snd (m (cn_journal s))\<rparr>)"

section \<open>Errors as text\<close>

fun operation_text :: "inbox_operation \<Rightarrow> string" where
  "operation_text Op_heartbeat = ''heartbeat''"
| "operation_text Op_evidence = ''evidence''"
| "operation_text Op_media = ''media''"

definition safe_error_inbox :: "inbox_error \<Rightarrow> string" where
  "safe_error_inbox e = take 200 (operation_text (ie_operation e) @ '':'' @
     (case ie_status e of None \<Rightarrow> ''network'' | Some n \<Rightarrow> text_of_int n))"

fun safe_error_journal :: "connector_env \<Rightarrow> journal_error \<Rightarrow> string" where
  "safe_error_journal E Storage_Fault = ce_fault_name E"
| "safe_error_journal E (Capacity_Exceeded _) = ''ConnectorJournalCapacityError''"
| "safe_error_journal E Invalid_Date = ''RangeError''"
| "safe_error_journal E _ = ''Error''"

text \<open>\<open>String(value)\<close> of an unknown status, against the four known ones.\<close>

definition normalize_ack_status :: "js_coercions \<Rightarrow> js_value \<Rightarrow> ack_status option" where
  "normalize_ack_status js v =
     (let t = to_text js v in
      if t = ''sent'' then Some Ack_sent else if t = ''delivered'' then Some Ack_delivered
      else if t = ''read'' then Some Ack_read else if t = ''failed'' then Some Ack_failed else None)"

section \<open>Flushing evidence\<close>

definition flush_command :: "string \<Rightarrow> connector \<Rightarrow> connector" where
  "flush_command cid s =
     (if map_of (cn_flushing s) cid \<noteq> None
      then s\<lparr>cn_flushRequested := add_key cid (cn_flushRequested s)\<rparr>
      else s\<lparr>cn_flushing := AList.update cid Fl_Load (cn_flushing s)\<rparr>)"

text \<open>\<open>flushPending\<close>: the records found are flushed one after the other.\<close>

definition flush_pending :: "connector_env \<Rightarrow> nat \<Rightarrow> connector \<Rightarrow> (journal_error + unit) \<times> connector" where
  "flush_pending E limit s =
     (case jrun (pending_records (ce_journal E) limit) s of
        (Inl e, s') \<Rightarrow> (Inl e, s')
      | (Inr rs, s') \<Rightarrow> (Inr (), s'\<lparr>cn_pendingFlush := cn_pendingFlush s' @ map (\<lambda>r. cmd_commandId (rec_command r)) rs\<rparr>))"

definition flush_next :: "connector \<Rightarrow> connector" where
  "flush_next s = (case cn_pendingFlush s of [] \<Rightarrow> s
     | cid # cids \<Rightarrow> flush_command cid (s\<lparr>cn_pendingFlush := cids\<rparr>))"

definition tick_failed :: "string \<Rightarrow> string option \<Rightarrow> connector \<Rightarrow> connector" where
  "tick_failed message blocked s = s\<lparr>cn_lastError := Some message,
     cn_blockedReason := (case blocked of None \<Rightarrow> cn_blockedReason s | Some b \<Rightarrow> Some b), cn_tick := None\<rparr>"

definition exec_done :: "string \<Rightarrow> connector \<Rightarrow> connector" where
  "exec_done cid s = s\<lparr>cn_execs := AList.delete cid (cn_execs s)\<rparr>"

definition exec_failed :: "string \<Rightarrow> string \<Rightarrow> connector \<Rightarrow> connector" where
  "exec_failed cid message s = exec_done cid (s\<lparr>cn_lastError := Some message\<rparr>)"

text \<open>A flush that throws rejects the promise its waiters await; a \<open>stop\<close> swallows the rejection and goes on to its
  end.\<close>

definition stop_waits :: "string \<Rightarrow> stop_phase \<Rightarrow> bool" where
  "stop_waits cid ph = (case ph of St_Wait c cs \<Rightarrow> c = cid | _ \<Rightarrow> False)"

definition stops_rejected :: "string \<Rightarrow> connector \<Rightarrow> connector" where
  "stops_rejected cid s =
     (if list_ex (stop_waits cid) (cn_stops s)
      then s\<lparr>cn_stops := filter (\<lambda>ph. \<not> stop_waits cid ph) (cn_stops s), cn_context := False\<rparr> else s)"

definition flush_rejected :: "string \<Rightarrow> string \<Rightarrow> connector \<Rightarrow> connector" where
  "flush_rejected cid message s =
     (let s1 = stops_rejected cid (s\<lparr>cn_flushing := AList.delete cid (cn_flushing s)\<rparr>);
          s2 = (case cn_tick s1 of Some (T_Wait c cs) \<Rightarrow> if c = cid then tick_failed message None s1 else s1 | _ \<Rightarrow> s1)
      in case map_of (cn_execs s2) cid of
           Some (cmd, Ex_Wait) \<Rightarrow> exec_failed cid message s2
         | _ \<Rightarrow> s2)"

definition clear_evidence_block_if_drained :: "connector_env \<Rightarrow> connector \<Rightarrow> connector" where
  "clear_evidence_block_if_drained E s =
     (if cn_blockedReason s \<noteq> Some ''evidence_delivery_blocked'' then s
      else case jrun (pending_records (ce_journal E) 1) s of
        (Inl e, s') \<Rightarrow> s'
      | (Inr rs, s') \<Rightarrow>
          if rs \<noteq> [] then s'
          else s'\<lparr>cn_blockedReason := None,
                  cn_lastError := (case cn_lastError s' of
                     Some m \<Rightarrow> if starts_with ''evidence:'' m then None else Some m | None \<Rightarrow> None)\<rparr>)"

definition flush_finished :: "connector_env \<Rightarrow> string \<Rightarrow> connector \<Rightarrow> connector" where
  "flush_finished E cid s =
     (let s1 = s\<lparr>cn_flushing := AList.delete cid (cn_flushing s)\<rparr>
      in if cid \<in> set (cn_flushRequested s1)
         then flush_command cid (s1\<lparr>cn_flushRequested := remove1 cid (cn_flushRequested s1)\<rparr>)
         else clear_evidence_block_if_drained E s1)"

text \<open>The next undelivered entry from position \<open>i\<close>.\<close>

definition next_undelivered :: "command_record \<Rightarrow> nat \<Rightarrow> nat option" where
  "next_undelivered r i =
     List.find (\<lambda>k. je_deliveredAt (rec_evidence r ! k) = None) [i..<length (rec_evidence r)]"

definition flush_continue :: "connector_env \<Rightarrow> string \<Rightarrow> command_record \<Rightarrow> nat \<Rightarrow> connector \<Rightarrow> connector" where
  "flush_continue E cid r i s =
     (case next_undelivered r i of
        None \<Rightarrow> flush_finished E cid s
      | Some k \<Rightarrow> s\<lparr>cn_flushing := AList.update cid (Fl_Post r k) (cn_flushing s)\<rparr>)"

text \<open>The \<open>catch\<close> of the flush loop: one failed entry ends the flush.\<close>

definition flush_entry_failed ::
  "connector_env \<Rightarrow> string \<Rightarrow> journal_evidence \<Rightarrow> string \<Rightarrow> bool \<Rightarrow> millis \<Rightarrow> connector \<Rightarrow> connector" where
  "flush_entry_failed E cid entry message persistent now s =
     (case jrun (note_evidence_failure (ce_journal E) cid (ev_eventId (je_evidence entry)) message now) s of
        (Inl e, s') \<Rightarrow> flush_rejected cid (safe_error_journal E e) s'
      | (Inr _, s') \<Rightarrow>
          flush_finished E cid (s'\<lparr>cn_lastError := Some message,
            cn_blockedReason := (if persistent \<or> 2 \<le> je_attempts entry then Some ''evidence_delivery_blocked''
                                 else cn_blockedReason s')\<rparr>))"

definition flush_step :: "connector_env \<Rightarrow> string \<Rightarrow> millis \<Rightarrow> fetch_result \<Rightarrow> connector \<Rightarrow> connector" where
  "flush_step E cid now result s =
     (case map_of (cn_flushing s) cid of
        None \<Rightarrow> s
      | Some Fl_Load \<Rightarrow>
          (case jrun (journal_get (ce_journal E) cid) s of
             (Inl e, s') \<Rightarrow> flush_rejected cid (safe_error_journal E e) s'
           | (Inr None, s') \<Rightarrow> flush_finished E cid s'
           | (Inr (Some r), s') \<Rightarrow> flush_continue E cid r 0 s')
      | Some (Fl_Post r i) \<Rightarrow>
          (let entry = rec_evidence r ! i in
           case post_evidence (ce_json E) result of
             Inl err \<Rightarrow> flush_entry_failed E cid entry (safe_error_inbox err) (ie_persistent err) now s
           | Inr _ \<Rightarrow>
               (case jrun (mark_evidence_delivered (ce_journal E) cid (ev_eventId (je_evidence entry)) now) s of
                  (Inl e, s') \<Rightarrow> flush_entry_failed E cid entry (safe_error_journal E e) False now s'
                | (Inr _, s') \<Rightarrow> flush_continue E cid r (Suc i) s')))"

section \<open>Executing a command\<close>

definition expired_at :: "command \<Rightarrow> millis \<Rightarrow> bool" where
  "expired_at cmd now = (case ts_value (cmd_expiresAt cmd) of None \<Rightarrow> False | Some t \<Rightarrow> t \<le> now)"

definition current_generation_is :: "connector \<Rightarrow> int \<Rightarrow> bool" where
  "current_generation_is s g = (case bindings_current (cn_bindings s) of None \<Rightarrow> False | Some b \<Rightarrow> bd_generation b = g)"

text \<open>\<open>execute\<close> up to its first \<open>await\<close>.\<close>

definition exec_begin :: "command \<Rightarrow> millis \<Rightarrow> connector \<Rightarrow> exec_phase" where
  "exec_begin cmd now s =
     (if expired_at cmd now then Ex_Reject EC_EXPIRED_COMMAND ''COMMAND_EXPIRED''
      else if \<not> current_generation_is s (cmd_bindingGeneration cmd) then Ex_Reject EC_BINDING_MISMATCH ''BINDING_ROTATED''
      else if content_operation (cmd_content cmd) = SEND_IMAGE then Ex_Media
      else Ex_Mark)"

definition schedule :: "command \<Rightarrow> millis \<Rightarrow> connector \<Rightarrow> connector" where
  "schedule cmd now s =
     (if cn_stopped s \<or> cn_active s (cmd_commandId cmd) then s
      else s\<lparr>cn_execs := AList.update (cmd_commandId cmd) (cmd, exec_begin cmd now s) (cn_execs s)\<rparr>)"

definition exec_goto :: "string \<Rightarrow> command \<Rightarrow> exec_phase \<Rightarrow> connector \<Rightarrow> connector" where
  "exec_goto cid cmd ph s = s\<lparr>cn_execs := AList.update cid (cmd, ph) (cn_execs s)\<rparr>"

text \<open>After the last journal write \<open>execute\<close> awaits a flush of its command.\<close>

definition exec_flush :: "string \<Rightarrow> command \<Rightarrow> connector \<Rightarrow> connector" where
  "exec_flush cid cmd s = flush_command cid (exec_goto cid cmd Ex_Wait s)"

definition exec_after_media :: "connector_env \<Rightarrow> string \<Rightarrow> command \<Rightarrow> millis \<Rightarrow> media_failure + unit \<Rightarrow> connector \<Rightarrow> connector" where
  "exec_after_media E cid cmd now verdict s =
     (case verdict of
        Inl failure \<Rightarrow>
          (let mismatch = (case failure of Media_Error e \<Rightarrow> ie_persistent e | Media_Url_Error \<Rightarrow> False)
           in exec_goto cid cmd (if mismatch then Ex_Reject EC_INVALID_COMMAND ''MEDIA_PREFLIGHT_REJECTED''
                                 else Ex_Reject EC_TRANSIENT_FAILURE ''MEDIA_PREFLIGHT_UNAVAILABLE'') s)
      | Inr _ \<Rightarrow>
          exec_goto cid cmd (if expired_at cmd now then Ex_Reject EC_EXPIRED_COMMAND ''COMMAND_EXPIRED'' else Ex_Mark) s)"

text \<open>One stretch of \<open>execute\<close>, from the \<open>await\<close> it is at to the next. \<open>sent\<close> is what
  \<open>conversations.send\<close> resolved to, \<open>None\<close> when it threw. The call itself happens at the end of the
  stretch that starts with the durable SEND_STARTED mark.\<close>

definition exec_step ::
  "connector_env \<Rightarrow> string \<Rightarrow> millis \<Rightarrow> fetch_result \<Rightarrow> js_value option \<Rightarrow> connector \<Rightarrow> connector" where
  "exec_step E cid now result sent s =
     (case map_of (cn_execs s) cid of
        None \<Rightarrow> s
      | Some (cmd, Ex_Reject ec code) \<Rightarrow>
          (case jrun (mark_rejected (ce_journal E) cid ec code now) s of
             (Inl e, s') \<Rightarrow> exec_failed cid (safe_error_journal E e) s'
           | (Inr _, s') \<Rightarrow> exec_flush cid cmd s')
      | Some (cmd, Ex_Media) \<Rightarrow>
          (case cn_config s of
             None \<Rightarrow> exec_goto cid cmd (Ex_Reject EC_TRANSIENT_FAILURE ''MEDIA_PREFLIGHT_UNAVAILABLE'') s
           | Some config \<Rightarrow>
               exec_after_media E cid cmd now (verify_media (ce_number E) (ce_url E) config (cmd_content cmd) result) s)
      | Some (cmd, Ex_Mark) \<Rightarrow>
          (case jrun (mark_started (ce_journal E) cid now) s of
             (Inl e, s') \<Rightarrow> exec_failed cid (safe_error_journal E e) s'
           | (Inr _, s') \<Rightarrow>
               (let s'' = flush_command cid s'
                in if \<not> cn_context s'' then exec_goto cid cmd (Ex_Indeterminate ''OPENWA_SEND_RESULT_AMBIGUOUS'') s''
                   else exec_goto cid cmd Ex_Sending (s''\<lparr>cn_sends := cn_sends s'' @ [cid]\<rparr>)))
      | Some (cmd, Ex_Sending) \<Rightarrow>
          (case sent of
             None \<Rightarrow> exec_goto cid cmd (Ex_Indeterminate ''OPENWA_SEND_RESULT_AMBIGUOUS'') s
           | Some v \<Rightarrow>
               (case extract_openwa_message_id v of
                  None \<Rightarrow> exec_goto cid cmd (Ex_Indeterminate ''OPENWA_RESPONSE_MISSING_MESSAGE_ID'') s
                | Some mid \<Rightarrow> exec_goto cid cmd (Ex_Accept mid) s))
      | Some (cmd, Ex_Accept mid) \<Rightarrow>
          (case jrun (mark_accepted (ce_journal E) cid mid now) s of
             (Inl e, s') \<Rightarrow> exec_goto cid cmd (Ex_Indeterminate ''OPENWA_SEND_RESULT_AMBIGUOUS'') s'
           | (Inr _, s') \<Rightarrow> exec_flush cid cmd s')
      | Some (cmd, Ex_Indeterminate code) \<Rightarrow>
          (case jrun (mark_indeterminate (ce_journal E) cid code now) s of
             (Inl e, s') \<Rightarrow>
               if code = ''OPENWA_RESPONSE_MISSING_MESSAGE_ID''
               then exec_goto cid cmd (Ex_Indeterminate ''OPENWA_SEND_RESULT_AMBIGUOUS'') s'
               else exec_failed cid (safe_error_journal E e) s'
           | (Inr _, s') \<Rightarrow> exec_flush cid cmd s')
      | Some (cmd, Ex_Wait) \<Rightarrow>
          if map_of (cn_flushing s) cid \<noteq> None then s else exec_done cid s)"

end
