(* ===== verification/Connector_Lifecycle.thy ===== *)
theory Connector_Lifecycle
  imports Connector_Runtime
begin

text \<open>
  The entry points of \<open>connector.ts\<close>: command ingress, the OpenWA hooks, the maintenance tick, enabling,
  reconfiguring, stopping and the health check; and the connector as a step system.
\<close>

section \<open>Ingress\<close>

record webhook_request =
  wr_verified :: bool
  wr_deliveryId :: string
  wr_sessionId :: "string option"
  wr_rawBody :: string

datatype ingress_error =
    Not_Accepting
  | Unverified
  | Bad_Command protocol_error
  | Config_Unavailable
  | Delivery_Mismatch
  | Session_Mismatch
  | Generation_Unknown
  | Ingress_Journal journal_error

text \<open>The end and the next call of the ingress at position \<open>n\<close>. The first component is what the webhook answers, none
  while the ingress is in flight.\<close>

definition drop_nth :: "nat \<Rightarrow> 'a list \<Rightarrow> 'a list" where
  "drop_nth n xs = take n xs @ drop (Suc n) xs"

definition ingress_answered ::
  "nat \<Rightarrow> ingress_error + unit \<Rightarrow> connector \<Rightarrow> (ingress_error + unit) option \<times> connector" where
  "ingress_answered n answer s = (Some answer, s\<lparr>cn_ingress := drop_nth n (cn_ingress s)\<rparr>)"

definition ingress_goto ::
  "nat \<Rightarrow> command \<Rightarrow> ingress_phase \<Rightarrow> connector \<Rightarrow> (ingress_error + unit) option \<times> connector" where
  "ingress_goto n cmd ph s = (None, s\<lparr>cn_ingress := (cn_ingress s)[n := (cmd, ph)]\<rparr>)"

definition ingress_call ::
  "nat \<Rightarrow> (journal_error + 'a) \<times> connector \<Rightarrow> ('a \<Rightarrow> connector \<Rightarrow> (ingress_error + unit) option \<times> connector)
     \<Rightarrow> (ingress_error + unit) option \<times> connector" where
  "ingress_call n r k = (case r of (Inl e, s) \<Rightarrow> ingress_answered n (Inl (Ingress_Journal e)) s | (Inr x, s) \<Rightarrow> k x s)"

text \<open>\<open>handleIngress\<close> once \<open>receiveCommand\<close> has returned the record.\<close>

definition ingress_received ::
  "nat \<Rightarrow> command \<Rightarrow> millis \<Rightarrow> command_record \<Rightarrow> connector \<Rightarrow> (ingress_error + unit) option \<times> connector" where
  "ingress_received n cmd now r s =
     (if rec_state r = SEND_STARTED then
        if cn_active s (cmd_commandId cmd) then ingress_answered n (Inr ()) s else ingress_goto n cmd In_Ambiguous s
      else if rec_state r \<noteq> RECEIVED then ingress_answered n (Inr ()) (flush_command (cmd_commandId cmd) s)
      else if \<not> current_generation_is s (cmd_bindingGeneration cmd) then ingress_goto n cmd In_Rotated s
      else ingress_answered n (Inr ()) (schedule cmd now s))"

text \<open>\<open>handleIngress\<close> up to the first journal call: refused at once, or in flight.\<close>

definition handle_ingress ::
  "connector_env \<Rightarrow> webhook_request \<Rightarrow> connector \<Rightarrow> (ingress_error + unit) \<times> connector" where
  "handle_ingress E req s =
     (if cn_stopped s then (Inl Not_Accepting, s)
      else if \<not> wr_verified req then (Inl Unverified, s)
      else case parse_command (ce_decode E) (ce_url E) (wr_rawBody req) of
        Inl err \<Rightarrow> (Inl (Bad_Command err), s\<lparr>cn_lastError :=
          Some (case err of Invalid_Command m \<Rightarrow> take 200 m | Url_Type_Error \<Rightarrow> ''invalid command'')\<rparr>)
      | Inr cmd \<Rightarrow>
     (case cn_config s of
        None \<Rightarrow> (Inl Config_Unavailable, s)
      | Some config \<Rightarrow>
          if wr_deliveryId req \<noteq> cmd_commandId cmd then (Inl Delivery_Mismatch, s)
          else if wr_sessionId req = None \<or> wr_sessionId req = Some [] \<or> wr_sessionId req \<noteq> Some (cfg_sessionId config)
               \<or> cmd_sessionId cmd \<noteq> cfg_sessionId config then (Inl Session_Mismatch, s)
          else (case bindings_find (cn_bindings s) (cmd_bindingGeneration cmd) of
                  None \<Rightarrow> (Inl Generation_Unknown, s)
                | Some b \<Rightarrow> (Inr (), s\<lparr>cn_ingress := cn_ingress s @ [(cmd,
                    In_Receive (cfg_storagePressureThreshold config) (ce_sha256 E (wr_rawBody req)) (bd_webhookId b))]\<rparr>))))"

text \<open>One stretch of \<open>handleIngress\<close> and \<open>receiveCommand\<close>, from the journal call it is at to the next. A full journal is
  compacted at most once a minute, measured, and the receipt is tried again when there is room.\<close>

definition ingress_step ::
  "connector_env \<Rightarrow> nat \<Rightarrow> millis \<Rightarrow> connector \<Rightarrow> (ingress_error + unit) option \<times> connector" where
  "ingress_step E n now s =
     (if length (cn_ingress s) \<le> n then (None, s) else case cn_ingress s ! n of
        (cmd, In_Receive maxu digest webhook) \<Rightarrow>
          (case jrun (receive (ce_journal E) cmd digest webhook now maxu) s of
             (Inl (Capacity_Exceeded _), s') \<Rightarrow>
               if pressure_compaction_interval_ms \<le> now - cn_lastPressureCompactedAt s'
               then ingress_goto n cmd (In_Compact maxu digest webhook now) (s'\<lparr>cn_lastPressureCompactedAt := now\<rparr>)
               else ingress_goto n cmd (In_Stats maxu digest webhook) s'
           | r \<Rightarrow> ingress_call n r (\<lambda>received. ingress_received n cmd now (rr_record received)))
      | (cmd, In_Compact maxu digest webhook decided) \<Rightarrow>
          ingress_call n (jrun (compact (ce_journal E) decided) s) (\<lambda>_. ingress_goto n cmd (In_Stats maxu digest webhook))
      | (cmd, In_Stats maxu digest webhook) \<Rightarrow>
          ingress_call n (jrun (stats (ce_journal E) now) s) (\<lambda>st s'.
            (if js_storageUtilization st < maxu then ingress_goto n cmd (In_Again maxu digest webhook)
             else ingress_answered n (Inl (Ingress_Journal (Capacity_Exceeded (js_storageUtilization st)))))
              (s'\<lparr>cn_stats := st\<rparr>))
      | (cmd, In_Again maxu digest webhook) \<Rightarrow>
          ingress_call n (jrun (receive (ce_journal E) cmd digest webhook now maxu) s)
            (\<lambda>received. ingress_received n cmd now (rr_record received))
      | (cmd, In_Ambiguous) \<Rightarrow>
          ingress_call n (jrun (mark_indeterminate (ce_journal E) (cmd_commandId cmd) ''INGRESS_REPLAY_AFTER_SEND_STARTED'' now) s)
            (\<lambda>_ s'. ingress_answered n (Inr ()) (flush_command (cmd_commandId cmd) s'))
      | (cmd, In_Rotated) \<Rightarrow>
          ingress_call n (jrun (mark_rejected (ce_journal E) (cmd_commandId cmd) EC_BINDING_MISMATCH ''BINDING_ROTATED'' now) s)
            (\<lambda>_ s'. ingress_answered n (Inr ()) (flush_command (cmd_commandId cmd) s')))"

section \<open>Hooks\<close>

text \<open>\<open>handleSentHook\<close> and \<open>handleAckHook\<close>: \<open>data\<close> is the payload, \<open>occurred\<close> the hook's timestamp.\<close>

definition nonempty_text :: "js_value \<Rightarrow> string option" where
  "nonempty_text v = (case v of JString t \<Rightarrow> if t = [] then None else Some t | _ \<Rightarrow> None)"

definition hook_acknowledge ::
  "connector_env \<Rightarrow> string option \<Rightarrow> ack_status option \<Rightarrow> string option \<Rightarrow> js_date \<Rightarrow> js_date \<Rightarrow> connector
     \<Rightarrow> (journal_error + unit) \<times> connector" where
  "hook_acknowledge E mid status session occurred now s =
     (case (mid, status, session, cn_config s) of
        (Some m, Some st, Some sid, Some config) \<Rightarrow>
          if sid = [] \<or> sid \<noteq> cfg_sessionId config then (Inr (), s)
          else (case jrun (append_acknowledgement (ce_journal E) sid m st occurred now) s of
                  (Inl e, s') \<Rightarrow> (Inl e, s')
                | (Inr _, s') \<Rightarrow> (Inr (), snd (flush_pending E 20 s')))
      | _ \<Rightarrow> (Inr (), s))"

definition handle_sent_hook ::
  "connector_env \<Rightarrow> js_value \<Rightarrow> string option \<Rightarrow> js_date \<Rightarrow> js_date \<Rightarrow> connector \<Rightarrow> (journal_error + unit) \<times> connector" where
  "handle_sent_hook E data session occurred now s =
     hook_acknowledge E (nonempty_text (js_field data ''id'')) (Some Ack_sent) session occurred now s"

definition handle_ack_hook ::
  "connector_env \<Rightarrow> js_value \<Rightarrow> string option \<Rightarrow> js_date \<Rightarrow> js_date \<Rightarrow> connector \<Rightarrow> (journal_error + unit) \<times> connector" where
  "handle_ack_hook E data session occurred now s =
     hook_acknowledge E (nonempty_text (js_field data ''messageId''))
       (normalize_ack_status (ce_js E) (js_field data ''status'')) session occurred now s"

section \<open>The maintenance tick\<close>

definition reported_generation :: "connector \<Rightarrow> int" where
  "reported_generation s = current_generation (cn_bindings s)"

text \<open>The loop of \<open>resumeRecovered\<close>: the result is the list of the records that remain.\<close>

fun resume_records :: "millis \<Rightarrow> command_record list \<Rightarrow> connector \<Rightarrow> command_record list \<times> connector" where
  "resume_records now [] s = ([], s)"
| "resume_records now (r # rs) s =
     (if bindings_find (cn_bindings s) (cmd_bindingGeneration (rec_command r)) \<noteq> None
      then resume_records now rs (schedule (rec_command r) now s)
      else (case resume_records now rs s of (remaining, s') \<Rightarrow> (r # remaining, s')))"

definition resume_recovered :: "millis \<Rightarrow> connector \<Rightarrow> connector" where
  "resume_recovered now s =
     (if reported_generation s = 0 then s
      else (case resume_records now (cn_resumable s) s of (remaining, s') \<Rightarrow> s'\<lparr>cn_resumable := remaining\<rparr>))"

definition tick_begin :: "connector \<Rightarrow> connector" where
  "tick_begin s = (if cn_tick s \<noteq> None \<or> cn_stopped s then s else s\<lparr>cn_tick := Some T_Stats\<rparr>)"

definition blocked_by :: "inbox_error \<Rightarrow> string option" where
  "blocked_by e = (if ie_persistent e
     then Some (operation_text (ie_operation e) @ ''_'' @
            (case ie_status e of None \<Rightarrow> ''invalid'' | Some n \<Rightarrow> text_of_int n) @ ''_blocked'')
     else None)"

text \<open>After the last heartbeat: resume, then look up what is to be flushed.\<close>

definition tick_resume :: "connector_env \<Rightarrow> millis \<Rightarrow> connector \<Rightarrow> connector" where
  "tick_resume E now s =
     (case jrun (pending_records (ce_journal E) 100) (resume_recovered now s) of
        (Inl e, s') \<Rightarrow> tick_failed (safe_error_journal E e) None s'
      | (Inr rs, s') \<Rightarrow> s'\<lparr>cn_tick := Some (T_Flush (map (\<lambda>r. cmd_commandId (rec_command r)) rs))\<rparr>)"

definition tick_step :: "connector_env \<Rightarrow> millis \<Rightarrow> fetch_result \<Rightarrow> connector \<Rightarrow> connector" where
  "tick_step E now result s =
     (case cn_tick s of
        None \<Rightarrow> s
      | Some T_Stats \<Rightarrow>
          (case jrun (stats (ce_journal E) now) s of
             (Inl e, s') \<Rightarrow> tick_failed (safe_error_journal E e) None s'
           | (Inr st, s') \<Rightarrow>
               (case cn_config s' of
                  None \<Rightarrow> tick_failed ''Error'' None (s'\<lparr>cn_stats := st\<rparr>)
                | Some config \<Rightarrow>
                    (let blocked = (if cfg_storagePressureThreshold config \<le> js_storageUtilization st
                                    then Some ''journal_storage_pressure'' else cn_blockedReason s')
                     in s'\<lparr>cn_stats := st, cn_tick := Some (T_Beat (reported_generation s') blocked)\<rparr>)))
      | Some (T_Beat reported blocked) \<Rightarrow>
          (case cn_config s of
             None \<Rightarrow> tick_failed ''Error'' None s
           | Some config \<Rightarrow>
          (case heartbeat (ce_json E) (ce_date E) config result of
             Inl e \<Rightarrow> tick_failed (safe_error_inbox e) (blocked_by e) s
           | Inr bs \<Rightarrow>
          (case bindings_apply (cn_bindings s) bs of
             Inl _ \<Rightarrow> tick_failed ''Error'' None s
           | Inr (changed, bst) \<Rightarrow>
               (let s' = s\<lparr>cn_bindings := bst, cn_lastHeartbeatAt := Some now, cn_lastError := None,
                    cn_blockedReason := (case cn_blockedReason s of
                       Some r \<Rightarrow> if starts_with ''heartbeat_'' r then None else Some r | None \<Rightarrow> None)\<rparr>
                in if changed \<and> reported_generation s' \<noteq> reported
                   then s'\<lparr>cn_tick := Some (T_Beat_Again blocked)\<rparr>
                   else tick_resume E now s'))))
      | Some (T_Beat_Again blocked) \<Rightarrow>
          (case cn_config s of
             None \<Rightarrow> tick_failed ''Error'' None s
           | Some config \<Rightarrow>
          (case heartbeat (ce_json E) (ce_date E) config result of
             Inl e \<Rightarrow> tick_failed (safe_error_inbox e) (blocked_by e) s
           | Inr _ \<Rightarrow> tick_resume E now (s\<lparr>cn_lastHeartbeatAt := Some now\<rparr>)))
      | Some (T_Flush []) \<Rightarrow>
          if compact_interval_ms \<le> now - cn_lastCompactedAt s then s\<lparr>cn_tick := Some T_Compact\<rparr>
          else s\<lparr>cn_tick := None\<rparr>
      | Some (T_Flush (c # cs)) \<Rightarrow> flush_command c (s\<lparr>cn_tick := Some (T_Wait c cs)\<rparr>)
      | Some (T_Wait c cs) \<Rightarrow>
          if map_of (cn_flushing s) c \<noteq> None then s else s\<lparr>cn_tick := Some (T_Flush cs)\<rparr>
      | Some T_Compact \<Rightarrow>
          (case jrun (compact (ce_journal E) now) s of
             (Inl e, s') \<Rightarrow> tick_failed (safe_error_journal E e) None s'
           | (Inr _, s') \<Rightarrow> s'\<lparr>cn_lastCompactedAt := now, cn_tick := None\<rparr>))"

section \<open>Life cycle\<close>

datatype enable_error = Already_Enabled | Enable_Config config_error | Enable_Journal journal_error
  | Config_Missing | Identity_Change

definition zero_stats :: journal_stats where
  "zero_stats = \<lparr>js_pendingCount = 0, js_oldestPendingSeconds = None, js_storageUtilization = 0, js_totalRecords = 0\<rparr>"

text \<open>A fresh plugin instance over what the storage holds.\<close>

definition fresh_connector :: "(string \<times> stored) list \<Rightarrow> binding_state option \<Rightarrow> nat \<Rightarrow> nat \<Rightarrow> string list \<Rightarrow> connector" where
  "fresh_connector store persisted uuids calls sends =
     \<lparr>cn_journal = \<lparr>j_store = store, j_races = [], j_uuids = uuids, j_calls = calls\<rparr>,
      cn_bindings = \<lparr>st_session = [], st_connector = [], st_bindings = [], st_persisted = persisted\<rparr>,
      cn_config = None, cn_context = False, cn_stopped = True, cn_tick = None, cn_lastCompactedAt = 0,
      cn_lastPressureCompactedAt = 0, cn_lastHeartbeatAt = None, cn_lastError = None, cn_blockedReason = None,
      cn_stats = zero_stats, cn_execs = [], cn_flushing = [], cn_flushRequested = [], cn_pendingFlush = [],
      cn_ingress = [], cn_enabling = [], cn_stops = [], cn_resumable = [], cn_sends = sends\<rparr>"

text \<open>The process dies and a new one starts: only the storage survives.\<close>

definition crash :: "connector \<Rightarrow> connector" where
  "crash s = fresh_connector (j_store (cn_journal s)) (st_persisted (cn_bindings s)) (j_uuids (cn_journal s))
     (j_calls (cn_journal s)) (cn_sends s)"

text \<open>\<open>onEnable\<close> up to its first \<open>await\<close>: a fresh journal and a fresh, empty binding store over the same storage.\<close>

definition on_enable :: "connector_env \<Rightarrow> js_value \<Rightarrow> connector \<Rightarrow> (enable_error + unit) \<times> connector" where
  "on_enable E raw s =
     (if cn_context s then (Inl Already_Enabled, s)
      else case read_config (ce_js E) (ce_url E) raw of
        Inl e \<Rightarrow> (Inl (Enable_Config e), s\<lparr>cn_context := True\<rparr>)
      | Inr config \<Rightarrow> (Inr (), s\<lparr>cn_context := True, cn_config := Some config,
          cn_journal := (cn_journal s)\<lparr>j_races := []\<rparr>,
          cn_bindings := \<lparr>st_session = cfg_sessionId config, st_connector = cfg_connectorId config,
            st_bindings = [], st_persisted = st_persisted (cn_bindings s)\<rparr>,
          cn_enabling := cn_enabling s @ [En_Load]\<rparr>))"

text \<open>The rest of \<open>onEnable\<close>: the bindings are loaded, then the journal is recovered; after the recovery the plugin accepts
  commands and its first tick begins. The first component is the outcome, none while enabling is in flight.\<close>

definition enable_step :: "connector_env \<Rightarrow> nat \<Rightarrow> millis \<Rightarrow> connector \<Rightarrow> (enable_error + unit) option \<times> connector" where
  "enable_step E n now s =
     (if length (cn_enabling s) \<le> n then (None, s) else case cn_enabling s ! n of
        En_Load \<Rightarrow> (None, s\<lparr>cn_bindings := bindings_load (cn_bindings s), cn_enabling := (cn_enabling s)[n := En_Recover]\<rparr>)
      | En_Recover \<Rightarrow>
          (case jrun (recover (ce_journal E) now) (s\<lparr>cn_enabling := drop_nth n (cn_enabling s)\<rparr>) of
             (Inl e, s') \<Rightarrow> (Some (Inl (Enable_Journal e)), s')
           | (Inr rcv, s') \<Rightarrow>
               (Some (Inr ()), tick_begin (s'\<lparr>cn_resumable := rcv_resumable rcv, cn_stopped := False\<rparr>))))"

definition on_config_change :: "connector_env \<Rightarrow> js_value \<Rightarrow> connector \<Rightarrow> (enable_error + unit) \<times> connector" where
  "on_config_change E raw s =
     (case read_config (ce_js E) (ce_url E) raw of
        Inl e \<Rightarrow> (Inl (Enable_Config e), s)
      | Inr next \<Rightarrow>
          (case cn_config s of
             None \<Rightarrow> (Inl Config_Missing, s)
           | Some current \<Rightarrow>
               if cfg_sessionId next \<noteq> cfg_sessionId current \<or> cfg_connectorId next \<noteq> cfg_connectorId current
               then (Inl Identity_Change, s)
               else (Inr (), tick_begin (s\<lparr>cn_config := Some next\<rparr>))))"

text \<open>\<open>stop\<close>: no new work is accepted at once; the context is cleared only after the pending evidence, as \<open>flushPending\<close>
  finds it, has been flushed one command after the other (or one flush has thrown).\<close>

definition stop :: "connector \<Rightarrow> connector" where
  "stop s = (let s' = s\<lparr>cn_stopped := True\<rparr>
     in if cn_config s' = None then s'\<lparr>cn_context := False\<rparr> else s'\<lparr>cn_stops := cn_stops s' @ [St_Load]\<rparr>)"

definition stop_finished :: "nat \<Rightarrow> connector \<Rightarrow> connector" where
  "stop_finished n s = s\<lparr>cn_stops := drop_nth n (cn_stops s), cn_context := False\<rparr>"

definition stop_step :: "connector_env \<Rightarrow> nat \<Rightarrow> connector \<Rightarrow> connector" where
  "stop_step E n s =
     (if length (cn_stops s) \<le> n then s else case cn_stops s ! n of
        St_Load \<Rightarrow>
          (case jrun (pending_records (ce_journal E) 20) s of
             (Inl e, s') \<Rightarrow> stop_finished n s'
           | (Inr rs, s') \<Rightarrow>
               s'\<lparr>cn_stops := (cn_stops s')[n := St_Flush (map (\<lambda>r. cmd_commandId (rec_command r)) rs)]\<rparr>)
      | St_Flush [] \<Rightarrow> stop_finished n s
      | St_Flush (c # cs) \<Rightarrow> flush_command c (s\<lparr>cn_stops := (cn_stops s)[n := St_Wait c cs]\<rparr>)
      | St_Wait c cs \<Rightarrow>
          if map_of (cn_flushing s) c \<noteq> None then s else s\<lparr>cn_stops := (cn_stops s)[n := St_Flush cs]\<rparr>)"

text \<open>The reasons of \<open>healthCheck\<close>; the plugin is healthy when there are none. \<open>2500\<close> is the
  tolerated multiple of the heartbeat interval in milliseconds.\<close>

datatype health_reason =
  Disabled | Blocked string | Binding_Not_Synchronized | Heartbeat_Stale | Storage_Pressure rat | Last_Error string

definition heartbeat_stale :: "connector_config \<Rightarrow> millis option \<Rightarrow> millis \<Rightarrow> bool" where
  "heartbeat_stale config beat now = (case beat of None \<Rightarrow> True
     | Some t \<Rightarrow> cfg_heartbeatIntervalSeconds config * 2500 < of_int (now - t))"

definition health_check :: "connector \<Rightarrow> millis \<Rightarrow> health_reason list" where
  "health_check s now =
     (case cn_config s of
        None \<Rightarrow> [Disabled]
      | Some config \<Rightarrow>
          if cn_stopped s then [Disabled]
          else (case cn_blockedReason s of Some r \<Rightarrow> if r = [] then [] else [Blocked r] | None \<Rightarrow> [])
            @ (if bindings_current (cn_bindings s) = None then [Binding_Not_Synchronized] else [])
            @ (if heartbeat_stale config (cn_lastHeartbeatAt s) now then [Heartbeat_Stale] else [])
            @ (if cfg_storagePressureThreshold config \<le> js_storageUtilization (cn_stats s)
               then [Storage_Pressure (js_storageUtilization (cn_stats s))] else [])
            @ (case cn_lastError s of Some m \<Rightarrow> if m = [] then [] else [Last_Error m] | None \<Rightarrow> []))"

section \<open>The connector as a step system\<close>

datatype connector_event =
    E_Enable js_value
  | E_Enabling nat millis
  | E_Config js_value
  | E_Stop
  | E_Stopping nat
  | E_Crash
  | E_Ingress webhook_request
  | E_Ingesting nat millis
  | E_Sent_Hook js_value "string option" js_date js_date
  | E_Ack_Hook js_value "string option" js_date js_date
  | E_Timer
  | E_Tick millis fetch_result
  | E_Exec string millis fetch_result "js_value option"
  | E_Flush string millis fetch_result
  | E_Flush_Next

fun connector_run :: "connector_env \<Rightarrow> connector_event \<Rightarrow> connector \<Rightarrow> connector" where
  "connector_run E (E_Enable raw) s = snd (on_enable E raw s)"
| "connector_run E (E_Enabling n now) s = snd (enable_step E n now s)"
| "connector_run E (E_Config raw) s = snd (on_config_change E raw s)"
| "connector_run E E_Stop s = stop s"
| "connector_run E (E_Stopping n) s = stop_step E n s"
| "connector_run E E_Crash s = crash s"
| "connector_run E (E_Ingress req) s = snd (handle_ingress E req s)"
| "connector_run E (E_Ingesting n now) s = snd (ingress_step E n now s)"
| "connector_run E (E_Sent_Hook data session occurred now) s = snd (handle_sent_hook E data session occurred now s)"
| "connector_run E (E_Ack_Hook data session occurred now) s = snd (handle_ack_hook E data session occurred now s)"
| "connector_run E E_Timer s = tick_begin s"
| "connector_run E (E_Tick now result) s = tick_step E now result s"
| "connector_run E (E_Exec cid now result sent) s = exec_step E cid now result sent s"
| "connector_run E (E_Flush cid now result) s = flush_step E cid now result s"
| "connector_run E E_Flush_Next s = flush_next s"

definition connector_step :: "connector_env \<Rightarrow> connector_event \<Rightarrow> connector \<Rightarrow> connector \<Rightarrow> bool" where
  "connector_step E ev s s' \<longleftrightarrow> s' = connector_run E ev s"

definition connector_init :: "connector \<Rightarrow> bool" where
  "connector_init s \<longleftrightarrow> s = fresh_connector [] None 0 0 []"

end
