(* ===== verification/Step_Systems.thy ===== *)
theory Step_Systems
  imports WA_Prelude
begin

text \<open>
  Components as labelled step systems: what is reachable, the proof rule for invariants, and
  systems whose steps move along an order.
\<close>

inductive reachable :: "('s \<Rightarrow> bool) \<Rightarrow> ('l \<Rightarrow> 's \<Rightarrow> 's \<Rightarrow> bool) \<Rightarrow> 's \<Rightarrow> bool"
  for init :: "'s \<Rightarrow> bool" and step :: "'l \<Rightarrow> 's \<Rightarrow> 's \<Rightarrow> bool" where
  reach_init: "init s \<Longrightarrow> reachable init step s"
| reach_step: "reachable init step s \<Longrightarrow> step l s s' \<Longrightarrow> reachable init step s'"

inductive steps :: "('l \<Rightarrow> 's \<Rightarrow> 's \<Rightarrow> bool) \<Rightarrow> 'l list \<Rightarrow> 's \<Rightarrow> 's \<Rightarrow> bool"
  for step :: "'l \<Rightarrow> 's \<Rightarrow> 's \<Rightarrow> bool" where
  steps_nil: "steps step [] s s"
| steps_cons: "step l s s' \<Longrightarrow> steps step ls s' s'' \<Longrightarrow> steps step (l # ls) s s''"

inductive_cases steps_nilE: "steps step [] s s'"
inductive_cases steps_consE: "steps step (l # ls) s s'"
inductive_simps steps_simps: "steps step [] s s'" "steps step (l # ls) s s'"

lemma steps_append: "steps step ls s s' \<Longrightarrow> steps step ms s' s'' \<Longrightarrow> steps step (ls @ ms) s s''"
  by (induction rule: steps.induct) (auto intro: steps_cons)

lemma reachable_steps: "steps step ls s s' \<Longrightarrow> reachable init step s \<Longrightarrow> reachable init step s'"
  by (induction rule: steps.induct) (auto intro: reach_step)

locale step_system =
  fixes init :: "'s \<Rightarrow> bool" and step :: "'l \<Rightarrow> 's \<Rightarrow> 's \<Rightarrow> bool" and inv :: "'s \<Rightarrow> bool"
  assumes inv_init: "init s \<Longrightarrow> inv s"
    and inv_step: "inv s \<Longrightarrow> step l s s' \<Longrightarrow> inv s'"
begin

lemma reachable_inv: "reachable init step s \<Longrightarrow> inv s"
  by (induction rule: reachable.induct) (auto intro: inv_init inv_step)

lemma steps_inv: "steps step ls s s' \<Longrightarrow> inv s \<Longrightarrow> inv s'"
  by (induction rule: steps.induct) (auto intro: inv_step)

end

text \<open>Steps with a label in \<open>loses\<close> may leave the order.\<close>

locale ordered_system = step_system init step inv
  for init :: "'s \<Rightarrow> bool" and step :: "'l \<Rightarrow> 's \<Rightarrow> 's \<Rightarrow> bool" and inv :: "'s \<Rightarrow> bool" +
  fixes le :: "'s \<Rightarrow> 's \<Rightarrow> bool" and loses :: "'l \<Rightarrow> bool"
  assumes le_refl: "le s s"
    and le_trans: "le s s' \<Longrightarrow> le s' s'' \<Longrightarrow> le s s''"
    and step_le: "inv s \<Longrightarrow> step l s s' \<Longrightarrow> \<not> loses l \<Longrightarrow> le s s'"
begin

lemma steps_le: "steps step ls s s' \<Longrightarrow> inv s \<Longrightarrow> list_all (\<lambda>l. \<not> loses l) ls \<Longrightarrow> le s s'"
proof (induction rule: steps.induct)
  case (steps_nil s) then show ?case by (simp add: le_refl)
next
  case (steps_cons l s s' ls s'')
  then have "le s s'" "le s' s''" using step_le inv_step by (auto simp: list_all_iff)
  then show ?case by (rule le_trans)
qed

end

end
