(* ===== verification/Journal_Logic.thy ===== *)
theory Journal_Logic
  imports Journal_Operations Step_Systems
begin

text \<open>
  A program logic for the journal's methods. \<open>runs S m Q T\<close>: started on the stored data \<open>S\<close>, the
  method returns a result and stored data in \<open>Q\<close>, or throws leaving stored data in \<open>T\<close>. Since a
  storage fault may hit any call, \<open>T\<close> has to hold at every point between two calls: it is the
  crash condition of the method.
\<close>

type_synonym store = "(string \<times> stored) list"

definition runs :: "store \<Rightarrow> 'a jm \<Rightarrow> ('a \<Rightarrow> store \<Rightarrow> bool) \<Rightarrow> (store \<Rightarrow> bool) \<Rightarrow> bool" where
  "runs S m Q T \<longleftrightarrow> valid (\<lambda>s. j_store s = S) m (\<lambda>x s. Q x (j_store s)) (\<lambda>s. T (j_store s))"

lemma runsI:
  assumes "\<And>s e s'. j_store s = S \<Longrightarrow> m s = (Inl e, s') \<Longrightarrow> T (j_store s')"
    and "\<And>s x s'. j_store s = S \<Longrightarrow> m s = (Inr x, s') \<Longrightarrow> Q x (j_store s')"
  shows "runs S m Q T"
  unfolding runs_def by (rule validI) (use assms in blast)+

lemma runs_ok: "runs S m Q T \<Longrightarrow> j_store s = S \<Longrightarrow> m s = (Inr x, s') \<Longrightarrow> Q x (j_store s')"
  unfolding runs_def by (drule validD_ok) auto

lemma runs_err: "runs S m Q T \<Longrightarrow> j_store s = S \<Longrightarrow> m s = (Inl e, s') \<Longrightarrow> T (j_store s')"
  unfolding runs_def by (drule validD_err) auto

lemma runs_exit:
  assumes "runs (j_store s) m (\<lambda>_. T) T"
  shows "T (j_store (snd (m s)))"
  by (cases "m s"; cases "fst (m s)") (use assms in \<open>auto dest: runs_ok runs_err\<close>)

lemma runs_conseq:
  "runs S m Q T \<Longrightarrow> (\<And>x S'. Q x S' \<Longrightarrow> Q' x S') \<Longrightarrow> (\<And>S'. T S' \<Longrightarrow> T' S') \<Longrightarrow> runs S m Q' T'"
  unfolding runs_def by (erule valid_weaken) auto

lemma runs_post: "runs S m Q T \<Longrightarrow> (\<And>x S'. Q x S' \<Longrightarrow> Q' x S') \<Longrightarrow> runs S m Q' T"
  by (rule runs_conseq)

lemma runs_bind:
  assumes "runs S m (\<lambda>x S'. runs S' (f x) Q T) T"
  shows "runs S (fbind m f) Q T"
proof (rule runsI)
  fix s e s' assume s: "j_store s = S" and "fbind m f s = (Inl e, s')"
  from this(2) show "T (j_store s')"
    by (cases rule: fbind_cases) (use assms s in \<open>auto dest: runs_ok runs_err\<close>)
next
  fix s x s' assume s: "j_store s = S" and "fbind m f s = (Inr x, s')"
  from this(2) show "Q x (j_store s')"
    by (cases rule: fbind_cases) (use assms s in \<open>auto dest: runs_ok runs_err\<close>)
qed

lemma runs_then: "runs S m (\<lambda>_ S'. runs S' k Q T) T \<Longrightarrow> runs S (fthen m k) Q T"
  unfolding fthen_def by (rule runs_bind)

lemma runs_fok: "Q x S \<Longrightarrow> runs S (fok x) Q T"
  by (rule runsI) (auto simp: fok_def)

lemma runs_fthrow: "T S \<Longrightarrow> runs S (fthrow e) Q T"
  by (rule runsI) (auto simp: fthrow_def)

lemma runs_if: "(c \<Longrightarrow> runs S m Q T) \<Longrightarrow> (\<not> c \<Longrightarrow> runs S n Q T) \<Longrightarrow> runs S (if c then m else n) Q T"
  by simp

lemma runs_option:
  "(v = None \<Longrightarrow> runs S m Q T) \<Longrightarrow> (\<And>x. v = Some x \<Longrightarrow> runs S (n x) Q T)
     \<Longrightarrow> runs S (case v of None \<Rightarrow> m | Some x \<Rightarrow> n x) Q T"
  by (cases v) auto

subsection \<open>Computations that leave the stored data alone\<close>

lemma runs_pure:
  assumes "\<And>s. j_store (snd (m s)) = j_store s" "\<And>x. Q x S" "T S"
  shows "runs S m Q T"
  by (rule runsI) (metis assms snd_conv)+

lemma runs_uuid: "(\<And>eid. Q eid S) \<Longrightarrow> runs S (random_uuid E) Q T"
  by (rule runsI) (auto simp: random_uuid_def)

lemma runs_forget: "Q () S \<Longrightarrow> runs S (forget_race cid) Q T"
  by (rule runsI) (auto simp: forget_race_def fmodify_def)

lemma runs_track: "Q () S \<Longrightarrow> runs S (track_active_send E r) Q T"
  by (rule runsI) (auto simp: track_active_send_def fmodify_def)

lemma runs_track_or_forget: "Q () S \<Longrightarrow> runs S (track_or_forget E cid r) Q T"
  by (simp add: track_or_forget_def runs_forget runs_track)

lemma runs_fget: "(\<And>x. Q x S) \<Longrightarrow> runs S (fget f) Q T"
  by (rule runsI) (auto simp: fget_def)

subsection \<open>Storage calls\<close>

lemma runs_get: "Q (map_of S k) S \<Longrightarrow> T S \<Longrightarrow> runs S (storage_get E k) Q T"
  by (rule runsI) (auto simp: storage_get_def storage_call_def Let_def split: if_splits)

lemma runs_set: "Q () (AList.update k v S) \<Longrightarrow> T S \<Longrightarrow> runs S (storage_set E k v) Q T"
  by (rule runsI) (auto simp: storage_set_def storage_call_def Let_def split: if_splits)

lemma runs_delete: "Q () (AList.delete k S) \<Longrightarrow> T S \<Longrightarrow> runs S (storage_delete E k) Q T"
  by (rule runsI) (auto simp: storage_delete_def storage_call_def Let_def split: if_splits)

lemma runs_list: "Q (filter (starts_with p) (map fst S)) S \<Longrightarrow> T S \<Longrightarrow> runs S (storage_list E p) Q T"
  by (rule runsI) (auto simp: storage_list_def storage_call_def Let_def split: if_splits)

subsection \<open>Loops\<close>

lemma runs_ffold:
  assumes "\<And>done x rest a S. xs = done @ x # rest \<Longrightarrow> I done a S
             \<Longrightarrow> runs S (f x a) (\<lambda>a' S'. I (done @ [x]) a' S') T"
    and "I [] a S"
  shows "runs S (ffold f xs a) (I xs) T"
proof -
  have "\<And>done a S. ys @ zs = xs \<Longrightarrow> I ys a S \<Longrightarrow> runs S (ffold f zs a) (I xs) T" for ys zs
  proof (induction zs arbitrary: ys a S)
    case Nil then show ?case by (auto intro: runs_fok)
  next
    case (Cons z zs)
    have "runs S (f z a) (\<lambda>a' S'. I (ys @ [z]) a' S') T"
      using assms(1) [of ys z zs a S] Cons.prems by auto
    then show ?case
      unfolding ffold.simps
      by (intro runs_bind, rule runs_post) (use Cons.IH [of "ys @ [z]"] Cons.prems in auto)
  qed
  from this [of "[]" xs] assms(2) show ?thesis by auto
qed

lemma runs_fiter:
  assumes "\<And>x S. x \<in> set xs \<Longrightarrow> I S \<Longrightarrow> runs S (f x) (\<lambda>_. I) T" and "I S"
  shows "runs S (fiter f xs) (\<lambda>_. I) T"
  unfolding fiter_def
  by (rule runs_ffold [where I = "\<lambda>_ _. I"]) (use assms in auto)

text \<open>The rules that decompose a method, in the order of its statements.\<close>

lemmas runs_rules = runs_bind runs_then runs_fok runs_fthrow runs_if runs_option runs_uuid runs_forget
  runs_track runs_track_or_forget runs_get runs_set runs_delete runs_list

end
