(* ===== verification/Journal_Invariant.thy ===== *)
theory Journal_Invariant
  imports Journal_Logic
begin

text \<open>
  The well-formedness of the stored journal and the order in which its records may progress,
  with the effect of each kind of storage write on both.
\<close>

section \<open>The indices\<close>

text \<open>An index is a dictionary cut in shards: each key has a slot of the storage, and the slot
  holds a wrapped dictionary. The laws say how a reader sees a slot.\<close>

locale sharded_index =
  fixes slot :: "string \<Rightarrow> string"
    and wrap :: "(string \<times> 'v) list \<Rightarrow> stored"
    and look :: "store \<Rightarrow> string \<Rightarrow> 'v option"
  assumes look_absent: "map_of S (slot k) = None \<Longrightarrow> look S k = None"
    and look_wrapped: "map_of S (slot k) = Some (wrap b) \<Longrightarrow> look S k = map_of b k"
    and look_local: "map_of S (slot k) = map_of S' (slot k) \<Longrightarrow> look S k = look S' k"
begin

definition holds_shard :: "store \<Rightarrow> string \<Rightarrow> (string \<times> 'v) list \<Rightarrow> bool" where
  "holds_shard S k b \<longleftrightarrow> map_of S (slot k) = Some (wrap b) \<or> map_of S (slot k) = None \<and> b = []"

lemma look_shard: "holds_shard S k b \<Longrightarrow> look S k = map_of b k"
  by (auto simp: holds_shard_def look_wrapped look_absent)

lemma look_shard_other: "holds_shard S k b \<Longrightarrow> slot k' = slot k \<Longrightarrow> look S k' = map_of b k'"
  by (auto simp: holds_shard_def look_wrapped look_absent)

lemma look_elsewhere: "slot k \<noteq> key \<Longrightarrow> look (AList.update key x S) k = look S k"
  by (rule look_local) simp

lemma look_elsewhere_delete: "slot k \<noteq> key \<Longrightarrow> look (AList.delete key S) k = look S k"
  by (rule look_local) simp

lemma look_insert:
  assumes "holds_shard S k b"
  shows "look (AList.update (slot k) (wrap (AList.update k v b)) S) = (look S)(k \<mapsto> v)"
proof
  fix k'
  show "look (AList.update (slot k) (wrap (AList.update k v b)) S) k' = ((look S)(k \<mapsto> v)) k'"
  proof (cases "slot k' = slot k")
    case True
    then show ?thesis
      by (subst look_wrapped [where b = "AList.update k v b"]) (use look_shard_other [OF assms] in auto)
  next
    case False
    then show ?thesis by (subst look_elsewhere) auto
  qed
qed

lemma look_remove:
  assumes "holds_shard S k b"
  shows "look (AList.update (slot k) (wrap (AList.delete k b)) S) = (look S)(k := None)"
proof
  fix k'
  show "look (AList.update (slot k) (wrap (AList.delete k b)) S) k' = ((look S)(k := None)) k'"
  proof (cases "slot k' = slot k")
    case True
    then show ?thesis
      by (subst look_wrapped [where b = "AList.delete k b"]) (use look_shard_other [OF assms] in auto)
  next
    case False
    then show ?thesis by (subst look_elsewhere) auto
  qed
qed

lemma look_remove_last:
  assumes "holds_shard S k b" and "AList.delete k b = []"
  shows "look (AList.delete (slot k) S) = (look S)(k := None)"
proof
  fix k'
  have "map_of b k' = None" if "k' \<noteq> k"
    using that assms(2) map_of_delete [of k b] by (metis fun_upd_other map_of.simps(1))
  then show "look (AList.delete (slot k) S) k' = ((look S)(k := None)) k'"
    using look_shard_other [OF assms(1), of k'] look_absent [of "AList.delete (slot k) S" k']
      look_elsewhere_delete [of k' "slot k" S]
    by (cases "slot k' = slot k") auto
qed

end

definition ptr_of :: "journal_env \<Rightarrow> store \<Rightarrow> string \<Rightarrow> pointer option" where
  "ptr_of E S cid = (case map_of S (pointer_key E cid) of Some (Pointer_Bucket b) \<Rightarrow> map_of b cid | _ \<Rightarrow> None)"

definition msg_of :: "journal_env \<Rightarrow> store \<Rightarrow> string \<Rightarrow> message_pointer option" where
  "msg_of E S mid = (case map_of S (message_key E mid) of Some (Message_Bucket b) \<Rightarrow> map_of b mid | _ \<Rightarrow> None)"

definition orphan_of :: "journal_env \<Rightarrow> store \<Rightarrow> string \<Rightarrow> orphan_ack option" where
  "orphan_of E S mid = (case map_of S (orphan_key E mid) of Some (Orphan_Bucket b) \<Rightarrow> map_of b mid | _ \<Rightarrow> None)"

definition lookup_rec :: "store \<Rightarrow> string \<Rightarrow> string \<Rightarrow> command_record option" where
  "lookup_rec S key cid = (case map_of S key of Some (Command_Bucket b) \<Rightarrow> map_of b cid | _ \<Rightarrow> None)"

interpretation pix: sharded_index "pointer_key E" Pointer_Bucket "ptr_of E" for E
  by unfold_locales (auto simp: ptr_of_def)

interpretation mix: sharded_index "message_key E" Message_Bucket "msg_of E" for E
  by unfold_locales (auto simp: msg_of_def)

interpretation oix: sharded_index "orphan_key E" Orphan_Bucket "orphan_of E" for E
  by unfold_locales (auto simp: orphan_of_def)

lemma lookup_rec_update:
  "lookup_rec (AList.update k (Command_Bucket b) S) k' cid = (if k' = k then map_of b cid else lookup_rec S k' cid)"
  by (simp add: lookup_rec_def)

lemma lookup_rec_delete: "lookup_rec (AList.delete k S) k' cid = (if k' = k then None else lookup_rec S k' cid)"
  by (simp add: lookup_rec_def)

section \<open>Well-formed records\<close>

definition kinds :: "command_record \<Rightarrow> evidence_kind list" where
  "kinds r = map (\<lambda>e. ev_kind (je_evidence e)) (rec_evidence r)"

definition is_ack :: "evidence_kind \<Rightarrow> bool" where
  "is_ack k \<longleftrightarrow> k \<in> {ACK_SENT, ACK_DELIVERED, ACK_READ, ACK_FAILED}"

fun ack_follows :: "evidence_kind \<Rightarrow> evidence_kind \<Rightarrow> bool" where
  "ack_follows ACK_SENT k = (k \<in> {ACK_DELIVERED, ACK_READ, ACK_FAILED})"
| "ack_follows ACK_DELIVERED k = (k = ACK_READ)"
| "ack_follows ACK_FAILED k = (k \<in> {ACK_SENT, ACK_DELIVERED, ACK_READ})"
| "ack_follows _ k = False"

definition ack_history :: "evidence_kind list \<Rightarrow> bool" where
  "ack_history ks \<longleftrightarrow> list_all is_ack ks \<and> sorted_wrt ack_follows ks"

fun state_history :: "journal_status \<Rightarrow> evidence_kind list \<Rightarrow> bool" where
  "state_history RECEIVED ks = (ks = [COMMAND_RECEIVED])"
| "state_history SEND_STARTED ks = (ks = [COMMAND_RECEIVED, EV_SEND_STARTED])"
| "state_history SEND_REJECTED ks = (ks = [COMMAND_RECEIVED, EV_SEND_REJECTED])"
| "state_history SEND_INDETERMINATE ks = (ks = [COMMAND_RECEIVED, EV_SEND_INDETERMINATE]
     \<or> ks = [COMMAND_RECEIVED, EV_SEND_STARTED, EV_SEND_INDETERMINATE])"
| "state_history SEND_ACCEPTED ks = (take 3 ks = [COMMAND_RECEIVED, EV_SEND_STARTED, EV_SEND_ACCEPTED]
     \<and> ack_history (drop 3 ks))"

definition evidence_of :: "command_record \<Rightarrow> journal_evidence \<Rightarrow> bool" where
  "evidence_of r e \<longleftrightarrow> ev_commandId (je_evidence e) = cmd_commandId (rec_command r)
     \<and> ev_attemptId (je_evidence e) = cmd_attemptId (rec_command r)
     \<and> ev_sessionId (je_evidence e) = cmd_sessionId (rec_command r)
     \<and> ev_bindingGeneration (je_evidence e) = cmd_bindingGeneration (rec_command r)
     \<and> ev_payloadSha256 (je_evidence e) = rec_payloadSha256 r"

definition message_id_ok :: "command_record \<Rightarrow> bool" where
  "message_id_ok r \<longleftrightarrow> (case rec_openwaMessageId r of
      None \<Rightarrow> rec_state r \<noteq> SEND_ACCEPTED | Some mid \<Rightarrow> rec_state r = SEND_ACCEPTED \<and> mid \<noteq> [])"

definition record_ok :: "command_record \<Rightarrow> bool" where
  "record_ok r \<longleftrightarrow> map (\<lambda>e. ev_sequence (je_evidence e)) (rec_evidence r) = [1..<Suc (length (rec_evidence r))]
     \<and> state_history (rec_state r) (kinds r) \<and> list_all (evidence_of r) (rec_evidence r)
     \<and> message_id_ok r"

section \<open>Progress of a record\<close>

text \<open>What happened to an evidence entry is its delivery bookkeeping only; delivery is final.\<close>

definition entry_le :: "journal_evidence \<Rightarrow> journal_evidence \<Rightarrow> bool" where
  "entry_le e e' \<longleftrightarrow> je_evidence e' = je_evidence e \<and> je_attempts e \<le> je_attempts e'
     \<and> (je_deliveredAt e \<noteq> None \<longrightarrow> je_deliveredAt e' = je_deliveredAt e)"

fun status_le :: "journal_status \<Rightarrow> journal_status \<Rightarrow> bool" where
  "status_le RECEIVED _ = True"
| "status_le SEND_STARTED st = (st \<in> {SEND_STARTED, SEND_ACCEPTED, SEND_INDETERMINATE})"
| "status_le st st' = (st = st')"

definition rec_le :: "command_record \<Rightarrow> command_record \<Rightarrow> bool" where
  "rec_le r r' \<longleftrightarrow> rec_command r' = rec_command r \<and> rec_payloadSha256 r' = rec_payloadSha256 r
     \<and> rec_webhookId r' = rec_webhookId r \<and> rec_createdAt r' = rec_createdAt r
     \<and> status_le (rec_state r) (rec_state r')
     \<and> (rec_openwaMessageId r \<noteq> None \<longrightarrow> rec_openwaMessageId r' = rec_openwaMessageId r)
     \<and> (\<exists>new. list_all2 entry_le (rec_evidence r @ new) (rec_evidence r'))"

lemma status_le_refl [simp]: "status_le st st"
  by (cases st) auto

lemma status_le_trans: "status_le a b \<Longrightarrow> status_le b c \<Longrightarrow> status_le a c"
  by (cases a; cases b) auto

lemma status_le_terminal: "is_terminal a \<Longrightarrow> status_le a b \<Longrightarrow> b = a"
  by (cases a) (auto simp: is_terminal_def)

lemma entry_le_refl [simp]: "entry_le e e"
  by (simp add: entry_le_def)

lemma entry_le_trans: "entry_le a b \<Longrightarrow> entry_le b c \<Longrightarrow> entry_le a c"
  by (auto simp: entry_le_def)

lemma entries_le_refl [simp]: "list_all2 entry_le es es"
  by (rule list_all2_refl) simp

lemma rec_le_refl [simp]: "rec_le r r"
  unfolding rec_le_def by (auto intro: exI [of _ "[]"])

lemma rec_le_trans: assumes "rec_le a b" "rec_le b c" shows "rec_le a c"
proof -
  obtain m n where m: "list_all2 entry_le (rec_evidence a @ m) (rec_evidence b)"
    and n: "list_all2 entry_le (rec_evidence b @ n) (rec_evidence c)"
    using assms unfolding rec_le_def by blast
  have "list_all2 entry_le ((rec_evidence a @ m) @ n) (rec_evidence b @ n)"
    by (rule list_all2_appendI [OF m]) simp
  then have "list_all2 entry_le (rec_evidence a @ (m @ n)) (rec_evidence c)"
    using list_all2_trans [of entry_le entry_le entry_le, OF entry_le_trans _ n] by simp
  then show ?thesis
    using assms status_le_trans unfolding rec_le_def by (auto intro!: exI [of _ "m @ n"])
qed

end
