(* ===== verification/Journal_Wf.thy ===== *)
theory Journal_Wf
  imports Journal_Invariant
begin

text \<open>
  Well-formedness of the stored journal, and what each kind of write does to it. The invariant is
  meant to hold at every point where a storage call can fail, not only between methods.
\<close>

section \<open>The invariant\<close>

definition bucket_ok :: "journal_env \<Rightarrow> string \<Rightarrow> (string \<times> command_record) list \<Rightarrow> bool" where
  "bucket_ok E key b \<longleftrightarrow> distinct (map fst b) \<and>
     (\<forall>(cid, r) \<in> set b. cmd_commandId (rec_command r) = cid \<and> command_bucket_key E (rec_command r) = key
        \<and> record_ok r)"

text \<open>What a key of the storage may hold: the journal's namespaces do not mix.\<close>

fun entry_ok :: "journal_env \<Rightarrow> string \<Rightarrow> stored \<Rightarrow> bool" where
  "entry_ok E k (Command_Bucket b) = (starts_with command_prefix k \<and> bucket_ok E k b)"
| "entry_ok E k (Pointer_Bucket b) = (starts_with pointer_prefix k \<and> distinct (map fst b))"
| "entry_ok E k (Message_Bucket b) = (starts_with message_prefix k \<and> distinct (map fst b))"
| "entry_ok E k (Orphan_Bucket b) = (starts_with orphan_prefix k \<and> distinct (map fst b))"
| "entry_ok E k Foreign = (\<not> starts_with journal_prefix k)"

definition ptrs_sound :: "journal_env \<Rightarrow> store \<Rightarrow> bool" where
  "ptrs_sound E S \<longleftrightarrow> (\<forall>cid p. ptr_of E S cid = Some p \<longrightarrow>
     (\<exists>r. lookup_rec S (ptr_bucketKey p) cid = Some r \<and> rec_payloadSha256 r = ptr_payloadSha256 p))"

definition msgs_sound :: "journal_env \<Rightarrow> store \<Rightarrow> bool" where
  "msgs_sound E S \<longleftrightarrow> (\<forall>mid p. msg_of E S mid = Some p \<longrightarrow>
     (\<exists>key r. lookup_rec S key (mp_commandId p) = Some r \<and> rec_openwaMessageId r = Some mid
        \<and> cmd_sessionId (rec_command r) = mp_sessionId p))"

definition store_wf :: "journal_env \<Rightarrow> store \<Rightarrow> bool" where
  "store_wf E S \<longleftrightarrow> distinct (map fst S) \<and> (\<forall>(k, v) \<in> set S. entry_ok E k v)
     \<and> ptrs_sound E S \<and> msgs_sound E S"

text \<open>\<open>store_le gone S S'\<close>: every record of \<open>S\<close> is in \<open>S'\<close>, progressed, unless its progressed form
  was one that may go.\<close>

definition store_le :: "(command_record \<Rightarrow> bool) \<Rightarrow> store \<Rightarrow> store \<Rightarrow> bool" where
  "store_le gone S S' \<longleftrightarrow> (\<forall>key cid r. lookup_rec S key cid = Some r \<longrightarrow>
     (\<exists>r'. rec_le r r' \<and> (lookup_rec S' key cid = Some r' \<or> gone r')))"

definition nothing_goes :: "command_record \<Rightarrow> bool" where
  "nothing_goes r = False"

lemma store_le_refl [simp]: "store_le gone S S"
  unfolding store_le_def using rec_le_refl by blast

lemma store_le_trans: "store_le gone S S' \<Longrightarrow> store_le gone S' S'' \<Longrightarrow> store_le gone S S''"
  unfolding store_le_def by (meson rec_le_trans)

lemma store_wf_entry: "store_wf E S \<Longrightarrow> map_of S k = Some v \<Longrightarrow> entry_ok E k v"
  unfolding store_wf_def by (auto dest: map_of_SomeD)

section \<open>The namespaces\<close>

lemma starts_with_common:
  assumes "starts_with p k" "starts_with q k" "length p \<le> length q"
  shows "starts_with p q"
proof -
  have "take (length p) q = take (length p) (take (length q) k)"
    using assms(2) by (simp add: starts_with_def)
  also have "\<dots> = p"
    using assms(1,3) by (simp add: starts_with_def min_absorb1)
  finally show ?thesis by (simp add: starts_with_def)
qed

lemma starts_withE: assumes "starts_with p q" obtains t where "q = p @ t"
  using assms append_take_drop_id [of "length p" q] unfolding starts_with_def by metis

lemma starts_with_trans: assumes "starts_with p q" "starts_with q k" shows "starts_with p k"
proof -
  obtain t u where "q = p @ t" "k = q @ u" using assms by (auto elim!: starts_withE)
  then show ?thesis by simp
qed

lemmas prefix_defs = command_prefix_def pointer_prefix_def message_prefix_def orphan_prefix_def journal_prefix_def

lemma prefixes_apart:
  "starts_with command_prefix k \<Longrightarrow> \<not> starts_with pointer_prefix k"
  "starts_with command_prefix k \<Longrightarrow> \<not> starts_with message_prefix k"
  "starts_with command_prefix k \<Longrightarrow> \<not> starts_with orphan_prefix k"
  "starts_with pointer_prefix k \<Longrightarrow> \<not> starts_with message_prefix k"
  "starts_with pointer_prefix k \<Longrightarrow> \<not> starts_with orphan_prefix k"
  "starts_with message_prefix k \<Longrightarrow> \<not> starts_with orphan_prefix k"
  using starts_with_common [of pointer_prefix k command_prefix] starts_with_common [of message_prefix k command_prefix]
    starts_with_common [of orphan_prefix k command_prefix] starts_with_common [of pointer_prefix k message_prefix]
    starts_with_common [of pointer_prefix k orphan_prefix] starts_with_common [of orphan_prefix k message_prefix]
  by (auto simp: prefix_defs starts_with_def)

lemma prefixes_journal:
  "starts_with command_prefix k \<Longrightarrow> starts_with journal_prefix k"
  "starts_with pointer_prefix k \<Longrightarrow> starts_with journal_prefix k"
  "starts_with message_prefix k \<Longrightarrow> starts_with journal_prefix k"
  "starts_with orphan_prefix k \<Longrightarrow> starts_with journal_prefix k"
  using starts_with_trans [of journal_prefix command_prefix k] starts_with_trans [of journal_prefix pointer_prefix k]
    starts_with_trans [of journal_prefix message_prefix k] starts_with_trans [of journal_prefix orphan_prefix k]
  by (auto simp: prefix_defs starts_with_def)

lemma key_namespaces [simp]:
  "starts_with pointer_prefix (pointer_key E cid)"
  "starts_with message_prefix (message_key E mid)"
  "starts_with orphan_prefix (orphan_key E mid)"
  "starts_with command_prefix (command_bucket_key E c)"
  by (simp_all add: pointer_key_def message_key_def orphan_key_def command_bucket_key_def)

lemma keys_differ:
  "starts_with command_prefix k \<Longrightarrow> pointer_key E cid \<noteq> k"
  "starts_with command_prefix k \<Longrightarrow> message_key E mid \<noteq> k"
  "starts_with orphan_prefix k \<Longrightarrow> pointer_key E cid \<noteq> k"
  "starts_with orphan_prefix k \<Longrightarrow> message_key E mid \<noteq> k"
  "pointer_key E cid \<noteq> message_key E mid"
  "message_key E mid \<noteq> pointer_key E cid"
  using prefixes_apart key_namespaces by metis+

lemma command_slot:
  assumes "store_wf E S" "starts_with command_prefix k" "map_of S k = Some v"
  obtains b where "v = Command_Bucket b" "bucket_ok E k b"
  using store_wf_entry [OF assms(1,3)] assms(2) prefixes_apart prefixes_journal by (cases v) auto

lemma pointer_slot:
  assumes "store_wf E S" "starts_with pointer_prefix k" "map_of S k = Some v"
  obtains b where "v = Pointer_Bucket b" "distinct (map fst b)"
  using store_wf_entry [OF assms(1,3)] assms(2) prefixes_apart prefixes_journal by (cases v) auto

lemma message_slot:
  assumes "store_wf E S" "starts_with message_prefix k" "map_of S k = Some v"
  obtains b where "v = Message_Bucket b" "distinct (map fst b)"
  using store_wf_entry [OF assms(1,3)] assms(2) prefixes_apart prefixes_journal by (cases v) auto

lemma orphan_slot:
  assumes "store_wf E S" "starts_with orphan_prefix k" "map_of S k = Some v"
  obtains b where "v = Orphan_Bucket b" "distinct (map fst b)"
  using store_wf_entry [OF assms(1,3)] assms(2) prefixes_apart prefixes_journal by (cases v) auto

lemma lookup_recD:
  assumes "store_wf E S" "lookup_rec S k cid = Some r"
  shows "starts_with command_prefix k" "cmd_commandId (rec_command r) = cid"
    "command_bucket_key E (rec_command r) = k" "record_ok r"
proof -
  obtain b where b: "map_of S k = Some (Command_Bucket b)" "map_of b cid = Some r"
    using assms(2) by (auto simp: lookup_rec_def split: option.splits stored.splits)
  then have "entry_ok E k (Command_Bucket b)" using assms(1) by (blast dest: store_wf_entry)
  then show "starts_with command_prefix k" "cmd_commandId (rec_command r) = cid"
    "command_bucket_key E (rec_command r) = k" "record_ok r"
    using map_of_SomeD [OF b(2)] by (auto simp: bucket_ok_def)
qed

section \<open>Writes\<close>

lemma distinct_fst_update: "distinct (map fst S) \<Longrightarrow> distinct (map fst (AList.update k v S))"
  by (rule distinct_update)

lemma wf_update:
  assumes "store_wf E S" "entry_ok E k v" "ptrs_sound E (AList.update k v S)" "msgs_sound E (AList.update k v S)"
  shows "store_wf E (AList.update k v S)"
  using assms set_update_subset [of k v S] unfolding store_wf_def by (fastforce intro: distinct_fst_update)

lemma wf_delete:
  assumes "store_wf E S" "ptrs_sound E (AList.delete k S)" "msgs_sound E (AList.delete k S)"
  shows "store_wf E (AList.delete k S)"
  using assms set_delete_subset [of k S] unfolding store_wf_def by (blast intro: distinct_delete_fst)

lemma lookup_rec_other:
  assumes "store_wf E S" "\<not> starts_with command_prefix k" "\<And>b. v \<noteq> Command_Bucket b"
  shows "lookup_rec (AList.update k v S) = lookup_rec S" "lookup_rec (AList.delete k S) = lookup_rec S"
proof -
  have "lookup_rec S k cid = None" for cid
    using lookup_recD(1) [OF assms(1), of k cid] assms(2) by fastforce
  then show "lookup_rec (AList.update k v S) = lookup_rec S" "lookup_rec (AList.delete k S) = lookup_rec S"
    using assms(3) by (auto simp: lookup_rec_def fun_eq_iff split: stored.splits)
qed

definition unindexed :: "journal_env \<Rightarrow> store \<Rightarrow> string \<Rightarrow> command_record \<Rightarrow> bool" where
  "unindexed E S cid r \<longleftrightarrow> ptr_of E S cid = None
     \<and> (\<forall>mid. rec_openwaMessageId r = Some mid \<longrightarrow> msg_of E S mid = None)"

lemma sound_transfer:
  assumes wf: "store_wf E S" and same: "ptr_of E S' = ptr_of E S" "msg_of E S' = msg_of E S"
    and keep: "\<And>key cid r. lookup_rec S key cid = Some r \<Longrightarrow>
       (\<exists>r'. rec_le r r' \<and> lookup_rec S' key cid = Some r') \<or> (gone r \<and> unindexed E S cid r)"
  shows "ptrs_sound E S'" "msgs_sound E S'" "store_le gone S S'"
proof -
  show "ptrs_sound E S'"
    unfolding ptrs_sound_def same
  proof (intro allI impI)
    fix cid p assume p: "ptr_of E S cid = Some p"
    then obtain r where "lookup_rec S (ptr_bucketKey p) cid = Some r" "rec_payloadSha256 r = ptr_payloadSha256 p"
      using wf unfolding store_wf_def ptrs_sound_def by blast
    then show "\<exists>r. lookup_rec S' (ptr_bucketKey p) cid = Some r \<and> rec_payloadSha256 r = ptr_payloadSha256 p"
      using keep [of "ptr_bucketKey p" cid r] p by (auto simp: unindexed_def rec_le_def)
  qed
  show "msgs_sound E S'"
    unfolding msgs_sound_def same
  proof (intro allI impI)
    fix mid p assume p: "msg_of E S mid = Some p"
    then obtain key r where r: "lookup_rec S key (mp_commandId p) = Some r" "rec_openwaMessageId r = Some mid"
      "cmd_sessionId (rec_command r) = mp_sessionId p"
      using wf unfolding store_wf_def msgs_sound_def by blast
    then have "\<not> unindexed E S (mp_commandId p) r" using p by (auto simp: unindexed_def)
    then obtain r' where "rec_le r r'" "lookup_rec S' key (mp_commandId p) = Some r'"
      using keep [OF r(1)] by blast
    then show "\<exists>key r. lookup_rec S' key (mp_commandId p) = Some r \<and> rec_openwaMessageId r = Some mid
        \<and> cmd_sessionId (rec_command r) = mp_sessionId p"
      using r by (intro exI [of _ key] exI [of _ r']) (auto simp: rec_le_def)
  qed
  show "store_le gone S S'"
    unfolding store_le_def using keep rec_le_refl by blast
qed

text \<open>A command bucket is rewritten: each of its records stays, progressed, or has lost its index
  entries before.\<close>

definition bucket_step ::
  "(command_record \<Rightarrow> bool) \<Rightarrow> journal_env \<Rightarrow> store \<Rightarrow> string \<Rightarrow> (string \<times> command_record) list \<Rightarrow> bool" where
  "bucket_step gone E S key b \<longleftrightarrow> (\<forall>cid r. lookup_rec S key cid = Some r \<longrightarrow>
     (\<exists>r'. rec_le r r' \<and> map_of b cid = Some r') \<or> (gone r \<and> unindexed E S cid r))"

lemma index_other:
  assumes "starts_with command_prefix key \<or> starts_with orphan_prefix key"
  shows "ptr_of E (AList.update key v S) = ptr_of E S" "msg_of E (AList.update key v S) = msg_of E S"
    "ptr_of E (AList.delete key S) = ptr_of E S" "msg_of E (AList.delete key S) = msg_of E S"
  using assms keys_differ by (auto simp: fun_eq_iff pix.look_elsewhere mix.look_elsewhere
      pix.look_elsewhere_delete mix.look_elsewhere_delete)

lemma write_bucket:
  assumes wf: "store_wf E S" and key: "starts_with command_prefix key" and b: "bucket_ok E key b"
    and step: "bucket_step gone E S key b"
  shows "store_wf E (AList.update key (Command_Bucket b) S)"
    and "store_le gone S (AList.update key (Command_Bucket b) S)"
proof -
  let ?S = "AList.update key (Command_Bucket b) S"
  have keep: "(\<exists>r'. rec_le r r' \<and> lookup_rec ?S k cid = Some r') \<or> (gone r \<and> unindexed E S cid r)"
    if "lookup_rec S k cid = Some r" for k cid r
    using that step rec_le_refl by (cases "k = key") (auto simp: lookup_rec_update bucket_step_def)
  note transfer = sound_transfer [OF wf, of ?S, OF _ _ keep]
  have same: "ptr_of E ?S = ptr_of E S" "msg_of E ?S = msg_of E S" using key by (simp_all add: index_other)
  show "store_wf E ?S" using b key by (intro wf_update [OF wf] transfer same) auto
  show "store_le gone S ?S" by (rule transfer) (auto simp: same)
qed

lemma remove_bucket:
  assumes wf: "store_wf E S" and key: "starts_with command_prefix key"
    and step: "bucket_step gone E S key []"
  shows "store_wf E (AList.delete key S)" and "store_le gone S (AList.delete key S)"
proof -
  let ?S = "AList.delete key S"
  have keep: "(\<exists>r'. rec_le r r' \<and> lookup_rec ?S k cid = Some r') \<or> (gone r \<and> unindexed E S cid r)"
    if "lookup_rec S k cid = Some r" for k cid r
    using that step rec_le_refl by (cases "k = key") (auto simp: lookup_rec_delete bucket_step_def)
  note transfer = sound_transfer [OF wf, of ?S, OF _ _ keep]
  have same: "ptr_of E ?S = ptr_of E S" "msg_of E ?S = msg_of E S" using key by (simp_all add: index_other)
  show "store_wf E ?S" by (intro wf_delete [OF wf] transfer same) auto
  show "store_le gone S ?S" by (rule transfer) (auto simp: same)
qed

text \<open>Writes that leave every command bucket as it is.\<close>

definition same_commands :: "store \<Rightarrow> store \<Rightarrow> bool" where
  "same_commands S S' \<longleftrightarrow> lookup_rec S' = lookup_rec S
     \<and> (\<forall>k. starts_with command_prefix k \<longrightarrow> map_of S' k = map_of S k)"

lemma same_commands_refl [simp]: "same_commands S S"
  by (simp add: same_commands_def)

lemma same_commands_trans: "same_commands S S' \<Longrightarrow> same_commands S' S'' \<Longrightarrow> same_commands S S''"
  by (simp add: same_commands_def)

lemma same_commands_le: "same_commands S S' \<Longrightarrow> store_le gone S S'"
  unfolding same_commands_def store_le_def using rec_le_refl by metis

lemma same_commands_update:
  assumes "store_wf E S" "\<not> starts_with command_prefix k" "\<And>b. v \<noteq> Command_Bucket b"
  shows "same_commands S (AList.update k v S)" "same_commands S (AList.delete k S)"
  using lookup_rec_other [OF assms] assms(2) by (auto simp: same_commands_def)

lemma write_orphans:
  assumes wf: "store_wf E S" and key: "starts_with orphan_prefix key" and b: "distinct (map fst b)"
  shows "store_wf E (AList.update key (Orphan_Bucket b) S)" "store_wf E (AList.delete key S)"
    and "same_commands S (AList.update key (Orphan_Bucket b) S)" "same_commands S (AList.delete key S)"
proof -
  have n: "\<not> starts_with command_prefix key" using key prefixes_apart by blast
  note other = lookup_rec_other [OF wf n, of "Orphan_Bucket b"] index_other [of key E]
  show "store_wf E (AList.update key (Orphan_Bucket b) S)"
    using wf key b other by (intro wf_update) (auto simp: store_wf_def ptrs_sound_def msgs_sound_def)
  show "store_wf E (AList.delete key S)"
    using wf key b other by (intro wf_delete) (auto simp: store_wf_def ptrs_sound_def msgs_sound_def)
  show "same_commands S (AList.update key (Orphan_Bucket b) S)" "same_commands S (AList.delete key S)"
    using same_commands_update [OF wf n] by auto
qed

lemma write_pointers:
  assumes wf: "store_wf E S" and key: "starts_with pointer_prefix key" and b: "distinct (map fst b)"
    and S': "S' = AList.update key (Pointer_Bucket b) S \<or> S' = AList.delete key S"
    and sound: "\<And>cid p. ptr_of E S' cid = Some p \<Longrightarrow>
      \<exists>r. lookup_rec S (ptr_bucketKey p) cid = Some r \<and> rec_payloadSha256 r = ptr_payloadSha256 p"
  shows "store_wf E S'" and "same_commands S S'" and "msg_of E S' = msg_of E S"
proof -
  have n: "\<not> starts_with command_prefix key" "\<And>mid. message_key E mid \<noteq> key"
    using key prefixes_apart key_namespaces(2) by metis+
  show same: "same_commands S S'" using same_commands_update [OF wf n(1)] S' by auto
  show msg: "msg_of E S' = msg_of E S"
    using S' n(2) by (auto simp: fun_eq_iff mix.look_elsewhere mix.look_elsewhere_delete)
  have "ptrs_sound E S'" "msgs_sound E S'"
    using sound same wf unfolding ptrs_sound_def same_commands_def store_wf_def msgs_sound_def msg by auto
  then show "store_wf E S'" using S' wf_update [OF wf] wf_delete [OF wf] key b by fastforce
qed

lemma write_messages:
  assumes wf: "store_wf E S" and key: "starts_with message_prefix key" and b: "distinct (map fst b)"
    and S': "S' = AList.update key (Message_Bucket b) S \<or> S' = AList.delete key S"
    and sound: "\<And>mid p. msg_of E S' mid = Some p \<Longrightarrow>
      \<exists>k r. lookup_rec S k (mp_commandId p) = Some r \<and> rec_openwaMessageId r = Some mid
        \<and> cmd_sessionId (rec_command r) = mp_sessionId p"
  shows "store_wf E S'" and "same_commands S S'" and "ptr_of E S' = ptr_of E S"
proof -
  have n: "\<not> starts_with command_prefix key" "\<And>mid. pointer_key E mid \<noteq> key"
    using key prefixes_apart key_namespaces(1) by metis+
  show same: "same_commands S S'" using same_commands_update [OF wf n(1)] S' by auto
  show ptr: "ptr_of E S' = ptr_of E S"
    using S' n(2) by (auto simp: fun_eq_iff pix.look_elsewhere pix.look_elsewhere_delete)
  have "msgs_sound E S'" using sound same unfolding msgs_sound_def same_commands_def by simp
  moreover have "ptrs_sound E S'"
    using same wf unfolding ptrs_sound_def same_commands_def store_wf_def ptr by auto
  ultimately show "store_wf E S'" using S' wf_update [OF wf] wf_delete [OF wf] key b by fastforce
qed

end
