(* ===== verification/Journal_Safety.thy ===== *)
theory Journal_Safety
  imports Journal_Wf
begin

text \<open>
  Every method of the journal keeps the invariant and only lets records progress, at its return, at
  each exception and at each point where the process may die between two storage calls.
\<close>

text \<open>Index entries are never dropped or redirected by a method that removes no records.\<close>

definition ptr_grows :: "journal_env \<Rightarrow> (command_record \<Rightarrow> bool) \<Rightarrow> store \<Rightarrow> store \<Rightarrow> bool" where
  "ptr_grows E gone S S' \<longleftrightarrow> (gone = nothing_goes \<longrightarrow>
     (\<forall>c p. ptr_of E S c = Some p \<longrightarrow> ptr_of E S' c = Some p))"

lemma ptr_grows_eq: "ptr_of E S' = ptr_of E S \<Longrightarrow> ptr_grows E gone S S'"
  by (simp add: ptr_grows_def)

lemma ptr_grows_trans: "ptr_grows E gone S S' \<Longrightarrow> ptr_grows E gone S' S'' \<Longrightarrow> ptr_grows E gone S S''"
  by (simp add: ptr_grows_def)

definition JI :: "journal_env \<Rightarrow> (command_record \<Rightarrow> bool) \<Rightarrow> store \<Rightarrow> store \<Rightarrow> bool" where
  "JI E gone S0 S \<longleftrightarrow> store_wf E S \<and> store_le gone S0 S \<and> ptr_grows E gone S0 S"

lemma JI_refl: "store_wf E S \<Longrightarrow> JI E gone S S"
  by (simp add: JI_def ptr_grows_eq)

lemma JI_wf: "JI E gone S0 S \<Longrightarrow> store_wf E S"
  by (simp add: JI_def)

lemma JI_step:
  "JI E gone S0 S \<Longrightarrow> store_wf E S' \<Longrightarrow> store_le gone S S' \<Longrightarrow> ptr_grows E gone S S' \<Longrightarrow> JI E gone S0 S'"
  unfolding JI_def using store_le_trans ptr_grows_trans by blast

lemma JI_same:
  "JI E gone S0 S \<Longrightarrow> store_wf E S' \<Longrightarrow> same_commands S S' \<Longrightarrow> ptr_grows E gone S S' \<Longrightarrow> JI E gone S0 S'"
  using JI_step same_commands_le by blast

section \<open>Reading\<close>

lemma runs_load_commands:
  assumes "store_wf E S" "starts_with command_prefix key" "T S"
    and "\<And>b. map_of S key = Some (Command_Bucket b) \<Longrightarrow> bucket_ok E key b \<Longrightarrow> Q b S"
    and "create \<Longrightarrow> map_of S key = None \<Longrightarrow> Q [] S"
  shows "runs S (load_command_bucket E key create) Q T"
  unfolding load_command_bucket_def
proof (intro runs_bind runs_get runs_option runs_if runs_fok runs_fthrow)
  fix v assume "map_of S key = Some v"
  then show "runs S (case v of Command_Bucket b \<Rightarrow> fok b | _ \<Rightarrow> fthrow (Bucket_Corrupt key)) Q T"
    by (rule command_slot [OF assms(1,2)]) (use assms(4) \<open>map_of S key = Some v\<close> in \<open>auto intro: runs_fok\<close>)
qed (use assms in auto)

lemma runs_load_pointers:
  assumes "store_wf E S" "T S"
    and "\<And>b. pix.holds_shard E S cid b \<Longrightarrow> distinct (map fst b) \<Longrightarrow> Q b S"
  shows "runs S (load_pointer_bucket E cid) Q T"
  unfolding load_pointer_bucket_def
proof (intro runs_bind runs_get runs_option runs_if runs_fok runs_fthrow)
  fix v assume v: "map_of S (pointer_key E cid) = Some v"
  then show "runs S (case v of Pointer_Bucket b \<Rightarrow> fok b | _ \<Rightarrow> fthrow (Pointer_Bucket_Corrupt (pointer_key E cid))) Q T"
    by (rule pointer_slot [OF assms(1) key_namespaces(1)])
      (use assms(3) v in \<open>auto intro: runs_fok simp: pix.holds_shard_def\<close>)
qed (use assms in \<open>auto simp: pix.holds_shard_def\<close>)

lemma runs_load_messages:
  assumes "store_wf E S" "T S"
    and "\<And>b. mix.holds_shard E S mid b \<Longrightarrow> distinct (map fst b) \<Longrightarrow> Q b S"
  shows "runs S (load_message_index E mid) Q T"
  unfolding load_message_index_def
proof (intro runs_bind runs_get runs_option runs_if runs_fok runs_fthrow)
  fix v assume v: "map_of S (message_key E mid) = Some v"
  then show "runs S (case v of Message_Bucket b \<Rightarrow> fok b | _ \<Rightarrow> fthrow (Message_Index_Corrupt (message_key E mid))) Q T"
    by (rule message_slot [OF assms(1) key_namespaces(2)])
      (use assms(3) v in \<open>auto intro: runs_fok simp: mix.holds_shard_def\<close>)
qed (use assms in \<open>auto simp: mix.holds_shard_def\<close>)

lemma runs_load_orphans_by_key:
  assumes "store_wf E S" "starts_with orphan_prefix key" "T S"
    and "\<And>b. map_of S key = Some (Orphan_Bucket b) \<or> map_of S key = None \<and> b = []
       \<Longrightarrow> distinct (map fst b) \<Longrightarrow> Q b S"
  shows "runs S (load_orphan_bucket_by_key E key) Q T"
  unfolding load_orphan_bucket_by_key_def
proof (intro runs_bind runs_get runs_option runs_if runs_fok runs_fthrow)
  fix v assume v: "map_of S key = Some v"
  then show "runs S (case v of Orphan_Bucket b \<Rightarrow> fok b | _ \<Rightarrow> fthrow (Orphan_Bucket_Corrupt key)) Q T"
    by (rule orphan_slot [OF assms(1,2)]) (use assms(4) v in \<open>auto intro: runs_fok\<close>)
qed (use assms in auto)

lemma runs_load_orphans:
  assumes "store_wf E S" "T S"
    and "\<And>b. oix.holds_shard E S mid b \<Longrightarrow> distinct (map fst b) \<Longrightarrow> Q b S"
  shows "runs S (load_orphan_bucket E mid) Q T"
  unfolding load_orphan_bucket_def
  by (rule runs_load_orphans_by_key) (use assms in \<open>auto simp: oix.holds_shard_def\<close>)

lemma runs_find_pointer:
  assumes "store_wf E S" "T S" "Q (ptr_of E S cid) S"
  shows "runs S (find_pointer E cid) Q T"
  unfolding find_pointer_def
  by (intro runs_bind runs_load_pointers runs_fok) (use assms in \<open>auto simp: pix.look_shard\<close>)

lemma runs_load_record:
  assumes "store_wf E S" "starts_with command_prefix key" "T S"
    and "\<And>r. lookup_rec S key cid = Some r \<Longrightarrow> Q r S"
  shows "runs S (load_record E key cid) Q T"
  unfolding load_record_def
  by (intro runs_bind runs_load_commands runs_option runs_fok runs_fthrow)
    (use assms in \<open>auto simp: lookup_rec_def\<close>)

text \<open>What a mutation knows about the record it works on.\<close>

definition live_record ::
  "journal_env \<Rightarrow> store \<Rightarrow> string \<Rightarrow> string \<Rightarrow> (string \<times> command_record) list \<Rightarrow> command_record \<Rightarrow> bool" where
  "live_record E S cid key b r \<longleftrightarrow> starts_with command_prefix key
     \<and> map_of S key = Some (Command_Bucket b) \<and> bucket_ok E key b \<and> map_of b cid = Some r"

lemma live_recordD:
  assumes "live_record E S cid key b r"
  shows "record_ok r" "cmd_commandId (rec_command r) = cid" "command_bucket_key E (rec_command r) = key"
    "lookup_rec S key cid = Some r"
  using assms map_of_SomeD [of b cid r] by (auto simp: live_record_def bucket_ok_def lookup_rec_def)

lemma ptr_prefix:
  assumes "store_wf E S" "ptr_of E S cid = Some p"
  shows "starts_with command_prefix (ptr_bucketKey p)"
  using assms lookup_recD(1) [OF assms(1)] unfolding store_wf_def ptrs_sound_def by blast

lemma runs_mutable:
  assumes wf: "store_wf E S" and T: "T S"
    and Q: "\<And>p b r. ptr_of E S cid = Some p \<Longrightarrow> live_record E S cid (ptr_bucketKey p) b r
       \<Longrightarrow> rec_payloadSha256 r = ptr_payloadSha256 p \<Longrightarrow> Q (ptr_bucketKey p, b, r) S"
  shows "runs S (mutable_record E cid) Q T"
  unfolding mutable_record_def
  by (intro runs_bind runs_find_pointer runs_load_commands runs_option runs_if runs_fok runs_fthrow)
    (use wf T Q ptr_prefix in \<open>auto simp: live_record_def\<close>)

section \<open>Writing one record\<close>

definition slot_bucket :: "store \<Rightarrow> string \<Rightarrow> (string \<times> command_record) list \<Rightarrow> bool" where
  "slot_bucket S key b \<longleftrightarrow> map_of S key = Some (Command_Bucket b) \<or> map_of S key = None \<and> b = []"

lemma bucket_ok_update:
  assumes "bucket_ok E key b" "cmd_commandId (rec_command r) = cid"
    "command_bucket_key E (rec_command r) = key" "record_ok r"
  shows "bucket_ok E key (AList.update cid r b)"
  using assms set_update_subset [of cid r b] unfolding bucket_ok_def
  by (fastforce intro: distinct_fst_update)

lemma bucket_step_update:
  assumes "slot_bucket S key b" "\<And>r0. map_of b cid = Some r0 \<Longrightarrow> rec_le r0 r"
  shows "bucket_step gone E S key (AList.update cid r b)"
  using assms rec_le_refl by (auto simp: bucket_step_def slot_bucket_def lookup_rec_def)

lemma runs_save:
  assumes J: "JI E gone S0 S" and slot: "slot_bucket S key b" "starts_with command_prefix key" "bucket_ok E key b"
    and r: "cmd_commandId (rec_command r) = cid" "command_bucket_key E (rec_command r) = key" "record_ok r"
      "\<And>r0. map_of b cid = Some r0 \<Longrightarrow> rec_le r0 r"
    and Q: "\<And>S'. JI E gone S0 S' \<Longrightarrow> live_record E S' cid key (AList.update cid r b) r \<Longrightarrow>
        ptr_of E S' = ptr_of E S \<Longrightarrow> msg_of E S' = msg_of E S \<Longrightarrow>
        S' = AList.update key (Command_Bucket (AList.update cid r b)) S \<Longrightarrow> Q () S'"
  shows "runs S (save_record E key b cid r) Q (JI E gone S0)"
  unfolding save_record_def
proof (rule runs_set)
  show "JI E gone S0 S" by (rule J)
  let ?b = "AList.update cid r b" let ?S = "AList.update key (Command_Bucket ?b) S"
  have ok: "bucket_ok E key ?b" by (rule bucket_ok_update) (use slot r in auto)
  note w = write_bucket [OF JI_wf [OF J] slot(2) ok bucket_step_update [OF slot(1)]]
  have w: "store_wf E ?S" "store_le gone S ?S" by (rule w, use r(4) in blast)+
  show "Q () ?S"
    by (rule Q) (use w r(4) ok slot(2) J JI_step ptr_grows_eq index_other in \<open>auto simp: live_record_def\<close>)
qed

section \<open>Index writes\<close>

lemma runs_set_pointer:
  assumes J: "JI E gone S0 S" and r: "lookup_rec S key cid = Some r" "rec_payloadSha256 r = digest"
    and Q: "\<And>S'. JI E gone S0 S' \<Longrightarrow> same_commands S S' \<Longrightarrow> msg_of E S' = msg_of E S \<Longrightarrow>
      ptr_of E S' = (ptr_of E S)(cid \<mapsto> \<lparr>ptr_bucketKey = key, ptr_payloadSha256 = digest\<rparr>) \<Longrightarrow>
      (\<And>p. ptr_of E S cid = Some p \<Longrightarrow> p = \<lparr>ptr_bucketKey = key, ptr_payloadSha256 = digest\<rparr>) \<Longrightarrow> Q () S'"
  shows "runs S (set_pointer E cid key digest) Q (JI E gone S0)"
proof -
  let ?p = "\<lparr>ptr_bucketKey = key, ptr_payloadSha256 = digest\<rparr>"
  have wf: "store_wf E S" using J by (rule JI_wf)
  have put: "Q () (AList.update (pointer_key E cid) (Pointer_Bucket (AList.update cid ?p b)) S)"
    if b: "pix.holds_shard E S cid b" "distinct (map fst b)" "map_of b cid = None" for b
  proof -
    let ?S = "AList.update (pointer_key E cid) (Pointer_Bucket (AList.update cid ?p b)) S"
    have ptr: "ptr_of E ?S = (ptr_of E S)(cid \<mapsto> ?p)" by (rule pix.look_insert [OF b(1)])
    have sound: "\<exists>r. lookup_rec S (ptr_bucketKey q) c = Some r \<and> rec_payloadSha256 r = ptr_payloadSha256 q"
      if "ptr_of E ?S c = Some q" for c q
      using that r wf unfolding ptr store_wf_def ptrs_sound_def by (auto split: if_splits)
    have w: "store_wf E ?S" "same_commands S ?S" "msg_of E ?S = msg_of E S"
      by (rule write_pointers [OF wf key_namespaces(1) distinct_fst_update [OF b(2)] disjI1 [OF refl]], erule sound)+
    have "ptr_of E S cid = None" using pix.look_shard [OF b(1)] b(3) by simp
    then show ?thesis by (intro Q) (use J JI_same w ptr in \<open>auto simp: ptr_grows_def\<close>)
  qed
  have stay: "Q () S" if "map_of b cid = Some p" "pix.holds_shard E S cid b" "ptr_bucketKey p = key"
    "ptr_payloadSha256 p = digest" for b p
  proof (rule Q [OF J])
    have p: "ptr_of E S cid = Some p" using that pix.look_shard by metis
    then show "ptr_of E S = (ptr_of E S)(cid \<mapsto> ?p)" using that by auto
    show "q = ?p" if "ptr_of E S cid = Some q" for q
      using that p \<open>ptr_bucketKey p = key\<close> \<open>ptr_payloadSha256 p = digest\<close> by auto
  qed simp_all
  show ?thesis unfolding set_pointer_def
    by (intro runs_bind runs_load_pointers runs_option runs_if runs_fok runs_fthrow runs_set)
      (use wf J put stay in \<open>auto simp del: map_of_eq_Some_iff\<close>)
qed

lemma runs_set_message:
  assumes J: "JI E gone S0 S" and r: "lookup_rec S key cid = Some r" "rec_openwaMessageId r = Some mid"
      "cmd_sessionId (rec_command r) = session"
    and Q: "\<And>S'. JI E gone S0 S' \<Longrightarrow> same_commands S S' \<Longrightarrow> ptr_of E S' = ptr_of E S \<Longrightarrow>
      msg_of E S' = (msg_of E S)(mid \<mapsto> \<lparr>mp_commandId = cid, mp_sessionId = session\<rparr>) \<Longrightarrow>
      (\<And>p. msg_of E S mid = Some p \<Longrightarrow> p = \<lparr>mp_commandId = cid, mp_sessionId = session\<rparr>) \<Longrightarrow> Q () S'"
  shows "runs S (set_message_pointer E mid cid session) Q (JI E gone S0)"
proof -
  let ?p = "\<lparr>mp_commandId = cid, mp_sessionId = session\<rparr>"
  have wf: "store_wf E S" using J by (rule JI_wf)
  have put: "Q () (AList.update (message_key E mid) (Message_Bucket (AList.update mid ?p b)) S)"
    if b: "mix.holds_shard E S mid b" "distinct (map fst b)" "map_of b mid = None" for b
  proof -
    let ?S = "AList.update (message_key E mid) (Message_Bucket (AList.update mid ?p b)) S"
    have msg: "msg_of E ?S = (msg_of E S)(mid \<mapsto> ?p)" by (rule mix.look_insert [OF b(1)])
    have sound: "\<exists>k r. lookup_rec S k (mp_commandId q) = Some r \<and> rec_openwaMessageId r = Some m
        \<and> cmd_sessionId (rec_command r) = mp_sessionId q" if "msg_of E ?S m = Some q" for m q
    proof (cases "m = mid")
      case True
      then have "q = ?p" using that msg by simp
      then show ?thesis using True r by auto
    next
      case False
      then have "msg_of E S m = Some q" using that msg by simp
      then show ?thesis using wf unfolding store_wf_def msgs_sound_def by blast
    qed
    have w: "store_wf E ?S" "same_commands S ?S" "ptr_of E ?S = ptr_of E S"
      by (rule write_messages [OF wf key_namespaces(2) distinct_fst_update [OF b(2)] disjI1 [OF refl]], erule sound)+
    have "msg_of E S mid = None" using mix.look_shard [OF b(1)] b(3) by simp
    then show ?thesis by (intro Q) (use J JI_same w msg in \<open>auto simp: ptr_grows_def\<close>)
  qed
  have stay: "Q () S" if "map_of b mid = Some p" "mix.holds_shard E S mid b" "mp_commandId p = cid"
    "mp_sessionId p = session" for b p
  proof (rule Q [OF J])
    have p: "msg_of E S mid = Some p" using that mix.look_shard by metis
    then show "msg_of E S = (msg_of E S)(mid \<mapsto> ?p)" using that by auto
    show "q = ?p" if "msg_of E S mid = Some q" for q
      using that p \<open>mp_commandId p = cid\<close> \<open>mp_sessionId p = session\<close> by auto
  qed simp_all
  show ?thesis unfolding set_message_pointer_def
    by (intro runs_bind runs_load_messages runs_option runs_if runs_fok runs_fthrow runs_set)
      (use wf J put stay in \<open>auto simp del: map_of_eq_Some_iff\<close>)
qed

lemma runs_delete_pointer:
  assumes J: "JI E gone S0 S" and gone: "gone \<noteq> nothing_goes"
    and Q: "\<And>S'. JI E gone S0 S' \<Longrightarrow> same_commands S S' \<Longrightarrow> msg_of E S' = msg_of E S \<Longrightarrow>
      ptr_of E S' = (ptr_of E S)(cid := None) \<Longrightarrow> Q () S'"
  shows "runs S (delete_pointer E cid) Q (JI E gone S0)"
proof -
  have wf: "store_wf E S" using J by (rule JI_wf)
  have sound: "\<exists>r. lookup_rec S (ptr_bucketKey q) c = Some r \<and> rec_payloadSha256 r = ptr_payloadSha256 q"
    if "ptr_of E S' = (ptr_of E S)(cid := None)" "ptr_of E S' c = Some q" for c q S'
    using that wf unfolding store_wf_def ptrs_sound_def by (auto split: if_splits)
  have drop: "Q () S'"
    if b: "pix.holds_shard E S cid b" "distinct (map fst b)"
      and S': "S' = AList.update (pointer_key E cid) (Pointer_Bucket (AList.delete cid b)) S
        \<or> S' = AList.delete (pointer_key E cid) S \<and> AList.delete cid b = []" for b S'
  proof -
    have ptr: "ptr_of E S' = (ptr_of E S)(cid := None)"
      using S' pix.look_remove [OF b(1)] pix.look_remove_last [OF b(1)] by auto
    have S'': "S' = AList.update (pointer_key E cid) (Pointer_Bucket (AList.delete cid b)) S
        \<or> S' = AList.delete (pointer_key E cid) S" using S' by blast
    have w: "store_wf E S'" "same_commands S S'" "msg_of E S' = msg_of E S"
      by (rule write_pointers [OF wf key_namespaces(1) distinct_delete_fst [OF b(2)] S''], erule sound [OF ptr])+
    show ?thesis by (rule Q) (use J JI_same w ptr gone in \<open>auto simp: ptr_grows_def\<close>)
  qed
  show ?thesis unfolding delete_pointer_def Let_def
    by (intro runs_bind runs_load_pointers runs_if runs_set runs_delete) (use wf J drop in auto)
qed

lemma runs_delete_message:
  assumes J: "JI E gone S0 S"
    and Q: "\<And>S'. JI E gone S0 S' \<Longrightarrow> same_commands S S' \<Longrightarrow> ptr_of E S' = ptr_of E S \<Longrightarrow>
      msg_of E S' = (msg_of E S)(mid := None) \<Longrightarrow> Q () S'"
  shows "runs S (delete_message_pointer E mid) Q (JI E gone S0)"
proof -
  have wf: "store_wf E S" using J by (rule JI_wf)
  have sound: "\<exists>k r. lookup_rec S k (mp_commandId q) = Some r \<and> rec_openwaMessageId r = Some m
        \<and> cmd_sessionId (rec_command r) = mp_sessionId q"
    if "msg_of E S' = (msg_of E S)(mid := None)" "msg_of E S' m = Some q" for m q S'
  proof -
    have "msg_of E S m = Some q" using that by (auto split: if_splits)
    then show ?thesis using wf unfolding store_wf_def msgs_sound_def by blast
  qed
  have drop: "Q () S'"
    if b: "mix.holds_shard E S mid b" "distinct (map fst b)"
      and S': "S' = AList.update (message_key E mid) (Message_Bucket (AList.delete mid b)) S
        \<or> S' = AList.delete (message_key E mid) S \<and> AList.delete mid b = []" for b S'
  proof -
    have msg: "msg_of E S' = (msg_of E S)(mid := None)"
      using S' mix.look_remove [OF b(1)] mix.look_remove_last [OF b(1)] by auto
    have S'': "S' = AList.update (message_key E mid) (Message_Bucket (AList.delete mid b)) S
        \<or> S' = AList.delete (message_key E mid) S" using S' by blast
    have w: "store_wf E S'" "same_commands S S'" "ptr_of E S' = ptr_of E S"
      by (rule write_messages [OF wf key_namespaces(2) distinct_delete_fst [OF b(2)] S''], erule sound [OF msg])+
    show ?thesis by (rule Q) (use J JI_same w msg in \<open>auto simp: ptr_grows_def\<close>)
  qed
  show ?thesis unfolding delete_message_pointer_def Let_def
    by (intro runs_bind runs_load_messages runs_if runs_set runs_delete) (use wf J drop in auto)
qed

end
