(* ===== verification/Journal_Methods.thy ===== *)
theory Journal_Methods
  imports Journal_Safety
begin

text \<open>
  The methods of the journal keep \<open>JI\<close>: invariant and progress, at every exit.
\<close>

section \<open>Appending evidence\<close>

fun next_state :: "journal_status \<Rightarrow> journal_status \<Rightarrow> bool" where
  "next_state RECEIVED st = (st \<in> {SEND_STARTED, SEND_REJECTED, SEND_INDETERMINATE})"
| "next_state SEND_STARTED st = (st \<in> {SEND_ACCEPTED, SEND_INDETERMINATE})"
| "next_state _ _ = False"

fun state_kind :: "journal_status \<Rightarrow> evidence_kind" where
  "state_kind RECEIVED = COMMAND_RECEIVED"
| "state_kind SEND_STARTED = EV_SEND_STARTED"
| "state_kind SEND_ACCEPTED = EV_SEND_ACCEPTED"
| "state_kind SEND_REJECTED = EV_SEND_REJECTED"
| "state_kind SEND_INDETERMINATE = EV_SEND_INDETERMINATE"

lemma create_evidence_simps [simp]:
  "ev_sequence (create_evidence eid c d v n k st m ec co now) = n"
  "ev_kind (create_evidence eid c d v n k st m ec co now) = k"
  "ev_eventId (create_evidence eid c d v n k st m ec co now) = eid"
  by (simp_all add: create_evidence_def)

lemma evidence_of_create:
  "evidence_of r (pending_evidence (create_evidence eid (rec_command r) (rec_payloadSha256 r) v n k st m ec co now))"
  by (simp add: evidence_of_def pending_evidence_def create_evidence_def)

lemma pending_evidence_sel [simp]: "je_evidence (pending_evidence e) = e"
  by (simp add: pending_evidence_def)

lemma extend_ok:
  assumes ok: "record_ok r" and st: "state_history st (kinds r @ [k])" "status_le (rec_state r) st"
    and e: "ev_sequence (je_evidence e) = length (rec_evidence r) + 1" "ev_kind (je_evidence e) = k" "evidence_of r e"
    and mid: "case m of None \<Rightarrow> st \<noteq> SEND_ACCEPTED | Some i \<Rightarrow> st = SEND_ACCEPTED \<and> i \<noteq> []"
      "rec_openwaMessageId r \<noteq> None \<Longrightarrow> m = rec_openwaMessageId r"
    and r': "r' = r\<lparr>rec_evidence := rec_evidence r @ [e], rec_state := st, rec_updatedAt := now,
      rec_openwaMessageId := m\<rparr>"
  shows "record_ok r'" and "rec_le r r'"
proof -
  have "evidence_of r' = evidence_of r" by (auto simp: r' evidence_of_def fun_eq_iff)
  then show "record_ok r'"
    using ok st(1) e mid(1) by (cases m) (simp_all add: record_ok_def r' kinds_def message_id_ok_def)
  show "rec_le r r'"
    using st(2) mid(2) by (auto simp: rec_le_def r' intro!: exI [of _ "[e]"])
qed

lemma next_state_le: "next_state a b \<Longrightarrow> status_le a b"
  by (cases a) auto

lemma next_state_history:
  "next_state a b \<Longrightarrow> state_history a ks \<Longrightarrow> state_history b (ks @ [state_kind b]) \<and> state_kind b \<notin> set ks"
  by (cases a; cases b) (auto simp: ack_history_def)

lemma has_kind_iff: "has_kind r k \<longleftrightarrow> k \<in> set (kinds r)"
  by (auto simp: has_kind_def kinds_def list_ex_iff)

lemma runs_append_evidence:
  assumes ok: "record_ok r" and nxt: "next_state (rec_state r) (tr_state t)" "tr_kind t = state_kind (tr_state t)"
    and Q: "\<And>r'. rec_state r' = tr_state t \<Longrightarrow> rec_command r' = rec_command r \<Longrightarrow>
       (\<And>m. (case m of None \<Rightarrow> tr_state t \<noteq> SEND_ACCEPTED | Some i \<Rightarrow> tr_state t = SEND_ACCEPTED \<and> i \<noteq> []) \<Longrightarrow>
          record_ok (r'\<lparr>rec_openwaMessageId := m\<rparr>) \<and> rec_le r (r'\<lparr>rec_openwaMessageId := m\<rparr>)) \<Longrightarrow>
       rec_openwaMessageId r' = None \<Longrightarrow> Q r' S"
  shows "runs S (append_evidence E r t) Q T"
proof -
  have hist: "state_history (tr_state t) (kinds r @ [tr_kind t])" "\<not> has_kind r (tr_kind t)"
    using next_state_history [OF nxt(1), of "kinds r"] ok nxt(2) by (auto simp: record_ok_def has_kind_iff)
  have none: "rec_openwaMessageId r = None"
    using ok nxt(1) by (cases "rec_state r") (auto simp: record_ok_def message_id_ok_def split: option.splits)
  have appended: "Q (r\<lparr>rec_evidence := rec_evidence r @ [pending_evidence
      (create_evidence eid (rec_command r) (rec_payloadSha256 r) (env_version E)
        (length (rec_evidence r) + 1) (tr_kind t) (tr_status t)
        (case tr_messageId t of Some m \<Rightarrow> Some m | None \<Rightarrow> rec_openwaMessageId r)
        (tr_errorClass t) (tr_errorCode t) (tr_now t))],
      rec_state := tr_state t, rec_updatedAt := tr_now t\<rparr>) S"
    (is "Q (r\<lparr>rec_evidence := _ @ [?e], rec_state := _, rec_updatedAt := _\<rparr>) S") for eid
  proof (rule Q, goal_cases)
    case (3 m)
    have "evidence_of r ?e" by (rule evidence_of_create)
    then show ?case
      using extend_ok [OF ok hist(1) next_state_le [OF nxt(1)], of ?e m _ "tr_now t"] 3 none by simp
  qed (use none in simp_all)
  show ?thesis unfolding append_evidence_def
    by (intro runs_if runs_bind runs_uuid runs_fok appended) (use hist in simp)
qed

lemma ack_superseded_kinds:
  assumes "record_ok r" "rec_state r = SEND_ACCEPTED" "\<not> ack_superseded r status"
  shows "state_history SEND_ACCEPTED (kinds r @ [ack_kind status])"
proof -
  define acks where "acks = drop 3 (kinds r)"
  have t: "take 3 (kinds r) = [COMMAND_RECEIVED, EV_SEND_STARTED, EV_SEND_ACCEPTED]" and h: "ack_history acks"
    using assms by (auto simp: record_ok_def acks_def)
  have kin: "kinds r = [COMMAND_RECEIVED, EV_SEND_STARTED, EV_SEND_ACCEPTED] @ acks"
    using append_take_drop_id [of 3 "kinds r"] t acks_def by simp
  have "ack_follows k (ack_kind status)" if k: "k \<in> set acks" for k
  proof -
    have "is_ack k" using h k by (auto simp: ack_history_def list_all_iff)
    then show ?thesis
      using assms(3) k by (cases status) (auto simp: ack_superseded_def has_kind_iff kin is_ack_def)
  qed
  moreover have "is_ack (ack_kind status)" by (cases status) (auto simp: is_ack_def)
  ultimately have "ack_history (acks @ [ack_kind status])"
    using h by (auto simp: ack_history_def sorted_wrt_append)
  then show ?thesis by (simp add: kin)
qed

lemma runs_append_ack:
  assumes ok: "record_ok r" and T: "T S" and N: "Q None S"
    and Q: "\<And>r' mid. record_ok r' \<Longrightarrow> rec_le r r' \<Longrightarrow> rec_command r' = rec_command r \<Longrightarrow>
       rec_openwaMessageId r' = Some mid \<Longrightarrow> rec_openwaMessageId r = Some mid \<Longrightarrow>
       rec_state r = SEND_ACCEPTED \<Longrightarrow> \<not> ack_superseded r status \<Longrightarrow>
       kinds r' = kinds r @ [ack_kind status] \<Longrightarrow> rec_state r' = SEND_ACCEPTED \<Longrightarrow> Q (Some r') S"
  shows "runs S (append_ack_evidence E r status occurred) Q T"
  unfolding append_ack_evidence_def
proof (intro runs_option runs_if runs_bind runs_uuid runs_fok runs_fthrow N T, goal_cases)
  case (1 mid eid at_ms)
  then have st: "rec_state r = SEND_ACCEPTED" "\<not> ack_superseded r status" "mid \<noteq> []" by auto
  let ?e = "pending_evidence (create_evidence eid (rec_command r) (rec_payloadSha256 r) (env_version E)
     (length (rec_evidence r) + 1) (ack_kind status) (ack_delivery_status status) (Some mid)
     (if status = Ack_failed then Some EC_TRANSIENT_FAILURE else None)
     (if status = Ack_failed then Some ''OPENWA_DELIVERY_FAILED'' else None) at_ms)"
  let ?r = "r\<lparr>rec_evidence := rec_evidence r @ [?e], rec_state := SEND_ACCEPTED, rec_updatedAt := at_ms,
        rec_openwaMessageId := Some mid\<rparr>"
  have e: "evidence_of r ?e" by (rule evidence_of_create)
  have le: "status_le (rec_state r) SEND_ACCEPTED" using st by simp
  have ext: "record_ok ?r" "rec_le r ?r"
    by (rule extend_ok [OF ok ack_superseded_kinds [OF ok st(1,2)] le _ _ e _ _ refl]; use st(3) 1(1) in simp)+
  have eq: "r\<lparr>rec_evidence := rec_evidence r @ [?e], rec_updatedAt := at_ms\<rparr> = ?r"
    using st 1(1) by (cases r) auto
  show ?case
    unfolding eq by (rule Q) (use st(1,2) 1(1) ext in \<open>simp_all add: kinds_def\<close>)
qed

section \<open>Receiving a command\<close>

lemma new_record_ok [simp]:
  "record_ok (new_record E cmd digest webhook now eid)" "rec_state (new_record E cmd digest webhook now eid) = RECEIVED"
  "rec_command (new_record E cmd digest webhook now eid) = cmd"
  "rec_payloadSha256 (new_record E cmd digest webhook now eid) = digest"
  "rec_webhookId (new_record E cmd digest webhook now eid) = webhook"
  by (simp_all add: new_record_def record_ok_def kinds_def message_id_ok_def evidence_of_def
      pending_evidence_def create_evidence_def)

lemma runs_utilization: "T S \<Longrightarrow> (\<And>u. Q u S) \<Longrightarrow> runs S (storage_utilization E keys) Q T"
  unfolding storage_utilization_def
  by (intro runs_bind runs_post [OF runs_ffold [where I = "\<lambda>_ _ S'. S' = S"]])
    (auto intro!: runs_bind runs_get runs_option runs_fok)

text \<open>The outcome of \<open>receive\<close>: the pointer is set, and the record is the stored one.\<close>

definition received :: "journal_env \<Rightarrow> store \<Rightarrow> command \<Rightarrow> string \<Rightarrow> command_record \<Rightarrow> bool" where
  "received E S cmd digest r \<longleftrightarrow> (\<exists>p. ptr_of E S (cmd_commandId cmd) = Some p
     \<and> lookup_rec S (ptr_bucketKey p) (cmd_commandId cmd) = Some r \<and> rec_payloadSha256 r = digest)"

lemma runs_receive_new:
  assumes J: "JI E gone S0 S" and ptr: "ptr_of E S (cmd_commandId cmd) = None"
    and b: "slot_bucket S (command_bucket_key E cmd) b" "bucket_ok E (command_bucket_key E cmd) b"
      "map_of b (cmd_commandId cmd) = None"
    and new: "\<And>S' eid. JI E gone S0 S' \<Longrightarrow>
      lookup_rec S (command_bucket_key E cmd) (cmd_commandId cmd) = None \<Longrightarrow>
      received E S' cmd digest (new_record E cmd digest webhook now eid) \<Longrightarrow>
      Q \<lparr>rr_record = new_record E cmd digest webhook now eid, rr_created = True\<rparr> S'"
  shows "runs S (receive_new E cmd digest webhook now maxu b) Q (JI E gone S0)"
proof -
  let ?cid = "cmd_commandId cmd" and ?key = "command_bucket_key E cmd" and ?r = "new_record E cmd digest webhook now"
  have none: "lookup_rec S ?key ?cid = None"
    using b(1,3) by (auto simp: slot_bucket_def lookup_rec_def)
  have create: "runs S (fthen (save_record E ?key b ?cid (?r eid)) (fthen (set_pointer E ?cid ?key digest)
      (fok \<lparr>rr_record = ?r eid, rr_created = True\<rparr>))) Q (JI E gone S0)" for eid
  proof (intro runs_then runs_save [OF J b(1) key_namespaces(4) b(2)])
    fix S' assume S': "JI E gone S0 S'" "live_record E S' ?cid ?key (AList.update ?cid (?r eid) b) (?r eid)"
    show "runs S' (set_pointer E ?cid ?key digest)
       (\<lambda>_ S'. runs S' (fok \<lparr>rr_record = ?r eid, rr_created = True\<rparr>) Q (JI E gone S0)) (JI E gone S0)"
      by (intro runs_set_pointer [OF S'(1) live_recordD(4) [OF S'(2)]] runs_fok new)
        (use none live_recordD(4) [OF S'(2)] in \<open>auto simp: received_def same_commands_def\<close>)
  qed (use b in auto)
  show ?thesis unfolding receive_new_def list_journal_keys_def Let_def
    by (intro runs_if runs_bind runs_list runs_utilization runs_uuid runs_fthrow J create)
qed

lemma runs_receive:
  assumes J: "JI E gone S0 S"
    and old: "\<And>S' r. JI E gone S0 S' \<Longrightarrow> same_commands S S' \<Longrightarrow> received E S' cmd digest r \<Longrightarrow>
      Q \<lparr>rr_record = r, rr_created = False\<rparr> S'"
    and new: "\<And>S' eid. JI E gone S0 S' \<Longrightarrow> ptr_of E S (cmd_commandId cmd) = None \<Longrightarrow>
      lookup_rec S (command_bucket_key E cmd) (cmd_commandId cmd) = None \<Longrightarrow>
      received E S' cmd digest (new_record E cmd digest webhook now eid) \<Longrightarrow>
      Q \<lparr>rr_record = new_record E cmd digest webhook now eid, rr_created = True\<rparr> S'"
  shows "runs S (receive E cmd digest webhook now maxu) Q (JI E gone S0)"
proof -
  let ?cid = "cmd_commandId cmd" and ?key = "command_bucket_key E cmd"
  have wf: "store_wf E S" using J by (rule JI_wf)
  have known: "runs S (fbind (load_record E (ptr_bucketKey p) ?cid)
      (\<lambda>r. fok \<lparr>rr_record = r, rr_created = False\<rparr>)) Q (JI E gone S0)"
    if p: "ptr_of E S ?cid = Some p" "ptr_payloadSha256 p = digest" for p
  proof (intro runs_bind runs_load_record runs_fok old)
    fix r assume r: "lookup_rec S (ptr_bucketKey p) ?cid = Some r"
    moreover obtain r' where "lookup_rec S (ptr_bucketKey p) ?cid = Some r'"
        "rec_payloadSha256 r' = ptr_payloadSha256 p"
      using wf p unfolding store_wf_def ptrs_sound_def by blast
    ultimately show "received E S cmd digest r" using p by (auto simp: received_def)
  qed (use J wf p ptr_prefix in auto)
  have reindex: "runs S (fthen (set_pointer E ?cid ?key digest)
      (fok \<lparr>rr_record = r, rr_created = False\<rparr>)) Q (JI E gone S0)"
    if b: "lookup_rec S ?key ?cid = Some r" "rec_payloadSha256 r = digest" for r
    by (intro runs_then runs_set_pointer [OF J b] runs_fok old)
      (use b in \<open>auto simp: received_def same_commands_def\<close>)
  have unknown: "runs S (case map_of b ?cid of
        Some r \<Rightarrow> if rec_payloadSha256 r \<noteq> digest then fthrow Bucket_Digest_Conflict
          else fthen (set_pointer E ?cid ?key digest) (fok \<lparr>rr_record = r, rr_created = False\<rparr>)
      | None \<Rightarrow> receive_new E cmd digest webhook now maxu b) Q (JI E gone S0)"
    if b: "slot_bucket S ?key b" "bucket_ok E ?key b" "ptr_of E S ?cid = None" for b
  proof (cases "map_of b ?cid")
    case None
    have "runs S (receive_new E cmd digest webhook now maxu b) Q (JI E gone S0)"
      by (rule runs_receive_new [OF J b(3,1,2) None]) (rule new [OF _ b(3)])
    then show ?thesis using None by simp
  next
    case (Some r)
    then have "lookup_rec S ?key ?cid = Some r" using b(1) by (auto simp: slot_bucket_def lookup_rec_def)
    then show ?thesis using Some reindex J by (auto intro: runs_fthrow)
  qed
  show ?thesis
    unfolding receive_def Let_def
    by (intro runs_bind runs_find_pointer [OF wf] runs_option runs_load_commands [OF wf] J unknown
        key_namespaces runs_if runs_fthrow known)
      (auto simp: slot_bucket_def bucket_ok_def)
qed

section \<open>State transitions\<close>

text \<open>The journal as its clients see it: command ids to records, through the index.\<close>

definition indexed_rec :: "journal_env \<Rightarrow> store \<Rightarrow> string \<Rightarrow> command_record option" where
  "indexed_rec E S cid = (case ptr_of E S cid of None \<Rightarrow> None | Some p \<Rightarrow> lookup_rec S (ptr_bucketKey p) cid)"

lemma live_indexed: "ptr_of E S cid = Some p \<Longrightarrow> live_record E S cid (ptr_bucketKey p) b r \<Longrightarrow> indexed_rec E S cid = Some r"
  by (simp add: indexed_rec_def live_recordD(4))

lemma runs_save_live:
  assumes J: "JI E gone S0 S" and p: "ptr_of E S cid = Some p" and live: "live_record E S cid (ptr_bucketKey p) b r"
    and r': "record_ok r'" "rec_le r r'"
    and Q: "\<And>S'. JI E gone S0 S' \<Longrightarrow> ptr_of E S' = ptr_of E S \<Longrightarrow> msg_of E S' = msg_of E S \<Longrightarrow>
      live_record E S' cid (ptr_bucketKey p) (AList.update cid r' b) r' \<Longrightarrow> indexed_rec E S' cid = Some r' \<Longrightarrow>
      (\<And>key c. (key, c) \<noteq> (ptr_bucketKey p, cid) \<Longrightarrow> lookup_rec S' key c = lookup_rec S key c) \<Longrightarrow> Q () S'"
  shows "runs S (save_record E (ptr_bucketKey p) b cid r') Q (JI E gone S0)"
proof -
  have slot: "slot_bucket S (ptr_bucketKey p) b" "starts_with command_prefix (ptr_bucketKey p)"
    "bucket_ok E (ptr_bucketKey p) b" "map_of b cid = Some r"
    using live by (auto simp: live_record_def slot_bucket_def)
  have id: "cmd_commandId (rec_command r') = cid" "command_bucket_key E (rec_command r') = ptr_bucketKey p"
    using live_recordD [OF live] r'(2) by (auto simp: rec_le_def)
  have other: "lookup_rec (AList.update (ptr_bucketKey p) (Command_Bucket (AList.update cid r' b)) S) key c
      = lookup_rec S key c" if "(key, c) \<noteq> (ptr_bucketKey p, cid)" for key c
    using that live by (auto simp: lookup_rec_def live_record_def)
  show ?thesis
  proof (rule runs_save [OF J slot(1-3) id r'(1)])
    fix r0 assume "map_of b cid = Some r0" then show "rec_le r0 r'" using slot(4) r'(2) by simp
  next
    fix S' assume S': "JI E gone S0 S'" "live_record E S' cid (ptr_bucketKey p) (AList.update cid r' b) r'"
      "ptr_of E S' = ptr_of E S" "msg_of E S' = msg_of E S"
      "S' = AList.update (ptr_bucketKey p) (Command_Bucket (AList.update cid r' b)) S"
    have "indexed_rec E S' cid = Some r'" using live_indexed S'(2,3) p by simp
    then show "Q () S'" using Q S' other by blast
  qed
qed

lemma runs_transition:
  assumes J: "JI E gone S0 S"
    and t: "tr_state t \<in> {SEND_STARTED, SEND_REJECTED, SEND_INDETERMINATE}" "tr_kind t = state_kind (tr_state t)"
    and stay: "\<And>r. indexed_rec E S cid = Some r \<Longrightarrow> rec_state r = tr_state t \<or> is_terminal (rec_state r) \<Longrightarrow> Q r S"
    and move: "\<And>r r' S'. JI E gone S0 S' \<Longrightarrow> indexed_rec E S cid = Some r \<Longrightarrow> next_state (rec_state r) (tr_state t) \<Longrightarrow>
       indexed_rec E S' cid = Some r' \<Longrightarrow> rec_state r' = tr_state t \<Longrightarrow> rec_le r r' \<Longrightarrow> Q r' S'"
  shows "runs S (journal_transition E cid t) Q (JI E gone S0)"
  unfolding journal_transition_def
proof (intro runs_bind runs_mutable [OF JI_wf [OF J]])
  show "JI E gone S0 S" by (rule J)
  fix p b r assume p: "ptr_of E S cid = Some p" and live: "live_record E S cid (ptr_bucketKey p) b r"
  note ok = live_recordD(1) [OF live] and idx = live_indexed [OF p live]
  have advance: "runs S (fbind (append_evidence E r t) (\<lambda>r'. fthen (track_or_forget E cid r')
      (fthen (save_record E (ptr_bucketKey p) b cid r') (fok r')))) Q (JI E gone S0)"
    if n: "next_state (rec_state r) (tr_state t)"
  proof (intro runs_bind runs_append_evidence [OF ok n t(2)] runs_then runs_track_or_forget)
    fix r' assume r': "rec_state r' = tr_state t" "rec_openwaMessageId r' = None"
      and ext: "\<And>m. (case m of None \<Rightarrow> tr_state t \<noteq> SEND_ACCEPTED | Some i \<Rightarrow> tr_state t = SEND_ACCEPTED \<and> i \<noteq> []) \<Longrightarrow>
          record_ok (r'\<lparr>rec_openwaMessageId := m\<rparr>) \<and> rec_le r (r'\<lparr>rec_openwaMessageId := m\<rparr>)"
    have "r'\<lparr>rec_openwaMessageId := None\<rparr> = r'" using r'(2) by (cases r') simp
    then have "record_ok r'" "rec_le r r'" using ext [of None] t(1) by auto
    then show "runs S (save_record E (ptr_bucketKey p) b cid r')
        (\<lambda>_ S'. runs S' (fok r') Q (JI E gone S0)) (JI E gone S0)"
      by (intro runs_save_live [OF J p live] runs_fok)
        (use n idx r'(1) move in auto)
  qed
  have guards: "next_state (rec_state r) (tr_state t)"
    if "rec_state r \<noteq> tr_state t" "\<not> is_terminal (rec_state r)"
      "\<not> (tr_state t = SEND_STARTED \<and> rec_state r \<noteq> RECEIVED)" "\<not> (tr_state t = SEND_REJECTED \<and> rec_state r \<noteq> RECEIVED)"
    using that t(1) by (cases "rec_state r") (auto simp: is_terminal_def)
  show "runs S (case (ptr_bucketKey p, b, r) of (key, b, r) \<Rightarrow>
     if rec_state r = tr_state t then
       fthen (if rec_state r = SEND_STARTED then track_active_send E r else fok ()) (fok r)
     else if is_terminal (rec_state r) then fthen (forget_race cid) (fok r)
     else if tr_state t = SEND_STARTED \<and> rec_state r \<noteq> RECEIVED then fthrow (Cannot_Start (rec_state r))
     else if tr_state t = SEND_REJECTED \<and> rec_state r \<noteq> RECEIVED then fthrow (Cannot_Reject (rec_state r))
     else fbind (append_evidence E r t) (\<lambda>r'.
       fthen (track_or_forget E cid r') (fthen (save_record E key b cid r') (fok r')))) Q (JI E gone S0)"
    unfolding prod.case
    by (intro runs_if advance guards runs_fthrow J)
      (auto intro!: runs_then runs_track runs_forget runs_fok stay J idx)
qed

end
