(* ===== verification/Journal_Acks.thy ===== *)
theory Journal_Acks
  imports Journal_Methods
begin

text \<open>
  Acceptance, acknowledgements and the buffer of orphan acknowledgements.
\<close>

section \<open>Pruning the orphan buffer\<close>

definition prune_ok :: "prune_state \<Rightarrow> bool" where
  "prune_ok p \<longleftrightarrow> (\<forall>k b. map_of (pr_buckets p) k = Some b \<longrightarrow> distinct (map fst b))
     \<and> (\<forall>k \<in> set (pr_changed p). starts_with orphan_prefix k)"

lemma bucket_of_distinct: "prune_ok p \<Longrightarrow> distinct (map fst (bucket_of p key))"
  by (auto simp: prune_ok_def bucket_of_def split: option.splits)

lemma drop_orphan_ok:
  assumes "prune_ok p" "starts_with orphan_prefix key"
  shows "prune_ok (drop_orphan key mid p)"
  using assms distinct_delete_fst [OF bucket_of_distinct [OF assms(1)], of mid key]
  by (auto simp: prune_ok_def drop_orphan_def add_key_def)

lemma prune_entry_ok: "prune_ok p \<Longrightarrow> starts_with orphan_prefix key \<Longrightarrow> prune_ok (prune_entry E now key p x)"
  by (auto simp: prune_entry_def drop_orphan_ok) (simp add: prune_ok_def)

lemma foldl_inv: "(\<And>p x. x \<in> set xs \<Longrightarrow> I p \<Longrightarrow> I (f p x)) \<Longrightarrow> I p \<Longrightarrow> I (foldl f p xs)"
  by (induction xs arbitrary: p) auto

definition retained_keys_ok :: "prune_state \<Rightarrow> bool" where
  "retained_keys_ok p \<longleftrightarrow> (\<forall>a \<in> set (pr_retained p). starts_with orphan_prefix (ra_key a))"

lemma prune_entry_keys:
  "retained_keys_ok p \<Longrightarrow> starts_with orphan_prefix key \<Longrightarrow> retained_keys_ok (prune_entry E now key p x)"
  by (auto simp: prune_entry_def retained_keys_ok_def drop_orphan_def)

lemma prune_excess_ok: "prune_ok p \<Longrightarrow> retained_keys_ok p \<Longrightarrow> prune_ok (prune_excess E n p)"
  unfolding prune_excess_def Let_def
  by (rule foldl_inv) (auto intro!: drop_orphan_ok simp: retained_keys_ok_def dest!: in_set_takeD)

definition same_indices :: "journal_env \<Rightarrow> store \<Rightarrow> store \<Rightarrow> bool" where
  "same_indices E S S' \<longleftrightarrow> ptr_of E S' = ptr_of E S \<and> msg_of E S' = msg_of E S"

lemma write_orphans_JI:
  assumes J: "JI E gone S0 S" and key: "starts_with orphan_prefix key" and b: "distinct (map fst b)"
  shows "JI E gone S0 (AList.update key (Orphan_Bucket b) S)" "JI E gone S0 (AList.delete key S)"
    "same_indices E S (AList.update key (Orphan_Bucket b) S)" "same_indices E S (AList.delete key S)"
  using write_orphans [OF JI_wf [OF J] key b] JI_same [OF J] index_other key
  by (auto simp: same_indices_def ptr_grows_def)

lemma runs_write_orphans:
  assumes "JI E gone S0 S" "starts_with orphan_prefix key" "distinct (map fst b)"
    and "\<And>S'. JI E gone S0 S' \<Longrightarrow> same_commands S S' \<Longrightarrow> same_indices E S S' \<Longrightarrow>
      S' = (if b = [] then AList.delete key S else AList.update key (Orphan_Bucket b) S) \<Longrightarrow> Q () S'"
  shows "runs S (write_orphan_bucket E key b) Q (JI E gone S0)"
  unfolding write_orphan_bucket_def
  by (intro runs_if runs_set runs_delete assms(4))
    (use write_orphans_JI [OF assms(1-3)] write_orphans [OF JI_wf [OF assms(1)] assms(2,3)] assms(1) in auto)

text \<open>Nothing but orphan buckets differs between \<open>S\<close> and the stored data reached.\<close>

definition orphans_only :: "journal_env \<Rightarrow> (command_record \<Rightarrow> bool) \<Rightarrow> store \<Rightarrow> store \<Rightarrow> store \<Rightarrow> bool" where
  "orphans_only E gone S0 S S' \<longleftrightarrow> JI E gone S0 S' \<and> same_commands S S' \<and> same_indices E S S'"

lemma orphans_only_refl: "JI E gone S0 S \<Longrightarrow> orphans_only E gone S0 S S"
  by (simp add: orphans_only_def same_indices_def)

lemma orphans_only_step:
  "orphans_only E gone S0 S S' \<Longrightarrow> JI E gone S0 S'' \<Longrightarrow> same_commands S' S'' \<Longrightarrow> same_indices E S' S''
     \<Longrightarrow> orphans_only E gone S0 S S''"
  by (auto simp: orphans_only_def same_indices_def same_commands_def)

lemma runs_prune_bucket:
  assumes wf: "store_wf E S" and T: "T S" and key: "starts_with orphan_prefix key"
    and p: "prune_ok p \<and> retained_keys_ok p"
  shows "runs S (prune_bucket E now key p) (\<lambda>p' S'. S' = S \<and> prune_ok p' \<and> retained_keys_ok p') T"
  unfolding prune_bucket_def
proof (intro runs_bind runs_load_orphans_by_key [OF wf key] runs_fok T)
  fix b :: "(string \<times> orphan_ack) list" assume b: "distinct (map fst b)"
  let ?p = "p\<lparr>pr_buckets := AList.update key b (pr_buckets p)\<rparr>"
  have "prune_ok ?p \<and> retained_keys_ok ?p"
    using p b by (auto simp: prune_ok_def retained_keys_ok_def)
  then have "prune_ok (foldl (prune_entry E now key) ?p b) \<and> retained_keys_ok (foldl (prune_entry E now key) ?p b)"
    by (intro foldl_inv [where I = "\<lambda>p. prune_ok p \<and> retained_keys_ok p"])
      (auto intro: prune_entry_ok prune_entry_keys key)
  then show "S = S \<and> prune_ok (foldl (prune_entry E now key) ?p b) \<and>
      retained_keys_ok (foldl (prune_entry E now key) ?p b)" by simp
qed

lemma runs_prune:
  assumes J: "JI E gone S0 S"
    and Q: "\<And>n S'. orphans_only E gone S0 S S' \<Longrightarrow> Q n S'"
  shows "runs S (prune_orphans E now m) Q (JI E gone S0)"
proof -
  let ?I = "\<lambda>_ p S'. S' = S \<and> prune_ok p \<and> retained_keys_ok p"
  have writes: "runs S (fthen (fiter (\<lambda>key. write_orphan_bucket E key (bucket_of p key)) (pr_changed p)) (fok n)) Q (JI E gone S0)"
    if p: "prune_ok p" for p n
  proof (intro runs_then runs_post [OF runs_fiter [where I = "orphans_only E gone S0 S"]] runs_fok Q)
    fix key S' assume key: "key \<in> set (pr_changed p)" and S': "orphans_only E gone S0 S S'"
    have "JI E gone S0 S'" "starts_with orphan_prefix key"
      using S' key p by (auto simp: orphans_only_def prune_ok_def)
    then show "runs S' (write_orphan_bucket E key (bucket_of p key)) (\<lambda>_. orphans_only E gone S0 S) (JI E gone S0)"
      by (intro runs_write_orphans bucket_of_distinct p) (auto intro: orphans_only_step [OF S'])
  qed (use orphans_only_refl [OF J] in auto)
  show ?thesis
    unfolding prune_orphans_def Let_def
  proof (intro runs_bind runs_list runs_post [OF runs_ffold [where I = ?I]] J)
    fix ks key rest p S'
    assume ks: "filter (starts_with orphan_prefix) (map fst S) = ks @ key # rest" and I: "?I ks p S'"
    have "key \<in> set (filter (starts_with orphan_prefix) (map fst S))" unfolding ks by simp
    then show "runs S' (prune_bucket E now key p) (\<lambda>p' S''. ?I (ks @ [key]) p' S'') (JI E gone S0)"
      using I J by (auto intro!: runs_prune_bucket JI_wf)
  next
    fix p S' assume "?I (filter (starts_with orphan_prefix) (map fst S)) p S'"
    then show "runs S' (fthen (fiter (\<lambda>key. write_orphan_bucket E key (bucket_of (prune_excess E m p) key))
        (pr_changed (prune_excess E m p))) (fok (pr_removed (prune_excess E m p)))) Q (JI E gone S0)"
      using writes prune_excess_ok by auto
  qed (auto simp: prune_ok_def retained_keys_ok_def)
qed

section \<open>Storing an orphan\<close>

lemma runs_store_orphan:
  assumes J: "JI E gone S0 S" and Q: "\<And>S'. orphans_only E gone S0 S S' \<Longrightarrow> Q () S'"
  shows "runs S (store_orphan_ack E session mid status occurred observed) Q (JI E gone S0)"
proof -
  have put: "orphans_only E gone S0 S (AList.update (orphan_key E mid) (Orphan_Bucket (AList.update mid a b)) S')"
    if "orphans_only E gone S0 S S'" "distinct (map fst b)" for S' a b
  proof -
    have J': "JI E gone S0 S'" using that(1) by (simp add: orphans_only_def)
    have d: "distinct (map fst (AList.update mid a b))" by (rule distinct_fst_update [OF that(2)])
    show ?thesis
      using write_orphans_JI [OF J' key_namespaces(3) d] write_orphans [OF JI_wf [OF J'] key_namespaces(3) d]
      by (intro orphans_only_step [OF that(1)]) auto
  qed
  note refl = orphans_only_refl [OF J]
  have insert: "runs S (fbind (prune_orphans E now m) (\<lambda>_. fbind (load_orphan_bucket E mid) (\<lambda>b'.
      storage_set E (orphan_key E mid) (Orphan_Bucket (AList.update mid a b'))))) Q (JI E gone S0)" for now m a
  proof (intro runs_bind runs_prune [OF J] runs_load_orphans runs_set Q put)
    fix n S' assume "orphans_only E gone S0 S S'"
    then show "JI E gone S0 S'" "store_wf E S'" by (auto simp: orphans_only_def JI_wf)
    then show "JI E gone S0 S'" by simp
  qed
  have merge: "runs S (fbind (load_orphan_bucket E mid) (\<lambda>b.
            let entry = \<lparr>oa_sessionId = session, oa_status = status, oa_occurredAt = Some at_ms\<rparr>
            in case map_of b mid of
                 Some current \<Rightarrow>
                   if should_replace_ack (oa_status current) status
                   then storage_set E (orphan_key E mid) (Orphan_Bucket (AList.update mid entry b))
                   else fok ()
               | None \<Rightarrow>
                   fbind (prune_orphans E now (env_maximumOrphans E - 1)) (\<lambda>_.
                   fbind (load_orphan_bucket E mid) (\<lambda>b'.
                     storage_set E (orphan_key E mid) (Orphan_Bucket (AList.update mid entry b')))))) Q (JI E gone S0)"
    for at_ms now
    unfolding Let_def
    by (rule runs_bind, rule runs_load_orphans [OF JI_wf [OF J]], rule J)
      (auto split: option.splits intro!: insert runs_set runs_fok Q put refl J)
  show ?thesis
    unfolding store_orphan_ack_def by (auto split: option.splits intro!: runs_fok Q refl merge)
qed

section \<open>Acceptance\<close>

lemma runs_apply_orphan:
  assumes J: "JI E gone S0 S" and live: "live_record E S cid key b r"
    and Q: "\<And>S' r'. JI E gone S0 S' \<Longrightarrow> ptr_of E S' = ptr_of E S \<Longrightarrow> msg_of E S' = msg_of E S \<Longrightarrow>
      lookup_rec S' key cid = Some r' \<Longrightarrow> rec_le r r' \<Longrightarrow> rec_state r' = rec_state r \<Longrightarrow> Q r' S'"
  shows "runs S (apply_orphan_ack E r key b cid mid) Q (JI E gone S0)"
proof -
  have slot: "slot_bucket S key b" "starts_with command_prefix key" "bucket_ok E key b" "map_of b cid = Some r"
    using live by (auto simp: live_record_def slot_bucket_def)
  have drop: "runs S' (write_orphan_bucket E (orphan_key E mid) (AList.delete mid ob))
      (\<lambda>_ S''. runs S'' (fok r') Q (JI E gone S0)) (JI E gone S0)"
    if S': "JI E gone S0 S'" "ptr_of E S' = ptr_of E S" "msg_of E S' = msg_of E S" "lookup_rec S' key cid = Some r'"
      and r': "rec_le r r'" "rec_state r' = rec_state r" and ob: "distinct (map fst ob)"
    for S' r' and ob :: "(string \<times> orphan_ack) list"
    by (intro runs_write_orphans [OF S'(1) key_namespaces(3) distinct_delete_fst [OF ob]] runs_fok Q)
      (use S' r' in \<open>auto simp: same_commands_def same_indices_def\<close>)
  show ?thesis
    unfolding apply_orphan_ack_def
  proof (rule runs_bind, rule runs_load_orphans [OF JI_wf [OF J]], rule J, rule runs_option,
      goal_cases none some)
    case (none ob) show ?case by (intro runs_fok Q [OF J]) (simp_all add: live_recordD(4) [OF live])
  next
    case (some ob a)
    show ?case
    proof (intro runs_bind runs_if runs_fok J runs_append_ack [OF live_recordD(1) [OF live]] runs_then, goal_cases)
    case 1 show ?case by (rule Q [OF J]) (simp_all add: live_recordD(4) [OF live])
  next
    case 2 show ?case
      using drop [OF J refl refl live_recordD(4) [OF live]] some by (auto intro!: runs_then runs_fok)
  next
    case (3 r' m)
    have id: "cmd_commandId (rec_command r') = cid" "command_bucket_key E (rec_command r') = key"
      using live_recordD [OF live] 3 by auto
    show ?case
      unfolding option.case
      by (rule runs_save [OF J slot(1-3) id 3(2)])
        (use 3 some slot(4) drop in \<open>auto intro!: runs_then dest: live_recordD(4)\<close>)
    qed
  qed
qed

lemma runs_mark_accepted:
  assumes J: "JI E gone S0 S" and mid: "mid \<noteq> []"
    and stay: "\<And>r. indexed_rec E S cid = Some r \<Longrightarrow> is_terminal (rec_state r) \<Longrightarrow> Q r S"
    and move: "\<And>r r' S'. JI E gone S0 S' \<Longrightarrow> indexed_rec E S cid = Some r \<Longrightarrow> rec_state r = SEND_STARTED \<Longrightarrow>
       indexed_rec E S' cid = Some r' \<Longrightarrow> rec_state r' = SEND_ACCEPTED \<Longrightarrow> rec_openwaMessageId r' = Some mid \<Longrightarrow>
       msg_of E S' mid = Some \<lparr>mp_commandId = cid, mp_sessionId = cmd_sessionId (rec_command r)\<rparr> \<Longrightarrow>
       rec_le r r' \<Longrightarrow> Q r' S'"
  shows "runs S (mark_accepted E cid mid now) Q (JI E gone S0)"
  unfolding mark_accepted_def
proof (rule runs_bind, rule runs_mutable [OF JI_wf [OF J]], rule J)
  fix p b r assume p: "ptr_of E S cid = Some p" and live: "live_record E S cid (ptr_bucketKey p) b r"
  let ?key = "ptr_bucketKey p" and ?t = "accepted_transition mid now"
  note ok = live_recordD(1) [OF live] and idx = live_indexed [OF p live]
  have t: "tr_state ?t = SEND_ACCEPTED" "tr_kind ?t = state_kind (tr_state ?t)"
    by (simp_all add: accepted_transition_def)
  have advance: "runs S (fbind (append_evidence E r ?t) (\<lambda>r1. let r2 = r1\<lparr>rec_openwaMessageId := Some mid\<rparr>
      in fthen (forget_race cid) (fthen (save_record E ?key b cid r2)
          (fthen (set_message_pointer E mid cid (cmd_sessionId (rec_command r2)))
            (apply_orphan_ack E r2 ?key (AList.update cid r2 b) cid mid))))) Q (JI E gone S0)"
    if st: "rec_state r = SEND_STARTED"
    unfolding Let_def
  proof (rule runs_bind, rule runs_append_evidence [OF ok _ t(2)])
    show "next_state (rec_state r) (tr_state ?t)" using st t by simp
    fix r1 assume r1: "rec_state r1 = tr_state ?t" "rec_command r1 = rec_command r"
      and ext: "\<And>m. (case m of None \<Rightarrow> tr_state ?t \<noteq> SEND_ACCEPTED | Some i \<Rightarrow> tr_state ?t = SEND_ACCEPTED \<and> i \<noteq> []) \<Longrightarrow>
          record_ok (r1\<lparr>rec_openwaMessageId := m\<rparr>) \<and> rec_le r (r1\<lparr>rec_openwaMessageId := m\<rparr>)"
    let ?r2 = "r1\<lparr>rec_openwaMessageId := Some mid\<rparr>"
    have r2: "record_ok ?r2" "rec_le r ?r2" using ext [of "Some mid"] t(1) mid by auto
    show "runs S (fthen (forget_race cid) (fthen (save_record E ?key b cid ?r2)
          (fthen (set_message_pointer E mid cid (cmd_sessionId (rec_command ?r2)))
            (apply_orphan_ack E ?r2 ?key (AList.update cid ?r2 b) cid mid)))) Q (JI E gone S0)"
    proof (intro runs_then runs_forget runs_save_live [OF J p live r2])
      fix S1 assume S1: "JI E gone S0 S1" "ptr_of E S1 = ptr_of E S"
        "live_record E S1 cid ?key (AList.update cid ?r2 b) ?r2"
      show "runs S1 (set_message_pointer E mid cid (cmd_sessionId (rec_command ?r2)))
         (\<lambda>_ S'. runs S' (apply_orphan_ack E ?r2 ?key (AList.update cid ?r2 b) cid mid) Q (JI E gone S0)) (JI E gone S0)"
      proof (rule runs_set_message [OF S1(1) live_recordD(4) [OF S1(3)]])
        fix S2 assume S2: "JI E gone S0 S2" "same_commands S1 S2" "ptr_of E S2 = ptr_of E S1"
          "msg_of E S2 = (msg_of E S1)(mid \<mapsto> \<lparr>mp_commandId = cid, mp_sessionId = cmd_sessionId (rec_command ?r2)\<rparr>)"
        have live2: "live_record E S2 cid ?key (AList.update cid ?r2 b) ?r2"
          using S1(3) S2(2) by (auto simp: live_record_def same_commands_def)
        show "runs S2 (apply_orphan_ack E ?r2 ?key (AList.update cid ?r2 b) cid mid) Q (JI E gone S0)"
        proof (rule runs_apply_orphan [OF S2(1) live2])
          fix S' r' assume S': "JI E gone S0 S'" "ptr_of E S' = ptr_of E S2" "msg_of E S' = msg_of E S2"
            "lookup_rec S' ?key cid = Some r'" "rec_le ?r2 r'" "rec_state r' = rec_state ?r2"
          have "rec_le r r'" using rec_le_trans r2(2) S'(5) by blast
          moreover have "rec_openwaMessageId r' = Some mid" using S'(5) by (simp add: rec_le_def)
          ultimately show "Q r' S'"
            using S' S1 S2 r1 t p st by (intro move [OF S'(1) idx]) (auto simp: indexed_rec_def)
        qed
      qed simp_all
    qed
  qed
  show "runs S (case (?key, b, r) of (key, b, r) \<Rightarrow>
     if is_terminal (rec_state r) then fthen (forget_race cid) (fok r)
     else if rec_state r \<noteq> SEND_STARTED then fthrow (Cannot_Accept (rec_state r))
     else fbind (append_evidence E r ?t) (\<lambda>r1. let r2 = r1\<lparr>rec_openwaMessageId := Some mid\<rparr>
       in fthen (forget_race cid) (fthen (save_record E key b cid r2)
          (fthen (set_message_pointer E mid cid (cmd_sessionId (rec_command r2)))
            (apply_orphan_ack E r2 key (AList.update cid r2 b) cid mid))))) Q (JI E gone S0)"
    unfolding prod.case
    by (intro runs_if advance runs_fthrow J) (auto intro!: runs_then runs_forget runs_fok stay idx)
qed

section \<open>Acknowledgements\<close>

lemma runs_acknowledge:
  assumes J: "JI E gone S0 S"
    and ignored: "\<And>S'. orphans_only E gone S0 S S' \<Longrightarrow> Q False S'"
    and recorded: "\<And>p r r' S'. JI E gone S0 S' \<Longrightarrow> msg_of E S mid = Some p \<Longrightarrow> mp_sessionId p = session \<Longrightarrow>
      indexed_rec E S (mp_commandId p) = Some r \<Longrightarrow> indexed_rec E S' (mp_commandId p) = Some r' \<Longrightarrow>
      rec_state r = SEND_ACCEPTED \<Longrightarrow> \<not> ack_superseded r status \<Longrightarrow> kinds r' = kinds r @ [ack_kind status] \<Longrightarrow>
      rec_le r r' \<Longrightarrow> Q True S'"
  shows "runs S (append_acknowledgement E session mid status occurred observed) Q (JI E gone S0)"
proof -
  have wf: "store_wf E S" using J by (rule JI_wf)
  note refl = orphans_only_refl [OF J]
  have unknown: "runs S (fbind (fget (\<lambda>s. has_active_race_candidate s session occurred)) (\<lambda>candidate.
         if \<not> candidate then fok False
         else fthen (store_orphan_ack E session mid status occurred observed) (fok False))) Q (JI E gone S0)"
    by (intro runs_bind runs_fget runs_if runs_then runs_store_orphan [OF J] runs_fok ignored refl)
  have recording: "runs S (fbind (mutable_record E (mp_commandId q)) (\<lambda>(key, b, r).
           fbind (append_ack_evidence E r status occurred) (\<lambda>changed.
             case changed of
               None \<Rightarrow> fok False
             | Some r' \<Rightarrow> fthen (save_record E key b (mp_commandId q) r') (fok True)))) Q (JI E gone S0)"
    if q: "msg_of E S mid = Some q" "mp_sessionId q = session" for q
  proof (rule runs_bind, rule runs_mutable [OF wf], rule J)
    fix p b r assume p: "ptr_of E S (mp_commandId q) = Some p"
      and live: "live_record E S (mp_commandId q) (ptr_bucketKey p) b r"
    note ok = live_recordD(1) [OF live] and idx = live_indexed [OF p live]
    show "runs S (case (ptr_bucketKey p, b, r) of (key, b, r) \<Rightarrow>
           fbind (append_ack_evidence E r status occurred) (\<lambda>changed.
             case changed of
               None \<Rightarrow> fok False
             | Some r' \<Rightarrow> fthen (save_record E key b (mp_commandId q) r') (fok True))) Q (JI E gone S0)"
      unfolding prod.case
    proof (rule runs_bind, rule runs_append_ack [OF ok], rule J)
      show "runs S (case None of None \<Rightarrow> fok False
             | Some r' \<Rightarrow> fthen (save_record E (ptr_bucketKey p) b (mp_commandId q) r') (fok True)) Q (JI E gone S0)"
        using ignored [OF refl] by (simp add: runs_fok)
      fix r' assume r': "record_ok r'" "rec_le r r'" "rec_state r = SEND_ACCEPTED"
        "\<not> ack_superseded r status" "kinds r' = kinds r @ [ack_kind status]"
      show "runs S (case Some r' of None \<Rightarrow> fok False
             | Some r' \<Rightarrow> fthen (save_record E (ptr_bucketKey p) b (mp_commandId q) r') (fok True)) Q (JI E gone S0)"
        unfolding option.case
        by (intro runs_then runs_save_live [OF J p live r'(1,2)] runs_fok) (rule recorded, use q idx r' in auto)
    qed
  qed
  have found: "runs S (case map_of idx mid of
       None \<Rightarrow> fbind (fget (\<lambda>s. has_active_race_candidate s session occurred)) (\<lambda>candidate.
         if \<not> candidate then fok False
         else fthen (store_orphan_ack E session mid status occurred observed) (fok False))
     | Some p \<Rightarrow>
         if mp_sessionId p \<noteq> session then fok False
         else fbind (mutable_record E (mp_commandId p)) (\<lambda>(key, b, r).
           fbind (append_ack_evidence E r status occurred) (\<lambda>changed.
             case changed of
               None \<Rightarrow> fok False
             | Some r' \<Rightarrow> fthen (save_record E key b (mp_commandId p) r') (fok True)))) Q (JI E gone S0)"
    if "mix.holds_shard E S mid idx" for idx
  proof (cases "map_of idx mid")
    case None then show ?thesis using unknown by simp
  next
    case (Some q)
    then have "msg_of E S mid = Some q" using mix.look_shard [OF that] by simp
    then show ?thesis using Some recording ignored [OF refl] by (auto intro: runs_fok)
  qed
  show ?thesis unfolding append_acknowledgement_def
    by (rule runs_bind, rule runs_load_messages [OF wf], rule J, rule found)
qed

section \<open>Delivery bookkeeping\<close>

lemma update_entry_kinds:
  assumes "update_entry eid f es = Some es'" "\<And>e. je_evidence (f e) = je_evidence e"
  shows "map je_evidence es' = map je_evidence es"
  using assms by (induction es arbitrary: es') (auto split: if_splits)

lemma update_entry_le:
  assumes "update_entry eid f es = Some es'" "\<And>e. je_deliveredAt e = None \<Longrightarrow> entry_le e (f e)"
  shows "list_all2 entry_le es es'"
  using assms by (induction es arbitrary: es') (auto split: if_splits)

lemma touched_ok:
  assumes "record_ok r" "map je_evidence es = map je_evidence (rec_evidence r)"
    "list_all2 entry_le (rec_evidence r) es"
  shows "record_ok (r\<lparr>rec_evidence := es, rec_updatedAt := now\<rparr>)" "rec_le r (r\<lparr>rec_evidence := es, rec_updatedAt := now\<rparr>)"
proof -
  let ?r = "r\<lparr>rec_evidence := es, rec_updatedAt := now\<rparr>"
  have seqs: "map (\<lambda>e. ev_sequence (je_evidence e)) es = map (\<lambda>e. ev_sequence (je_evidence e)) (rec_evidence r)"
    using arg_cong [OF assms(2), of "map ev_sequence"] by (simp add: comp_def)
  have ks: "kinds ?r = kinds r"
    using arg_cong [OF assms(2), of "map ev_kind"] by (simp add: kinds_def comp_def)
  have len: "length es = length (rec_evidence r)" using assms(2) map_eq_imp_length_eq by blast
  have "set (map je_evidence es) = set (map je_evidence (rec_evidence r))" using assms(2) by simp
  then have "list_all (evidence_of ?r) es \<longleftrightarrow> list_all (evidence_of r) (rec_evidence r)"
    unfolding list_all_iff evidence_of_def by (simp, metis (no_types, lifting) imageE imageI)
  then show "record_ok ?r"
    using assms(1) seqs ks len by (simp add: record_ok_def message_id_ok_def del: upt_Suc cong: option.case_cong)
  show "rec_le r ?r" using assms(3) by (auto simp: rec_le_def intro!: exI [of _ "[]"])
qed

lemma runs_touch:
  assumes J: "JI E gone S0 S" and f: "\<And>e. je_evidence (f e) = je_evidence e"
      "\<And>e. je_deliveredAt e = None \<Longrightarrow> entry_le e (f e)"
    and none: "\<And>r. indexed_rec E S cid = Some r \<Longrightarrow> update_entry eid f (rec_evidence r) = None \<Longrightarrow> Q () S"
    and some: "\<And>r es S'. JI E gone S0 S' \<Longrightarrow> indexed_rec E S cid = Some r \<Longrightarrow>
       update_entry eid f (rec_evidence r) = Some es \<Longrightarrow>
       indexed_rec E S' cid = Some (r\<lparr>rec_evidence := es, rec_updatedAt := now\<rparr>) \<Longrightarrow> Q () S'"
  shows "runs S (touch_evidence E cid eid now f) Q (JI E gone S0)"
  unfolding touch_evidence_def
proof (rule runs_bind, rule runs_mutable [OF JI_wf [OF J]], rule J)
  fix p b r assume p: "ptr_of E S cid = Some p" and live: "live_record E S cid (ptr_bucketKey p) b r"
  note ok = live_recordD(1) [OF live] and idx = live_indexed [OF p live]
  have save: "runs S (save_record E (ptr_bucketKey p) b cid (r\<lparr>rec_evidence := es, rec_updatedAt := now\<rparr>)) Q (JI E gone S0)"
    if "update_entry eid f (rec_evidence r) = Some es" for es
    by (rule runs_save_live [OF J p live touched_ok [OF ok update_entry_kinds [OF that f(1)] update_entry_le [OF that f(2)]]])
      (use some [OF _ idx that] in auto)
  show "runs S (case (ptr_bucketKey p, b, r) of (key, b, r) \<Rightarrow> (case update_entry eid f (rec_evidence r) of
       None \<Rightarrow> fok () | Some es \<Rightarrow> save_record E key b cid (r\<lparr>rec_evidence := es, rec_updatedAt := now\<rparr>))) Q (JI E gone S0)"
    unfolding prod.case by (intro runs_option runs_fok save) (use none idx in auto)
qed

lemma bookkeeping_ok:
  "je_evidence (delivered_entry now e) = je_evidence e" "je_evidence (failed_entry now err e) = je_evidence e"
  "je_deliveredAt e = None \<Longrightarrow> entry_le e (delivered_entry now e)"
  "je_deliveredAt e = None \<Longrightarrow> entry_le e (failed_entry now err e)"
  by (simp_all add: delivered_entry_def failed_entry_def entry_le_def)

end
