(* ===== verification/Journal_Recovery.thy ===== *)
theory Journal_Recovery
  imports Journal_Acks
begin

text \<open>
  Restart and compaction: \<open>recover\<close> rebuilds the indices and turns every send of unknown outcome into
  an indeterminate one, \<open>compact\<close> removes only what it may.
\<close>

section \<open>Recovery\<close>

definition index_grows :: "journal_env \<Rightarrow> store \<Rightarrow> store \<Rightarrow> bool" where
  "index_grows E S S' \<longleftrightarrow> (\<forall>c p. ptr_of E S c = Some p \<longrightarrow> ptr_of E S' c = Some p)
     \<and> (\<forall>m p. msg_of E S m = Some p \<longrightarrow> msg_of E S' m = Some p)"

lemma index_grows_refl [simp]: "index_grows E S S"
  by (simp add: index_grows_def)

lemma index_grows_trans: "index_grows E S S' \<Longrightarrow> index_grows E S' S'' \<Longrightarrow> index_grows E S S''"
  by (simp add: index_grows_def)

definition fully_indexed :: "journal_env \<Rightarrow> store \<Rightarrow> string \<Rightarrow> string \<Rightarrow> command_record \<Rightarrow> bool" where
  "fully_indexed E S key c r \<longleftrightarrow>
     ptr_of E S c = Some \<lparr>ptr_bucketKey = key, ptr_payloadSha256 = rec_payloadSha256 r\<rparr>
     \<and> (\<forall>mid. rec_openwaMessageId r = Some mid \<longrightarrow>
          msg_of E S mid = Some \<lparr>mp_commandId = c, mp_sessionId = cmd_sessionId (rec_command r)\<rparr>)"

lemma fully_indexed_grows: "fully_indexed E S key c r \<Longrightarrow> index_grows E S S' \<Longrightarrow> fully_indexed E S' key c r"
  by (auto simp: fully_indexed_def index_grows_def)

definition recovered_entry :: "command_record \<Rightarrow> command_record \<Rightarrow> bool" where
  "recovered_entry r r' \<longleftrightarrow> record_ok r' \<and> rec_le r r' \<and> rec_openwaMessageId r' = rec_openwaMessageId r \<and>
     (if rec_state r = SEND_STARTED then rec_state r' = SEND_INDETERMINATE else r' = r)"

definition recover_inv ::
  "journal_env \<Rightarrow> (command_record \<Rightarrow> bool) \<Rightarrow> store \<Rightarrow> store \<Rightarrow> string \<Rightarrow> (string \<times> command_record) list \<Rightarrow> recovery
     \<Rightarrow> (string \<times> command_record) list \<Rightarrow> recover_bucket_state \<Rightarrow> store \<Rightarrow> bool" where
  "recover_inv E gone S0 S key b rcv seen acc S' \<longleftrightarrow>
     JI E gone S0 S' \<and> same_commands S S' \<and> index_grows E S S' \<and> bucket_ok E key (rb_bucket acc) \<and>
     fst ` set (rb_bucket acc) = fst ` set b \<and>
     (\<forall>(c, r) \<in> set seen. \<exists>r'. map_of (rb_bucket acc) c = Some r' \<and> recovered_entry r r' \<and> fully_indexed E S' key c r') \<and>
     (\<forall>(c, r) \<in> set b - set seen. map_of (rb_bucket acc) c = Some r) \<and>
     (rb_changed acc \<or> rb_bucket acc = b) \<and>
     rcv_resumable (rb_recovery acc) =
       rcv_resumable rcv @ filter (\<lambda>r. rec_state r = RECEIVED) (map snd seen)"

lemma runs_index_entry:
  assumes J: "JI E gone S0 S" and r: "lookup_rec S key c = Some r"
    and Q: "\<And>S'. JI E gone S0 S' \<Longrightarrow> same_commands S S' \<Longrightarrow> index_grows E S S' \<Longrightarrow> fully_indexed E S' key c r \<Longrightarrow> runs S' k Q (JI E gone S0)"
  shows "runs S (fthen (set_pointer E c key (rec_payloadSha256 r))
      (fthen (case rec_openwaMessageId r of
                None \<Rightarrow> fok ()
              | Some mid \<Rightarrow> if mid = [] then fok ()
                  else set_message_pointer E mid c (cmd_sessionId (rec_command r))) k)) Q (JI E gone S0)"
proof (rule runs_then, rule runs_set_pointer [OF J r refl])
  fix S1 assume S1: "JI E gone S0 S1" "same_commands S S1" "msg_of E S1 = msg_of E S"
    "ptr_of E S1 = (ptr_of E S)(c \<mapsto> \<lparr>ptr_bucketKey = key, ptr_payloadSha256 = rec_payloadSha256 r\<rparr>)"
    "\<And>p. ptr_of E S c = Some p \<Longrightarrow> p = \<lparr>ptr_bucketKey = key, ptr_payloadSha256 = rec_payloadSha256 r\<rparr>"
  have g1: "index_grows E S S1" using S1(3-5) by (auto simp: index_grows_def)
  have r1: "lookup_rec S1 key c = Some r" using r S1(2) by (simp add: same_commands_def)
  have nonempty: "mid \<noteq> []" if "rec_openwaMessageId r = Some mid" for mid
    using that lookup_recD(4) [OF JI_wf [OF J] r] by (auto simp: record_ok_def message_id_ok_def)
  show "runs S1 (fthen (case rec_openwaMessageId r of None \<Rightarrow> fok () | Some mid \<Rightarrow> if mid = [] then fok ()
      else set_message_pointer E mid c (cmd_sessionId (rec_command r))) k) Q (JI E gone S0)"
  proof (cases "rec_openwaMessageId r")
    case None
    then have "fully_indexed E S1 key c r" using S1(4) by (simp add: fully_indexed_def)
    then show ?thesis using None Q [OF S1(1,2) g1] by (auto intro!: runs_then runs_fok)
  next
    case (Some mid)
    have "runs S1 (set_message_pointer E mid c (cmd_sessionId (rec_command r)))
        (\<lambda>_ S'. runs S' k Q (JI E gone S0)) (JI E gone S0)"
    proof (rule runs_set_message [OF S1(1) r1 Some refl])
      fix S2 assume S2: "JI E gone S0 S2" "same_commands S1 S2" "ptr_of E S2 = ptr_of E S1"
        "msg_of E S2 = (msg_of E S1)(mid \<mapsto> \<lparr>mp_commandId = c, mp_sessionId = cmd_sessionId (rec_command r)\<rparr>)"
        "\<And>p. msg_of E S1 mid = Some p \<Longrightarrow> p = \<lparr>mp_commandId = c, mp_sessionId = cmd_sessionId (rec_command r)\<rparr>"
      have "index_grows E S1 S2" using S2(3-5) by (auto simp: index_grows_def)
      then show "runs S2 k Q (JI E gone S0)"
        using S1 S2 Some same_commands_trans index_grows_trans [OF g1]
        by (intro Q) (auto simp: fully_indexed_def)
    qed
    then show ?thesis using Some nonempty by (auto intro!: runs_then)
  qed
qed

lemma recovered_self: "record_ok r \<Longrightarrow> rec_state r \<noteq> SEND_STARTED \<Longrightarrow> recovered_entry r r"
  by (simp add: recovered_entry_def)

lemma recover_inv_advance:
  assumes inv: "recover_inv E gone S0 S key b rcv seen acc S1" and b: "b = seen @ (c, r) # rest" "distinct (map fst b)"
    and S': "JI E gone S0 S'" "same_commands S1 S'" "index_grows E S1 S'" "fully_indexed E S' key c r'"
    and r': "recovered_entry r r'" "map_of (rb_bucket acc') c = Some r'"
      "\<And>d. d \<noteq> c \<Longrightarrow> map_of (rb_bucket acc') d = map_of (rb_bucket acc) d"
      "bucket_ok E key (rb_bucket acc')" "fst ` set (rb_bucket acc') = fst ` set b"
      "rb_changed acc' \<or> rb_bucket acc' = b"
      "rcv_resumable (rb_recovery acc') = rcv_resumable (rb_recovery acc) @ (if rec_state r = RECEIVED then [r] else [])"
  shows "recover_inv E gone S0 S key b rcv (seen @ [(c, r)]) acc' S'"
proof -
  have other: "d \<noteq> c" if "(d, q) \<in> set seen \<or> (d, q) \<in> set b - set (seen @ [(c, r)])" for d q
    using that b by (auto simp: image_iff)
  have old: "\<exists>q'. map_of (rb_bucket acc') d = Some q' \<and> recovered_entry q q' \<and> fully_indexed E S' key d q'"
    if "(d, q) \<in> set seen" for d q
  proof -
    from inv have "\<forall>(c, r) \<in> set seen. \<exists>r'. map_of (rb_bucket acc) c = Some r' \<and> recovered_entry r r' \<and>
        fully_indexed E S1 key c r'" unfolding recover_inv_def by (elim conjE)
    with that obtain q' where "map_of (rb_bucket acc) d = Some q'" "recovered_entry q q'" "fully_indexed E S1 key d q'"
      by blast
    then show ?thesis using r'(3) other [OF disjI1 [OF that]] fully_indexed_grows [OF _ S'(3)] by auto
  qed
  have rest: "map_of (rb_bucket acc') d = Some q" if "(d, q) \<in> set b - set (seen @ [(c, r)])" for d q
  proof -
    from inv have "\<forall>(c, r) \<in> set b - set seen. map_of (rb_bucket acc) c = Some r"
      unfolding recover_inv_def by (elim conjE)
    with that have "map_of (rb_bucket acc) d = Some q" by auto
    then show ?thesis using r'(3) other [OF disjI2 [OF that]] by simp
  qed
  have "same_commands S S'" "index_grows E S S'"
    using same_commands_trans [OF _ S'(2)] index_grows_trans [OF _ S'(3)] inv unfolding recover_inv_def
    by (elim conjE, simp)+
  moreover have "rcv_resumable (rb_recovery acc') =
       rcv_resumable rcv @ filter (\<lambda>r. rec_state r = RECEIVED) (map snd (seen @ [(c, r)]))"
    using inv r'(7) unfolding recover_inv_def by simp
  moreover have "\<forall>(d, q) \<in> set (seen @ [(c, r)]). \<exists>q'. map_of (rb_bucket acc') d = Some q' \<and> recovered_entry q q' \<and>
      fully_indexed E S' key d q'"
    using old r'(1,2) S'(4) by auto
  moreover have "\<forall>(d, q) \<in> set b - set (seen @ [(c, r)]). map_of (rb_bucket acc') d = Some q"
    using rest by blast
  ultimately show ?thesis
    using S'(1) r'(4-6) unfolding recover_inv_def by (intro conjI)
qed

lemma runs_recover_record:
  assumes inv: "recover_inv E gone S0 S key b rcv seen acc S1"
    and b: "map_of S key = Some (Command_Bucket b)" "bucket_ok E key b" "b = seen @ (c, r) # rest"
  shows "runs S1 (recover_record E now key (c, r) acc)
      (\<lambda>acc' S'. recover_inv E gone S0 S key b rcv (seen @ [(c, r)]) acc' S') (JI E gone S0)"
proof -
  have d: "distinct (map fst b)" and ok: "record_ok r" "cmd_commandId (rec_command r) = c"
    "command_bucket_key E (rec_command r) = key"
    using b(2,3) by (auto simp: bucket_ok_def)
  have mem: "(c, r) \<in> set b" "c \<in> fst ` set b" using b(3) by simp_all
  have J1: "JI E gone S0 S1" and same: "same_commands S S1" and bk: "bucket_ok E key (rb_bucket acc)"
    and dom: "fst ` set (rb_bucket acc) = fst ` set b" and ch: "rb_changed acc \<or> rb_bucket acc = b"
    using inv unfolding recover_inv_def by - (elim conjE, assumption)+
  have "map_of b c = Some r" using mem(1) d by simp
  then have l: "lookup_rec S1 key c = Some r" using same b(1) by (simp add: same_commands_def lookup_rec_def)
  have cur: "map_of (rb_bucket acc) c = Some r"
  proof -
    have "(c, r) \<in> set b - set seen" using b(3) d by (auto simp: image_iff)
    then show ?thesis using inv unfolding recover_inv_def by blast
  qed
  let ?tail = "if rec_state r = SEND_STARTED then
         fthen (forget_race c)
         (fbind (append_evidence E r (restart_transition now)) (\<lambda>r'.
           fok (acc\<lparr>rb_bucket := AList.update c r' (rb_bucket acc), rb_changed := True,
             rb_recovery := (rb_recovery acc)\<lparr>rcv_indeterminate := Suc (rcv_indeterminate (rb_recovery acc))\<rparr>\<rparr>)))
       else if rec_state r = RECEIVED then
         fok (acc\<lparr>rb_recovery := (rb_recovery acc)\<lparr>rcv_resumable := rcv_resumable (rb_recovery acc) @ [r]\<rparr>\<rparr>)
       else fok acc"
  have tail: "runs S' ?tail (\<lambda>acc' S'. recover_inv E gone S0 S key b rcv (seen @ [(c, r)]) acc' S') (JI E gone S0)"
    if S': "JI E gone S0 S'" "same_commands S1 S'" "index_grows E S1 S'" "fully_indexed E S' key c r" for S'
  proof (intro runs_if)
    assume st: "rec_state r = SEND_STARTED"
    show "runs S' (fthen (forget_race c) (fbind (append_evidence E r (restart_transition now)) (\<lambda>r'.
           fok (acc\<lparr>rb_bucket := AList.update c r' (rb_bucket acc), rb_changed := True,
             rb_recovery := (rb_recovery acc)\<lparr>rcv_indeterminate := Suc (rcv_indeterminate (rb_recovery acc))\<rparr>\<rparr>))))
       (\<lambda>acc' S'. recover_inv E gone S0 S key b rcv (seen @ [(c, r)]) acc' S') (JI E gone S0)"
    proof (intro runs_then runs_forget runs_bind runs_append_evidence [OF ok(1)] runs_fok)
      fix r' assume r': "rec_state r' = tr_state (restart_transition now)" "rec_command r' = rec_command r"
        "rec_openwaMessageId r' = None"
        and ext: "\<And>m. (case m of None \<Rightarrow> tr_state (restart_transition now) \<noteq> SEND_ACCEPTED
            | Some i \<Rightarrow> tr_state (restart_transition now) = SEND_ACCEPTED \<and> i \<noteq> []) \<Longrightarrow>
          record_ok (r'\<lparr>rec_openwaMessageId := m\<rparr>) \<and> rec_le r (r'\<lparr>rec_openwaMessageId := m\<rparr>)"
      have st': "rec_state r' = SEND_INDETERMINATE"
        using r'(1) by (simp add: restart_transition_def indeterminate_transition_def)
      have "r'\<lparr>rec_openwaMessageId := None\<rparr> = r'" using r'(3) by (cases r') simp
      then have ok': "record_ok r'" "rec_le r r'"
        using ext [of None] by (auto simp: restart_transition_def indeterminate_transition_def)
      have "rec_openwaMessageId r = None" using ok(1) st by (auto simp: record_ok_def message_id_ok_def split: option.splits)
      then have rec: "recovered_entry r r'" and full: "fully_indexed E S' key c r'"
        using ok' st st' r'(3) S'(4) by (auto simp: recovered_entry_def fully_indexed_def rec_le_def)
      have "bucket_ok E key (AList.update c r' (rb_bucket acc))"
        by (rule bucket_ok_update [OF bk]) (use ok ok' r'(2) in auto)
      then show "recover_inv E gone S0 S key b rcv (seen @ [(c, r)]) (acc\<lparr>rb_bucket := AList.update c r' (rb_bucket acc),
           rb_changed := True, rb_recovery := (rb_recovery acc)\<lparr>rcv_indeterminate := Suc (rcv_indeterminate (rb_recovery acc))\<rparr>\<rparr>) S'"
        using mem dom st by (intro recover_inv_advance [OF inv b(3) d S'(1-3) full rec]) (auto simp: keys_update insert_absorb)
    qed (simp_all add: st restart_transition_def indeterminate_transition_def)
  next
    assume "rec_state r \<noteq> SEND_STARTED"
    note adv = recover_inv_advance [OF inv b(3) d S' recovered_self [OF ok(1) this]]
    show "rec_state r = RECEIVED \<Longrightarrow> runs S' (fok (acc\<lparr>rb_recovery := (rb_recovery acc)\<lparr>rcv_resumable :=
        rcv_resumable (rb_recovery acc) @ [r]\<rparr>\<rparr>)) (\<lambda>acc' S'. recover_inv E gone S0 S key b rcv (seen @ [(c, r)]) acc' S') (JI E gone S0)"
      "rec_state r \<noteq> RECEIVED \<Longrightarrow> runs S' (fok acc)
        (\<lambda>acc' S'. recover_inv E gone S0 S key b rcv (seen @ [(c, r)]) acc' S') (JI E gone S0)"
      by (rule runs_fok, rule adv, use cur bk dom ch in simp_all)+
  qed
  show ?thesis
    unfolding recover_record_def Let_def snd_conv fst_conv ok(2)
    by (rule runs_index_entry [OF J1 l tail])
qed

text \<open>What recovery establishes for one bucket, and keeps while it works on the others.\<close>

definition recovered_bucket :: "journal_env \<Rightarrow> store \<Rightarrow> string \<Rightarrow> bool" where
  "recovered_bucket E S key \<longleftrightarrow> (\<forall>c r. lookup_rec S key c = Some r \<longrightarrow>
     rec_state r \<noteq> SEND_STARTED \<and> fully_indexed E S key c r)"

definition received_in :: "store \<Rightarrow> string \<Rightarrow> command_record set" where
  "received_in S key = {r. rec_state r = RECEIVED \<and> (\<exists>c. lookup_rec S key c = Some r)}"

definition record_id :: "command_record \<Rightarrow> string" where
  "record_id r = cmd_commandId (rec_command r)"

lemma bucket_ids_distinct:
  assumes "bucket_ok E key b" shows "distinct (map record_id (filter P (map snd b)))"
proof -
  have "map record_id (map snd b) = map fst b"
    using assms by (auto simp: bucket_ok_def record_id_def)
  then show ?thesis using assms by (metis bucket_ok_def distinct_map_filter)
qed

lemma runs_recover_bucket:
  assumes J: "JI E gone S0 S" and key: "starts_with command_prefix key"
    and Q: "\<And>rcv' S'. JI E gone S0 S' \<Longrightarrow> index_grows E S S' \<Longrightarrow> recovered_bucket E S' key \<Longrightarrow>
       (\<And>k. k \<noteq> key \<Longrightarrow> lookup_rec S' k = lookup_rec S k) \<Longrightarrow>
       (\<exists>rs. rcv_resumable rcv' = rcv_resumable rcv @ rs \<and> set rs = received_in S' key \<and> distinct (map record_id rs)) \<Longrightarrow> Q rcv' S'"
  shows "runs S (recover_bucket E now key rcv) Q (JI E gone S0)"
  unfolding recover_bucket_def
proof (rule runs_bind, rule runs_load_commands [OF JI_wf [OF J] key], rule J)
  fix b assume b: "map_of S key = Some (Command_Bucket b)" "bucket_ok E key b"
  let ?acc = "\<lparr>rb_bucket = b, rb_changed = False, rb_recovery = rcv\<rparr>"
  let ?I = "recover_inv E gone S0 S key b rcv"
  have d: "distinct (map fst b)" using b(2) by (simp add: bucket_ok_def)
  have init: "?I [] ?acc S" using J b(2) d by (auto simp: recover_inv_def)
  have final: "runs S1 (fthen (if rb_changed acc then storage_set E key (Command_Bucket (rb_bucket acc)) else fok ())
       (fok (rb_recovery acc))) Q (JI E gone S0)" if inv: "?I b acc S1" for acc S1
  proof -
    let ?S = "if rb_changed acc then AList.update key (Command_Bucket (rb_bucket acc)) S1 else S1"
    have J1: "JI E gone S0 S1" and same: "same_commands S S1" and grow: "index_grows E S S1"
      and bk: "bucket_ok E key (rb_bucket acc)" and dom: "fst ` set (rb_bucket acc) = fst ` set b"
      and ch: "rb_changed acc \<or> rb_bucket acc = b"
      and res: "rcv_resumable (rb_recovery acc) = rcv_resumable rcv @ filter (\<lambda>r. rec_state r = RECEIVED) (map snd b)"
      and all: "\<forall>(c, r) \<in> set b. \<exists>r'. map_of (rb_bucket acc) c = Some r' \<and> recovered_entry r r' \<and> fully_indexed E S1 key c r'"
      using inv unfolding recover_inv_def by - (elim conjE, assumption)+
    have slot1: "map_of S1 key = Some (Command_Bucket b)" using same b(1) key by (simp add: same_commands_def)
    have look: "lookup_rec ?S key = map_of (rb_bucket acc)" using slot1 ch by (auto simp: lookup_rec_def fun_eq_iff)
    have each: "\<exists>r. (c, r) \<in> set b \<and> recovered_entry r r' \<and> fully_indexed E S1 key c r'"
      if "map_of (rb_bucket acc) c = Some r'" for c r'
    proof -
      have "c \<in> fst ` set (rb_bucket acc)" using map_of_SomeD [OF that] by (force simp: image_iff)
      then obtain r where r: "(c, r) \<in> set b" unfolding dom by auto
      then show ?thesis using all that by fastforce
    qed
    have step: "bucket_step gone E S1 key (rb_bucket acc)"
      unfolding bucket_step_def using all slot1 d by (fastforce simp: lookup_rec_def recovered_entry_def)
    have idx: "ptr_of E ?S = ptr_of E S1" "msg_of E ?S = msg_of E S1" using index_other key by auto
    have J': "JI E gone S0 ?S"
      using write_bucket [OF JI_wf [OF J1] key bk step] J1 JI_step ptr_grows_eq [OF idx(1), of gone] by auto
    have done_: "recovered_bucket E ?S key"
      unfolding recovered_bucket_def look fully_indexed_def idx using each
      by (fastforce simp: recovered_entry_def fully_indexed_def split: if_splits)
    have rcvd: "received_in ?S key = {r \<in> snd ` set b. rec_state r = RECEIVED}"
    proof (intro set_eqI iffI)
      fix r' assume "r' \<in> received_in ?S key"
      then obtain c r where "rec_state r' = RECEIVED" "(c, r) \<in> set b" "recovered_entry r r'"
        using each unfolding received_in_def look by blast
      then show "r' \<in> {r \<in> snd ` set b. rec_state r = RECEIVED}"
        by (force simp: recovered_entry_def split: if_splits)
    next
      fix r assume "r \<in> {r \<in> snd ` set b. rec_state r = RECEIVED}"
      then obtain c where c: "(c, r) \<in> set b" "rec_state r = RECEIVED" by auto
      then obtain r' where "map_of (rb_bucket acc) c = Some r'" "recovered_entry r r'" using all by fastforce
      then show "r \<in> received_in ?S key" using c(2) unfolding received_in_def look recovered_entry_def by auto
    qed
    have other: "lookup_rec ?S k = lookup_rec S k" if "k \<noteq> key" for k
      using that same by (auto simp: lookup_rec_update same_commands_def fun_eq_iff)
    have "\<exists>rs. rcv_resumable (rb_recovery acc) = rcv_resumable rcv @ rs \<and> set rs = received_in ?S key \<and> distinct (map record_id rs)"
      unfolding res rcvd using bucket_ids_distinct [OF b(2)] by auto
    moreover have "index_grows E S ?S" using grow idx by (simp add: index_grows_def)
    ultimately have "Q (rb_recovery acc) ?S" using Q [OF J' _ done_ other] by blast
    then show ?thesis by (auto intro!: runs_then runs_set runs_fok J1 split: if_splits)
  qed
  show "runs S (fbind (ffold (recover_record E now key) b ?acc) (\<lambda>acc.
     fthen (if rb_changed acc then storage_set E key (Command_Bucket (rb_bucket acc)) else fok ())
       (fok (rb_recovery acc)))) Q (JI E gone S0)"
  proof (rule runs_bind, rule runs_post [OF runs_ffold [where I = ?I]])
    fix seen x rest acc S1 assume "b = seen @ x # rest" "?I seen acc S1"
    then show "runs S1 (recover_record E now key x acc) (\<lambda>acc' S'. ?I (seen @ [x]) acc' S') (JI E gone S0)"
      using runs_recover_record [OF _ b] by (cases x) auto
  qed (use init final in auto)
qed simp

lemma runs_recover:
  assumes J: "JI E gone S0 S"
    and Q: "\<And>rcv S'. JI E gone S0 S' \<Longrightarrow> index_grows E S S' \<Longrightarrow> (\<And>key. recovered_bucket E S' key) \<Longrightarrow>
       set (rcv_resumable rcv) = (\<Union>key. received_in S' key) \<Longrightarrow>
       distinct (map record_id (rcv_resumable rcv)) \<Longrightarrow> Q rcv S'"
  shows "runs S (recover E now) Q (JI E gone S0)"
proof -
  let ?keys = "filter (starts_with command_prefix) (map fst S)"
  let ?I = "\<lambda>ks (rcv :: recovery) S'. JI E gone S0 S' \<and> index_grows E S S' \<and> (\<forall>k \<in> set ks. recovered_bucket E S' k)
    \<and> (\<forall>k. k \<notin> set ks \<longrightarrow> lookup_rec S' k = lookup_rec S k)
    \<and> set (rcv_resumable rcv) = (\<Union>k \<in> set ks. received_in S' k) \<and> distinct (map record_id (rcv_resumable rcv))"
  have d: "distinct ?keys" using JI_wf [OF J] by (simp add: store_wf_def)
  show ?thesis
    unfolding recover_def list_command_keys_def
  proof (rule runs_bind, rule runs_list, rule runs_post [OF runs_ffold [where I = ?I]])
  show "?I [] \<lparr>rcv_resumable = [], rcv_indeterminate = 0\<rparr> S" using J by simp
  fix ks key rest and rcv :: recovery and S1 assume split: "?keys = ks @ key # rest" and I: "?I ks rcv S1"
  have "key \<in> set ?keys" unfolding split by simp
  then have key: "starts_with command_prefix key" by simp
  have new: "key \<notin> set ks" using d unfolding split by auto
  show "runs S1 (recover_bucket E now key rcv) (\<lambda>rcv' S'. ?I (ks @ [key]) rcv' S') (JI E gone S0)"
  proof (rule runs_recover_bucket [OF _ key])
    show "JI E gone S0 S1" using I by simp
    fix rcv' :: recovery and S' assume S': "JI E gone S0 S'" "index_grows E S1 S'" "recovered_bucket E S' key"
      "\<And>k. k \<noteq> key \<Longrightarrow> lookup_rec S' k = lookup_rec S1 k"
      "\<exists>rs. rcv_resumable rcv' = rcv_resumable rcv @ rs \<and> set rs = received_in S' key \<and> distinct (map record_id rs)"
    have same: "lookup_rec S' k = lookup_rec S1 k" if "k \<in> set ks" for k using S'(4) new that by metis
    have rec_old: "recovered_bucket E S' k" if "k \<in> set ks" for k
      using I that same [OF that] fully_indexed_grows [OF _ S'(2)] by (auto simp: recovered_bucket_def)
    have same_in: "received_in S' k = received_in S1 k" if "k \<in> set ks" for k
      using same [OF that] by (simp add: received_in_def)
    obtain rs where rs: "rcv_resumable rcv' = rcv_resumable rcv @ rs" "set rs = received_in S' key"
      "distinct (map record_id rs)" using S'(5) by blast
    have apart: "record_id q \<noteq> record_id r" if "q \<in> set (rcv_resumable rcv)" "r \<in> set rs" for q r
    proof
      assume eq: "record_id q = record_id r"
      from that(1) I obtain k where k: "k \<in> set ks" "q \<in> received_in S1 k" by blast
      then have "q \<in> received_in S' k" using same_in by simp
      then have "ptr_of E S' (record_id q) = Some \<lparr>ptr_bucketKey = k, ptr_payloadSha256 = rec_payloadSha256 q\<rparr>"
        using rec_old [OF k(1)] lookup_recD(2) [OF JI_wf [OF S'(1)]]
        by (auto simp: received_in_def recovered_bucket_def fully_indexed_def record_id_def)
      moreover have "ptr_of E S' (record_id r) = Some \<lparr>ptr_bucketKey = key, ptr_payloadSha256 = rec_payloadSha256 r\<rparr>"
        using that(2) rs(2) S'(3) lookup_recD(2) [OF JI_wf [OF S'(1)]]
        by (auto simp: received_in_def recovered_bucket_def fully_indexed_def record_id_def)
      ultimately show False using eq new k(1) by auto
    qed
    have "record_id ` set (rcv_resumable rcv) \<inter> record_id ` set rs = {}"
      using apart by auto
    then have "distinct (map record_id (rcv_resumable rcv'))" using rs I by simp
    then show "?I (ks @ [key]) rcv' S'"
      using I S'(1-4) rs rec_old same_in index_grows_trans by auto
  qed
next
  fix rcv :: recovery and S' assume I: "?I ?keys rcv S'"
  have none: "lookup_rec S' k c = None" if "k \<notin> set ?keys" for k c
  proof -
    have "lookup_rec S k c = None"
    proof (rule ccontr)
      assume "lookup_rec S k c \<noteq> None"
      then obtain r b where r: "lookup_rec S k c = Some r" "map_of S k = Some (Command_Bucket b)"
        by (auto simp: lookup_rec_def split: option.splits stored.splits)
      then have "starts_with command_prefix k" "k \<in> fst ` set S"
        using lookup_recD(1) [OF JI_wf [OF J]] by (blast, force dest: map_of_SomeD)
      then show False using that by auto
    qed
    then show ?thesis using I that by auto
  qed
  have "recovered_bucket E S' key" for key
    using I none by (cases "key \<in> set ?keys") (auto simp: recovered_bucket_def)
  moreover have "received_in S' k = {}" if "k \<notin> set ?keys" for k using none [OF that] by (simp add: received_in_def)
  then have "(\<Union>k \<in> set ?keys. received_in S' k) = (\<Union>key. received_in S' key)" by blast
  ultimately show "Q rcv S'" using I by (intro Q) auto
  qed (use J in auto)
qed

section \<open>Compaction\<close>

definition index_shrinks :: "journal_env \<Rightarrow> store \<Rightarrow> store \<Rightarrow> bool" where
  "index_shrinks E S S' \<longleftrightarrow> (\<forall>c. ptr_of E S c = None \<longrightarrow> ptr_of E S' c = None)
     \<and> (\<forall>m. msg_of E S m = None \<longrightarrow> msg_of E S' m = None)"

lemma index_shrinks_trans: "index_shrinks E S S' \<Longrightarrow> index_shrinks E S' S'' \<Longrightarrow> index_shrinks E S S''"
  by (auto simp: index_shrinks_def)

lemma unindexed_shrinks: "unindexed E S c r \<Longrightarrow> index_shrinks E S S' \<Longrightarrow> unindexed E S' c r"
  by (auto simp: unindexed_def index_shrinks_def)

lemma compactable_goes: "compactable E now \<noteq> nothing_goes"
proof
  assume "compactable E now = nothing_goes"
  then have "compactable E now \<lparr>rec_command = c, rec_payloadSha256 = [], rec_webhookId = [], rec_state = SEND_REJECTED,
      rec_openwaMessageId = None, rec_evidence = [], rec_createdAt = 0, rec_updatedAt = now - env_terminalRetentionMs E\<rparr>
    = False" for c by (simp add: nothing_goes_def)
  then show False by (simp add: compactable_def is_terminal_def undelivered_def)
qed

lemma runs_unindex_entry:
  assumes J: "JI E gone S0 S" and gone: "gone \<noteq> nothing_goes" and ok: "record_ok r"
    and Q: "\<And>S'. JI E gone S0 S' \<Longrightarrow> same_commands S S' \<Longrightarrow> index_shrinks E S S' \<Longrightarrow> unindexed E S' c r \<Longrightarrow> runs S' k Q (JI E gone S0)"
  shows "runs S (fthen (delete_pointer E c)
      (fthen (case rec_openwaMessageId r of
                None \<Rightarrow> fok ()
              | Some mid \<Rightarrow> if mid = [] then fok () else delete_message_pointer E mid) k)) Q (JI E gone S0)"
proof (rule runs_then, rule runs_delete_pointer [OF J gone])
  fix S1 assume S1: "JI E gone S0 S1" "same_commands S S1" "msg_of E S1 = msg_of E S"
    "ptr_of E S1 = (ptr_of E S)(c := None)"
  have s1: "index_shrinks E S S1" using S1 by (simp add: index_shrinks_def)
  have nonempty: "mid \<noteq> []" if "rec_openwaMessageId r = Some mid" for mid
    using that ok by (auto simp: record_ok_def message_id_ok_def)
  show "runs S1 (fthen (case rec_openwaMessageId r of None \<Rightarrow> fok ()
      | Some mid \<Rightarrow> if mid = [] then fok () else delete_message_pointer E mid) k) Q (JI E gone S0)"
  proof (cases "rec_openwaMessageId r")
    case None
    then have "unindexed E S1 c r" using S1(4) by (simp add: unindexed_def)
    then show ?thesis using None Q [OF S1(1,2) s1] by (auto intro!: runs_then runs_fok)
  next
    case (Some mid)
    have "runs S1 (delete_message_pointer E mid) (\<lambda>_ S'. runs S' k Q (JI E gone S0)) (JI E gone S0)"
    proof (rule runs_delete_message [OF S1(1)])
      fix S2 assume S2: "JI E gone S0 S2" "same_commands S1 S2" "ptr_of E S2 = ptr_of E S1"
        "msg_of E S2 = (msg_of E S1)(mid := None)"
      have "index_shrinks E S1 S2" using S2 by (simp add: index_shrinks_def)
      then show "runs S2 k Q (JI E gone S0)"
        using S1 S2 Some by (intro Q [OF S2(1) same_commands_trans [OF S1(2) S2(2)] index_shrinks_trans [OF s1]])
          (auto simp: unindexed_def)
    qed
    then show ?thesis using Some nonempty by (auto intro!: runs_then)
  qed
qed

text \<open>The bucket under compaction: exactly the compactable entries already seen are out.\<close>

definition compact_inv ::
  "journal_env \<Rightarrow> millis \<Rightarrow> store \<Rightarrow> store \<Rightarrow> string \<Rightarrow> (string \<times> command_record) list
     \<Rightarrow> (string \<times> command_record) list \<Rightarrow> (string \<times> command_record) list \<times> nat \<Rightarrow> store \<Rightarrow> bool" where
  "compact_inv E now S0 S key b seen acc S' \<longleftrightarrow>
     JI E (compactable E now) S0 S' \<and> same_commands S S' \<and> index_shrinks E S S' \<and>
     fst acc = filter (\<lambda>e. \<not> (compactable E now (snd e) \<and> e \<in> set seen)) b \<and>
     (\<forall>(c, r) \<in> set seen. compactable E now r \<longrightarrow> unindexed E S' c r)"

lemma filter_delete_seen:
  assumes "b = seen @ (c, r) # rest" "distinct (map fst b)" "P r"
  shows "AList.delete c (filter (\<lambda>e. \<not> (P (snd e) \<and> e \<in> set seen)) b) =
    filter (\<lambda>e. \<not> (P (snd e) \<and> e \<in> set (seen @ [(c, r)]))) b"
proof -
  have key: "fst e = c \<longleftrightarrow> e = (c, r)" if "e \<in> set b" for e
    using that assms(1,2) inj_onD [of fst "set b" e "(c, r)"] by (auto simp: distinct_map)
  have "(fst e \<noteq> c \<and> \<not> (P (snd e) \<and> e \<in> set seen)) = (\<not> (P (snd e) \<and> e \<in> set (seen @ [(c, r)])))"
    if "e \<in> set b" for e
    using key [OF that] assms(3) by (cases e) auto
  then show ?thesis unfolding AList.delete_eq filter_filter
    by (intro filter_cong) (auto simp: case_prod_unfold conj_commute)
qed

lemma runs_compact_entry:
  assumes inv: "compact_inv E now S0 S key b seen acc S1"
    and b: "bucket_ok E key b" "b = seen @ (c, r) # rest"
  shows "runs S1 (compact_entry E now (c, r) acc)
      (\<lambda>acc' S'. compact_inv E now S0 S key b (seen @ [(c, r)]) acc' S') (JI E (compactable E now) S0)"
proof -
  have d: "distinct (map fst b)" and ok: "record_ok r" using b by (auto simp: bucket_ok_def)
  have J1: "JI E (compactable E now) S0 S1" and same: "same_commands S S1" and shr: "index_shrinks E S S1"
    and acc: "fst acc = filter (\<lambda>e. \<not> (compactable E now (snd e) \<and> e \<in> set seen)) b"
    and un: "\<forall>(c, r) \<in> set seen. compactable E now r \<longrightarrow> unindexed E S1 c r"
    using inv unfolding compact_inv_def by - (elim conjE, assumption)+
  have stay: "compact_inv E now S0 S key b (seen @ [(c, r)]) acc S1" if "\<not> compactable E now r"
  proof -
    have "filter (\<lambda>e. \<not> (compactable E now (snd e) \<and> e \<in> set seen)) b =
      filter (\<lambda>e. \<not> (compactable E now (snd e) \<and> e \<in> set (seen @ [(c, r)]))) b"
      using that by (intro filter_cong) auto
    then show ?thesis using J1 same shr acc un that by (auto simp: compact_inv_def)
  qed
  have remove: "compact_inv E now S0 S key b (seen @ [(c, r)]) (AList.delete c (fst acc), n) S'"
    if "compactable E now r" and S': "JI E (compactable E now) S0 S'" "same_commands S1 S'" "index_shrinks E S1 S'"
      "unindexed E S' c r" for S' n
    unfolding compact_inv_def fst_conv acc filter_delete_seen [OF b(2) d, of "compactable E now", OF that(1)]
    using S' un unindexed_shrinks [OF _ S'(3)] same_commands_trans [OF same S'(2)] index_shrinks_trans [OF shr S'(3)]
    by auto
  show ?thesis
    unfolding compact_entry_def fst_conv snd_conv
    by (intro runs_if runs_fok stay runs_unindex_entry [OF J1 compactable_goes ok] remove) auto
qed

lemma map_of_filter_snd:
  "distinct (map fst b) \<Longrightarrow> map_of (filter (\<lambda>e. P (snd e)) b) c =
     (case map_of b c of None \<Rightarrow> None | Some r \<Rightarrow> if P r then Some r else None)"
proof (induction b)
  case (Cons e b)
  have "map_of b (fst e) = None" using Cons.prems by (simp add: map_of_eq_None_iff)
  then show ?case using Cons by (auto split: option.splits)
qed simp

lemma runs_compact_bucket:
  assumes J: "JI E (compactable E now) S0 S" and key: "starts_with command_prefix key"
    and Q: "\<And>n S'. JI E (compactable E now) S0 S' \<Longrightarrow> (\<And>k. k \<noteq> key \<Longrightarrow> lookup_rec S' k = lookup_rec S k) \<Longrightarrow>
       (\<And>c. lookup_rec S' key c = (case lookup_rec S key c of None \<Rightarrow> None
          | Some r \<Rightarrow> if compactable E now r then None else Some r)) \<Longrightarrow> Q n S'"
  shows "runs S (compact_bucket E now key removed) Q (JI E (compactable E now) S0)"
  unfolding compact_bucket_def
proof (rule runs_bind, rule runs_load_commands [OF JI_wf [OF J] key], rule J)
  fix b assume b: "map_of S key = Some (Command_Bucket b)" "bucket_ok E key b"
  let ?I = "compact_inv E now S0 S key b"
  have d: "distinct (map fst b)" using b(2) by (simp add: bucket_ok_def)
  have final: "runs S1 (fthen (if fst acc = [] then storage_delete E key else storage_set E key (Command_Bucket (fst acc)))
       (fok (snd acc))) Q (JI E (compactable E now) S0)" if inv: "?I b acc S1" for acc S1
  proof -
    let ?S = "if fst acc = [] then AList.delete key S1 else AList.update key (Command_Bucket (fst acc)) S1"
    have J1: "JI E (compactable E now) S0 S1" and same: "same_commands S S1"
      and un: "\<forall>(c, r) \<in> set b. compactable E now r \<longrightarrow> unindexed E S1 c r"
      using inv unfolding compact_inv_def by - (elim conjE, assumption)+
    have acc: "fst acc = filter (\<lambda>e. \<not> compactable E now (snd e)) b"
      using inv unfolding compact_inv_def by (auto intro: filter_cong)
    have slot1: "map_of S1 key = Some (Command_Bucket b)" using same b(1) key by (simp add: same_commands_def)
    have da: "distinct (map fst (fst acc))" unfolding acc by (rule distinct_map_filter [OF d])
    have lk: "map_of (fst acc) c = (case map_of b c of None \<Rightarrow> None | Some r \<Rightarrow> if compactable E now r then None else Some r)" for c
      unfolding acc map_of_filter_snd [OF d, of "\<lambda>r. \<not> compactable E now r"] by (simp split: option.split)
    have bk: "bucket_ok E key (fst acc)" using b(2) da unfolding bucket_ok_def acc by auto
    have step: "bucket_step (compactable E now) E S1 key (fst acc)"
      unfolding bucket_step_def lk using slot1 un rec_le_refl
      by (auto simp: lookup_rec_def dest!: map_of_SomeD)
    have J': "JI E (compactable E now) S0 ?S"
      using write_bucket [OF JI_wf [OF J1] key bk step] remove_bucket [OF JI_wf [OF J1] key] step J1 JI_step
        ptr_grows_eq index_other key by auto
    have other: "lookup_rec ?S k = lookup_rec S k" if "k \<noteq> key" for k
      using that same by (auto simp: lookup_rec_update lookup_rec_delete same_commands_def fun_eq_iff)
    have "lookup_rec ?S key c = map_of (fst acc) c" for c
      by (simp add: lookup_rec_update lookup_rec_delete)
    then have here: "lookup_rec ?S key c = (case lookup_rec S key c of None \<Rightarrow> None
          | Some r \<Rightarrow> if compactable E now r then None else Some r)" for c
      using lk [of c] b(1) by (simp add: lookup_rec_def)
    have "Q n ?S" for n by (rule Q [OF J' other here])
    then show ?thesis by (auto intro!: runs_then runs_set runs_delete runs_fok J1 split: if_splits)
  qed
  show "runs S (fbind (ffold (compact_entry E now) b (b, removed)) (\<lambda>acc.
     fthen (if fst acc = [] then storage_delete E key else storage_set E key (Command_Bucket (fst acc)))
       (fok (snd acc)))) Q (JI E (compactable E now) S0)"
  proof (rule runs_bind, rule runs_post [OF runs_ffold [where I = ?I]])
    fix seen x rest acc S1 assume "b = seen @ x # rest" "?I seen acc S1"
    then show "runs S1 (compact_entry E now x acc) (\<lambda>acc' S'. ?I (seen @ [x]) acc' S') (JI E (compactable E now) S0)"
      using runs_compact_entry [OF _ b(2)] by (cases x) auto
  next
    show "?I [] (b, removed) S" using J by (simp add: compact_inv_def index_shrinks_def)
  qed (use final in auto)
qed simp

lemma runs_compact:
  assumes J: "JI E (compactable E now) S0 S"
    and Q: "\<And>n S'. JI E (compactable E now) S0 S' \<Longrightarrow>
       (\<And>k c. lookup_rec S' k c = (case lookup_rec S k c of None \<Rightarrow> None
          | Some r \<Rightarrow> if compactable E now r then None else Some r)) \<Longrightarrow> Q n S'"
  shows "runs S (compact E now) Q (JI E (compactable E now) S0)"
proof -
  let ?keys = "filter (starts_with command_prefix) (map fst S)"
  let ?kept = "\<lambda>k c. case lookup_rec S k c of None \<Rightarrow> None | Some r \<Rightarrow> if compactable E now r then None else Some r"
  let ?I = "\<lambda>ks (n :: nat) S'. JI E (compactable E now) S0 S' \<and> (\<forall>k \<in> set ks. \<forall>c. lookup_rec S' k c = ?kept k c)
    \<and> (\<forall>k. k \<notin> set ks \<longrightarrow> lookup_rec S' k = lookup_rec S k)"
  have d: "distinct ?keys" using JI_wf [OF J] by (simp add: store_wf_def)
  have none: "lookup_rec S k c = None" if "k \<notin> set ?keys" for k c
  proof (rule ccontr)
    assume "lookup_rec S k c \<noteq> None"
    then obtain r b where r: "lookup_rec S k c = Some r" "map_of S k = Some (Command_Bucket b)"
      by (auto simp: lookup_rec_def split: option.splits stored.splits)
    then have "starts_with command_prefix k" "k \<in> fst ` set S"
      using lookup_recD(1) [OF JI_wf [OF J]] by (blast, force dest: map_of_SomeD)
    then show False using that by auto
  qed
  have prune: "runs S1 (fbind (prune_orphans E now (env_maximumOrphans E)) (\<lambda>pruned. fok (n + pruned))) Q
      (JI E (compactable E now) S0)" if I: "?I ?keys n S1" for n S1
  proof (intro runs_bind runs_prune [OF I [THEN conjunct1]] runs_fok)
    fix m S' assume S': "orphans_only E (compactable E now) S0 S1 S'"
    have "lookup_rec S' k c = ?kept k c" for k c
      using S' I none [of k c] by (cases "k \<in> set ?keys") (auto simp: orphans_only_def same_commands_def)
    then show "Q (n + m) S'" using S' by (intro Q) (auto simp: orphans_only_def)
  qed
  show ?thesis
    unfolding compact_def list_command_keys_def
  proof (rule runs_bind, rule runs_list, rule runs_bind, rule runs_post [OF runs_ffold [where I = ?I]])
    fix ks key rest n S1 assume split: "?keys = ks @ key # rest" and I: "?I ks n S1"
    have "key \<in> set ?keys" unfolding split by simp
    then have key: "starts_with command_prefix key" by simp
    have new: "key \<notin> set ks" using d unfolding split by auto
    show "runs S1 (compact_bucket E now key n) (\<lambda>n' S'. ?I (ks @ [key]) n' S') (JI E (compactable E now) S0)"
    proof (rule runs_compact_bucket [OF I [THEN conjunct1] key])
      fix n' S' assume S': "JI E (compactable E now) S0 S'" "\<And>k. k \<noteq> key \<Longrightarrow> lookup_rec S' k = lookup_rec S1 k"
        "\<And>c. lookup_rec S' key c = (case lookup_rec S1 key c of None \<Rightarrow> None
          | Some r \<Rightarrow> if compactable E now r then None else Some r)"
      have old: "lookup_rec S' k c = ?kept k c" if "k \<in> set ks" for k c
      proof -
        have "lookup_rec S' k = lookup_rec S1 k" using S'(2) new that by metis
        then show ?thesis using I that by simp
      qed
      have "lookup_rec S1 key = lookup_rec S key" using I new by blast
      then show "?I (ks @ [key]) n' S'" using I S' old by auto
    qed
  qed (use J prune in auto)
qed

end
