(* ===== verification/Journal_Theorems.thy ===== *)
theory Journal_Theorems
  imports Journal_Recovery
begin

text \<open>
  The journal as a step system: any sequence of its methods, each of which may be cut short by a
  storage fault, and of restarts, which lose the send races held in memory.
\<close>

datatype journal_op =
    Op_Receive command string string millis rat
  | Op_Started string millis
  | Op_Rejected string error_class string millis
  | Op_Indeterminate string string millis
  | Op_Accepted string string millis
  | Op_Ack string string ack_status js_date js_date
  | Op_Delivered string string millis
  | Op_Failure string string string millis
  | Op_Recover millis
  | Op_Compact millis
  | Op_Restart

fun run_op :: "journal_env \<Rightarrow> journal_op \<Rightarrow> journal \<Rightarrow> journal" where
  "run_op E (Op_Receive cmd digest webhook now u) s = snd (receive E cmd digest webhook now u s)"
| "run_op E (Op_Started cid now) s = snd (mark_started E cid now s)"
| "run_op E (Op_Rejected cid ec code now) s = snd (mark_rejected E cid ec code now s)"
| "run_op E (Op_Indeterminate cid code now) s = snd (mark_indeterminate E cid code now s)"
| "run_op E (Op_Accepted cid mid now) s = snd (mark_accepted E cid mid now s)"
| "run_op E (Op_Ack session mid status occurred observed) s =
     snd (append_acknowledgement E session mid status occurred observed s)"
| "run_op E (Op_Delivered cid eid now) s = snd (mark_evidence_delivered E cid eid now s)"
| "run_op E (Op_Failure cid eid err now) s = snd (note_evidence_failure E cid eid err now s)"
| "run_op E (Op_Recover now) s = snd (recover E now s)"
| "run_op E (Op_Compact now) s = snd (compact E now s)"
| "run_op E Op_Restart s = s\<lparr>j_races := []\<rparr>"

text \<open>The connector calls \<open>markAccepted\<close> with a non-empty message id only.\<close>

fun op_ok :: "journal_op \<Rightarrow> bool" where
  "op_ok (Op_Accepted cid mid now) = (mid \<noteq> [])"
| "op_ok _ = True"

definition journal_step :: "journal_env \<Rightarrow> journal_op \<Rightarrow> journal \<Rightarrow> journal \<Rightarrow> bool" where
  "journal_step E op s s' \<longleftrightarrow> op_ok op \<and> s' = run_op E op s"

definition journal_init :: "journal \<Rightarrow> bool" where
  "journal_init s \<longleftrightarrow> j_store s = [] \<and> j_races s = []"

fun op_gone :: "journal_env \<Rightarrow> journal_op \<Rightarrow> command_record \<Rightarrow> bool" where
  "op_gone E (Op_Compact now) = compactable E now"
| "op_gone E _ = nothing_goes"

lemma standard_transitions:
  "tr_state (started_transition now) = SEND_STARTED" "tr_kind (started_transition now) = EV_SEND_STARTED"
  "tr_state (rejected_transition ec code now) = SEND_REJECTED" "tr_kind (rejected_transition ec code now) = EV_SEND_REJECTED"
  "tr_state (indeterminate_transition code now) = SEND_INDETERMINATE"
  "tr_kind (indeterminate_transition code now) = EV_SEND_INDETERMINATE"
  by (simp_all add: started_transition_def rejected_transition_def indeterminate_transition_def)

lemma run_op_JI:
  assumes "store_wf E (j_store s)" "op_ok op"
  shows "JI E (op_gone E op) (j_store s) (j_store (run_op E op s))"
proof -
  let ?S = "j_store s"
  have J: "JI E gone ?S ?S" for gone by (rule JI_refl [OF assms(1)])
  have transition: "JI E nothing_goes ?S (j_store (snd (journal_transition E cid t s)))"
    if "tr_state t \<in> {SEND_STARTED, SEND_REJECTED, SEND_INDETERMINATE}" "tr_kind t = state_kind (tr_state t)" for cid t
    by (rule runs_exit, rule runs_transition [OF J that]) (auto intro: J)
  have touch: "JI E nothing_goes ?S (j_store (snd (touch_evidence E cid eid now f s)))"
    if "\<And>e. je_evidence (f e) = je_evidence e" "\<And>e. je_deliveredAt e = None \<Longrightarrow> entry_le e (f e)" for cid eid now f
    by (rule runs_exit, rule runs_touch [OF J that]) (auto intro: J)
  show ?thesis
  proof (cases op)
    case (Op_Receive cmd digest webhook now u)
    show ?thesis unfolding Op_Receive op_gone.simps run_op.simps
      by (rule runs_exit, rule runs_receive [OF J], assumption+)
  next
    case (Op_Accepted cid mid now)
    show ?thesis unfolding Op_Accepted op_gone.simps run_op.simps
      by (rule runs_exit, rule runs_mark_accepted [OF J]) (use assms(2) Op_Accepted in \<open>auto intro: J\<close>)
  next
    case (Op_Ack session mid status occurred observed)
    show ?thesis unfolding Op_Ack op_gone.simps run_op.simps
      by (rule runs_exit, rule runs_acknowledge [OF J]) (auto simp: orphans_only_def)
  next
    case (Op_Recover now)
    show ?thesis unfolding Op_Recover op_gone.simps run_op.simps
      by (rule runs_exit, rule runs_recover [OF J], assumption+)
  next
    case (Op_Compact now)
    show ?thesis unfolding Op_Compact op_gone.simps run_op.simps
      by (rule runs_exit, rule runs_compact [OF J], assumption+)
  qed (simp_all add: mark_started_def mark_rejected_def mark_indeterminate_def transition standard_transitions
      mark_evidence_delivered_def note_evidence_failure_def touch bookkeeping_ok J)
qed

fun op_compacts :: "journal_op \<Rightarrow> bool" where
  "op_compacts (Op_Compact now) = True"
| "op_compacts _ = False"

lemma empty_store_wf: "store_wf E []"
  by (simp add: store_wf_def ptrs_sound_def msgs_sound_def ptr_of_def msg_of_def)

definition journal_le :: "journal_env \<Rightarrow> journal \<Rightarrow> journal \<Rightarrow> bool" where
  "journal_le E s s' \<longleftrightarrow> store_le nothing_goes (j_store s) (j_store s') \<and> ptr_grows E nothing_goes (j_store s) (j_store s')"

interpretation jsys: ordered_system journal_init "journal_step E" "\<lambda>s. store_wf E (j_store s)" "journal_le E" op_compacts
  for E
proof unfold_locales
  fix s assume "journal_init s" then show "store_wf E (j_store s)"
    by (simp add: journal_init_def empty_store_wf)
next
  fix s s' op assume "store_wf E (j_store s)" "journal_step E op s s'"
  then show "store_wf E (j_store s')" using run_op_JI by (auto simp: journal_step_def JI_def)
next
  fix s s' op assume "store_wf E (j_store s)" "journal_step E op s s'" "\<not> op_compacts op"
  then show "journal_le E s s'"
    using run_op_JI [of E s op] by (cases op) (auto simp: journal_step_def journal_le_def JI_def)
next
  fix s show "journal_le E s s" by (simp add: journal_le_def ptr_grows_eq)
next
  fix s s' s'' assume "journal_le E s s'" "journal_le E s' s''"
  then show "journal_le E s s''" unfolding journal_le_def using store_le_trans ptr_grows_trans by blast
qed

section \<open>Fault-free runs\<close>

definition no_faults :: "journal_env \<Rightarrow> bool" where
  "no_faults E \<longleftrightarrow> (\<forall>n. \<not> env_fault E n)"

lemma storage_get_ok:
  "no_faults E \<Longrightarrow> storage_get E k s = (Inr (map_of (j_store s) k), s\<lparr>j_calls := Suc (j_calls s)\<rparr>)"
  by (simp add: storage_get_def storage_call_def no_faults_def)

lemma find_pointer_ok:
  assumes "no_faults E" "store_wf E (j_store s)"
  shows "find_pointer E cid s = (Inr (ptr_of E (j_store s) cid), s\<lparr>j_calls := Suc (j_calls s)\<rparr>)"
proof (cases "map_of (j_store s) (pointer_key E cid)")
  case None
  then show ?thesis by (simp add: find_pointer_def load_pointer_bucket_def fbind_def storage_get_ok [OF assms(1)] fok_def ptr_of_def)
next
  case (Some v)
  then obtain b where "v = Pointer_Bucket b" using pointer_slot [OF assms(2) key_namespaces(1)] by metis
  then show ?thesis using Some
    by (simp add: find_pointer_def load_pointer_bucket_def fbind_def storage_get_ok [OF assms(1)] fok_def ptr_of_def)
qed

lemma load_record_ok:
  assumes "no_faults E" "lookup_rec (j_store s) key cid = Some r"
  shows "load_record E key cid s = (Inr r, s\<lparr>j_calls := Suc (j_calls s)\<rparr>)"
proof -
  obtain b where "map_of (j_store s) key = Some (Command_Bucket b)" "map_of b cid = Some r"
    using assms(2) by (auto simp: lookup_rec_def split: option.splits stored.splits)
  then show ?thesis
    by (simp add: load_record_def load_command_bucket_def fbind_def storage_get_ok [OF assms(1)] fok_def)
qed

lemma receive_known:
  assumes "no_faults E" "store_wf E (j_store s)" "received E (j_store s) cmd digest r"
  shows "receive E cmd digest' webhook now u s =
    ((if digest' = digest then Inr \<lparr>rr_record = r, rr_created = False\<rparr> else Inl Digest_Conflict),
     s\<lparr>j_calls := (if digest' = digest then Suc (Suc (j_calls s)) else Suc (j_calls s))\<rparr>)"
proof -
  obtain p where p: "ptr_of E (j_store s) (cmd_commandId cmd) = Some p"
    "lookup_rec (j_store s) (ptr_bucketKey p) (cmd_commandId cmd) = Some r" "rec_payloadSha256 r = digest"
    using assms(3) by (auto simp: received_def)
  have "ptr_payloadSha256 p = digest"
    using assms(2) p unfolding store_wf_def ptrs_sound_def by fastforce
  then show ?thesis
    using p load_record_ok [OF assms(1), of "s\<lparr>j_calls := Suc (j_calls s)\<rparr>"]
    by (simp add: receive_def Let_def fbind_def find_pointer_ok [OF assms(1,2)] fthrow_def fok_def)
qed

section \<open>A concrete journal\<close>

definition demo_env :: journal_env where
  "demo_env = \<lparr>env_version = ''1.0.0'', env_storageQuotaBytes = default_storage_quota_bytes,
     env_terminalRetentionMs = default_terminal_retention_ms, env_orphanRetentionMs = default_orphan_retention_ms,
     env_orphanRaceWindowMs = default_orphan_race_window_ms, env_maximumOrphans = default_maximum_orphans,
     env_shard = (\<lambda>_. ''0''), env_json_bytes = (\<lambda>_. 100), env_uuid = (\<lambda>n. replicate n CHR ''e''),
     env_id_le = (\<lambda>_ _. True), env_fault = (\<lambda>_. False)\<rparr>"

definition demo_command :: command where
  "demo_command = \<lparr>cmd_protocolVersion = 1, cmd_commandId = ''c1'', cmd_attemptId = ''a1'', cmd_sessionId = ''s1'',
     cmd_recipientId = ''r1'', cmd_safetyPermitId = ''p1'', cmd_bindingGeneration = 1,
     cmd_createdAt = \<lparr>ts_text = ''2026-01-02T00:00:00.000Z'', ts_value = Some 1000\<rparr>,
     cmd_expiresAt = \<lparr>ts_text = ''2026-01-02T00:05:00.000Z'', ts_value = Some 301000\<rparr>,
     cmd_content = Text_Content ''hi''\<rparr>"

definition empty_journal :: journal where
  "empty_journal = \<lparr>j_store = [], j_races = [], j_uuids = 0, j_calls = 0\<rparr>"

definition demo_received :: journal where
  "demo_received = snd (receive demo_env demo_command ''d'' ''w'' 1000 (4/5) empty_journal)"

definition demo_started :: journal where
  "demo_started = snd (mark_started demo_env ''c1'' 2000 demo_received)"

definition demo_accepted :: journal where
  "demo_accepted = snd (mark_accepted demo_env ''c1'' ''m1'' 3000 demo_started)"

lemma demo_steps: "steps (journal_step demo_env) [Op_Receive demo_command ''d'' ''w'' 1000 (4/5), Op_Started ''c1'' 2000,
    Op_Accepted ''c1'' ''m1'' 3000] empty_journal demo_accepted"
  by (simp add: steps_simps journal_step_def demo_received_def demo_started_def demo_accepted_def)

lemma demo_init: "journal_init empty_journal"
  by (simp add: journal_init_def empty_journal_def)

lemma demo_reachable: "reachable journal_init (journal_step demo_env) demo_accepted"
  by (rule reachable_steps [OF demo_steps reach_init [of journal_init, OF demo_init]])

lemma demo_wf: "store_wf demo_env (j_store empty_journal)" "store_wf demo_env (j_store demo_received)"
  "store_wf demo_env (j_store demo_started)" "store_wf demo_env (j_store demo_accepted)"
proof -
  have run: "store_wf demo_env (j_store (run_op demo_env op s))" if "store_wf demo_env (j_store s)" "op_ok op" for op s
    using run_op_JI [OF that] by (simp add: JI_def)
  show e: "store_wf demo_env (j_store empty_journal)" by (simp add: empty_journal_def empty_store_wf)
  show r: "store_wf demo_env (j_store demo_received)"
    using run [OF e, of "Op_Receive demo_command ''d'' ''w'' 1000 (4/5)"] by (simp add: demo_received_def)
  show t: "store_wf demo_env (j_store demo_started)"
    using run [OF r, of "Op_Started ''c1'' 2000"] by (simp add: demo_started_def)
  show "store_wf demo_env (j_store demo_accepted)"
    using run [OF t, of "Op_Accepted ''c1'' ''m1'' 3000"] by (simp add: demo_accepted_def)
qed

lemma demo_no_faults: "no_faults demo_env"
  by (simp add: no_faults_def demo_env_def)

section \<open>Which errors a method can throw\<close>

definition throws :: "'a jm \<Rightarrow> journal_error set" where
  "throws m = {e. \<exists>s s'. m s = (Inl e, s')}"

lemma throwsI: "m s = (Inl e, s') \<Longrightarrow> e \<in> throws m"
  by (auto simp: throws_def)

lemma throws_fbind: "throws (fbind m f) \<subseteq> throws m \<union> (\<Union>x. throws (f x))"
proof
  fix e assume "e \<in> throws (fbind m f)"
  then obtain s s' where "fbind m f s = (Inl e, s')" by (auto simp: throws_def)
  then show "e \<in> throws m \<union> (\<Union>x. throws (f x))"
    by (cases rule: fbind_cases) (auto intro: throwsI)
qed

lemma throws_fthen: "throws (fthen m k) \<subseteq> throws m \<union> throws k"
  unfolding fthen_def using throws_fbind by blast

lemma throws_simps [simp]: "throws (fok x) = {}" "throws (fthrow e) = {e}" "throws (random_uuid E) = {}"
  "throws (storage_get E k) \<subseteq> {Storage_Fault}" "throws (storage_set E k v) \<subseteq> {Storage_Fault}"
  "throws (storage_list E p) \<subseteq> {Storage_Fault}"
  by (auto simp: throws_def fok_def fthrow_def random_uuid_def storage_get_def storage_set_def storage_list_def
      storage_call_def Let_def split: if_splits)

lemma throws_ffold: "throws (ffold f xs a) \<subseteq> (\<Union>x. \<Union>a. throws (f x a))"
proof (induction xs arbitrary: a)
  case (Cons x xs)
  show ?case using throws_fbind [of "f x a" "ffold f xs"] Cons by fastforce
qed simp

lemma throws_bindI: "e \<notin> throws m \<Longrightarrow> (\<And>x. e \<notin> throws (f x)) \<Longrightarrow> e \<notin> throws (fbind m f)"
  using throws_fbind by blast

lemma throws_thenI: "e \<notin> throws m \<Longrightarrow> e \<notin> throws k \<Longrightarrow> e \<notin> throws (fthen m k)"
  using throws_fthen by blast

lemma throws_storage: "e \<noteq> Storage_Fault \<Longrightarrow> e \<notin> throws (storage_get E k)"
  "e \<noteq> Storage_Fault \<Longrightarrow> e \<notin> throws (storage_set E k v)" "e \<noteq> Storage_Fault \<Longrightarrow> e \<notin> throws (storage_list E p)"
  using throws_simps(4-6) by blast+

lemma cap_free:
  "Capacity_Exceeded u \<notin> throws (load_command_bucket E key create)"
  "Capacity_Exceeded u \<notin> throws (load_pointer_bucket E cid)"
  "Capacity_Exceeded u \<notin> throws (find_pointer E cid)"
  "Capacity_Exceeded u \<notin> throws (set_pointer E cid key digest)"
  "Capacity_Exceeded u \<notin> throws (load_record E key cid)"
  "Capacity_Exceeded u \<notin> throws (save_record E key b cid r)"
  "Capacity_Exceeded u \<notin> throws (list_journal_keys E)"
  "Capacity_Exceeded u \<notin> throws (storage_utilization E keys)"
proof -
  let ?e = "Capacity_Exceeded u"
  show load: "?e \<notin> throws (load_command_bucket E key create)" for key create
    unfolding load_command_bucket_def by (rule throws_bindI) (auto simp: throws_storage split: option.split stored.split)
  show ptrs: "?e \<notin> throws (load_pointer_bucket E cid)" for cid
    unfolding load_pointer_bucket_def by (rule throws_bindI) (auto simp: throws_storage split: option.split stored.split)
  show "?e \<notin> throws (find_pointer E cid)"
    unfolding find_pointer_def by (rule throws_bindI) (simp_all add: ptrs)
  show "?e \<notin> throws (set_pointer E cid key digest)"
    unfolding set_pointer_def by (rule throws_bindI) (auto simp: ptrs throws_storage split: option.split)
  show "?e \<notin> throws (load_record E key cid)"
    unfolding load_record_def by (rule throws_bindI) (auto simp: load split: option.split)
  show "?e \<notin> throws (save_record E key b cid r)" by (simp add: save_record_def throws_storage)
  show "?e \<notin> throws (list_journal_keys E)" by (simp add: list_journal_keys_def throws_storage)
  have step: "?e \<notin> throws (fbind (storage_get E key) (\<lambda>v. case v of None \<Rightarrow> fok bytes
      | Some value \<Rightarrow> fok (bytes + int (length key) + env_json_bytes E value)))" for key bytes
    by (rule throws_bindI) (auto simp: throws_storage split: option.split)
  show "?e \<notin> throws (storage_utilization E keys)"
    unfolding storage_utilization_def
    by (rule throws_bindI) (use step subsetD [OF throws_ffold] in fastforce)+
qed

lemma reads_only:
  assumes "runs (j_store s) m (\<lambda>_ S'. S' = j_store s) (\<lambda>_. True)" "m s = (Inr x, s')"
  shows "j_store s' = j_store s"
  using runs_ok [OF assms(1) refl assms(2)] .

lemma find_pointer_reads: "find_pointer E cid s = (Inr p, s') \<Longrightarrow> j_store s' = j_store s"
  by (erule reads_only [rotated], unfold find_pointer_def load_pointer_bucket_def,
      intro runs_bind runs_get) (auto split: option.splits stored.splits intro!: runs_fok runs_fthrow)

lemma load_commands_reads: "load_command_bucket E key create s = (Inr b, s') \<Longrightarrow> j_store s' = j_store s"
  by (erule reads_only [rotated], unfold load_command_bucket_def, intro runs_bind runs_get)
    (auto split: option.splits stored.splits intro!: runs_fok runs_fthrow)

lemma receive_new_capacity:
  assumes "receive_new E cmd digest webhook now u b s = (Inl (Capacity_Exceeded used), s')"
  shows "j_store s' = j_store s \<and> u \<le> used \<and> 0 < u \<and> u \<le> 1"
proof -
  have lim: "\<not> (u \<le> 0 \<or> 1 < u)" using assms by (auto simp: receive_new_def fthrow_def split: if_splits)
  have r: "fbind (list_journal_keys E) (\<lambda>keys. fbind (storage_utilization E keys) (\<lambda>utilization.
        if u \<le> utilization then fthrow (Capacity_Exceeded utilization)
        else fbind (random_uuid E) (\<lambda>eid. let r = new_record E cmd digest webhook now eid in
           fthen (save_record E (command_bucket_key E cmd) b (cmd_commandId cmd) r)
           (fthen (set_pointer E (cmd_commandId cmd) (command_bucket_key E cmd) digest)
             (fok \<lparr>rr_record = r, rr_created = True\<rparr>))))) s = (Inl (Capacity_Exceeded used), s')"
    using assms lim unfolding receive_new_def Let_def by simp
  then obtain keys s1 where l: "list_journal_keys E s = (Inr keys, s1)" "fbind (storage_utilization E keys) (\<lambda>utilization.
        if u \<le> utilization then fthrow (Capacity_Exceeded utilization)
        else fbind (random_uuid E) (\<lambda>eid. let r = new_record E cmd digest webhook now eid in
           fthen (save_record E (command_bucket_key E cmd) b (cmd_commandId cmd) r)
           (fthen (set_pointer E (cmd_commandId cmd) (command_bucket_key E cmd) digest)
             (fok \<lparr>rr_record = r, rr_created = True\<rparr>)))) s1 = (Inl (Capacity_Exceeded used), s')"
    by (cases rule: fbind_cases) (use throwsI cap_free(7) in blast)+
  from l(2) obtain used' s2 where m: "storage_utilization E keys s1 = (Inr used', s2)"
    "(if u \<le> used' then fthrow (Capacity_Exceeded used')
        else fbind (random_uuid E) (\<lambda>eid. let r = new_record E cmd digest webhook now eid in
           fthen (save_record E (command_bucket_key E cmd) b (cmd_commandId cmd) r)
           (fthen (set_pointer E (cmd_commandId cmd) (command_bucket_key E cmd) digest)
             (fok \<lparr>rr_record = r, rr_created = True\<rparr>)))) s2 = (Inl (Capacity_Exceeded used), s')"
    by (cases rule: fbind_cases) (use throwsI cap_free(8) in blast)+
  have "Capacity_Exceeded used \<notin> throws (fbind (random_uuid E) (\<lambda>eid. let r = new_record E cmd digest webhook now eid in
           fthen (save_record E (command_bucket_key E cmd) b (cmd_commandId cmd) r)
           (fthen (set_pointer E (cmd_commandId cmd) (command_bucket_key E cmd) digest)
             (fok \<lparr>rr_record = r, rr_created = True\<rparr>))))"
    unfolding Let_def by (intro throws_bindI throws_thenI cap_free) simp_all
  then have "u \<le> used' \<and> used' = used \<and> s' = s2"
    using m(2) throwsI by (auto simp: fthrow_def split: if_splits)
  moreover have "j_store s1 = j_store s"
    by (rule reads_only [where m = "list_journal_keys E", OF _ l(1)]) (simp add: list_journal_keys_def runs_list)
  moreover have "j_store s2 = j_store s1"
    by (rule reads_only [where m = "storage_utilization E keys", OF _ m(1)]) (simp add: runs_utilization)
  ultimately show ?thesis using lim by auto
qed

section \<open>Properties\<close>

text \<open>C17: Whatever the order of the journal's methods and of restarts, and wherever storage calls fail, the
  stored journal is well-formed: keys hold data of their namespace, every record sits in the bucket its
  command selects and has consistent state, evidence sequence, evidence identity and message id, every
  index entry leads to its record.\<close>

theorem journal_reachable_wf:
  assumes "reachable journal_init (journal_step E) s"
  shows "store_wf E (j_store s)"
  by (rule jsys.reachable_inv [OF assms])

theorem journal_reachable_wf_witness:
  "store_wf demo_env (j_store demo_accepted) \<and>
   map_option rec_state (lookup_rec (j_store demo_accepted) (command_bucket_key demo_env demo_command) ''c1'')
     = Some SEND_ACCEPTED"
proof
  show "store_wf demo_env (j_store demo_accepted)" by (rule journal_reachable_wf [OF demo_reachable])
  show "map_option rec_state (lookup_rec (j_store demo_accepted) (command_bucket_key demo_env demo_command) ''c1'')
     = Some SEND_ACCEPTED" by code_simp
qed

text \<open>C18: Through any sequence of methods other than compaction, faults included, no record is lost: its
  command and evidence stay, evidence only grows and deliveries stay delivered, the state only advances,
  and the state and message id of a finished send never change.\<close>

theorem journal_records_persist:
  assumes "store_wf E (j_store s)" and "steps (journal_step E) ops s s'" and "list_all (\<lambda>op. \<not> op_compacts op) ops"
    and "lookup_rec (j_store s) key cid = Some r"
  shows "\<exists>r'. lookup_rec (j_store s') key cid = Some r' \<and> rec_le r r'
    \<and> (is_terminal (rec_state r) \<longrightarrow> rec_state r' = rec_state r)
    \<and> (rec_openwaMessageId r \<noteq> None \<longrightarrow> rec_openwaMessageId r' = rec_openwaMessageId r)"
proof -
  have "journal_le E s s'" by (rule jsys.steps_le [OF assms(2,1,3)])
  then obtain r' where r': "lookup_rec (j_store s') key cid = Some r'" "rec_le r r'"
    using assms(4) unfolding journal_le_def store_le_def nothing_goes_def by blast
  then show ?thesis using status_le_terminal by (auto simp: rec_le_def)
qed

theorem journal_records_persist_witness:
  "\<exists>r'. lookup_rec (j_store demo_accepted) (command_bucket_key demo_env demo_command) ''c1'' = Some r'
     \<and> rec_le (new_record demo_env demo_command ''d'' ''w'' 1000 []) r'"
proof -
  have s: "steps (journal_step demo_env) [Op_Started ''c1'' 2000, Op_Accepted ''c1'' ''m1'' 3000] demo_received demo_accepted"
    by (simp add: steps_simps journal_step_def demo_started_def demo_accepted_def)
  have "lookup_rec (j_store demo_received) (command_bucket_key demo_env demo_command) ''c1'' =
    Some (new_record demo_env demo_command ''d'' ''w'' 1000 [])" by code_simp
  from journal_records_persist [OF demo_wf(2) s _ this] show ?thesis by auto
qed

text \<open>C21: A command is journalled once. When \<open>receive\<close> has returned a record, receiving the same command
  again returns that record and changes nothing stored, and receiving its id with another payload digest
  is refused as a conflict, also without a change.\<close>

theorem receive_replay:
  assumes "no_faults E" and "store_wf E (j_store s)" and "receive E cmd digest webhook now u s = (Inr res, s')"
  shows "fst (receive E cmd digest' webhook' now' u' s') =
     (if digest' = digest then Inr \<lparr>rr_record = rr_record res, rr_created = False\<rparr> else Inl Digest_Conflict)
   \<and> j_store (snd (receive E cmd digest' webhook' now' u' s')) = j_store s'"
proof -
  have J: "JI E nothing_goes (j_store s) (j_store s)" by (rule JI_refl [OF assms(2)])
  let ?Q = "\<lambda>res S'. store_wf E S' \<and> received E S' cmd digest (rr_record res)"
  have "runs (j_store s) (receive E cmd digest webhook now u) ?Q (JI E nothing_goes (j_store s))"
    by (rule runs_receive [OF J]) (auto dest: JI_wf)
  from runs_ok [OF this refl assms(3)] have "store_wf E (j_store s')" "received E (j_store s') cmd digest (rr_record res)"
    by simp_all
  from receive_known [OF assms(1) this] show ?thesis by simp
qed

theorem receive_replay_witness:
  "fst (receive demo_env demo_command ''other'' ''w'' 9 (4/5) demo_received) = Inl Digest_Conflict"
proof -
  obtain res where "receive demo_env demo_command ''d'' ''w'' 1000 (4/5) empty_journal = (Inr res, demo_received)"
  proof
    show "receive demo_env demo_command ''d'' ''w'' 1000 (4/5) empty_journal =
      (Inr \<lparr>rr_record = new_record demo_env demo_command ''d'' ''w'' 1000 [], rr_created = True\<rparr>, demo_received)"
      unfolding demo_received_def prod_eq_iff by (intro conjI, code_simp, simp)
  qed
  from receive_replay [OF demo_no_faults demo_wf(1) this, of "''other''"] show ?thesis by simp
qed

text \<open>Admission control. A receive that fails for lack of capacity has left the stored data untouched,
  the limit was a legal one and the reported utilization had reached it; no other part of the method
  reports that error.\<close>

theorem receive_capacity:
  assumes "receive E cmd digest webhook now u s = (Inl (Capacity_Exceeded used), s')"
  shows "j_store s' = j_store s \<and> u \<le> used \<and> 0 < u \<and> u \<le> 1"
proof -
  let ?cid = "cmd_commandId cmd" and ?key = "command_bucket_key E cmd"
  have no_load: "fbind (load_record E k c) (\<lambda>r. fok \<lparr>rr_record = r, rr_created = False\<rparr>) t \<noteq> (Inl (Capacity_Exceeded used), s')"
    for k c t
  proof
    assume "fbind (load_record E k c) (\<lambda>r. fok \<lparr>rr_record = r, rr_created = False\<rparr>) t = (Inl (Capacity_Exceeded used), s')"
    moreover have "Capacity_Exceeded used \<notin> throws (fbind (load_record E k c) (\<lambda>r. fok \<lparr>rr_record = r, rr_created = False\<rparr>))"
      by (rule throws_bindI) (simp_all add: cap_free)
    ultimately show False using throwsI by blast
  qed
  obtain p s1 where p: "find_pointer E ?cid s = (Inr p, s1)"
    and r1: "(case p of
        Some p \<Rightarrow> if ptr_payloadSha256 p \<noteq> digest then fthrow Digest_Conflict
          else fbind (load_record E (ptr_bucketKey p) ?cid) (\<lambda>r. fok \<lparr>rr_record = r, rr_created = False\<rparr>)
      | None \<Rightarrow> fbind (load_command_bucket E ?key True) (\<lambda>b. case map_of b ?cid of
          Some r \<Rightarrow> if rec_payloadSha256 r \<noteq> digest then fthrow Bucket_Digest_Conflict
            else fthen (set_pointer E ?cid ?key digest) (fok \<lparr>rr_record = r, rr_created = False\<rparr>)
        | None \<Rightarrow> receive_new E cmd digest webhook now u b)) s1 = (Inl (Capacity_Exceeded used), s')"
    using assms unfolding receive_def Let_def
    by (cases rule: fbind_cases) (use throwsI cap_free(3) in blast)+
  have "p = None" using r1 no_load by (auto simp: fthrow_def split: option.splits if_splits)
  with r1 have "fbind (load_command_bucket E ?key True) (\<lambda>b. case map_of b ?cid of
          Some r \<Rightarrow> if rec_payloadSha256 r \<noteq> digest then fthrow Bucket_Digest_Conflict
            else fthen (set_pointer E ?cid ?key digest) (fok \<lparr>rr_record = r, rr_created = False\<rparr>)
        | None \<Rightarrow> receive_new E cmd digest webhook now u b) s1 = (Inl (Capacity_Exceeded used), s')" by simp
  then obtain b s2 where b: "load_command_bucket E ?key True s1 = (Inr b, s2)"
    and r2: "(case map_of b ?cid of
          Some r \<Rightarrow> if rec_payloadSha256 r \<noteq> digest then fthrow Bucket_Digest_Conflict
            else fthen (set_pointer E ?cid ?key digest) (fok \<lparr>rr_record = r, rr_created = False\<rparr>)
        | None \<Rightarrow> receive_new E cmd digest webhook now u b) s2 = (Inl (Capacity_Exceeded used), s')"
    by (cases rule: fbind_cases) (use throwsI cap_free(1) in blast)+
  have "Capacity_Exceeded used \<notin> throws (fthen (set_pointer E ?cid ?key digest) (fok \<lparr>rr_record = r, rr_created = False\<rparr>))" for r
    by (intro throws_thenI cap_free) simp
  then have "receive_new E cmd digest webhook now u b s2 = (Inl (Capacity_Exceeded used), s')"
    using r2 throwsI by (fastforce simp: fthrow_def split: option.splits if_splits)
  from receive_new_capacity [OF this] show ?thesis
    using find_pointer_reads [OF p] load_commands_reads [OF b] by simp
qed

theorem receive_capacity_witness:
  "j_store (snd (receive demo_env demo_command ''d'' ''w'' 1000 (1/200) empty_journal)) = [] \<and> (1/200 :: rat) \<le> 21/2000"
proof -
  have "receive demo_env demo_command ''d'' ''w'' 1000 (1/200) empty_journal =
    (Inl (Capacity_Exceeded (1/100)), snd (receive demo_env demo_command ''d'' ''w'' 1000 (1/200) empty_journal))"
    unfolding prod_eq_iff by (intro conjI, code_simp, simp)
  from receive_capacity [OF this] show ?thesis by (simp add: empty_journal_def)
qed

text \<open>C20: Compaction is exact: when it returns, precisely the records that were terminal, fully delivered
  and past the retention period are gone, and every other record is unchanged.\<close>

theorem compact_exact:
  assumes "store_wf E (j_store s)" and "compact E now s = (Inr removed, s')"
  shows "lookup_rec (j_store s') key cid = (case lookup_rec (j_store s) key cid of None \<Rightarrow> None
     | Some r \<Rightarrow> if compactable E now r then None else Some r)"
proof -
  let ?Q = "\<lambda>_ S'. lookup_rec S' key cid = (case lookup_rec (j_store s) key cid of None \<Rightarrow> None
     | Some r \<Rightarrow> if compactable E now r then None else Some r)"
  have "runs (j_store s) (compact E now) ?Q (JI E (compactable E now) (j_store s))"
    by (rule runs_compact [OF JI_refl [OF assms(1)]])
  from runs_ok [OF this refl assms(2)] show ?thesis by simp
qed

definition demo_delivered :: journal where
  "demo_delivered = snd (mark_evidence_delivered demo_env ''c1'' ''ee'' 4000
     (snd (mark_evidence_delivered demo_env ''c1'' ''e'' 4000
     (snd (mark_evidence_delivered demo_env ''c1'' [] 4000 demo_accepted)))))"

lemma demo_delivered_wf: "store_wf demo_env (j_store demo_delivered)"
proof -
  have run: "store_wf demo_env (j_store (run_op demo_env op s))" if "store_wf demo_env (j_store s)" "op_ok op" for op s
    using run_op_JI [OF that] by (simp add: JI_def)
  have "store_wf demo_env (j_store (run_op demo_env (Op_Delivered ''c1'' ''ee'' 4000)
      (run_op demo_env (Op_Delivered ''c1'' ''e'' 4000) (run_op demo_env (Op_Delivered ''c1'' [] 4000) demo_accepted))))"
    by (intro run demo_wf) simp_all
  then show ?thesis by (simp add: demo_delivered_def)
qed

theorem compact_exact_witness:
  "lookup_rec (j_store (snd (compact demo_env 700000000 demo_delivered))) (command_bucket_key demo_env demo_command) ''c1'' = None
   \<and> lookup_rec (j_store (snd (compact demo_env 600000000 demo_delivered))) (command_bucket_key demo_env demo_command) ''c1'' \<noteq> None"
proof -
  let ?k = "command_bucket_key demo_env demo_command"
  have "lookup_rec (j_store demo_delivered) ?k ''c1'' \<noteq> None \<and>
      compactable demo_env 700000000 (the (lookup_rec (j_store demo_delivered) ?k ''c1'')) \<and>
      \<not> compactable demo_env 600000000 (the (lookup_rec (j_store demo_delivered) ?k ''c1''))" by code_simp
  then obtain r where r: "lookup_rec (j_store demo_delivered) ?k ''c1'' = Some r"
    "compactable demo_env 700000000 r" "\<not> compactable demo_env 600000000 r" by auto
  have "compact demo_env 700000000 demo_delivered = (Inr 1, snd (compact demo_env 700000000 demo_delivered))"
    "compact demo_env 600000000 demo_delivered = (Inr 0, snd (compact demo_env 600000000 demo_delivered))"
    unfolding prod_eq_iff by (intro conjI, code_simp, simp)+
  from compact_exact [OF demo_delivered_wf this(1)] compact_exact [OF demo_delivered_wf this(2)] r show ?thesis by simp
qed

lemma recover_facts:
  assumes "store_wf E (j_store s)" and "recover E now s = (Inr rcv, s')"
  shows "\<forall>r \<in> set (rcv_resumable rcv). rec_state r = RECEIVED \<and> indexed_rec E (j_store s') (record_id r) = Some r"
    and "distinct (map record_id (rcv_resumable rcv))"
proof -
  let ?Q = "\<lambda>rcv S'. (\<forall>r \<in> set (rcv_resumable rcv). rec_state r = RECEIVED \<and> indexed_rec E S' (record_id r) = Some r)
     \<and> distinct (map record_id (rcv_resumable rcv))"
  have "runs (j_store s) (recover E now) ?Q (JI E nothing_goes (j_store s))"
  proof (rule runs_recover [OF JI_refl [OF assms(1)]], rule conjI)
    fix rcv :: recovery and S'
    assume J: "JI E nothing_goes (j_store s) S'" and rb: "\<And>key. recovered_bucket E S' key"
      and set: "set (rcv_resumable rcv) = (\<Union>key. received_in S' key)"
    show "\<forall>r \<in> set (rcv_resumable rcv). rec_state r = RECEIVED \<and> indexed_rec E S' (record_id r) = Some r"
    proof
      fix r assume "r \<in> set (rcv_resumable rcv)"
      then obtain key c where r: "rec_state r = RECEIVED" "lookup_rec S' key c = Some r"
        unfolding set received_in_def by blast
      then show "rec_state r = RECEIVED \<and> indexed_rec E S' (record_id r) = Some r"
        using rb [of key] lookup_recD(2) [OF JI_wf [OF J] r(2)]
        by (auto simp: recovered_bucket_def fully_indexed_def indexed_rec_def record_id_def)
    qed
  qed
  from runs_ok [OF this refl assms(2)]
  show "\<forall>r \<in> set (rcv_resumable rcv). rec_state r = RECEIVED \<and> indexed_rec E (j_store s') (record_id r) = Some r"
    "distinct (map record_id (rcv_resumable rcv))" by simp_all
qed

text \<open>C19: Recovery settles the journal: when it returns, no record is left in SEND_STARTED (an interrupted
  send is indeterminate, never resumed), every record is reachable through the indices, and the
  resumable commands are exactly the records still in RECEIVED.\<close>

theorem recover_settles:
  assumes "store_wf E (j_store s)" and "recover E now s = (Inr rcv, s')"
  shows "(\<forall>key cid r. lookup_rec (j_store s') key cid = Some r \<longrightarrow>
        rec_state r \<noteq> SEND_STARTED \<and> indexed_rec E (j_store s') cid = Some r
        \<and> (\<forall>mid. rec_openwaMessageId r = Some mid \<longrightarrow> msg_of E (j_store s') mid \<noteq> None))
   \<and> set (rcv_resumable rcv) = {r. rec_state r = RECEIVED \<and> (\<exists>key cid. lookup_rec (j_store s') key cid = Some r)}
   \<and> store_le nothing_goes (j_store s) (j_store s')"
proof -
  let ?Q = "\<lambda>rcv S'. JI E nothing_goes (j_store s) S' \<and> (\<forall>key. recovered_bucket E S' key)
     \<and> set (rcv_resumable rcv) = (\<Union>key. received_in S' key)"
  have "runs (j_store s) (recover E now) ?Q (JI E nothing_goes (j_store s))"
    by (rule runs_recover [OF JI_refl [OF assms(1)]]) auto
  from runs_ok [OF this refl assms(2)] show ?thesis
    by (auto simp: recovered_bucket_def fully_indexed_def indexed_rec_def received_in_def JI_def)
qed

theorem recover_settles_witness:
  "recover demo_env 5000 demo_started = (Inr \<lparr>rcv_resumable = [], rcv_indeterminate = 1\<rparr>, snd (recover demo_env 5000 demo_started))
   \<and> {r. rec_state r = RECEIVED \<and> (\<exists>key cid. lookup_rec (j_store (snd (recover demo_env 5000 demo_started))) key cid = Some r)} = {}"
proof -
  have r: "recover demo_env 5000 demo_started =
    (Inr \<lparr>rcv_resumable = [], rcv_indeterminate = 1\<rparr>, snd (recover demo_env 5000 demo_started))"
    unfolding prod_eq_iff by (intro conjI, code_simp, simp)
  from recover_settles [OF demo_wf(3) r] have "set (rcv_resumable \<lparr>rcv_resumable = [], rcv_indeterminate = 1\<rparr>) =
      {r. rec_state r = RECEIVED \<and> (\<exists>key cid. lookup_rec (j_store (snd (recover demo_env 5000 demo_started))) key cid = Some r)}"
    by (elim conjE)
  with r show ?thesis by simp
qed

lemma mark_started_facts:
  assumes "store_wf E (j_store s)" and "mark_started E cid now s = (Inr r, s')"
  shows "indexed_rec E (j_store s') cid = Some r \<and>
    (rec_state r = SEND_STARTED \<or> (is_terminal (rec_state r) \<and> j_store s' = j_store s))"
proof -
  let ?Q = "\<lambda>r S'. indexed_rec E S' cid = Some r \<and>
    (rec_state r = SEND_STARTED \<or> (is_terminal (rec_state r) \<and> S' = j_store s))"
  have "runs (j_store s) (mark_started E cid now) ?Q (JI E nothing_goes (j_store s))"
    unfolding mark_started_def
    by (rule runs_transition [OF JI_refl [OF assms(1)]]) (auto simp: standard_transitions)
  from runs_ok [OF this refl assms(2)] show ?thesis by simp
qed

text \<open>The outcome of \<open>markStarted\<close>: when it returns a record, that is the journalled record of the
  command and either it is now in SEND_STARTED, or the send had finished before and nothing stored
  changed. A return is therefore no licence to send by itself.\<close>

theorem mark_started_outcome:
  assumes "store_wf E (j_store s)" and "mark_started E cid now s = (Inr r, s')"
  shows "indexed_rec E (j_store s') cid = Some r \<and>
    (rec_state r = SEND_STARTED \<or> (is_terminal (rec_state r) \<and> j_store s' = j_store s))"
  by (rule mark_started_facts [OF assms])

theorem mark_started_outcome_witness:
  "\<exists>r. mark_started demo_env ''c1'' 9000 demo_accepted = (Inr r, snd (mark_started demo_env ''c1'' 9000 demo_accepted))
     \<and> indexed_rec demo_env (j_store (snd (mark_started demo_env ''c1'' 9000 demo_accepted))) ''c1'' = Some r"
proof -
  have "\<not> isl (fst (mark_started demo_env ''c1'' 9000 demo_accepted))" by code_simp
  then obtain r where r: "mark_started demo_env ''c1'' 9000 demo_accepted = (Inr r, snd (mark_started demo_env ''c1'' 9000 demo_accepted))"
    by (metis isl_def prod.collapse sum.exhaust)
  from mark_started_outcome [OF demo_wf(4) r] r show ?thesis by blast
qed

text \<open>The outcome of \<open>markAccepted\<close>: a started send becomes accepted with the message id, and the id
  leads back to the command; a finished send is returned as it is.\<close>

theorem mark_accepted_outcome:
  assumes "store_wf E (j_store s)" and "mid \<noteq> []" and "mark_accepted E cid mid now s = (Inr r, s')"
  shows "indexed_rec E (j_store s') cid = Some r \<and>
    ((is_terminal (rec_state r) \<and> j_store s' = j_store s) \<or>
     (rec_state r = SEND_ACCEPTED \<and> rec_openwaMessageId r = Some mid \<and>
      map_option mp_commandId (msg_of E (j_store s') mid) = Some cid))"
proof -
  let ?Q = "\<lambda>r S'. indexed_rec E S' cid = Some r \<and>
    ((is_terminal (rec_state r) \<and> S' = j_store s) \<or>
     (rec_state r = SEND_ACCEPTED \<and> rec_openwaMessageId r = Some mid \<and> map_option mp_commandId (msg_of E S' mid) = Some cid))"
  have "runs (j_store s) (mark_accepted E cid mid now) ?Q (JI E nothing_goes (j_store s))"
    by (rule runs_mark_accepted [OF JI_refl [OF assms(1)] assms(2)]) auto
  from runs_ok [OF this refl assms(3)] show ?thesis by simp
qed

theorem mark_accepted_outcome_witness:
  "map_option mp_commandId (msg_of demo_env (j_store demo_accepted) ''m1'') = Some ''c1'' \<or>
   j_store demo_accepted = j_store demo_started"
proof -
  have "\<not> isl (fst (mark_accepted demo_env ''c1'' ''m1'' 3000 demo_started))" by code_simp
  then obtain r where r: "mark_accepted demo_env ''c1'' ''m1'' 3000 demo_started = (Inr r, demo_accepted)"
    unfolding demo_accepted_def by (metis isl_def prod.collapse sum.exhaust)
  from mark_accepted_outcome [OF demo_wf(3) _ r] show ?thesis by auto
qed

text \<open>Acknowledgements. \<open>appendAcknowledgement\<close> returns true exactly by recording the acknowledgement
  as the next evidence of the accepted send the message id leads to, in the right session and only when
  no stronger or equal one was there; otherwise no command record changes.\<close>

theorem acknowledgement_effect:
  assumes "store_wf E (j_store s)" and "append_acknowledgement E session mid status occurred observed s = (Inr recorded, s')"
  shows "if recorded then \<exists>p r r'. msg_of E (j_store s) mid = Some p \<and> mp_sessionId p = session \<and>
      indexed_rec E (j_store s) (mp_commandId p) = Some r \<and> indexed_rec E (j_store s') (mp_commandId p) = Some r' \<and>
      rec_state r = SEND_ACCEPTED \<and> \<not> ack_superseded r status \<and> kinds r' = kinds r @ [ack_kind status] \<and> rec_le r r'
    else lookup_rec (j_store s') = lookup_rec (j_store s)"
proof -
  let ?Q = "\<lambda>recorded S'. if recorded then \<exists>p r r'. msg_of E (j_store s) mid = Some p \<and> mp_sessionId p = session \<and>
      indexed_rec E (j_store s) (mp_commandId p) = Some r \<and> indexed_rec E S' (mp_commandId p) = Some r' \<and>
      rec_state r = SEND_ACCEPTED \<and> \<not> ack_superseded r status \<and> kinds r' = kinds r @ [ack_kind status] \<and> rec_le r r'
    else lookup_rec S' = lookup_rec (j_store s)"
  have "runs (j_store s) (append_acknowledgement E session mid status occurred observed) ?Q (JI E nothing_goes (j_store s))"
    by (rule runs_acknowledge [OF JI_refl [OF assms(1)]]) (auto simp: orphans_only_def same_commands_def)
  from runs_ok [OF this refl assms(2)] show ?thesis by simp
qed

theorem acknowledgement_effect_witness:
  "\<exists>r'. indexed_rec demo_env (j_store (snd (append_acknowledgement demo_env ''s1'' ''m1'' Ack_read (Some 5000) (Some 5000) demo_accepted))) ''c1''
     = Some r' \<and> last (kinds r') = ACK_READ"
proof -
  let ?run = "append_acknowledgement demo_env ''s1'' ''m1'' Ack_read (Some 5000) (Some 5000) demo_accepted"
  have r: "?run = (Inr True, snd ?run)" unfolding prod_eq_iff by (intro conjI, code_simp, simp)
  have m: "map_option mp_commandId (msg_of demo_env (j_store demo_accepted) ''m1'') = Some ''c1''" by code_simp
  from acknowledgement_effect [OF demo_wf(4) r] m show ?thesis by auto
qed

end
