(* ===== verification/Connector_Safety.thy ===== *)
theory Connector_Safety
  imports Connector_Lifecycle Journal_Theorems
begin

text \<open>
  What the connector guarantees about \<open>conversations.send\<close>: it is preceded by a durable mark, and it is
  called at most once per command as long as no stale resumption, no compaction and no re-enabling
  over running executions interferes.
\<close>

section \<open>Progress of the journal\<close>

definition jstore :: "connector \<Rightarrow> store" where
  "jstore s = j_store (cn_journal s)"

text \<open>\<open>jprog E s s'\<close>: from a well-formed journal the step reaches a well-formed journal in which
  every record and every index entry is kept.\<close>

definition jprog :: "connector_env \<Rightarrow> connector \<Rightarrow> connector \<Rightarrow> bool" where
  "jprog E s s' \<longleftrightarrow> (store_wf (ce_journal E) (jstore s) \<longrightarrow>
     store_wf (ce_journal E) (jstore s') \<and> journal_le (ce_journal E) (cn_journal s) (cn_journal s'))"

lemma jprog_same: "j_store (cn_journal s') = j_store (cn_journal s) \<Longrightarrow> jprog E s s'"
  by (simp add: jprog_def jstore_def journal_le_def ptr_grows_eq)

lemma jprog_trans: "jprog E s s' \<Longrightarrow> jprog E s' s'' \<Longrightarrow> jprog E s s''"
  unfolding jprog_def using jsys.le_trans by blast

lemma jprog_step:
  assumes "jprog E s s'" "j_store (cn_journal s'') = j_store (cn_journal s')"
  shows "jprog E s s''"
  by (rule jprog_trans [OF assms(1) jprog_same [OF assms(2)]])

lemma jrun_sel [simp]: "cn_journal (snd (jrun m s)) = snd (m (cn_journal s))"
  "fst (jrun m s) = fst (m (cn_journal s))"
  "cn_sends (snd (jrun m s)) = cn_sends s" "cn_execs (snd (jrun m s)) = cn_execs s"
  "cn_resumable (snd (jrun m s)) = cn_resumable s" "cn_bindings (snd (jrun m s)) = cn_bindings s"
  by (simp_all add: jrun_def)

lemma jprog_op:
  assumes "op_ok op" "\<not> op_compacts op" "snd (m (cn_journal s)) = run_op (ce_journal E) op (cn_journal s)"
  shows "jprog E s (snd (jrun m s))"
  using jsys.inv_step [of "ce_journal E" "cn_journal s" op] jsys.step_le [of "ce_journal E" "cn_journal s" op] assms
  by (auto simp: jprog_def jstore_def journal_step_def)

lemma jprog_methods:
  "jprog E s (snd (jrun (receive (ce_journal E) cmd d w now u) s))"
  "jprog E s (snd (jrun (mark_started (ce_journal E) cid now) s))"
  "jprog E s (snd (jrun (mark_rejected (ce_journal E) cid ec code now) s))"
  "jprog E s (snd (jrun (mark_indeterminate (ce_journal E) cid code now) s))"
  "mid \<noteq> [] \<Longrightarrow> jprog E s (snd (jrun (mark_accepted (ce_journal E) cid mid now) s))"
  "jprog E s (snd (jrun (append_acknowledgement (ce_journal E) session mid' st occurred observed) s))"
  "jprog E s (snd (jrun (mark_evidence_delivered (ce_journal E) cid eid now) s))"
  "jprog E s (snd (jrun (note_evidence_failure (ce_journal E) cid eid err now) s))"
  "jprog E s (snd (jrun (recover (ce_journal E) now) s))"
  by (rule jprog_op [of "Op_Receive cmd d w now u"], simp_all)
    (rule jprog_op [of "Op_Started cid now"] jprog_op [of "Op_Rejected cid ec code now"]
       jprog_op [of "Op_Indeterminate cid code now"] jprog_op [of "Op_Accepted cid mid now"]
       jprog_op [of "Op_Ack session mid' st occurred observed"] jprog_op [of "Op_Delivered cid eid now"]
       jprog_op [of "Op_Failure cid eid err now"] jprog_op [of "Op_Recover now"]; simp)+

subsection \<open>Methods that only read\<close>

definition reads :: "'a jm \<Rightarrow> bool" where
  "reads m \<longleftrightarrow> (\<forall>s. j_store (snd (m s)) = j_store s)"

lemma readsD: "reads m \<Longrightarrow> j_store (snd (m s)) = j_store s"
  by (simp add: reads_def)

lemma reads_bind:
  assumes "reads m" "\<And>x. reads (f x)" shows "reads (fbind m f)"
  unfolding reads_def
proof
  fix s show "j_store (snd (fbind m f s)) = j_store s"
    using readsD [OF assms(1), of s] readsD [OF assms(2)]
    by (cases "m s"; cases "fst (m s)") (auto simp: fbind_def)
qed

lemma reads_simps [simp]: "reads (fok x)" "reads (fthrow e)" "reads (storage_get E k)" "reads (storage_list E p)"
  by (auto simp: reads_def fok_def fthrow_def storage_get_def storage_list_def storage_call_def Let_def)

lemma reads_ffold: "(\<And>x a. reads (f x a)) \<Longrightarrow> reads (ffold f xs a)"
  by (induction xs arbitrary: a) (simp_all add: reads_bind)

lemma reads_load: "reads (load_command_bucket E key create)"
  unfolding load_command_bucket_def by (rule reads_bind) (auto split: option.split stored.split)

lemma reads_methods: "reads (pending_records E limit)" "reads (stats E now)" "reads (journal_get E cid)"
proof -
  have util: "reads (storage_utilization E keys)" for keys
    unfolding storage_utilization_def
    by (intro reads_bind reads_ffold) (auto split: option.split)
  have ptr: "reads (find_pointer E cid)"
    unfolding find_pointer_def load_pointer_bucket_def
    by (intro reads_bind) (auto split: option.split stored.split)
  have rec: "reads (load_record E key cid)" for key
    unfolding load_record_def by (intro reads_bind reads_load) (auto split: option.split)
  show "reads (pending_records E limit)"
    unfolding pending_records_def scan_records_def list_command_keys_def
    by (intro reads_bind reads_ffold reads_load) auto
  show "reads (stats E now)"
    unfolding stats_def list_journal_keys_def Let_def
    by (intro reads_bind reads_ffold reads_load util) auto
  show "reads (journal_get E cid)"
    unfolding journal_get_def by (intro reads_bind ptr) (auto split: option.split intro: reads_bind rec)
qed

lemma jprog_reads:
  "jprog E s (snd (jrun (pending_records (ce_journal E) limit) s))"
  "jprog E s (snd (jrun (stats (ce_journal E) now) s))"
  "jprog E s (snd (jrun (journal_get (ce_journal E) cid) s))"
  by (rule jprog_same, simp add: readsD [OF reads_methods(1)] readsD [OF reads_methods(2)] readsD [OF reads_methods(3)])+

section \<open>Steps that start no execution\<close>

text \<open>\<open>quiet s s'\<close>: the journal progresses, nothing is sent, no execution is added or moved, nothing is
  added to the resumable commands.\<close>

definition quiet :: "connector_env \<Rightarrow> connector \<Rightarrow> connector \<Rightarrow> bool" where
  "quiet E s s' \<longleftrightarrow> jprog E s s' \<and> cn_sends s' = cn_sends s \<and> cn_resumable s' = cn_resumable s
     \<and> (cn_execs s' = cn_execs s \<or> (\<exists>cid. cn_execs s' = AList.delete cid (cn_execs s)))"

definition silent :: "connector_env \<Rightarrow> connector \<Rightarrow> connector \<Rightarrow> bool" where
  "silent E s s' \<longleftrightarrow> jprog E s s' \<and> cn_sends s' = cn_sends s \<and> cn_resumable s' = cn_resumable s
     \<and> cn_execs s' = cn_execs s"

lemma silent_quiet: "silent E s s' \<Longrightarrow> quiet E s s'"
  by (simp add: silent_def quiet_def)

lemma silent_trans: "silent E s s' \<Longrightarrow> silent E s' s'' \<Longrightarrow> silent E s s''"
  by (auto simp: silent_def intro: jprog_trans)

lemma silent_quiet_trans: "silent E s s' \<Longrightarrow> quiet E s' s'' \<Longrightarrow> quiet E s s''"
  by (auto simp: silent_def quiet_def intro: jprog_trans)

lemma silent_refl [simp]: "silent E s s"
  by (simp add: silent_def jprog_same)

lemma silent_jrun:
  "jprog E s (snd (jrun m s)) \<Longrightarrow> silent E s (snd (jrun m s))"
  by (simp add: silent_def)

lemma silent_update:
  "silent E s s' \<Longrightarrow> cn_journal s'' = cn_journal s' \<Longrightarrow> cn_sends s'' = cn_sends s' \<Longrightarrow>
     cn_resumable s'' = cn_resumable s' \<Longrightarrow> cn_execs s'' = cn_execs s' \<Longrightarrow> silent E s s''"
  by (auto simp: silent_def intro: jprog_step)

lemma flush_command_sel [simp]:
  "cn_journal (flush_command cid s) = cn_journal s" "cn_sends (flush_command cid s) = cn_sends s"
  "cn_execs (flush_command cid s) = cn_execs s" "cn_resumable (flush_command cid s) = cn_resumable s"
  "cn_bindings (flush_command cid s) = cn_bindings s" "cn_context (flush_command cid s) = cn_context s"
  by (simp_all add: flush_command_def)

lemma tick_failed_sel [simp]:
  "cn_journal (tick_failed m b s) = cn_journal s" "cn_sends (tick_failed m b s) = cn_sends s"
  "cn_execs (tick_failed m b s) = cn_execs s" "cn_resumable (tick_failed m b s) = cn_resumable s"
  by (simp_all add: tick_failed_def)

lemma silent_flush_command: "silent E s (flush_command cid s)"
  by (rule silent_update [OF silent_refl]) simp_all

lemma quiet_flush_rejected: "quiet E s (flush_rejected cid message s)"
  by (auto simp: flush_rejected_def stops_rejected_def Let_def quiet_def exec_failed_def exec_done_def jprog_same
      split: option.splits tick_phase.splits exec_phase.splits if_splits)

lemma silent_clear: "silent E s (clear_evidence_block_if_drained E s)"
  using silent_jrun [OF jprog_reads(1) [of E s 1]]
  by (auto simp: clear_evidence_block_if_drained_def split: prod.splits sum.splits intro: silent_update)

lemma silent_flush_finished: "silent E s (flush_finished E cid s)"
  unfolding flush_finished_def Let_def
  by (auto intro!: silent_trans [OF _ silent_flush_command] silent_trans [OF _ silent_clear] intro: silent_update [OF silent_refl])

lemma silent_flush_continue: "silent E s (flush_continue E cid r i s)"
  using silent_flush_finished by (auto simp: flush_continue_def split: option.split intro: silent_update [OF silent_refl])

lemma quiet_entry_failed: "quiet E s (flush_entry_failed E cid entry message p now s)"
proof -
  let ?m = "note_evidence_failure (ce_journal E) cid (ev_eventId (je_evidence entry)) message now"
  have j: "silent E s (snd (jrun ?m s))" by (rule silent_jrun [OF jprog_methods(8)])
  show ?thesis
  proof (cases "jrun ?m s")
    case (Pair x s')
    have "silent E s s'" using j Pair by simp
    then show ?thesis
      using Pair by (cases x) (auto simp: flush_entry_failed_def intro: silent_quiet_trans [OF _ quiet_flush_rejected]
          silent_quiet [OF silent_trans [OF silent_update silent_flush_finished]])
  qed
qed

lemma quiet_flush_step: "quiet E s (flush_step E cid now result s)"
proof (cases "map_of (cn_flushing s) cid")
  case None then show ?thesis by (simp add: flush_step_def silent_quiet)
next
  case (Some ph)
  show ?thesis
  proof (cases ph)
    case Fl_Load
    have j: "silent E s (snd (jrun (journal_get (ce_journal E) cid) s))" by (rule silent_jrun [OF jprog_reads(3)])
    show ?thesis
    proof (cases "jrun (journal_get (ce_journal E) cid) s")
      case (Pair x s')
      have "silent E s s'" using j Pair by simp
      then show ?thesis
        using Pair Some Fl_Load by (cases x) (auto simp: flush_step_def split: option.split
            intro: silent_quiet_trans [OF _ quiet_flush_rejected] silent_quiet [OF silent_trans [OF _ silent_flush_finished]]
              silent_quiet [OF silent_trans [OF _ silent_flush_continue]])
    qed
  next
    case (Fl_Post r i)
    let ?m = "mark_evidence_delivered (ce_journal E) cid (ev_eventId (je_evidence (rec_evidence r ! i))) now"
    have j: "silent E s (snd (jrun ?m s))" by (rule silent_jrun [OF jprog_methods(7)])
    show ?thesis
    proof (cases "jrun ?m s")
      case (Pair x s')
      have "silent E s s'" using j Pair by simp
      then show ?thesis
        using Pair Some Fl_Post by (cases x) (auto simp: flush_step_def Let_def split: sum.split
            intro: quiet_entry_failed silent_quiet_trans [OF _ quiet_entry_failed]
              silent_quiet [OF silent_trans [OF _ silent_flush_continue]])
    qed
  qed
qed

section \<open>The sending invariant\<close>

definition settled :: "connector_env \<Rightarrow> connector \<Rightarrow> string \<Rightarrow> bool" where
  "settled E s cid \<longleftrightarrow> (\<exists>r. indexed_rec (ce_journal E) (jstore s) cid = Some r \<and> rec_state r \<noteq> RECEIVED)"

fun before_send :: "exec_phase \<Rightarrow> bool" where
  "before_send (Ex_Reject ec code) = True"
| "before_send Ex_Media = True"
| "before_send Ex_Mark = True"
| "before_send _ = False"

fun accept_ok :: "exec_phase \<Rightarrow> bool" where
  "accept_ok (Ex_Accept mid) = (mid \<noteq> [])"
| "accept_ok _ = True"

lemma before_send_accept: "before_send ph \<Longrightarrow> accept_ok ph"
  by (cases ph) auto

definition execs_ok :: "connector \<Rightarrow> bool" where
  "execs_ok s \<longleftrightarrow> (\<forall>cid cmd ph. map_of (cn_execs s) cid = Some (cmd, ph) \<longrightarrow>
     accept_ok ph \<and> (before_send ph \<longrightarrow> cid \<notin> set (cn_sends s)))"

definition resumable_ok :: "connector \<Rightarrow> bool" where
  "resumable_ok s \<longleftrightarrow> distinct (map record_id (cn_resumable s))
     \<and> (\<forall>r \<in> set (cn_resumable s). record_id r \<notin> set (cn_sends s) \<and> \<not> cn_active s (record_id r))"

definition sending_inv :: "connector_env \<Rightarrow> connector \<Rightarrow> bool" where
  "sending_inv E s \<longleftrightarrow> store_wf (ce_journal E) (jstore s) \<and> distinct (cn_sends s)
     \<and> (\<forall>cid \<in> set (cn_sends s). settled E s cid) \<and> execs_ok s \<and> resumable_ok s"

lemma settled_mono:
  assumes "settled E s cid" "store_wf (ce_journal E) (jstore s)" "jprog E s s'"
  shows "settled E s' cid"
proof -
  let ?E = "ce_journal E"
  obtain p r where p: "ptr_of ?E (jstore s) cid = Some p" "lookup_rec (jstore s) (ptr_bucketKey p) cid = Some r"
    "rec_state r \<noteq> RECEIVED"
    using assms(1) by (auto simp: settled_def indexed_rec_def split: option.splits)
  have le: "store_le nothing_goes (jstore s) (jstore s')" "ptr_grows ?E nothing_goes (jstore s) (jstore s')"
    using assms(2,3) by (auto simp: jprog_def journal_le_def jstore_def)
  obtain r' where "lookup_rec (jstore s') (ptr_bucketKey p) cid = Some r'" "rec_le r r'"
    using le(1) p(2) unfolding store_le_def nothing_goes_def by blast
  moreover have "ptr_of ?E (jstore s') cid = Some p" using le(2) p(1) by (simp add: ptr_grows_def)
  moreover have "rec_state r' \<noteq> RECEIVED"
    using p(3) \<open>rec_le r r'\<close> by (cases "rec_state r") (auto simp: rec_le_def)
  ultimately show ?thesis by (auto simp: settled_def indexed_rec_def)
qed

lemma wf_mono: "store_wf (ce_journal E) (jstore s) \<Longrightarrow> jprog E s s' \<Longrightarrow> store_wf (ce_journal E) (jstore s')"
  by (simp add: jprog_def)

lemma quiet_inv:
  assumes "sending_inv E s" "quiet E s s'"
  shows "sending_inv E s'"
proof -
  have j: "jprog E s s'" and same: "cn_sends s' = cn_sends s" "cn_resumable s' = cn_resumable s"
    and ex: "cn_execs s' = cn_execs s \<or> (\<exists>cid. cn_execs s' = AList.delete cid (cn_execs s))"
    using assms(2) by (auto simp: quiet_def)
  have sub: "map_of (cn_execs s') cid = Some x \<Longrightarrow> map_of (cn_execs s) cid = Some x" for cid x
    using ex by (auto split: if_splits)
  have "execs_ok s'" using assms(1) sub same unfolding execs_ok_def sending_inv_def by metis
  moreover have "resumable_ok s'"
    using assms(1) sub same unfolding resumable_ok_def sending_inv_def cn_active_def by (metis not_None_eq)
  moreover have "store_wf (ce_journal E) (jstore s')" using assms(1) wf_mono [OF _ j] by (simp add: sending_inv_def)
  moreover have "\<forall>cid \<in> set (cn_sends s'). settled E s' cid"
    using assms(1) settled_mono [OF _ _ j] same by (auto simp: sending_inv_def)
  ultimately show ?thesis using assms(1) same by (simp add: sending_inv_def)
qed

lemmas silent_inv = quiet_inv [OF _ silent_quiet]

text \<open>An execution that stays before its send, or that is past it, may move.\<close>

lemma goto_inv:
  assumes "sending_inv E s" "map_of (cn_execs s) cid = Some (cmd, ph)" "before_send ph' \<longrightarrow> before_send ph" "accept_ok ph'"
    "silent E s s1" "s' = exec_goto cid cmd' ph' s1"
  shows "sending_inv E s'"
proof -
  have 1: "sending_inv E s1" by (rule silent_inv [OF assms(1,5)])
  have ex: "cn_execs s1 = cn_execs s" "cn_sends s1 = cn_sends s" using assms(5) by (simp_all add: silent_def)
  have "execs_ok s'"
    using 1 assms(1,2,3,4,6) ex by (auto simp: execs_ok_def sending_inv_def exec_goto_def split: if_splits)
  moreover have "resumable_ok s'"
    using 1 assms(2,6) ex by (auto simp: resumable_ok_def sending_inv_def exec_goto_def cn_active_def)
  moreover have "jprog E s1 s'" by (rule jprog_same) (simp add: assms(6) exec_goto_def)
  ultimately show ?thesis
    using 1 assms(6) settled_mono [OF _ _ \<open>jprog E s1 s'\<close>] wf_mono [OF _ \<open>jprog E s1 s'\<close>]
    by (auto simp: sending_inv_def exec_goto_def jstore_def)
qed

lemma exec_flush_inv:
  assumes "sending_inv E s" "map_of (cn_execs s) cid = Some (cmd, ph)" "silent E s s1"
  shows "sending_inv E (exec_flush cid cmd s1)"
  unfolding exec_flush_def
  by (rule silent_inv [OF goto_inv [OF assms(1,2) _ _ assms(3) refl] silent_flush_command]) simp_all

lemma exec_failed_inv:
  assumes "sending_inv E s" "silent E s s1"
  shows "sending_inv E (exec_failed cid m s1)"
proof -
  have "quiet E s1 (exec_failed cid m s1)"
    by (auto simp: quiet_def exec_failed_def exec_done_def intro: jprog_same)
  then show ?thesis by (rule quiet_inv [OF silent_inv [OF assms]])
qed

text \<open>The send itself: the mark has returned, so the command is settled.\<close>

lemma send_inv:
  assumes inv: "sending_inv E s" and ex: "map_of (cn_execs s) cid = Some (cmd, Ex_Mark)"
    and mark: "jrun (mark_started (ce_journal E) cid now) s = (Inr r, s1)" and ctx: "cn_context (flush_command cid s1)"
  shows "sending_inv E (exec_goto cid cmd Ex_Sending ((flush_command cid s1)
     \<lparr>cn_sends := cn_sends (flush_command cid s1) @ [cid]\<rparr>))"
proof -
  let ?s = "exec_goto cid cmd Ex_Sending ((flush_command cid s1)\<lparr>cn_sends := cn_sends (flush_command cid s1) @ [cid]\<rparr>)"
  have "silent E s (snd (jrun (mark_started (ce_journal E) cid now) s))" by (rule silent_jrun [OF jprog_methods(2)])
  then have sil: "silent E s s1" using mark by simp
  have eqs: "cn_sends s1 = cn_sends s" "cn_execs s1 = cn_execs s" "cn_resumable s1 = cn_resumable s"
    using sil by (simp_all add: silent_def)
  have fresh: "cid \<notin> set (cn_sends s)" using inv ex by (auto simp: sending_inv_def execs_ok_def)
  have wf: "store_wf (ce_journal E) (jstore s)" using inv by (simp add: sending_inv_def)
  have j: "jprog E s ?s" using jprog_step [of E s s1] sil by (simp add: silent_def exec_goto_def)
  have "mark_started (ce_journal E) cid now (cn_journal s) = (Inr r, cn_journal s1)"
    using mark unfolding jrun_def by (auto simp: prod_eq_iff)
  from mark_started_facts [OF wf [unfolded jstore_def] this]
  have "settled E ?s cid" by (auto simp: settled_def jstore_def exec_goto_def is_terminal_def)
  then have set: "\<forall>c \<in> set (cn_sends ?s). settled E ?s c"
    using inv settled_mono [OF _ wf j] eqs by (auto simp: sending_inv_def exec_goto_def)
  have "execs_ok ?s" using inv ex eqs unfolding execs_ok_def sending_inv_def
    by (auto simp: exec_goto_def)
  moreover have "resumable_ok ?s" using inv ex eqs unfolding resumable_ok_def sending_inv_def
    by (auto simp: exec_goto_def cn_active_def)
  moreover have "distinct (cn_sends ?s)" using inv fresh eqs by (simp add: sending_inv_def exec_goto_def)
  ultimately show ?thesis using set wf_mono [OF wf j] by (simp add: sending_inv_def)
qed

lemma extract_nonempty: "extract_openwa_message_id v = Some mid \<Longrightarrow> mid \<noteq> []"
  by (auto simp: extract_openwa_message_id_def trim_def split: js_value.splits if_splits)

lemma exec_step_inv:
  assumes inv: "sending_inv E s"
  shows "sending_inv E (exec_step E cid now result sent s)"
proof (cases "map_of (cn_execs s) cid")
  case None then show ?thesis using inv by (simp add: exec_step_def)
next
  case (Some e)
  then obtain cmd ph where ex: "map_of (cn_execs s) cid = Some (cmd, ph)" by (cases e) auto
  show ?thesis
  proof (cases ph)
    case (Ex_Reject ec code)
    have j: "silent E s (snd (jrun (mark_rejected (ce_journal E) cid ec code now) s))" by (rule silent_jrun [OF jprog_methods(3)])
    show ?thesis
    proof (cases "jrun (mark_rejected (ce_journal E) cid ec code now) s")
      case (Pair x s')
      have "silent E s s'" using j Pair by simp
      then show ?thesis using Pair Ex_Reject ex exec_failed_inv [OF inv] exec_flush_inv [OF inv ex]
        by (cases x) (simp_all add: exec_step_def)
    qed
  next
    case Ex_Media
    have "sending_inv E (exec_goto cid cmd ph' s)" if "before_send ph'" for ph'
      by (rule goto_inv [OF inv ex _ _ silent_refl refl]) (use that in \<open>simp_all add: Ex_Media before_send_accept\<close>)
    then show ?thesis using ex Ex_Media
      by (auto simp: exec_step_def exec_after_media_def Let_def split: option.split sum.split media_failure.split)
  next
    case Ex_Mark
    have "silent E s (snd (jrun (mark_started (ce_journal E) cid now) s))" by (rule silent_jrun [OF jprog_methods(2)])
    then show ?thesis
    proof (cases "jrun (mark_started (ce_journal E) cid now) s")
      case (Pair x s')
      have sil: "silent E s s'" using \<open>silent E s _\<close> Pair by simp
      show ?thesis
      proof (cases x)
        case (Inl e) then show ?thesis using Pair Ex_Mark ex exec_failed_inv [OF inv sil] by (simp add: exec_step_def)
      next
        case (Inr r)
        have "sending_inv E (exec_goto cid cmd (Ex_Indeterminate code) (flush_command cid s'))" for code
          by (rule goto_inv [OF inv ex _ _ silent_trans [OF sil silent_flush_command] refl]) simp_all
        then show ?thesis using Pair Inr Ex_Mark ex send_inv [OF inv, of cid cmd now r s']
          by (simp add: exec_step_def Let_def)
      qed
    qed
  next
    case Ex_Sending
    have "sending_inv E (exec_goto cid cmd ph' s)" if "\<not> before_send ph'" "accept_ok ph'" for ph'
      by (rule goto_inv [OF inv ex _ _ silent_refl refl]) (simp_all add: that)
    then show ?thesis using ex Ex_Sending
      by (auto simp: exec_step_def dest: extract_nonempty split: option.split)
  next
    case (Ex_Accept mid)
    have "accept_ok (Ex_Accept mid)" using inv ex Ex_Accept unfolding sending_inv_def execs_ok_def by metis
    then have "mid \<noteq> []" by simp
    then have j: "silent E s (snd (jrun (mark_accepted (ce_journal E) cid mid now) s))"
      by (intro silent_jrun jprog_methods(5))
    show ?thesis
    proof (cases "jrun (mark_accepted (ce_journal E) cid mid now) s")
      case (Pair x s')
      have sil: "silent E s s'" using j Pair by simp
      have "sending_inv E (exec_goto cid cmd (Ex_Indeterminate code) s')" for code
        by (rule goto_inv [OF inv ex _ _ sil refl]) simp_all
      then show ?thesis using Pair Ex_Accept ex exec_flush_inv [OF inv ex sil]
        by (cases x) (simp_all add: exec_step_def)
    qed
  next
    case (Ex_Indeterminate code)
    have j: "silent E s (snd (jrun (mark_indeterminate (ce_journal E) cid code now) s))" by (rule silent_jrun [OF jprog_methods(4)])
    show ?thesis
    proof (cases "jrun (mark_indeterminate (ce_journal E) cid code now) s")
      case (Pair x s')
      have sil: "silent E s s'" using j Pair by simp
      have "sending_inv E (exec_goto cid cmd (Ex_Indeterminate code') s')" for code'
        by (rule goto_inv [OF inv ex _ _ sil refl]) simp_all
      then show ?thesis using Pair Ex_Indeterminate ex exec_failed_inv [OF inv sil] exec_flush_inv [OF inv ex sil]
        by (cases x) (simp_all add: exec_step_def)
    qed
  next
    case Ex_Wait
    have "quiet E s (exec_done cid s)" by (auto simp: quiet_def exec_done_def intro: jprog_same)
    then show ?thesis using ex Ex_Wait inv quiet_inv [OF inv] by (simp add: exec_step_def)
  qed
qed

section \<open>Scheduling\<close>

lemma exec_begin_ok: "accept_ok (exec_begin cmd now s)"
  by (simp add: exec_begin_def)

lemma schedule_sel [simp]: "cn_journal (schedule cmd now s) = cn_journal s" "cn_sends (schedule cmd now s) = cn_sends s"
  "cn_resumable (schedule cmd now s) = cn_resumable s" "cn_bindings (schedule cmd now s) = cn_bindings s"
  by (simp_all add: schedule_def)

lemma sending_inv_journal: "sending_inv E s \<Longrightarrow> cn_journal s' = cn_journal s \<Longrightarrow> cn_sends s' = cn_sends s \<Longrightarrow>
  execs_ok s' \<Longrightarrow> resumable_ok s' \<Longrightarrow> sending_inv E s'"
  by (simp add: sending_inv_def settled_def jstore_def)

lemma schedule_inv:
  assumes "sending_inv E s" "cmd_commandId cmd \<notin> set (cn_sends s)"
    "cmd_commandId cmd \<notin> record_id ` set (cn_resumable s)"
  shows "sending_inv E (schedule cmd now s)"
proof (rule sending_inv_journal [OF assms(1)])
  show "execs_ok (schedule cmd now s)"
    using assms(1,2) exec_begin_ok by (auto simp: sending_inv_def execs_ok_def schedule_def)
  show "resumable_ok (schedule cmd now s)"
    using assms(1,3) by (auto simp: sending_inv_def resumable_ok_def schedule_def cn_active_def image_iff)
qed simp_all

lemma resume_records_sel:
  "resume_records now rs s = (rem, s') \<Longrightarrow> cn_journal s' = cn_journal s \<and> cn_sends s' = cn_sends s
     \<and> cn_resumable s' = cn_resumable s"
  by (induction rs arbitrary: s rem s') (auto split: if_splits prod.splits)

lemma resume_records_inv:
  assumes "sending_inv E (s\<lparr>cn_resumable := kept @ rs\<rparr>)" "resume_records now rs s = (rem, s')"
  shows "sending_inv E (s'\<lparr>cn_resumable := kept @ rem\<rparr>)"
  using assms
proof (induction rs arbitrary: s kept rem s')
  case (Cons r rs)
  show ?case
  proof (cases "bindings_find (cn_bindings s) (cmd_bindingGeneration (rec_command r)) \<noteq> None")
    case True
    then have run: "resume_records now rs (schedule (rec_command r) now s) = (rem, s')" using Cons.prems(2) by simp
    let ?t = "s\<lparr>cn_resumable := kept @ rs\<rparr>"
    have ok: "execs_ok ?t" "resumable_ok ?t"
      using Cons.prems(1) by (auto simp: sending_inv_def execs_ok_def resumable_ok_def cn_active_def)
    have t: "sending_inv E ?t" by (rule sending_inv_journal [OF Cons.prems(1) _ _ ok]) simp_all
    have id: "record_id r \<notin> set (cn_sends s)" "record_id r \<notin> record_id ` set (kept @ rs)"
      using Cons.prems(1) by (auto simp: sending_inv_def resumable_ok_def)
    have "schedule (rec_command r) now ?t = (schedule (rec_command r) now s)\<lparr>cn_resumable := kept @ rs\<rparr>"
      by (simp add: schedule_def cn_active_def exec_begin_def current_generation_is_def)
    moreover have "sending_inv E (schedule (rec_command r) now ?t)"
      using id by (intro schedule_inv t) (simp_all add: record_id_def)
    ultimately show ?thesis using Cons.IH [OF _ run] by simp
  next
    case False
    then obtain rem' where rem: "rem = r # rem'" "resume_records now rs s = (rem', s')"
      using Cons.prems(2) by (auto split: prod.splits)
    from Cons.IH [OF _ rem(2), of "kept @ [r]"] Cons.prems(1) rem(1) show ?thesis by simp
  qed
qed simp

lemma resume_recovered_inv:
  assumes "sending_inv E s" shows "sending_inv E (resume_recovered now s)"
proof (cases "resume_records now (cn_resumable s) s")
  case (Pair rem s')
  have "sending_inv E (s\<lparr>cn_resumable := [] @ cn_resumable s\<rparr>)" using assms by simp
  from resume_records_inv [OF this Pair] show ?thesis using Pair assms by (simp add: resume_recovered_def)
qed

section \<open>The tick, the hooks and the life cycle\<close>

lemma case_jrun_silent:
  assumes "\<And>s'. silent E s s' \<Longrightarrow> P s'" "jprog E s (snd (jrun m s))" "jrun m s = (x, s')"
  shows "P s'"
  using assms silent_jrun [OF assms(2)] by simp

lemma tick_resume_inv:
  assumes "sending_inv E s" shows "sending_inv E (tick_resume E now s)"
proof -
  let ?s = "resume_recovered now s"
  have inv: "sending_inv E ?s" by (rule resume_recovered_inv [OF assms])
  have sil: "silent E ?s (snd (jrun (pending_records (ce_journal E) 100) ?s))" by (rule silent_jrun [OF jprog_reads(1)])
  show ?thesis
  proof (cases "jrun (pending_records (ce_journal E) 100) ?s")
    case (Pair x s')
    have "silent E ?s s'" using sil Pair by simp
    then show ?thesis using Pair silent_inv [OF inv silent_update [OF \<open>silent E ?s s'\<close>]]
      by (cases x) (simp_all add: tick_resume_def)
  qed
qed

lemma tick_step_inv:
  assumes inv: "sending_inv E s" and nc: "cn_tick s \<noteq> Some T_Compact"
  shows "sending_inv E (tick_step E now result s)"
proof (cases "cn_tick s")
  case None then show ?thesis using inv by (simp add: tick_step_def)
next
  case (Some ph)
  have upd: "sending_inv E s'" if "cn_journal s' = cn_journal s" "cn_sends s' = cn_sends s"
    "cn_resumable s' = cn_resumable s" "cn_execs s' = cn_execs s" for s'
    by (rule silent_inv [OF inv silent_update [OF silent_refl that]])
  show ?thesis
  proof (cases ph)
    case T_Stats
    have sil: "silent E s (snd (jrun (stats (ce_journal E) now) s))" by (rule silent_jrun [OF jprog_reads(2)])
    show ?thesis
    proof (cases "jrun (stats (ce_journal E) now) s")
      case (Pair x s')
      have "silent E s s'" using sil Pair by simp
      note up = silent_inv [OF inv silent_update [OF this]]
      show ?thesis using Pair Some T_Stats by (cases x) (auto simp: tick_step_def Let_def intro!: up split: option.split)
    qed
  next
    case (T_Beat g b)
    show ?thesis using Some T_Beat
      by (auto simp: tick_step_def Let_def intro!: upd tick_resume_inv split: option.split sum.split)
  next
    case (T_Beat_Again b)
    show ?thesis using Some T_Beat_Again
      by (auto simp: tick_step_def intro!: upd tick_resume_inv split: option.split sum.split)
  next
    case (T_Flush cs)
    show ?thesis using Some T_Flush by (cases cs) (auto simp: tick_step_def intro!: upd)
  next
    case (T_Wait c cs) then show ?thesis using Some inv by (auto simp: tick_step_def intro!: upd)
  next
    case T_Compact then show ?thesis using Some nc by simp
  qed
qed

lemma silent_flush_pending: "silent E s (snd (flush_pending E n s))"
proof (cases "jrun (pending_records (ce_journal E) n) s")
  case (Pair x s')
  have "silent E s (snd (jrun (pending_records (ce_journal E) n) s))" by (rule silent_jrun [OF jprog_reads(1)])
  then have "silent E s s'" using Pair by simp
  from silent_update [OF this] \<open>silent E s s'\<close> show ?thesis using Pair by (cases x) (simp_all add: flush_pending_def)
qed

lemma silent_hook: "silent E s (snd (hook_acknowledge E mid status session occurred now s))"
proof -
  have each: "silent E s (snd (case jrun (append_acknowledgement (ce_journal E) sid m st occurred now) s of
      (Inl e, s') \<Rightarrow> (Inl e, s') | (Inr _, s') \<Rightarrow> (Inr (), snd (flush_pending E 20 s'))))" for sid m st
  proof (cases "jrun (append_acknowledgement (ce_journal E) sid m st occurred now) s")
    case (Pair x s')
    have "silent E s (snd (jrun (append_acknowledgement (ce_journal E) sid m st occurred now) s))"
      by (rule silent_jrun [OF jprog_methods(6)])
    then have "silent E s s'" using Pair by simp
    then show ?thesis using Pair silent_trans [OF _ silent_flush_pending] by (cases x) simp_all
  qed
  show ?thesis using each by (auto simp: hook_acknowledge_def split: option.split)
qed

lemma on_enable_silent: "silent E s (snd (on_enable E raw s))"
  by (auto simp: on_enable_def silent_def jprog_same split: sum.split)

lemma enable_inv:
  assumes inv: "sending_inv E s" and idle: "cn_execs s = []"
  shows "sending_inv E (snd (enable_step E n now s))"
proof -
  let ?s1 = "s\<lparr>cn_enabling := drop_nth n (cn_enabling s)\<rparr>"
  have upd: "sending_inv E s'" if "cn_journal s' = cn_journal s" "cn_sends s' = cn_sends s"
    "cn_resumable s' = cn_resumable s" "cn_execs s' = cn_execs s" for s'
    by (rule silent_inv [OF inv]) (use that in \<open>simp add: silent_def jprog_same\<close>)
  have s1: "sending_inv E ?s1" "cn_execs ?s1 = []" by (rule upd) (simp_all add: idle)
  have go: "sending_inv E (snd (case jrun (recover (ce_journal E) now) ?s1 of
      (Inl e, s2) \<Rightarrow> (Some (Inl (Enable_Journal e)), s2)
    | (Inr rcv, s2) \<Rightarrow> (Some (Inr ()), tick_begin (s2\<lparr>cn_resumable := rcv_resumable rcv, cn_stopped := False\<rparr>))))"
  proof (cases "jrun (recover (ce_journal E) now) ?s1")
    case (Pair x s2)
    have "silent E ?s1 (snd (jrun (recover (ce_journal E) now) ?s1))" by (rule silent_jrun [OF jprog_methods(9)])
    then have sil: "silent E ?s1 s2" using Pair by simp
    have inv2: "sending_inv E s2" by (rule silent_inv [OF s1(1) sil])
    show ?thesis
    proof (cases x)
      case (Inl e) then show ?thesis using Pair inv2 by simp
    next
      case (Inr rcv)
      have wf: "store_wf (ce_journal E) (j_store (cn_journal ?s1))" using s1 by (simp add: sending_inv_def jstore_def)
      have "recover (ce_journal E) now (cn_journal ?s1) = (Inr rcv, cn_journal s2)"
        using Pair Inr unfolding jrun_def by (auto simp: prod_eq_iff)
      note rec = recover_facts [OF wf this]
      let ?t = "tick_begin (s2\<lparr>cn_resumable := rcv_resumable rcv, cn_stopped := False\<rparr>)"
      have t: "cn_journal ?t = cn_journal s2" "cn_sends ?t = cn_sends s2" "cn_execs ?t = []"
        "cn_resumable ?t = rcv_resumable rcv"
        using sil s1(2) by (simp_all add: tick_begin_def silent_def)
      have "record_id r \<notin> set (cn_sends s2)" if "r \<in> set (rcv_resumable rcv)" for r
      proof
        assume "record_id r \<in> set (cn_sends s2)"
        then have "settled E s2 (record_id r)" using inv2 by (simp add: sending_inv_def)
        then show False using rec(1) that by (auto simp: settled_def jstore_def)
      qed
      then have "resumable_ok ?t" using rec(2) t by (simp add: resumable_ok_def cn_active_def)
      moreover have "execs_ok ?t" using t by (simp add: execs_ok_def)
      ultimately have "sending_inv E ?t" by (intro sending_inv_journal [OF inv2]) (simp_all add: t)
      then show ?thesis using Pair Inr by simp
    qed
  qed
  show ?thesis
    unfolding enable_step_def by (auto intro: upd go simp: inv split: enable_phase.split)
qed

lemma stop_silent: "silent E s (stop s)"
  by (auto simp: stop_def Let_def intro: silent_update [OF silent_refl])

lemma stop_step_silent: "silent E s (stop_step E n s)"
proof -
  have load: "silent E s (case jrun (pending_records (ce_journal E) 20) s of (Inl e, s') \<Rightarrow> stop_finished n s'
      | (Inr rs, s') \<Rightarrow> s'\<lparr>cn_stops := (cn_stops s')[n := f rs]\<rparr>)" for f
  proof (cases "jrun (pending_records (ce_journal E) 20) s")
    case (Pair x s')
    have "silent E s (snd (jrun (pending_records (ce_journal E) 20) s))" by (rule silent_jrun [OF jprog_reads(1)])
    then have "silent E s s'" using Pair by simp
    from silent_update [OF this] show ?thesis using Pair by (cases x) (simp_all add: stop_finished_def)
  qed
  have ends: "silent E s (stop_finished n s)" "silent E s (s\<lparr>cn_stops := phs\<rparr>)"
    "silent E s (flush_command c (s\<lparr>cn_stops := phs\<rparr>))" for c phs
    by (simp_all add: stop_finished_def silent_def jprog_same)
  show ?thesis
    unfolding stop_step_def by (auto intro: ends load split: stop_phase.split list.split)
qed

lemma crash_inv: "sending_inv E s \<Longrightarrow> sending_inv E (crash s)"
  by (auto simp: sending_inv_def crash_def fresh_connector_def settled_def jstore_def execs_ok_def resumable_ok_def cn_active_def)

section \<open>Ingress\<close>

text \<open>What the at-most-once guarantee excludes: a compaction, the replay of a command that recovery is
  about to resume, and enabling again while an ingress or an execution of the previous run is still in flight (they hold
  the journal object of that run, with a mutex of its own), or while another enabling has already let executions start.\<close>

fun may_compact :: "connector_event \<Rightarrow> connector \<Rightarrow> bool" where
  "may_compact (E_Tick now result) s = (cn_tick s = Some T_Compact)"
| "may_compact (E_Ingesting n now) s = (n < length (cn_ingress s) \<and>
     (case snd (cn_ingress s ! n) of In_Compact maxu digest webhook decided \<Rightarrow> True | _ \<Rightarrow> False))"
| "may_compact ev s = False"

fun receiving :: "ingress_phase \<Rightarrow> bool" where
  "receiving (In_Receive maxu digest webhook) = True"
| "receiving (In_Again maxu digest webhook) = True"
| "receiving _ = False"

fun replays_resumable :: "connector_event \<Rightarrow> connector \<Rightarrow> bool" where
  "replays_resumable (E_Ingesting n now) s = (n < length (cn_ingress s) \<and> receiving (snd (cn_ingress s ! n))
     \<and> cmd_commandId (fst (cn_ingress s ! n)) \<in> record_id ` set (cn_resumable s))"
| "replays_resumable ev s = False"

fun reenables :: "connector_event \<Rightarrow> connector \<Rightarrow> bool" where
  "reenables (E_Enable raw) s = (cn_execs s \<noteq> [] \<or> cn_ingress s \<noteq> [])"
| "reenables (E_Enabling n now) s = (cn_execs s \<noteq> [])"
| "reenables ev s = False"

definition disciplined :: "connector_event \<Rightarrow> connector \<Rightarrow> bool" where
  "disciplined ev s \<longleftrightarrow> \<not> may_compact ev s \<and> \<not> replays_resumable ev s \<and> \<not> reenables ev s"

definition disciplined_step :: "connector_env \<Rightarrow> connector_event \<Rightarrow> connector \<Rightarrow> connector \<Rightarrow> bool" where
  "disciplined_step E ev s s' \<longleftrightarrow> connector_step E ev s s' \<and> disciplined ev s"

lemma ingress_ends [simp]:
  "silent E s (snd (ingress_answered n x s)) \<longleftrightarrow> True" "silent E s (snd (ingress_goto n cmd ph s)) \<longleftrightarrow> True"
  by (simp_all add: ingress_answered_def ingress_goto_def silent_def jprog_same)

lemma ingress_ends_inv:
  assumes "sending_inv E s"
  shows "sending_inv E (snd (ingress_answered n x s))" "sending_inv E (snd (ingress_goto n cmd ph s))"
  using silent_inv [OF assms] by simp_all

lemma ingress_call_inv:
  assumes inv: "sending_inv E s" and j: "jprog E s (snd (jrun m s))"
    and k: "\<And>x s'. jrun m s = (Inr x, s') \<Longrightarrow> sending_inv E s' \<Longrightarrow> sending_inv E (snd (k x s'))"
  shows "sending_inv E (snd (ingress_call n (jrun m s) k))"
proof (cases "jrun m s")
  case (Pair x s')
  have "silent E s (snd (jrun m s))" by (rule silent_jrun [OF j])
  then have inv': "sending_inv E s'" using silent_inv [OF inv] Pair by simp
  show ?thesis using Pair k [OF _ inv'] ingress_ends_inv [OF inv'] by (cases x) (simp_all add: ingress_call_def)
qed

lemma ingress_received_inv:
  assumes inv: "sending_inv E s" and r: "indexed_rec (ce_journal E) (jstore s) (cmd_commandId cmd) = Some r"
    and guard: "cmd_commandId cmd \<notin> record_id ` set (cn_resumable s)"
  shows "sending_inv E (snd (ingress_received n cmd now r s))"
proof -
  have fresh: "cmd_commandId cmd \<notin> set (cn_sends s)" if "rec_state r = RECEIVED"
    using inv r that by (auto simp: sending_inv_def settled_def)
  show ?thesis
    using ingress_ends_inv [OF inv] ingress_ends_inv [OF schedule_inv [OF inv fresh guard]]
      ingress_ends_inv [OF silent_inv [OF inv silent_flush_command]]
    by (simp add: ingress_received_def)
qed

lemma receive_indexed:
  assumes "store_wf E (j_store s)" "receive E cmd d w now u s = (Inr res, s')"
  shows "indexed_rec E (j_store s') (cmd_commandId cmd) = Some (rr_record res)"
proof -
  let ?Q = "\<lambda>res S'. received E S' cmd d (rr_record res)"
  have "runs (j_store s) (receive E cmd d w now u) ?Q (JI E nothing_goes (j_store s))"
    by (rule runs_receive [OF JI_refl [OF assms(1)]]) auto
  from runs_ok [OF this refl assms(2)] show ?thesis by (auto simp: received_def indexed_rec_def)
qed

lemma receive_inv:
  assumes inv: "sending_inv E s" and guard: "cmd_commandId cmd \<notin> record_id ` set (cn_resumable s)"
    and r: "jrun (receive (ce_journal E) cmd d w now u) s = (Inr x, s')" and inv': "sending_inv E s'"
  shows "sending_inv E (snd (ingress_received n cmd now (rr_record x) s'))"
proof (rule ingress_received_inv [OF inv'])
  have "receive (ce_journal E) cmd d w now u (cn_journal s) = (Inr x, cn_journal s')"
    using r unfolding jrun_def by (auto simp: prod_eq_iff)
  from receive_indexed [OF _ this] inv
  show "indexed_rec (ce_journal E) (jstore s') (cmd_commandId cmd) = Some (rr_record x)"
    by (simp add: sending_inv_def jstore_def)
  have "cn_resumable s' = cn_resumable s" using r jrun_sel(5) by (metis snd_conv)
  then show "cmd_commandId cmd \<notin> record_id ` set (cn_resumable s')" using guard by simp
qed

lemma first_receive_inv:
  assumes inv: "sending_inv E s" and guard: "cmd_commandId cmd \<notin> record_id ` set (cn_resumable s)"
  shows "sending_inv E (snd (case jrun (receive (ce_journal E) cmd d w now u) s of
      (Inl (Capacity_Exceeded _), s') \<Rightarrow>
        if b s' then ingress_goto n cmd ph (s'\<lparr>cn_lastPressureCompactedAt := now\<rparr>) else ingress_goto n cmd ph' s'
    | r \<Rightarrow> ingress_call n r (\<lambda>received. ingress_received n cmd now (rr_record received))))"
proof (cases "jrun (receive (ce_journal E) cmd d w now u) s")
  case (Pair x s')
  have "silent E s (snd (jrun (receive (ce_journal E) cmd d w now u) s))" by (rule silent_jrun [OF jprog_methods(1)])
  then have sil: "silent E s s'" using Pair by simp
  have inv': "sending_inv E s'" by (rule silent_inv [OF inv sil])
  have later: "sending_inv E (s'\<lparr>cn_lastPressureCompactedAt := now\<rparr>)"
    by (rule silent_inv [OF inv silent_update [OF sil]]) simp_all
  show ?thesis
  proof (cases x)
    case (Inl e)
    then show ?thesis
      using Pair ingress_ends_inv [OF inv'] ingress_ends_inv [OF later] by (cases e) (simp_all add: ingress_call_def)
  next
    case (Inr y)
    then show ?thesis using Pair receive_inv [OF inv guard _ inv'] by (simp add: ingress_call_def)
  qed
qed

lemma ingress_step_inv:
  assumes inv: "sending_inv E s" and d: "disciplined (E_Ingesting n now) s"
  shows "sending_inv E (snd (ingress_step E n now s))"
proof (cases "n < length (cn_ingress s)")
  case False
  then show ?thesis using inv by (simp add: ingress_step_def)
next
  case True
  obtain cmd ph where at: "cn_ingress s ! n = (cmd, ph)" by (cases "cn_ingress s ! n")
  have guard: "cmd_commandId cmd \<notin> record_id ` set (cn_resumable s)" if "receiving ph"
    using d True at that by (simp add: disciplined_def)
  have flushed: "sending_inv E (snd (ingress_answered n z (flush_command cid s')))" if "sending_inv E s'" for z cid s'
    by (rule ingress_ends_inv [OF silent_inv [OF that silent_flush_command]])
  show ?thesis
  proof (cases ph)
    case (In_Receive u dg w)
    then show ?thesis using True at first_receive_inv [OF inv guard] by (simp add: ingress_step_def)
  next
    case (In_Compact u dg w t)
    then show ?thesis using d True at by (simp add: disciplined_def)
  next
    case (In_Stats u dg w)
    have "sending_inv E (snd (ingress_call n (jrun (stats (ce_journal E) now) s) (\<lambda>st s'.
        (if js_storageUtilization st < u then ingress_goto n cmd (In_Again u dg w)
         else ingress_answered n (Inl (Ingress_Journal (Capacity_Exceeded (js_storageUtilization st))))) (s'\<lparr>cn_stats := st\<rparr>))))"
    proof (rule ingress_call_inv [OF inv jprog_reads(2)])
      fix st s' assume "sending_inv E s'"
      then have "sending_inv E (s'\<lparr>cn_stats := st\<rparr>)"
        by (rule silent_inv [OF _ silent_update [OF silent_refl]]) simp_all
      from ingress_ends_inv [OF this] show "sending_inv E (snd ((if js_storageUtilization st < u
          then ingress_goto n cmd (In_Again u dg w)
          else ingress_answered n (Inl (Ingress_Journal (Capacity_Exceeded (js_storageUtilization st))))) (s'\<lparr>cn_stats := st\<rparr>)))"
        by simp
    qed
    then show ?thesis using True at In_Stats by (simp add: ingress_step_def)
  next
    case (In_Again u dg w)
    have "sending_inv E (snd (ingress_call n (jrun (receive (ce_journal E) cmd dg w now u) s)
        (\<lambda>received. ingress_received n cmd now (rr_record received))))"
      by (rule ingress_call_inv [OF inv jprog_methods(1)]) (rule receive_inv [OF inv guard], simp_all add: In_Again)
    then show ?thesis using True at In_Again by (simp add: ingress_step_def)
  next
    case In_Ambiguous
    show ?thesis using True at In_Ambiguous ingress_call_inv [OF inv jprog_methods(4) flushed]
      by (simp add: ingress_step_def)
  next
    case In_Rotated
    show ?thesis using True at In_Rotated ingress_call_inv [OF inv jprog_methods(3) flushed]
      by (simp add: ingress_step_def)
  qed
qed

lemma handle_ingress_silent: "silent E s (snd (handle_ingress E req s))"
  by (auto simp: handle_ingress_def silent_def jprog_same split: sum.split option.split)

lemma disciplined_inv:
  assumes inv: "sending_inv E s" and d: "disciplined ev s"
  shows "sending_inv E (connector_run E ev s)"
proof (cases ev)
  case (E_Enabling n now) then show ?thesis using enable_inv [OF inv] d by (simp add: disciplined_def)
next
  case (E_Config raw)
  have "silent E s (snd (on_config_change E raw s))"
    by (auto simp: on_config_change_def tick_begin_def split: sum.split option.split intro: silent_update [OF silent_refl])
  then show ?thesis using E_Config silent_inv [OF inv] by simp
next
  case (E_Ingesting n now) then show ?thesis using ingress_step_inv [OF inv] d by simp
next
  case (E_Tick now result) then show ?thesis using tick_step_inv [OF inv] d by (simp add: disciplined_def)
next
  case E_Timer
  have "silent E s (tick_begin s)" by (auto simp: tick_begin_def intro: silent_update [OF silent_refl])
  then show ?thesis using E_Timer silent_inv [OF inv] by simp
next
  case E_Flush_Next
  have "silent E s (flush_next s)"
    by (auto simp: flush_next_def split: list.split intro: silent_update [OF silent_refl])
  then show ?thesis using E_Flush_Next silent_inv [OF inv] by simp
qed (simp_all add: crash_inv inv exec_step_inv quiet_inv [OF inv quiet_flush_step] silent_inv [OF inv silent_hook]
    silent_inv [OF inv on_enable_silent] silent_inv [OF inv stop_silent] silent_inv [OF inv stop_step_silent]
    silent_inv [OF inv handle_ingress_silent] handle_sent_hook_def handle_ack_hook_def)

lemma fresh_inv: "sending_inv E (fresh_connector [] None 0 0 [])"
  by (simp add: sending_inv_def fresh_connector_def jstore_def empty_store_wf execs_ok_def resumable_ok_def)

interpretation csys: step_system connector_init "disciplined_step E" "sending_inv E" for E
proof unfold_locales
  fix s assume "connector_init s" then show "sending_inv E s" using fresh_inv by (simp add: connector_init_def)
next
  fix s s' ev assume "sending_inv E s" "disciplined_step E ev s s'"
  then show "sending_inv E s'" using disciplined_inv by (simp add: disciplined_step_def connector_step_def)
qed

end
