(* ===== verification/Connector_Properties.thy ===== *)
theory Connector_Properties
  imports Connector_Safety
begin

text \<open>
  The properties of the OpenWA connector plugin beyond its journal: at most one call of
  \<open>conversations.send\<close> per command, and the counterexample without the discipline; the bindings, the
  configuration, the admission of commands, the Event Inbox client and the health check.
\<close>

section \<open>A concrete connector\<close>

text \<open>For evaluation: the method runs once.\<close>

lemma jrun_code [code]: "jrun m s = (case m (cn_journal s) of (x, j) \<Rightarrow> (x, s\<lparr>cn_journal := j\<rparr>))"
  by (simp add: jrun_def split: prod.split)

definition demo_session :: string where
  "demo_session = ''11111111-1111-1111-8111-111111111111''"

definition demo_connector_id :: string where
  "demo_connector_id = ''22222222-2222-4222-8222-222222222222''"

definition live_command :: command where
  "live_command = demo_command\<lparr>cmd_sessionId := demo_session\<rparr>"

definition demo_url :: url where
  "demo_url = \<lparr>url_protocol = ''https:'', url_hostname = ''inbox.test'', url_pathname = ''/'', url_search = [],
     url_hash = [], url_username = [], url_password = [], url_origin = ''https://inbox.test'', url_href = ''https://inbox.test/''\<rparr>"

definition demo_raw_config :: js_value where
  "demo_raw_config = JObject [(''eventInboxBaseUrl'', JString ''https://inbox.test''),
     (''connectorToken'', JString (''wac1.'' @ demo_connector_id @ ''.1.'' @ replicate 43 CHR ''A'')),
     (''sessionId'', JString demo_session)]"

definition demo_heartbeat_body :: js_value where
  "demo_heartbeat_body = JObject [(''protocolVersion'', JNumber 1), (''bindings'', JArray [JObject
     [(''sessionId'', JString demo_session), (''connectorId'', JString demo_connector_id), (''webhookId'', JString ''w''),
      (''generation'', JNumber 1), (''updatedAt'', JString ''2026'')]])]"

definition demo_connector_env :: connector_env where
  "demo_connector_env = \<lparr>ce_journal = demo_env,
     ce_js = \<lparr>to_text = (\<lambda>v. case v of JString t \<Rightarrow> t | _ \<Rightarrow> []), to_number = (\<lambda>v. case v of JNumber q \<Rightarrow> Some q | _ \<Rightarrow> None)\<rparr>,
     ce_url = (\<lambda>_. Some demo_url), ce_decode = (\<lambda>_. Decoded live_command), ce_sha256 = (\<lambda>_. ''d''),
     ce_json = (\<lambda>_. Some demo_heartbeat_body), ce_date = (\<lambda>_. Some 0), ce_number = (\<lambda>_. None),
     ce_fault_name = ''Error''\<rparr>"

definition demo_beat :: fetch_result where
  "demo_beat = Inr \<lparr>nr_ok = True, nr_status = 200, nr_headers = [], nr_body = []\<rparr>"

definition demo_offline :: fetch_result where
  "demo_offline = Inl ''network''"

definition demo_delivery :: webhook_request where
  "demo_delivery = \<lparr>wr_verified = True, wr_deliveryId = ''c1'', wr_sessionId = Some demo_session, wr_rawBody = []\<rparr>"

definition demo_sent :: js_value where
  "demo_sent = JObject [(''messageId'', JString ''m1'')]"

definition enable_and_beat :: "connector_event list" where
  "enable_and_beat = [E_Enable demo_raw_config, E_Enabling 0 1000, E_Enabling 0 1000, E_Tick 1000 demo_offline, E_Tick 1000 demo_beat]"

definition send_once :: "connector_event list" where
  "send_once = [E_Exec ''c1'' 2000 demo_offline None, E_Exec ''c1'' 2000 demo_offline (Some demo_sent),
     E_Exec ''c1'' 2000 demo_offline None]"


text \<open>A run of events, each of which is disciplined where it happens.\<close>

fun disciplined_trace :: "connector_env \<Rightarrow> connector_event list \<Rightarrow> connector \<Rightarrow> bool" where
  "disciplined_trace E [] s \<longleftrightarrow> True"
| "disciplined_trace E (ev # evs) s \<longleftrightarrow> disciplined ev s \<and> disciplined_trace E evs (connector_run E ev s)"

lemma disciplined_trace_reachable:
  "reachable connector_init (disciplined_step E) s \<Longrightarrow> disciplined_trace E evs s \<Longrightarrow>
     reachable connector_init (disciplined_step E) (fold (connector_run E) evs s)"
proof (induction evs arbitrary: s)
  case (Cons ev evs)
  have "reachable connector_init (disciplined_step E) (connector_run E ev s)"
    using Cons.prems by (intro reach_step [OF Cons.prems(1), of ev]) (simp add: disciplined_step_def connector_step_def)
  then show ?case using Cons by simp
qed simp

definition empty_connector :: connector where
  "empty_connector = fresh_connector [] None 0 0 []"

definition delivered_once :: "connector_event list" where
  "delivered_once = enable_and_beat @ [E_Ingress demo_delivery, E_Ingesting 0 1500] @ send_once"

text \<open>A command is received, the process restarts, the webhook is delivered again and executed to its
  end; then the next heartbeat resumes what recovery had found.\<close>

definition redelivered_after_restart :: "connector_event list" where
  "redelivered_after_restart = enable_and_beat @ [E_Ingress demo_delivery, E_Ingesting 0 1500, E_Crash, E_Enable demo_raw_config,
     E_Enabling 0 1600, E_Enabling 0 1600, E_Ingress demo_delivery, E_Ingesting 0 1700] @ send_once @
     [E_Flush ''c1'' 2000 demo_offline, E_Flush ''c1'' 2000 demo_offline, E_Flush ''c1'' 2000 demo_offline,
      E_Flush ''c1'' 2000 demo_offline, E_Exec ''c1'' 2000 demo_offline None,
      E_Tick 2000 demo_offline, E_Tick 2000 demo_beat, E_Exec ''c1'' 3000 demo_offline None]"

lemma empty_connector_reachable: "reachable connector_init (disciplined_step E) empty_connector"
  by (rule reach_init) (simp add: connector_init_def empty_connector_def)

section \<open>Sending\<close>

text \<open>C1: In every run of the plugin (enabling, stopping, crashing and restarting, ingress, hooks, ticks, flushes and
  executions interleaved at their awaits, with arbitrary storage faults and network outcomes) that
  neither compacts, nor replays a command that recovery is about to resume, nor re-enables over
  commands in flight, \<open>conversations.send\<close> is called at most once for each command, and every command it was
  called for is durably marked as started before: its journal record is indexed and no longer RECEIVED.\<close>

theorem at_most_once_send:
  assumes "reachable connector_init (disciplined_step E) s"
  shows "distinct (cn_sends s) \<and> (\<forall>cid \<in> set (cn_sends s).
    \<exists>r. indexed_rec (ce_journal E) (j_store (cn_journal s)) cid = Some r \<and> rec_state r \<noteq> RECEIVED)"
  using csys.reachable_inv [OF assms] by (auto simp: sending_inv_def settled_def jstore_def)

theorem at_most_once_send_witness:
  "distinct (cn_sends (fold (connector_run demo_connector_env) delivered_once empty_connector))
     \<and> cn_sends (fold (connector_run demo_connector_env) delivered_once empty_connector) = [''c1'']"
proof -
  have "disciplined_trace demo_connector_env delivered_once empty_connector" by code_simp
  from at_most_once_send [OF disciplined_trace_reachable [OF empty_connector_reachable this]]
  have "distinct (cn_sends (fold (connector_run demo_connector_env) delivered_once empty_connector))" by blast
  moreover have "cn_sends (fold (connector_run demo_connector_env) delivered_once empty_connector) = [''c1'']"
    by code_simp
  ultimately show ?thesis by blast
qed

text \<open>The discipline is needed: when the webhook of a received command is delivered again after a
  restart and executed before the next heartbeat, the stale entry of \<open>resumable\<close> is scheduled afterwards,
  \<open>markStarted\<close> answers with the accepted record, and \<open>conversations.send\<close> is called a second time.\<close>

theorem stale_resumption_sends_twice:
  "cn_sends (fold (connector_run demo_connector_env) redelivered_after_restart empty_connector) = [''c1'', ''c1'']"
  by code_simp

section \<open>Bindings\<close>

definition demo_config :: connector_config where
  "demo_config = \<lparr>cfg_eventInboxBaseUrl = ''https://inbox.test'', cfg_connectorId = demo_connector_id,
     cfg_connectorToken = [], cfg_sessionId = demo_session, cfg_heartbeatIntervalSeconds = 10,
     cfg_storagePressureThreshold = 3/4\<rparr>"

definition demo_bindings :: binding_store where
  "demo_bindings = \<lparr>st_session = demo_session, st_connector = demo_connector_id, st_bindings = [], st_persisted = None\<rparr>"

definition demo_binding :: binding where
  "demo_binding = \<lparr>bd_sessionId = demo_session, bd_connectorId = demo_connector_id, bd_webhookId = ''w'',
     bd_generation = 1, bd_updatedAt = \<lparr>ts_text = ''2026'', ts_value = Some 0\<rparr>\<rparr>"

definition demo_bindings_after :: binding_store where
  "demo_bindings_after = demo_bindings\<lparr>st_bindings := [demo_binding],
     st_persisted := Some \<lparr>bs_schemaVersion = 1, bs_sessionId = demo_session, bs_bindings = [demo_binding]\<rparr>\<rparr>"

lemma current_generation_nonneg: "bindings_inv s \<Longrightarrow> 0 \<le> current_generation s"
  by (auto simp: current_generation_def bindings_current_def bindings_inv_def valid_binding_def
      dest!: last_in_set)

lemma demo_bindings_inv: "bindings_inv demo_bindings"
  by (simp add: bindings_inv_def demo_bindings_def maximum_retained_bindings_def)

lemma demo_heartbeat: "heartbeat (\<lambda>_. Some demo_heartbeat_body) (\<lambda>_. Some 0) demo_config demo_beat = Inr [demo_binding]"
  by code_simp

lemma demo_apply: "bindings_apply demo_bindings [demo_binding] = Inr (True, demo_bindings_after)"
  by code_simp

text \<open>The bindings a heartbeat announces keep the store well-formed: the generations strictly ascend, every
  binding belongs to this session and connector, at most 32 are kept; the current generation never decreases and is
  at least every announced generation, so a truncated store still holds the newest.\<close>

theorem heartbeat_updates_bindings:
  assumes inv: "bindings_inv s" and cfg: "st_session s = cfg_sessionId config" "st_connector s = cfg_connectorId config"
    and hb: "heartbeat json date config result = Inr bs" and ap: "bindings_apply s bs = Inr (changed, s')"
  shows "bindings_inv s' \<and> current_generation s \<le> current_generation s'
    \<and> (\<forall>b \<in> set bs. bd_generation b \<le> current_generation s')"
proof (intro conjI ballI)
  show inv': "bindings_inv s'" by (rule bindings_apply_inv [OF inv ap])
  show "current_generation s \<le> current_generation s'"
  proof (cases "st_bindings s = []")
    case True
    then show ?thesis using current_generation_nonneg [OF inv'] by (simp add: current_generation_def bindings_current_def)
  next
    case False
    then show ?thesis using bindings_apply_current [OF inv ap, of "bd_generation (last (st_bindings s))"]
      by (simp add: current_generation_def bindings_current_def)
  qed
  show "bd_generation b \<le> current_generation s'" if "b \<in> set bs" for b
    using bindings_apply_current [OF inv ap, of "bd_generation b"] that heartbeat_valid [OF hb] cfg
    by (auto simp: list_all_iff)
qed

theorem heartbeat_updates_bindings_witness:
  "bindings_inv demo_bindings_after \<and> current_generation demo_bindings_after = 1"
proof -
  have "bindings_inv demo_bindings_after"
    using heartbeat_updates_bindings [OF demo_bindings_inv _ _ demo_heartbeat demo_apply]
    by (simp add: demo_bindings_def demo_config_def)
  moreover have "current_generation demo_bindings_after = 1" by code_simp
  ultimately show ?thesis by blast
qed

lemma slice_last_short: "length xs \<le> n \<Longrightarrow> slice_last n xs = xs"
  by (simp add: slice_last_def)

lemma filter_valid: "bindings_inv s \<Longrightarrow>
    filter (valid_binding (st_session s) (st_connector s)) (st_bindings s) = st_bindings s"
  by (simp add: bindings_inv_def filter_id_conv)

text \<open>What \<open>apply\<close> persists is what \<open>load\<close> of a restarted plugin for the same session and connector reads
  back: the same bindings in the same order, none dropped by the validation.\<close>

theorem bindings_reload:
  assumes inv: "bindings_inv s" and ap: "bindings_apply s bs = Inr (True, s')"
  shows "bindings_load (s'\<lparr>st_bindings := []\<rparr>) = s'"
proof -
  have inv': "bindings_inv s'" by (rule bindings_apply_inv [OF inv ap])
  have p: "st_persisted s' = Some \<lparr>bs_schemaVersion = 1, bs_sessionId = st_session s', bs_bindings = st_bindings s'\<rparr>"
    using ap by (auto simp: bindings_apply_def Let_def split: if_splits option.splits)
  have "sort_by_generation (st_bindings s') = st_bindings s'" "length (st_bindings s') \<le> maximum_retained_bindings"
    using inv' by (simp_all add: bindings_inv_def sort_by_generation_strict)
  then show ?thesis using filter_valid [OF inv'] p
    by (simp add: bindings_load_def slice_last_short)
qed

theorem bindings_reload_witness: "bindings_load (demo_bindings_after\<lparr>st_bindings := []\<rparr>) = demo_bindings_after"
  by (rule bindings_reload [OF demo_bindings_inv demo_apply])

section \<open>Configuration and admission\<close>

text \<open>C22: Every configuration \<open>readConfig\<close> accepts is usable: the heartbeat interval is in 5 to 60 seconds, the
  storage threshold in 50 to 95 percent, the session is a UUID, the connector id is the one the token names and
  has the length of a UUID, and the base URL is the origin of an HTTPS (or loopback HTTP) URL without
  path, query, fragment or credentials.\<close>

theorem read_config_accepts:
  assumes "read_config js new_url raw = Inr c"
  shows "config_ok c \<and> length (cfg_connectorId c) = 36
    \<and> (\<exists>u. new_url (trim (text_or_empty js (js_field raw ''eventInboxBaseUrl''))) = Some u
         \<and> base_url_is_origin u \<and> cfg_eventInboxBaseUrl c = url_origin u)"
  using read_config_ok [OF assms] read_config_connector_uuid [OF assms] read_config_origin [OF assms] by blast

lemma demo_read_config:
  "case read_config (ce_js demo_connector_env) (ce_url demo_connector_env) demo_raw_config of Inl _ \<Rightarrow> False
     | Inr c \<Rightarrow> cfg_sessionId c = demo_session"
  by code_simp

theorem read_config_accepts_witness:
  "\<exists>c. read_config (ce_js demo_connector_env) (ce_url demo_connector_env) demo_raw_config = Inr c \<and> config_ok c"
  using demo_read_config read_config_accepts [of "ce_js demo_connector_env" "ce_url demo_connector_env" demo_raw_config]
  by (auto split: sum.splits)

text \<open>A command body is admitted exactly when the schema decodes it, its expiry window is positive and at
  most an hour, and, for an image, the media URL is HTTPS (or HTTP on a loopback host) without credentials or
  fragment.\<close>

theorem parse_command_admits:
  "parse_command decode new_url raw = Inr c \<longleftrightarrow>
     decode raw = Decoded c \<and> expiry_window_ok c
     \<and> (case cmd_content c of Text_Content _ \<Rightarrow> True
        | Image_Content _ _ _ _ media _ \<Rightarrow>
            (\<exists>u. new_url media = Some u \<and> (url_protocol u = ''https:'' \<or> url_protocol u = ''http:'' \<and> url_is_loopback u)
              \<and> url_username u = [] \<and> url_password u = [] \<and> url_hash u = []))"
proof (cases "decode raw")
  case (Decoded d)
  then show ?thesis
    using validate_media_url_ok [of new_url "img_mediaUrl (cmd_content d)" "()"]
    by (cases "cmd_content d"; cases "validate_media_url new_url (img_mediaUrl (cmd_content d))")
      (auto simp: parse_command_def)
qed (simp_all add: parse_command_def)

section \<open>The Event Inbox client\<close>

text \<open>Delivering evidence succeeds exactly when the answer is a 2xx JSON object with \<open>accepted: true\<close> and a boolean
  \<open>duplicate\<close>; a failure is persistent exactly when the inbox answered, with one of the statuses 400, 401, 403,
  409, 422 or with a malformed 2xx body, so that network failures and 5xx are retried.\<close>

theorem post_evidence_outcome:
  "case post_evidence json result of
     Inr _ \<Rightarrow> \<exists>response ps. result = Inr response \<and> nr_ok response \<and> json (nr_body response) = Some (JObject ps)
        \<and> map_of ps ''accepted'' = Some (JBool True) \<and> (\<exists>d. map_of ps ''duplicate'' = Some (JBool d))
   | Inl e \<Rightarrow> ie_operation e = Op_evidence
        \<and> (ie_persistent e = (case result of Inl _ \<Rightarrow> False
             | Inr response \<Rightarrow> nr_ok response \<or> nr_status response \<in> {400, 401, 403, 409, 422}))"
  by (auto simp: post_evidence_def request_absolute_def parse_json_object_def persistent_statuses_def
      split: sum.splits if_splits option.splits js_value.splits)

text \<open>The media check of an image passes exactly when the media URL has the Event Inbox's origin and the
  HEAD answer names the exact byte size, media type and SHA-256 of the command.\<close>

theorem verify_media_passes:
  "verify_media number new_url config (Image_Content name mime bytes sha media caption) result = Inr () \<longleftrightarrow>
     (\<exists>m base response. new_url media = Some m \<and> new_url (cfg_eventInboxBaseUrl config) = Some base
        \<and> url_origin m = url_origin base \<and> result = Inr response \<and> nr_ok response
        \<and> media_matches number response bytes mime sha)"
  by (auto simp: verify_media_def request_absolute_def split: option.splits sum.splits)

section \<open>Health\<close>

text \<open>The plugin reports itself healthy exactly when it is enabled and configured, holds a binding, its last
  heartbeat is at most two and a half intervals old, its storage is below the threshold and neither a
  blocking reason nor an error is pending.\<close>

theorem health_check_healthy:
  "health_check s now = [] \<longleftrightarrow>
     (\<exists>config beat. cn_config s = Some config \<and> \<not> cn_stopped s
        \<and> (cn_blockedReason s = None \<or> cn_blockedReason s = Some []) \<and> st_bindings (cn_bindings s) \<noteq> []
        \<and> cn_lastHeartbeatAt s = Some beat
        \<and> rat_of_int (now - beat) \<le> cfg_heartbeatIntervalSeconds config * 2500
        \<and> js_storageUtilization (cn_stats s) < cfg_storagePressureThreshold config
        \<and> (cn_lastError s = None \<or> cn_lastError s = Some []))"
  by (auto simp: health_check_def heartbeat_stale_def bindings_current_def not_less not_le
      split: option.splits if_splits)

end
