(* ===== verification/Runtime_Tables.thy ===== *)
theory Runtime_Tables
  imports Connector_Protocol
begin

text \<open>
  The tables of the Runtime's PostgreSQL database that the send path reads and writes
  (\<open>services/runtime/src/modules/messages\<close> and \<open>.../integrations/openwa/safety\<close>), as lists of rows, and
  transactions over them. A transaction is a function of the database that fails or gives a result and
  the new database; a failed one is rolled back. The trigger that guards \<open>message_jobs.status\<close> is part of every
  update of that column.
\<close>

section \<open>Message jobs and attempts\<close>

datatype job_status =
    SCHEDULED | QUEUED | PROCESSING | ACCEPTED | SENT | DELIVERED | READ | FAILED | UNKNOWN
  | DRY_RUN_COMPLETED | CANCELLED

datatype message_type = Text_Message | Image_Message

text \<open>\<open>CampaignContentDto\<close>, the \<open>payload\<close> column of a job.\<close>

record campaign_image =
  ci_mediaAssetId :: string
  ci_caption :: "string option"
  ci_filename :: string
  ci_mimeType :: string
  ci_byteSize :: int
  ci_sha256 :: string

datatype campaign_content = Campaign_Text string | Campaign_Image campaign_image

datatype run_status =
    RS_PREPARING | RS_BLOCKED | RS_SCHEDULED | RS_RUNNING | RS_PAUSED | RS_CANCELLING | RS_COMPLETED
  | RS_PARTIAL_FAILED | RS_FAILED | RS_CANCELLED

record message_job =
  mj_id :: string
  mj_scope :: string
  mj_key :: string
  mj_requestHash :: string
  mj_sessionId :: string
  mj_recipientId :: string
  mj_type :: message_type
  mj_payload :: campaign_content
  mj_scheduledAt :: millis
  mj_status :: job_status
  mj_dryRun :: bool
  mj_claimCount :: nat
  mj_attemptCount :: nat
  mj_leaseExpiresAt :: "millis option"
  mj_upstreamStartedAt :: "millis option"
  mj_leaseToken :: "string option"
  mj_policyVersion :: "int option"
  mj_cancelRequestedAt :: "millis option"
  mj_messageId :: "string option"
  mj_lastError :: "string option"
  mj_deferReason :: "string option"
  mj_createdAt :: millis
  mj_updatedAt :: millis

datatype transport_state =
    DISPATCH_STARTED | INGRESS_ACCEPTED | TS_SEND_STARTED | TS_SEND_ACCEPTED | TS_SENT | TS_DELIVERED
  | TS_READ | FAILED_DEFINITIVE | INDETERMINATE

datatype ingress_failure = DEFINITIVE | RATE_LIMITED_SAFE | AMBIGUOUS_RETRYABLE

datatype attempt_outcome = Outcome job_status | Retried

datatype safety_profile = CANARY | STANDARD

record message_attempt =
  ma_jobId :: string
  ma_number :: nat
  ma_outcome :: attempt_outcome
  ma_error :: "string option"
  ma_upstreamStartedAt :: "millis option"
  ma_policyVersion :: "int option"
  ma_attemptId :: string
  ma_commandId :: string
  ma_transport :: "transport_state option"
  ma_binding :: "int option"
  ma_permit :: "string option"
  ma_upstream :: "string option"
  ma_profile :: "safety_profile option"
  ma_payloadSha256 :: "string option"
  ma_body :: "string option"
  ma_expiresAt :: "millis option"
  ma_deliveries :: nat
  ma_nextAttemptAt :: "millis option"
  ma_leaseId :: "string option"
  ma_leaseExpiresAt :: "millis option"
  ma_ingressError :: "string option"
  ma_failureKind :: "ingress_failure option"
  ma_ingressAcceptedAt :: "millis option"
  ma_transportStartedAt :: "millis option"
  ma_transportAcceptedAt :: "millis option"
  ma_lastSequence :: nat
  ma_lastEvidenceAt :: "millis option"
  ma_messageId :: "string option"

datatype projection_state = PS_PENDING | PS_APPLIED | PS_IGNORED

text \<open>\<open>message_delivery_evidence\<close>: the evidence as received stands for its \<open>record_hash\<close>.\<close>

record stored_evidence =
  se_evidence :: evidence
  se_state :: projection_state

record message_event =
  me_eventId :: string
  me_sessionId :: string
  me_messageId :: string
  me_eventType :: string
  me_deliveryStatus :: "string option"
  me_state :: projection_state
  me_attempts :: nat
  me_jobId :: "string option"
  me_occurredAt :: millis

section \<open>Safety state\<close>

datatype scope_type = WORKSPACE | UPSTREAM | SESSION
datatype circuit_state = CLOSED | OPEN | HALF_OPEN | MANUAL_BLOCKED
datatype rate_mode = NORMAL | THROTTLED_MODE

type_synonym scope_key = "scope_type \<times> string \<times> string"

record scope_row =
  sc_circuit :: circuit_state
  sc_rateMode :: rate_mode
  sc_reason :: "string option"
  sc_cooldownUntil :: "millis option"
  sc_rateLimits :: nat
  sc_transientFailures :: nat
  sc_ambiguousOutcomes :: nat
  sc_successStreak :: nat
  sc_lastSuccessAt :: "millis option"
  sc_lastFailureAt :: "millis option"
  sc_lastPressureAt :: "millis option"
  sc_blockedAt :: "millis option"
  sc_blockReason :: "string option"
  sc_pausedAt :: "millis option"
  sc_pauseReason :: "string option"
  sc_profile :: safety_profile
  sc_policyVersion :: int
  sc_revision :: nat
  sc_updatedAt :: millis

text \<open>The operation classes other than the two of messages, which are the message types.\<close>

datatype operation_class =
    RECOVERY_PROBE | GROUP_READ_TARGETED | SESSION_READ | GROUP_READ_BULK | WEBHOOK_CONTROL
  | CONTACT_READ | PAGINATED_READ_PAGE

datatype bucket_class = UPSTREAM_ALL | MESSAGE_SEND_ALL | Class_Of operation_class | Message_Class message_type
datatype bucket_window = PACING | MINUTE | HOUR | DAY

type_synonym bucket_key = "scope_key \<times> bucket_class \<times> bucket_window"

record bucket_row =
  bk_arrivalAt :: millis
  bk_base :: int
  bk_emission :: int
  bk_burst :: int
  bk_limit :: int
  bk_period :: int
  bk_policyVersion :: int

datatype lease_lane = ACTIVE_SESSION | RECOVERY_LANE

record safety_lease =
  sl_token :: string
  sl_holderType :: string
  sl_holderId :: string
  sl_expiresAt :: millis
  sl_acquiredAt :: millis

datatype outcome_kind =
  OK_SUCCESS | OK_SAFE_REJECTION | OK_RATE_LIMITED | OK_TRANSIENT_FAILURE | OK_AMBIGUOUS | OK_SESSION_RESTRICTED

datatype mutation_type =
    WORKSPACE_BLOCK | WORKSPACE_RESUME | SESSION_BLOCK | SESSION_RESUME | PROFILE_CHANGE
  | OUTBOUND_PAUSE | OUTBOUND_RESUME

record mutation_receipt =
  mr_requestHash :: string
  mr_sessionId :: string
  mr_subjectId :: string
  mr_resultId :: string
  mr_resultRevision :: nat

text \<open>Rows of other modules that the final send fence reads.\<close>

record connector_session =
  cs_hasWebhook :: bool
  cs_hasConnector :: bool
  cs_bindingSyncedAt :: "millis option"
  cs_healthy :: bool
  cs_healthLeaseExpiresAt :: "millis option"
  cs_generation :: int

record gateway_session =
  gs_ready :: bool
  gs_engineLoaded :: bool
  gs_restricted :: bool

record gateway_group =
  gg_active :: bool
  gg_sendAllowed :: bool
  gg_invalidated :: bool

record dispatch_readiness =
  dr_ready :: bool
  dr_heartbeatAt :: millis

record runtime_db =
  db_jobs :: "message_job list"
  db_attempts :: "message_attempt list"
  db_evidence :: "stored_evidence list"
  db_events :: "message_event list"
  db_runs :: "(string \<times> run_status) list"
  db_lanes :: "string list"
  db_scopes :: "(scope_key \<times> scope_row) list"
  db_buckets :: "(bucket_key \<times> bucket_row) list"
  db_leases :: "((scope_key \<times> lease_lane) \<times> safety_lease) list"
  db_outcomes :: "(string \<times> outcome_kind) list"
  db_mutations :: "((mutation_type \<times> string) \<times> mutation_receipt) list"
  db_activity :: "(string \<times> string) list"
  db_connectors :: "(string \<times> connector_session) list"
  db_sessions :: "(string \<times> gateway_session) list"
  db_groups :: "((string \<times> string) \<times> gateway_group) list"
  db_readiness :: "dispatch_readiness option"

section \<open>Transactions\<close>

text \<open>A computation on a database \<open>'s\<close> that fails with \<open>'e\<close> or gives a result and the new database.\<close>

datatype db_error =
    Lease_Changed | Recovery_Lane_Changed | Job_Changed | Unique_Violation
  | Illegal_Transition job_status job_status | Mutation_Conflict | Session_Scope_Missing
  | Bad_Upstream_Cost | Command_Required | Evidence_Conflict string

type_synonym ('s, 'e, 'a) rollback = "'s \<Rightarrow> 'e + ('a \<times> 's)"
type_synonym 'a tx = "(runtime_db, db_error, 'a) rollback"

definition tx_return :: "'a \<Rightarrow> ('s, 'e, 'a) rollback" where
  "tx_return x db = Inr (x, db)"

definition tx_throw :: "'e \<Rightarrow> ('s, 'e, 'a) rollback" where
  "tx_throw e db = Inl e"

definition tx_bind :: "('s, 'e, 'a) rollback \<Rightarrow> ('a \<Rightarrow> ('s, 'e, 'b) rollback) \<Rightarrow> ('s, 'e, 'b) rollback" where
  "tx_bind m f db = (case m db of Inl e \<Rightarrow> Inl e | Inr (x, db') \<Rightarrow> f x db')"

definition tx_modify :: "('s \<Rightarrow> 's) \<Rightarrow> ('s, 'e, unit) rollback" where
  "tx_modify f db = Inr ((), f db)"

fun tx_iter :: "('x \<Rightarrow> ('s, 'e, unit) rollback) \<Rightarrow> 'x list \<Rightarrow> ('s, 'e, unit) rollback" where
  "tx_iter f [] = tx_return ()"
| "tx_iter f (x # xs) = tx_bind (f x) (\<lambda>_. tx_iter f xs)"

text \<open>\<open>DatabaseService.transaction\<close>: BEGIN, then COMMIT or ROLLBACK.\<close>

definition transaction :: "('s, 'e, 'a) rollback \<Rightarrow> 's \<Rightarrow> ('e + 'a) \<times> 's" where
  "transaction m db = (case m db of Inl e \<Rightarrow> (Inl e, db) | Inr (x, db') \<Rightarrow> (Inr x, db'))"

lemma tx_return_ok [simp]: "tx_return x db = Inr (y, db') \<longleftrightarrow> y = x \<and> db' = db"
  by (auto simp: tx_return_def)

lemma tx_throw_ok [simp]: "tx_throw e db \<noteq> Inr r"
  by (simp add: tx_throw_def)

lemma tx_modify_ok [simp]: "tx_modify f db = Inr (u, db') \<longleftrightarrow> db' = f db"
  by (auto simp: tx_modify_def)

lemma tx_bind_ok [simp]: "tx_bind m f db = Inr r \<longleftrightarrow> (\<exists>x db'. m db = Inr (x, db') \<and> f x db' = Inr r)"
  by (auto simp: tx_bind_def split: sum.splits)

lemma transaction_ok: "transaction m db = (Inr x, db') \<longleftrightarrow> m db = Inr (x, db')"
  by (auto simp: transaction_def split: sum.splits)

lemma transaction_failed: "transaction m db = (Inl e, db') \<longleftrightarrow> m db = Inl e \<and> db' = db"
  by (auto simp: transaction_def split: sum.splits)

text \<open>An invariant that every step of a transaction keeps holds after it, committed or rolled back.\<close>

definition tx_keeps :: "('s \<Rightarrow> bool) \<Rightarrow> ('s, 'e, 'a) rollback \<Rightarrow> bool" where
  "tx_keeps I m \<longleftrightarrow> (\<forall>db x db'. I db \<longrightarrow> m db = Inr (x, db') \<longrightarrow> I db')"

named_theorems tx_rules

lemma tx_keepsD: "tx_keeps I m \<Longrightarrow> I db \<Longrightarrow> m db = Inr (x, db') \<Longrightarrow> I db'"
  unfolding tx_keeps_def by blast

lemma tx_keeps_return [tx_rules]: "tx_keeps I (tx_return x)"
  by (simp add: tx_keeps_def)

lemma tx_keeps_throw [tx_rules]: "tx_keeps I (tx_throw e)"
  by (simp add: tx_keeps_def)

lemma tx_keeps_bind [tx_rules]: "tx_keeps I m \<Longrightarrow> (\<And>x. tx_keeps I (f x)) \<Longrightarrow> tx_keeps I (tx_bind m f)"
  unfolding tx_keeps_def tx_bind_ok by blast

lemma tx_keeps_modify [tx_rules]: "(\<And>db. I db \<Longrightarrow> I (f db)) \<Longrightarrow> tx_keeps I (tx_modify f)"
  by (simp add: tx_keeps_def)

lemma tx_keeps_iter [tx_rules]: "(\<And>x. x \<in> set xs \<Longrightarrow> tx_keeps I (f x)) \<Longrightarrow> tx_keeps I (tx_iter f xs)"
  by (induction xs) (auto intro: tx_rules)

lemma transaction_keeps: "tx_keeps I m \<Longrightarrow> I db \<Longrightarrow> I (snd (transaction m db))"
  by (auto simp: transaction_def tx_keeps_def split: sum.split)

section \<open>Updates\<close>

text \<open>\<open>UPDATE t SET f WHERE P\<close>, also on a table keyed by its primary key.\<close>

definition update_where :: "('r \<Rightarrow> bool) \<Rightarrow> ('r \<Rightarrow> 'r) \<Rightarrow> 'r list \<Rightarrow> 'r list" where
  "update_where P f rows = map (\<lambda>r. if P r then f r else r) rows"

definition update_keyed :: "('k \<Rightarrow> 'r \<Rightarrow> bool) \<Rightarrow> ('r \<Rightarrow> 'r) \<Rightarrow> ('k \<times> 'r) list \<Rightarrow> ('k \<times> 'r) list" where
  "update_keyed P f rows = map (\<lambda>(k, r). (k, if P k r then f r else r)) rows"

lemma map_of_update_keyed:
  "map_of (update_keyed P f rows) k = map_option (\<lambda>r. if P k r then f r else r) (map_of rows k)"
  by (induction rows) (auto simp: update_keyed_def)

lemma keys_update_keyed [simp]: "map fst (update_keyed P f rows) = map fst rows"
  by (simp add: update_keyed_def case_prod_beta comp_def)

lemma update_where_id: "\<forall>r \<in> set rows. \<not> P r \<Longrightarrow> update_where P f rows = rows"
  unfolding update_where_def by (rule map_idI) simp

lemma find_map: "(\<And>x. p (f x) = q x) \<Longrightarrow> List.find p (map f xs) = map_option f (List.find q xs)"
  by (induction xs) auto

lemma find_update_where:
  "(\<And>x. Q x \<Longrightarrow> p (f x) = p x) \<Longrightarrow> List.find p (update_where Q f xs) = map_option (\<lambda>x. if Q x then f x else x) (List.find p xs)"
  unfolding update_where_def by (rule find_map) simp

text \<open>\<open>INSERT ... ON CONFLICT DO NOTHING\<close> on a keyed table.\<close>

definition insert_new :: "'k \<Rightarrow> 'r \<Rightarrow> ('k \<times> 'r) list \<Rightarrow> ('k \<times> 'r) list" where
  "insert_new k r rows = (case map_of rows k of None \<Rightarrow> rows @ [(k, r)] | Some _ \<Rightarrow> rows)"

lemma map_of_insert_new:
  "map_of (insert_new k r rows) k' = (if k' = k \<and> map_of rows k = None then Some r else map_of rows k')"
  by (auto simp: insert_new_def map_add_def split: option.split)

section \<open>The guard of message job status\<close>

text \<open>\<open>enforce_message_job_status_transition\<close> (migration 080).\<close>

fun legal_transition :: "job_status \<Rightarrow> job_status \<Rightarrow> bool" where
  "legal_transition SCHEDULED t \<longleftrightarrow> t \<in> {SCHEDULED, QUEUED, CANCELLED}"
| "legal_transition QUEUED t \<longleftrightarrow> t \<in> {QUEUED, SCHEDULED, PROCESSING, CANCELLED}"
| "legal_transition PROCESSING t \<longleftrightarrow>
     t \<in> {PROCESSING, SCHEDULED, ACCEPTED, FAILED, UNKNOWN, DRY_RUN_COMPLETED, CANCELLED}"
| "legal_transition ACCEPTED t \<longleftrightarrow> t \<in> {ACCEPTED, SENT, DELIVERED, READ, FAILED}"
| "legal_transition SENT t \<longleftrightarrow> t \<in> {SENT, DELIVERED, READ, FAILED}"
| "legal_transition DELIVERED t \<longleftrightarrow> t \<in> {DELIVERED, READ}"
| "legal_transition UNKNOWN t \<longleftrightarrow> t \<in> {UNKNOWN, ACCEPTED, SENT, DELIVERED, READ, FAILED}"
| "legal_transition s t \<longleftrightarrow> t = s"

definition illegal_update :: "(message_job \<Rightarrow> bool) \<Rightarrow> (message_job \<Rightarrow> message_job) \<Rightarrow> message_job \<Rightarrow> bool" where
  "illegal_update P f j \<longleftrightarrow> P j \<and> \<not> legal_transition (mj_status j) (mj_status (f j))"

text \<open>\<open>UPDATE message_jobs\<close>: the rows that were updated, or the trigger's exception.\<close>

definition update_jobs :: "(message_job \<Rightarrow> bool) \<Rightarrow> (message_job \<Rightarrow> message_job) \<Rightarrow> message_job list tx" where
  "update_jobs P f db =
     (case List.find (illegal_update P f) (db_jobs db) of
        Some j \<Rightarrow> Inl (Illegal_Transition (mj_status j) (mj_status (f j)))
      | None \<Rightarrow> Inr (map f (filter P (db_jobs db)), db\<lparr>db_jobs := update_where P f (db_jobs db)\<rparr>))"

definition find_job :: "runtime_db \<Rightarrow> string \<Rightarrow> message_job option" where
  "find_job db i = List.find (\<lambda>j. mj_id j = i) (db_jobs db)"

definition find_attempt :: "runtime_db \<Rightarrow> string \<Rightarrow> message_attempt option" where
  "find_attempt db a = List.find (\<lambda>m. ma_attemptId m = a) (db_attempts db)"

text \<open>No delivery of the job belongs to a run that is not RUNNING.\<close>

definition run_allows :: "runtime_db \<Rightarrow> string \<Rightarrow> bool" where
  "run_allows db i \<longleftrightarrow> (\<forall>(j, st) \<in> set (db_runs db). j = i \<longrightarrow> st = RS_RUNNING)"

lemma update_jobs_ok:
  "update_jobs P f db = Inr (rows, db') \<longleftrightarrow>
     (\<forall>j \<in> set (db_jobs db). P j \<longrightarrow> legal_transition (mj_status j) (mj_status (f j)))
     \<and> rows = map f (filter P (db_jobs db)) \<and> db' = db\<lparr>db_jobs := update_where P f (db_jobs db)\<rparr>"
proof (cases "List.find (illegal_update P f) (db_jobs db)")
  case None
  then have "\<forall>j \<in> set (db_jobs db). P j \<longrightarrow> legal_transition (mj_status j) (mj_status (f j))"
    by (auto simp: find_None_iff illegal_update_def)
  moreover have "update_jobs P f db = Inr (map f (filter P (db_jobs db)), db\<lparr>db_jobs := update_where P f (db_jobs db)\<rparr>)"
    using None by (simp add: update_jobs_def)
  ultimately show ?thesis by auto
next
  case (Some j)
  then have "j \<in> set (db_jobs db)" "illegal_update P f j" by (auto simp: find_Some_iff)
  then show ?thesis using Some by (auto simp: update_jobs_def illegal_update_def)
qed

end
