(* ===== verification/Safety_Policy.thy ===== *)
theory Safety_Policy
  imports Runtime_Tables
begin

text \<open>
  \<open>openwa-safety-policy.ts\<close>, the outcome and permit types of \<open>openwa-safety.types.ts\<close>, and the rate-limit
  hints OpenWA sends (\<open>openwa-rate-limit-hints.ts\<close>). Header lookup, \<open>Number\<close> and \<open>Date.parse\<close> are arguments.
\<close>

definition safety_policy_version :: int where
  "safety_policy_version = 5"

definition minute_ms :: int where "minute_ms = 60000"
definition hour_ms :: int where "hour_ms = 60 * minute_ms"
definition day_ms :: int where "day_ms = 24 * hour_ms"

record message_policy =
  mp_textPacing :: int
  mp_imagePacing :: int
  mp_minuteLimit :: int
  mp_hourLimit :: int
  mp_dayLimit :: int
  mp_recipientLimit :: nat
  mp_recipientWindow :: int
  mp_imageCost :: int

fun message_safety_policy :: "safety_profile \<Rightarrow> message_policy" where
  "message_safety_policy CANARY = \<lparr>mp_textPacing = 15000, mp_imagePacing = 20000, mp_minuteLimit = 3,
     mp_hourLimit = 20, mp_dayLimit = 50, mp_recipientLimit = 1, mp_recipientWindow = 6 * hour_ms, mp_imageCost = 2\<rparr>"
| "message_safety_policy STANDARD = \<lparr>mp_textPacing = 10000, mp_imagePacing = 15000, mp_minuteLimit = 5,
     mp_hourLimit = 40, mp_dayLimit = 100, mp_recipientLimit = 2, mp_recipientWindow = 6 * hour_ms, mp_imageCost = 2\<rparr>"

definition pacing_ms :: "message_policy \<Rightarrow> message_type \<Rightarrow> int" where
  "pacing_ms p t = (case t of Text_Message \<Rightarrow> mp_textPacing p | Image_Message \<Rightarrow> mp_imagePacing p)"

definition message_cost :: "message_policy \<Rightarrow> message_type \<Rightarrow> int" where
  "message_cost p t = (case t of Image_Message \<Rightarrow> mp_imageCost p | Text_Message \<Rightarrow> 1)"

record bucket_policy =
  bp_scopeType :: scope_type
  bp_class :: bucket_class
  bp_window :: bucket_window
  bp_limit :: int
  bp_period :: int
  bp_burst :: int
  bp_cost :: int

definition mk_bucket_policy :: "scope_type \<Rightarrow> bucket_class \<Rightarrow> bucket_window \<Rightarrow> int \<Rightarrow> int \<Rightarrow> int \<Rightarrow> int \<Rightarrow> bucket_policy" where
  "mk_bucket_policy st c w limit period burst cost =
     \<lparr>bp_scopeType = st, bp_class = c, bp_window = w, bp_limit = limit, bp_period = period, bp_burst = burst, bp_cost = cost\<rparr>"

definition message_bucket_policies :: "safety_profile \<Rightarrow> message_type \<Rightarrow> bucket_policy list" where
  "message_bucket_policies profile t =
     (let p = message_safety_policy profile; cost = message_cost p t in
      [mk_bucket_policy UPSTREAM UPSTREAM_ALL MINUTE 80 minute_ms 8 1,
       mk_bucket_policy UPSTREAM UPSTREAM_ALL HOUR 800 hour_ms 20 1,
       mk_bucket_policy SESSION MESSAGE_SEND_ALL PACING 1 (mp_textPacing p) 1 1,
       mk_bucket_policy SESSION (Message_Class t) PACING 1 (pacing_ms p t) 1 1,
       mk_bucket_policy SESSION MESSAGE_SEND_ALL MINUTE (mp_minuteLimit p) minute_ms 1 cost,
       mk_bucket_policy SESSION MESSAGE_SEND_ALL HOUR (mp_hourLimit p) hour_ms 3 cost,
       mk_bucket_policy SESSION MESSAGE_SEND_ALL DAY (mp_dayLimit p) day_ms 10 cost])"

text \<open>Limit, period and burst of the operations that are not messages.\<close>

fun operation_limits :: "operation_class \<Rightarrow> int \<times> int \<times> int" where
  "operation_limits RECOVERY_PROBE = (2, minute_ms, 1)"
| "operation_limits GROUP_READ_TARGETED = (30, minute_ms, 5)"
| "operation_limits SESSION_READ = (10, minute_ms, 2)"
| "operation_limits GROUP_READ_BULK = (2, minute_ms, 1)"
| "operation_limits WEBHOOK_CONTROL = (2, minute_ms, 1)"
| "operation_limits CONTACT_READ = (2, minute_ms, 1)"
| "operation_limits PAGINATED_READ_PAGE = (80, minute_ms, 8)"

definition operation_bucket_policies :: "operation_class \<Rightarrow> bool \<Rightarrow> int \<Rightarrow> bucket_policy list" where
  "operation_bucket_policies c has_session cost =
     (case operation_limits c of (limit, period, burst) \<Rightarrow>
          [mk_bucket_policy UPSTREAM UPSTREAM_ALL MINUTE 80 minute_ms 8 cost,
           mk_bucket_policy UPSTREAM UPSTREAM_ALL HOUR 800 hour_ms 20 cost,
           mk_bucket_policy (if has_session then SESSION else UPSTREAM) (Class_Of c) MINUTE limit period burst 1])"

definition emission_interval_ms :: "bucket_policy \<Rightarrow> int" where
  "emission_interval_ms p = max 1 (ceil_div (bp_period p) (bp_limit p))"

section \<open>Permits and decisions\<close>

record message_permit =
  mpt_leaseToken :: string
  mpt_upstreamId :: string
  mpt_sessionId :: string
  mpt_jobId :: string
  mpt_recipientId :: string
  mpt_type :: message_type
  mpt_profile :: safety_profile
  mpt_policyVersion :: int
  mpt_reservedAt :: millis
  mpt_expiresAt :: millis

record operation_permit =
  opt_token :: string
  opt_upstreamId :: string
  opt_sessionId :: string
  opt_class :: operation_class
  opt_profile :: safety_profile
  opt_policyVersion :: int
  opt_reservedAt :: millis

datatype 'p decision = Granted 'p | Deferred millis string | Refused string

datatype operation_outcome =
    Succeeded | Safe_Rejection | Rate_Limited "millis option" | Transient_Failure | Ambiguous | Session_Restricted

fun kind_of_outcome :: "operation_outcome \<Rightarrow> outcome_kind" where
  "kind_of_outcome Succeeded = OK_SUCCESS"
| "kind_of_outcome Safe_Rejection = OK_SAFE_REJECTION"
| "kind_of_outcome (Rate_Limited _) = OK_RATE_LIMITED"
| "kind_of_outcome Transient_Failure = OK_TRANSIENT_FAILURE"
| "kind_of_outcome Ambiguous = OK_AMBIGUOUS"
| "kind_of_outcome Session_Restricted = OK_SESSION_RESTRICTED"

section \<open>Rate-limit hints\<close>

datatype hint_tier = Short | Medium | Long

fun tier_text :: "hint_tier \<Rightarrow> string" where
  "tier_text Short = ''short''"
| "tier_text Medium = ''medium''"
| "tier_text Long = ''long''"

record rate_hints =
  rh_retryAfter :: "int option"
  rh_limits :: "(hint_tier \<times> rat) list"
  rh_remaining :: "(hint_tier \<times> rat) list"
  rh_reset :: "(hint_tier \<times> int) list"

definition maximum_retry_after_ms :: int where
  "maximum_retry_after_ms = 24 * 60 * 60 * 1000"

definition clamp_retry :: "int \<Rightarrow> int" where
  "clamp_retry n = min maximum_retry_after_ms (max 250 n)"

definition seconds_header_ms :: "(string \<Rightarrow> string option) \<Rightarrow> (string \<Rightarrow> rat option) \<Rightarrow> string \<Rightarrow> int option" where
  "seconds_header_ms get number name =
     (case get name of None \<Rightarrow> None
      | Some raw \<Rightarrow> (case number raw of None \<Rightarrow> None
          | Some seconds \<Rightarrow> if seconds < 0 then None else Some (clamp_retry \<lceil>seconds * 1000\<rceil>)))"

definition standard_retry_after_ms ::
  "(string \<Rightarrow> string option) \<Rightarrow> (string \<Rightarrow> rat option) \<Rightarrow> (string \<Rightarrow> millis option) \<Rightarrow> millis \<Rightarrow> int option" where
  "standard_retry_after_ms get number date now =
     (case get ''retry-after'' of None \<Rightarrow> None
      | Some raw \<Rightarrow>
          if (case number raw of None \<Rightarrow> False | Some seconds \<Rightarrow> 0 \<le> seconds)
          then Some (clamp_retry \<lceil>the (number raw) * 1000\<rceil>)
          else (case date raw of None \<Rightarrow> None | Some t \<Rightarrow> Some (clamp_retry (t - now))))"

definition numeric_header :: "(string \<Rightarrow> string option) \<Rightarrow> (string \<Rightarrow> rat option) \<Rightarrow> string \<Rightarrow> rat option" where
  "numeric_header get number name =
     (case get name of None \<Rightarrow> None
      | Some raw \<Rightarrow> (case number raw of None \<Rightarrow> None | Some v \<Rightarrow> if 0 \<le> v then Some v else None))"

definition present :: "(hint_tier \<Rightarrow> 'a option) \<Rightarrow> (hint_tier \<times> 'a) list" where
  "present f = concat (map (\<lambda>t. case f t of None \<Rightarrow> [] | Some v \<Rightarrow> [(t, v)]) [Short, Medium, Long])"

definition somes :: "'a option list \<Rightarrow> 'a list" where
  "somes xs = map the (filter (\<lambda>x. x \<noteq> None) xs)"

definition parse_rate_hints ::
  "(string \<Rightarrow> string option) \<Rightarrow> (string \<Rightarrow> rat option) \<Rightarrow> (string \<Rightarrow> millis option) \<Rightarrow> millis \<Rightarrow> rate_hints" where
  "parse_rate_hints get number date now =
     (let limit = (\<lambda>t. numeric_header get number (''x-ratelimit-limit-'' @ tier_text t));
          left = (\<lambda>t. numeric_header get number (''x-ratelimit-remaining-'' @ tier_text t));
          reset = (\<lambda>t. seconds_header_ms get number (''x-ratelimit-reset-'' @ tier_text t));
          retry = (\<lambda>t. seconds_header_ms get number (''retry-after-'' @ tier_text t));
          valid = somes (standard_retry_after_ms get number date now
            # concat (map (\<lambda>t. [retry t, if left t = Some 0 then reset t else None]) [Short, Medium, Long]))
      in \<lparr>rh_retryAfter = (if valid = [] then None else Some (Max (set valid))),
          rh_limits = present limit, rh_remaining = present left, rh_reset = present reset\<rparr>)"

section \<open>Facts\<close>

lemma clamp_retry_bounds: "250 \<le> clamp_retry n \<and> clamp_retry n \<le> maximum_retry_after_ms"
  by (simp add: clamp_retry_def maximum_retry_after_ms_def)

lemma seconds_header_bounds: "seconds_header_ms get number name = Some n \<Longrightarrow> 250 \<le> n \<and> n \<le> maximum_retry_after_ms"
  by (auto simp: seconds_header_ms_def clamp_retry_bounds split: option.splits if_splits)

lemma standard_retry_bounds: "standard_retry_after_ms get number date now = Some n \<Longrightarrow> 250 \<le> n \<and> n \<le> maximum_retry_after_ms"
  by (auto simp: standard_retry_after_ms_def clamp_retry_bounds split: option.splits if_splits)

lemma set_somes: "set (somes xs) = {x. Some x \<in> set xs}"
  by (induction xs) (auto simp: somes_def)

text \<open>A policy a bucket can be created from.\<close>

definition policy_ok :: "bucket_policy \<Rightarrow> bool" where
  "policy_ok p \<longleftrightarrow> 0 < bp_limit p \<and> 0 < bp_period p \<and> 0 < bp_burst p \<and> 0 < bp_cost p
     \<and> bp_scopeType p \<noteq> WORKSPACE"

lemma emission_interval_pos: "0 < emission_interval_ms p"
  by (simp add: emission_interval_ms_def)

lemma ceil_div_le: "0 < a \<Longrightarrow> 0 < b \<Longrightarrow> ceil_div a b \<le> a" for a b :: int
proof -
  assume a: "0 < a" and b: "0 < b"
  have "(- a) div b \<ge> (- a)" using a b
    by (metis div_by_1 div_minus_minus less_imp_le minus_minus pos_imp_zdiv_neg_iff zdiv_mono2_neg
        int_one_le_iff_zero_less neg_less_0_iff_less zero_less_one)
  then show ?thesis by (simp add: ceil_div_def)
qed

lemma emission_interval_le_period: "policy_ok p \<Longrightarrow> emission_interval_ms p \<le> bp_period p"
  using ceil_div_le [of "bp_period p" "bp_limit p"] by (auto simp: emission_interval_ms_def policy_ok_def)

text \<open>The rate of a bucket never exceeds its limit: \<open>limit\<close> emissions span at least a period.\<close>

lemma emission_interval_covers: "policy_ok p \<Longrightarrow> bp_period p \<le> bp_limit p * emission_interval_ms p"
proof -
  assume p: "policy_ok p"
  have "bp_period p \<le> ceil_div (bp_period p) (bp_limit p) * bp_limit p"
    using p by (intro ceil_div_upper) (simp add: policy_ok_def)
  also have "\<dots> \<le> emission_interval_ms p * bp_limit p"
    using p by (intro mult_right_mono) (simp_all add: emission_interval_ms_def policy_ok_def)
  finally show ?thesis by (simp add: mult.commute)
qed

lemma message_policies_ok:
  "p \<in> set (message_bucket_policies profile t) \<Longrightarrow> policy_ok p \<and> bp_period p \<le> day_ms"
  by (cases profile; cases t)
    (auto simp: message_bucket_policies_def Let_def mk_bucket_policy_def policy_ok_def message_cost_def pacing_ms_def
      minute_ms_def hour_ms_def day_ms_def)

lemma operation_policies_ok:
  "p \<in> set (operation_bucket_policies c has_session cost) \<Longrightarrow> 0 < cost \<Longrightarrow> policy_ok p \<and> bp_period p \<le> day_ms"
  by (cases c; cases has_session)
    (auto simp: operation_bucket_policies_def mk_bucket_policy_def policy_ok_def minute_ms_def hour_ms_def day_ms_def)

end
