(* ===== verification/Safety_Scopes.thy ===== *)
theory Safety_Scopes
  imports Safety_Policy
begin

text \<open>
  Scopes and circuits of \<open>openwa-safety.repository.ts\<close>: the three-level hierarchy of workspace, upstream and
  session, the decisions it makes about admission and the snapshots shown to operators. \<open>js\<close> is \<open>Date.now()\<close> of
  the process, \<open>now\<close> is \<open>now()\<close> of the database transaction; the two clocks are independent.
\<close>

definition workspace_key :: scope_key where
  "workspace_key = (WORKSPACE, [], [])"

definition upstream_key :: "string \<Rightarrow> scope_key" where
  "upstream_key u = (UPSTREAM, u, [])"

definition session_key :: "string \<Rightarrow> string \<Rightarrow> scope_key" where
  "session_key u s = (SESSION, u, s)"

text \<open>The keys of an operation, in the order of the scope type.\<close>

definition scope_keys :: "string \<Rightarrow> string \<Rightarrow> scope_key list" where
  "scope_keys u s = [workspace_key, upstream_key u, session_key u s]"

definition fresh_scope :: "millis \<Rightarrow> scope_row" where
  "fresh_scope now = \<lparr>sc_circuit = CLOSED, sc_rateMode = NORMAL, sc_reason = None, sc_cooldownUntil = None,
     sc_rateLimits = 0, sc_transientFailures = 0, sc_ambiguousOutcomes = 0, sc_successStreak = 0,
     sc_lastSuccessAt = None, sc_lastFailureAt = None, sc_lastPressureAt = None, sc_blockedAt = None,
     sc_blockReason = None, sc_pausedAt = None, sc_pauseReason = None, sc_profile = CANARY,
     sc_policyVersion = 5, sc_revision = 1, sc_updatedAt = now\<rparr>"

definition ensure_scopes :: "millis \<Rightarrow> string \<Rightarrow> string \<Rightarrow> unit tx" where
  "ensure_scopes now u s = tx_modify (\<lambda>db. db\<lparr>db_scopes :=
     (let two = insert_new (upstream_key u) (fresh_scope now) (insert_new workspace_key (fresh_scope now) (db_scopes db))
      in if s = [] then two else insert_new (session_key u s) (fresh_scope now) two)\<rparr>)"

type_synonym scopes = "(scope_key \<times> scope_row) list"

definition lock_scopes :: "string \<Rightarrow> string \<Rightarrow> scopes tx" where
  "lock_scopes u s db = Inr
     (concat (map (\<lambda>k. case map_of (db_scopes db) k of None \<Rightarrow> [] | Some r \<Rightarrow> [(k, r)]) (scope_keys u s)), db)"

definition find_scope :: "scope_type \<Rightarrow> scopes \<Rightarrow> scope_row option" where
  "find_scope st scopes = map_option snd (List.find (\<lambda>(k, r). fst k = st) scopes)"

section \<open>Circuits\<close>

text \<open>A circuit whose cooldown has passed for both clocks becomes half open.\<close>

definition half_open :: "millis \<Rightarrow> scope_row \<Rightarrow> scope_row" where
  "half_open now r = r\<lparr>sc_circuit := HALF_OPEN, sc_reason := Some ''RECOVERY_PROBE'', sc_cooldownUntil := None,
     sc_revision := Suc (sc_revision r), sc_updatedAt := now\<rparr>"

definition cooled_down :: "millis \<Rightarrow> scope_row \<Rightarrow> bool" where
  "cooled_down t r \<longleftrightarrow> sc_circuit r = OPEN \<and> (case sc_cooldownUntil r of None \<Rightarrow> False | Some c \<Rightarrow> c \<le> t)"

definition transition_expired :: "millis \<Rightarrow> millis \<Rightarrow> scopes \<Rightarrow> scopes tx" where
  "transition_expired js now scopes db =
     (let expired = map fst (filter (\<lambda>(k, r). cooled_down js r) scopes);
          hit = (\<lambda>k r. k \<in> set expired \<and> cooled_down now r)
      in Inr (update_keyed hit (half_open now) scopes,
              db\<lparr>db_scopes := update_keyed hit (half_open now) (db_scopes db)\<rparr>))"

definition first_some :: "'a option list \<Rightarrow> 'a \<Rightarrow> 'a" where
  "first_some xs d = (case List.find (\<lambda>x. x \<noteq> None) xs of Some (Some v) \<Rightarrow> v | _ \<Rightarrow> d)"

definition manually_blocked :: "scope_row \<Rightarrow> bool" where
  "manually_blocked r \<longleftrightarrow> sc_blockedAt r \<noteq> None \<or> sc_circuit r = MANUAL_BLOCKED"

text \<open>The loop of \<open>circuitDecision\<close>; the accumulator is the latest cooldown.\<close>

fun circuit_loop :: "millis \<Rightarrow> (millis \<times> string) option \<Rightarrow> scopes \<Rightarrow> 'p decision option" where
  "circuit_loop js cooldown [] = (case cooldown of None \<Rightarrow> None | Some (t, reason) \<Rightarrow> Some (Deferred t reason))"
| "circuit_loop js cooldown ((k, r) # rs) =
     (if manually_blocked r
      then Some (Refused (first_some [sc_blockReason r, sc_reason r] ''OPERATOR_BLOCKED''))
      else if sc_circuit r = OPEN \<and> sc_cooldownUntil r = None
      then Some (Refused (first_some [sc_reason r] ''CIRCUIT_OPEN''))
      else circuit_loop js
        (case sc_cooldownUntil r of
           None \<Rightarrow> cooldown
         | Some c \<Rightarrow>
             if js < c \<and> (case cooldown of None \<Rightarrow> True | Some (t, _) \<Rightarrow> t < c)
             then Some (c, first_some [sc_reason r] (if sc_circuit r = OPEN then ''CIRCUIT_OPEN'' else ''COOLDOWN''))
             else cooldown) rs)"

definition circuit_decision :: "millis \<Rightarrow> scopes \<Rightarrow> 'p decision option" where
  "circuit_decision js scopes = circuit_loop js None scopes"

definition outbound_decision :: "scopes \<Rightarrow> 'p decision option" where
  "outbound_decision scopes =
     (case find_scope SESSION scopes of None \<Rightarrow> None
      | Some r \<Rightarrow> if sc_pausedAt r = None then None
          else Some (Refused (first_some [sc_pauseReason r] ''OPERATOR_PAUSED_SENDS'')))"

section \<open>Snapshots\<close>

datatype safety_status = St_READY | St_THROTTLED | St_COOLDOWN | St_RECOVERY | St_BLOCKED

record safety_snapshot =
  ss_scopeType :: scope_type
  ss_effectiveScopeType :: scope_type
  ss_circuit :: circuit_state
  ss_rateMode :: rate_mode
  ss_status :: safety_status
  ss_reason :: "string option"
  ss_cooldownUntil :: "millis option"
  ss_profile :: safety_profile
  ss_paused :: bool
  ss_pausedAt :: "millis option"
  ss_pauseReason :: "string option"
  ss_policyVersion :: int
  ss_revision :: nat
  ss_lastSuccessAt :: "millis option"
  ss_lastFailureAt :: "millis option"
  ss_updatedAt :: millis

definition scope_status :: "millis \<Rightarrow> scope_row \<Rightarrow> safety_status" where
  "scope_status js r =
     (if manually_blocked r then St_BLOCKED
      else if sc_circuit r = HALF_OPEN then St_RECOVERY
      else if sc_circuit r = OPEN \<or> (case sc_cooldownUntil r of None \<Rightarrow> False | Some c \<Rightarrow> js < c) then St_COOLDOWN
      else if sc_rateMode r = THROTTLED_MODE then St_THROTTLED else St_READY)"

fun status_priority :: "safety_status \<Rightarrow> nat" where
  "status_priority St_READY = 0"
| "status_priority St_THROTTLED = 1"
| "status_priority St_RECOVERY = 2"
| "status_priority St_COOLDOWN = 3"
| "status_priority St_BLOCKED = 4"

definition shown_reason :: "scope_row \<Rightarrow> string option" where
  "shown_reason r = (if sc_blockedAt r \<noteq> None \<and> sc_blockReason r \<noteq> None then sc_blockReason r else sc_reason r)"

definition map_scope :: "millis \<Rightarrow> scope_key \<Rightarrow> scope_row \<Rightarrow> safety_snapshot" where
  "map_scope js k r = \<lparr>ss_scopeType = fst k, ss_effectiveScopeType = fst k,
     ss_circuit = (if sc_blockedAt r \<noteq> None then MANUAL_BLOCKED else sc_circuit r), ss_rateMode = sc_rateMode r,
     ss_status = scope_status js r, ss_reason = shown_reason r, ss_cooldownUntil = sc_cooldownUntil r,
     ss_profile = sc_profile r, ss_paused = (sc_pausedAt r \<noteq> None), ss_pausedAt = sc_pausedAt r,
     ss_pauseReason = sc_pauseReason r, ss_policyVersion = sc_policyVersion r, ss_revision = sc_revision r,
     ss_lastSuccessAt = sc_lastSuccessAt r, ss_lastFailureAt = sc_lastFailureAt r, ss_updatedAt = sc_updatedAt r\<rparr>"

text \<open>\<open>scopes.reduce\<close>: the first scope of the highest priority, the session's own among equals.\<close>

definition worse_scope :: "millis \<Rightarrow> scope_key \<times> scope_row \<Rightarrow> scope_key \<times> scope_row \<Rightarrow> scope_key \<times> scope_row" where
  "worse_scope js cur cand =
     (if status_priority (scope_status js (snd cur)) < status_priority (scope_status js (snd cand)) then cand else cur)"

definition map_effective_session :: "millis \<Rightarrow> scopes \<Rightarrow> (db_error + safety_snapshot)" where
  "map_effective_session js scopes =
     (case List.find (\<lambda>(k, r). fst k = SESSION) scopes of
        None \<Rightarrow> Inl Session_Scope_Missing
      | Some (k, r) \<Rightarrow>
          (let (ek, er) = foldl (worse_scope js) (k, r) scopes
           in Inr ((map_scope js k r)\<lparr>ss_effectiveScopeType := fst ek, ss_status := scope_status js er,
                ss_reason := shown_reason er, ss_cooldownUntil := sc_cooldownUntil er\<rparr>)))"

definition effective_session :: "millis \<Rightarrow> scopes \<Rightarrow> safety_snapshot tx" where
  "effective_session js scopes db =
     (case map_effective_session js scopes of Inl e \<Rightarrow> Inl e | Inr snap \<Rightarrow> Inr (snap, db))"

definition session_snapshot :: "millis \<Rightarrow> millis \<Rightarrow> string \<Rightarrow> string \<Rightarrow> safety_snapshot tx" where
  "session_snapshot js now u s =
     tx_bind (ensure_scopes now u s) (\<lambda>_.
     tx_bind (lock_scopes u s) (\<lambda>scopes.
     tx_bind (transition_expired js now scopes) (effective_session js)))"

section \<open>Facts\<close>

text \<open>\<open>scopes_agree\<close>: the locked list is the three rows of the database.\<close>

definition scopes_agree :: "string \<Rightarrow> string \<Rightarrow> scopes \<Rightarrow> runtime_db \<Rightarrow> bool" where
  "scopes_agree u s scopes db \<longleftrightarrow>
     scopes = concat (map (\<lambda>k. case map_of (db_scopes db) k of None \<Rightarrow> [] | Some r \<Rightarrow> [(k, r)]) (scope_keys u s))"

lemma lock_scopes_agree: "lock_scopes u s db = Inr (scopes, db') \<Longrightarrow> db' = db \<and> scopes_agree u s scopes db"
  by (auto simp: lock_scopes_def scopes_agree_def)

lemma scopes_agree_mem:
  "scopes_agree u s scopes db \<Longrightarrow> (k, r) \<in> set scopes \<longleftrightarrow> k \<in> set (scope_keys u s) \<and> map_of (db_scopes db) k = Some r"
  unfolding scopes_agree_def by (auto split: option.splits)

lemma update_keyed_concat:
  "update_keyed P f (concat (map (\<lambda>k. case m k of None \<Rightarrow> [] | Some r \<Rightarrow> [(k, r)]) ks)) =
     concat (map (\<lambda>k. case map_option (\<lambda>r. if P k r then f r else r) (m k) of None \<Rightarrow> [] | Some r \<Rightarrow> [(k, r)]) ks)"
  by (induction ks) (auto simp: update_keyed_def split: option.split)

lemma transition_expired_agree:
  assumes "scopes_agree u s scopes db" "transition_expired js now scopes db = Inr (scopes', db')"
  shows "scopes_agree u s scopes' db'"
proof -
  let ?hit = "\<lambda>k r. k \<in> set (map fst (filter (\<lambda>(k, r). cooled_down js r) scopes)) \<and> cooled_down now r"
  have r: "scopes' = update_keyed ?hit (half_open now) scopes"
    "db_scopes db' = update_keyed ?hit (half_open now) (db_scopes db)"
    using assms(2) by (auto simp: transition_expired_def Let_def)
  show ?thesis unfolding scopes_agree_def r map_of_update_keyed update_keyed_concat [symmetric]
    using assms(1) by (simp only: scopes_agree_def)
qed

lemma circuit_loop_None:
  "circuit_loop js cooldown scopes = None \<Longrightarrow> cooldown = None \<and>
     (\<forall>(k, r) \<in> set scopes. \<not> manually_blocked r \<and> \<not> (sc_circuit r = OPEN \<and> sc_cooldownUntil r = None)
        \<and> (\<forall>c. sc_cooldownUntil r = Some c \<longrightarrow> c \<le> js))"
proof (induction js cooldown scopes rule: circuit_loop.induct)
  case (2 js cooldown k r rs)
  let ?next = "case sc_cooldownUntil r of None \<Rightarrow> cooldown
     | Some c \<Rightarrow> if js < c \<and> (case cooldown of None \<Rightarrow> True | Some (t, _) \<Rightarrow> t < c)
         then Some (c, first_some [sc_reason r] (if sc_circuit r = OPEN then ''CIRCUIT_OPEN'' else ''COOLDOWN''))
         else cooldown"
  have a: "\<not> manually_blocked r" "\<not> (sc_circuit r = OPEN \<and> sc_cooldownUntil r = None)"
    using 2(2) by (auto split: if_splits)
  have "circuit_loop js ?next rs = (None :: 'a decision option)"
    using 2(2) by (simp only: circuit_loop.simps a if_False)
  with 2(1) [OF a] have IH: "?next = None"
    "\<forall>(k, r) \<in> set rs. \<not> manually_blocked r \<and> \<not> (sc_circuit r = OPEN \<and> sc_cooldownUntil r = None)
        \<and> (\<forall>c. sc_cooldownUntil r = Some c \<longrightarrow> c \<le> js)" by auto
  have "cooldown = None \<and> (\<forall>c. sc_cooldownUntil r = Some c \<longrightarrow> c \<le> js)"
    using IH(1) by (auto split: option.splits if_splits)
  then show ?case using IH(2) a by auto
qed (auto split: option.splits)

lemma circuit_decision_None:
  assumes "circuit_decision js scopes = (None :: 'p decision option)" "(k, r) \<in> set scopes"
  shows "\<not> manually_blocked r" "sc_circuit r = OPEN \<Longrightarrow> sc_cooldownUntil r \<noteq> None"
    "sc_cooldownUntil r = Some c \<Longrightarrow> c \<le> js"
  using circuit_loop_None [of js None scopes, where 'a = 'p] assms by (auto simp: circuit_decision_def)

lemma circuit_decision_not_granted: "circuit_decision js scopes \<noteq> Some (Granted p)"
proof -
  have "circuit_loop js c scopes \<noteq> Some (Granted p)" for c
    by (induction js c scopes rule: circuit_loop.induct) (auto split: option.splits)
  then show ?thesis by (simp add: circuit_decision_def)
qed

lemma outbound_decision_not_granted: "outbound_decision scopes \<noteq> Some (Granted p)"
  by (auto simp: outbound_decision_def split: option.splits)

lemma status_priority_inj: "status_priority a = status_priority b \<Longrightarrow> a = b"
  by (cases a; cases b) auto

lemma foldl_worse:
  fixes js :: millis
  shows "foldl (worse_scope js) c scopes \<in> insert c (set scopes) \<and>
    (\<forall>x \<in> insert c (set scopes). status_priority (scope_status js (snd x))
       \<le> status_priority (scope_status js (snd (foldl (worse_scope js) c scopes))))"
proof (induction scopes arbitrary: c)
  case (Cons x xs)
  show ?case using Cons [of "worse_scope js c x"] by (auto simp: worse_scope_def split: if_splits)
qed simp

end
