(* ===== verification/Safety_Buckets.thy ===== *)
theory Safety_Buckets
  imports Safety_Scopes
begin

text \<open>
  The durable rate budgets of \<open>openwa-safety.repository.ts\<close> (\<open>checkBuckets\<close>, \<open>consumeBucket\<close> and the adaptive
  updates of \<open>recordSuccess\<close> and \<open>recordRateLimit\<close>). A bucket holds its theoretical arrival time: an operation
  is admitted when that time is at most \<open>burst - 1\<close> emission intervals ahead of the process clock, and moves it on
  by its cost. \<open>rate_budget\<close> is the contract of such a budget and what it bounds.
\<close>

definition bucket_scope :: "string \<Rightarrow> string \<Rightarrow> bucket_policy \<Rightarrow> scope_key" where
  "bucket_scope u s p = (if bp_scopeType p = UPSTREAM then upstream_key u else (bp_scopeType p, u, s))"

definition bucket_key_of :: "string \<Rightarrow> string \<Rightarrow> bucket_policy \<Rightarrow> bucket_key" where
  "bucket_key_of u s p = (bucket_scope u s p, bp_class p, bp_window p)"

definition fresh_bucket :: "millis \<Rightarrow> bucket_policy \<Rightarrow> bucket_row" where
  "fresh_bucket now p = \<lparr>bk_arrivalAt = now, bk_base = emission_interval_ms p, bk_emission = emission_interval_ms p,
     bk_burst = bp_burst p, bk_limit = bp_limit p, bk_period = bp_period p, bk_policyVersion = safety_policy_version\<rparr>"

definition refresh_bucket :: "bucket_policy \<Rightarrow> bucket_row \<Rightarrow> bucket_row" where
  "refresh_bucket p r = r\<lparr>bk_base := emission_interval_ms p, bk_emission := max (bk_emission r) (emission_interval_ms p),
     bk_burst := bp_burst p, bk_limit := bp_limit p, bk_period := bp_period p,
     bk_policyVersion := safety_policy_version\<rparr>"

type_synonym buckets = "(bucket_key \<times> bucket_row) list"

definition upsert_bucket :: "millis \<Rightarrow> bucket_key \<Rightarrow> bucket_policy \<Rightarrow> buckets \<Rightarrow> buckets" where
  "upsert_bucket now k p rows =
     (case map_of rows k of
        None \<Rightarrow> rows @ [(k, fresh_bucket now p)]
      | Some _ \<Rightarrow> update_keyed (\<lambda>k' _. k' = k) (refresh_bucket p) rows)"

definition upserted :: "millis \<Rightarrow> bucket_key \<Rightarrow> bucket_policy \<Rightarrow> buckets \<Rightarrow> bucket_row" where
  "upserted now k p rows = (case map_of rows k of None \<Rightarrow> fresh_bucket now p | Some r \<Rightarrow> refresh_bucket p r)"

definition allowed_at :: "bucket_row \<Rightarrow> millis" where
  "allowed_at r = bk_arrivalAt r - (bk_burst r - 1) * bk_emission r"

text \<open>The loop of \<open>checkBuckets\<close>; the accumulator is the latest time a bucket asks to wait for.\<close>

fun check_loop ::
  "millis \<Rightarrow> millis \<Rightarrow> string \<Rightarrow> string \<Rightarrow> millis option \<Rightarrow> bucket_policy list \<Rightarrow> buckets \<Rightarrow> millis option \<times> buckets" where
  "check_loop js now u s latest [] rows = (latest, rows)"
| "check_loop js now u s latest (p # ps) rows =
     (let k = bucket_key_of u s p;
          a = allowed_at (upserted now k p rows)
      in check_loop js now u s
           (if js < a \<and> (case latest of None \<Rightarrow> True | Some t \<Rightarrow> t < a) then Some a else latest) ps
           (upsert_bucket now k p rows))"

definition check_buckets ::
  "millis \<Rightarrow> millis \<Rightarrow> string \<Rightarrow> string \<Rightarrow> bucket_policy list \<Rightarrow> 'p decision option tx" where
  "check_buckets js now u s ps db =
     (case check_loop js now u s None ps (db_buckets db) of
        (latest, rows) \<Rightarrow> Inr (map_option (\<lambda>t. Deferred t ''RATE_BUDGET'') latest, db\<lparr>db_buckets := rows\<rparr>))"

definition spend :: "millis \<Rightarrow> int \<Rightarrow> bucket_row \<Rightarrow> bucket_row" where
  "spend now cost r = r\<lparr>bk_arrivalAt := max (bk_arrivalAt r) now + cost * bk_emission r\<rparr>"

definition consume_bucket :: "millis \<Rightarrow> string \<Rightarrow> string \<Rightarrow> bucket_policy \<Rightarrow> unit tx" where
  "consume_bucket now u s p = tx_modify (\<lambda>db. db\<lparr>db_buckets :=
     update_keyed (\<lambda>k _. k = bucket_key_of u s p) (spend now (bp_cost p)) (db_buckets db)\<rparr>)"

text \<open>The adaptive part: success relaxes towards the base interval, a rate limit doubles up to the period.\<close>

definition relax_bucket :: "bucket_row \<Rightarrow> bucket_row" where
  "relax_bucket r = r\<lparr>bk_emission := max (bk_base r) (bk_emission r * 9 div 10)\<rparr>"

definition slow_bucket :: "bucket_row \<Rightarrow> bucket_row" where
  "slow_bucket r = r\<lparr>bk_emission := min (bk_period r) (bk_emission r * 2)\<rparr>"

section \<open>The invariant of a bucket\<close>

definition bucket_row_ok :: "bucket_row \<Rightarrow> bool" where
  "bucket_row_ok r \<longleftrightarrow> 0 < bk_base r \<and> bk_base r \<le> bk_emission r \<and> bk_base r \<le> bk_period r
     \<and> 0 < bk_burst r \<and> bk_period r \<le> day_ms \<and> bk_emission r \<le> day_ms"

lemma fresh_bucket_ok: "policy_ok p \<Longrightarrow> bp_period p \<le> day_ms \<Longrightarrow> bucket_row_ok (fresh_bucket now p)"
  using emission_interval_le_period [of p] emission_interval_pos [of p]
  by (simp add: bucket_row_ok_def fresh_bucket_def policy_ok_def)

lemma refresh_bucket_ok: "policy_ok p \<Longrightarrow> bp_period p \<le> day_ms \<Longrightarrow> bucket_row_ok r \<Longrightarrow> bucket_row_ok (refresh_bucket p r)"
  using emission_interval_le_period [of p] emission_interval_pos [of p]
  by (simp add: bucket_row_ok_def refresh_bucket_def policy_ok_def)

lemma spend_ok: "bucket_row_ok r \<Longrightarrow> bucket_row_ok (spend now cost r)"
  by (simp add: bucket_row_ok_def spend_def)

lemma relax_bucket_ok: "bucket_row_ok r \<Longrightarrow> bucket_row_ok (relax_bucket r)"
  by (auto simp: bucket_row_ok_def relax_bucket_def)

lemma slow_bucket_ok: "bucket_row_ok r \<Longrightarrow> bucket_row_ok (slow_bucket r)"
  by (auto simp: bucket_row_ok_def slow_bucket_def)

definition buckets_ok :: "runtime_db \<Rightarrow> bool" where
  "buckets_ok db \<longleftrightarrow> (\<forall>k r. map_of (db_buckets db) k = Some r \<longrightarrow> bucket_row_ok r)"

text \<open>The doubling cannot overflow the 32-bit column.\<close>

lemma bucket_int32: "bucket_row_ok r \<Longrightarrow> bk_emission r * 2 < 2 ^ 31"
  by (simp add: bucket_row_ok_def day_ms_def hour_ms_def minute_ms_def)

lemma map_of_upsert: "map_of (upsert_bucket now k p rows) k' = (if k' = k then Some (upserted now k p rows) else map_of rows k')"
  by (auto simp: upsert_bucket_def upserted_def map_of_update_keyed map_add_def split: option.split)

section \<open>Checking and consuming\<close>

lemma check_loop_latest: "check_loop js now u s (Some t) ps rows = (x, rows') \<Longrightarrow> x \<noteq> None"
proof (induction ps arbitrary: t rows)
  case (Cons p ps)
  then show ?case by (auto simp: Let_def split: if_splits simp del: not_None_eq)
qed auto

text \<open>When no bucket asks to wait, every policy's bucket is there, up to date, and admits the operation.\<close>

lemma check_loop_None:
  assumes "check_loop js now u s None ps rows = (None, rows')" "distinct (map (bucket_key_of u s) ps)"
  shows "(\<forall>p \<in> set ps. map_of rows' (bucket_key_of u s p) = Some (upserted now (bucket_key_of u s p) p rows)
      \<and> allowed_at (upserted now (bucket_key_of u s p) p rows) \<le> js)
    \<and> (\<forall>k. k \<notin> bucket_key_of u s ` set ps \<longrightarrow> map_of rows' k = map_of rows k)"
  using assms
proof (induction ps arbitrary: rows)
  case (Cons p ps)
  let ?k = "bucket_key_of u s p" and ?rows = "upsert_bucket now (bucket_key_of u s p) p rows"
  have fits: "allowed_at (upserted now ?k p rows) \<le> js"
    using Cons.prems(1) check_loop_latest [of js now u s _ ps ?rows None rows'] by (auto simp: Let_def split: if_splits)
  then have "check_loop js now u s None ps ?rows = (None, rows')" using Cons.prems(1) by (auto simp: Let_def)
  from Cons.IH [OF this] Cons.prems(2) have IH:
    "\<forall>q \<in> set ps. map_of rows' (bucket_key_of u s q) = Some (upserted now (bucket_key_of u s q) q ?rows)
      \<and> allowed_at (upserted now (bucket_key_of u s q) q ?rows) \<le> js"
    "\<forall>k. k \<notin> bucket_key_of u s ` set ps \<longrightarrow> map_of rows' k = map_of ?rows k" by simp_all
  have "upserted now (bucket_key_of u s q) q ?rows = upserted now (bucket_key_of u s q) q rows" if "q \<in> set ps" for q
  proof -
    have "bucket_key_of u s q \<noteq> ?k" using Cons.prems(2) that by (metis distinct.simps(2) imageI list.set_map list.simps(9))
    then show ?thesis by (simp add: upserted_def map_of_upsert)
  qed
  moreover have "map_of rows' ?k = Some (upserted now ?k p rows)"
    using IH(2) [rule_format, of ?k] Cons.prems(2) by (simp add: map_of_upsert)
  moreover have "map_of rows' k = map_of rows k" if "k \<notin> bucket_key_of u s ` set (p # ps)" for k
    using IH(2) [rule_format, of k] that by (simp add: map_of_upsert)
  ultimately show ?case using IH(1) fits by (metis set_ConsD)
qed simp

lemma check_loop_ok:
  "check_loop js now u s latest ps rows = (x, rows') \<Longrightarrow> (\<And>p. p \<in> set ps \<Longrightarrow> policy_ok p \<and> bp_period p \<le> day_ms) \<Longrightarrow>
   (\<And>k r. map_of rows k = Some r \<Longrightarrow> bucket_row_ok r) \<Longrightarrow> map_of rows' k = Some r \<Longrightarrow> bucket_row_ok r"
proof (induction ps arbitrary: latest rows)
  case (Cons p ps)
  show ?case
  proof (rule Cons.IH)
    show "bucket_row_ok r'" if "map_of (upsert_bucket now (bucket_key_of u s p) p rows) k' = Some r'" for k' r'
    proof (cases "k' = bucket_key_of u s p")
      case True
      have p: "policy_ok p" "bp_period p \<le> day_ms" using Cons.prems(2) [of p] by simp_all
      have r': "r' = upserted now k' p rows" using that True by (simp add: map_of_upsert)
      show ?thesis
      proof (cases "map_of rows k'")
        case None then show ?thesis using fresh_bucket_ok [OF p] r' by (simp add: upserted_def)
      next
        case (Some r) then show ?thesis using refresh_bucket_ok [OF p Cons.prems(3) [OF Some]] r' by (simp add: upserted_def)
      qed
    next
      case False then show ?thesis using that Cons.prems(3) by (simp add: map_of_upsert)
    qed
  qed (use Cons.prems in \<open>auto simp: Let_def\<close>)
qed auto

text \<open>Checking never lowers an arrival time, whatever it answers.\<close>

definition arrived :: "buckets \<Rightarrow> bucket_key \<Rightarrow> millis \<Rightarrow> bool" where
  "arrived rows k t \<longleftrightarrow> (\<exists>r. map_of rows k = Some r \<and> t \<le> bk_arrivalAt r)"

lemma arrived_upsert: "arrived rows k t \<Longrightarrow> arrived (upsert_bucket now k' p rows) k t"
  by (auto simp: arrived_def map_of_upsert upserted_def refresh_bucket_def)

lemma arrived_check: "check_loop js now u s latest ps rows = (x, rows') \<Longrightarrow> arrived rows k t \<Longrightarrow> arrived rows' k t"
  by (induction ps arbitrary: latest rows) (auto simp: Let_def arrived_upsert)

lemma arrived_update:
  assumes "\<And>k r. bucket_row_ok r \<Longrightarrow> P k r \<Longrightarrow> bk_arrivalAt r \<le> bk_arrivalAt (f r)"
    "\<And>k r. map_of rows k = Some r \<Longrightarrow> bucket_row_ok r" "arrived rows k t"
  shows "arrived (update_keyed P f rows) k t"
proof -
  obtain r where r: "map_of rows k = Some r" "t \<le> bk_arrivalAt r" using assms(3) by (auto simp: arrived_def)
  have "bk_arrivalAt r \<le> bk_arrivalAt (if P k r then f r else r)" using assms(1) [OF assms(2) [OF r(1)]] by simp
  then show ?thesis using r by (auto simp: arrived_def map_of_update_keyed intro: order_trans)
qed

lemma spend_arrival: "bucket_row_ok r \<Longrightarrow> 0 \<le> cost \<Longrightarrow> bk_arrivalAt r \<le> bk_arrivalAt (spend now cost r)"
proof -
  assume "bucket_row_ok r" "0 \<le> cost"
  then have "0 \<le> cost * bk_emission r" by (simp add: bucket_row_ok_def)
  then show ?thesis by (simp add: spend_def)
qed

section \<open>The contract of a rate budget\<close>

text \<open>\<open>committed t s\<close>: the budget is spent up to time \<open>t\<close>. Operations never return budget, a spending operation
  commits its cost in intervals of at least \<open>lo\<close>, and is admitted only within the tolerance.\<close>

locale rate_budget =
  fixes run :: "'l \<Rightarrow> 's \<Rightarrow> 's" and inv :: "'s \<Rightarrow> bool" and spends :: "'l \<Rightarrow> 's \<Rightarrow> bool"
    and cost :: "'l \<Rightarrow> int" and js_of :: "'l \<Rightarrow> int" and now_of :: "'l \<Rightarrow> int"
    and committed :: "int \<Rightarrow> 's \<Rightarrow> bool" and tolerance :: "'l \<Rightarrow> 's \<Rightarrow> int" and lo :: int
  assumes inv_run: "inv s \<Longrightarrow> inv (run l s)"
    and keeps_committed: "inv s \<Longrightarrow> committed t s \<Longrightarrow> committed t (run l s)"
    and spend_commits: "inv s \<Longrightarrow> committed t s \<Longrightarrow> spends l s \<Longrightarrow> committed (t + cost l * lo) (run l s)"
    and spend_starts: "inv s \<Longrightarrow> spends l s \<Longrightarrow> committed (now_of l + cost l * lo) (run l s)"
    and spend_admitted: "inv s \<Longrightarrow> committed t s \<Longrightarrow> spends l s \<Longrightarrow> t \<le> js_of l + tolerance l s"
begin

fun spent :: "'l list \<Rightarrow> 's \<Rightarrow> int" where
  "spent [] s = 0"
| "spent (l # ls) s = (if spends l s then cost l else 0) + spent ls (run l s)"

lemma spent_committed: "inv s \<Longrightarrow> committed t s \<Longrightarrow> inv (fold run ls s) \<and> committed (t + spent ls s * lo) (fold run ls s)"
proof (induction ls arbitrary: s t)
  case (Cons l ls)
  have inv': "inv (run l s)" by (rule inv_run [OF Cons.prems(1)])
  show ?case
  proof (cases "spends l s")
    case True
    have "committed (t + cost l * lo) (run l s)" by (rule spend_commits [OF Cons.prems True])
    from Cons.IH [OF inv' this] True show ?thesis by (simp add: algebra_simps)
  next
    case False
    have "committed t (run l s)" by (rule keeps_committed [OF Cons.prems])
    from Cons.IH [OF inv' this] False show ?thesis by simp
  qed
qed simp

text \<open>What is spent between two spending operations is bounded by the time between them.\<close>

theorem spent_bound:
  assumes "inv s" "spends l s" "spends l' (fold run ls (run l s))"
  shows "now_of l + (cost l + spent ls (run l s)) * lo \<le> js_of l' + tolerance l' (fold run ls (run l s))"
proof -
  from spent_committed [OF inv_run [OF assms(1)] spend_starts [OF assms(1,2)], of ls]
  have "inv (fold run ls (run l s))"
    "committed (now_of l + cost l * lo + spent ls (run l s) * lo) (fold run ls (run l s))" by simp_all
  from spend_admitted [OF this assms(3)] show ?thesis by (simp add: algebra_simps)
qed

end

end
