(* ===== verification/Safety_Governor.thy ===== *)
theory Safety_Governor
  imports Safety_Buckets
begin

text \<open>
  \<open>OpenWASafetyRepository\<close> (\<open>openwa-safety.repository.ts\<close>): reserving permits, the final send fence, recording
  outcomes, releasing and the operator's mutations; and the thin service over it. The token a permit gets is
  the argument \<open>tok\<close> (\<open>gen_random_uuid()\<close>).
\<close>

section \<open>Leases\<close>

text \<open>The latest expiry of an unexpired recovery lease of the operation's scopes.\<close>

definition recovery_until :: "millis \<Rightarrow> string \<Rightarrow> string \<Rightarrow> runtime_db \<Rightarrow> millis option" where
  "recovery_until now u s db =
     (let keys = filter (\<lambda>k. s \<noteq> [] \<or> fst k \<noteq> SESSION) (scope_keys u s);
          ts = filter (\<lambda>t. now < t)
                 (map sl_expiresAt (somes (map (\<lambda>k. map_of (db_leases db) (k, RECOVERY_LANE)) keys)))
      in if ts = [] then None else Some (Max (set ts)))"

definition new_lease :: "string \<Rightarrow> string \<Rightarrow> string \<Rightarrow> millis \<Rightarrow> millis \<Rightarrow> safety_lease" where
  "new_lease tok htype hid now ttl = \<lparr>sl_token = tok, sl_holderType = htype, sl_holderId = hid,
     sl_expiresAt = now + ttl, sl_acquiredAt = now\<rparr>"

text \<open>A plain INSERT fails on a row with the same primary key, also when that row's lease has expired.\<close>

definition insert_lease :: "scope_key \<times> lease_lane \<Rightarrow> safety_lease \<Rightarrow> unit tx" where
  "insert_lease k l db =
     (case map_of (db_leases db) k of
        Some _ \<Rightarrow> Inl Unique_Violation
      | None \<Rightarrow> Inr ((), db\<lparr>db_leases := db_leases db @ [(k, l)]\<rparr>))"

text \<open>\<open>INSERT ... ON CONFLICT DO UPDATE ... WHERE lease_expires_at <= now()\<close>: whether a row was written.\<close>

definition take_lease :: "millis \<Rightarrow> scope_key \<times> lease_lane \<Rightarrow> safety_lease \<Rightarrow> bool tx" where
  "take_lease now k l db =
     (case map_of (db_leases db) k of
        None \<Rightarrow> Inr (True, db\<lparr>db_leases := db_leases db @ [(k, l)]\<rparr>)
      | Some old \<Rightarrow>
          if sl_expiresAt old \<le> now
          then Inr (True, db\<lparr>db_leases := update_keyed (\<lambda>k' _. k' = k) (\<lambda>_. l) (db_leases db)\<rparr>)
          else Inr (False, db))"

definition recovering :: "scopes \<Rightarrow> scope_key list" where
  "recovering scopes = map fst (filter (\<lambda>(k, r). sc_circuit r = HALF_OPEN) scopes)"

definition permit_profile :: "scopes \<Rightarrow> safety_profile" where
  "permit_profile scopes = (case find_scope SESSION scopes of Some r \<Rightarrow> sc_profile r
     | None \<Rightarrow> (case find_scope WORKSPACE scopes of Some r \<Rightarrow> sc_profile r | None \<Rightarrow> CANARY))"

section \<open>Reserving an operation\<close>

definition decide :: "'p decision option \<Rightarrow> 'p decision tx \<Rightarrow> 'p decision tx" where
  "decide d k = (case d of Some x \<Rightarrow> tx_return x | None \<Rightarrow> k)"

definition reserve_operation ::
  "millis \<Rightarrow> millis \<Rightarrow> string \<Rightarrow> string \<Rightarrow> string \<Rightarrow> operation_class \<Rightarrow> string \<Rightarrow> string \<Rightarrow> millis \<Rightarrow> int
     \<Rightarrow> operation_permit decision tx" where
  "reserve_operation js now tok u s c htype hid ttl cost =
     (if cost < 1 \<or> 10 < cost then tx_throw Bad_Upstream_Cost
      else
      tx_bind (ensure_scopes now u s) (\<lambda>_.
      tx_bind (lock_scopes u s) (\<lambda>locked.
      tx_bind (transition_expired js now locked) (\<lambda>scopes.
      decide (circuit_decision js scopes) (\<lambda>db.
      case recovery_until now u s db of
        Some t \<Rightarrow> Inr (Deferred t ''RECOVERY_PROBE_IN_FLIGHT'', db)
      | None \<Rightarrow>
          (let ps = operation_bucket_policies c (s \<noteq> []) cost in
           tx_bind (check_buckets js now u s ps) (\<lambda>wait.
           decide wait (
           tx_bind (tx_iter (\<lambda>k. insert_lease (k, RECOVERY_LANE) (new_lease tok htype hid now ttl)) (recovering scopes)) (\<lambda>_.
           tx_bind (tx_iter (consume_bucket now u s) ps) (\<lambda>_.
           tx_return (Granted \<lparr>opt_token = tok, opt_upstreamId = u, opt_sessionId = s, opt_class = c,
             opt_profile = permit_profile scopes, opt_policyVersion = safety_policy_version, opt_reservedAt = js\<rparr>))))) db))))))"

section \<open>Reserving a message\<close>

definition sent_statuses :: "job_status list" where
  "sent_statuses = [PROCESSING, ACCEPTED, SENT, DELIVERED, READ, FAILED, UNKNOWN]"

text \<open>The starts of the sends to a recipient that are still inside the window.\<close>

definition recent_starts :: "millis \<Rightarrow> int \<Rightarrow> string \<Rightarrow> string \<Rightarrow> runtime_db \<Rightarrow> millis list" where
  "recent_starts now window s recipient db =
     filter (\<lambda>t. now - window \<le> t) (somes (map mj_upstreamStartedAt
       (filter (\<lambda>j. mj_sessionId j = s \<and> mj_recipientId j = recipient \<and> mj_status j \<in> set sent_statuses) (db_jobs db))))"

definition recipient_decision :: "millis \<Rightarrow> safety_profile \<Rightarrow> string \<Rightarrow> string \<Rightarrow> runtime_db \<Rightarrow> 'p decision option" where
  "recipient_decision now profile s recipient db =
     (let p = message_safety_policy profile; ts = recent_starts now (mp_recipientWindow p) s recipient db
      in if length ts < mp_recipientLimit p then None
         else Some (Deferred (Min (set ts) + mp_recipientWindow p) ''RECIPIENT_FREQUENCY_LIMIT''))"

definition session_lease :: "string \<Rightarrow> string \<Rightarrow> runtime_db \<Rightarrow> safety_lease option" where
  "session_lease u s db = map_of (db_leases db) (session_key u s, ACTIVE_SESSION)"

definition in_flight_decision :: "millis \<Rightarrow> string \<Rightarrow> string \<Rightarrow> runtime_db \<Rightarrow> 'p decision option" where
  "in_flight_decision now u s db =
     (case session_lease u s db of
        Some l \<Rightarrow> if now < sl_expiresAt l then Some (Deferred (sl_expiresAt l) ''SESSION_OPERATION_IN_FLIGHT'') else None
      | None \<Rightarrow> None)"

text \<open>The part of \<open>reserveMessage\<close> that writes: leases, budgets, and the token on the job.\<close>

definition attach_permit :: "millis \<Rightarrow> string \<Rightarrow> string \<Rightarrow> unit tx" where
  "attach_permit now tok job =
     tx_bind (update_jobs (\<lambda>j. mj_id j = job \<and> mj_status j = PROCESSING \<and> mj_cancelRequestedAt j = None)
        (\<lambda>j. j\<lparr>mj_leaseToken := Some tok, mj_policyVersion := Some safety_policy_version, mj_updatedAt := now\<rparr>))
     (\<lambda>rows. if rows = [] then tx_throw Job_Changed else tx_return ())"

definition grant_message ::
  "millis \<Rightarrow> string \<Rightarrow> string \<Rightarrow> string \<Rightarrow> string \<Rightarrow> string \<Rightarrow> message_type \<Rightarrow> millis \<Rightarrow> scopes \<Rightarrow> message_permit decision tx" where
  "grant_message now tok u s job recipient t ttl scopes =
     (let lease = new_lease tok ''MESSAGE_JOB'' job now ttl; profile = permit_profile scopes in
      tx_bind (take_lease now (session_key u s, ACTIVE_SESSION) lease) (\<lambda>taken.
      if \<not> taken then tx_throw Lease_Changed else
      tx_bind (tx_iter (\<lambda>k. tx_bind (take_lease now (k, RECOVERY_LANE) lease) (\<lambda>ok.
        if ok then tx_return () else tx_throw Recovery_Lane_Changed)) (recovering scopes)) (\<lambda>_.
      tx_bind (tx_iter (consume_bucket now u s) (message_bucket_policies profile t)) (\<lambda>_.
      tx_bind (attach_permit now tok job) (\<lambda>_.
      tx_return (Granted \<lparr>mpt_leaseToken = tok, mpt_upstreamId = u, mpt_sessionId = s, mpt_jobId = job,
        mpt_recipientId = recipient, mpt_type = t, mpt_profile = profile, mpt_policyVersion = safety_policy_version,
        mpt_reservedAt = now, mpt_expiresAt = now + ttl\<rparr>))))))"

definition reserve_message ::
  "millis \<Rightarrow> millis \<Rightarrow> string \<Rightarrow> string \<Rightarrow> string \<Rightarrow> string \<Rightarrow> string \<Rightarrow> message_type \<Rightarrow> millis
     \<Rightarrow> message_permit decision tx" where
  "reserve_message js now tok u s job recipient t ttl =
     tx_bind (ensure_scopes now u s) (\<lambda>_.
     tx_bind (lock_scopes u s) (\<lambda>locked.
     tx_bind (transition_expired js now locked) (\<lambda>scopes.
     decide (circuit_decision js scopes) (
     decide (outbound_decision scopes) (\<lambda>db.
     case recovery_until now u s db of
       Some e \<Rightarrow> Inr (Deferred e ''RECOVERY_PROBE_IN_FLIGHT'', db)
     | None \<Rightarrow>
         decide (recipient_decision now (permit_profile scopes) s recipient db) (
         decide (in_flight_decision now u s db) (
         tx_bind (check_buckets js now u s (message_bucket_policies (permit_profile scopes) t)) (\<lambda>wait.
         decide wait (grant_message now tok u s job recipient t ttl scopes)))) db)))))"

section \<open>The final send fence\<close>

record connector_commit =
  cc_attemptId :: string
  cc_commandId :: string
  cc_generation :: int
  cc_payloadSha256 :: string
  cc_body :: string
  cc_expiresAt :: millis

definition connector_usable :: "millis \<Rightarrow> connector_session \<Rightarrow> bool" where
  "connector_usable now c \<longleftrightarrow> cs_hasWebhook c \<and> cs_hasConnector c \<and> cs_bindingSyncedAt c \<noteq> None \<and> cs_healthy c
     \<and> (case cs_healthLeaseExpiresAt c of None \<Rightarrow> False | Some t \<Rightarrow> now < t)"

definition healthy_binding_generation :: "millis \<Rightarrow> string \<Rightarrow> runtime_db \<Rightarrow> int option" where
  "healthy_binding_generation now s db =
     (case map_of (db_connectors db) s of None \<Rightarrow> None
      | Some c \<Rightarrow> if connector_usable now c then Some (cs_generation c) else None)"

definition fence_connector :: "millis \<Rightarrow> string \<Rightarrow> connector_commit option \<Rightarrow> runtime_db \<Rightarrow> int option" where
  "fence_connector now s cmd db =
     (case healthy_binding_generation now s db of None \<Rightarrow> None
      | Some g \<Rightarrow> (case cmd of None \<Rightarrow> Some g | Some c \<Rightarrow> if cc_generation c = g then Some g else None))"

definition scope_fences :: "millis \<Rightarrow> string \<Rightarrow> scope_key \<Rightarrow> scope_row \<Rightarrow> runtime_db \<Rightarrow> bool" where
  "scope_fences now tok k r db \<longleftrightarrow>
     sc_blockedAt r \<noteq> None \<or> (fst k = SESSION \<and> sc_pausedAt r \<noteq> None) \<or> sc_circuit r = OPEN \<or> sc_circuit r = MANUAL_BLOCKED
     \<or> (case sc_cooldownUntil r of None \<Rightarrow> False | Some c \<Rightarrow> now < c)
     \<or> (sc_circuit r = HALF_OPEN \<and>
          \<not> (case map_of (db_leases db) (k, RECOVERY_LANE) of None \<Rightarrow> False
              | Some l \<Rightarrow> sl_token l = tok \<and> now < sl_expiresAt l))"

definition scopes_open :: "millis \<Rightarrow> string \<Rightarrow> string \<Rightarrow> string \<Rightarrow> runtime_db \<Rightarrow> bool" where
  "scopes_open now tok u s db \<longleftrightarrow>
     list_all (\<lambda>k. case map_of (db_scopes db) k of None \<Rightarrow> True | Some r \<Rightarrow> \<not> scope_fences now tok k r db) (scope_keys u s)"

definition gateway_open :: "string \<Rightarrow> string \<Rightarrow> runtime_db \<Rightarrow> bool" where
  "gateway_open s recipient db \<longleftrightarrow>
     (case map_of (db_sessions db) s of None \<Rightarrow> False | Some g \<Rightarrow> gs_ready g \<and> gs_engineLoaded g \<and> \<not> gs_restricted g)
     \<and> (case map_of (db_groups db) (s, recipient) of None \<Rightarrow> False
        | Some g \<Rightarrow> gg_active g \<and> gg_sendAllowed g \<and> \<not> gg_invalidated g)"

definition readiness_open :: "millis \<Rightarrow> bool \<Rightarrow> int \<Rightarrow> runtime_db \<Rightarrow> bool" where
  "readiness_open now required age db \<longleftrightarrow>
     (\<not> required \<or> (case db_readiness db of None \<Rightarrow> False | Some r \<Rightarrow> dr_ready r \<and> now - age < dr_heartbeatAt r))"

definition lease_valid :: "millis \<Rightarrow> string \<Rightarrow> string \<Rightarrow> string \<Rightarrow> runtime_db \<Rightarrow> bool" where
  "lease_valid now tok u s db \<longleftrightarrow>
     (case session_lease u s db of None \<Rightarrow> False | Some l \<Rightarrow> sl_token l = tok \<and> now < sl_expiresAt l)"

definition job_commits :: "message_permit \<Rightarrow> message_job \<Rightarrow> bool" where
  "job_commits p j \<longleftrightarrow> mj_id j = mpt_jobId p \<and> mj_status j = PROCESSING \<and> mj_leaseToken j = Some (mpt_leaseToken p)
     \<and> mj_cancelRequestedAt j = None \<and> mj_policyVersion j = Some (mpt_policyVersion p) \<and> mj_type j = mpt_type p
     \<and> mj_upstreamStartedAt j = None"

definition fence_passes ::
  "millis \<Rightarrow> message_permit \<Rightarrow> bool \<Rightarrow> connector_commit option \<Rightarrow> bool \<Rightarrow> int \<Rightarrow> message_job \<Rightarrow> runtime_db \<Rightarrow> bool" where
  "fence_passes now p required cmd ready_required age j db \<longleftrightarrow>
     job_commits p j
     \<and> lease_valid now (mpt_leaseToken p) (mpt_upstreamId p) (mpt_sessionId p) db
     \<and> scopes_open now (mpt_leaseToken p) (mpt_upstreamId p) (mpt_sessionId p) db
     \<and> (\<not> required \<or> fence_connector now (mpt_sessionId p) cmd db \<noteq> None)
     \<and> readiness_open now ready_required age db
     \<and> gateway_open (mj_sessionId j) (mpt_recipientId p) db
     \<and> run_allows db (mj_id j)"

record committed_send =
  cms_attemptId :: string
  cms_commandId :: string
  cms_generation :: "int option"
  cms_startedAt :: millis
  cms_attemptNumber :: nat

definition new_attempt ::
  "millis \<Rightarrow> string \<Rightarrow> string \<Rightarrow> message_permit \<Rightarrow> int option \<Rightarrow> connector_commit option \<Rightarrow> message_job \<Rightarrow> message_attempt" where
  "new_attempt now aid cid p generation cmd j =
     \<lparr>ma_jobId = mj_id j, ma_number = mj_attemptCount j, ma_outcome = Outcome PROCESSING, ma_error = None,
      ma_upstreamStartedAt = mj_upstreamStartedAt j, ma_policyVersion = mj_policyVersion j,
      ma_attemptId = (case cmd of None \<Rightarrow> aid | Some c \<Rightarrow> cc_attemptId c),
      ma_commandId = (case cmd of None \<Rightarrow> cid | Some c \<Rightarrow> cc_commandId c),
      ma_transport = Some DISPATCH_STARTED, ma_binding = generation,
      ma_permit = map_option (\<lambda>_. mpt_leaseToken p) cmd, ma_upstream = map_option (\<lambda>_. mpt_upstreamId p) cmd,
      ma_profile = map_option (\<lambda>_. mpt_profile p) cmd, ma_payloadSha256 = map_option cc_payloadSha256 cmd,
      ma_body = map_option cc_body cmd, ma_expiresAt = map_option cc_expiresAt cmd, ma_deliveries = 0,
      ma_nextAttemptAt = map_option (\<lambda>_. now) cmd, ma_leaseId = None, ma_leaseExpiresAt = None, ma_ingressError = None,
      ma_failureKind = None, ma_ingressAcceptedAt = None, ma_transportStartedAt = mj_upstreamStartedAt j,
      ma_transportAcceptedAt = None, ma_lastSequence = 0, ma_lastEvidenceAt = None, ma_messageId = None\<rparr>"

text \<open>The unique constraints of \<open>message_attempts\<close>.\<close>

definition insert_attempt :: "message_attempt \<Rightarrow> unit tx" where
  "insert_attempt a db =
     (if list_ex (\<lambda>b. (ma_jobId b = ma_jobId a \<and> ma_number b = ma_number a) \<or> ma_attemptId b = ma_attemptId a
           \<or> ma_commandId b = ma_commandId a) (db_attempts db)
      then Inl Unique_Violation else Inr ((), db\<lparr>db_attempts := db_attempts db @ [a]\<rparr>))"

definition commit_message_start ::
  "millis \<Rightarrow> string \<Rightarrow> string \<Rightarrow> message_permit \<Rightarrow> bool \<Rightarrow> connector_commit option \<Rightarrow> bool \<Rightarrow> int \<Rightarrow> committed_send option tx" where
  "commit_message_start now aid cid p required cmd ready_required age =
     (if required \<and> cmd = None then tx_throw Command_Required
      else (\<lambda>db.
        let generation = (if required then fence_connector now (mpt_sessionId p) cmd db else None);
            passes = (\<lambda>j. fence_passes now p required cmd ready_required age j db)
        in tx_bind (update_jobs passes (\<lambda>j. j\<lparr>mj_upstreamStartedAt := Some now, mj_attemptCount := Suc (mj_attemptCount j),
               mj_leaseExpiresAt := (if required then None else mj_leaseExpiresAt j), mj_updatedAt := now\<rparr>))
           (\<lambda>rows. case rows of
              [] \<Rightarrow> tx_return None
            | j # _ \<Rightarrow>
                (let a = new_attempt now aid cid p generation cmd j in
                 tx_bind (insert_attempt a) (\<lambda>_.
                 tx_return (Some \<lparr>cms_attemptId = ma_attemptId a, cms_commandId = ma_commandId a,
                   cms_generation = generation, cms_startedAt = now, cms_attemptNumber = ma_number a\<rparr>)))) db))"

end
