(* ===== verification/Safety_Forecast.thy ===== *)
theory Safety_Forecast
  imports Safety_Governor "HOL-Library.Product_Lexorder" "HOL-Library.List_Lexorder" "HOL-Library.Char_ord"
begin

text \<open>
  \<open>forecastMessages\<close> of \<open>openwa-safety.repository.ts\<close>: a read-only simulation of the budgets, the backlog of the
  session and the recipients' windows. The buckets of the simulation are created on first use. The two loops
  of \<open>recipientAdmissionAt\<close> are over indices of the sorted starts; whether the outer one ends is part of the
  model (\<open>None\<close> when it does not). \<open>before\<close> is \<open>localeCompare\<close>.
\<close>

section \<open>Simulated budgets\<close>

record forecast_bucket =
  fb_arrivalAt :: millis
  fb_emission :: int
  fb_burst :: int

type_synonym forecast_buckets = "(bucket_key \<times> forecast_bucket) list"

definition initial_bucket :: "buckets \<Rightarrow> millis \<Rightarrow> bucket_key \<Rightarrow> bucket_policy \<Rightarrow> forecast_bucket" where
  "initial_bucket persisted calc k p =
     \<lparr>fb_arrivalAt = (case map_of persisted k of Some r \<Rightarrow> bk_arrivalAt r | None \<Rightarrow> calc),
      fb_emission = max (case map_of persisted k of Some r \<Rightarrow> bk_emission r | None \<Rightarrow> 0) (emission_interval_ms p),
      fb_burst = bp_burst p\<rparr>"

definition load_bucket ::
  "buckets \<Rightarrow> millis \<Rightarrow> string \<Rightarrow> string \<Rightarrow> bucket_policy \<Rightarrow> forecast_buckets \<Rightarrow> forecast_buckets" where
  "load_bucket persisted calc u s p fbs =
     (let k = bucket_key_of u s p in insert_new k (initial_bucket persisted calc k p) fbs)"

definition bucket_state ::
  "buckets \<Rightarrow> millis \<Rightarrow> string \<Rightarrow> string \<Rightarrow> bucket_policy list \<Rightarrow> forecast_buckets
     \<Rightarrow> (forecast_bucket \<times> int) list \<times> forecast_buckets" where
  "bucket_state persisted calc u s ps fbs =
     (let loaded = fold (load_bucket persisted calc u s) ps fbs
      in (map (\<lambda>p. (the (map_of loaded (bucket_key_of u s p)), bp_cost p)) ps, loaded))"

definition admits_from :: "forecast_bucket \<Rightarrow> millis" where
  "admits_from b = fb_arrivalAt b - (fb_burst b - 1) * fb_emission b"

definition forecast_spend :: "millis \<Rightarrow> int \<Rightarrow> forecast_bucket \<Rightarrow> forecast_bucket" where
  "forecast_spend t cost b = b\<lparr>fb_arrivalAt := max (fb_arrivalAt b) t + cost * fb_emission b\<rparr>"

definition simulate_admission ::
  "buckets \<Rightarrow> millis \<Rightarrow> string \<Rightarrow> string \<Rightarrow> bucket_policy list \<Rightarrow> millis \<Rightarrow> forecast_buckets
     \<Rightarrow> millis \<times> forecast_buckets" where
  "simulate_admission persisted calc u s ps requested fbs =
     (case bucket_state persisted calc u s ps fbs of (states, loaded) \<Rightarrow>
        (let admitted = foldl (\<lambda>latest (b, cost). max latest (admits_from b)) requested states
         in (admitted, fold (\<lambda>p. update_keyed (\<lambda>k _. k = bucket_key_of u s p) (forecast_spend admitted (bp_cost p))) ps loaded)))"

section \<open>Recipients\<close>

text \<open>\<open>while (end < timestamps.length && timestamps[end] <= candidate) end += 1\<close>\<close>

function advance_end :: "millis list \<Rightarrow> millis \<Rightarrow> nat \<Rightarrow> nat" where
  "advance_end ts c e = (if e < length ts \<and> ts ! e \<le> c then advance_end ts c (Suc e) else e)"
  by pat_completeness auto
termination by (relation "measure (\<lambda>(ts, c, e). length ts - e)") auto

declare advance_end.simps [simp del]

text \<open>\<open>while (start < end && timestamps[start] < candidate - window) start += 1\<close>\<close>

function advance_start :: "millis list \<Rightarrow> millis \<Rightarrow> nat \<Rightarrow> nat \<Rightarrow> nat" where
  "advance_start ts bound e st = (if st < e \<and> ts ! st < bound then advance_start ts bound e (Suc st) else st)"
  by pat_completeness auto
termination by (relation "measure (\<lambda>(ts, bound, e, st). e - st)") auto

declare advance_start.simps [simp del]

partial_function (option) admission_loop ::
  "nat \<Rightarrow> int \<Rightarrow> millis list \<Rightarrow> millis \<Rightarrow> nat \<Rightarrow> nat \<Rightarrow> millis option" where
  "admission_loop limit window ts c st e =
     (if limit \<le> e - st
      then (let c' = ts ! st + window + 1; e' = advance_end ts c' e; st' = advance_start ts (c' - window) e' st
            in admission_loop limit window ts c' st' e')
      else Some c)"

declare admission_loop.simps [code]

definition recipient_admission_at :: "nat \<Rightarrow> int \<Rightarrow> millis list \<Rightarrow> millis \<Rightarrow> millis option" where
  "recipient_admission_at limit window ts requested =
     (let e = advance_end ts requested 0
      in admission_loop limit window ts requested (advance_start ts (requested - window) e 0) e)"

section \<open>The backlog\<close>

definition maximum_exact_backlog :: nat where
  "maximum_exact_backlog = 2000"

definition in_backlog :: "millis \<Rightarrow> string \<Rightarrow> runtime_db \<Rightarrow> message_job \<Rightarrow> bool" where
  "in_backlog now s db j \<longleftrightarrow> mj_sessionId j = s \<and> \<not> mj_dryRun j \<and> mj_status j \<in> {SCHEDULED, QUEUED, PROCESSING}
     \<and> mj_upstreamStartedAt j = None \<and> (mj_status j \<noteq> PROCESSING \<or> mj_leaseToken j = None)
     \<and> (mj_scheduledAt j \<le> now \<or> mj_deferReason j = Some ''SESSION_OPERATION_IN_FLIGHT'') \<and> run_allows db (mj_id j)"

text \<open>\<open>(defer_reason = '...') DESC\<close> orders NULL first, as PostgreSQL does.\<close>

definition defer_rank :: "message_job \<Rightarrow> nat" where
  "defer_rank j = (case mj_deferReason j of None \<Rightarrow> 0 | Some r \<Rightarrow> if r = ''SESSION_OPERATION_IN_FLIGHT'' then 1 else 2)"

definition backlog_key :: "message_job \<Rightarrow> nat \<times> nat \<times> int \<times> int \<times> string" where
  "backlog_key j = (if mj_status j = PROCESSING then 0 else if mj_status j = QUEUED then 1 else 2,
     defer_rank j, mj_scheduledAt j, mj_createdAt j, mj_id j)"

definition backlog :: "millis \<Rightarrow> string \<Rightarrow> runtime_db \<Rightarrow> message_job list" where
  "backlog now s db = sort_key backlog_key (filter (in_backlog now s db) (db_jobs db))"

definition type_count :: "message_type \<Rightarrow> message_job list \<Rightarrow> nat" where
  "type_count t js = length (filter (\<lambda>j. mj_type j = t) js)"

text \<open>The loop over the exact part: the cursor, the buckets and the projected starts of the campaign's recipients.\<close>

fun run_backlog ::
  "(message_type \<Rightarrow> millis \<Rightarrow> forecast_buckets \<Rightarrow> millis \<times> forecast_buckets) \<Rightarrow> string set \<Rightarrow> message_job list
     \<Rightarrow> millis \<Rightarrow> forecast_buckets \<Rightarrow> (string \<times> millis) list \<Rightarrow> millis \<times> forecast_buckets \<times> (string \<times> millis) list" where
  "run_backlog sim rs [] cursor fbs starts = (cursor, fbs, starts)"
| "run_backlog sim rs (j # js) cursor fbs starts =
     (case sim (mj_type j) cursor fbs of (t, fbs') \<Rightarrow>
        run_backlog sim rs js t fbs'
          (if mj_recipientId j \<in> rs then starts @ [(mj_recipientId j, t)] else starts))"

text \<open>The approximate part: one admission, then the slowest interval once per omitted message.\<close>

definition approximate_rest ::
  "(message_type \<Rightarrow> millis \<Rightarrow> forecast_buckets \<Rightarrow> millis \<times> forecast_buckets)
     \<Rightarrow> (message_type \<Rightarrow> forecast_buckets \<Rightarrow> (forecast_bucket \<times> int) list \<times> forecast_buckets)
     \<Rightarrow> nat \<Rightarrow> message_type \<Rightarrow> millis \<times> forecast_buckets \<Rightarrow> millis \<times> forecast_buckets" where
  "approximate_rest sim states omitted t st =
     (if omitted = 0 then st
      else (case sim t (fst st) (snd st) of (c, fbs) \<Rightarrow>
           (case states t fbs of (bs, fbs') \<Rightarrow>
              (c + int omitted * Max (set (map (\<lambda>(b, cost). fb_emission b * cost) bs)), fbs'))))"

section \<open>The forecast\<close>

datatype forecast_status = Forecast_Ready | Forecast_Waiting | Forecast_Blocked

record message_forecast =
  mf_status :: forecast_status
  mf_reason :: "string option"
  mf_targetCount :: nat
  mf_messageUnits :: int
  mf_queuedAhead :: nat
  mf_recipientDeferred :: nat
  mf_firstAt :: "millis option"
  mf_lastAt :: "millis option"
  mf_spanSeconds :: "int option"
  mf_calculatedAt :: millis

definition eligible_before :: "(string \<Rightarrow> string \<Rightarrow> bool) \<Rightarrow> string \<times> millis \<Rightarrow> string \<times> millis \<Rightarrow> bool" where
  "eligible_before before a b \<longleftrightarrow> snd a < snd b \<or> (snd a = snd b \<and> before (fst a) (fst b))"

text \<open>The last loop: the admissions of the targets, and the first of them.\<close>

fun admit_targets ::
  "(millis \<Rightarrow> forecast_buckets \<Rightarrow> millis \<times> forecast_buckets) \<Rightarrow> (string \<times> millis) list \<Rightarrow> millis \<Rightarrow> forecast_buckets
     \<Rightarrow> millis list" where
  "admit_targets sim [] cursor fbs = []"
| "admit_targets sim ((r, eligible) # rest) cursor fbs =
     (case sim (max cursor eligible) fbs of (t, fbs') \<Rightarrow> t # admit_targets sim rest t fbs')"

text \<open>The unexpired leases a reservation would wait for.\<close>

definition active_leases :: "millis \<Rightarrow> string \<Rightarrow> string \<Rightarrow> runtime_db \<Rightarrow> (lease_lane \<times> safety_lease) list" where
  "active_leases now u s db = map (\<lambda>((k, lane), l). (lane, l)) (filter (\<lambda>((k, lane), l). now < sl_expiresAt l \<and>
     (if lane = RECOVERY_LANE then k \<in> set (scope_keys u s) else k = session_key u s)) (db_leases db))"

definition forecast_reason ::
  "message_permit decision option \<Rightarrow> (lease_lane \<times> safety_lease) list \<Rightarrow> nat \<Rightarrow> nat \<Rightarrow> bool \<Rightarrow> string option" where
  "forecast_reason circuit leases queued deferred waiting =
     (case circuit of Some (Deferred _ reason) \<Rightarrow> Some reason
      | _ \<Rightarrow> if list_ex (\<lambda>(lane, l). lane = RECOVERY_LANE) leases then Some ''RECOVERY_PROBE_IN_FLIGHT''
        else if leases \<noteq> [] then Some ''SESSION_OPERATION_IN_FLIGHT''
        else if 0 < queued then Some ''QUEUED_WORK_AHEAD''
        else if 0 < deferred then Some ''RECIPIENT_FREQUENCY_LIMIT''
        else if waiting then Some ''RATE_BUDGET'' else None)"

definition blocked_forecast :: "millis \<Rightarrow> nat \<Rightarrow> int \<Rightarrow> string \<Rightarrow> message_forecast" where
  "blocked_forecast now targets units reason = \<lparr>mf_status = Forecast_Blocked, mf_reason = Some reason,
     mf_targetCount = targets, mf_messageUnits = units, mf_queuedAhead = 0, mf_recipientDeferred = 0,
     mf_firstAt = None, mf_lastAt = None, mf_spanSeconds = None, mf_calculatedAt = now\<rparr>"

text \<open>The backlog's effect on the cursor, the buckets and the recipients' projected starts.\<close>

definition forecast_backlog ::
  "millis \<Rightarrow> string \<Rightarrow> string \<Rightarrow> safety_profile \<Rightarrow> string set \<Rightarrow> millis \<Rightarrow> runtime_db
     \<Rightarrow> nat \<times> millis \<times> forecast_buckets \<times> (string \<times> millis) list" where
  "forecast_backlog now u s profile rs base db =
     (let sim = (\<lambda>t. simulate_admission (db_buckets db) now u s (message_bucket_policies profile t));
          states = (\<lambda>t. bucket_state (db_buckets db) now u s (message_bucket_policies profile t));
          jobs = backlog now s db; exact = take maximum_exact_backlog jobs;
          omitted = (\<lambda>t. type_count t jobs - type_count t exact)
      in case run_backlog sim rs exact base [] [] of (c, fbs, starts) \<Rightarrow>
         (case approximate_rest sim states (omitted Image_Message) Image_Message
                 (approximate_rest sim states (omitted Text_Message) Text_Message (c, fbs)) of (c', fbs') \<Rightarrow>
            (length jobs,
             if 0 < omitted Text_Message \<or> 0 < omitted Image_Message
             then c' + mp_recipientWindow (message_safety_policy profile) else c',
             fbs', starts)))"

definition forecast_open ::
  "(string \<Rightarrow> string \<Rightarrow> bool) \<Rightarrow> millis \<Rightarrow> string \<Rightarrow> string \<Rightarrow> string list \<Rightarrow> message_type \<Rightarrow> safety_profile
     \<Rightarrow> message_permit decision option \<Rightarrow> runtime_db \<Rightarrow> message_forecast option" where
  "forecast_open before now u s rs t profile circuit db =
     (let p = message_safety_policy profile; leases = active_leases now u s db;
          units = int (length rs) * message_cost p t;
          base = max (foldl (\<lambda>latest (lane, l). max latest (sl_expiresAt l)) now leases)
                     (case circuit of Some (Deferred c _) \<Rightarrow> c | _ \<Rightarrow> now)
      in case forecast_backlog now u s profile (set rs) base db of (queued, cursor, fbs, starts) \<Rightarrow>
         (let times = (\<lambda>r. sort (recent_starts now (mp_recipientWindow p) s r db) @ map snd (filter (\<lambda>(r', _). r' = r) starts))
          in case those (map (\<lambda>r. map_option (\<lambda>e. (r, e))
                     (recipient_admission_at (mp_recipientLimit p) (mp_recipientWindow p) (times r) cursor)) rs) of
               None \<Rightarrow> None
             | Some eligible \<Rightarrow>
                 (let recipients = sort_by (eligible_before before) eligible;
                      deferred = length (filter (\<lambda>(r, e). cursor < e) recipients);
                      admitted = admit_targets (simulate_admission (db_buckets db) now u s (message_bucket_policies profile t))
                        recipients cursor fbs;
                      first = (case admitted of [] \<Rightarrow> None | a # _ \<Rightarrow> Some a);
                      last = (if admitted = [] then None else Some (List.last admitted));
                      waiting = (0 < queued \<or> 0 < deferred \<or> (case first of None \<Rightarrow> False | Some a \<Rightarrow> now + 1000 < a))
                  in Some \<lparr>mf_status = (if waiting then Forecast_Waiting else Forecast_Ready),
                       mf_reason = forecast_reason circuit leases queued deferred waiting,
                       mf_targetCount = length recipients, mf_messageUnits = units, mf_queuedAhead = queued,
                       mf_recipientDeferred = deferred, mf_firstAt = first, mf_lastAt = last,
                       mf_spanSeconds = (case (first, last) of (Some a, Some b) \<Rightarrow> Some (ceil_div (b - a) 1000) | _ \<Rightarrow> None),
                       mf_calculatedAt = now\<rparr>)))"

text \<open>\<open>None\<close>: the forecast does not return. \<open>Inl\<close>: it throws.\<close>

definition forecast_messages ::
  "(string \<Rightarrow> string \<Rightarrow> bool) \<Rightarrow> millis \<Rightarrow> millis \<Rightarrow> string \<Rightarrow> string \<Rightarrow> string list \<Rightarrow> message_type \<Rightarrow> runtime_db
     \<Rightarrow> (db_error + message_forecast) option" where
  "forecast_messages before js now u s recipients t db =
     (case lock_scopes u s db of Inl e \<Rightarrow> Some (Inl e) | Inr (scopes, _) \<Rightarrow>
     (case find_scope SESSION scopes of
        None \<Rightarrow> Some (Inl Session_Scope_Missing)
      | Some r \<Rightarrow>
          (let rs = rev (remdups (rev recipients)); circuit = circuit_decision js scopes;
               blocked = (case circuit of Some (Refused _) \<Rightarrow> circuit | _ \<Rightarrow> outbound_decision scopes)
           in case blocked of
                Some (Refused reason) \<Rightarrow> Some (Inr (blocked_forecast now (length rs)
                  (int (length rs) * message_cost (message_safety_policy (sc_profile r)) t) reason))
              | _ \<Rightarrow> map_option Inr (forecast_open before now u s rs t (sc_profile r) circuit db))))"

end
