(* ===== verification/Message_Jobs.thy ===== *)
theory Message_Jobs
  imports Safety_Forecast
begin

text \<open>
  Message jobs: creating them (\<open>message-job.service.ts\<close>, \<open>message-idempotency.ts\<close>,
  \<open>message-send-policy.service.ts\<close>) and the methods of \<open>MessageJobRepository\<close>
  (\<open>message-job.repository.ts\<close>). A claim runs as one atomic transaction; with \<open>SKIP LOCKED\<close> two workers
  may read the same snapshot, and then the unique index on the live jobs in flight rejects the second. Generated ids
  (\<open>gen_random_uuid()\<close>) are arguments.
\<close>

section \<open>Contents\<close>

fun campaign_content_text :: "campaign_content \<Rightarrow> string" where
  "campaign_content_text (Campaign_Text t) = t"
| "campaign_content_text (Campaign_Image i) = first_some [ci_caption i] []"

fun campaign_content_media_asset_id :: "campaign_content \<Rightarrow> string option" where
  "campaign_content_media_asset_id (Campaign_Text _) = None"
| "campaign_content_media_asset_id (Campaign_Image i) = Some (ci_mediaAssetId i)"

fun campaign_content_message_type :: "campaign_content \<Rightarrow> message_type" where
  "campaign_content_message_type (Campaign_Text _) = Text_Message"
| "campaign_content_message_type (Campaign_Image _) = Image_Message"

section \<open>Creating\<close>

record new_message =
  nm_scope :: string
  nm_key :: string
  nm_requestHash :: string
  nm_sessionId :: string
  nm_recipientId :: string
  nm_text :: "string option"
  nm_content :: "campaign_content option"
  nm_scheduledAt :: millis
  nm_dryRun :: bool

definition message_content :: "new_message \<Rightarrow> campaign_content" where
  "message_content m = (case nm_content m of Some c \<Rightarrow> c | None \<Rightarrow> Campaign_Text (first_some [nm_text m] []))"

definition new_job :: "millis \<Rightarrow> string \<Rightarrow> new_message \<Rightarrow> message_job" where
  "new_job now i m = \<lparr>mj_id = i, mj_scope = nm_scope m, mj_key = nm_key m, mj_requestHash = nm_requestHash m,
     mj_sessionId = nm_sessionId m, mj_recipientId = nm_recipientId m,
     mj_type = campaign_content_message_type (message_content m), mj_payload = message_content m,
     mj_scheduledAt = nm_scheduledAt m, mj_status = SCHEDULED, mj_dryRun = nm_dryRun m, mj_claimCount = 0,
     mj_attemptCount = 0, mj_leaseExpiresAt = None, mj_upstreamStartedAt = None, mj_leaseToken = None,
     mj_policyVersion = None, mj_cancelRequestedAt = None, mj_messageId = None, mj_lastError = None,
     mj_deferReason = None, mj_createdAt = now, mj_updatedAt = now\<rparr>"

record created_job =
  cj_job :: message_job
  cj_created :: bool
  cj_conflict :: bool

definition find_by_key :: "string \<Rightarrow> string \<Rightarrow> runtime_db \<Rightarrow> message_job option" where
  "find_by_key scope key db = List.find (\<lambda>j. mj_scope j = scope \<and> mj_key j = key) (db_jobs db)"

definition create_message_job :: "millis \<Rightarrow> string \<Rightarrow> new_message \<Rightarrow> created_job tx" where
  "create_message_job now i m db =
     (case find_by_key (nm_scope m) (nm_key m) db of
        Some j \<Rightarrow> Inr (\<lparr>cj_job = j, cj_created = False, cj_conflict = mj_requestHash j \<noteq> nm_requestHash m\<rparr>, db)
      | None \<Rightarrow>
          if find_job db i \<noteq> None then Inl Unique_Violation
          else Inr (\<lparr>cj_job = new_job now i m, cj_created = True, cj_conflict = False\<rparr>,
                    db\<lparr>db_jobs := db_jobs db @ [new_job now i m]\<rparr>))"

text \<open>\<open>messageRequestHash\<close>: \<open>fmt\<close> formats a date, \<open>json\<close> an image content, \<open>sha\<close> is SHA-256. \<open>toISOString\<close> of an
  invalid date throws.\<close>

definition content_identity :: "(campaign_image \<Rightarrow> string) \<Rightarrow> campaign_content \<Rightarrow> string" where
  "content_identity json c = (case c of Campaign_Text t \<Rightarrow> t
     | Campaign_Image i \<Rightarrow> CHR 0x00 # ''IMAGE'' @ [CHR 0x00] @ json i)"

definition request_identity ::
  "(millis \<Rightarrow> string) \<Rightarrow> (campaign_image \<Rightarrow> string) \<Rightarrow> string \<Rightarrow> string \<Rightarrow> campaign_content \<Rightarrow> millis option \<Rightarrow> bool \<Rightarrow> string" where
  "request_identity fmt json s r c whn dry =
     join_with [CHR 0x0A] [s, r, content_identity json c, (case whn of None \<Rightarrow> [] | Some t \<Rightarrow> fmt t),
       (if dry then ''true'' else ''false'')]"

definition message_request_hash ::
  "(string \<Rightarrow> string) \<Rightarrow> (millis \<Rightarrow> string) \<Rightarrow> (campaign_image \<Rightarrow> string) \<Rightarrow> string \<Rightarrow> string \<Rightarrow> campaign_content
     \<Rightarrow> js_timestamp option \<Rightarrow> bool \<Rightarrow> string option" where
  "message_request_hash sha fmt json s r c whn dry =
     (case whn of
        None \<Rightarrow> Some (sha (request_identity fmt json s r c None dry))
      | Some ts \<Rightarrow> if ts_text ts = [] then Some (sha (request_identity fmt json s r c None dry))
          else map_option (\<lambda>t. sha (request_identity fmt json s r c (Some t) dry)) (ts_value ts))"

text \<open>What the gateway's read model answers.\<close>

record gateway_view =
  gv_allowed :: "string \<Rightarrow> bool"
  gv_sendable :: "string \<Rightarrow> bool"
  gv_group :: "string \<Rightarrow> string \<Rightarrow> (bool \<times> string) option"

datatype create_error =
    CE_Key_Too_Long | CE_Session_Not_Allowed | CE_Not_A_Group | CE_Group_Unknown | CE_Group_Not_Sendable string
  | CE_In_The_Past | CE_Invalid_Date | CE_Key_Reused | CE_Database db_error

definition is_group :: "string \<Rightarrow> bool" where
  "is_group r \<longleftrightarrow> 5 \<le> length r \<and> drop (length r - 5) r = ''@g.us''"

definition assert_creatable :: "gateway_view \<Rightarrow> string \<Rightarrow> string \<Rightarrow> bool \<Rightarrow> create_error option" where
  "assert_creatable g s r dry =
     (if \<not> gv_allowed g s then Some CE_Session_Not_Allowed
      else if dry then None
      else if \<not> is_group r then Some CE_Not_A_Group
      else (case gv_group g s r of
          None \<Rightarrow> Some CE_Group_Unknown
        | Some (True, _) \<Rightarrow> None
        | Some (False, reason) \<Rightarrow> Some (CE_Group_Not_Sendable reason)))"

definition live_block_reason :: "gateway_view \<Rightarrow> string \<Rightarrow> string \<Rightarrow> string option" where
  "live_block_reason g s r =
     (if \<not> gv_allowed g s then Some ''Session is outside the Runtime allowlist''
      else if \<not> gv_sendable g s then Some ''Gateway session is not sendable''
      else if \<not> is_group r then Some ''Recipient is not a synchronized group''
      else (case gv_group g s r of
          None \<Rightarrow> Some ''Recipient group is not active in the synchronized read model''
        | Some (True, _) \<Rightarrow> None
        | Some (False, reason) \<Rightarrow> Some (''Group is not sendable: '' @ reason)))"

record message_request =
  mq_sessionId :: string
  mq_recipientId :: string
  mq_text :: string
  mq_scheduledAt :: "js_timestamp option"
  mq_dryRun :: bool

text \<open>The time the request is for: \<open>None\<close> is an invalid date, which is not before any time.\<close>

definition requested_time :: "millis \<Rightarrow> message_request \<Rightarrow> js_date" where
  "requested_time js q = (case mq_scheduledAt q of None \<Rightarrow> Some js
     | Some ts \<Rightarrow> if ts_text ts = [] then Some js else ts_value ts)"

definition job_service_create ::
  "(string \<Rightarrow> string) \<Rightarrow> (millis \<Rightarrow> string) \<Rightarrow> (campaign_image \<Rightarrow> string) \<Rightarrow> gateway_view \<Rightarrow> millis \<Rightarrow> millis \<Rightarrow> string
     \<Rightarrow> string \<Rightarrow> message_request \<Rightarrow> runtime_db \<Rightarrow> (create_error + created_job) \<times> runtime_db" where
  "job_service_create sha fmt json g js now i key q db =
     (if 200 < length key then (Inl CE_Key_Too_Long, db)
      else case assert_creatable g (mq_sessionId q) (mq_recipientId q) (mq_dryRun q) of
        Some e \<Rightarrow> (Inl e, db)
      | None \<Rightarrow>
     (case requested_time js q of
        None \<Rightarrow> (Inl CE_Invalid_Date, db)
      | Some whn \<Rightarrow>
          if whn < js - 60000 then (Inl CE_In_The_Past, db)
          else (case message_request_hash sha fmt json (mq_sessionId q) (mq_recipientId q) (Campaign_Text (mq_text q))
                       (mq_scheduledAt q) (mq_dryRun q) of
              None \<Rightarrow> (Inl CE_Invalid_Date, db)
            | Some h \<Rightarrow>
                (case transaction (create_message_job now i
                    \<lparr>nm_scope = ''runtime-api'', nm_key = key, nm_requestHash = h, nm_sessionId = mq_sessionId q,
                     nm_recipientId = mq_recipientId q, nm_text = None, nm_content = Some (Campaign_Text (mq_text q)),
                     nm_scheduledAt = whn, nm_dryRun = mq_dryRun q\<rparr>) db of
                   (Inl e, db') \<Rightarrow> (Inl (CE_Database e), db')
                 | (Inr r, db') \<Rightarrow> (if cj_conflict r then Inl CE_Key_Reused else Inr r, db')))))"

section \<open>Claiming\<close>

definition lane_candidate :: "millis \<Rightarrow> message_job \<Rightarrow> bool" where
  "lane_candidate now j \<longleftrightarrow> mj_status j = SCHEDULED \<and> \<not> mj_dryRun j
     \<and> (mj_scheduledAt j \<le> now \<or> mj_deferReason j = Some ''SESSION_OPERATION_IN_FLIGHT'')"

definition due_key :: "message_job \<Rightarrow> nat \<times> int \<times> int \<times> string" where
  "due_key j = (defer_rank j, mj_scheduledAt j, mj_createdAt j, mj_id j)"

definition lane_due :: "millis \<Rightarrow> runtime_db \<Rightarrow> string \<Rightarrow> message_job option" where
  "lane_due now db s =
     (case sort_key due_key (filter (\<lambda>j. mj_sessionId j = s \<and> lane_candidate now j \<and> run_allows db (mj_id j)) (db_jobs db)) of
        [] \<Rightarrow> None | j # _ \<Rightarrow> Some j)"

definition in_flight :: "message_job \<Rightarrow> bool" where
  "in_flight j \<longleftrightarrow> \<not> mj_dryRun j \<and> (mj_status j = QUEUED \<or> mj_status j = PROCESSING)"

definition lane_free :: "millis \<Rightarrow> runtime_db \<Rightarrow> string \<Rightarrow> bool" where
  "lane_free now db s \<longleftrightarrow>
     \<not> list_ex (\<lambda>j. mj_sessionId j = s \<and> in_flight j) (db_jobs db)
     \<and> \<not> list_ex (\<lambda>(((st, u, ls), lane), l). st = SESSION \<and> ls = s \<and> lane = ACTIVE_SESSION \<and> now < sl_expiresAt l) (db_leases db)"

definition claimable_live :: "millis \<Rightarrow> runtime_db \<Rightarrow> message_job list" where
  "claimable_live now db =
     sort_key due_key (somes (map (\<lambda>s. if lane_free now db s then lane_due now db s else None) (db_lanes db)))"

definition claimable_dry :: "millis \<Rightarrow> runtime_db \<Rightarrow> message_job list" where
  "claimable_dry now db = sort_key (\<lambda>j. (mj_scheduledAt j, mj_createdAt j, mj_id j))
     (filter (\<lambda>j. mj_status j = SCHEDULED \<and> mj_dryRun j \<and> mj_scheduledAt j \<le> now \<and> run_allows db (mj_id j)) (db_jobs db))"

definition open_lanes :: "millis \<Rightarrow> unit tx" where
  "open_lanes now = tx_modify (\<lambda>db. db\<lparr>db_lanes := db_lanes db @
     filter (\<lambda>s. s \<notin> set (db_lanes db)) (remdups (map mj_sessionId (filter (lane_candidate now) (db_jobs db))))\<rparr>)"

definition queue_jobs :: "millis \<Rightarrow> message_job list \<Rightarrow> message_job list tx" where
  "queue_jobs now js = update_jobs (\<lambda>j. mj_id j \<in> set (map mj_id js) \<and> mj_status j = SCHEDULED)
     (\<lambda>j. j\<lparr>mj_status := QUEUED, mj_deferReason := None, mj_updatedAt := now\<rparr>)"

definition claim_due :: "millis \<Rightarrow> int \<Rightarrow> message_job list tx" where
  "claim_due now limit =
     (if limit \<le> 0 then tx_return []
      else tx_bind (open_lanes now) (\<lambda>_.
        tx_bind (\<lambda>db. queue_jobs now (take (nat limit) (claimable_live now db)) db) (\<lambda>live.
        if limit - int (length live) \<le> 0 then tx_return live
        else tx_bind (\<lambda>db. queue_jobs now (take (nat limit - length live) (claimable_dry now db)) db) (\<lambda>dry.
          tx_return (live @ dry)))))"

section \<open>Processing\<close>

definition default_processing_lease_ttl_ms :: int where
  "default_processing_lease_ttl_ms = 120000"

definition first_row :: "'r list \<Rightarrow> 'r option" where
  "first_row rows = (case rows of [] \<Rightarrow> None | r # _ \<Rightarrow> Some r)"

definition mark_processing :: "millis \<Rightarrow> string \<Rightarrow> message_job option tx" where
  "mark_processing now i db =
     tx_bind (update_jobs (\<lambda>j. mj_id j = i \<and> mj_status j = QUEUED \<and> mj_cancelRequestedAt j = None \<and> run_allows db (mj_id j))
        (\<lambda>j. j\<lparr>mj_status := PROCESSING, mj_claimCount := Suc (mj_claimCount j),
               mj_leaseExpiresAt := Some (now + 2 * minute_ms), mj_updatedAt := now\<rparr>))
       (\<lambda>rows. tx_return (first_row rows)) db"

definition lease_runs :: "millis \<Rightarrow> message_job \<Rightarrow> bool" where
  "lease_runs now j \<longleftrightarrow> (case mj_leaseExpiresAt j of None \<Rightarrow> False | Some t \<Rightarrow> now < t)"

definition lease_expired :: "millis \<Rightarrow> message_job \<Rightarrow> bool" where
  "lease_expired now j \<longleftrightarrow> (case mj_leaseExpiresAt j of None \<Rightarrow> False | Some t \<Rightarrow> t < now)"

definition refresh_processing_lease :: "millis \<Rightarrow> string \<Rightarrow> millis \<Rightarrow> bool tx" where
  "refresh_processing_lease now i ttl =
     tx_bind (update_jobs (\<lambda>j. mj_id j = i \<and> mj_status j = PROCESSING \<and> lease_runs now j)
        (\<lambda>j. j\<lparr>mj_leaseExpiresAt := Some (now + ttl), mj_updatedAt := now\<rparr>))
       (\<lambda>rows. tx_return (length rows = 1))"

definition reset_queued :: "millis \<Rightarrow> string \<Rightarrow> string \<Rightarrow> unit tx" where
  "reset_queued now i err =
     tx_bind (update_jobs (\<lambda>j. mj_id j = i \<and> mj_status j = QUEUED)
        (\<lambda>j. j\<lparr>mj_status := SCHEDULED, mj_lastError := Some err, mj_updatedAt := now\<rparr>)) (\<lambda>_. tx_return ())"

text \<open>\<open>INSERT INTO message_attempts ... ON CONFLICT (message_job_id, attempt_number) DO UPDATE\<close>: the columns both
  branches set, and what the conflict branch changes besides.\<close>

definition bare_attempt ::
  "string \<times> string \<Rightarrow> string \<Rightarrow> nat \<Rightarrow> attempt_outcome \<Rightarrow> string option \<Rightarrow> millis option \<Rightarrow> int option \<Rightarrow> message_attempt" where
  "bare_attempt ids job n out err started version =
     \<lparr>ma_jobId = job, ma_number = n, ma_outcome = out, ma_error = err, ma_upstreamStartedAt = started,
      ma_policyVersion = version, ma_attemptId = fst ids, ma_commandId = snd ids, ma_transport = None, ma_binding = None,
      ma_permit = None, ma_upstream = None, ma_profile = None, ma_payloadSha256 = None, ma_body = None,
      ma_expiresAt = None, ma_deliveries = 0, ma_nextAttemptAt = None, ma_leaseId = None, ma_leaseExpiresAt = None,
      ma_ingressError = None, ma_failureKind = None, ma_ingressAcceptedAt = None, ma_transportStartedAt = None,
      ma_transportAcceptedAt = None, ma_lastSequence = 0, ma_lastEvidenceAt = None, ma_messageId = None\<rparr>"

definition update_attempts :: "(message_attempt \<Rightarrow> bool) \<Rightarrow> (message_attempt \<Rightarrow> message_attempt) \<Rightarrow> message_attempt list tx" where
  "update_attempts P f db =
     Inr (map f (filter P (db_attempts db)), db\<lparr>db_attempts := update_where P f (db_attempts db)\<rparr>)"

definition upsert_attempt ::
  "string \<times> string \<Rightarrow> message_job \<Rightarrow> attempt_outcome \<Rightarrow> string option \<Rightarrow> (message_attempt \<Rightarrow> message_attempt) \<Rightarrow> unit tx" where
  "upsert_attempt ids j out err extra db =
     (if list_ex (\<lambda>a. ma_jobId a = mj_id j \<and> ma_number a = mj_attemptCount j) (db_attempts db)
      then tx_bind (update_attempts (\<lambda>a. ma_jobId a = mj_id j \<and> ma_number a = mj_attemptCount j)
             (\<lambda>a. extra (a\<lparr>ma_outcome := out, ma_error := err, ma_upstreamStartedAt := mj_upstreamStartedAt j,
                ma_policyVersion := mj_policyVersion j\<rparr>))) (\<lambda>_. tx_return ()) db
      else insert_attempt (bare_attempt ids (mj_id j) (mj_attemptCount j) out err (mj_upstreamStartedAt j) (mj_policyVersion j)) db)"

definition reschedule_processing :: "millis \<Rightarrow> string \<times> string \<Rightarrow> string \<Rightarrow> string \<Rightarrow> millis \<Rightarrow> bool tx" where
  "reschedule_processing now ids i err delay db =
     (case List.find (\<lambda>j. mj_id j = i \<and> mj_status j = PROCESSING) (db_jobs db) of
        None \<Rightarrow> Inr (False, db)
      | Some before \<Rightarrow>
          tx_bind (update_jobs (\<lambda>j. mj_id j = i \<and> mj_status j = PROCESSING)
            (\<lambda>j. j\<lparr>mj_status := SCHEDULED, mj_scheduledAt := now + delay, mj_lastError := Some err,
               mj_leaseExpiresAt := None, mj_upstreamStartedAt := None, mj_leaseToken := None, mj_updatedAt := now\<rparr>))
          (\<lambda>rows. if length rows \<noteq> 1 then tx_return False
             else tx_bind (upsert_attempt ids before Retried (Some err) (\<lambda>a. a\<lparr>ma_transport := Some FAILED_DEFINITIVE\<rparr>))
               (\<lambda>_. tx_return True)) db)"

definition defer_processing :: "millis \<Rightarrow> string \<Rightarrow> string \<Rightarrow> millis \<Rightarrow> string option \<Rightarrow> bool tx" where
  "defer_processing now i err notBefore reason =
     tx_bind (update_jobs (\<lambda>j. mj_id j = i \<and> mj_status j = PROCESSING \<and> mj_upstreamStartedAt j = None)
        (\<lambda>j. j\<lparr>mj_status := SCHEDULED, mj_scheduledAt := notBefore, mj_lastError := Some err, mj_deferReason := reason,
           mj_leaseExpiresAt := None, mj_leaseToken := None, mj_updatedAt := now\<rparr>))
       (\<lambda>rows. tx_return (length rows = 1))"

definition recover_stale_queued :: "millis \<Rightarrow> nat tx" where
  "recover_stale_queued now =
     tx_bind (update_jobs (\<lambda>j. mj_status j = QUEUED \<and> mj_updatedAt j < now - 2 * minute_ms)
        (\<lambda>j. j\<lparr>mj_status := SCHEDULED, mj_lastError := Some ''Recovered stale queued job'', mj_updatedAt := now\<rparr>))
       (\<lambda>rows. tx_return (length rows))"

definition lease_lost_error :: string where
  "lease_lost_error = ''Processing lease expired; delivery outcome is unknown''"

text \<open>Two statements: jobs that did not start are scheduled again, the others become UNKNOWN. Their ids are those before the
  update, so \<open>expired\<close> is the list of rows the second update returns.\<close>

definition recover_unstarted :: "millis \<Rightarrow> unit tx" where
  "recover_unstarted now =
     tx_bind (update_jobs (\<lambda>j. mj_status j = PROCESSING \<and> lease_expired now j \<and> mj_upstreamStartedAt j = None)
        (\<lambda>j. j\<lparr>mj_status := SCHEDULED, mj_scheduledAt := now,
           mj_lastError := Some ''Recovered processing job before upstream start'', mj_leaseExpiresAt := None,
           mj_leaseToken := None, mj_updatedAt := now\<rparr>)) (\<lambda>_. tx_return ())"

definition mark_started_unknown :: "millis \<Rightarrow> (string \<Rightarrow> string \<times> string) \<Rightarrow> nat tx" where
  "mark_started_unknown now ids =
     tx_bind (update_jobs (\<lambda>j. mj_status j = PROCESSING \<and> lease_expired now j \<and> mj_upstreamStartedAt j \<noteq> None)
        (\<lambda>j. j\<lparr>mj_status := UNKNOWN, mj_lastError := Some lease_lost_error, mj_leaseExpiresAt := None,
           mj_leaseToken := None, mj_updatedAt := now\<rparr>)) (\<lambda>expired.
     tx_bind (tx_iter (\<lambda>j. upsert_attempt (ids (mj_id j)) j (Outcome UNKNOWN) (Some lease_lost_error)
        (\<lambda>a. a\<lparr>ma_transport := Some INDETERMINATE\<rparr>)) expired) (\<lambda>_.
     tx_return (length expired)))"

definition mark_expired_processing_unknown :: "millis \<Rightarrow> (string \<Rightarrow> string \<times> string) \<Rightarrow> runtime_db \<Rightarrow> (db_error + nat) \<times> runtime_db" where
  "mark_expired_processing_unknown now ids db =
     (case transaction (recover_unstarted now) db of
        (Inl e, db') \<Rightarrow> (Inl e, db')
      | (Inr _, db') \<Rightarrow> transaction (mark_started_unknown now ids) db')"

fun result_transport :: "job_status \<Rightarrow> transport_state option \<Rightarrow> transport_state option" where
  "result_transport ACCEPTED _ = Some TS_SEND_ACCEPTED"
| "result_transport SENT _ = Some TS_SENT"
| "result_transport DELIVERED _ = Some TS_DELIVERED"
| "result_transport READ _ = Some TS_READ"
| "result_transport FAILED _ = Some FAILED_DEFINITIVE"
| "result_transport UNKNOWN _ = Some INDETERMINATE"
| "result_transport _ t = t"

definition coalesce :: "'a option \<Rightarrow> 'a option \<Rightarrow> 'a option" where
  "coalesce a b = (case a of Some x \<Rightarrow> Some x | None \<Rightarrow> b)"

definition update_result ::
  "millis \<Rightarrow> string \<times> string \<Rightarrow> string \<Rightarrow> job_status \<Rightarrow> string option \<Rightarrow> string option \<Rightarrow> unit tx" where
  "update_result now ids i status messageId err =
     tx_bind (update_jobs (\<lambda>j. mj_id j = i \<and> mj_status j = PROCESSING)
        (\<lambda>j. j\<lparr>mj_status := status, mj_messageId := coalesce messageId (mj_messageId j), mj_lastError := err,
           mj_leaseExpiresAt := None, mj_updatedAt := now\<rparr>))
       (\<lambda>rows. case rows of [] \<Rightarrow> tx_return ()
          | j # _ \<Rightarrow> upsert_attempt ids j (Outcome status) err
              (\<lambda>a. a\<lparr>ma_transport := result_transport status (ma_transport a),
                 ma_transportAcceptedAt := (if status = ACCEPTED then Some now else ma_transportAcceptedAt a),
                 ma_messageId := coalesce messageId (ma_messageId a)\<rparr>))"

end
