(* ===== verification/Status_Projection.thy ===== *)
theory Status_Projection
  imports Message_Jobs
begin

text \<open>
  \<open>MessageStatusProjectionService\<close> (\<open>message-status-projection.service.ts\<close>): message events of the gateway
  move the job they belong to. \<open>lower\<close> is \<open>toLowerCase\<close>.
\<close>

definition delivery_rank :: "job_status \<Rightarrow> int" where
  "delivery_rank s = (case s of ACCEPTED \<Rightarrow> 10 | SENT \<Rightarrow> 20 | DELIVERED \<Rightarrow> 30 | READ \<Rightarrow> 40 | _ \<Rightarrow> 0)"

definition message_status_from_event :: "(string \<Rightarrow> string) \<Rightarrow> string \<Rightarrow> string option \<Rightarrow> job_status option" where
  "message_status_from_event lower eventType deliveryStatus =
     (if eventType = ''message.sent'' then Some SENT
      else if eventType = ''message.failed'' then Some FAILED
      else if eventType \<noteq> ''message.ack'' then None
      else map_of [(''sent'', SENT), (''delivered'', DELIVERED), (''read'', READ), (''failed'', FAILED)]
             (case deliveryStatus of None \<Rightarrow> [] | Some s \<Rightarrow> lower s))"

definition next_projected_message_status :: "job_status \<Rightarrow> job_status \<Rightarrow> job_status" where
  "next_projected_message_status current incoming =
     (if current \<in> {FAILED, CANCELLED, DRY_RUN_COMPLETED} then current
      else if incoming = FAILED
      then (if current \<in> {SCHEDULED, QUEUED, PROCESSING, ACCEPTED, SENT, UNKNOWN} then FAILED else current)
      else if delivery_rank current < delivery_rank incoming then incoming else current)"

datatype result_state = RS_Missing | RS_Pending | RS_Applied | RS_Ignored

record projection_result =
  pj_state :: result_state
  pj_statusAdvanced :: bool
  pj_jobId :: "string option"

fun result_state_of :: "projection_state \<Rightarrow> result_state" where
  "result_state_of PS_PENDING = RS_Pending"
| "result_state_of PS_APPLIED = RS_Applied"
| "result_state_of PS_IGNORED = RS_Ignored"

definition find_event :: "runtime_db \<Rightarrow> string \<Rightarrow> message_event option" where
  "find_event db e = List.find (\<lambda>x. me_eventId x = e) (db_events db)"

definition find_job_of_message :: "runtime_db \<Rightarrow> string \<Rightarrow> string \<Rightarrow> message_job option" where
  "find_job_of_message db s m = List.find (\<lambda>j. mj_sessionId j = s \<and> mj_messageId j = Some m) (db_jobs db)"

definition mark_event :: "string \<Rightarrow> projection_state \<Rightarrow> string option \<Rightarrow> unit tx" where
  "mark_event e st job = tx_modify (\<lambda>db. db\<lparr>db_events := update_where (\<lambda>x. me_eventId x = e)
     (\<lambda>x. x\<lparr>me_state := st, me_attempts := Suc (me_attempts x), me_jobId := coalesce job (me_jobId x)\<rparr>) (db_events db)\<rparr>)"

definition project_event :: "(string \<Rightarrow> string) \<Rightarrow> millis \<Rightarrow> string \<Rightarrow> projection_result tx" where
  "project_event lower now e db =
     (case find_event db e of
        None \<Rightarrow> Inr (\<lparr>pj_state = RS_Missing, pj_statusAdvanced = False, pj_jobId = None\<rparr>, db)
      | Some ev \<Rightarrow>
     (if me_state ev \<noteq> PS_PENDING
      then Inr (\<lparr>pj_state = result_state_of (me_state ev), pj_statusAdvanced = False, pj_jobId = None\<rparr>, db)
      else case message_status_from_event lower (me_eventType ev) (me_deliveryStatus ev) of
        None \<Rightarrow> tx_bind (mark_event e PS_IGNORED None)
          (\<lambda>_. tx_return \<lparr>pj_state = RS_Ignored, pj_statusAdvanced = False, pj_jobId = None\<rparr>) db
      | Some incoming \<Rightarrow>
     (case find_job_of_message db (me_sessionId ev) (me_messageId ev) of
        None \<Rightarrow> tx_bind (mark_event e PS_PENDING None)
          (\<lambda>_. tx_return \<lparr>pj_state = RS_Pending, pj_statusAdvanced = False, pj_jobId = None\<rparr>) db
      | Some j \<Rightarrow>
          (let nxt = next_projected_message_status (mj_status j) incoming; advanced = (nxt \<noteq> mj_status j) in
           tx_bind (if advanced
               then update_jobs (\<lambda>r. mj_id r = mj_id j) (\<lambda>r. r\<lparr>mj_status := nxt,
                 mj_lastError := (if nxt = FAILED then Some ''OpenWA reported delivery failure'' else None),
                 mj_updatedAt := now\<rparr>)
               else tx_return []) (\<lambda>_.
           tx_bind (mark_event e PS_APPLIED (Some (mj_id j))) (\<lambda>_.
           tx_return \<lparr>pj_state = RS_Applied, pj_statusAdvanced = advanced, pj_jobId = Some (mj_id j)\<rparr>)) db))))"

definition event_order :: "message_event list \<Rightarrow> message_event list" where
  "event_order = sort_key (\<lambda>x. (me_occurredAt x, me_eventId x))"

definition pending_of :: "runtime_db \<Rightarrow> string \<Rightarrow> string \<Rightarrow> message_event list" where
  "pending_of db s m = event_order
     (filter (\<lambda>x. me_sessionId x = s \<and> me_messageId x = m \<and> me_state x = PS_PENDING) (db_events db))"

definition reconcile_pending_for_job :: "(string \<Rightarrow> string) \<Rightarrow> millis \<Rightarrow> string \<Rightarrow> nat tx" where
  "reconcile_pending_for_job lower now i db =
     (case find_job db i of
        None \<Rightarrow> Inr (0, db)
      | Some j \<Rightarrow>
     (case mj_messageId j of
        None \<Rightarrow> Inr (0, db)
      | Some m \<Rightarrow> if m = [] then Inr (0, db)
          else (let es = pending_of db (mj_sessionId j) m in
            tx_bind (tx_iter (\<lambda>x. tx_bind (project_event lower now (me_eventId x)) (\<lambda>_. tx_return ())) es)
              (\<lambda>_. tx_return (length es)) db)))"

text \<open>\<open>repairPending\<close>: one transaction per event; the failures are counted and reported together at the end.\<close>

definition repairable :: "runtime_db \<Rightarrow> message_event list" where
  "repairable db = event_order (filter (\<lambda>x. me_state x = PS_PENDING
     \<and> find_job_of_message db (me_sessionId x) (me_messageId x) \<noteq> None) (db_events db))"

fun repair_loop :: "(string \<Rightarrow> string) \<Rightarrow> millis \<Rightarrow> string list \<Rightarrow> nat \<Rightarrow> db_error list \<Rightarrow> runtime_db \<Rightarrow> (db_error list + nat) \<times> runtime_db" where
  "repair_loop lower now [] repaired errs db = (if errs = [] then Inr repaired else Inl errs, db)"
| "repair_loop lower now (e # es) repaired errs db =
     (case transaction (project_event lower now e) db of
        (Inl x, db') \<Rightarrow> repair_loop lower now es repaired (errs @ [x]) db'
      | (Inr r, db') \<Rightarrow> repair_loop lower now es
          (if pj_state r = RS_Applied \<or> pj_state r = RS_Ignored then Suc repaired else repaired) errs db')"

definition repair_pending :: "(string \<Rightarrow> string) \<Rightarrow> millis \<Rightarrow> nat \<Rightarrow> runtime_db \<Rightarrow> (db_error list + nat) \<times> runtime_db" where
  "repair_pending lower now limit db =
     repair_loop lower now (map me_eventId (take limit (repairable db))) 0 [] db"

end
