(* ===== verification/Safety_Outcomes.thy ===== *)
theory Safety_Outcomes
  imports Safety_Governor
begin

text \<open>
  What \<open>OpenWASafetyRepository\<close> does with the outcome of a permit (\<open>recordOutcomeWithClient\<close> and the adaptive
  updates), releasing, the operator's mutations with their receipts, the quiescence reports, and
  \<open>OpenWASafetyGovernorService\<close>.
\<close>

section \<open>Outcomes\<close>

text \<open>A permit as far as its outcome is concerned; a message permit names its job.\<close>

record permit_ref =
  pr_token :: string
  pr_upstreamId :: string
  pr_sessionId :: string
  pr_jobId :: "string option"

definition message_ref :: "message_permit \<Rightarrow> permit_ref" where
  "message_ref p = \<lparr>pr_token = mpt_leaseToken p, pr_upstreamId = mpt_upstreamId p, pr_sessionId = mpt_sessionId p,
     pr_jobId = Some (mpt_jobId p)\<rparr>"

definition operation_ref :: "operation_permit \<Rightarrow> permit_ref" where
  "operation_ref p = \<lparr>pr_token = opt_token p, pr_upstreamId = opt_upstreamId p, pr_sessionId = opt_sessionId p, pr_jobId = None\<rparr>"

definition ref_keys :: "permit_ref \<Rightarrow> scope_key list" where
  "ref_keys p = scope_keys (pr_upstreamId p) (pr_sessionId p)"

definition update_scopes :: "(scope_key \<Rightarrow> scope_row \<Rightarrow> bool) \<Rightarrow> (scope_row \<Rightarrow> scope_row) \<Rightarrow> unit tx" where
  "update_scopes P f = tx_modify (\<lambda>db. db\<lparr>db_scopes := update_keyed P f (db_scopes db)\<rparr>)"

definition update_buckets :: "(bucket_key \<Rightarrow> bucket_row \<Rightarrow> bool) \<Rightarrow> (bucket_row \<Rightarrow> bucket_row) \<Rightarrow> unit tx" where
  "update_buckets P f = tx_modify (\<lambda>db. db\<lparr>db_buckets := update_keyed P f (db_buckets db)\<rparr>)"

definition touch_scope :: "millis \<Rightarrow> scope_row \<Rightarrow> scope_row" where
  "touch_scope now r = r\<lparr>sc_revision := Suc (sc_revision r), sc_updatedAt := now\<rparr>"

definition success_scope :: "millis \<Rightarrow> scope_row \<Rightarrow> scope_row" where
  "success_scope now r = touch_scope now (r\<lparr>sc_rateLimits := 0, sc_transientFailures := 0, sc_ambiguousOutcomes := 0,
     sc_successStreak := Suc (sc_successStreak r), sc_lastSuccessAt := Some now,
     sc_circuit := (if sc_circuit r = HALF_OPEN then CLOSED else sc_circuit r),
     sc_cooldownUntil := (if sc_circuit r = HALF_OPEN then None else sc_cooldownUntil r),
     sc_reason := (if sc_circuit r = HALF_OPEN then None else sc_reason r)\<rparr>)"

definition streak_ready :: "runtime_db \<Rightarrow> scope_key \<Rightarrow> bool" where
  "streak_ready db k \<longleftrightarrow> (case map_of (db_scopes db) k of None \<Rightarrow> False | Some r \<Rightarrow> 20 \<le> sc_successStreak r)"

definition relaxes :: "permit_ref \<Rightarrow> runtime_db \<Rightarrow> bucket_key \<Rightarrow> bool" where
  "relaxes p db k \<longleftrightarrow>
     (fst k = upstream_key (pr_upstreamId p) \<and> streak_ready db (upstream_key (pr_upstreamId p)))
     \<or> (fst k = session_key (pr_upstreamId p) (pr_sessionId p)
        \<and> streak_ready db (session_key (pr_upstreamId p) (pr_sessionId p)))"

definition bucket_throttled :: "runtime_db \<Rightarrow> scope_key \<Rightarrow> bool" where
  "bucket_throttled db k \<longleftrightarrow> list_ex (\<lambda>(bk, r). fst bk = k \<and> bk_base r < bk_emission r) (db_buckets db)"

definition normalizes :: "millis \<Rightarrow> permit_ref \<Rightarrow> runtime_db \<Rightarrow> scope_key \<Rightarrow> scope_row \<Rightarrow> bool" where
  "normalizes now p db k r \<longleftrightarrow> sc_rateMode r = THROTTLED_MODE
     \<and> (case sc_cooldownUntil r of None \<Rightarrow> True | Some c \<Rightarrow> c \<le> now) \<and> k \<in> set (ref_keys p) \<and> \<not> bucket_throttled db k"

definition record_success :: "millis \<Rightarrow> permit_ref \<Rightarrow> unit tx" where
  "record_success now p =
     tx_bind (update_scopes (\<lambda>k _. k \<in> set (ref_keys p)) (success_scope now)) (\<lambda>_ db.
       if \<not> list_ex (streak_ready db) (ref_keys p) then Inr ((), db)
       else tx_bind (update_buckets (\<lambda>k _. relaxes p db k) relax_bucket) (\<lambda>_.
         tx_bind (update_scopes (\<lambda>k r. k \<in> set (ref_keys p) \<and> 20 \<le> sc_successStreak r)
            (\<lambda>r. r\<lparr>sc_successStreak := sc_successStreak r - 20, sc_updatedAt := now\<rparr>)) (\<lambda>_ db'.
         update_scopes (normalizes now p db')
            (\<lambda>r. touch_scope now (r\<lparr>sc_rateMode := NORMAL, sc_reason := None, sc_cooldownUntil := None\<rparr>)) db')) db)"

definition later :: "millis option \<Rightarrow> millis \<Rightarrow> millis option" where
  "later c t = Some (case c of None \<Rightarrow> t | Some c' \<Rightarrow> max c' t)"

definition rate_limited_scope :: "millis \<Rightarrow> millis \<Rightarrow> scope_row \<Rightarrow> scope_row" where
  "rate_limited_scope now retry r = touch_scope now (r\<lparr>sc_rateMode := THROTTLED_MODE,
     sc_reason := (if sc_circuit r = MANUAL_BLOCKED then sc_reason r else Some ''UPSTREAM_RATE_LIMIT''),
     sc_cooldownUntil := (if sc_circuit r = MANUAL_BLOCKED then sc_cooldownUntil r else later (sc_cooldownUntil r) (now + retry)),
     sc_circuit := (if sc_circuit r = HALF_OPEN then OPEN else sc_circuit r),
     sc_rateLimits := Suc (sc_rateLimits r), sc_successStreak := 0, sc_lastFailureAt := Some now,
     sc_lastPressureAt := Some now\<rparr>)"

definition slows :: "permit_ref \<Rightarrow> bucket_key \<Rightarrow> bool" where
  "slows p k \<longleftrightarrow> (case fst k of (_, u, s) \<Rightarrow> u = pr_upstreamId p \<and> (s = [] \<or> s = pr_sessionId p))"

definition record_rate_limit :: "millis \<Rightarrow> permit_ref \<Rightarrow> millis option \<Rightarrow> unit tx" where
  "record_rate_limit now p retry =
     tx_bind (update_scopes (\<lambda>k _. k \<in> set (ref_keys p))
        (rate_limited_scope now (case retry of None \<Rightarrow> 60000 | Some ms \<Rightarrow> ms))) (\<lambda>_.
     update_buckets (\<lambda>k _. slows p k) slow_bucket)"

definition failure_cooldown_ms :: int where
  "failure_cooldown_ms = 15 * minute_ms"

definition failed_scope :: "millis \<Rightarrow> bool \<Rightarrow> scope_row \<Rightarrow> scope_row" where
  "failed_scope now ambiguous r =
     (let count = Suc (if ambiguous then sc_ambiguousOutcomes r else sc_transientFailures r);
          held = (sc_circuit r = MANUAL_BLOCKED);
          trips = (sc_circuit r = HALF_OPEN \<or> 3 \<le> count)
      in touch_scope now (r\<lparr>
        sc_ambiguousOutcomes := (if ambiguous then count else sc_ambiguousOutcomes r),
        sc_transientFailures := (if ambiguous then sc_transientFailures r else count),
        sc_successStreak := 0, sc_lastFailureAt := Some now,
        sc_circuit := (if held then sc_circuit r else if trips then OPEN else sc_circuit r),
        sc_cooldownUntil := (if held then sc_cooldownUntil r else if trips then Some (now + failure_cooldown_ms)
           else sc_cooldownUntil r),
        sc_reason := (if held then sc_reason r
           else if trips then Some (if ambiguous then ''AMBIGUOUS_OUTCOME'' else ''UPSTREAM_FAILURE_STREAK'')
           else sc_reason r)\<rparr>))"

definition record_failure :: "millis \<Rightarrow> permit_ref \<Rightarrow> bool \<Rightarrow> unit tx" where
  "record_failure now p ambiguous = update_scopes (\<lambda>k _. k \<in> set (ref_keys p)) (failed_scope now ambiguous)"

definition block_session :: "millis \<Rightarrow> permit_ref \<Rightarrow> string \<Rightarrow> unit tx" where
  "block_session now p reason = update_scopes (\<lambda>k _. k = session_key (pr_upstreamId p) (pr_sessionId p))
     (\<lambda>r. touch_scope now (r\<lparr>sc_blockedAt := Some now, sc_blockReason := Some reason, sc_lastFailureAt := Some now\<rparr>))"

definition release_permit :: "millis \<Rightarrow> permit_ref \<Rightarrow> unit tx" where
  "release_permit now p = tx_modify (\<lambda>db.
     let freed = (if pr_token p = [] then db
        else db\<lparr>db_leases := filter (\<lambda>((k, lane), l). \<not> (sl_token l = pr_token p \<and> k \<in> set (ref_keys p))) (db_leases db)\<rparr>)
     in case pr_jobId p of
          None \<Rightarrow> freed
        | Some j \<Rightarrow> freed\<lparr>db_jobs := update_where (\<lambda>r. mj_id r = j \<and> mj_leaseToken r = Some (pr_token p))
            (\<lambda>r. r\<lparr>mj_leaseToken := None, mj_updatedAt := now\<rparr>) (db_jobs freed)\<rparr>)"

text \<open>The upsert of the receipt: a first outcome is recorded, a success may turn into a failure, nothing else.\<close>

definition corrects :: "outcome_kind \<Rightarrow> outcome_kind \<Rightarrow> bool" where
  "corrects old new \<longleftrightarrow> old = OK_SUCCESS
     \<and> new \<in> {OK_RATE_LIMITED, OK_AMBIGUOUS, OK_TRANSIENT_FAILURE, OK_SESSION_RESTRICTED}"

definition record_receipt :: "string \<Rightarrow> outcome_kind \<Rightarrow> bool tx" where
  "record_receipt tok new db =
     (case map_of (db_outcomes db) tok of
        None \<Rightarrow> Inr (True, db\<lparr>db_outcomes := db_outcomes db @ [(tok, new)]\<rparr>)
      | Some old \<Rightarrow>
          if corrects old new
          then Inr (True, db\<lparr>db_outcomes := update_keyed (\<lambda>k _. k = tok) (\<lambda>_. new) (db_outcomes db)\<rparr>)
          else Inr (False, db))"

definition outcome_effect :: "millis \<Rightarrow> permit_ref \<Rightarrow> operation_outcome \<Rightarrow> unit tx" where
  "outcome_effect now p out = (case out of
     Succeeded \<Rightarrow> record_success now p
   | Rate_Limited retry \<Rightarrow> record_rate_limit now p retry
   | Ambiguous \<Rightarrow> record_failure now p True
   | Transient_Failure \<Rightarrow> record_failure now p False
   | Session_Restricted \<Rightarrow> block_session now p ''SESSION_RESTRICTED''
   | Safe_Rejection \<Rightarrow> tx_return ())"

definition record_outcome :: "millis \<Rightarrow> permit_ref \<Rightarrow> operation_outcome \<Rightarrow> unit tx" where
  "record_outcome now p out =
     tx_bind (record_receipt (pr_token p) (kind_of_outcome out)) (\<lambda>recorded.
     tx_bind (if recorded then outcome_effect now p out else tx_return ()) (\<lambda>_. release_permit now p))"

text \<open>\<open>recordMessageAttemptOutcomeWithClient\<close>: the permit is rebuilt from the attempt and its job.\<close>

definition attempt_ref :: "runtime_db \<Rightarrow> string \<Rightarrow> permit_ref option" where
  "attempt_ref db a =
     (case find_attempt db a of None \<Rightarrow> None
      | Some m \<Rightarrow>
     (case (find_job db (ma_jobId m), ma_permit m, ma_upstream m, ma_profile m) of
        (Some j, Some tok, Some u, Some _) \<Rightarrow>
          Some \<lparr>pr_token = tok, pr_upstreamId = u, pr_sessionId = mj_sessionId j, pr_jobId = Some (mj_id j)\<rparr>
      | _ \<Rightarrow> None))"

definition record_attempt_outcome :: "millis \<Rightarrow> string \<Rightarrow> operation_outcome \<Rightarrow> bool tx" where
  "record_attempt_outcome now a out db =
     (case attempt_ref db a of
        None \<Rightarrow> Inr (False, db)
      | Some p \<Rightarrow> tx_bind (record_outcome now p out) (\<lambda>_. tx_return True) db)"

section \<open>Mutations by the operator\<close>

record mutation =
  mu_type :: mutation_type
  mu_key :: string
  mu_requestHash :: string
  mu_upstreamId :: string
  mu_sessionId :: string
  mu_reason :: "string option"
  mu_profile :: safety_profile

definition workspace_mutation :: "mutation_type \<Rightarrow> bool" where
  "workspace_mutation m \<longleftrightarrow> m = WORKSPACE_BLOCK \<or> m = WORKSPACE_RESUME"

definition mutation_subject :: "mutation \<Rightarrow> string" where
  "mutation_subject m = (if workspace_mutation (mu_type m) then ''managed-runtime-workspace'' else mu_sessionId m)"

definition mutation_scope :: "mutation \<Rightarrow> scope_key" where
  "mutation_scope m = (if workspace_mutation (mu_type m) then workspace_key
     else session_key (mu_upstreamId m) (mu_sessionId m))"

definition resumed_scope :: "scope_row \<Rightarrow> scope_row" where
  "resumed_scope r = r\<lparr>sc_circuit := (if sc_circuit r = MANUAL_BLOCKED then CLOSED else sc_circuit r),
     sc_reason := (if sc_circuit r = MANUAL_BLOCKED then None else sc_reason r),
     sc_blockedAt := None, sc_blockReason := None\<rparr>"

definition mutated_scope :: "millis \<Rightarrow> mutation \<Rightarrow> scope_row \<Rightarrow> scope_row" where
  "mutated_scope now m r = touch_scope now (case mu_type m of
     WORKSPACE_BLOCK \<Rightarrow> r\<lparr>sc_blockedAt := Some now, sc_blockReason := Some (first_some [mu_reason m] ''MANAGED_RUNTIME_MAINTENANCE'')\<rparr>
   | WORKSPACE_RESUME \<Rightarrow> resumed_scope r
   | SESSION_BLOCK \<Rightarrow> r\<lparr>sc_blockedAt := Some now, sc_blockReason := Some (first_some [mu_reason m] ''OPERATOR_BLOCKED'')\<rparr>
   | SESSION_RESUME \<Rightarrow> resumed_scope r
   | OUTBOUND_PAUSE \<Rightarrow> r\<lparr>sc_pausedAt := Some now, sc_pauseReason := Some (first_some [mu_reason m] ''OPERATOR_PAUSED_SENDS'')\<rparr>
   | OUTBOUND_RESUME \<Rightarrow> r\<lparr>sc_pausedAt := None, sc_pauseReason := None\<rparr>
   | PROFILE_CHANGE \<Rightarrow> r\<lparr>sc_profile := mu_profile m, sc_policyVersion := safety_policy_version\<rparr>)"

definition mutation_event :: "mutation_type \<Rightarrow> string" where
  "mutation_event t = (case t of
     WORKSPACE_BLOCK \<Rightarrow> ''openwa_safety.workspace_blocked''
   | WORKSPACE_RESUME \<Rightarrow> ''openwa_safety.workspace_resumed''
   | OUTBOUND_PAUSE \<Rightarrow> ''openwa_safety.outbound_paused''
   | OUTBOUND_RESUME \<Rightarrow> ''openwa_safety.outbound_resumed''
   | SESSION_BLOCK \<Rightarrow> ''openwa_safety.session_blocked''
   | SESSION_RESUME \<Rightarrow> ''openwa_safety.session_resumed''
   | PROFILE_CHANGE \<Rightarrow> ''openwa_safety.profile_changed'')"

definition mutation_operation :: "mutation_type \<Rightarrow> string" where
  "mutation_operation t = (case t of
     WORKSPACE_BLOCK \<Rightarrow> ''OPENWA_WORKSPACE_BLOCK''
   | WORKSPACE_RESUME \<Rightarrow> ''OPENWA_WORKSPACE_RESUME''
   | OUTBOUND_PAUSE \<Rightarrow> ''OPENWA_OUTBOUND_PAUSE''
   | OUTBOUND_RESUME \<Rightarrow> ''OPENWA_OUTBOUND_RESUME''
   | SESSION_BLOCK \<Rightarrow> ''OPENWA_SESSION_BLOCK''
   | SESSION_RESUME \<Rightarrow> ''OPENWA_SESSION_RESUME''
   | PROFILE_CHANGE \<Rightarrow> ''OPENWA_SAFETY_PROFILE_CHANGE'')"

definition append_activity :: "string \<Rightarrow> string \<Rightarrow> unit tx" where
  "append_activity dedupe event = tx_modify (\<lambda>db. db\<lparr>db_activity := insert_new dedupe event (db_activity db)\<rparr>)"

definition insert_receipt :: "mutation_type \<times> string \<Rightarrow> mutation_receipt \<Rightarrow> unit tx" where
  "insert_receipt k r db =
     (case map_of (db_mutations db) k of
        Some _ \<Rightarrow> Inl Unique_Violation
      | None \<Rightarrow> Inr ((), db\<lparr>db_mutations := db_mutations db @ [(k, r)]\<rparr>))"

definition receipt_conflicts :: "mutation \<Rightarrow> mutation_receipt \<Rightarrow> bool" where
  "receipt_conflicts m r \<longleftrightarrow> mr_requestHash r \<noteq> mu_requestHash m \<or> mr_sessionId r \<noteq> mu_sessionId m
     \<or> mr_subjectId r \<noteq> mutation_subject m"

definition apply_mutation :: "millis \<Rightarrow> mutation \<Rightarrow> unit tx" where
  "apply_mutation now m =
     tx_bind (update_scopes (\<lambda>k _. k = mutation_scope m) (mutated_scope now m)) (\<lambda>_.
     tx_bind (append_activity (''openwa-safety:'' @ mutation_operation (mu_type m) @ '':'' @ mu_key m)
                (mutation_event (mu_type m))) (\<lambda>_ db.
     insert_receipt (mu_type m, mu_key m)
       \<lparr>mr_requestHash = mu_requestHash m, mr_sessionId = mu_sessionId m, mr_subjectId = mutation_subject m,
        mr_resultId = mutation_subject m,
        mr_resultRevision = (case map_of (db_scopes db) (mutation_scope m) of None \<Rightarrow> 0 | Some r \<Rightarrow> sc_revision r)\<rparr> db))"

definition mutate_workspace :: "millis \<Rightarrow> millis \<Rightarrow> mutation \<Rightarrow> safety_snapshot tx" where
  "mutate_workspace js now m db =
     (let known = map_of (db_mutations db) (mu_type m, mu_key m) in
      if (case known of None \<Rightarrow> False | Some r \<Rightarrow> receipt_conflicts m r) then Inl Mutation_Conflict
      else
        tx_bind (ensure_scopes now (mu_upstreamId m) (mu_sessionId m)) (\<lambda>_.
        tx_bind (if known = None then apply_mutation now m else tx_return ()) (\<lambda>_.
        tx_bind (lock_scopes (mu_upstreamId m) (mu_sessionId m)) (\<lambda>locked.
        tx_bind (transition_expired js now locked) (effective_session js)))) db)"

definition mutate_session :: "millis \<Rightarrow> millis \<Rightarrow> mutation \<Rightarrow> safety_snapshot tx" where
  "mutate_session js now m db =
     (let known = map_of (db_mutations db) (mu_type m, mu_key m) in
      if (case known of None \<Rightarrow> False | Some r \<Rightarrow> receipt_conflicts m r) then Inl Mutation_Conflict
      else
        tx_bind (ensure_scopes now (mu_upstreamId m) (mu_sessionId m)) (\<lambda>_.
        if known = None
        then tx_bind (apply_mutation now m) (\<lambda>_.
             tx_bind (lock_scopes (mu_upstreamId m) (mu_sessionId m)) (effective_session js))
        else tx_bind (lock_scopes (mu_upstreamId m) (mu_sessionId m)) (\<lambda>locked.
             tx_bind (transition_expired js now locked) (effective_session js))) db)"

section \<open>Quiescence\<close>

record quiescence =
  qu_drained :: bool
  qu_processing :: nat
  qu_unsettled :: nat
  qu_leases :: nat

definition unsettled_states :: "transport_state list" where
  "unsettled_states = [DISPATCH_STARTED, INGRESS_ACCEPTED, TS_SEND_STARTED]"

definition unsettled :: "message_attempt \<Rightarrow> bool" where
  "unsettled a \<longleftrightarrow> (case ma_transport a of None \<Rightarrow> False | Some t \<Rightarrow> t \<in> set unsettled_states)"

definition quiescence_of :: "nat \<Rightarrow> nat \<Rightarrow> nat \<Rightarrow> quiescence" where
  "quiescence_of jobs commands leases = \<lparr>qu_drained = (jobs = 0 \<and> commands = 0 \<and> leases = 0), qu_processing = jobs,
     qu_unsettled = commands, qu_leases = leases\<rparr>"

definition session_quiescence :: "millis \<Rightarrow> string \<Rightarrow> string \<Rightarrow> runtime_db \<Rightarrow> quiescence" where
  "session_quiescence now u s db = quiescence_of
     (length (filter (\<lambda>j. mj_sessionId j = s \<and> mj_status j = PROCESSING) (db_jobs db)))
     (length (filter (\<lambda>a. unsettled a \<and> (case find_job db (ma_jobId a) of None \<Rightarrow> False | Some j \<Rightarrow> mj_sessionId j = s))
        (db_attempts db)))
     (length (filter (\<lambda>(((st, lu, ls), lane), l). lu = u \<and> ls = s \<and> now < sl_expiresAt l) (db_leases db)))"

definition workspace_quiescence :: "millis \<Rightarrow> runtime_db \<Rightarrow> quiescence" where
  "workspace_quiescence now db = quiescence_of
     (length (filter (\<lambda>j. mj_status j = PROCESSING) (db_jobs db)))
     (length (filter unsettled (db_attempts db)))
     (length (filter (\<lambda>(k, l). now < sl_expiresAt l) (db_leases db)))"

section \<open>The service\<close>

record governor_config =
  gc_upstreamId :: string
  gc_requestDeadlineMs :: int
  gc_evidenceTimeoutSeconds :: int
  gc_connectorRequired :: bool
  gc_inboxConfigured :: bool
  gc_inboxPollMs :: int

text \<open>\<open>readiness\<close> is the answer of the readiness service, \<open>None\<close> when there is no such service.\<close>

definition dispatch_hold :: "governor_config \<Rightarrow> (bool \<times> string option) option \<Rightarrow> string option" where
  "dispatch_hold c readiness =
     (case (case readiness of Some r \<Rightarrow> Some r
            | None \<Rightarrow> if gc_inboxConfigured c then Some (False, Some ''event_inbox_dispatch_readiness_unavailable'') else None) of
        Some (False, reason) \<Rightarrow> Some (first_some [reason] ''EVENT_INBOX_RECOVERY_PENDING'')
      | _ \<Rightarrow> None)"

definition message_lease_ttl :: "governor_config \<Rightarrow> millis" where
  "message_lease_ttl c = max (gc_requestDeadlineMs c)
     (if gc_connectorRequired c then gc_evidenceTimeoutSeconds c * 1000 else 0) + 30000"

definition governor_reserve_message ::
  "governor_config \<Rightarrow> (bool \<times> string option) option \<Rightarrow> millis \<Rightarrow> millis \<Rightarrow> string \<Rightarrow> string \<Rightarrow> string \<Rightarrow> string \<Rightarrow> message_type
     \<Rightarrow> message_permit decision tx" where
  "governor_reserve_message c readiness js now tok s job recipient t =
     (case dispatch_hold c readiness of
        Some reason \<Rightarrow> tx_return (Deferred (js + gc_inboxPollMs c) reason)
      | None \<Rightarrow> reserve_message js now tok (gc_upstreamId c) s job recipient t (message_lease_ttl c))"

definition governor_reserve_operation ::
  "governor_config \<Rightarrow> millis \<Rightarrow> millis \<Rightarrow> string \<Rightarrow> string \<Rightarrow> operation_class \<Rightarrow> string \<Rightarrow> string \<Rightarrow> int
     \<Rightarrow> operation_permit decision tx" where
  "governor_reserve_operation c js now tok s cls htype hid cost =
     reserve_operation js now tok (gc_upstreamId c) s cls htype hid (gc_requestDeadlineMs c + 30000) cost"

end
