(* ===== verification/Delivery_Evidence.thy ===== *)
theory Delivery_Evidence
  imports Status_Projection Safety_Outcomes
begin

text \<open>
  \<open>MessageDeliveryEvidenceService\<close> (\<open>message-delivery-evidence.service.ts\<close>): evidence of the connector
  moves the transport state of its attempt and the status of the job. The evidence itself stands for the hash
  of its serialisation (two evidences have the same hash if they are equal).
\<close>

definition transport_rank :: "transport_state \<Rightarrow> int" where
  "transport_rank t = (case t of DISPATCH_STARTED \<Rightarrow> 5 | INGRESS_ACCEPTED \<Rightarrow> 10 | TS_SEND_STARTED \<Rightarrow> 15
     | TS_SEND_ACCEPTED \<Rightarrow> 20 | TS_SENT \<Rightarrow> 30 | TS_DELIVERED \<Rightarrow> 40 | TS_READ \<Rightarrow> 50 | _ \<Rightarrow> 0)"

fun transport_state_from_evidence :: "evidence_kind \<Rightarrow> transport_state" where
  "transport_state_from_evidence COMMAND_RECEIVED = INGRESS_ACCEPTED"
| "transport_state_from_evidence EV_SEND_STARTED = TS_SEND_STARTED"
| "transport_state_from_evidence EV_SEND_ACCEPTED = TS_SEND_ACCEPTED"
| "transport_state_from_evidence EV_SEND_REJECTED = FAILED_DEFINITIVE"
| "transport_state_from_evidence EV_SEND_INDETERMINATE = INDETERMINATE"
| "transport_state_from_evidence ACK_SENT = TS_SENT"
| "transport_state_from_evidence ACK_DELIVERED = TS_DELIVERED"
| "transport_state_from_evidence ACK_READ = TS_READ"
| "transport_state_from_evidence ACK_FAILED = FAILED_DEFINITIVE"

definition next_transport_state :: "transport_state option \<Rightarrow> transport_state \<Rightarrow> transport_state" where
  "next_transport_state cur incoming =
     (case cur of None \<Rightarrow> incoming
      | Some current \<Rightarrow>
          if current = incoming then incoming
          else if current = TS_READ \<or> current = FAILED_DEFINITIVE then current
          else if incoming = INDETERMINATE
          then (if current \<in> {DISPATCH_STARTED, INGRESS_ACCEPTED, TS_SEND_STARTED} then incoming else current)
          else if current = INDETERMINATE
          then (if incoming \<in> {DISPATCH_STARTED, INGRESS_ACCEPTED, TS_SEND_STARTED} then current else incoming)
          else if incoming = FAILED_DEFINITIVE
          then (if current \<in> {DISPATCH_STARTED, INGRESS_ACCEPTED, TS_SEND_STARTED, TS_SEND_ACCEPTED, TS_SENT}
                then incoming else current)
          else if transport_rank current < transport_rank incoming then incoming else current)"

definition status_by_evidence :: "evidence_kind \<Rightarrow> job_status option" where
  "status_by_evidence k = (case k of EV_SEND_ACCEPTED \<Rightarrow> Some ACCEPTED | EV_SEND_REJECTED \<Rightarrow> Some FAILED
     | EV_SEND_INDETERMINATE \<Rightarrow> Some UNKNOWN | ACK_SENT \<Rightarrow> Some SENT | ACK_DELIVERED \<Rightarrow> Some DELIVERED
     | ACK_READ \<Rightarrow> Some READ | ACK_FAILED \<Rightarrow> Some FAILED | _ \<Rightarrow> None)"

definition connector_job_status_transitions :: "job_status \<Rightarrow> evidence_kind \<Rightarrow> job_status list" where
  "connector_job_status_transitions current kind =
     (case status_by_evidence kind of
        None \<Rightarrow> []
      | Some incoming \<Rightarrow>
          if incoming = ACCEPTED
          then (let nxt = next_projected_message_status current incoming in if nxt = current then [] else [nxt])
          else if incoming = UNKNOWN then (if current = PROCESSING then [UNKNOWN] else [])
          else (let promoted = (incoming \<in> {SENT, DELIVERED, READ} \<and> current = PROCESSING);
                    cursor = (if promoted then ACCEPTED else current);
                    nxt = next_projected_message_status cursor incoming
                in (if promoted then [ACCEPTED] else []) @ (if nxt \<noteq> cursor then [nxt] else [])))"

definition safety_outcome_from_connector_evidence :: "evidence_kind \<Rightarrow> error_class option \<Rightarrow> operation_outcome option" where
  "safety_outcome_from_connector_evidence kind cls =
     (if kind \<in> {EV_SEND_ACCEPTED, ACK_SENT, ACK_DELIVERED, ACK_READ} then Some Succeeded
      else if kind = EV_SEND_INDETERMINATE then Some Ambiguous
      else if kind \<noteq> EV_SEND_REJECTED \<and> kind \<noteq> ACK_FAILED then None
      else if cls = Some EC_RATE_LIMITED then Some (Rate_Limited None)
      else if cls = Some EC_SESSION_RESTRICTED then Some Session_Restricted
      else if cls = Some EC_AMBIGUOUS then Some Ambiguous
      else if cls = Some EC_TRANSIENT_FAILURE \<or> kind = ACK_FAILED then Some Transient_Failure
      else Some Safe_Rejection)"

text \<open>\<open>connectorEvidenceError\<close>; empty parts are filtered out.\<close>

fun kind_words :: "evidence_kind \<Rightarrow> string" where
  "kind_words EV_SEND_REJECTED = ''send rejected''"
| "kind_words EV_SEND_INDETERMINATE = ''send indeterminate''"
| "kind_words ACK_FAILED = ''ack failed''"
| "kind_words _ = []"

fun class_name :: "error_class \<Rightarrow> string" where
  "class_name EC_SAFE_REJECTION = ''SAFE_REJECTION''"
| "class_name EC_RATE_LIMITED = ''RATE_LIMITED''"
| "class_name EC_SESSION_RESTRICTED = ''SESSION_RESTRICTED''"
| "class_name EC_TRANSIENT_FAILURE = ''TRANSIENT_FAILURE''"
| "class_name EC_AMBIGUOUS = ''AMBIGUOUS''"
| "class_name EC_INVALID_COMMAND = ''INVALID_COMMAND''"
| "class_name EC_EXPIRED_COMMAND = ''EXPIRED_COMMAND''"
| "class_name EC_BINDING_MISMATCH = ''BINDING_MISMATCH''"

definition connector_evidence_error :: "evidence \<Rightarrow> string option" where
  "connector_evidence_error ev =
     (if ev_kind ev \<notin> {EV_SEND_REJECTED, EV_SEND_INDETERMINATE, ACK_FAILED} then None
      else Some (take 1024 (join_with '': '' (filter (\<lambda>p. p \<noteq> [])
        [''Connector '' @ kind_words (ev_kind ev),
         (case ev_errorClass ev of None \<Rightarrow> [] | Some c \<Rightarrow> class_name c),
         (case ev_errorCode ev of None \<Rightarrow> [] | Some c \<Rightarrow> c)]))))"

section \<open>Projection\<close>

text \<open>An empty message id is falsy.\<close>

definition truthy :: "string option \<Rightarrow> bool" where
  "truthy s \<longleftrightarrow> (case s of None \<Rightarrow> False | Some x \<Rightarrow> x \<noteq> [])"

definition find_evidence :: "runtime_db \<Rightarrow> string \<Rightarrow> stored_evidence option" where
  "find_evidence db e = List.find (\<lambda>x. ev_eventId (se_evidence x) = e) (db_evidence db)"

definition sequence_taken :: "runtime_db \<Rightarrow> evidence \<Rightarrow> bool" where
  "sequence_taken db ev \<longleftrightarrow> list_ex (\<lambda>x. ev_attemptId (se_evidence x) = ev_attemptId ev
     \<and> ev_sequence (se_evidence x) = ev_sequence ev) (db_evidence db)"

text \<open>The attempt with both ids, joined with its job.\<close>

definition evidence_target :: "runtime_db \<Rightarrow> evidence \<Rightarrow> (message_attempt \<times> message_job) option" where
  "evidence_target db ev =
     (case List.find (\<lambda>a. ma_attemptId a = ev_attemptId ev \<and> ma_commandId a = ev_commandId ev) (db_attempts db) of
        None \<Rightarrow> None
      | Some a \<Rightarrow> map_option (Pair a) (find_job db (ma_jobId a)))"

definition evidence_mismatch :: "message_attempt \<Rightarrow> message_job \<Rightarrow> evidence \<Rightarrow> db_error option" where
  "evidence_mismatch a j ev =
     (if mj_sessionId j \<noteq> ev_sessionId ev
      then Some (Evidence_Conflict ''Connector evidence session does not own the attempt'')
      else if ma_binding a \<noteq> Some (ev_bindingGeneration ev)
      then Some (Evidence_Conflict ''Connector evidence binding generation does not match the attempt'')
      else if \<not> truthy (ma_payloadSha256 a) \<or> ma_payloadSha256 a \<noteq> Some (ev_payloadSha256 ev)
      then Some (Evidence_Conflict ''Connector evidence payload digest does not match the command'')
      else None)"

definition move_job :: "millis \<Rightarrow> string \<Rightarrow> evidence \<Rightarrow> job_status \<Rightarrow> unit tx" where
  "move_job now i ev status = tx_bind (update_jobs (\<lambda>r. mj_id r = i)
     (\<lambda>r. r\<lparr>mj_status := status, mj_messageId := coalesce (ev_openwaMessageId ev) (mj_messageId r),
        mj_lastError := connector_evidence_error ev, mj_updatedAt := now\<rparr>)) (\<lambda>_. tx_return ())"

definition bind_message :: "millis \<Rightarrow> string \<Rightarrow> evidence \<Rightarrow> unit tx" where
  "bind_message now i ev = tx_bind (update_jobs (\<lambda>r. mj_id r = i)
     (\<lambda>r. r\<lparr>mj_messageId := ev_openwaMessageId ev, mj_updatedAt := now\<rparr>)) (\<lambda>_. tx_return ())"

definition evidence_accepts :: "evidence \<Rightarrow> bool" where
  "evidence_accepts ev \<longleftrightarrow> ev_kind ev \<in> {EV_SEND_ACCEPTED, ACK_SENT, ACK_DELIVERED, ACK_READ}"

definition evidenced_attempt :: "evidence \<Rightarrow> transport_state \<Rightarrow> job_status \<Rightarrow> message_attempt \<Rightarrow> message_attempt" where
  "evidenced_attempt ev nxt status a = a\<lparr>ma_transport := Some nxt, ma_lastSequence := ev_sequence ev,
     ma_lastEvidenceAt := Some (ev_occurredAt ev),
     ma_transportAcceptedAt := (if evidence_accepts ev \<and> ma_transportAcceptedAt a = None then Some (ev_occurredAt ev)
        else ma_transportAcceptedAt a),
     ma_messageId := coalesce (ev_openwaMessageId ev) (ma_messageId a), ma_outcome := Outcome status\<rparr>"

definition attempt_evidence :: "millis \<Rightarrow> evidence \<Rightarrow> transport_state \<Rightarrow> job_status \<Rightarrow> unit tx" where
  "attempt_evidence now ev nxt status =
     tx_bind (update_attempts (\<lambda>a. ma_attemptId a = ev_attemptId ev) (evidenced_attempt ev nxt status)) (\<lambda>_.
     case safety_outcome_from_connector_evidence (ev_kind ev) (ev_errorClass ev) of
       None \<Rightarrow> tx_return ()
     | Some out \<Rightarrow> tx_bind (record_attempt_outcome now (ev_attemptId ev) out) (\<lambda>_. tx_return ()))"

definition store_evidence :: "evidence \<Rightarrow> projection_state \<Rightarrow> unit tx" where
  "store_evidence ev st = tx_modify (\<lambda>db. db\<lparr>db_evidence := db_evidence db @ [\<lparr>se_evidence = ev, se_state = st\<rparr>]\<rparr>)"

text \<open>What is done with evidence that passed the checks.\<close>

definition apply_evidence :: "millis \<Rightarrow> evidence \<Rightarrow> message_attempt \<Rightarrow> message_job \<Rightarrow> projection_result tx" where
  "apply_evidence now ev a j =
     (let current = coalesce (mj_messageId j) (ma_messageId a);
          fresh = ma_lastSequence a < ev_sequence ev;
          incoming = transport_state_from_evidence (ev_kind ev);
          nxt = (if fresh then next_transport_state (ma_transport a) incoming
                 else (case ma_transport a of Some t \<Rightarrow> t | None \<Rightarrow> incoming));
          moves = (if fresh then connector_job_status_transitions (mj_status j) (ev_kind ev) else []);
          binds = (truthy (ev_openwaMessageId ev) \<and> \<not> truthy current);
          status = (if moves = [] then mj_status j else last moves);
          st = (if fresh \<and> (Some nxt \<noteq> ma_transport a \<or> moves \<noteq> [] \<or> binds) then PS_APPLIED else PS_IGNORED)
      in tx_bind (tx_iter (move_job now (mj_id j) ev) moves) (\<lambda>_.
         tx_bind (if moves = [] \<and> binds then bind_message now (mj_id j) ev else tx_return ()) (\<lambda>_.
         tx_bind (if fresh then attempt_evidence now ev nxt status else tx_return ()) (\<lambda>_.
         tx_bind (store_evidence ev st) (\<lambda>_.
         tx_return \<lparr>pj_state = result_state_of st, pj_statusAdvanced = (moves \<noteq> []), pj_jobId = Some (mj_id j)\<rparr>)))))"

definition project_evidence :: "millis \<Rightarrow> evidence \<Rightarrow> projection_result tx" where
  "project_evidence now ev db =
     (case evidence_target db ev of
        None \<Rightarrow> Inl (Evidence_Conflict ''Connector evidence attempt is unknown'')
      | Some (a, j) \<Rightarrow>
     (case evidence_mismatch a j ev of
        Some e \<Rightarrow> Inl e
      | None \<Rightarrow>
     (case find_evidence db (ev_eventId ev) of
        Some x \<Rightarrow> if se_evidence x \<noteq> ev then Inl (Evidence_Conflict ''Connector evidence event id has conflicting content'')
          else Inr (\<lparr>pj_state = result_state_of (se_state x), pj_statusAdvanced = False, pj_jobId = Some (mj_id j)\<rparr>, db)
      | None \<Rightarrow>
     (if sequence_taken db ev then Inl (Evidence_Conflict ''Connector evidence sequence has conflicting content'')
      else if truthy (coalesce (mj_messageId j) (ma_messageId a)) \<and> truthy (ev_openwaMessageId ev)
              \<and> coalesce (mj_messageId j) (ma_messageId a) \<noteq> ev_openwaMessageId ev
      then Inl (Evidence_Conflict ''Connector evidence OpenWA message identity changed'')
      else apply_evidence now ev a j db))))"

end
