(* ===== verification/Governor_System.thy ===== *)
theory Governor_System
  imports Safety_Outcomes Step_Systems
begin

text \<open>
  The safety governor as a system of transactions: one operation per public method of
  \<open>OpenWASafetyRepository\<close> that writes, each a step of the database. Shown here: what every operation keeps
  of the rate budgets (\<open>budgets_hold\<close>) and of a message permit's lease (\<open>lease_held\<close>).
\<close>

datatype governor_op =
    Reserve_Message millis millis string string string string string message_type millis
  | Reserve_Operation millis millis string string string operation_class string string millis int
  | Commit_Start millis string string message_permit bool "connector_commit option" bool int
  | Record_Outcome millis permit_ref operation_outcome
  | Record_Attempt_Outcome millis string operation_outcome
  | Release_Permit millis permit_ref
  | Mutate_Workspace millis millis mutation
  | Mutate_Session millis millis mutation
  | Session_Snapshot millis millis string string

definition run_tx :: "'a tx \<Rightarrow> runtime_db \<Rightarrow> runtime_db" where
  "run_tx m db = snd (transaction m db)"

fun governor_step :: "governor_op \<Rightarrow> runtime_db \<Rightarrow> runtime_db" where
  "governor_step (Reserve_Message js now tok u s job recipient t ttl) = run_tx (reserve_message js now tok u s job recipient t ttl)"
| "governor_step (Reserve_Operation js now tok u s c ht hid ttl cost) = run_tx (reserve_operation js now tok u s c ht hid ttl cost)"
| "governor_step (Commit_Start now aid cid p required cmd rr age) = run_tx (commit_message_start now aid cid p required cmd rr age)"
| "governor_step (Record_Outcome now p out) = run_tx (record_outcome now p out)"
| "governor_step (Record_Attempt_Outcome now a out) = run_tx (record_attempt_outcome now a out)"
| "governor_step (Release_Permit now p) = run_tx (release_permit now p)"
| "governor_step (Mutate_Workspace js now m) = run_tx (mutate_workspace js now m)"
| "governor_step (Mutate_Session js now m) = run_tx (mutate_session js now m)"
| "governor_step (Session_Snapshot js now u s) = run_tx (session_snapshot js now u s)"

lemma run_tx_keeps: "tx_keeps I m \<Longrightarrow> I db \<Longrightarrow> I (run_tx m db)"
  unfolding run_tx_def by (rule transaction_keeps)

section \<open>Rules for the transactions of the governor\<close>

lemma tx_keeps_decide [tx_rules]: "tx_keeps I m \<Longrightarrow> tx_keeps I (decide d m)"
  by (auto simp: decide_def tx_keeps_return split: option.split)

lemma tx_keeps_diag: "(\<And>db0. tx_keeps I (m db0)) \<Longrightarrow> tx_keeps I (\<lambda>db. m db db)"
  by (simp add: tx_keeps_def)

lemma tx_keeps_if [tx_rules]: "(b \<Longrightarrow> tx_keeps I m) \<Longrightarrow> (\<not> b \<Longrightarrow> tx_keeps I m') \<Longrightarrow> tx_keeps I (if b then m else m')"
  by simp

lemma tx_keeps_deferred:
  "(\<And>db0. tx_keeps I (m db0)) \<Longrightarrow>
   tx_keeps I (\<lambda>db. case h db of Some e \<Rightarrow> Inr (d e, db) | None \<Rightarrow> m db db)"
  by (auto simp: tx_keeps_def split: option.splits)

lemma tx_keeps_deferred1:
  "tx_keeps I m \<Longrightarrow> tx_keeps I (\<lambda>db. case h db of Some e \<Rightarrow> Inr (d e, db) | None \<Rightarrow> m db)"
  by (auto simp: tx_keeps_def split: option.splits)

lemma tx_keeps_lookup: "(\<And>k. tx_keeps I (m k)) \<Longrightarrow> tx_keeps I (\<lambda>db. if c db then Inl e else m (h db) db)"
  by (auto simp: tx_keeps_def)

text \<open>\<open>frame g m\<close>: the part \<open>g\<close> of the database is not written.\<close>

definition frame :: "(runtime_db \<Rightarrow> 'g) \<Rightarrow> 'a tx \<Rightarrow> bool" where
  "frame g m \<longleftrightarrow> (\<forall>db x db'. m db = Inr (x, db') \<longrightarrow> g db' = g db)"

lemma tx_keeps_frame: "frame g m \<Longrightarrow> tx_keeps (\<lambda>db. Q (g db)) m"
  by (auto simp: frame_def tx_keeps_def)

lemma frame_ensure [simp]: "frame db_buckets (ensure_scopes now u s)" "frame db_leases (ensure_scopes now u s)"
    "frame db_jobs (ensure_scopes now u s)"
  by (simp_all add: frame_def ensure_scopes_def)

lemma frame_lock [simp]: "frame g (lock_scopes u s)"
  by (simp add: frame_def lock_scopes_def)

lemma frame_transition [simp]: "frame db_buckets (transition_expired js now scopes)"
    "frame db_leases (transition_expired js now scopes)" "frame db_jobs (transition_expired js now scopes)"
  by (auto simp: frame_def transition_expired_def Let_def)

lemma frame_effective [simp]: "frame g (effective_session js scopes)"
  by (auto simp: frame_def effective_session_def split: sum.splits)

lemma frame_update_scopes [simp]: "frame db_buckets (update_scopes P f)" "frame db_leases (update_scopes P f)"
    "frame db_jobs (update_scopes P f)"
  by (simp_all add: frame_def update_scopes_def)

lemma frame_update_buckets [simp]: "frame db_leases (update_buckets P f)" "frame db_jobs (update_buckets P f)"
  by (simp_all add: frame_def update_buckets_def)

lemma frame_update_jobs [simp]: "frame db_buckets (update_jobs P f)" "frame db_leases (update_jobs P f)"
  by (auto simp: frame_def update_jobs_ok)

lemma frame_attach [simp]: "frame db_buckets (attach_permit now tok job)" "frame db_leases (attach_permit now tok job)"
  by (auto simp: frame_def attach_permit_def update_jobs_ok split: if_splits)

lemma frame_insert_attempt [simp]: "frame db_buckets (insert_attempt a)" "frame db_leases (insert_attempt a)"
    "frame db_jobs (insert_attempt a)"
  by (auto simp: frame_def insert_attempt_def split: if_splits)

lemma frame_take_lease [simp]: "frame db_buckets (take_lease now k l)" "frame db_jobs (take_lease now k l)"
  by (auto simp: frame_def take_lease_def split: option.splits if_splits)

lemma frame_insert_lease [simp]: "frame db_buckets (insert_lease k l)" "frame db_jobs (insert_lease k l)"
  by (auto simp: frame_def insert_lease_def split: option.splits)

lemma frame_record_receipt [simp]: "frame db_buckets (record_receipt tok new)" "frame db_leases (record_receipt tok new)"
    "frame db_jobs (record_receipt tok new)"
  by (auto simp: frame_def record_receipt_def split: option.splits if_splits)

lemma frame_release [simp]: "frame db_buckets (release_permit now p)"
  by (auto simp: frame_def release_permit_def Let_def split: option.splits)

lemma frame_append [simp]: "frame db_buckets (append_activity d e)" "frame db_leases (append_activity d e)"
    "frame db_jobs (append_activity d e)"
  by (simp_all add: frame_def append_activity_def)

lemma frame_insert_receipt [simp]: "frame db_buckets (insert_receipt k r)" "frame db_leases (insert_receipt k r)"
    "frame db_jobs (insert_receipt k r)"
  by (auto simp: frame_def insert_receipt_def split: option.splits)

lemma frame_check_buckets [simp]: "frame db_leases (check_buckets js now u s ps)" "frame db_jobs (check_buckets js now u s ps)"
  by (auto simp: frame_def check_buckets_def split: prod.splits)

lemma frame_consume [simp]: "frame db_leases (consume_bucket now u s p)" "frame db_jobs (consume_bucket now u s p)"
  by (simp_all add: frame_def consume_bucket_def)

section \<open>What the parts keep, every operation keeps\<close>

fun op_now :: "governor_op \<Rightarrow> millis" where
  "op_now (Reserve_Message js now tok u s job recipient t ttl) = now"
| "op_now (Reserve_Operation js now tok u s c ht hid ttl cost) = now"
| "op_now (Commit_Start now aid cid p required cmd rr age) = now"
| "op_now (Record_Outcome now p out) = now"
| "op_now (Record_Attempt_Outcome now a out) = now"
| "op_now (Release_Permit now p) = now"
| "op_now (Mutate_Workspace js now m) = now"
| "op_now (Mutate_Session js now m) = now"
| "op_now (Session_Snapshot js now u s) = now"

text \<open>The permit an operation gives up.\<close>

fun op_releases :: "runtime_db \<Rightarrow> governor_op \<Rightarrow> string option" where
  "op_releases db (Record_Outcome now p out) = Some (pr_token p)"
| "op_releases db (Record_Attempt_Outcome now a out) = map_option pr_token (attempt_ref db a)"
| "op_releases db (Release_Permit now p) = Some (pr_token p)"
| "op_releases db _ = None"

fun is_commit :: "governor_op \<Rightarrow> bool" where
  "is_commit (Commit_Start now aid cid p required cmd rr age) = True"
| "is_commit _ = False"

locale governor_core =
  fixes I :: "runtime_db \<Rightarrow> bool" and timely :: "millis \<Rightarrow> bool" and spares :: "string \<Rightarrow> bool"
  assumes ensure: "tx_keeps I (ensure_scopes now u s)"
    and transition: "tx_keeps I (transition_expired js now scopes)"
    and checked: "\<forall>p \<in> set ps. policy_ok p \<and> bp_period p \<le> day_ms \<Longrightarrow> I db \<Longrightarrow>
      check_loop js now u s None ps (db_buckets db) = (w, rows) \<Longrightarrow> I (db\<lparr>db_buckets := rows\<rparr>)"
    and consume: "policy_ok p \<Longrightarrow> tx_keeps I (consume_bucket now u s p)"
    and relax: "tx_keeps I (update_buckets P relax_bucket)"
    and slow: "tx_keeps I (update_buckets P slow_bucket)"
    and take: "timely now \<Longrightarrow> tx_keeps I (take_lease now k l)"
    and insert_l: "tx_keeps I (insert_lease k l)"
    and attach: "tx_keeps I (attach_permit now tok job)"
    and scopes: "tx_keeps I (update_scopes S g)"
    and receipt: "tx_keeps I (record_receipt tok new)"
    and release: "spares (pr_token pr) \<Longrightarrow> tx_keeps I (release_permit now pr)"
    and activity: "tx_keeps I (append_activity d e)"
    and mutation: "tx_keeps I (insert_receipt mk mr)"
begin

lemma check: "\<forall>p \<in> set ps. policy_ok p \<and> bp_period p \<le> day_ms \<Longrightarrow> tx_keeps I (check_buckets js now u s ps)"
  by (auto simp: tx_keeps_def check_buckets_def checked split: prod.splits)

lemma lock: "tx_keeps I (lock_scopes u s)"
  by (simp add: tx_keeps_def lock_scopes_def)

lemma effective: "tx_keeps I (effective_session js locked)"
  by (auto simp: tx_keeps_def effective_session_def split: sum.splits)

lemma consume_policies:
  "\<forall>p \<in> set ps. policy_ok p \<Longrightarrow> tx_keeps I (tx_iter (consume_bucket now u s) ps)"
  by (intro tx_rules consume) simp

lemma keeps_reserve_message: "timely now \<Longrightarrow> tx_keeps I (reserve_message js now tok u s job recipient t ttl)"
proof -
  assume now: "timely now"
  have grant: "tx_keeps I (grant_message now tok u s job recipient t ttl locked)" for locked
    unfolding grant_message_def Let_def
    by (intro tx_rules take [OF now] attach consume_policies) (use message_policies_ok in blast)
  have admit: "tx_keeps I (check_buckets js now u s (message_bucket_policies profile t))" for profile
    by (rule check) (use message_policies_ok in blast)
  show ?thesis unfolding reserve_message_def
    by (intro tx_rules ensure lock transition tx_keeps_deferred grant admit)
qed

lemma keeps_reserve_operation: "timely now \<Longrightarrow> tx_keeps I (reserve_operation js now tok u s c ht hid ttl cost)"
proof -
  assume now: "timely now"
  show ?thesis
  proof (cases "cost < 1 \<or> 10 < cost")
    case True then show ?thesis by (simp add: reserve_operation_def tx_keeps_throw)
  next
    case False
    then have ok: "\<forall>p \<in> set (operation_bucket_policies c (s \<noteq> []) cost). policy_ok p \<and> bp_period p \<le> day_ms"
      using operation_policies_ok [of _ c "s \<noteq> []" cost] by force
    show ?thesis unfolding reserve_operation_def Let_def
      by (intro tx_rules ensure lock transition tx_keeps_deferred1 check insert_l consume_policies ok) (use ok in blast)
  qed
qed

lemma keeps_outcome: "spares (pr_token pr) \<Longrightarrow> tx_keeps I (record_outcome now pr out)"
proof -
  assume s: "spares (pr_token pr)"
  have success: "tx_keeps I (record_success now pr)"
    unfolding record_success_def
    by (intro tx_rules scopes)
      (auto simp: tx_keeps_def dest!: relax [unfolded tx_keeps_def, rule_format, rotated] scopes [unfolded tx_keeps_def, rule_format, rotated])
  show ?thesis unfolding record_outcome_def outcome_effect_def record_rate_limit_def record_failure_def block_session_def
    by (intro tx_rules receipt release s) (cases out; simp; intro tx_rules success scopes slow)
qed

lemma keeps_attempt_outcome:
  "(\<And>pr. attempt_ref db a = Some pr \<Longrightarrow> spares (pr_token pr)) \<Longrightarrow> I db \<Longrightarrow>
   record_attempt_outcome now a out db = Inr (x, db') \<Longrightarrow> I db'"
  by (auto simp: record_attempt_outcome_def split: option.splits dest!: tx_keepsD [OF keeps_outcome])

lemma keeps_mutation: "tx_keeps I (apply_mutation now m)"
proof -
  have receipt: "tx_keeps I (\<lambda>db. insert_receipt mk (r db) db)" for mk r
    using mutation by (auto simp: tx_keeps_def)
  show ?thesis unfolding apply_mutation_def by (intro tx_rules scopes activity receipt)
qed

lemma keeps_mutate_workspace: "tx_keeps I (mutate_workspace js now m)"
  unfolding mutate_workspace_def Let_def
  by (rule tx_keeps_lookup [where h = "\<lambda>db. map_of (db_mutations db) (mu_type m, mu_key m)"],
      intro tx_rules ensure keeps_mutation lock transition effective)

lemma keeps_mutate_session: "tx_keeps I (mutate_session js now m)"
  unfolding mutate_session_def Let_def
  by (rule tx_keeps_lookup [where h = "\<lambda>db. map_of (db_mutations db) (mu_type m, mu_key m)"],
      intro tx_rules ensure keeps_mutation lock transition effective)

lemma keeps_snapshot: "tx_keeps I (session_snapshot js now u s)"
  unfolding session_snapshot_def by (intro tx_rules ensure lock transition effective)

lemma core_keeps:
  assumes "\<not> is_commit op" "I db" "timely (op_now op)" "\<And>tok. op_releases db op = Some tok \<Longrightarrow> spares tok"
  shows "I (governor_step op db)"
proof (cases op)
  case (Record_Attempt_Outcome now a out)
  then have "spares (pr_token pr)" if "attempt_ref db a = Some pr" for pr using assms(4) that by simp
  with keeps_attempt_outcome [OF this assms(2)] Record_Attempt_Outcome assms(2) show ?thesis
    by (auto simp: run_tx_def transaction_def split: sum.split)
qed (use assms in \<open>auto intro!: run_tx_keeps keeps_reserve_message keeps_reserve_operation keeps_outcome
      release keeps_mutate_workspace keeps_mutate_session keeps_snapshot\<close>)

end

locale governor_parts = governor_core +
  assumes start: "(\<And>j. Q j \<Longrightarrow> mj_upstreamStartedAt j = None) \<Longrightarrow>
      tx_keeps I (update_jobs Q (\<lambda>j. j\<lparr>mj_upstreamStartedAt := Some now, mj_attemptCount := Suc (mj_attemptCount j),
               mj_leaseExpiresAt := (if required then None else mj_leaseExpiresAt j), mj_updatedAt := now\<rparr>))"
    and attempt: "tx_keeps I (insert_attempt a)"
begin

lemma keeps_commit: "tx_keeps I (commit_message_start now aid cid p required cmd rr age)"
proof (cases "required \<and> cmd = None")
  case True then show ?thesis by (simp add: commit_message_start_def tx_keeps_throw)
next
  case False
  have inner: "tx_keeps I (case rows of [] \<Rightarrow> tx_return None
      | j # js' \<Rightarrow> tx_bind (insert_attempt (h j)) (\<lambda>_. tx_return (Some (r j))))"
    for rows :: "message_job list" and h and r :: "message_job \<Rightarrow> committed_send"
    by (cases rows) (auto intro!: tx_rules attempt)
  show ?thesis unfolding commit_message_start_def Let_def if_not_P [OF False]
    by (rule tx_keeps_diag, rule tx_keeps_bind, rule start, simp add: fence_passes_def job_commits_def, rule inner)
qed

theorem governor_keeps:
  assumes "I db" "timely (op_now op)" "\<And>tok. op_releases db op = Some tok \<Longrightarrow> spares tok"
  shows "I (governor_step op db)"
proof (cases "is_commit op")
  case True
  then show ?thesis using assms(1) by (cases op) (auto intro: run_tx_keeps keeps_commit)
qed (use core_keeps assms in blast)

end

section \<open>Rate budgets\<close>

text \<open>The buckets are well formed, and those of \<open>C\<close> are spent at least up to the times given.\<close>

definition budgets_hold :: "(bucket_key \<times> millis) set \<Rightarrow> runtime_db \<Rightarrow> bool" where
  "budgets_hold C db \<longleftrightarrow> buckets_ok db \<and> (\<forall>(k, t) \<in> C. arrived (db_buckets db) k t)"

lemma budgets_hold_frame: "frame db_buckets m \<Longrightarrow> tx_keeps (budgets_hold C) m"
  unfolding budgets_hold_def buckets_ok_def by (rule tx_keeps_frame)

lemma budgets_update:
  assumes "\<And>k r. bucket_row_ok r \<Longrightarrow> bucket_row_ok (f r) \<and> bk_arrivalAt r \<le> bk_arrivalAt (f r)"
    and "budgets_hold C db"
  shows "budgets_hold C (db\<lparr>db_buckets := update_keyed P f (db_buckets db)\<rparr>)"
proof -
  have ok: "\<And>k r. map_of (db_buckets db) k = Some r \<Longrightarrow> bucket_row_ok r" using assms(2) by (auto simp: budgets_hold_def buckets_ok_def)
  have "arrived (update_keyed P f (db_buckets db)) k t" if "(k, t) \<in> C" for k t
    using arrived_update [of P f "db_buckets db" k t] assms that ok by (auto simp: budgets_hold_def)
  then show ?thesis using ok assms(1) by (auto simp: budgets_hold_def buckets_ok_def map_of_update_keyed)
qed

interpretation budgets: governor_parts "budgets_hold C" "\<lambda>_. True" "\<lambda>_. True" for C
proof unfold_locales
  show "budgets_hold C (db\<lparr>db_buckets := rows\<rparr>)" if "\<forall>p \<in> set ps. policy_ok p \<and> bp_period p \<le> day_ms" "budgets_hold C db"
    "check_loop js now u s None ps (db_buckets db) = (w, rows)" for ps db js now u s w rows
    using check_loop_ok [OF that(3)] arrived_check [OF that(3)] that(1,2) by (auto simp: budgets_hold_def buckets_ok_def)
  show "tx_keeps (budgets_hold C) (consume_bucket now u s p)" if "policy_ok p" for now u s p
    unfolding consume_bucket_def
    by (rule tx_keeps_modify, rule budgets_update) (use that spend_ok spend_arrival in \<open>auto simp: policy_ok_def\<close>)
  show "tx_keeps (budgets_hold C) (update_buckets P relax_bucket)" for P
    unfolding update_buckets_def
    by (rule tx_keeps_modify, rule budgets_update) (use relax_bucket_ok in \<open>auto simp: relax_bucket_def\<close>)
  show "tx_keeps (budgets_hold C) (update_buckets P slow_bucket)" for P
    unfolding update_buckets_def
    by (rule tx_keeps_modify, rule budgets_update) (use slow_bucket_ok in \<open>auto simp: slow_bucket_def\<close>)
qed (simp_all add: budgets_hold_frame)

section \<open>Leases\<close>

definition lease_held :: "scope_key \<times> lease_lane \<Rightarrow> safety_lease \<Rightarrow> runtime_db \<Rightarrow> bool" where
  "lease_held k l db \<longleftrightarrow> map_of (db_leases db) k = Some l"

lemma lease_held_frame: "frame db_leases m \<Longrightarrow> tx_keeps (lease_held k l) m"
  unfolding lease_held_def by (rule tx_keeps_frame)

lemma map_of_filter_first: "map_of xs k = Some v \<Longrightarrow> P (k, v) \<Longrightarrow> map_of (filter P xs) k = Some v"
  by (induction xs) (auto split: if_splits)

interpretation leases: governor_parts "lease_held k l" "\<lambda>now. now < sl_expiresAt l" "\<lambda>tok. tok \<noteq> sl_token l" for k l
proof unfold_locales
  show "lease_held k l (db\<lparr>db_buckets := rows\<rparr>)" if "lease_held k l db" for db rows
    using that by (simp add: lease_held_def)
  show "tx_keeps (lease_held k l) (take_lease now k' l')" if "now < sl_expiresAt l" for now k' l'
    using that by (auto simp: tx_keeps_def lease_held_def take_lease_def map_of_update_keyed split: option.splits if_splits)
  show "tx_keeps (lease_held k l) (insert_lease k' l')" for k' l'
    by (auto simp: tx_keeps_def lease_held_def insert_lease_def split: option.splits)
  show "tx_keeps (lease_held k l) (release_permit now p)" if "pr_token p \<noteq> sl_token l" for now p
    using that unfolding release_permit_def Let_def
    by (intro tx_keeps_modify) (auto simp: lease_held_def split: option.split intro!: map_of_filter_first)
qed (simp_all add: lease_held_frame)

section \<open>Starts\<close>

text \<open>Every job with this id has started.\<close>

definition job_started :: "string \<Rightarrow> runtime_db \<Rightarrow> bool" where
  "job_started i db \<longleftrightarrow> (\<forall>j \<in> set (db_jobs db). mj_id j = i \<longrightarrow> mj_upstreamStartedAt j \<noteq> None)"

lemma keeps_all_jobs:
  assumes "\<And>j. P j \<Longrightarrow> R j \<Longrightarrow> R (f j)"
  shows "tx_keeps (\<lambda>db. \<forall>j \<in> set (db_jobs db). R j) (update_jobs P f)"
  unfolding tx_keeps_def update_jobs_ok using assms by (auto simp: update_where_def)

lemma job_started_frame: "frame db_jobs m \<Longrightarrow> tx_keeps (job_started i) m"
  unfolding job_started_def by (rule tx_keeps_frame)

interpretation starts: governor_parts "job_started i" "\<lambda>_. True" "\<lambda>_. True" for i
proof unfold_locales
  show "job_started i (db\<lparr>db_buckets := rows\<rparr>)" if "job_started i db" for db rows
    using that by (simp add: job_started_def)
  show "tx_keeps (job_started i) (attach_permit now tok job)" for now tok job
    unfolding attach_permit_def job_started_def by (intro tx_rules keeps_all_jobs) simp
  show "tx_keeps (job_started i) (update_jobs Q (\<lambda>j. j\<lparr>mj_upstreamStartedAt := Some now, mj_attemptCount := Suc (mj_attemptCount j),
               mj_leaseExpiresAt := (if required then None else mj_leaseExpiresAt j), mj_updatedAt := now\<rparr>))" for Q now required
    unfolding job_started_def by (rule keeps_all_jobs) simp
  show "tx_keeps (job_started i) (release_permit now p)" for now p
    unfolding release_permit_def Let_def
    by (intro tx_keeps_modify) (auto simp: job_started_def update_where_def split: option.split)
qed (simp_all add: job_started_frame)

lemma governor_fold:
  assumes "\<And>op db. I db \<Longrightarrow> I (governor_step op db)" "I db"
  shows "I (fold governor_step ops db)"
  using assms(2) by (induction ops arbitrary: db) (auto intro: assms(1))

end
