(* ===== verification/Connector_Commands.thy ===== *)
theory Connector_Commands
  imports Delivery_Evidence Governor_System "HOL-Library.Word"
begin

text \<open>
  Delivering committed commands to the connector's ingress: \<open>OpenWAConnectorIngressClient\<close>
  (\<open>openwa-connector-ingress.client.ts\<close>), \<open>OpenWAConnectorCommandRepository\<close>
  (\<open>openwa-connector-command.repository.ts\<close>) and \<open>OpenWAConnectorCommandDispatcherService\<close>
  (\<open>openwa-connector-command-dispatcher.service.ts\<close>). Answers of the network are arguments.
\<close>

section \<open>The ingress client\<close>

datatype submit_error =
    Not_Configured
  | Ingress_Error ingress_failure "int option" "millis option" string
  | Other_Error string

record http_answer =
  ha_status :: int
  ha_retryAfter :: "string option"
  ha_body :: "string + string"

datatype fetch_result = Network_Error string | Answer http_answer

text \<open>\<open>retryAfterMilliseconds\<close>; \<open>number\<close> is a finite \<open>Number(raw)\<close>, \<open>date\<close> a valid \<open>new Date(raw)\<close>. A fraction of a
  millisecond is cut off.\<close>

definition retry_after_milliseconds ::
  "(string \<Rightarrow> rat option) \<Rightarrow> (string \<Rightarrow> millis option) \<Rightarrow> millis \<Rightarrow> string option \<Rightarrow> millis option" where
  "retry_after_milliseconds number date js header =
     (if \<not> truthy header then None
      else (let raw = the header in
        case number raw of
          Some seconds \<Rightarrow> if 0 \<le> seconds then Some (min \<lfloor>seconds * 1000\<rfloor> 3600000)
            else map_option (\<lambda>t. max 0 (min (t - js) 3600000)) (date raw)
        | None \<Rightarrow> map_option (\<lambda>t. max 0 (min (t - js) 3600000)) (date raw)))"

text \<open>A successful answer tells whether the command was a duplicate. A body that cannot be read is an ordinary error.\<close>

definition submit ::
  "(string \<Rightarrow> rat option) \<Rightarrow> (string \<Rightarrow> millis option) \<Rightarrow> millis \<Rightarrow> bool \<Rightarrow> fetch_result \<Rightarrow> submit_error + bool" where
  "submit number date js configured answer =
     (if \<not> configured then Inl Not_Configured
      else case answer of
        Network_Error m \<Rightarrow> Inl (Ingress_Error AMBIGUOUS_RETRYABLE None None
          (''OpenWA connector ingress did not acknowledge the command: '' @ m))
      | Answer h \<Rightarrow>
          (case ha_body h of
             Inl m \<Rightarrow> Inl (Other_Error m)
           | Inr body \<Rightarrow>
               if ha_status h = 200 \<or> ha_status h = 202 then Inr (ha_status h = 200)
               else if ha_status h = 429
               then Inl (Ingress_Error RATE_LIMITED_SAFE (Some (ha_status h))
                      (retry_after_milliseconds number date js (ha_retryAfter h))
                      (''OpenWA connector ingress rate limited the command: '' @ body))
               else if 500 \<le> ha_status h \<or> ha_status h = 408
               then Inl (Ingress_Error AMBIGUOUS_RETRYABLE (Some (ha_status h))
                      (retry_after_milliseconds number date js (ha_retryAfter h))
                      (''OpenWA connector ingress returned an ambiguous HTTP '' @ text_of_int (ha_status h) @ '': '' @ body))
               else Inl (Ingress_Error DEFINITIVE (Some (ha_status h)) None
                      (''OpenWA connector ingress rejected the command with HTTP '' @ text_of_int (ha_status h) @ '': '' @ body))))"

section \<open>The repository\<close>

record claimed_command =
  cl_attemptId :: string
  cl_commandId :: string
  cl_jobId :: string
  cl_leaseId :: string
  cl_body :: string
  cl_payloadSha256 :: string
  cl_expiresAt :: millis
  cl_deliveryAttempt :: nat

definition time_reached :: "millis \<Rightarrow> millis option \<Rightarrow> bool" where
  "time_reached now t \<longleftrightarrow> (case t of None \<Rightarrow> False | Some x \<Rightarrow> x \<le> now)"

definition awaits_dispatch :: "message_attempt \<Rightarrow> bool" where
  "awaits_dispatch a \<longleftrightarrow> ma_body a \<noteq> None \<and> ma_transport a = Some DISPATCH_STARTED"

definition lease_open :: "millis \<Rightarrow> message_attempt \<Rightarrow> bool" where
  "lease_open now a \<longleftrightarrow> ma_leaseId a = None \<or> time_reached now (ma_leaseExpiresAt a)"

definition command_due :: "millis \<Rightarrow> nat \<Rightarrow> string option \<Rightarrow> message_attempt \<Rightarrow> bool" where
  "command_due now maximum only a \<longleftrightarrow> awaits_dispatch a
     \<and> (case ma_expiresAt a of None \<Rightarrow> False | Some t \<Rightarrow> now < t)
     \<and> ma_deliveries a < maximum \<and> time_reached now (ma_nextAttemptAt a) \<and> lease_open now a
     \<and> (case only of None \<Rightarrow> True | Some i \<Rightarrow> ma_attemptId a = i)"

definition claimed_row :: "message_attempt \<Rightarrow> claimed_command" where
  "claimed_row a = \<lparr>cl_attemptId = ma_attemptId a, cl_commandId = ma_commandId a, cl_jobId = ma_jobId a,
     cl_leaseId = the (ma_leaseId a), cl_body = the (ma_body a), cl_payloadSha256 = the (ma_payloadSha256 a),
     cl_expiresAt = the (ma_expiresAt a), cl_deliveryAttempt = ma_deliveries a\<rparr>"

definition due_commands :: "millis \<Rightarrow> nat \<Rightarrow> nat \<Rightarrow> string option \<Rightarrow> runtime_db \<Rightarrow> message_attempt list" where
  "due_commands now limit maximum only db = take limit
     (sort_key (\<lambda>a. (the (ma_nextAttemptAt a), the (ma_expiresAt a), ma_attemptId a))
       (filter (command_due now maximum only) (db_attempts db)))"

definition claim_commands ::
  "millis \<Rightarrow> (string \<Rightarrow> string) \<Rightarrow> nat \<Rightarrow> millis \<Rightarrow> nat \<Rightarrow> string option \<Rightarrow> claimed_command list tx" where
  "claim_commands now lease limit leaseMs maximum only db =
     tx_bind (update_attempts (\<lambda>a. ma_attemptId a \<in> set (map ma_attemptId (due_commands now limit maximum only db)))
        (\<lambda>a. a\<lparr>ma_leaseId := Some (lease (ma_attemptId a)), ma_leaseExpiresAt := Some (now + leaseMs),
           ma_deliveries := Suc (ma_deliveries a)\<rparr>))
       (\<lambda>rows. tx_return (map claimed_row rows)) db"

text \<open>The attempt is still leased to this dispatcher and not settled.\<close>

definition leased_to :: "claimed_command \<Rightarrow> message_attempt \<Rightarrow> bool" where
  "leased_to c a \<longleftrightarrow> ma_attemptId a = cl_attemptId c \<and> ma_leaseId a = Some (cl_leaseId c)
     \<and> ma_transport a = Some DISPATCH_STARTED"

definition mark_ingress_accepted :: "millis \<Rightarrow> claimed_command \<Rightarrow> bool tx" where
  "mark_ingress_accepted now c =
     tx_bind (update_attempts (leased_to c)
        (\<lambda>a. a\<lparr>ma_transport := Some INGRESS_ACCEPTED, ma_ingressAcceptedAt := Some now, ma_leaseId := None,
           ma_leaseExpiresAt := None, ma_ingressError := None, ma_failureKind := None\<rparr>))
       (\<lambda>rows. tx_return (length rows = 1))"

definition next_delivery :: "message_attempt \<Rightarrow> millis \<Rightarrow> millis option" where
  "next_delivery a t = Some (case ma_expiresAt a of None \<Rightarrow> t | Some e \<Rightarrow> min e t)"

definition reschedule_command :: "millis \<Rightarrow> claimed_command \<Rightarrow> string \<Rightarrow> ingress_failure \<Rightarrow> millis \<Rightarrow> bool tx" where
  "reschedule_command now c err kind delay =
     tx_bind (update_attempts (leased_to c)
        (\<lambda>a. a\<lparr>ma_nextAttemptAt := next_delivery a (now + delay), ma_ingressError := Some (take 1024 err),
           ma_failureKind := Some kind, ma_leaseId := None, ma_leaseExpiresAt := None\<rparr>))
       (\<lambda>rows. tx_return (length rows = 1))"

definition defer_for_dispatch_readiness :: "millis \<Rightarrow> claimed_command \<Rightarrow> millis \<Rightarrow> bool tx" where
  "defer_for_dispatch_readiness now c delay =
     tx_bind (update_attempts (leased_to c)
        (\<lambda>a. a\<lparr>ma_nextAttemptAt := next_delivery a (now + delay), ma_deliveries := ma_deliveries a - 1,
           ma_leaseId := None, ma_leaseExpiresAt := None\<rparr>))
       (\<lambda>rows. tx_return (length rows = 1))"

definition settle_command ::
  "millis \<Rightarrow> claimed_command \<Rightarrow> job_status \<Rightarrow> transport_state \<Rightarrow> string \<Rightarrow> bool tx" where
  "settle_command now c status t err =
     tx_bind (update_attempts (leased_to c)
        (\<lambda>a. a\<lparr>ma_outcome := Outcome status, ma_transport := Some t, ma_error := Some (take 1024 err),
           ma_ingressError := Some (take 1024 err),
           ma_failureKind := Some (if status = FAILED then DEFINITIVE else AMBIGUOUS_RETRYABLE),
           ma_leaseId := None, ma_leaseExpiresAt := None\<rparr>))
       (\<lambda>rows. case rows of
          [] \<Rightarrow> tx_return False
        | a # _ \<Rightarrow>
            tx_bind (update_jobs (\<lambda>j. mj_id j = ma_jobId a \<and> mj_status j = PROCESSING)
              (\<lambda>j. j\<lparr>mj_status := status, mj_lastError := Some (take 1024 err), mj_updatedAt := now\<rparr>)) (\<lambda>_.
            tx_bind (record_attempt_outcome now (cl_attemptId c) (if status = FAILED then Safe_Rejection else Ambiguous))
              (\<lambda>_. tx_return True)))"

definition settle_definitive :: "millis \<Rightarrow> claimed_command \<Rightarrow> string \<Rightarrow> bool tx" where
  "settle_definitive now c err = settle_command now c FAILED FAILED_DEFINITIVE err"

definition settle_indeterminate :: "millis \<Rightarrow> claimed_command \<Rightarrow> string \<Rightarrow> bool tx" where
  "settle_indeterminate now c err = settle_command now c UNKNOWN INDETERMINATE err"

definition reschedule_safe_rejection :: "millis \<Rightarrow> claimed_command \<Rightarrow> string \<Rightarrow> millis \<Rightarrow> bool tx" where
  "reschedule_safe_rejection now c err delay =
     tx_bind (update_attempts (leased_to c)
        (\<lambda>a. a\<lparr>ma_outcome := Retried, ma_transport := Some FAILED_DEFINITIVE, ma_error := Some (take 1024 err),
           ma_ingressError := Some (take 1024 err), ma_failureKind := Some RATE_LIMITED_SAFE,
           ma_leaseId := None, ma_leaseExpiresAt := None\<rparr>))
       (\<lambda>rows. case rows of
          [] \<Rightarrow> tx_return False
        | a # _ \<Rightarrow>
            tx_bind (record_attempt_outcome now (cl_attemptId c) (Rate_Limited (Some delay))) (\<lambda>_.
            tx_bind (update_jobs (\<lambda>j. mj_id j = ma_jobId a \<and> mj_status j = PROCESSING)
              (\<lambda>j. j\<lparr>mj_status := SCHEDULED, mj_scheduledAt := now + delay, mj_lastError := Some (take 1024 err),
                 mj_leaseExpiresAt := None, mj_upstreamStartedAt := None, mj_leaseToken := None, mj_updatedAt := now\<rparr>))
              (\<lambda>jobs. tx_return (length jobs = 1))))"

section \<open>Deadlines\<close>

definition expired_command :: "millis \<Rightarrow> message_attempt \<Rightarrow> bool" where
  "expired_command now a \<longleftrightarrow> awaits_dispatch a \<and> time_reached now (ma_expiresAt a) \<and> lease_open now a"

definition expiry_outcome :: "message_attempt \<Rightarrow> job_status" where
  "expiry_outcome a = (if ma_deliveries a = 0 \<or> ma_failureKind a = Some RATE_LIMITED_SAFE then FAILED else UNKNOWN)"

definition expiry_error :: "job_status \<Rightarrow> string" where
  "expiry_error s = (if s = FAILED then ''Connector command expired before ingress accepted it''
     else ''Connector command expired without an authoritative ingress outcome'')"

definition expired_commands :: "millis \<Rightarrow> nat \<Rightarrow> runtime_db \<Rightarrow> message_attempt list" where
  "expired_commands now limit db = take limit
     (sort_key (\<lambda>a. (the (ma_expiresAt a), ma_attemptId a)) (filter (expired_command now) (db_attempts db)))"

text \<open>\<open>UPDATE message_jobs ... FROM updated_attempts\<close>: each processing job of the attempts gets the status of its attempt.\<close>

definition settle_jobs ::
  "millis \<Rightarrow> message_attempt list \<Rightarrow> (message_attempt \<Rightarrow> job_status) \<Rightarrow> (job_status \<Rightarrow> string) \<Rightarrow> unit tx" where
  "settle_jobs now as status err =
     tx_bind (update_jobs (\<lambda>j. mj_status j = PROCESSING \<and> mj_id j \<in> set (map ma_jobId as))
        (\<lambda>j. let s = status (the (List.find (\<lambda>a. ma_jobId a = mj_id j) as))
             in j\<lparr>mj_status := s, mj_lastError := Some (err s), mj_updatedAt := now\<rparr>)) (\<lambda>_. tx_return ())"

definition settled_attempt :: "job_status \<Rightarrow> string \<Rightarrow> message_attempt \<Rightarrow> message_attempt" where
  "settled_attempt s err a = a\<lparr>ma_outcome := Outcome s, ma_transport := Some (if s = FAILED then FAILED_DEFINITIVE else INDETERMINATE),
     ma_error := Some err, ma_leaseId := None, ma_leaseExpiresAt := None\<rparr>"

definition settle_expired :: "millis \<Rightarrow> nat \<Rightarrow> (nat \<times> nat) tx" where
  "settle_expired now limit db =
     (let es = expired_commands now limit db in
      tx_bind (update_attempts (\<lambda>a. ma_attemptId a \<in> set (map ma_attemptId es))
        (\<lambda>a. settled_attempt (expiry_outcome a) (expiry_error (expiry_outcome a)) a)) (\<lambda>_.
      tx_bind (settle_jobs now es expiry_outcome expiry_error) (\<lambda>_.
      tx_bind (tx_iter (\<lambda>a. tx_bind (record_attempt_outcome now (ma_attemptId a)
          (if expiry_outcome a = FAILED then Safe_Rejection else Ambiguous)) (\<lambda>_. tx_return ())) es) (\<lambda>_.
      tx_return (length (filter (\<lambda>a. expiry_outcome a = FAILED) es), length (filter (\<lambda>a. expiry_outcome a = UNKNOWN) es))))) db)"

definition evidence_time :: "message_attempt \<Rightarrow> millis option" where
  "evidence_time a = coalesce (ma_lastEvidenceAt a) (coalesce (ma_ingressAcceptedAt a) (ma_transportStartedAt a))"

definition evidence_overdue :: "millis \<Rightarrow> millis \<Rightarrow> message_attempt \<Rightarrow> bool" where
  "evidence_overdue now timeout a \<longleftrightarrow> ma_body a \<noteq> None \<and> ma_transport a \<in> {Some INGRESS_ACCEPTED, Some TS_SEND_STARTED}
     \<and> time_reached (now - timeout) (evidence_time a)"

definition evidence_error :: string where
  "evidence_error = ''Connector evidence deadline elapsed after durable ingress acceptance''"

definition overdue_commands :: "millis \<Rightarrow> nat \<Rightarrow> millis \<Rightarrow> runtime_db \<Rightarrow> message_attempt list" where
  "overdue_commands now limit timeout db = take limit
     (sort_key (\<lambda>a. (the (evidence_time a), ma_attemptId a)) (filter (evidence_overdue now timeout) (db_attempts db)))"

definition settle_evidence_timeout :: "millis \<Rightarrow> nat \<Rightarrow> millis \<Rightarrow> nat tx" where
  "settle_evidence_timeout now limit timeout db =
     (let os = overdue_commands now limit timeout db in
      tx_bind (update_attempts (\<lambda>a. ma_attemptId a \<in> set (map ma_attemptId os)) (settled_attempt UNKNOWN evidence_error)) (\<lambda>_.
      tx_bind (settle_jobs now os (\<lambda>_. UNKNOWN) (\<lambda>_. evidence_error)) (\<lambda>_.
      tx_bind (tx_iter (\<lambda>a. tx_bind (record_attempt_outcome now (ma_attemptId a) Ambiguous) (\<lambda>_. tx_return ())) os) (\<lambda>_.
      tx_return (length os)))) db)"

section \<open>The dispatcher\<close>

record dispatch_config =
  dc_required :: bool
  dc_batchSize :: nat
  dc_leaseMs :: millis
  dc_maximumAttempts :: nat
  dc_evidenceTimeoutSeconds :: int
  dc_inboxConfigured :: bool
  dc_inboxPollMs :: millis

text \<open>\<open>seed\<close>: the first two bytes of the SHA-256 of the command id and the attempt number.\<close>

definition connector_ingress_backoff_ms :: "(string \<Rightarrow> nat \<Rightarrow> 16 word) \<Rightarrow> string \<Rightarrow> nat \<Rightarrow> int" where
  "connector_ingress_backoff_ms seed c attempt =
     (let exponential = min 30000 (1000 * 2 ^ (min (attempt - 1) 5))
      in exponential + uint (seed c attempt) * min 2000 (exponential div 2) div 65535)"

definition is_dispatch_ready :: "dispatch_config \<Rightarrow> bool option \<Rightarrow> bool" where
  "is_dispatch_ready c readiness = (case readiness of Some r \<Rightarrow> r | None \<Rightarrow> \<not> dc_inboxConfigured c)"

definition retry_or_settle ::
  "dispatch_config \<Rightarrow> (string \<Rightarrow> nat \<Rightarrow> 16 word) \<Rightarrow> millis \<Rightarrow> millis \<Rightarrow> claimed_command \<Rightarrow> ingress_failure \<Rightarrow> millis option
     \<Rightarrow> string \<Rightarrow> bool tx" where
  "retry_or_settle cfg seed js now c kind retry msg =
     (if kind = DEFINITIVE then settle_definitive now c msg
      else (let delay = max (case retry of None \<Rightarrow> 0 | Some r \<Rightarrow> r)
                  (connector_ingress_backoff_ms seed (cl_commandId c) (cl_deliveryAttempt c));
                exhausted = (dc_maximumAttempts cfg \<le> cl_deliveryAttempt c \<or> cl_expiresAt c \<le> js + delay)
            in if exhausted
               then (if kind = RATE_LIMITED_SAFE then reschedule_safe_rejection now c msg delay
                     else settle_indeterminate now c msg)
               else reschedule_command now c msg kind delay))"

text \<open>What the awaits of one \<open>dispatch\<close> answer: readiness, the ingress, and the clocks afterwards.\<close>

record dispatch_env =
  de_ready :: "bool option"
  de_answer :: "submit_error + bool"
  de_js :: millis
  de_now :: millis

definition dispatch ::
  "(string \<Rightarrow> string) \<Rightarrow> dispatch_config \<Rightarrow> (string \<Rightarrow> nat \<Rightarrow> 16 word) \<Rightarrow> dispatch_env \<Rightarrow> claimed_command \<Rightarrow> bool tx" where
  "dispatch sha cfg seed e c =
     (if \<not> is_dispatch_ready cfg (de_ready e) then defer_for_dispatch_readiness (de_now e) c (dc_inboxPollMs cfg)
      else if sha (cl_body c) \<noteq> cl_payloadSha256 c
      then settle_definitive (de_now e) c ''Connector command payload digest is corrupt''
      else case de_answer e of
        Inr duplicate \<Rightarrow> mark_ingress_accepted (de_now e) c
      | Inl (Ingress_Error kind st retry msg) \<Rightarrow> retry_or_settle cfg seed (de_js e) (de_now e) c kind retry msg
      | Inl (Other_Error msg) \<Rightarrow> retry_or_settle cfg seed (de_js e) (de_now e) c AMBIGUOUS_RETRYABLE None msg
      | Inl Not_Configured \<Rightarrow> retry_or_settle cfg seed (de_js e) (de_now e) c AMBIGUOUS_RETRYABLE None
          ''OpenWA connector ingress is not configured'')"

text \<open>The dispatches of one run are concurrent, each one transaction; they are listed in the order of their writes.\<close>

definition dispatch_all ::
  "(string \<Rightarrow> string) \<Rightarrow> dispatch_config \<Rightarrow> (string \<Rightarrow> nat \<Rightarrow> 16 word) \<Rightarrow> (claimed_command \<Rightarrow> dispatch_env)
     \<Rightarrow> claimed_command list \<Rightarrow> runtime_db \<Rightarrow> runtime_db" where
  "dispatch_all sha cfg seed env cs db = fold (\<lambda>c. run_tx (dispatch sha cfg seed (env c) c)) cs db"

definition dispatch_attempt ::
  "(string \<Rightarrow> string) \<Rightarrow> dispatch_config \<Rightarrow> (string \<Rightarrow> nat \<Rightarrow> 16 word) \<Rightarrow> (claimed_command \<Rightarrow> dispatch_env)
     \<Rightarrow> millis \<Rightarrow> (string \<Rightarrow> string) \<Rightarrow> bool option \<Rightarrow> string \<Rightarrow> runtime_db \<Rightarrow> bool \<times> runtime_db" where
  "dispatch_attempt sha cfg seed env now lease readiness a db =
     (if \<not> dc_required cfg \<or> \<not> is_dispatch_ready cfg readiness then (False, db)
      else case transaction (claim_commands now lease 1 (dc_leaseMs cfg) (dc_maximumAttempts cfg) (Some a)) db of
        (Inr (c # _), db') \<Rightarrow> (True, run_tx (dispatch sha cfg seed (env c) c) db')
      | (_, db') \<Rightarrow> (False, db'))"

definition dispatcher_run ::
  "(string \<Rightarrow> string) \<Rightarrow> dispatch_config \<Rightarrow> (string \<Rightarrow> nat \<Rightarrow> 16 word) \<Rightarrow> (claimed_command \<Rightarrow> dispatch_env)
     \<Rightarrow> millis \<Rightarrow> (string \<Rightarrow> string) \<Rightarrow> bool option \<Rightarrow> runtime_db \<Rightarrow> (db_error + unit) \<times> runtime_db" where
  "dispatcher_run sha cfg seed env now lease readiness db =
     (if \<not> dc_required cfg then (Inr (), db)
      else case transaction (settle_expired now (dc_batchSize cfg)) db of
        (Inl e, d) \<Rightarrow> (Inl e, d)
      | (Inr _, d) \<Rightarrow>
     (case transaction (settle_evidence_timeout now (dc_batchSize cfg) (dc_evidenceTimeoutSeconds cfg * 1000)) d of
        (Inl e, d') \<Rightarrow> (Inl e, d')
      | (Inr _, d') \<Rightarrow>
          if \<not> is_dispatch_ready cfg readiness then (Inr (), d')
          else (case transaction (claim_commands now lease (dc_batchSize cfg) (dc_leaseMs cfg) (dc_maximumAttempts cfg) None) d' of
              (Inl e, d'') \<Rightarrow> (Inl e, d'')
            | (Inr cs, d'') \<Rightarrow> (Inr (), dispatch_all sha cfg seed env cs d''))))"

end
