(* ===== verification/Message_System.thy ===== *)
theory Message_System
  imports Connector_Commands
begin

text \<open>
  The Runtime's send path as a system of transactions: the operations of the safety governor and those of the
  message modules, in any interleaving. \<open>runtime_parts\<close> collects what an invariant needs of the statements the
  operations are made of; every operation then keeps it (\<open>runtime_keeps\<close>).
\<close>

datatype runtime_op =
    Governor governor_op
  | Create_Job millis string new_message
  | Claim_Due millis int
  | Mark_Processing millis string
  | Refresh_Lease millis string millis
  | Reset_Queued millis string string
  | Reschedule_Processing millis "string \<times> string" string string millis
  | Defer_Processing millis string string millis "string option"
  | Recover_Stale millis
  | Recover_Unstarted millis
  | Mark_Unknown millis "string \<Rightarrow> string \<times> string"
  | Update_Result millis "string \<times> string" string job_status "string option" "string option"
  | Project_Event "string \<Rightarrow> string" millis string
  | Reconcile_Job "string \<Rightarrow> string" millis string
  | Project_Evidence millis evidence
  | Claim_Commands millis "string \<Rightarrow> string" nat millis nat "string option"
  | Ingress_Accepted millis claimed_command
  | Reschedule_Command millis claimed_command string ingress_failure millis
  | Defer_Command millis claimed_command millis
  | Settle_Definitive millis claimed_command string
  | Settle_Indeterminate millis claimed_command string
  | Safe_Rejection_Retry millis claimed_command string millis
  | Settle_Expired millis nat
  | Settle_Overdue millis nat millis

fun runtime_step :: "runtime_op \<Rightarrow> runtime_db \<Rightarrow> runtime_db" where
  "runtime_step (Governor op) = governor_step op"
| "runtime_step (Create_Job now i m) = run_tx (create_message_job now i m)"
| "runtime_step (Claim_Due now limit) = run_tx (claim_due now limit)"
| "runtime_step (Mark_Processing now i) = run_tx (mark_processing now i)"
| "runtime_step (Refresh_Lease now i ttl) = run_tx (refresh_processing_lease now i ttl)"
| "runtime_step (Reset_Queued now i err) = run_tx (reset_queued now i err)"
| "runtime_step (Reschedule_Processing now ids i err delay) = run_tx (reschedule_processing now ids i err delay)"
| "runtime_step (Defer_Processing now i err t reason) = run_tx (defer_processing now i err t reason)"
| "runtime_step (Recover_Stale now) = run_tx (recover_stale_queued now)"
| "runtime_step (Recover_Unstarted now) = run_tx (recover_unstarted now)"
| "runtime_step (Mark_Unknown now ids) = run_tx (mark_started_unknown now ids)"
| "runtime_step (Update_Result now ids i st m err) = run_tx (update_result now ids i st m err)"
| "runtime_step (Project_Event lower now e) = run_tx (project_event lower now e)"
| "runtime_step (Reconcile_Job lower now i) = run_tx (reconcile_pending_for_job lower now i)"
| "runtime_step (Project_Evidence now ev) = run_tx (project_evidence now ev)"
| "runtime_step (Claim_Commands now lease limit ms maximum only) = run_tx (claim_commands now lease limit ms maximum only)"
| "runtime_step (Ingress_Accepted now c) = run_tx (mark_ingress_accepted now c)"
| "runtime_step (Reschedule_Command now c err k d) = run_tx (reschedule_command now c err k d)"
| "runtime_step (Defer_Command now c d) = run_tx (defer_for_dispatch_readiness now c d)"
| "runtime_step (Settle_Definitive now c err) = run_tx (settle_definitive now c err)"
| "runtime_step (Settle_Indeterminate now c err) = run_tx (settle_indeterminate now c err)"
| "runtime_step (Safe_Rejection_Retry now c err d) = run_tx (reschedule_safe_rejection now c err d)"
| "runtime_step (Settle_Expired now limit) = run_tx (settle_expired now limit)"
| "runtime_step (Settle_Overdue now limit t) = run_tx (settle_evidence_timeout now limit t)"

text \<open>The columns of a job that no update changes, and the direction of its status: into flight only by \<open>claimDue\<close>.\<close>

definition keeps_job :: "(message_job \<Rightarrow> message_job) \<Rightarrow> message_job \<Rightarrow> bool" where
  "keeps_job f j \<longleftrightarrow> mj_id (f j) = mj_id j \<and> mj_sessionId (f j) = mj_sessionId j \<and> mj_dryRun (f j) = mj_dryRun j
     \<and> mj_scope (f j) = mj_scope j \<and> mj_key (f j) = mj_key j \<and> mj_requestHash (f j) = mj_requestHash j
     \<and> (in_flight (f j) \<longrightarrow> in_flight j)"

text \<open>Updates of attempts keep what identifies them, and leave the lease of a command that is still to be dispatched.\<close>

definition keeps_identity :: "(message_attempt \<Rightarrow> message_attempt) \<Rightarrow> bool" where
  "keeps_identity f \<longleftrightarrow> (\<forall>a. ma_jobId (f a) = ma_jobId a \<and> ma_number (f a) = ma_number a \<and> ma_attemptId (f a) = ma_attemptId a
     \<and> ma_commandId (f a) = ma_commandId a \<and> ma_binding (f a) = ma_binding a \<and> ma_payloadSha256 (f a) = ma_payloadSha256 a)"

definition keeps_lease :: "(message_attempt \<Rightarrow> message_attempt) \<Rightarrow> bool" where
  "keeps_lease f \<longleftrightarrow> (\<forall>a. awaits_dispatch (f a) \<longrightarrow> awaits_dispatch a \<and> ma_leaseId (f a) = ma_leaseId a
     \<and> ma_leaseExpiresAt (f a) = ma_leaseExpiresAt a)"

definition keeps_attempt :: "(message_attempt \<Rightarrow> message_attempt) \<Rightarrow> bool" where
  "keeps_attempt f \<longleftrightarrow> keeps_identity f \<and> keeps_lease f"

lemmas keeps_attempt_defs = keeps_attempt_def keeps_identity_def keeps_lease_def awaits_dispatch_def

text \<open>The time at which an operation claims commands, and the command lease an operation gives up early.\<close>

fun claim_time :: "runtime_op \<Rightarrow> millis option" where
  "claim_time (Claim_Commands now lease limit ms maximum only) = Some now"
| "claim_time _ = None"

fun gives_up :: "runtime_op \<Rightarrow> claimed_command option" where
  "gives_up (Reschedule_Command now c err k d) = Some c"
| "gives_up (Defer_Command now c d) = Some c"
| "gives_up _ = None"

lemma tx_keeps_bind_post:
  assumes "tx_keeps I m" "\<And>db x db'. I db \<Longrightarrow> m db = Inr (x, db') \<Longrightarrow> Q x" "\<And>x. Q x \<Longrightarrow> tx_keeps I (f x)"
  shows "tx_keeps I (tx_bind m f)"
  using assms unfolding tx_keeps_def tx_bind_ok by blast

lemma tx_keeps_rows [tx_rules]:
  "tx_keeps I m \<Longrightarrow> (\<And>r. tx_keeps I (f r)) \<Longrightarrow> tx_keeps I (case rows of [] \<Rightarrow> m | r # _ \<Rightarrow> f r)"
  by (cases rows) auto

lemma tx_keeps_option [tx_rules]:
  "tx_keeps I m \<Longrightarrow> (\<And>r. x = Some r \<Longrightarrow> tx_keeps I (f r)) \<Longrightarrow> tx_keeps I (case x of None \<Rightarrow> m | Some r \<Rightarrow> f r)"
  by (cases x) auto

locale runtime_parts =
  fixes I :: "runtime_db \<Rightarrow> bool" and sendable :: "message_job \<Rightarrow> bool" and timely :: "millis \<Rightarrow> bool"
    and spares :: "claimed_command \<Rightarrow> bool"
  assumes governor: "I db \<Longrightarrow> I (governor_step op db)"
    and outcome: "tx_keeps I (record_attempt_outcome now a oc)"
    and create: "tx_keeps I (create_message_job now i m)"
    and claim: "tx_keeps I (claim_due now limit)"
    and jobs: "(\<And>j. P j \<Longrightarrow> keeps_job f j) \<Longrightarrow> tx_keeps I (update_jobs P f)"
    and processed: "I db \<Longrightarrow> j \<in> set (db_jobs db) \<Longrightarrow> mj_status j = PROCESSING \<Longrightarrow> mj_id r = mj_id j \<Longrightarrow> sendable r"
    and upsert: "sendable r \<Longrightarrow> keeps_attempt extra \<Longrightarrow> tx_keeps I (upsert_attempt ids r out err extra)"
    and attempts: "keeps_attempt g \<Longrightarrow> tx_keeps I (update_attempts Q g)"
    and commands: "timely now \<Longrightarrow> tx_keeps I (claim_commands now lease n ms maximum only)"
    and retried: "spares c \<Longrightarrow> tx_keeps I (reschedule_command now c msg k d)"
    and deferred: "spares c \<Longrightarrow> tx_keeps I (defer_for_dispatch_readiness now c d)"
    and event: "tx_keeps I (mark_event e st job)"
    and evidence: "tx_keeps I (store_evidence ev pst)"
begin

text \<open>The rows an update of processing jobs returns may get an attempt.\<close>

lemma processing_rows:
  assumes "\<And>j. P j \<Longrightarrow> keeps_job f j" "\<And>j. P j \<Longrightarrow> mj_status j = PROCESSING"
    and "\<And>rows. \<forall>r \<in> set rows. sendable r \<Longrightarrow> tx_keeps I (k rows)"
  shows "tx_keeps I (tx_bind (update_jobs P f) k)"
proof (rule tx_keeps_bind_post [where Q = "\<lambda>rows. \<forall>r \<in> set rows. sendable r"])
  show "tx_keeps I (update_jobs P f)" by (rule jobs) (rule assms(1))
  show "\<forall>r \<in> set rows. sendable r" if "I db" "update_jobs P f db = Inr (rows, db')" for db rows db'
    using that processed [OF that(1)] assms(1,2) by (fastforce simp: update_jobs_ok keeps_job_def)
qed (rule assms(3))

lemma quiet_update: "(\<And>j. P j \<Longrightarrow> keeps_job f j) \<Longrightarrow> (\<And>rows. tx_keeps I (k rows)) \<Longrightarrow> tx_keeps I (tx_bind (update_jobs P f) k)"
  by (intro tx_rules jobs)

lemma keeps_mark_processing: "tx_keeps I (mark_processing now i)"
  unfolding mark_processing_def [abs_def]
  by (rule tx_keeps_diag, rule quiet_update) (auto simp: keeps_job_def in_flight_def intro: tx_rules)

lemma keeps_refresh: "tx_keeps I (refresh_processing_lease now i ttl)"
  unfolding refresh_processing_lease_def by (rule quiet_update) (auto simp: keeps_job_def in_flight_def intro: tx_rules)

lemma keeps_reset: "tx_keeps I (reset_queued now i err)"
  unfolding reset_queued_def by (rule quiet_update) (auto simp: keeps_job_def in_flight_def intro: tx_rules)

lemma keeps_defer: "tx_keeps I (defer_processing now i err t reason)"
  unfolding defer_processing_def by (rule quiet_update) (auto simp: keeps_job_def in_flight_def intro: tx_rules)

lemma keeps_stale: "tx_keeps I (recover_stale_queued now)"
  unfolding recover_stale_queued_def by (rule quiet_update) (auto simp: keeps_job_def in_flight_def intro: tx_rules)

lemma keeps_unstarted: "tx_keeps I (recover_unstarted now)"
  unfolding recover_unstarted_def by (rule quiet_update) (auto simp: keeps_job_def in_flight_def intro: tx_rules)

lemma keeps_unknown: "tx_keeps I (mark_started_unknown now ids)"
  unfolding mark_started_unknown_def
  by (rule processing_rows) (auto simp: keeps_job_def in_flight_def keeps_attempt_defs intro!: tx_rules upsert)

lemma result_dispatched: "result_transport st t = Some DISPATCH_STARTED \<Longrightarrow> t = Some DISPATCH_STARTED"
  by (cases st) simp_all

lemma keeps_result: "tx_keeps I (update_result now ids i st m err)"
  unfolding update_result_def
  by (rule processing_rows)
    (auto simp: keeps_job_def in_flight_def keeps_attempt_defs dest: result_dispatched intro!: tx_rules upsert split: list.split)

lemma keeps_reschedule: "tx_keeps I (reschedule_processing now ids i err delay)"
proof -
  have step: "tx_keeps I (tx_bind (update_jobs (\<lambda>j. mj_id j = i \<and> mj_status j = PROCESSING) f)
      (\<lambda>rows. if length rows \<noteq> 1 then tx_return False
         else tx_bind (upsert_attempt ids before Retried (Some err) (\<lambda>a. a\<lparr>ma_transport := Some FAILED_DEFINITIVE\<rparr>))
           (\<lambda>_. tx_return True)))"
    if "sendable before" "\<And>j. keeps_job f j" for before f
    using that by (intro quiet_update tx_rules upsert) (auto simp: keeps_attempt_defs)
  have fj: "keeps_job (\<lambda>j. j\<lparr>mj_status := SCHEDULED, mj_scheduledAt := now + delay, mj_lastError := Some err,
      mj_leaseExpiresAt := None, mj_upstreamStartedAt := None, mj_leaseToken := None, mj_updatedAt := now\<rparr>) j" for j
    by (simp add: keeps_job_def in_flight_def)
  show ?thesis unfolding tx_keeps_def reschedule_processing_def
  proof (intro allI impI)
    fix db x db' assume I: "I db" and run: "(case List.find (\<lambda>j. mj_id j = i \<and> mj_status j = PROCESSING) (db_jobs db) of
        None \<Rightarrow> Inr (False, db)
      | Some before \<Rightarrow>
          tx_bind (update_jobs (\<lambda>j. mj_id j = i \<and> mj_status j = PROCESSING)
            (\<lambda>j. j\<lparr>mj_status := SCHEDULED, mj_scheduledAt := now + delay, mj_lastError := Some err,
               mj_leaseExpiresAt := None, mj_upstreamStartedAt := None, mj_leaseToken := None, mj_updatedAt := now\<rparr>))
          (\<lambda>rows. if length rows \<noteq> 1 then tx_return False
             else tx_bind (upsert_attempt ids before Retried (Some err) (\<lambda>a. a\<lparr>ma_transport := Some FAILED_DEFINITIVE\<rparr>))
               (\<lambda>_. tx_return True)) db) = Inr (x, db')"
    show "I db'"
    proof (cases "List.find (\<lambda>j. mj_id j = i \<and> mj_status j = PROCESSING) (db_jobs db)")
      case None then show ?thesis using run I by simp
    next
      case (Some before)
      then have "before \<in> set (db_jobs db)" "mj_status before = PROCESSING" by (auto simp: find_Some_iff)
      then have "sendable before" using processed [OF I] by blast
      from tx_keepsD [OF step [OF this fj] I] run Some show ?thesis by simp
    qed
  qed
qed

lemma next_projected: "next_projected_message_status s t = s \<or> next_projected_message_status s t = t"
  by (simp add: next_projected_message_status_def)

lemma event_status: "message_status_from_event lower x y = Some t \<Longrightarrow> t \<in> {SENT, DELIVERED, READ, FAILED}"
  by (auto simp: message_status_from_event_def split: if_splits)

lemma keeps_advance:
  "nxt = mj_status j \<or> nxt \<in> {SENT, DELIVERED, READ, FAILED} \<Longrightarrow>
   tx_keeps I (tx_bind (if nxt \<noteq> mj_status j
       then update_jobs (\<lambda>r. mj_id r = i) (\<lambda>r. r\<lparr>mj_status := nxt, mj_lastError := err, mj_updatedAt := now\<rparr>)
       else tx_return []) (\<lambda>_. tx_bind (mark_event e st job) (\<lambda>_. tx_return x)))"
  by (intro tx_rules event jobs) (auto simp: keeps_job_def in_flight_def)

lemma keeps_project_event: "tx_keeps I (project_event lower now e)"
  unfolding tx_keeps_def
proof (intro allI impI)
  fix db x db' assume I: "I db" and run: "project_event lower now e db = Inr (x, db')"
  show "I db'"
  proof (cases "find_event db e")
    case None then show ?thesis using run I by (simp add: project_event_def)
  next
    case ev: (Some ev)
    show ?thesis
    proof (cases "me_state ev = PS_PENDING")
      case False then show ?thesis using run I ev by (simp add: project_event_def)
    next
      case True
      show ?thesis
      proof (cases "message_status_from_event lower (me_eventType ev) (me_deliveryStatus ev)")
        case None
        with run ev True show ?thesis by (auto simp: project_event_def dest: tx_keepsD [OF event I])
      next
        case st: (Some st)
        show ?thesis
        proof (cases "find_job_of_message db (me_sessionId ev) (me_messageId ev)")
          case None
          with run ev True st show ?thesis by (auto simp: project_event_def dest: tx_keepsD [OF event I])
        next
          case (Some j)
          have "next_projected_message_status (mj_status j) st = mj_status j
              \<or> next_projected_message_status (mj_status j) st \<in> {SENT, DELIVERED, READ, FAILED}"
            using next_projected [of "mj_status j" st] event_status [OF st] by auto
          note adv = keeps_advance [OF this]
          have eq: "project_event lower now e db =
              (let nxt = next_projected_message_status (mj_status j) st; advanced = (nxt \<noteq> mj_status j) in
               tx_bind (if advanced
                   then update_jobs (\<lambda>r. mj_id r = mj_id j) (\<lambda>r. r\<lparr>mj_status := nxt,
                     mj_lastError := (if nxt = FAILED then Some ''OpenWA reported delivery failure'' else None),
                     mj_updatedAt := now\<rparr>)
                   else tx_return []) (\<lambda>_.
               tx_bind (mark_event e PS_APPLIED (Some (mj_id j))) (\<lambda>_.
               tx_return \<lparr>pj_state = RS_Applied, pj_statusAdvanced = advanced, pj_jobId = Some (mj_id j)\<rparr>)) db)"
            unfolding project_event_def ev option.case True st Some by simp
          show ?thesis by (rule tx_keepsD [OF adv I run [unfolded eq Let_def]])
        qed
      qed
    qed
  qed
qed

lemma keeps_reconcile: "tx_keeps I (reconcile_pending_for_job lower now i)"
proof -
  have step: "tx_keeps I (tx_iter (\<lambda>x. tx_bind (project_event lower now (me_eventId x)) (\<lambda>_. tx_return ())) es)" for es
    by (intro tx_rules keeps_project_event)
  show ?thesis unfolding tx_keeps_def reconcile_pending_for_job_def Let_def
    by (auto split: option.splits if_splits dest: tx_keepsD [OF step])
qed

subsection \<open>Evidence\<close>

lemma moves_status: "s \<in> set (connector_job_status_transitions cur k) \<Longrightarrow> s \<in> {ACCEPTED, SENT, DELIVERED, READ, FAILED, UNKNOWN}"
proof -
  assume s: "s \<in> set (connector_job_status_transitions cur k)"
  obtain t where t: "status_by_evidence k = Some t" using s by (cases "status_by_evidence k") (auto simp: connector_job_status_transitions_def)
  have "t \<in> {ACCEPTED, SENT, DELIVERED, READ, FAILED, UNKNOWN}" using t by (cases k) (auto simp: status_by_evidence_def)
  moreover have "s = ACCEPTED \<or> s = UNKNOWN \<or> s = t"
    using s t next_projected [of cur t] next_projected [of ACCEPTED t]
    by (auto simp: connector_job_status_transitions_def Let_def split: if_splits)
  ultimately show ?thesis by auto
qed

lemma keeps_move: "s \<in> {ACCEPTED, SENT, DELIVERED, READ, FAILED, UNKNOWN} \<Longrightarrow> tx_keeps I (move_job now i ev s)"
  unfolding move_job_def by (rule quiet_update) (auto simp: keeps_job_def in_flight_def intro: tx_rules)

lemma keeps_bind_message: "tx_keeps I (bind_message now i ev)"
  unfolding bind_message_def by (rule quiet_update) (auto simp: keeps_job_def in_flight_def intro: tx_rules)

lemma keeps_attempt_evidence: "nxt \<noteq> DISPATCH_STARTED \<Longrightarrow> tx_keeps I (attempt_evidence now ev nxt s)"
  unfolding attempt_evidence_def
  by (intro tx_rules attempts outcome) (simp add: keeps_attempt_defs evidenced_attempt_def)

lemma evidence_dispatched: "next_transport_state t (transport_state_from_evidence k) \<noteq> DISPATCH_STARTED"
  by (cases k; cases t) (auto simp: next_transport_state_def transport_rank_def split: transport_state.splits)

lemma keeps_apply_evidence: "tx_keeps I (apply_evidence now ev a j)"
proof -
  have "tx_keeps I (tx_iter (move_job now (mj_id j) ev)
      (if ma_lastSequence a < ev_sequence ev then connector_job_status_transitions (mj_status j) (ev_kind ev) else []))"
    by (intro tx_rules keeps_move) (auto dest: moves_status split: if_splits)
  then show ?thesis unfolding apply_evidence_def Let_def
    by (intro tx_keeps_bind tx_keeps_if tx_keeps_return keeps_bind_message keeps_attempt_evidence evidence)
      (auto simp: evidence_dispatched)
qed

lemma keeps_project_evidence: "tx_keeps I (project_evidence now ev)"
  unfolding tx_keeps_def project_evidence_def
  by (auto split: option.splits if_splits prod.splits dest: tx_keepsD [OF keeps_apply_evidence])

subsection \<open>Commands\<close>

lemma quiet_attempts: "keeps_attempt g \<Longrightarrow> (\<And>rows. tx_keeps I (k rows)) \<Longrightarrow> tx_keeps I (tx_bind (update_attempts Q g) k)"
  by (intro tx_rules attempts)

lemma keeps_ingress_accepted: "tx_keeps I (mark_ingress_accepted now c)"
  unfolding mark_ingress_accepted_def by (rule quiet_attempts) (auto simp: keeps_attempt_defs intro: tx_rules)

lemma keeps_settle: "t \<noteq> DISPATCH_STARTED \<Longrightarrow> tx_keeps I (settle_command now c st t err)"
  unfolding settle_command_def
  by (rule quiet_attempts) (auto simp: keeps_attempt_defs keeps_job_def in_flight_def intro!: tx_rules outcome quiet_update split: list.split)

lemma keeps_settled: "tx_keeps I (settle_definitive now c err)" "tx_keeps I (settle_indeterminate now c err)"
  unfolding settle_definitive_def settle_indeterminate_def by (auto intro: keeps_settle)

lemma keeps_safe_rejection: "tx_keeps I (reschedule_safe_rejection now c err d)"
  unfolding reschedule_safe_rejection_def
  by (rule quiet_attempts) (auto simp: keeps_attempt_defs keeps_job_def in_flight_def intro!: tx_rules outcome quiet_update split: list.split)

lemma keeps_settle_jobs:
  "(\<And>a. status a \<notin> {QUEUED, PROCESSING}) \<Longrightarrow> tx_keeps I (settle_jobs now as status err)"
  unfolding settle_jobs_def Let_def by (rule quiet_update) (auto simp: keeps_job_def in_flight_def intro: tx_rules)

lemma keeps_settle_expired: "tx_keeps I (settle_expired now limit)"
  unfolding settle_expired_def [abs_def] Let_def
  by (rule tx_keeps_diag, intro tx_rules attempts keeps_settle_jobs outcome)
    (auto simp: keeps_attempt_defs settled_attempt_def expiry_outcome_def)

lemma keeps_settle_overdue: "tx_keeps I (settle_evidence_timeout now limit t)"
  unfolding settle_evidence_timeout_def [abs_def] Let_def
  by (rule tx_keeps_diag, intro tx_rules attempts keeps_settle_jobs outcome)
    (auto simp: keeps_attempt_defs settled_attempt_def)

theorem runtime_keeps:
  assumes "I db" "\<And>now. claim_time op = Some now \<Longrightarrow> timely now" "\<And>c. gives_up op = Some c \<Longrightarrow> spares c"
  shows "I (runtime_step op db)"
  by (cases op) (use assms in \<open>auto intro: run_tx_keeps governor create claim keeps_mark_processing keeps_refresh keeps_reset
      keeps_reschedule keeps_defer keeps_stale keeps_unstarted keeps_unknown keeps_result keeps_project_event
      keeps_reconcile keeps_project_evidence commands keeps_ingress_accepted retried
      deferred keeps_settled keeps_safe_rejection keeps_settle_expired keeps_settle_overdue\<close>)

theorem runtime_run:
  assumes "I db" "\<And>now. timely now" "\<And>c. spares c"
  shows "I (fold runtime_step ops db)"
  using assms(1) by (induction ops arbitrary: db) (auto intro: runtime_keeps assms(2,3))

end

text \<open>An invariant that any update of attempts keeps, keeps also over the three statements that move leases.\<close>

lemma dispatch_kept:
  assumes "\<And>Q g. keeps_identity g \<Longrightarrow> tx_keeps I (update_attempts Q g)"
  shows "tx_keeps I (claim_commands now lease limit ms maximum only)" "tx_keeps I (reschedule_command now c msg k d)"
    "tx_keeps I (defer_for_dispatch_readiness now c d)"
proof -
  show "tx_keeps I (claim_commands now lease limit ms maximum only)"
    unfolding claim_commands_def [abs_def]
    by (rule tx_keeps_diag, rule tx_keeps_bind, rule assms) (auto simp: keeps_identity_def intro: tx_rules)
  show "tx_keeps I (reschedule_command now c msg k d)" "tx_keeps I (defer_for_dispatch_readiness now c d)"
    unfolding reschedule_command_def defer_for_dispatch_readiness_def
    by (rule tx_keeps_bind, rule assms, auto simp: keeps_identity_def intro: tx_rules)+
qed

end
