(* ===== verification/Message_Processor.thy ===== *)
theory Message_Processor
  imports Message_System Fault_Monad
begin

text \<open>
  \<open>MessageJobProcessorService\<close> (\<open>message-job-processor.service.ts\<close>) with the encoding of a connector command
  (\<open>openwa-connector-command.ts\<close>). One call of \<open>process\<close> is a computation of \<open>Fault_Monad\<close> over the database, the permit
  and commitment its \<open>catch\<close> block sees, and what it asked of OpenWA and the gateway. Every await is a numbered step:
  before it other transactions may have run (\<open>pn_between\<close>), and the clocks are read there.
\<close>

section \<open>Encoding a command\<close>

text \<open>\<open>quote\<close> is \<open>JSON.stringify\<close> of a string, \<open>number\<close> of a finite number. \<open>Object.keys(...).sort()\<close> is the order of
  the keys as strings.\<close>

fun canonical_json :: "(string \<Rightarrow> string) \<Rightarrow> (rat \<Rightarrow> string) \<Rightarrow> js_value \<Rightarrow> string option" where
  "canonical_json quote number JUndefined = None"
| "canonical_json quote number JNull = Some ''null''"
| "canonical_json quote number (JBool b) = Some (if b then ''true'' else ''false'')"
| "canonical_json quote number (JNumber q) = Some (number q)"
| "canonical_json quote number (JString s) = Some (quote s)"
| "canonical_json quote number (JArray vs) =
     map_option (\<lambda>ts. ''['' @ join_with '','' ts @ '']'') (those (map (canonical_json quote number) vs))"
| "canonical_json quote number (JObject ps) =
     map_option (\<lambda>ts. ''{'' @ join_with '','' ts @ ''}'')
       (those (map (\<lambda>(k, t). map_option (\<lambda>x. quote k @ '':'' @ x) t)
         (sort_key fst (map (\<lambda>(k, v). (k, canonical_json quote number v)) ps))))"

text \<open>\<open>schema\<close> is the validation of \<open>openWAConnectorCommandSchema\<close>; the result is the body and its digest.\<close>

definition encode_connector_command ::
  "(js_value \<Rightarrow> js_value option) \<Rightarrow> (string \<Rightarrow> string) \<Rightarrow> (rat \<Rightarrow> string) \<Rightarrow> (string \<Rightarrow> string) \<Rightarrow> js_value \<Rightarrow> (string \<times> string) option" where
  "encode_connector_command schema quote number sha v =
     (case schema v of None \<Rightarrow> None
      | Some c \<Rightarrow> map_option (\<lambda>body. (body, sha body)) (canonical_json quote number c))"

section \<open>Errors and results\<close>

datatype process_error =
    PE_Message string
  | PE_Http int "millis option"
  | PE_Relay_Http int
  | PE_Transport
  | PE_No_Longer_Processing
  | PE_Db db_error

datatype process_result =
    PR_Skipped
  | PR_Dry_Run
  | PR_Safety_Deferred millis string
  | PR_Connector_Deferred millis string
  | PR_Retry_Scheduled millis
  | PR_Sent string
  | PR_Queued string string bool

definition is_definitive_upstream_rejection :: "process_error \<Rightarrow> bool" where
  "is_definitive_upstream_rejection e = (case e of PE_Http st _ \<Rightarrow> 400 \<le> st \<and> st < 500 \<and> st \<noteq> 408 | _ \<Rightarrow> False)"

definition is_safe_retryable_upstream_rejection :: "process_error \<Rightarrow> bool" where
  "is_safe_retryable_upstream_rejection e = (case e of PE_Http st _ \<Rightarrow> st = 409 \<or> st = 429 | _ \<Rightarrow> False)"

definition is_retryable_media_relay_failure :: "process_error \<Rightarrow> bool" where
  "is_retryable_media_relay_failure e = (case e of
     PE_Relay_Http st \<Rightarrow> st = 408 \<or> st = 425 \<or> st = 429 \<or> 500 \<le> st | PE_Transport \<Rightarrow> True | _ \<Rightarrow> False)"

definition media_relay_retry_delay_ms :: "process_error \<Rightarrow> millis" where
  "media_relay_retry_delay_ms e = (case e of PE_Relay_Http st \<Rightarrow> if st = 429 then 30000 else 5000 | _ \<Rightarrow> 5000)"

definition safety_outcome :: "process_error \<Rightarrow> bool \<Rightarrow> operation_outcome" where
  "safety_outcome e started =
     (if \<not> started then Safe_Rejection
      else case e of
        PE_Http st retry \<Rightarrow> if st = 429 then Rate_Limited retry else if st = 401 then Transient_Failure
          else if is_definitive_upstream_rejection e then Safe_Rejection else Ambiguous
      | _ \<Rightarrow> Ambiguous)"

definition connector_image_mime_type :: "string \<Rightarrow> bool" where
  "connector_image_mime_type m \<longleftrightarrow> m \<in> {''image/jpeg'', ''image/png'', ''image/webp''}"

section \<open>The environment of one call\<close>

record process_config =
  pc_allowLive :: bool
  pc_safeRetryMax :: nat
  pc_connectorPollMs :: millis
  pc_commandTtlSeconds :: int
  pc_governor :: governor_config
  pc_dispatch :: dispatch_config

record media_asset =
  as_image :: bool
  as_filename :: string
  as_mimeType :: string
  as_byteSize :: int
  as_sha256 :: string

record process_env =
  pn_between :: "nat \<Rightarrow> runtime_db \<Rightarrow> runtime_db"
  pn_js :: "nat \<Rightarrow> millis"
  pn_now :: "nat \<Rightarrow> millis"
  pn_safety :: bool
  pn_snapshot :: bool
  pn_waits :: nat
  pn_view :: gateway_view
  pn_incompatible :: "process_error option"
  pn_readiness :: "(bool \<times> string option) option"
  pn_heartbeat :: "bool \<times> int"
  pn_token :: string
  pn_attemptId :: string
  pn_commandId :: string
  pn_fresh :: "string \<times> string"
  pn_media :: "process_error + media_asset"
  pn_commandPath :: bool
  pn_relay :: "process_error + string"
  pn_encode :: "js_value \<Rightarrow> (string \<times> string) option"
  pn_fmt :: "millis \<Rightarrow> string"
  pn_send :: "process_error + string"
  pn_sha :: "string \<Rightarrow> string"
  pn_seed :: "string \<Rightarrow> nat \<Rightarrow> 16 word"
  pn_ingress :: "claimed_command \<Rightarrow> dispatch_env"
  pn_lease :: "string \<Rightarrow> string"
  pn_dispatchReady :: "bool option"
  pn_describe :: "process_error \<Rightarrow> string"
  pn_lower :: "string \<Rightarrow> string"

record process_state =
  ps_db :: runtime_db
  ps_permit :: "message_permit option"
  ps_committed :: "committed_send option"
  ps_sends :: "(string \<times> string) list"
  ps_refreshes :: "(string \<times> string) list"

type_synonym 'a process = "(process_state, process_error, 'a) fm"

text \<open>A transaction at step \<open>k\<close>; and one whose error is only logged.\<close>

definition at_step :: "process_env \<Rightarrow> nat \<Rightarrow> (millis \<Rightarrow> millis \<Rightarrow> 'a tx) \<Rightarrow> 'a process" where
  "at_step env k m st =
     (case transaction (m (pn_js env k) (pn_now env k)) (pn_between env k (ps_db st)) of
        (Inl e, db) \<Rightarrow> (Inl (PE_Db e), st\<lparr>ps_db := db\<rparr>)
      | (Inr x, db) \<Rightarrow> (Inr x, st\<lparr>ps_db := db\<rparr>))"

definition record_safety_outcome :: "process_env \<Rightarrow> nat \<Rightarrow> message_permit \<Rightarrow> operation_outcome \<Rightarrow> unit process" where
  "record_safety_outcome env k p out = fcatch (at_step env k (\<lambda>js now. record_outcome now (message_ref p) out)) (\<lambda>_. fok ())"

definition update_job :: "process_env \<Rightarrow> nat \<Rightarrow> string \<Rightarrow> job_status \<Rightarrow> string option \<Rightarrow> string option \<Rightarrow> unit process" where
  "update_job env k i status messageId err = at_step env k (\<lambda>js now.
     tx_bind (update_result now (pn_fresh env) i status messageId err) (\<lambda>_.
     if truthy messageId then tx_bind (reconcile_pending_for_job (pn_lower env) now i) (\<lambda>_. tx_return ()) else tx_return ()))"

definition defer_job :: "process_env \<Rightarrow> nat \<Rightarrow> string \<Rightarrow> string \<Rightarrow> millis \<Rightarrow> string \<Rightarrow> unit process" where
  "defer_job env k i err t reason =
     fbind (at_step env k (\<lambda>js now. defer_processing now i err t (Some reason))) (\<lambda>_. fok ())"

definition release_step :: "process_env \<Rightarrow> nat \<Rightarrow> message_permit \<Rightarrow> unit process" where
  "release_step env k p = at_step env k (\<lambda>js now. release_permit now (message_ref p))"

section \<open>Sending\<close>

definition resolve_media :: "process_env \<Rightarrow> campaign_image \<Rightarrow> media_asset process" where
  "resolve_media env c = (case pn_media env of
     Inl e \<Rightarrow> fthrow e
   | Inr a \<Rightarrow> if \<not> as_image a \<or> as_filename a \<noteq> ci_filename c \<or> as_mimeType a \<noteq> ci_mimeType c
               \<or> as_byteSize a \<noteq> ci_byteSize c \<or> as_sha256 a \<noteq> ci_sha256 c
       then fthrow (PE_Message ''Campaign media asset no longer matches its immutable snapshot'') else fok a)"

text \<open>The content of the command: \<open>Inr\<close> a value, \<open>Inl\<close> the delay after a relay that is temporarily unavailable.\<close>

definition connector_content :: "process_env \<Rightarrow> campaign_content \<Rightarrow> (millis + js_value) process" where
  "connector_content env c = (case c of
     Campaign_Text t \<Rightarrow> fok (Inr (JObject [(''type'', JString ''TEXT''), (''text'', JString t)]))
   | Campaign_Image i \<Rightarrow> fbind (resolve_media env i) (\<lambda>a.
       if \<not> connector_image_mime_type (as_mimeType a)
       then fthrow (PE_Message (''Campaign image MIME type is not supported by the connector: '' @ as_mimeType a))
       else case pn_relay env of
         Inl e \<Rightarrow> if is_retryable_media_relay_failure e then fok (Inl (media_relay_retry_delay_ms e)) else fthrow e
       | Inr url \<Rightarrow> fok (Inr (JObject [(''type'', JString ''IMAGE''), (''filename'', JString (as_filename a)),
           (''mimeType'', JString (as_mimeType a)), (''byteSize'', JNumber (of_int (as_byteSize a))),
           (''sha256'', JString (as_sha256 a)), (''mediaUrl'', JString url),
           (''caption'', JString (first_some [ci_caption i] []))]))))"

definition command_value :: "process_env \<Rightarrow> message_job \<Rightarrow> message_permit \<Rightarrow> int \<Rightarrow> millis \<Rightarrow> millis \<Rightarrow> js_value \<Rightarrow> js_value" where
  "command_value env job p g created expires content = JObject
     [(''protocolVersion'', JNumber 1), (''commandId'', JString (pn_commandId env)),
      (''attemptId'', JString (pn_attemptId env)), (''sessionId'', JString (mj_sessionId job)),
      (''recipientId'', JString (mj_recipientId job)), (''safetyPermitId'', JString (mpt_leaseToken p)),
      (''bindingGeneration'', JNumber (of_int g)), (''createdAt'', JString (pn_fmt env created)),
      (''expiresAt'', JString (pn_fmt env expires)),
      (''operation'', JString (case mj_payload job of Campaign_Text _ \<Rightarrow> ''SEND_TEXT'' | Campaign_Image _ \<Rightarrow> ''SEND_IMAGE'')),
      (''content'', content)]"

definition final_fence_rejected :: string where
  "final_fence_rejected = ''FINAL_SEND_FENCE_REJECTED''"

definition commit_step :: "process_env \<Rightarrow> nat \<Rightarrow> message_permit \<Rightarrow> bool \<Rightarrow> connector_commit option \<Rightarrow> committed_send option process" where
  "commit_step env k p required cmd = at_step env k (\<lambda>js now.
     commit_message_start now (fst (pn_fresh env)) (snd (pn_fresh env)) p required cmd (fst (pn_heartbeat env)) (snd (pn_heartbeat env)))"

definition fence_rejected :: "process_env \<Rightarrow> message_job \<Rightarrow> message_permit \<Rightarrow> string \<Rightarrow> process_result process" where
  "fence_rejected env job p err = fthen (release_step env 5 p)
     (fthen (defer_job env 6 (mj_id job) err (pn_js env 6 + 60000) final_fence_rejected)
       (fok (PR_Safety_Deferred (pn_js env 6 + 60000) final_fence_rejected)))"

definition connector_deferred :: "process_env \<Rightarrow> message_job \<Rightarrow> message_permit \<Rightarrow> string \<Rightarrow> millis \<Rightarrow> string \<Rightarrow> process_result process" where
  "connector_deferred env job p err delay reason = fthen (release_step env 5 p)
     (fthen (defer_job env 6 (mj_id job) err (pn_js env 6 + delay) reason)
       (fok (PR_Connector_Deferred (pn_js env 6 + delay) reason)))"

definition process_with_connector :: "process_config \<Rightarrow> process_env \<Rightarrow> message_job \<Rightarrow> message_permit \<Rightarrow> process_result process" where
  "process_with_connector cfg env job p =
     (if \<not> pn_commandPath env then fthrow (PE_Message ''Live send blocked: OpenWA connector command path is unavailable'')
      else fbind (fget (\<lambda>st. healthy_binding_generation (pn_now env 3) (mj_sessionId job) (pn_between env 3 (ps_db st)))) (\<lambda>generation.
        case generation of
          None \<Rightarrow> connector_deferred env job p ''OpenWA connector binding is not healthy'' (pc_connectorPollMs cfg) ''CONNECTOR_UNHEALTHY''
        | Some g \<Rightarrow>
            (let created = pn_js env 12; expires = created + pc_commandTtlSeconds cfg * 1000 in
             fbind (connector_content env (mj_payload job)) (\<lambda>content.
             case content of
               Inl delay \<Rightarrow> connector_deferred env job p ''Event Inbox media relay is temporarily unavailable'' delay ''MEDIA_RELAY_UNAVAILABLE''
             | Inr v \<Rightarrow>
                 (case pn_encode env (command_value env job p g created expires v) of
                    None \<Rightarrow> fthrow (PE_Message ''Connector command is invalid'')
                  | Some (body, digest) \<Rightarrow>
                      fbind (commit_step env 4 p True (Some \<lparr>cc_attemptId = pn_attemptId env, cc_commandId = pn_commandId env,
                        cc_generation = g, cc_payloadSha256 = digest, cc_body = body, cc_expiresAt = expires\<rparr>)) (\<lambda>committed.
                      case committed of
                        None \<Rightarrow> fence_rejected env job p
                          ''Final send fence rejected current connector, session, recipient, campaign, or cancellation state''
                      | Some c \<Rightarrow> fthen (fmodify (\<lambda>st. st\<lparr>ps_committed := Some c\<rparr>))
                          (\<lambda>st. case dispatch_attempt (pn_sha env) (pc_dispatch cfg) (pn_seed env) (pn_ingress env) (pn_now env 7) (pn_lease env)
                               (pn_dispatchReady env) (pn_attemptId env) (pn_between env 7 (ps_db st)) of
                             (dispatched, db) \<Rightarrow> (Inr (PR_Queued (pn_attemptId env) (pn_commandId env) dispatched), st\<lparr>ps_db := db\<rparr>))))))))"

definition prepare_request :: "process_env \<Rightarrow> campaign_content \<Rightarrow> unit process" where
  "prepare_request env c = (case c of Campaign_Text _ \<Rightarrow> fok () | Campaign_Image i \<Rightarrow> fbind (resolve_media env i) (\<lambda>_. fok ()))"

definition send_directly :: "process_config \<Rightarrow> process_env \<Rightarrow> message_job \<Rightarrow> message_permit \<Rightarrow> process_result process" where
  "send_directly cfg env job p =
     fthen (prepare_request env (mj_payload job))
     (fbind (commit_step env 4 p False None) (\<lambda>committed.
      case committed of
        None \<Rightarrow> fence_rejected env job p ''Final send fence rejected current session, recipient, campaign, or cancellation state''
      | Some c \<Rightarrow>
          fthen (fmodify (\<lambda>st. st\<lparr>ps_committed := Some c, ps_sends := ps_sends st @ [(mj_sessionId job, mj_recipientId job)]\<rparr>))
          (case pn_send env of
             Inl e \<Rightarrow> fthrow e
           | Inr messageId \<Rightarrow>
               fthen (update_job env 7 (mj_id job) ACCEPTED (Some messageId) None)
               (fthen (record_safety_outcome env 8 p Succeeded) (fok (PR_Sent messageId))))))"

definition send_operation :: "process_config \<Rightarrow> process_env \<Rightarrow> message_job \<Rightarrow> process_result process" where
  "send_operation cfg env job =
     (case live_block_reason (pn_view env) (mj_sessionId job) (mj_recipientId job) of
        Some reason \<Rightarrow> fthen (defer_job env 1 (mj_id job) (''Live send blocked: '' @ reason) (pn_js env 1 + 60000) ''LIVE_POLICY_BLOCKED'')
          (fok (PR_Safety_Deferred (pn_js env 1 + 60000) reason))
      | None \<Rightarrow>
     (case pn_incompatible env of
        Some e \<Rightarrow> fthrow e
      | None \<Rightarrow>
          fbind (at_step env 2 (\<lambda>js now. governor_reserve_message (pc_governor cfg) (pn_readiness env) js now (pn_token env)
            (mj_sessionId job) (mj_id job) (mj_recipientId job) (campaign_content_message_type (mj_payload job)))) (\<lambda>decision.
          case decision of
            Deferred t reason \<Rightarrow> fthen (defer_job env 6 (mj_id job) (''Safety deferred: '' @ reason) t reason)
              (fok (PR_Safety_Deferred t reason))
          | Refused reason \<Rightarrow> fthen (defer_job env 6 (mj_id job) (''Safety blocked: '' @ reason) (pn_js env 6 + 60000) reason)
              (fok (PR_Safety_Deferred (pn_js env 6 + 60000) reason))
          | Granted p \<Rightarrow> fthen (fmodify (\<lambda>st. st\<lparr>ps_permit := Some p\<rparr>))
              (if gc_connectorRequired (pc_governor cfg) then process_with_connector cfg env job p
               else send_directly cfg env job p))))"

text \<open>An image waits for its share of the memory budget (\<open>None\<close> is no wait); each wait refreshes the lease of the job.\<close>

fun await_budget :: "process_env \<Rightarrow> string \<Rightarrow> nat \<Rightarrow> unit process" where
  "await_budget env i 0 = fok ()"
| "await_budget env i (Suc n) = fbind (at_step env 9 (\<lambda>js now. refresh_processing_lease now i default_processing_lease_ttl_ms))
     (\<lambda>ok. if ok then await_budget env i n else fthrow PE_No_Longer_Processing)"

definition process_governed :: "process_config \<Rightarrow> process_env \<Rightarrow> message_job \<Rightarrow> process_result process" where
  "process_governed cfg env job = (case mj_payload job of
     Campaign_Text _ \<Rightarrow> send_operation cfg env job
   | Campaign_Image _ \<Rightarrow> fthen (await_budget env (mj_id job) (pn_waits env)) (send_operation cfg env job))"

section \<open>Processing a job\<close>

definition process_body :: "process_config \<Rightarrow> process_env \<Rightarrow> message_job \<Rightarrow> process_result process" where
  "process_body cfg env job =
     (if mj_dryRun job
      then (if (case mj_payload job of Campaign_Text _ \<Rightarrow> False | Campaign_Image _ \<Rightarrow> \<not> pn_snapshot env)
            then fthrow (PE_Message ''Campaign media asset no longer matches its immutable snapshot'')
            else fthen (update_job env 7 (mj_id job) DRY_RUN_COMPLETED None None) (fok PR_Dry_Run))
      else if \<not> pc_allowLive cfg then fthrow (PE_Message ''Live send blocked: ALLOW_LIVE_SENDS=false'')
      else if \<not> pn_safety env then fthrow (PE_Message ''Live send blocked: OpenWA Safety Governor is unavailable'')
      else process_governed cfg env job)"

definition request_refresh :: "process_error \<Rightarrow> message_job \<Rightarrow> unit process" where
  "request_refresh e job = fmodify (\<lambda>st. st\<lparr>ps_refreshes := ps_refreshes st @
     (case e of
        PE_Http code _ \<Rightarrow> if \<not> is_group (mj_recipientId job) then []
          else if code = 403 then [(mj_recipientId job, ''send.permission_denied'')]
          else if code = 404 then [(mj_recipientId job, ''send.group_not_found'')] else []
      | _ \<Rightarrow> [])\<rparr>)"

definition with_permit :: "(message_permit \<Rightarrow> unit process) \<Rightarrow> unit process" where
  "with_permit f = fbind (fget ps_permit) (\<lambda>p. case p of None \<Rightarrow> fok () | Some p \<Rightarrow> f p)"

definition failure_status :: "process_error \<Rightarrow> bool \<Rightarrow> job_status" where
  "failure_status e started = (if \<not> started \<or> is_definitive_upstream_rejection e then FAILED else UNKNOWN)"

definition retries_safely :: "process_config \<Rightarrow> message_job \<Rightarrow> process_error \<Rightarrow> process_state \<Rightarrow> bool" where
  "retries_safely cfg job e st \<longleftrightarrow> ps_committed st \<noteq> None \<and> is_safe_retryable_upstream_rejection e
     \<and> (case ps_committed st of Some c \<Rightarrow> cms_attemptNumber c | None \<Rightarrow> mj_attemptCount job) < pc_safeRetryMax cfg"

definition retry_delay :: "process_error \<Rightarrow> millis" where
  "retry_delay e = (case e of PE_Http _ (Some t) \<Rightarrow> t | _ \<Rightarrow> 5000)"

definition process_failed :: "process_config \<Rightarrow> process_env \<Rightarrow> message_job \<Rightarrow> process_error \<Rightarrow> process_result process" where
  "process_failed cfg env job e =
     (if e = PE_No_Longer_Processing then fok PR_Skipped
      else fbind (fget (retries_safely cfg job e)) (\<lambda>again.
        fbind (fget (\<lambda>st. ps_committed st \<noteq> None)) (\<lambda>started.
        if again
        then fbind (at_step env 10 (\<lambda>js now. reschedule_processing now (pn_fresh env) (mj_id job) (pn_describe env e) (retry_delay e))) (\<lambda>_.
             fthen (with_permit (\<lambda>p. record_safety_outcome env 11 p (safety_outcome e True)))
               (fok (PR_Retry_Scheduled (retry_delay e))))
        else fthen (update_job env 10 (mj_id job) (failure_status e started) None (Some (pn_describe env e)))
            (fthen (with_permit (\<lambda>p. record_safety_outcome env 11 p (safety_outcome e started)))
              (fthen (request_refresh e job) (fthrow e))))))"

definition process_job :: "process_config \<Rightarrow> process_env \<Rightarrow> string \<Rightarrow> process_result process" where
  "process_job cfg env i =
     fbind (at_step env 0 (\<lambda>js now. mark_processing now i)) (\<lambda>marked.
     case marked of
       None \<Rightarrow> fok PR_Skipped
     | Some job \<Rightarrow> fcatch (process_body cfg env job) (process_failed cfg env job))"

end
