(* ===== verification/Runtime_Demo.thy ===== *)
theory Runtime_Demo
  imports Runtime_Tables
begin

text \<open>A small concrete database: the inputs at which the properties of the Runtime are exercised.\<close>

definition empty_db :: runtime_db where
  "empty_db = \<lparr>db_jobs = [], db_attempts = [], db_evidence = [], db_events = [], db_runs = [], db_lanes = [],
     db_scopes = [], db_buckets = [], db_leases = [], db_outcomes = [], db_mutations = [], db_activity = [],
     db_connectors = [], db_sessions = [], db_groups = [], db_readiness = None\<rparr>"

text \<open>A text message to \<open>g\<close> in session \<open>s\<close>, created at time 0.\<close>

definition demo_job :: "string \<Rightarrow> job_status \<Rightarrow> message_job" where
  "demo_job i st = \<lparr>mj_id = i, mj_scope = ''test'', mj_key = i, mj_requestHash = ''h'', mj_sessionId = ''s'', mj_recipientId = ''g'',
     mj_type = Text_Message, mj_payload = Campaign_Text ''hello'', mj_scheduledAt = 0, mj_status = st, mj_dryRun = False,
     mj_claimCount = 0, mj_attemptCount = 0, mj_leaseExpiresAt = None, mj_upstreamStartedAt = None,
     mj_leaseToken = None, mj_policyVersion = None, mj_cancelRequestedAt = None, mj_messageId = None,
     mj_lastError = None, mj_deferReason = None, mj_createdAt = 0, mj_updatedAt = 0\<rparr>"

definition demo_connector :: connector_session where
  "demo_connector = \<lparr>cs_hasWebhook = True, cs_hasConnector = True, cs_bindingSyncedAt = Some 0, cs_healthy = True,
     cs_healthLeaseExpiresAt = Some 1000000, cs_generation = 1\<rparr>"

text \<open>A ready session with one group and one job being processed.\<close>

definition demo_db :: runtime_db where
  "demo_db = empty_db\<lparr>db_jobs := [demo_job ''j'' PROCESSING],
     db_connectors := [(''s'', demo_connector)],
     db_sessions := [(''s'', \<lparr>gs_ready = True, gs_engineLoaded = True, gs_restricted = False\<rparr>)],
     db_groups := [((''s'', ''g''), \<lparr>gg_active = True, gg_sendAllowed = True, gg_invalidated = False\<rparr>)],
     db_readiness := Some \<lparr>dr_ready = True, dr_heartbeatAt = 0\<rparr>\<rparr>"

end
