(* ===== verification/Forecast_Theorems.thy ===== *)
theory Forecast_Theorems
  imports Safety_Forecast Runtime_Demo
begin

text \<open>
  The forecast against what it predicts: \<open>recipientAdmissionAt\<close> returns the first moment at which the recipient
  limit of \<open>reserveMessage\<close> lets a send through, and the simulated budgets admit exactly when the durable ones do
  and stay equal to them when both are spent (\<open>budget_view\<close> relates the two).
\<close>

section \<open>Recipients\<close>

definition starts_within :: "int \<Rightarrow> millis list \<Rightarrow> millis \<Rightarrow> nat" where
  "starts_within window ts c = length (filter (\<lambda>t. c - window \<le> t \<and> t \<le> c) ts)"

lemma advance_end_spec:
  "e \<le> length ts \<Longrightarrow> \<forall>i < e. ts ! i \<le> c \<Longrightarrow>
   e \<le> advance_end ts c e \<and> advance_end ts c e \<le> length ts \<and> (\<forall>i < advance_end ts c e. ts ! i \<le> c)
   \<and> (advance_end ts c e < length ts \<longrightarrow> c < ts ! advance_end ts c e)"
proof (induction ts c e rule: advance_end.induct)
  case (1 ts c e)
  show ?case
  proof (cases "e < length ts \<and> ts ! e \<le> c")
    case True
    then have "\<forall>i < Suc e. ts ! i \<le> c" using 1(3) by (auto simp: less_Suc_eq)
    with 1(1) [OF True] True show ?thesis by (subst (1 2 3 4 5) advance_end.simps) auto
  qed (use 1 in \<open>auto simp: advance_end.simps [of ts c e]\<close>)
qed

lemma advance_start_spec:
  "st \<le> e \<Longrightarrow> \<forall>i < st. ts ! i < b \<Longrightarrow>
   st \<le> advance_start ts b e st \<and> advance_start ts b e st \<le> e \<and> (\<forall>i < advance_start ts b e st. ts ! i < b)
   \<and> (advance_start ts b e st < e \<longrightarrow> b \<le> ts ! advance_start ts b e st)"
proof (induction ts b e st rule: advance_start.induct)
  case (1 ts b e st)
  show ?case
  proof (cases "st < e \<and> ts ! st < b")
    case True
    then have "\<forall>i < Suc st. ts ! i < b" using 1(3) by (auto simp: less_Suc_eq)
    with 1(1) [OF True] True show ?thesis by (subst (1 2 3 4 5) advance_start.simps) auto
  qed (use 1 in \<open>auto simp: advance_start.simps [of ts b e st]\<close>)
qed

lemma advance_end_le: "e \<le> length ts \<Longrightarrow> advance_end ts c e \<le> length ts"
proof (induction ts c e rule: advance_end.induct)
  case (1 ts c e) then show ?case by (subst advance_end.simps) auto
qed

lemma advance_end_ge: "e \<le> advance_end ts c e"
proof (induction ts c e rule: advance_end.induct)
  case (1 ts c e) show ?case by (subst advance_end.simps) (use 1 in auto)
qed

lemma advance_start_le: "st \<le> e \<Longrightarrow> advance_start ts b e st \<le> e"
proof (induction ts b e st rule: advance_start.induct)
  case (1 ts b e st) then show ?case by (subst advance_start.simps) auto
qed

lemma advance_start_ge: "st \<le> advance_start ts b e st"
proof (induction ts b e st rule: advance_start.induct)
  case (1 ts b e st) show ?case by (subst advance_start.simps) (use 1 in auto)
qed

text \<open>The state of the two indices at a candidate: the window is exactly the entries between them.\<close>

definition window_at :: "int \<Rightarrow> millis list \<Rightarrow> millis \<Rightarrow> nat \<Rightarrow> nat \<Rightarrow> bool" where
  "window_at window ts c st e \<longleftrightarrow> st \<le> e \<and> e \<le> length ts \<and> (\<forall>i < e. ts ! i \<le> c) \<and> (e < length ts \<longrightarrow> c < ts ! e)
     \<and> (\<forall>i < st. ts ! i < c - window) \<and> (st < e \<longrightarrow> c - window \<le> ts ! st)"

lemma window_count:
  assumes "window_at window ts c st e" "sorted ts"
  shows "starts_within window ts c = e - st"
proof -
  have w: "st \<le> e" "e \<le> length ts" "\<And>i. i < e \<Longrightarrow> ts ! i \<le> c" "e < length ts \<Longrightarrow> c < ts ! e"
    "\<And>i. i < st \<Longrightarrow> ts ! i < c - window" "st < e \<Longrightarrow> c - window \<le> ts ! st"
    using assms(1) by (simp_all add: window_at_def)
  have "i < length ts \<and> c - window \<le> ts ! i \<and> ts ! i \<le> c \<longleftrightarrow> st \<le> i \<and> i < e" for i
  proof
    assume i: "i < length ts \<and> c - window \<le> ts ! i \<and> ts ! i \<le> c"
    have "st \<le> i" using i w(5) [of i] by linarith
    moreover have "i < e"
    proof (rule ccontr)
      assume "\<not> i < e"
      then have "ts ! e \<le> ts ! i" using i assms(2) by (simp add: sorted_nth_mono)
      moreover have "c < ts ! e" using w(4) i \<open>\<not> i < e\<close> by linarith
      ultimately show False using i by linarith
    qed
    ultimately show "st \<le> i \<and> i < e" by simp
  next
    assume i: "st \<le> i \<and> i < e"
    then have "ts ! st \<le> ts ! i" using assms(2) w(2) by (intro sorted_nth_mono) linarith+
    moreover have "c - window \<le> ts ! st" "i < length ts" using i w(2,6) by linarith+
    moreover have "ts ! i \<le> c" using i w(3) by simp
    ultimately show "i < length ts \<and> c - window \<le> ts ! i \<and> ts ! i \<le> c" by linarith
  qed
  then have "{i. i < length ts \<and> c - window \<le> ts ! i \<and> ts ! i \<le> c} = {st..<e}"
    by (simp add: atLeastLessThan_def lessThan_def atLeast_def Collect_conj_eq [symmetric])
  then show ?thesis by (simp add: starts_within_def length_filter_conv_card)
qed

lemma window_advance:
  assumes "window_at window ts c st e" "c \<le> c'"
  defines "e' \<equiv> advance_end ts c' e"
  shows "window_at window ts c' (advance_start ts (c' - window) e' st) e'"
proof -
  have "\<forall>i < e. ts ! i \<le> c'" "e \<le> length ts" "\<forall>i < st. ts ! i < c' - window" "st \<le> e"
    using assms(1,2) by (auto simp: window_at_def intro: order_trans)
  with advance_end_spec [of e ts c'] advance_start_spec [of st e' ts "c' - window"] show ?thesis
    by (auto simp: window_at_def e'_def)
qed

text \<open>A full window stays full until its oldest start leaves it.\<close>

lemma window_stays_full:
  assumes "window_at window ts c st e" "sorted ts" "limit \<le> e - st" "0 < limit" "c \<le> x" "x \<le> ts ! st + window"
  shows "limit \<le> starts_within window ts x"
proof -
  have in_window: "i < length ts \<and> x - window \<le> ts ! i \<and> ts ! i \<le> x" if "st \<le> i" "i < e" for i
  proof -
    have "ts ! st \<le> ts ! i" using that assms(1,2) by (intro sorted_nth_mono) (auto simp: window_at_def)
    moreover have "i < length ts" "ts ! i \<le> c" using that assms(1) by (auto simp: window_at_def)
    ultimately show ?thesis using assms(5,6) by simp
  qed
  have "card {st..<e} \<le> card {i. i < length ts \<and> x - window \<le> ts ! i \<and> ts ! i \<le> x}"
    using in_window by (intro card_mono) auto
  then show ?thesis using assms(3) by (simp add: starts_within_def length_filter_conv_card)
qed

lemma admission_loop_spec:
  assumes "window_at window ts c st e" "sorted ts" "0 < limit" "0 \<le> window"
  shows "\<exists>x. admission_loop limit window ts c st e = Some x \<and> c \<le> x \<and> starts_within window ts x < limit
    \<and> (\<forall>y. c \<le> y \<and> y < x \<longrightarrow> limit \<le> starts_within window ts y)"
  using assms(1)
proof (induction "length ts - st" arbitrary: c st e rule: less_induct)
  case less
  show ?case
  proof (cases "limit \<le> e - st")
    case False
    then show ?thesis using window_count [OF less.prems assms(2)] by (subst admission_loop.simps) auto
  next
    case True
    define c' where "c' = ts ! st + window + 1"
    define e' where "e' = advance_end ts c' e"
    define st' where "st' = advance_start ts (c' - window) e' st"
    have st: "st < e" "e \<le> length ts" using True assms(3) less.prems by (auto simp: window_at_def)
    have c: "c - window \<le> ts ! st" "ts ! st \<le> c" using less.prems st by (auto simp: window_at_def)
    then have cc': "c \<le> c'" by (simp add: c'_def)
    have w: "window_at window ts c' st' e'" using window_advance [OF less.prems cc'] by (simp add: e'_def st'_def)
    have "st' \<noteq> st"
    proof
      assume "st' = st"
      moreover have "e \<le> e'" using advance_end_spec [of e ts c'] less.prems cc' unfolding e'_def window_at_def by force
      ultimately show False using w st by (auto simp: window_at_def c'_def)
    qed
    moreover have "st \<le> st'" "e \<le> e'"
      using advance_end_spec [of e ts c'] advance_start_spec [of st e' ts "c' - window"] less.prems cc' st
      unfolding e'_def st'_def window_at_def by force+
    ultimately have "length ts - st' < length ts - st" using st by simp
    from less.hyps [OF this w] obtain x where x: "admission_loop limit window ts c' st' e' = Some x" "c' \<le> x"
      "starts_within window ts x < limit" "\<forall>y. c' \<le> y \<and> y < x \<longrightarrow> limit \<le> starts_within window ts y" by blast
    have "admission_loop limit window ts c st e = Some x"
      using True x(1) by (subst admission_loop.simps) (simp add: Let_def c'_def e'_def st'_def)
    moreover have "limit \<le> starts_within window ts y" if y: "c \<le> y" "y < x" for y
    proof (cases "c' \<le> y")
      case True then show ?thesis using x(4) y by simp
    next
      case False
      then show ?thesis using window_stays_full [OF less.prems assms(2) True assms(3) y(1)] by (simp add: c'_def)
    qed
    ultimately show ?thesis using x(2,3) cc' by (intro exI [of _ x]) auto
  qed
qed

lemma recipient_admission_spec:
  assumes "sorted ts" "0 < limit" "0 \<le> window"
  shows "\<exists>x. recipient_admission_at limit window ts requested = Some x \<and> requested \<le> x
    \<and> starts_within window ts x < limit \<and> (\<forall>y. requested \<le> y \<and> y < x \<longrightarrow> limit \<le> starts_within window ts y)"
proof -
  define e where "e = advance_end ts requested 0"
  define st where "st = advance_start ts (requested - window) e 0"
  have "window_at window ts requested st e"
    using advance_end_spec [of 0 ts requested] advance_start_spec [of 0 e ts "requested - window"]
    by (auto simp: window_at_def e_def st_def)
  from admission_loop_spec [OF this assms] show ?thesis
    by (simp add: recipient_admission_at_def Let_def e_def st_def)
qed

text \<open>The loop ends on any starts, sorted or not.\<close>

lemma admission_loop_ends:
  assumes "st \<le> e" "e \<le> length ts" "0 < limit"
  shows "admission_loop limit window ts c st e \<noteq> None"
  using assms(1,2)
proof (induction "length ts - st" arbitrary: c st e rule: less_induct)
  case less
  show ?case
  proof (cases "limit \<le> e - st")
    case False then show ?thesis by (subst admission_loop.simps) simp
  next
    case True
    define c' where "c' = ts ! st + window + 1"
    define e' where "e' = advance_end ts c' e"
    define st' where "st' = advance_start ts (c' - window) e' st"
    have e': "e \<le> e'" "e' \<le> length ts"
      unfolding e'_def using less.prems(2) by (simp_all add: advance_end_le advance_end_ge)
    have "st < e'" "ts ! st < c' - window" using True assms(3) e' by (simp_all add: c'_def)
    then have "st' = advance_start ts (c' - window) e' (Suc st)"
      unfolding st'_def by (subst advance_start.simps) simp
    then have "Suc st \<le> st' \<and> st' \<le> e'"
      using \<open>st < e'\<close> by (simp add: advance_start_ge advance_start_le)
    moreover have "st < length ts" using True assms(3) less.prems by linarith
    ultimately have "admission_loop limit window ts c' st' e' \<noteq> None" using less.hyps [of st' e' c'] e' by force
    then show ?thesis using True by (subst admission_loop.simps) (simp add: Let_def c'_def e'_def st'_def)
  qed
qed

lemma recipient_admission_ends: "0 < limit \<Longrightarrow> recipient_admission_at limit window ts requested \<noteq> None"
  unfolding recipient_admission_at_def Let_def
  by (rule admission_loop_ends) (simp_all add: advance_start_le advance_end_le)

lemma policy_limits: "0 < mp_recipientLimit (message_safety_policy p)" "0 \<le> mp_recipientWindow (message_safety_policy p)"
  by (cases p; simp add: hour_ms_def minute_ms_def)+

text \<open>While nothing new is sent, the recipient decision at a later moment counts the same starts.\<close>

lemma recipient_decision_count:
  assumes "\<forall>j \<in> set (db_jobs db). \<forall>t. mj_upstreamStartedAt j = Some t \<longrightarrow> t \<le> now" "now \<le> y"
    and w: "w = mp_recipientWindow (message_safety_policy profile)"
  shows "(recipient_decision y profile s r db = (None :: 'p decision option)) \<longleftrightarrow>
    starts_within w (sort (recent_starts now w s r db)) y < mp_recipientLimit (message_safety_policy profile)"
proof -
  let ?all = "somes (map mj_upstreamStartedAt
       (filter (\<lambda>j. mj_sessionId j = s \<and> mj_recipientId j = r \<and> mj_status j \<in> set sent_statuses) (db_jobs db)))"
  have le: "t \<le> now" if "t \<in> set ?all" for t using that assms(1) by (force simp: set_somes)
  have "recent_starts y w s r db = filter (\<lambda>t. y - w \<le> t \<and> t \<le> y) (recent_starts now w s r db)"
    unfolding recent_starts_def filter_filter using le assms(2) by (intro filter_cong) force+
  then have "length (recent_starts y w s r db) = starts_within w (sort (recent_starts now w s r db)) y"
    by (simp add: starts_within_def filter_sort)
  then show ?thesis by (simp add: recipient_decision_def Let_def w)
qed

section \<open>Budgets\<close>

definition budget_view :: "bucket_row \<Rightarrow> forecast_bucket" where
  "budget_view r = \<lparr>fb_arrivalAt = bk_arrivalAt r, fb_emission = bk_emission r, fb_burst = bk_burst r\<rparr>"

definition profile_policies :: "safety_profile \<Rightarrow> bucket_policy list" where
  "profile_policies profile = message_bucket_policies profile Text_Message @ message_bucket_policies profile Image_Message"

text \<open>A simulated bucket is the durable one as \<open>checkBuckets\<close> would refresh it; one not simulated yet is unchanged.\<close>

definition simulates :: "string \<Rightarrow> string \<Rightarrow> safety_profile \<Rightarrow> buckets \<Rightarrow> forecast_buckets \<Rightarrow> buckets \<Rightarrow> bool" where
  "simulates u s profile persisted fbs rows \<longleftrightarrow>
     (\<forall>p \<in> set (profile_policies profile). let k = bucket_key_of u s p in
        case map_of fbs k of
          None \<Rightarrow> map_of rows k = map_of persisted k
        | Some b \<Rightarrow> (\<exists>r. map_of rows k = Some r \<and> budget_view r = b \<and> emission_interval_ms p \<le> bk_emission r
             \<and> bk_burst r = bp_burst p))"

definition spend_all :: "millis \<Rightarrow> string \<Rightarrow> string \<Rightarrow> bucket_policy list \<Rightarrow> buckets \<Rightarrow> buckets" where
  "spend_all now u s ps rows =
     fold (\<lambda>p. update_keyed (\<lambda>k _. k = bucket_key_of u s p) (spend now (bp_cost p))) ps rows"

lemma consume_all: "tx_iter (consume_bucket now u s) ps db = Inr ((), db\<lparr>db_buckets := spend_all now u s ps (db_buckets db)\<rparr>)"
  by (induction ps arbitrary: db) (simp_all add: tx_return_def tx_bind_def consume_bucket_def tx_modify_def spend_all_def)

lemma fold_update_keyed:
  "distinct (map key ps) \<Longrightarrow>
   map_of (fold (\<lambda>p. update_keyed (\<lambda>k _. k = key p) (g p)) ps rows) k =
     (case List.find (\<lambda>p. key p = k) ps of None \<Rightarrow> map_of rows k | Some p \<Rightarrow> map_option (g p) (map_of rows k))"
proof (induction ps arbitrary: rows)
  case (Cons p ps)
  have "List.find (\<lambda>q. key q = k) ps = None" if "key p = k"
    using Cons.prems that unfolding find_None_iff by (metis distinct.simps(2) image_eqI list.set_map list.simps(9))
  with Cons show ?case by (auto simp: map_of_update_keyed map_option.identity [unfolded id_def] split: option.split)
qed simp

lemma message_keys_distinct: "distinct (map (bucket_key_of u s) (message_bucket_policies profile t))"
  by (simp add: message_bucket_policies_def Let_def mk_bucket_policy_def bucket_key_of_def)

lemma profile_policies_mem: "p \<in> set (message_bucket_policies profile t) \<Longrightarrow> p \<in> set (profile_policies profile)"
  by (cases t) (simp_all add: profile_policies_def)

text \<open>The budgets the two message types share have the same interval and burst.\<close>

lemma shared_budgets:
  assumes "p \<in> set (profile_policies profile)" "q \<in> set (profile_policies profile)"
    "bucket_key_of u s p = bucket_key_of u s q"
  shows "emission_interval_ms p = emission_interval_ms q \<and> bp_burst p = bp_burst q"
  using assms by (cases profile)
    (simp_all add: profile_policies_def message_bucket_policies_def Let_def mk_bucket_policy_def bucket_key_of_def
      emission_interval_ms_def, (elim disjE; simp)+)

lemma profile_policy_ok: "p \<in> set (profile_policies profile) \<Longrightarrow> policy_ok p"
  using message_policies_ok by (auto simp: profile_policies_def)

lemma map_of_load:
  "map_of (fold (load_bucket persisted calc u s) ps fbs) k =
     (case map_of fbs k of Some b \<Rightarrow> Some b
      | None \<Rightarrow> map_option (\<lambda>p. initial_bucket persisted calc k p) (List.find (\<lambda>p. bucket_key_of u s p = k) ps))"
proof (induction ps arbitrary: fbs)
  case (Cons p ps)
  show ?case unfolding fold_Cons comp_apply Cons
    by (auto simp: load_bucket_def Let_def map_of_insert_new split: option.split)
qed (simp split: option.split)

lemma find_key: "distinct (map key ps) \<Longrightarrow> p \<in> set ps \<Longrightarrow> List.find (\<lambda>q. key q = key p) ps = Some p"
  by (induction ps) (auto simp: image_iff)

definition sim_bucket :: "buckets \<Rightarrow> millis \<Rightarrow> string \<Rightarrow> string \<Rightarrow> forecast_buckets \<Rightarrow> bucket_policy \<Rightarrow> forecast_bucket" where
  "sim_bucket persisted calc u s fbs p =
     (let k = bucket_key_of u s p in case map_of fbs k of Some b \<Rightarrow> b | None \<Rightarrow> initial_bucket persisted calc k p)"

lemma loaded_bucket:
  assumes "distinct (map (bucket_key_of u s) ps)" "p \<in> set ps"
  shows "map_of (fold (load_bucket persisted calc u s) ps fbs) (bucket_key_of u s p) = Some (sim_bucket persisted calc u s fbs p)"
  using find_key [OF assms] by (simp add: map_of_load sim_bucket_def Let_def split: option.split)

text \<open>The durable bucket a check would see at \<open>x\<close>, and the simulated one.\<close>

lemma upserted_view:
  assumes "simulates u s profile persisted fbs rows" "p \<in> set (profile_policies profile)"
    and r_def: "r = upserted x (bucket_key_of u s p) p rows" and b_def: "b = sim_bucket persisted calc u s fbs p"
  shows "fb_emission b = bk_emission r \<and> fb_burst b = bk_burst r \<and> bk_burst r = bp_burst p \<and> emission_interval_ms p \<le> bk_emission r
    \<and> (fb_arrivalAt b = bk_arrivalAt r \<or> (fb_arrivalAt b = calc \<and> bk_arrivalAt r = x))"
proof (cases "map_of fbs (bucket_key_of u s p)")
  case None
  have "map_of rows (bucket_key_of u s p) = map_of persisted (bucket_key_of u s p)"
    using assms(1,2) None by (auto simp: simulates_def Let_def dest!: bspec [of _ _ p])
  with None emission_interval_pos [of p] show ?thesis
    by (auto simp: r_def b_def sim_bucket_def initial_bucket_def upserted_def fresh_bucket_def refresh_bucket_def Let_def
        split: option.split)
next
  case (Some b')
  then obtain r' where "map_of rows (bucket_key_of u s p) = Some r'" "budget_view r' = b'"
    "emission_interval_ms p \<le> bk_emission r'" "bk_burst r' = bp_burst p"
    using assms(1,2) by (auto simp: simulates_def Let_def dest!: bspec [of _ _ p])
  with Some show ?thesis
    by (auto simp: r_def b_def sim_bucket_def upserted_def refresh_bucket_def budget_view_def Let_def)
qed

lemma admits_iff:
  assumes "simulates u s profile persisted fbs rows" "p \<in> set (profile_policies profile)" "calc \<le> x"
  shows "allowed_at (upserted x (bucket_key_of u s p) p rows) \<le> x \<longleftrightarrow> admits_from (sim_bucket persisted calc u s fbs p) \<le> x"
proof -
  let ?r = "upserted x (bucket_key_of u s p) p rows"
  have "0 \<le> (bk_burst ?r - 1) * bk_emission ?r"
    using upserted_view [OF assms(1,2) refl refl, where x = x and calc = calc] profile_policy_ok [OF assms(2)] emission_interval_pos [of p]
    by (simp add: policy_ok_def)
  then show ?thesis
    using upserted_view [OF assms(1,2) refl refl, where x = x and calc = calc] assms(3) by (auto simp: allowed_at_def admits_from_def)
qed

lemma foldl_admits:
  "foldl (\<lambda>latest (b, cost). max latest (admits_from b)) req states \<le> x \<longleftrightarrow> req \<le> x \<and> (\<forall>st \<in> set states. admits_from (fst st) \<le> x)"
  by (induction states arbitrary: req) auto

lemma check_loop_admits:
  assumes "distinct (map (bucket_key_of u s) ps)"
  shows "fst (check_loop js now u s None ps rows) = None \<longleftrightarrow>
    (\<forall>p \<in> set ps. allowed_at (upserted now (bucket_key_of u s p) p rows) \<le> js)"
proof
  assume "fst (check_loop js now u s None ps rows) = None"
  then show "\<forall>p \<in> set ps. allowed_at (upserted now (bucket_key_of u s p) p rows) \<le> js"
    using check_loop_None [OF _ assms] by (metis prod.collapse)
next
  show "\<forall>p \<in> set ps. allowed_at (upserted now (bucket_key_of u s p) p rows) \<le> js \<Longrightarrow>
    fst (check_loop js now u s None ps rows) = None"
    using assms
  proof (induction ps arbitrary: rows)
    case (Cons p ps)
    let ?rows = "upsert_bucket now (bucket_key_of u s p) p rows"
    have "upserted now (bucket_key_of u s q) q ?rows = upserted now (bucket_key_of u s q) q rows" if "q \<in> set ps" for q
    proof -
      have "bucket_key_of u s q \<noteq> bucket_key_of u s p" using Cons.prems(2) that by (metis distinct.simps(2) imageI list.set_map list.simps(9))
      then show ?thesis by (simp add: upserted_def map_of_upsert)
    qed
    with Cons.prems Cons.IH [of ?rows] show ?case by (simp add: Let_def)
  qed simp
qed

text \<open>Simulating one more message and spending the durable budgets at the simulated time stay together.\<close>

theorem simulation_step:
  assumes sim: "simulates u s profile persisted fbs rows" and calc: "calc \<le> req"
    and step: "simulate_admission persisted calc u s (message_bucket_policies profile t) req fbs = (a, fbs')"
  shows "(req \<le> x \<longrightarrow> (fst (check_loop x x u s None (message_bucket_policies profile t) rows) = None \<longleftrightarrow> a \<le> x))"
    "req \<le> a"
    "simulates u s profile persisted fbs' (spend_all a u s (message_bucket_policies profile t)
        (snd (check_loop a a u s None (message_bucket_policies profile t) rows)))"
proof -
  define ps where "ps = message_bucket_policies profile t"
  define loaded where "loaded = fold (load_bucket persisted calc u s) ps fbs"
  note dist = message_keys_distinct [of u s profile t, folded ps_def]
  have in_prof: "p \<in> set (profile_policies profile)" if "p \<in> set ps" for p
    using that profile_policies_mem by (simp add: ps_def)
  have a: "a = foldl (\<lambda>latest (b, cost). max latest (admits_from b)) req
      (map (\<lambda>p. (the (map_of loaded (bucket_key_of u s p)), bp_cost p)) ps)"
    and fbs': "fbs' = fold (\<lambda>p. update_keyed (\<lambda>k _. k = bucket_key_of u s p) (forecast_spend a (bp_cost p))) ps loaded"
    using step by (auto simp: simulate_admission_def bucket_state_def Let_def loaded_def ps_def)
  have a_iff: "a \<le> x \<longleftrightarrow> req \<le> x \<and> (\<forall>p \<in> set ps. admits_from (sim_bucket persisted calc u s fbs p) \<le> x)" for x
    unfolding a foldl_admits using loaded_bucket [OF dist] by (simp add: loaded_def)
  have fits: "fst (check_loop x x u s None ps rows) = None \<longleftrightarrow> a \<le> x" if "req \<le> x" for x
    unfolding check_loop_admits [OF dist] a_iff using admits_iff [OF sim in_prof, where calc = calc and x = x] that calc by auto
  then show "req \<le> x \<longrightarrow> (fst (check_loop x x u s None (message_bucket_policies profile t) rows) = None \<longleftrightarrow> a \<le> x)"
    by (simp add: ps_def)
  show req: "req \<le> a" using a_iff [of a] by simp
  define rows' where "rows' = snd (check_loop a a u s None ps rows)"
  have "fst (check_loop a a u s None ps rows) = None" using fits [OF req] by simp
  then have "check_loop a a u s None ps rows = (None, rows')" by (simp add: rows'_def prod_eq_iff)
  note checked = check_loop_None [OF this dist]
  have rows': "map_of rows' (bucket_key_of u s p) = Some (upserted a (bucket_key_of u s p) p rows)" if "p \<in> set ps" for p
    using checked that by blast
  have same: "map_of rows' k = map_of rows k" if "k \<notin> bucket_key_of u s ` set ps" for k
    by (rule checked [THEN conjunct2, rule_format, OF that])
  have step_p: "map_of fbs' (bucket_key_of u s p) = Some (forecast_spend a (bp_cost p) (sim_bucket persisted calc u s fbs p))
    \<and> map_of (spend_all a u s ps rows') (bucket_key_of u s p) = Some (spend a (bp_cost p) (upserted a (bucket_key_of u s p) p rows))"
    if "p \<in> set ps" for p
    using loaded_bucket [OF dist that, of persisted calc fbs] rows' [OF that] find_key [OF dist that]
    by (simp add: fbs' spend_all_def fold_update_keyed [OF dist] loaded_def)
  have other: "map_of fbs' k = map_of fbs k \<and> map_of (spend_all a u s ps rows') k = map_of rows k"
    if "k \<notin> bucket_key_of u s ` set ps" for k
  proof -
    have "List.find (\<lambda>p. bucket_key_of u s p = k) ps = None" using that by (auto simp: find_None_iff)
    then show ?thesis using same [OF that]
      by (simp add: fbs' spend_all_def fold_update_keyed [OF dist] loaded_def map_of_load split: option.split)
  qed
  show "simulates u s profile persisted fbs' (spend_all a u s (message_bucket_policies profile t)
        (snd (check_loop a a u s None (message_bucket_policies profile t) rows)))"
    unfolding ps_def [symmetric] rows'_def [symmetric]
  proof (unfold simulates_def Let_def, intro ballI)
    fix q assume q: "q \<in> set (profile_policies profile)"
    show "case map_of fbs' (bucket_key_of u s q) of
       None \<Rightarrow> map_of (spend_all a u s ps rows') (bucket_key_of u s q) = map_of persisted (bucket_key_of u s q)
     | Some b \<Rightarrow> \<exists>r. map_of (spend_all a u s ps rows') (bucket_key_of u s q) = Some r \<and> budget_view r = b
          \<and> emission_interval_ms q \<le> bk_emission r \<and> bk_burst r = bp_burst q"
    proof (cases "bucket_key_of u s q \<in> bucket_key_of u s ` set ps")
      case True
      then obtain p where p: "p \<in> set ps" "bucket_key_of u s q = bucket_key_of u s p" by auto
      from shared_budgets [OF q in_prof [OF p(1)] p(2)] upserted_view [OF sim in_prof [OF p(1)] refl refl, where x = a and calc = calc] req calc
      show ?thesis unfolding p(2) using step_p [OF p(1)]
        by (auto simp: budget_view_def spend_def forecast_spend_def)
    next
      case False
      have "case map_of fbs (bucket_key_of u s q) of
          None \<Rightarrow> map_of rows (bucket_key_of u s q) = map_of persisted (bucket_key_of u s q)
        | Some b \<Rightarrow> \<exists>r. map_of rows (bucket_key_of u s q) = Some r \<and> budget_view r = b
             \<and> emission_interval_ms q \<le> bk_emission r \<and> bk_burst r = bp_burst q"
        using sim q by (simp add: simulates_def Let_def)
      then show ?thesis unfolding other [OF False, THEN conjunct1] other [OF False, THEN conjunct2] .
    qed
  qed
qed

lemma simulates_start: "simulates u s profile persisted [] persisted"
  by (simp add: simulates_def Let_def)

section \<open>Properties\<close>

text \<open>A campaign's recipient becomes eligible, in the forecast, at the first moment after the cursor at which
  the recipient limit would let \<open>reserveMessage\<close> send to it, if nothing else is sent. The search for it ends.\<close>

theorem recipient_forecast_exact:
  assumes "\<forall>j \<in> set (db_jobs db). \<forall>t. mj_upstreamStartedAt j = Some t \<longrightarrow> t \<le> now" "now \<le> cursor"
  shows "\<exists>x. recipient_admission_at (mp_recipientLimit (message_safety_policy profile))
        (mp_recipientWindow (message_safety_policy profile))
        (sort (recent_starts now (mp_recipientWindow (message_safety_policy profile)) s r db)) cursor = Some x
      \<and> cursor \<le> x \<and> recipient_decision x profile s r db = (None :: message_permit decision option)
      \<and> (\<forall>y. cursor \<le> y \<and> y < x \<longrightarrow> recipient_decision y profile s r db \<noteq> (None :: message_permit decision option))"
proof -
  let ?p = "message_safety_policy profile"
  let ?ts = "sort (recent_starts now (mp_recipientWindow ?p) s r db)"
  obtain x where x: "recipient_admission_at (mp_recipientLimit ?p) (mp_recipientWindow ?p) ?ts cursor = Some x" "cursor \<le> x"
    "starts_within (mp_recipientWindow ?p) ?ts x < mp_recipientLimit ?p"
    "\<forall>y. cursor \<le> y \<and> y < x \<longrightarrow> mp_recipientLimit ?p \<le> starts_within (mp_recipientWindow ?p) ?ts y"
    using recipient_admission_spec [OF sorted_sort policy_limits] by blast
  have count: "(recipient_decision y profile s r db = (None :: message_permit decision option)) \<longleftrightarrow>
      starts_within (mp_recipientWindow ?p) ?ts y < mp_recipientLimit ?p" if "cursor \<le> y" for y
    using recipient_decision_count [OF assms(1) _ refl, of y] that assms(2) by simp
  show ?thesis using x count by (intro exI [of _ x]) (auto simp: not_less)
qed

text \<open>A send at time 0 to the recipient: on CANARY the next is possible a millisecond after six hours.\<close>

definition started_db :: runtime_db where
  "started_db = empty_db\<lparr>db_jobs := [(demo_job ''j'' SENT)\<lparr>mj_upstreamStartedAt := Some 0\<rparr>]\<rparr>"

theorem recipient_forecast_exact_witness:
  "recipient_admission_at 1 (6 * hour_ms) (sort (recent_starts 5 (6 * hour_ms) ''s'' ''g'' started_db)) 5 = Some 21600001
   \<and> (recipient_decision 21600001 CANARY ''s'' ''g'' started_db = (None :: message_permit decision option))"
proof -
  have loaded: "recent_starts 5 (6 * hour_ms) ''s'' ''g'' started_db = [0]" by code_simp
  have x: "recipient_admission_at 1 (6 * hour_ms) [0] 5 = Some 21600001"
    by code_simp
  have "\<forall>j \<in> set (db_jobs started_db). \<forall>t. mj_upstreamStartedAt j = Some t \<longrightarrow> t \<le> 5"
    by (simp add: started_db_def empty_db_def)
  from recipient_forecast_exact [OF this order_refl, of CANARY "''s''" "''g''"] x loaded show ?thesis by simp
qed

lemma those_Some: "(\<And>x. x \<in> set xs \<Longrightarrow> f x \<noteq> None) \<Longrightarrow> those (map f xs) \<noteq> None"
  by (induction xs) (auto split: option.split)

text \<open>C30: A forecast always returns: the search for the recipients' windows ends for every database and policy.\<close>

theorem forecast_returns: "forecast_messages before js now u s recipients t db \<noteq> None"
proof -
  have "forecast_open before now u s rs t profile circuit db \<noteq> None" for rs profile circuit
  proof -
    have none: "(those (map (\<lambda>r. map_option (Pair r) (recipient_admission_at (mp_recipientLimit (message_safety_policy profile))
        (mp_recipientWindow (message_safety_policy profile)) (times r) cursor)) rs) = None) = False" for times cursor
      unfolding eq_False by (rule those_Some) (use recipient_admission_ends [OF policy_limits(1)] in simp)
    show ?thesis unfolding forecast_open_def Let_def by (auto simp: none split: prod.split option.split)
  qed
  then show ?thesis unfolding forecast_messages_def Let_def by (auto split: prod.split option.split sum.split decision.split)
qed

text \<open>C29: One more simulated message is admitted at exactly the first moment, from the requested one on, at which
  the durable budgets admit it; and spending both at that moment keeps the simulation equal to the budgets.\<close>

theorem forecast_refines_budgets:
  assumes "simulates u s profile persisted fbs rows" "calc \<le> req"
    "simulate_admission persisted calc u s (message_bucket_policies profile t) req fbs = (a, fbs')"
  shows "req \<le> a \<and>
    (\<forall>x. req \<le> x \<longrightarrow> (fst (check_loop x x u s None (message_bucket_policies profile t) rows) = None \<longleftrightarrow> a \<le> x)) \<and>
    simulates u s profile persisted fbs' (spend_all a u s (message_bucket_policies profile t)
      (snd (check_loop a a u s None (message_bucket_policies profile t) rows)))"
  using simulation_step [OF assms] by blast

text \<open>Two messages of an empty session: the second waits 20 s on CANARY, because its minute budget has no burst.\<close>

definition canary_text :: "bucket_policy list" where
  "canary_text = message_bucket_policies CANARY Text_Message"

definition after_one :: forecast_buckets where
  "after_one = snd (simulate_admission [] 0 ''u'' ''s'' canary_text 0 [])"

lemma first_admission: "simulate_admission [] 0 ''u'' ''s'' canary_text 0 [] = (0, after_one)"
  unfolding after_one_def by (rule prod_eqI, code_simp, simp)

theorem forecast_refines_budgets_witness:
  "fst (simulate_admission [] 0 ''u'' ''s'' canary_text 0 after_one) = 20000
   \<and> simulates ''u'' ''s'' CANARY [] after_one
        (spend_all 0 ''u'' ''s'' canary_text (snd (check_loop 0 0 ''u'' ''s'' None canary_text [])))"
proof
  show "fst (simulate_admission [] 0 ''u'' ''s'' canary_text 0 after_one) = 20000" by code_simp
  show "simulates ''u'' ''s'' CANARY [] after_one
        (spend_all 0 ''u'' ''s'' canary_text (snd (check_loop 0 0 ''u'' ''s'' None canary_text [])))"
    using forecast_refines_budgets [OF simulates_start order_refl first_admission [unfolded canary_text_def]]
    by (simp add: canary_text_def)
qed

end
