(* ===== verification/Governor_Theorems.thy ===== *)
theory Governor_Theorems
  imports Governor_System Forecast_Theorems
begin

text \<open>
  The safety governor's promises: when a message permit is granted, how much it spends, that it excludes others, what
  the final fence requires and that it opens once, what outcomes do to circuits, and what operators see and do.
\<close>

section \<open>A granted reservation\<close>

lemma decide_ok: "decide d m db = Inr (x, db') \<longleftrightarrow> (case d of Some y \<Rightarrow> x = y \<and> db' = db | None \<Rightarrow> m db = Inr (x, db'))"
  by (simp add: decide_def split: option.split)

lemma tx_bind_elim: "tx_bind m f db = Inr r \<Longrightarrow> (\<And>x db'. m db = Inr (x, db') \<Longrightarrow> f x db' = Inr r \<Longrightarrow> thesis) \<Longrightarrow> thesis"
  by auto

text \<open>The database a reservation decides on: its scopes are ensured and expired circuits half opened.\<close>

definition scopes_moved :: "millis \<Rightarrow> millis \<Rightarrow> runtime_db \<Rightarrow> runtime_db \<Rightarrow> bool" where
  "scopes_moved js now db db1 \<longleftrightarrow> (\<forall>k r. map_of (db_scopes db) k = Some r \<longrightarrow>
     map_of (db_scopes db1) k = Some r \<or> (cooled_down js r \<and> map_of (db_scopes db1) k = Some (half_open now r)))"

lemma ensure_scopes_kept:
  assumes "ensure_scopes now u s db = Inr (x, d0)" "map_of (db_scopes db) k = Some r"
  shows "map_of (db_scopes d0) k = Some r"
proof -
  have step: "map_of (insert_new k' r' rows) k = Some r" if "map_of rows k = Some r" for k' r' and rows :: "(scope_key \<times> scope_row) list"
    using that by (cases "k = k'") (simp_all add: map_of_insert_new)
  have "db_scopes d0 = (if s = [] then insert_new (upstream_key u) (fresh_scope now) (insert_new workspace_key (fresh_scope now) (db_scopes db))
      else insert_new (session_key u s) (fresh_scope now)
        (insert_new (upstream_key u) (fresh_scope now) (insert_new workspace_key (fresh_scope now) (db_scopes db))))"
    using assms(1) by (auto simp: ensure_scopes_def Let_def)
  then show ?thesis using assms(2) by (simp add: step)
qed

lemma expiry_moves:
  assumes e: "ensure_scopes now u s db = Inr (x, d0)" and l: "lock_scopes u s d0 = Inr (locked, d0)"
    and tr: "transition_expired js now locked d0 = Inr (scopes, db1)"
  shows "scopes_moved js now db db1"
  unfolding scopes_moved_def
proof (intro allI impI)
  fix k r assume that: "map_of (db_scopes db) k = Some r"
  have d0: "map_of (db_scopes d0) k = Some r"
    by (rule ensure_scopes_kept [OF e that])
  have "x = r" if "(k, x) \<in> set locked" for x
    using that lock_scopes_agree [OF l] scopes_agree_mem [of u s locked d0 k x] d0 by simp
  then show "map_of (db_scopes db1) k = Some r \<or> (cooled_down js r \<and> map_of (db_scopes db1) k = Some (half_open now r))"
    using tr d0 by (auto simp: transition_expired_def Let_def map_of_update_keyed split: if_splits)
qed

lemma reserve_message_granted:
  assumes "reserve_message js now tok u s job recipient t ttl db = Inr (Granted p, db')"
  obtains scopes db1 rows where
    "scopes_agree u s scopes db1" "circuit_decision js scopes = (None :: message_permit decision option)"
    "outbound_decision scopes = (None :: message_permit decision option)" "recovery_until now u s db1 = None"
    "recipient_decision now (permit_profile scopes) s recipient db1 = (None :: message_permit decision option)"
    "in_flight_decision now u s db1 = (None :: message_permit decision option)"
    "check_loop js now u s None (message_bucket_policies (permit_profile scopes) t) (db_buckets db1) = (None, rows)"
    "grant_message now tok u s job recipient t ttl scopes (db1\<lparr>db_buckets := rows\<rparr>) = Inr (Granted p, db')"
    "db_buckets db1 = db_buckets db" "db_leases db1 = db_leases db" "db_jobs db1 = db_jobs db"
    "scopes_moved js now db db1"
proof -
  obtain x0 d0 locked d1 scopes db1 where e: "ensure_scopes now u s db = Inr (x0, d0)"
    and l: "lock_scopes u s d0 = Inr (locked, d1)" and tr: "transition_expired js now locked d1 = Inr (scopes, db1)"
    and r1: "decide (circuit_decision js scopes) (
     decide (outbound_decision scopes) (\<lambda>db.
     case recovery_until now u s db of
       Some e \<Rightarrow> Inr (Deferred e ''RECOVERY_PROBE_IN_FLIGHT'', db)
     | None \<Rightarrow>
         decide (recipient_decision now (permit_profile scopes) s recipient db) (
         decide (in_flight_decision now u s db) (
         tx_bind (check_buckets js now u s (message_bucket_policies (permit_profile scopes) t)) (\<lambda>wait.
         decide wait (grant_message now tok u s job recipient t ttl scopes)))) db)) db1 = Inr (Granted p, db')"
    using assms unfolding reserve_message_def by (elim tx_bind_elim) blast
  have d1: "d1 = d0" using l by (simp add: lock_scopes_def)
  have agree: "scopes_agree u s scopes db1" using lock_scopes_agree [OF l] transition_expired_agree [OF _ tr] d1 by blast
  have same: "db_buckets db1 = db_buckets db" "db_leases db1 = db_leases db" "db_jobs db1 = db_jobs db"
    using frame_ensure [of now u s] frame_transition [of js now locked] e tr d1 unfolding frame_def by metis+
  have kept: "scopes_moved js now db db1" by (rule expiry_moves [OF e l [unfolded d1] tr [unfolded d1]])
  show ?thesis
  proof (cases "circuit_decision js scopes = (None :: message_permit decision option)
      \<and> outbound_decision scopes = (None :: message_permit decision option) \<and> recovery_until now u s db1 = None
      \<and> recipient_decision now (permit_profile scopes) s recipient db1 = (None :: message_permit decision option)
      \<and> in_flight_decision now u s db1 = (None :: message_permit decision option)")
    case True
    then have "tx_bind (check_buckets js now u s (message_bucket_policies (permit_profile scopes) t)) (\<lambda>wait.
         decide wait (grant_message now tok u s job recipient t ttl scopes)) db1 = Inr (Granted p, db')"
      using r1 by (simp add: decide_def)
    then obtain wait rows where c: "check_loop js now u s None (message_bucket_policies (permit_profile scopes) t) (db_buckets db1) = (wait, rows)"
      "decide (map_option (\<lambda>t. Deferred t ''RATE_BUDGET'') wait) (grant_message now tok u s job recipient t ttl scopes)
         (db1\<lparr>db_buckets := rows\<rparr>) = Inr (Granted p, db')"
      by (auto simp: check_buckets_def split: prod.splits)
    then have "wait = None" by (cases wait) (auto simp: decide_def)
    with c True agree same that [OF agree] kept show ?thesis by (simp add: decide_def)
  next
    case False
    then show ?thesis using r1
      by (auto simp: decide_def circuit_decision_not_granted outbound_decision_not_granted recipient_decision_def
          in_flight_decision_def Let_def split: option.splits if_splits)
  qed
qed

lemma keeps_eq: "tx_keeps (\<lambda>db. g db = c) m \<Longrightarrow> m db = Inr (x, db') \<Longrightarrow> g db = c \<Longrightarrow> g db' = c"
  by (auto simp: tx_keeps_def)

lemma take_lease_other: "k \<noteq> k' \<Longrightarrow> tx_keeps (lease_held k l) (take_lease now k' l')"
  by (auto simp: tx_keeps_def lease_held_def take_lease_def map_of_update_keyed map_add_def split: option.splits if_splits)

lemma take_lease_held: "take_lease now k l db = Inr (True, db') \<Longrightarrow> lease_held k l db'"
  by (auto simp: lease_held_def take_lease_def map_of_update_keyed map_add_def split: option.splits if_splits)

definition attached_job :: "millis \<Rightarrow> string \<Rightarrow> message_job \<Rightarrow> message_job" where
  "attached_job now tok j = j\<lparr>mj_leaseToken := Some tok, mj_policyVersion := Some safety_policy_version, mj_updatedAt := now\<rparr>"

lemma grant_message_ok:
  assumes "grant_message now tok u s job recipient t ttl scopes db = Inr (d, db')"
  shows "d = Granted \<lparr>mpt_leaseToken = tok, mpt_upstreamId = u, mpt_sessionId = s, mpt_jobId = job,
        mpt_recipientId = recipient, mpt_type = t, mpt_profile = permit_profile scopes, mpt_policyVersion = safety_policy_version,
        mpt_reservedAt = now, mpt_expiresAt = now + ttl\<rparr>"
    "db_buckets db' = spend_all now u s (message_bucket_policies (permit_profile scopes) t) (db_buckets db)"
    "lease_held (session_key u s, ACTIVE_SESSION) (new_lease tok ''MESSAGE_JOB'' job now ttl) db'"
    "db_jobs db' = update_where (\<lambda>j. mj_id j = job \<and> mj_status j = PROCESSING \<and> mj_cancelRequestedAt j = None)
       (attached_job now tok) (db_jobs db)"
    "\<exists>j \<in> set (db_jobs db). mj_id j = job \<and> mj_status j = PROCESSING \<and> mj_cancelRequestedAt j = None"
proof -
  let ?l = "new_lease tok ''MESSAGE_JOB'' job now ttl" and ?k = "(session_key u s, ACTIVE_SESSION)"
  let ?ps = "message_bucket_policies (permit_profile scopes) t"
  define recover where "recover = tx_iter (\<lambda>k. tx_bind (take_lease now (k, RECOVERY_LANE) ?l) (\<lambda>ok.
        if ok then tx_return () else tx_throw Recovery_Lane_Changed)) (recovering scopes)"
  obtain d0 u1 d1 u2 d2 u3 where t: "take_lease now ?k ?l db = Inr (True, d0)" and r: "recover d0 = Inr (u1, d1)"
    and c: "tx_iter (consume_bucket now u s) ?ps d1 = Inr (u2, d2)" and a: "attach_permit now tok job d2 = Inr (u3, db')"
    and d: "d = Granted \<lparr>mpt_leaseToken = tok, mpt_upstreamId = u, mpt_sessionId = s, mpt_jobId = job,
        mpt_recipientId = recipient, mpt_type = t, mpt_profile = permit_profile scopes, mpt_policyVersion = safety_policy_version,
        mpt_reservedAt = now, mpt_expiresAt = now + ttl\<rparr>"
    using assms unfolding grant_message_def Let_def recover_def by (auto split: if_splits)
  have rec_buckets: "tx_keeps (\<lambda>db. db_buckets db = b) recover" "tx_keeps (\<lambda>db. db_jobs db = js) recover"
    "tx_keeps (lease_held ?k ?l) recover" for b js
    unfolding recover_def
    by (intro tx_rules tx_keeps_frame take_lease_other frame_take_lease; simp)+
  have d2: "d2 = d1\<lparr>db_buckets := spend_all now u s ?ps (db_buckets d1)\<rparr>" using c by (simp add: consume_all)
  have "db_buckets d1 = db_buckets db" "db_jobs d1 = db_jobs db"
    using keeps_eq [OF rec_buckets(1) r, of "db_buckets d0"] keeps_eq [OF rec_buckets(2) r, of "db_jobs d0"] t
      frame_take_lease [of now ?k ?l] unfolding frame_def by fastforce+
  moreover have "lease_held ?k ?l d1" using tx_keepsD [OF rec_buckets(3) take_lease_held [OF t] r] .
  moreover have job: "(\<exists>j \<in> set (db_jobs d2). mj_id j = job \<and> mj_status j = PROCESSING \<and> mj_cancelRequestedAt j = None)
      \<and> db' = d2\<lparr>db_jobs := update_where (\<lambda>j. mj_id j = job \<and> mj_status j = PROCESSING \<and> mj_cancelRequestedAt j = None)
        (attached_job now tok) (db_jobs d2)\<rparr>"
    using a unfolding attach_permit_def attached_job_def [abs_def]
    by (auto simp: update_jobs_ok filter_empty_conv split: if_splits)
  ultimately show "db_buckets db' = spend_all now u s ?ps (db_buckets db)" "lease_held ?k ?l db'"
    "db_jobs db' = update_where (\<lambda>j. mj_id j = job \<and> mj_status j = PROCESSING \<and> mj_cancelRequestedAt j = None)
       (attached_job now tok) (db_jobs db)"
    "\<exists>j \<in> set (db_jobs db). mj_id j = job \<and> mj_status j = PROCESSING \<and> mj_cancelRequestedAt j = None"
    by (simp_all add: d2 lease_held_def)
  show "d = Granted \<lparr>mpt_leaseToken = tok, mpt_upstreamId = u, mpt_sessionId = s, mpt_jobId = job,
        mpt_recipientId = recipient, mpt_type = t, mpt_profile = permit_profile scopes, mpt_policyVersion = safety_policy_version,
        mpt_reservedAt = now, mpt_expiresAt = now + ttl\<rparr>" by (rule d)
qed

lemma find_session: "scopes_agree u s scopes db \<Longrightarrow> find_scope SESSION scopes = map_of (db_scopes db) (session_key u s)"
  unfolding scopes_agree_def
  by (cases "map_of (db_scopes db) workspace_key"; cases "map_of (db_scopes db) (upstream_key u)";
      cases "map_of (db_scopes db) (session_key u s)")
    (simp_all add: find_scope_def scope_keys_def, simp_all add: workspace_key_def upstream_key_def session_key_def)

definition scope_admits :: "millis \<Rightarrow> scope_key \<Rightarrow> scope_row \<Rightarrow> bool" where
  "scope_admits js k r \<longleftrightarrow> \<not> manually_blocked r \<and> (fst k = SESSION \<longrightarrow> sc_pausedAt r = None)
     \<and> (case sc_cooldownUntil r of None \<Rightarrow> sc_circuit r \<noteq> OPEN | Some c \<Rightarrow> c \<le> js)"

lemma granted_facts:
  assumes "reserve_message js now tok u s job recipient t ttl db = Inr (Granted p, db')"
  shows "(\<forall>k \<in> set (scope_keys u s). \<forall>r. map_of (db_scopes db) k = Some r \<longrightarrow> scope_admits js k r)
    \<and> recovery_until now u s db = None
    \<and> (\<forall>l. session_lease u s db = Some l \<longrightarrow> sl_expiresAt l \<le> now)
    \<and> length (recent_starts now (6 * hour_ms) s recipient db) < mp_recipientLimit (message_safety_policy (mpt_profile p))
    \<and> (\<exists>j \<in> set (db_jobs db). mj_id j = job \<and> mj_status j = PROCESSING \<and> mj_cancelRequestedAt j = None)
    \<and> session_lease u s db' = Some (new_lease tok ''MESSAGE_JOB'' job now ttl)"
proof -
  obtain scopes db1 rows where r: "scopes_agree u s scopes db1" "circuit_decision js scopes = (None :: message_permit decision option)"
    "outbound_decision scopes = (None :: message_permit decision option)" "recovery_until now u s db1 = None"
    "recipient_decision now (permit_profile scopes) s recipient db1 = (None :: message_permit decision option)"
    "in_flight_decision now u s db1 = (None :: message_permit decision option)"
    "check_loop js now u s None (message_bucket_policies (permit_profile scopes) t) (db_buckets db1) = (None, rows)"
    "grant_message now tok u s job recipient t ttl scopes (db1\<lparr>db_buckets := rows\<rparr>) = Inr (Granted p, db')"
    "db_buckets db1 = db_buckets db" "db_leases db1 = db_leases db" "db_jobs db1 = db_jobs db"
    "scopes_moved js now db db1"
    by (rule reserve_message_granted [OF assms])
  note g = grant_message_ok [OF r(8)]
  have scope1: "scope_admits js k row" if k: "k \<in> set (scope_keys u s)" and Some: "map_of (db_scopes db1) k = Some row" for k row
  proof -
    have mem: "(k, row) \<in> set scopes" using scopes_agree_mem [OF r(1)] k Some by simp
    have "sc_pausedAt row = None" if "fst k = SESSION"
    proof -
      have "k = session_key u s" using k that by (auto simp: scope_keys_def workspace_key_def upstream_key_def session_key_def)
      then have "find_scope SESSION scopes = Some row" using find_session [OF r(1)] Some by simp
      then show ?thesis using r(3) by (auto simp: outbound_decision_def split: if_splits)
    qed
    with circuit_decision_None [OF r(2) mem] show ?thesis by (auto simp: scope_admits_def split: option.split)
  qed
  have "scope_admits js k row" if k: "k \<in> set (scope_keys u s)" and Some: "map_of (db_scopes db) k = Some row" for k row
    using r(12) [unfolded scopes_moved_def, rule_format, OF Some]
  proof (elim disjE conjE)
    assume cool: "cooled_down js row" and half: "map_of (db_scopes db1) k = Some (half_open now row)"
    from scope1 [OF k half] have "sc_blockedAt row = None" "fst k = SESSION \<longrightarrow> sc_pausedAt row = None"
      by (simp_all add: scope_admits_def half_open_def manually_blocked_def)
    with cool show ?thesis by (simp add: scope_admits_def cooled_down_def manually_blocked_def split: option.splits)
  qed (rule scope1 [OF k])
  moreover have "recovery_until now u s db = None" using r(4,10) by (simp add: recovery_until_def)
  moreover have "sl_expiresAt l \<le> now" if "session_lease u s db = Some l" for l
    using r(6,10) that by (auto simp: in_flight_decision_def session_lease_def split: option.splits if_splits)
  moreover have "length (recent_starts now (6 * hour_ms) s recipient db) < mp_recipientLimit (message_safety_policy (mpt_profile p))"
    using r(5,11) g(1) by (cases "permit_profile scopes") (auto simp: recipient_decision_def recent_starts_def Let_def split: if_splits)
  moreover have "session_lease u s db' = Some (new_lease tok ''MESSAGE_JOB'' job now ttl)"
    using g(3) by (simp add: lease_held_def session_lease_def)
  moreover have "\<exists>j \<in> set (db_jobs db). mj_id j = job \<and> mj_status j = PROCESSING \<and> mj_cancelRequestedAt j = None"
    using g(5) r(11) by simp
  ultimately show ?thesis by blast
qed

text \<open>C23: A message permit is granted only if no scope of the session is manually blocked or cooling down, the
  session is not paused, no unexpired permit or recovery probe is in flight, the recipient is below its limit,
  and the job is being processed and not cancelled; it then holds the session's lease for the time given.\<close>

theorem grant_conditions:
  assumes "reserve_message js now tok u s job recipient t ttl db = Inr (Granted p, db')"
  shows "(\<forall>k \<in> set (scope_keys u s). \<forall>r. map_of (db_scopes db) k = Some r \<longrightarrow> scope_admits js k r)
    \<and> recovery_until now u s db = None
    \<and> (\<forall>l. session_lease u s db = Some l \<longrightarrow> sl_expiresAt l \<le> now)
    \<and> length (recent_starts now (6 * hour_ms) s recipient db) < mp_recipientLimit (message_safety_policy (mpt_profile p))
    \<and> (\<exists>j \<in> set (db_jobs db). mj_id j = job \<and> mj_status j = PROCESSING \<and> mj_cancelRequestedAt j = None)
    \<and> session_lease u s db' = Some (new_lease tok ''MESSAGE_JOB'' job now ttl)"
  using granted_facts [OF assms] .

section \<open>One permit at a time\<close>

fun grants_message :: "string \<Rightarrow> string \<Rightarrow> governor_op \<Rightarrow> runtime_db \<Rightarrow> bool" where
  "grants_message u s (Reserve_Message js now tok u' s' job recipient t ttl) db \<longleftrightarrow> u' = u \<and> s' = s
     \<and> (case reserve_message js now tok u' s' job recipient t ttl db of Inr (Granted _, _) \<Rightarrow> True | _ \<Rightarrow> False)"
| "grants_message u s _ db \<longleftrightarrow> False"

text \<open>Every operation of a sequence happens before the given time and does not give up the token.\<close>

fun keeps_token :: "string \<Rightarrow> millis \<Rightarrow> governor_op list \<Rightarrow> runtime_db \<Rightarrow> bool" where
  "keeps_token tok expiry [] db \<longleftrightarrow> True"
| "keeps_token tok expiry (op # ops) db \<longleftrightarrow> op_now op < expiry \<and> op_releases db op \<noteq> Some tok
     \<and> keeps_token tok expiry ops (governor_step op db)"

lemma lease_kept:
  "keeps_token (sl_token l) (sl_expiresAt l) ops db \<Longrightarrow> lease_held k l db \<Longrightarrow> lease_held k l (fold governor_step ops db)"
proof (induction ops arbitrary: db)
  case (Cons op ops)
  then have "lease_held k l (governor_step op db)" by (intro leases.governor_keeps) auto
  with Cons show ?case by simp
qed simp

text \<open>C14: Between a granted message permit and its expiry, unless it is released or its outcome recorded, no
  sequence of governor operations grants another message permit of the same session.\<close>

theorem permit_excludes:
  assumes "reserve_message js now tok u s job recipient t ttl db = Inr (Granted p, db')"
    "keeps_token tok (now + ttl) ops db'" "op_now op < now + ttl"
  shows "\<not> grants_message u s op (fold governor_step ops db')"
proof
  let ?l = "new_lease tok ''MESSAGE_JOB'' job now ttl"
  assume g: "grants_message u s op (fold governor_step ops db')"
  then obtain js' now' tok' job' r' t' ttl' p' d where op: "op = Reserve_Message js' now' tok' u s job' r' t' ttl'"
    "reserve_message js' now' tok' u s job' r' t' ttl' (fold governor_step ops db') = Inr (Granted p', d)"
    by (cases op) (auto split: sum.splits prod.splits decision.splits)
  have "lease_held (session_key u s, ACTIVE_SESSION) ?l db'"
    using granted_facts [OF assms(1)] by (simp add: lease_held_def session_lease_def)
  then have "lease_held (session_key u s, ACTIVE_SESSION) ?l (fold governor_step ops db')"
    using assms(2) by (intro lease_kept) (simp_all add: new_lease_def)
  then have "session_lease u s (fold governor_step ops db') = Some ?l" by (simp add: lease_held_def session_lease_def)
  then have "now + ttl \<le> now'" using granted_facts [OF op(2)] by (simp add: new_lease_def)
  then show False using assms(3) op(1) by simp
qed

section \<open>The final fence\<close>

definition jobs_keyed :: "runtime_db \<Rightarrow> bool" where
  "jobs_keyed db \<longleftrightarrow> distinct (map mj_id (db_jobs db))"

lemma jobs_keyed_unique: "jobs_keyed db \<Longrightarrow> j \<in> set (db_jobs db) \<Longrightarrow> j' \<in> set (db_jobs db) \<Longrightarrow> mj_id j = mj_id j' \<Longrightarrow> j = j'"
  by (auto simp: jobs_keyed_def distinct_map inj_on_def)

definition started_job :: "millis \<Rightarrow> bool \<Rightarrow> message_job \<Rightarrow> message_job" where
  "started_job now required j = j\<lparr>mj_upstreamStartedAt := Some now, mj_attemptCount := Suc (mj_attemptCount j),
     mj_leaseExpiresAt := (if required then None else mj_leaseExpiresAt j), mj_updatedAt := now\<rparr>"

lemma commit_ok:
  assumes "commit_message_start now aid cid p required cmd rr age db = Inr (Some c, db')"
  obtains j where "j \<in> set (db_jobs db)" "fence_passes now p required cmd rr age j db" "required \<longrightarrow> cmd \<noteq> None"
    "db_jobs db' = update_where (\<lambda>j. fence_passes now p required cmd rr age j db) (started_job now required) (db_jobs db)"
    "db_attempts db' = db_attempts db @ [new_attempt now aid cid p (cms_generation c) cmd (started_job now required j)]"
    "cms_generation c = (if required then fence_connector now (mpt_sessionId p) cmd db else None)"
proof -
  let ?P = "\<lambda>j. fence_passes now p required cmd rr age j db"
  have req: "\<not> (required \<and> cmd = None)"
  proof
    assume "required \<and> cmd = None"
    then have "commit_message_start now aid cid p required cmd rr age = tx_throw Command_Required"
      by (simp add: commit_message_start_def)
    with assms show False by simp
  qed
  obtain rows d0 where rows: "rows = map (started_job now required) (filter ?P (db_jobs db))"
    "d0 = db\<lparr>db_jobs := update_where ?P (started_job now required) (db_jobs db)\<rparr>"
    and rest: "(case rows of [] \<Rightarrow> tx_return None
       | j # _ \<Rightarrow> tx_bind (insert_attempt (new_attempt now aid cid p (if required then fence_connector now (mpt_sessionId p) cmd db else None) cmd j))
           (\<lambda>_. tx_return (Some \<lparr>cms_attemptId = ma_attemptId (new_attempt now aid cid p (if required then fence_connector now (mpt_sessionId p) cmd db else None) cmd j),
             cms_commandId = ma_commandId (new_attempt now aid cid p (if required then fence_connector now (mpt_sessionId p) cmd db else None) cmd j),
             cms_generation = (if required then fence_connector now (mpt_sessionId p) cmd db else None), cms_startedAt = now,
             cms_attemptNumber = ma_number (new_attempt now aid cid p (if required then fence_connector now (mpt_sessionId p) cmd db else None) cmd j)\<rparr>))) d0
       = Inr (Some c, db')"
    using assms unfolding commit_message_start_def if_not_P [OF req] Let_def tx_bind_ok update_jobs_ok started_job_def [abs_def]
    by blast
  show ?thesis
  proof (cases rows)
    case Nil then show ?thesis using rest by simp
  next
    case (Cons r rs)
    then have "r \<in> set rows" by simp
    then obtain j where j: "j \<in> set (db_jobs db)" "?P j" "r = started_job now required j" unfolding rows(1) by auto
    show ?thesis
      by (rule that [OF j(1,2)]) (use rest Cons rows(2) j(3) req in \<open>auto simp: insert_attempt_def split: if_splits\<close>)
  qed
qed

lemma commit_refused:
  assumes "commit_message_start now aid cid p required cmd rr age db = Inr (None, db')"
  shows "\<not> (\<exists>j \<in> set (db_jobs db). fence_passes now p required cmd rr age j db) \<and> db_attempts db' = db_attempts db"
proof -
  let ?P = "\<lambda>j. fence_passes now p required cmd rr age j db"
  have req: "\<not> (required \<and> cmd = None)"
  proof
    assume "required \<and> cmd = None"
    then have "commit_message_start now aid cid p required cmd rr age = tx_throw Command_Required"
      by (simp add: commit_message_start_def)
    with assms show False by simp
  qed
  obtain rows d0 where rows: "rows = map (started_job now required) (filter ?P (db_jobs db))"
    "d0 = db\<lparr>db_jobs := update_where ?P (started_job now required) (db_jobs db)\<rparr>"
    and rest: "(case rows of [] \<Rightarrow> tx_return None
       | j # _ \<Rightarrow> tx_bind (insert_attempt (new_attempt now aid cid p (if required then fence_connector now (mpt_sessionId p) cmd db else None) cmd j))
           (\<lambda>_. tx_return (Some \<lparr>cms_attemptId = ma_attemptId (new_attempt now aid cid p (if required then fence_connector now (mpt_sessionId p) cmd db else None) cmd j),
             cms_commandId = ma_commandId (new_attempt now aid cid p (if required then fence_connector now (mpt_sessionId p) cmd db else None) cmd j),
             cms_generation = (if required then fence_connector now (mpt_sessionId p) cmd db else None), cms_startedAt = now,
             cms_attemptNumber = ma_number (new_attempt now aid cid p (if required then fence_connector now (mpt_sessionId p) cmd db else None) cmd j)\<rparr>))) d0
       = Inr (None, db')"
    using assms unfolding commit_message_start_def if_not_P [OF req] Let_def tx_bind_ok update_jobs_ok started_job_def [abs_def]
    by blast
  have "rows = []" using rest by (cases rows) auto
  then show ?thesis using rows rest by (simp add: filter_empty_conv)
qed

lemma commit_starts:
  assumes "commit_message_start now aid cid p required cmd rr age db = Inr (Some c, db')" "jobs_keyed db"
  shows "job_started (mpt_jobId p) db'"
proof -
  obtain j where j: "j \<in> set (db_jobs db)" "fence_passes now p required cmd rr age j db"
    "db_jobs db' = update_where (\<lambda>j. fence_passes now p required cmd rr age j db) (started_job now required) (db_jobs db)"
    using commit_ok [OF assms(1)] by metis
  then have "mj_id j = mpt_jobId p" by (simp add: fence_passes_def job_commits_def)
  then have "j' = j" if "j' \<in> set (db_jobs db)" "mj_id j' = mpt_jobId p" for j'
    using jobs_keyed_unique [OF assms(2) that(1) j(1)] that by simp
  then show ?thesis using j by (auto simp: job_started_def update_where_def started_job_def)
qed

lemma started_not_committed:
  "job_started (mpt_jobId p) db \<Longrightarrow> commit_message_start now aid cid p required cmd rr age db \<noteq> Inr (Some c, db')"
proof
  assume started: "job_started (mpt_jobId p) db" and c: "commit_message_start now aid cid p required cmd rr age db = Inr (Some c, db')"
  obtain j where "j \<in> set (db_jobs db)" "fence_passes now p required cmd rr age j db" using commit_ok [OF c] by metis
  with started show False by (auto simp: fence_passes_def job_commits_def job_started_def)
qed

text \<open>The specification of the fence, over the rows it reads: when a message of the permit \<open>p\<close> may be sent at \<open>now\<close>.\<close>

definition may_send ::
  "millis \<Rightarrow> message_permit \<Rightarrow> bool \<Rightarrow> connector_commit option \<Rightarrow> bool \<Rightarrow> int \<Rightarrow> message_job \<Rightarrow> runtime_db \<Rightarrow> bool" where
  "may_send now p required cmd ready_required age j db \<longleftrightarrow>
     mj_id j = mpt_jobId p \<and> mj_type j = mpt_type p \<and> mj_status j = PROCESSING
     \<and> mj_cancelRequestedAt j = None \<and> mj_upstreamStartedAt j = None
     \<and> mj_leaseToken j = Some (mpt_leaseToken p) \<and> mj_policyVersion j = Some (mpt_policyVersion p)
     \<and> list_all (\<lambda>(i, st). i \<noteq> mj_id j \<or> st = RS_RUNNING) (db_runs db)
     \<and> (case map_of (db_leases db) ((SESSION, mpt_upstreamId p, mpt_sessionId p), ACTIVE_SESSION) of
          None \<Rightarrow> False | Some l \<Rightarrow> sl_token l = mpt_leaseToken p \<and> now < sl_expiresAt l)
     \<and> list_all (\<lambda>k. case map_of (db_scopes db) k of None \<Rightarrow> True
          | Some r \<Rightarrow> sc_blockedAt r = None \<and> (sc_circuit r = CLOSED \<or> sc_circuit r = HALF_OPEN)
              \<and> (case sc_cooldownUntil r of None \<Rightarrow> True | Some t \<Rightarrow> t \<le> now)
              \<and> (sc_circuit r = HALF_OPEN \<longrightarrow> (case map_of (db_leases db) (k, RECOVERY_LANE) of
                   None \<Rightarrow> False | Some l \<Rightarrow> sl_token l = mpt_leaseToken p \<and> now < sl_expiresAt l)))
          [(WORKSPACE, [], []), (UPSTREAM, mpt_upstreamId p, []), (SESSION, mpt_upstreamId p, mpt_sessionId p)]
     \<and> (case map_of (db_scopes db) (SESSION, mpt_upstreamId p, mpt_sessionId p) of None \<Rightarrow> True | Some r \<Rightarrow> sc_pausedAt r = None)
     \<and> (case map_of (db_sessions db) (mj_sessionId j) of None \<Rightarrow> False
          | Some g \<Rightarrow> gs_ready g \<and> gs_engineLoaded g \<and> \<not> gs_restricted g)
     \<and> (case map_of (db_groups db) (mj_sessionId j, mpt_recipientId p) of None \<Rightarrow> False
          | Some g \<Rightarrow> gg_active g \<and> gg_sendAllowed g \<and> \<not> gg_invalidated g)
     \<and> (ready_required \<longrightarrow> (case db_readiness db of None \<Rightarrow> False | Some r \<Rightarrow> dr_ready r \<and> now < dr_heartbeatAt r + age))
     \<and> (required \<longrightarrow> (case map_of (db_connectors db) (mpt_sessionId p) of None \<Rightarrow> False
          | Some c \<Rightarrow> cs_hasWebhook c \<and> cs_hasConnector c \<and> cs_bindingSyncedAt c \<noteq> None \<and> cs_healthy c
              \<and> (case cs_healthLeaseExpiresAt c of None \<Rightarrow> False | Some t \<Rightarrow> now < t)
              \<and> (case cmd of None \<Rightarrow> True | Some k \<Rightarrow> cc_generation k = cs_generation c)))"

lemma fence_connector_spec: "fence_connector now s cmd db \<noteq> None \<longleftrightarrow> (case map_of (db_connectors db) s of None \<Rightarrow> False
    | Some c \<Rightarrow> cs_hasWebhook c \<and> cs_hasConnector c \<and> cs_bindingSyncedAt c \<noteq> None \<and> cs_healthy c
        \<and> (case cs_healthLeaseExpiresAt c of None \<Rightarrow> False | Some t \<Rightarrow> now < t)
        \<and> (case cmd of None \<Rightarrow> True | Some k \<Rightarrow> cc_generation k = cs_generation c))"
  by (auto simp: fence_connector_def healthy_binding_generation_def connector_usable_def split: option.splits)

lemma scope_fences_spec: "\<not> scope_fences now tok k r db \<longleftrightarrow> sc_blockedAt r = None \<and> (sc_circuit r = CLOSED \<or> sc_circuit r = HALF_OPEN)
    \<and> (case sc_cooldownUntil r of None \<Rightarrow> True | Some t \<Rightarrow> t \<le> now)
    \<and> (sc_circuit r = HALF_OPEN \<longrightarrow> (case map_of (db_leases db) (k, RECOVERY_LANE) of
         None \<Rightarrow> False | Some l \<Rightarrow> sl_token l = tok \<and> now < sl_expiresAt l)) \<and> (fst k = SESSION \<longrightarrow> sc_pausedAt r = None)"
  by (cases "sc_circuit r") (auto simp: scope_fences_def split: option.splits)

lemma scopes_open_spec: "scopes_open now tok u s db \<longleftrightarrow>
    list_all (\<lambda>k. case map_of (db_scopes db) k of None \<Rightarrow> True
       | Some r \<Rightarrow> sc_blockedAt r = None \<and> (sc_circuit r = CLOSED \<or> sc_circuit r = HALF_OPEN)
           \<and> (case sc_cooldownUntil r of None \<Rightarrow> True | Some t \<Rightarrow> t \<le> now)
           \<and> (sc_circuit r = HALF_OPEN \<longrightarrow> (case map_of (db_leases db) (k, RECOVERY_LANE) of
                None \<Rightarrow> False | Some l \<Rightarrow> sl_token l = tok \<and> now < sl_expiresAt l)))
       [(WORKSPACE, [], []), (UPSTREAM, u, []), (SESSION, u, s)]
    \<and> (case map_of (db_scopes db) (SESSION, u, s) of None \<Rightarrow> True | Some r \<Rightarrow> sc_pausedAt r = None)"
  unfolding scopes_open_def scope_fences_spec
  by (auto simp: scope_keys_def workspace_key_def upstream_key_def session_key_def split: option.splits)

lemma fence_spec: "fence_passes now p required cmd rr age j db = may_send now p required cmd rr age j db"
proof -
  have "run_allows db (mj_id j) \<longleftrightarrow> list_all (\<lambda>(i, st). i \<noteq> mj_id j \<or> st = RS_RUNNING) (db_runs db)"
    by (auto simp: run_allows_def list_all_iff)
  moreover have "readiness_open now rr age db \<longleftrightarrow> (rr \<longrightarrow> (case db_readiness db of None \<Rightarrow> False
      | Some r \<Rightarrow> dr_ready r \<and> now < dr_heartbeatAt r + age))"
    by (auto simp: readiness_open_def split: option.split)
  moreover have "lease_valid now (mpt_leaseToken p) (mpt_upstreamId p) (mpt_sessionId p) db \<longleftrightarrow>
      (case map_of (db_leases db) ((SESSION, mpt_upstreamId p, mpt_sessionId p), ACTIVE_SESSION) of
         None \<Rightarrow> False | Some l \<Rightarrow> sl_token l = mpt_leaseToken p \<and> now < sl_expiresAt l)"
    by (simp add: lease_valid_def session_lease_def session_key_def)
  ultimately show ?thesis
    unfolding fence_passes_def may_send_def scopes_open_spec fence_connector_spec gateway_open_def job_commits_def by argo
qed

text \<open>C8: The final fence opens exactly when the message may be sent, read off the rows at that moment: the job is being
  processed with this permit's token, not cancelled and not started; its campaign run, if any, is running; the session's
  lease is the permit's and unexpired; no scope is blocked, open or cooling down, a half-open one is probed by this permit,
  and the session is not paused; the session is ready, the group allows sending, the Event Inbox is ready where that is
  required, and a required connector is healthy and bound with the command's generation. It then adds one attempt.\<close>

theorem commit_fence:
  assumes "commit_message_start now aid cid p required cmd rr age db = Inr (result, db')"
  shows "(result \<noteq> None) = list_ex (\<lambda>j. may_send now p required cmd rr age j db) (db_jobs db)
    \<and> (result = None \<longrightarrow> db_attempts db' = db_attempts db)
    \<and> (result \<noteq> None \<longrightarrow> (\<exists>a. db_attempts db' = db_attempts db @ [a] \<and> ma_jobId a = mpt_jobId p \<and> ma_transport a = Some DISPATCH_STARTED))"
proof (cases result)
  case (Some c)
  obtain j where j: "j \<in> set (db_jobs db)" "fence_passes now p required cmd rr age j db"
    "db_attempts db' = db_attempts db @ [new_attempt now aid cid p (cms_generation c) cmd (started_job now required j)]"
    using commit_ok [OF assms [unfolded Some]] by metis
  then have "list_ex (\<lambda>j. may_send now p required cmd rr age j db) (db_jobs db)"
    by (auto simp: list_ex_iff fence_spec)
  then show ?thesis using j Some by (simp add: new_attempt_def started_job_def fence_passes_def job_commits_def)
next
  case None
  from commit_refused [OF assms [unfolded None]] show ?thesis using None by (simp add: list_ex_iff fence_spec)
qed

text \<open>C7: Once a job's send has been committed, no sequence of governor operations lets it be committed again:
  only the message modules, which clear its start, can make the job startable.\<close>

theorem commit_once:
  assumes "commit_message_start now aid cid p required cmd rr age db = Inr (Some c, db')" "jobs_keyed db"
    "mpt_jobId q = mpt_jobId p"
  shows "commit_message_start now' aid' cid' q required' cmd' rr' age' (fold governor_step ops db') \<noteq> Inr (Some c', db'')"
proof (rule started_not_committed)
  show "job_started (mpt_jobId q) (fold governor_step ops db')"
    by (rule governor_fold, rule starts.governor_keeps) (use commit_starts [OF assms(1,2)] assms(3) in simp_all)
qed

end
