(* ===== verification/Message_Invariants.thy ===== *)
theory Message_Invariants
  imports Message_System Governor_Theorems
begin

text \<open>
  Invariants of the send path, each an interpretation of \<open>runtime_parts\<close>: a settled job stays settled and gets no
  further attempt, at most one live message of a session is in flight, and evidence once projected stays
  recorded with its attempt.
\<close>

section \<open>What the governor leaves alone\<close>

definition job_row :: "message_job \<Rightarrow> string \<times> string \<times> bool \<times> job_status" where
  "job_row j = (mj_id j, mj_sessionId j, mj_dryRun j, mj_status j)"

definition message_view :: "runtime_db \<Rightarrow> (string \<times> string \<times> bool \<times> job_status) list \<times> message_attempt list \<times> stored_evidence list" where
  "message_view db = (map job_row (db_jobs db), db_attempts db, db_evidence db)"

lemma frame_view: "frame message_view m \<Longrightarrow> tx_keeps (\<lambda>db. message_view db = v) m"
  by (rule tx_keeps_frame)

lemma view_update_jobs: "(\<And>j. P j \<Longrightarrow> job_row (f j) = job_row j) \<Longrightarrow> frame message_view (update_jobs P f)"
  by (auto simp: frame_def update_jobs_ok message_view_def update_where_def)

lemma view_modify: "(\<And>db. message_view (f db) = message_view db) \<Longrightarrow> frame message_view (tx_modify f)"
  by (simp add: frame_def)

lemma frame_bind: "frame g m \<Longrightarrow> (\<And>x. frame g (k x)) \<Longrightarrow> frame g (tx_bind m k)"
  by (fastforce simp: frame_def)

lemma frame_rows: "frame g m \<Longrightarrow> frame g m' \<Longrightarrow> frame g (if b then m else m')"
  by simp

interpretation views: governor_core "\<lambda>db. message_view db = v" "\<lambda>_. True" "\<lambda>_. True" for v
proof unfold_locales
  fix now u s
  show "tx_keeps (\<lambda>db. message_view db = v) (ensure_scopes now u s)"
    by (rule frame_view) (simp add: frame_def ensure_scopes_def message_view_def)
next
  fix js now scopes
  show "tx_keeps (\<lambda>db. message_view db = v) (transition_expired js now scopes)"
    by (rule frame_view) (auto simp: frame_def transition_expired_def Let_def message_view_def)
next
  fix now k l
  show "tx_keeps (\<lambda>db. message_view db = v) (take_lease now k l)"
    by (rule frame_view) (auto simp: frame_def take_lease_def message_view_def split: option.splits if_splits)
next
  fix k l
  show "tx_keeps (\<lambda>db. message_view db = v) (insert_lease k l)"
    by (rule frame_view) (auto simp: frame_def insert_lease_def message_view_def split: option.splits)
next
  fix now tok job
  show "tx_keeps (\<lambda>db. message_view db = v) (attach_permit now tok job)"
    unfolding attach_permit_def
    by (intro frame_view frame_bind view_update_jobs frame_rows) (auto simp: job_row_def frame_def)
next
  fix tok new
  show "tx_keeps (\<lambda>db. message_view db = v) (record_receipt tok new)"
    by (rule frame_view) (auto simp: frame_def record_receipt_def message_view_def split: option.splits if_splits)
next
  fix now pr
  show "tx_keeps (\<lambda>db. message_view db = v) (release_permit now pr)"
    unfolding release_permit_def Let_def
    by (intro frame_view view_modify) (auto simp: message_view_def update_where_def job_row_def split: option.split)
next
  fix mk mr
  show "tx_keeps (\<lambda>db. message_view db = v) (insert_receipt mk mr)"
    by (rule frame_view) (auto simp: frame_def insert_receipt_def message_view_def split: option.splits)
qed (simp_all add: tx_keeps_def message_view_def consume_bucket_def update_buckets_def update_scopes_def append_activity_def)

text \<open>A governor operation changes no view, except that a committed start appends an attempt of a processing job.\<close>

lemma governor_view:
  "message_view (governor_step op db) = message_view db
   \<or> (\<exists>a j. j \<in> set (db_jobs db) \<and> mj_status j = PROCESSING \<and> ma_jobId a = mj_id j
        \<and> ma_attemptId a \<notin> ma_attemptId ` set (db_attempts db)
        \<and> message_view (governor_step op db) = (map job_row (db_jobs db), db_attempts db @ [a], db_evidence db))"
proof (cases "is_commit op")
  case False
  then show ?thesis using views.core_keeps [of op db "message_view db"] by simp
next
  case True
  then obtain now aid cid p required cmd rr age where op: "op = Commit_Start now aid cid p required cmd rr age"
    by (cases op) auto
  show ?thesis
  proof (cases "commit_message_start now aid cid p required cmd rr age db")
    case (Inl e) then show ?thesis by (simp add: op run_tx_def transaction_def)
  next
    case (Inr r)
    obtain c db' where r: "r = (c, db')" by (cases r)
    have step: "governor_step op db = db'" using Inr r by (simp add: op run_tx_def transaction_def)
    have req: "\<not> (required \<and> cmd = None)"
    proof
      assume "required \<and> cmd = None"
      then have "commit_message_start now aid cid p required cmd rr age = tx_throw Command_Required"
        by (simp add: commit_message_start_def)
      with Inr show False by simp
    qed
    let ?P = "\<lambda>j. fence_passes now p required cmd rr age j db"
    let ?g = "if required then fence_connector now (mpt_sessionId p) cmd db else None"
    obtain rows d0 where rows: "update_jobs ?P (started_job now required) db = Inr (rows, d0)"
      and rest: "(case rows of [] \<Rightarrow> tx_return None
         | j # _ \<Rightarrow> tx_bind (insert_attempt (new_attempt now aid cid p ?g cmd j)) (\<lambda>_.
             tx_return (Some \<lparr>cms_attemptId = ma_attemptId (new_attempt now aid cid p ?g cmd j),
               cms_commandId = ma_commandId (new_attempt now aid cid p ?g cmd j),
               cms_generation = ?g, cms_startedAt = now, cms_attemptNumber = ma_number (new_attempt now aid cid p ?g cmd j)\<rparr>))) d0
         = Inr (c, db')"
      using Inr r unfolding commit_message_start_def if_not_P [OF req] Let_def tx_bind_ok started_job_def [abs_def] by blast
    have d0: "message_view d0 = message_view db"
      using rows by (auto simp: update_jobs_ok message_view_def update_where_def job_row_def started_job_def)
    show ?thesis
    proof (cases rows)
      case Nil then show ?thesis using rest d0 step by simp
    next
      case (Cons x xs)
      then obtain j where j: "j \<in> set (db_jobs db)" "?P j" "x = started_job now required j"
      proof -
        have "x \<in> set rows" by (simp add: Cons)
        then show ?thesis using rows that unfolding update_jobs_ok by auto
      qed
      have "message_view db' = (map job_row (db_jobs db), db_attempts db @ [new_attempt now aid cid p ?g cmd x], db_evidence db)"
        using rest Cons d0 by (auto simp: insert_attempt_def message_view_def split: if_splits)
      moreover have "ma_attemptId (new_attempt now aid cid p ?g cmd x) \<notin> ma_attemptId ` set (db_attempts db)"
        using rest Cons d0 by (auto simp: insert_attempt_def message_view_def list_ex_iff split: if_splits)
      moreover have "mj_status j = PROCESSING" using j(2) by (simp add: fence_passes_def job_commits_def)
      moreover have "ma_jobId (new_attempt now aid cid p ?g cmd x) = mj_id j" by (simp add: new_attempt_def j(3) started_job_def)
      ultimately show ?thesis using j(1) step by metis
    qed
  qed
qed

lemma outcome_view: "record_attempt_outcome now a oc db = Inr (x, db') \<Longrightarrow> message_view db' = message_view db"
  using views.keeps_attempt_outcome [where v = "message_view db" and db = db] by simp

section \<open>Settled jobs\<close>

definition settled_status :: "job_status \<Rightarrow> bool" where
  "settled_status s \<longleftrightarrow> s \<notin> {SCHEDULED, QUEUED, PROCESSING}"

lemma settled_legal: "legal_transition s t \<Longrightarrow> settled_status s \<Longrightarrow> settled_status t"
  by (cases s) (auto simp: settled_status_def)

definition settled_row :: "string \<Rightarrow> string \<times> string \<times> bool \<times> job_status \<Rightarrow> bool" where
  "settled_row i r \<longleftrightarrow> (case r of (j, _, _, s) \<Rightarrow> j = i \<longrightarrow> settled_status s)"

text \<open>Job \<open>i\<close> exists and is settled, and \<open>as\<close> are the ids of its attempts.\<close>

definition settled_view :: "string \<Rightarrow> string list \<Rightarrow> (string \<times> string \<times> bool \<times> job_status) list \<times> message_attempt list \<times> stored_evidence list \<Rightarrow> bool" where
  "settled_view i as v \<longleftrightarrow> (case v of (js, ms, es) \<Rightarrow> i \<in> fst ` set js \<and> list_all (settled_row i) js
     \<and> map ma_attemptId (filter (\<lambda>a. ma_jobId a = i) ms) = as)"

abbreviation settled_job :: "string \<Rightarrow> string list \<Rightarrow> runtime_db \<Rightarrow> bool" where
  "settled_job i as db \<equiv> settled_view i as (message_view db)"

lemma settled_job_iff: "settled_job i as db \<longleftrightarrow> (\<exists>j \<in> set (db_jobs db). mj_id j = i)
   \<and> (\<forall>j \<in> set (db_jobs db). mj_id j = i \<longrightarrow> settled_status (mj_status j))
   \<and> map ma_attemptId (filter (\<lambda>a. ma_jobId a = i) (db_attempts db)) = as"
  by (auto simp: settled_view_def message_view_def settled_row_def job_row_def list_all_iff image_iff)

lemma view_kept: "(\<And>db x db'. m db = Inr (x, db') \<Longrightarrow> message_view db' = message_view db) \<Longrightarrow> tx_keeps (\<lambda>db. J (message_view db)) m"
  by (auto simp: tx_keeps_def)

lemma attempts_kept:
  assumes "keeps_identity g" "update_attempts Q g db = Inr (x, db')"
  shows "map ma_attemptId (filter (\<lambda>a. ma_jobId a = i) (db_attempts db')) = map ma_attemptId (filter (\<lambda>a. ma_jobId a = i) (db_attempts db))"
    "db_jobs db' = db_jobs db" "db_evidence db' = db_evidence db"
proof -
  have "map ma_attemptId (filter (\<lambda>a. ma_jobId a = i) (update_where Q g ms)) = map ma_attemptId (filter (\<lambda>a. ma_jobId a = i) ms)" for ms
    using assms(1) by (induction ms) (auto simp: update_where_def keeps_identity_def)
  then show "map ma_attemptId (filter (\<lambda>a. ma_jobId a = i) (db_attempts db')) = map ma_attemptId (filter (\<lambda>a. ma_jobId a = i) (db_attempts db))"
    "db_jobs db' = db_jobs db" "db_evidence db' = db_evidence db"
    using assms(2) by (auto simp: update_attempts_def)
qed

lemma insert_attempt_ok: "insert_attempt a db = Inr (x, db') \<Longrightarrow> db' = db\<lparr>db_attempts := db_attempts db @ [a]\<rparr>"
  by (auto simp: insert_attempt_def split: if_splits)

lemma upsert_ok:
  assumes "upsert_attempt ids r out err extra db = Inr (x, db')" "keeps_attempt extra"
  shows "(\<exists>Q g y. keeps_attempt g \<and> update_attempts Q g db = Inr (y, db'))
    \<or> (\<exists>a. ma_jobId a = mj_id r \<and> \<not> awaits_dispatch a \<and> db' = db\<lparr>db_attempts := db_attempts db @ [a]\<rparr>)"
proof (cases "list_ex (\<lambda>a. ma_jobId a = mj_id r \<and> ma_number a = mj_attemptCount r) (db_attempts db)")
  case True
  let ?g = "\<lambda>a. extra (a\<lparr>ma_outcome := out, ma_error := err, ma_upstreamStartedAt := mj_upstreamStartedAt r,
                ma_policyVersion := mj_policyVersion r\<rparr>)"
  have aw: "awaits_dispatch (a\<lparr>ma_outcome := out, ma_error := err, ma_upstreamStartedAt := mj_upstreamStartedAt r,
      ma_policyVersion := mj_policyVersion r\<rparr>) = awaits_dispatch a" for a by (simp add: awaits_dispatch_def)
  have "keeps_identity ?g" using assms(2) by (simp add: keeps_attempt_def keeps_identity_def)
  moreover have "keeps_lease ?g"
  proof -
    have l: "awaits_dispatch (extra b) \<Longrightarrow> awaits_dispatch b \<and> ma_leaseId (extra b) = ma_leaseId b
        \<and> ma_leaseExpiresAt (extra b) = ma_leaseExpiresAt b" for b
      using assms(2) by (simp add: keeps_attempt_def keeps_lease_def)
    show ?thesis unfolding keeps_lease_def
    proof (intro allI impI)
      fix a assume "awaits_dispatch (?g a)"
      from l [OF this] show "awaits_dispatch a \<and> ma_leaseId (?g a) = ma_leaseId a \<and> ma_leaseExpiresAt (?g a) = ma_leaseExpiresAt a"
        by (simp add: aw)
    qed
  qed
  ultimately have "keeps_attempt ?g" by (simp add: keeps_attempt_def)
  moreover have "\<exists>y. update_attempts (\<lambda>a. ma_jobId a = mj_id r \<and> ma_number a = mj_attemptCount r) ?g db = Inr (y, db')"
    using assms(1) True by (auto simp: upsert_attempt_def)
  ultimately show ?thesis by blast
next
  case False
  then have "insert_attempt (bare_attempt ids (mj_id r) (mj_attemptCount r) out err (mj_upstreamStartedAt r) (mj_policyVersion r)) db
      = Inr (x, db')" using assms(1) by (simp add: upsert_attempt_def)
  from insert_attempt_ok [OF this]
  have "\<exists>a. ma_jobId a = mj_id r \<and> \<not> awaits_dispatch a \<and> db' = db\<lparr>db_attempts := db_attempts db @ [a]\<rparr>"
    by (intro exI [of _ "bare_attempt ids (mj_id r) (mj_attemptCount r) out err (mj_upstreamStartedAt r) (mj_policyVersion r)"])
      (simp add: bare_attempt_def awaits_dispatch_def)
  then show ?thesis ..
qed

lemma queue_view: "queue_jobs now js db = Inr (rows, db') \<Longrightarrow> db_attempts db' = db_attempts db \<and> db_evidence db' = db_evidence db
   \<and> db_leases db' = db_leases db \<and> db_lanes db' = db_lanes db"
  by (auto simp: queue_jobs_def update_jobs_ok)

lemma settled_update:
  assumes "settled_job i as db" "update_jobs P f db = Inr (rows, db')" "\<And>j. P j \<Longrightarrow> mj_id (f j) = mj_id j"
  shows "settled_job i as db'"
proof -
  let ?f = "\<lambda>j. if P j then f j else j"
  have jobs: "db_jobs db' = map ?f (db_jobs db)" "db_attempts db' = db_attempts db"
    and legal: "\<forall>j \<in> set (db_jobs db). P j \<longrightarrow> legal_transition (mj_status j) (mj_status (f j))"
    using assms(2) by (auto simp: update_jobs_ok update_where_def)
  have ids: "mj_id (?f j) = mj_id j" for j using assms(3) by simp
  have "settled_status (mj_status (?f j))" if "j \<in> set (db_jobs db)" "mj_id j = i" for j
    using that assms(1) legal settled_legal unfolding settled_job_iff by auto
  moreover have "\<exists>j \<in> set (db_jobs db). mj_id (?f j) = i" using assms(1) unfolding settled_job_iff ids by blast
  ultimately show ?thesis using assms(1) unfolding settled_job_iff jobs set_map ball_simps(9) bex_simps(7) ids by blast
qed

definition opened :: "millis \<Rightarrow> runtime_db \<Rightarrow> runtime_db" where
  "opened now db = db\<lparr>db_lanes := db_lanes db @
     filter (\<lambda>s. s \<notin> set (db_lanes db)) (remdups (map mj_sessionId (filter (lane_candidate now) (db_jobs db))))\<rparr>"

lemma opened_fields [simp]: "db_jobs (opened now db) = db_jobs db" "db_attempts (opened now db) = db_attempts db"
    "db_evidence (opened now db) = db_evidence db" "db_leases (opened now db) = db_leases db" "db_runs (opened now db) = db_runs db"
  by (simp_all add: opened_def)

lemma claim_due_cases:
  assumes "claim_due now limit db = Inr (x, db')"
  obtains (none) "x = []" "db' = db"
    | (live) "queue_jobs now (take (nat limit) (claimable_live now (opened now db))) (opened now db) = Inr (x, db')"
    | (both) live d dry where "queue_jobs now (take (nat limit) (claimable_live now (opened now db))) (opened now db) = Inr (live, d)"
        "queue_jobs now (take (nat limit - length live) (claimable_dry now d)) d = Inr (dry, db')" "x = live @ dry"
  using assms by (auto simp: claim_due_def open_lanes_def opened_def split: if_splits)

lemma settled_claim: "settled_job i as db \<Longrightarrow> claim_due now limit db = Inr (x, db') \<Longrightarrow> settled_job i as db'"
proof -
  have step: "settled_job i as d'" if "settled_job i as d" "queue_jobs now js d = Inr (r, d')" for d d' js r
    by (rule settled_update [OF that(1) that(2) [unfolded queue_jobs_def]]) simp
  assume s: "settled_job i as db" and c: "claim_due now limit db = Inr (x, db')"
  have o: "settled_job i as (opened now db)" using s by (simp add: message_view_def)
  from c show ?thesis
    by (cases rule: claim_due_cases) (use s o step in blast)+
qed

interpretation settle: runtime_parts "settled_job i as" "\<lambda>r. mj_id r \<noteq> i" "\<lambda>_. True" "\<lambda>_. True" for i as
proof unfold_locales
  show "settled_job i as (governor_step op db)" if "settled_job i as db" for db op
  proof -
    have "settled_view i as (map job_row (db_jobs db), db_attempts db @ [a], db_evidence db)"
      if "j \<in> set (db_jobs db)" "mj_status j = PROCESSING" "ma_jobId a = mj_id j" for a j
      using that \<open>settled_job i as db\<close> unfolding settled_job_iff
      by (force simp: settled_view_def settled_row_def job_row_def list_all_iff image_iff settled_status_def)
    then show ?thesis using governor_view [of op db] \<open>settled_job i as db\<close> by auto
  qed
  show "tx_keeps (settled_job i as) (record_attempt_outcome now a oc)" for now a oc
    by (rule view_kept) (rule outcome_view)
  show "tx_keeps (settled_job i as) (create_message_job now j m)" for now j m
    unfolding tx_keeps_def settled_job_iff
    by (auto simp: create_message_job_def find_job_def new_job_def find_None_iff split: option.splits if_splits)
  show "tx_keeps (settled_job i as) (update_jobs P f)" if "\<And>j. P j \<Longrightarrow> keeps_job f j" for P f
    unfolding tx_keeps_def using settled_update that by (auto simp: keeps_job_def)
  show "mj_id r \<noteq> i" if "settled_job i as db" "j \<in> set (db_jobs db)" "mj_status j = PROCESSING" "mj_id r = mj_id j" for db j r
    using that unfolding settled_job_iff by (auto simp: settled_status_def)
  have up: "tx_keeps (settled_job i as) (update_attempts Q g)" if "keeps_identity g" for Q g
    unfolding tx_keeps_def settled_job_iff using attempts_kept [OF that] by auto
  then show "tx_keeps (settled_job i as) (update_attempts Q g)" if "keeps_attempt g" for Q g
    using that by (simp add: keeps_attempt_def)
  note dispatch = dispatch_kept [OF up]
  show "tx_keeps (settled_job i as) (claim_commands now lease n ms maximum only)" for now lease n ms maximum only
    by (rule dispatch)
  show "tx_keeps (settled_job i as) (reschedule_command now c msg k d)" for now c msg k d by (rule dispatch)
  show "tx_keeps (settled_job i as) (defer_for_dispatch_readiness now c d)" for now c d by (rule dispatch)
  show "tx_keeps (settled_job i as) (upsert_attempt ids r out err extra)" if "mj_id r \<noteq> i" "keeps_attempt extra" for ids r out err extra
    unfolding tx_keeps_def settled_job_iff
  proof (intro allI impI)
    fix db x db' assume s: "(\<exists>j \<in> set (db_jobs db). mj_id j = i) \<and> (\<forall>j \<in> set (db_jobs db). mj_id j = i \<longrightarrow> settled_status (mj_status j))
       \<and> map ma_attemptId (filter (\<lambda>a. ma_jobId a = i) (db_attempts db)) = as"
      and u: "upsert_attempt ids r out err extra db = Inr (x, db')"
    from upsert_ok [OF u that(2)]
    show "(\<exists>j \<in> set (db_jobs db'). mj_id j = i) \<and> (\<forall>j \<in> set (db_jobs db'). mj_id j = i \<longrightarrow> settled_status (mj_status j))
       \<and> map ma_attemptId (filter (\<lambda>a. ma_jobId a = i) (db_attempts db')) = as"
      using s that(1) attempts_kept by (auto simp: keeps_attempt_def)
  qed
  show "tx_keeps (settled_job i as) (claim_due now limit)" for now limit
    unfolding tx_keeps_def using settled_claim by blast
qed (auto simp: tx_keeps_def settled_job_iff mark_event_def store_evidence_def)

lemma frame_upsert [simp]: "frame db_jobs (upsert_attempt ids r out err extra)"
  by (auto simp: frame_def upsert_attempt_def insert_attempt_def update_attempts_def tx_bind_def tx_return_def split: if_splits)

section \<open>One live message of a session in flight\<close>

fun row_in_flight :: "string \<times> string \<times> bool \<times> job_status \<Rightarrow> bool" where
  "row_in_flight (i, s, dry, st) \<longleftrightarrow> \<not> dry \<and> (st = QUEUED \<or> st = PROCESSING)"

fun row_clash :: "string \<times> string \<times> bool \<times> job_status \<Rightarrow> string \<times> string \<times> bool \<times> job_status \<Rightarrow> bool" where
  "row_clash (i, s, r) (i', s', r') \<longleftrightarrow> row_in_flight (i, s, r) \<and> row_in_flight (i', s', r') \<and> s = s' \<and> i \<noteq> i'"

definition lanes_view :: "(string \<times> string \<times> bool \<times> job_status) list \<times> message_attempt list \<times> stored_evidence list \<Rightarrow> bool" where
  "lanes_view v \<longleftrightarrow> (case v of (js, ms, es) \<Rightarrow> distinct (map fst js) \<and> (\<forall>r \<in> set js. \<forall>r' \<in> set js. \<not> row_clash r r'))"

abbreviation one_in_flight :: "runtime_db \<Rightarrow> bool" where
  "one_in_flight db \<equiv> lanes_view (message_view db)"

definition clash :: "message_job \<Rightarrow> message_job \<Rightarrow> bool" where
  "clash j k \<longleftrightarrow> in_flight j \<and> in_flight k \<and> mj_sessionId j = mj_sessionId k \<and> mj_id j \<noteq> mj_id k"

lemma one_in_flight_iff: "one_in_flight db \<longleftrightarrow> jobs_keyed db \<and> (\<forall>j \<in> set (db_jobs db). \<forall>k \<in> set (db_jobs db). \<not> clash j k)"
  by (auto simp: lanes_view_def message_view_def jobs_keyed_def clash_def job_row_def in_flight_def comp_def)

lemma lanes_map:
  assumes "db_jobs db' = map g (db_jobs db)" "\<And>j. mj_id (g j) = mj_id j" "jobs_keyed db"
    "\<And>j k. j \<in> set (db_jobs db) \<Longrightarrow> k \<in> set (db_jobs db) \<Longrightarrow> \<not> clash (g j) (g k)"
  shows "one_in_flight db'"
proof -
  have eq: "map mj_id (db_jobs db') = map mj_id (db_jobs db)" by (simp add: assms(1,2))
  have "jobs_keyed db'" using assms(3) unfolding jobs_keyed_def eq .
  then show ?thesis using assms(4) unfolding one_in_flight_iff by (auto simp: assms(1))
qed

lemma lanes_update:
  assumes "one_in_flight db" "update_jobs P f db = Inr (rows, db')" "\<And>j. P j \<Longrightarrow> keeps_job f j"
  shows "one_in_flight db'"
proof -
  let ?f = "\<lambda>j. if P j then f j else j"
  have jobs: "db_jobs db' = map ?f (db_jobs db)" using assms(2) by (auto simp: update_jobs_ok update_where_def)
  have kept: "mj_id (?f j) = mj_id j" "mj_sessionId (?f j) = mj_sessionId j" "in_flight (?f j) \<longrightarrow> in_flight j" for j
    using assms(3) by (auto simp: keeps_job_def)
  show ?thesis
  proof (rule lanes_map [OF jobs kept(1)])
    show "jobs_keyed db" using assms(1) by (simp add: one_in_flight_iff)
    show "\<not> clash (?f j) (?f k)" if "j \<in> set (db_jobs db)" "k \<in> set (db_jobs db)" for j k
      using assms(1) that kept [of j] kept [of k] unfolding one_in_flight_iff clash_def by metis
  qed
qed

lemma claimable_live_lane:
  assumes "j \<in> set (claimable_live now db)"
  shows "lane_free now db (mj_sessionId j) \<and> lane_due now db (mj_sessionId j) = Some j \<and> j \<in> set (db_jobs db)
    \<and> lane_candidate now j"
proof -
  obtain s where s: "lane_free now db s" "lane_due now db s = Some j"
    using assms by (auto simp: claimable_live_def set_somes split: if_splits)
  let ?js = "filter (\<lambda>j. mj_sessionId j = s \<and> lane_candidate now j \<and> run_allows db (mj_id j)) (db_jobs db)"
  obtain rest where "sort_key due_key ?js = j # rest" using s(2) by (auto simp: lane_due_def split: list.splits)
  then have "j \<in> set (sort_key due_key ?js)" by (simp only: list.set_intros)
  then have "j \<in> set ?js" by (simp only: set_sort)
  then show ?thesis using s by auto
qed

lemma lanes_queue_live:
  assumes I: "one_in_flight db" and q: "queue_jobs now (take n (claimable_live now db)) db = Inr (rows, db')"
  shows "one_in_flight db'"
proof -
  define P where "P = (\<lambda>j :: message_job. mj_id j \<in> set (map mj_id (take n (claimable_live now db))) \<and> mj_status j = SCHEDULED)"
  define g where "g = (\<lambda>j :: message_job. if P j then j\<lparr>mj_status := QUEUED, mj_deferReason := None, mj_updatedAt := now\<rparr> else j)"
  have jobs: "db_jobs db' = map g (db_jobs db)" using q by (simp add: queue_jobs_def update_jobs_ok update_where_def P_def g_def)
  have keyed: "jobs_keyed db" and no: "\<And>j k. j \<in> set (db_jobs db) \<Longrightarrow> k \<in> set (db_jobs db) \<Longrightarrow> \<not> clash j k"
    using I by (auto simp: one_in_flight_iff)
  have claimed: "lane_free now db (mj_sessionId j) \<and> lane_due now db (mj_sessionId j) = Some j" if "P j" "j \<in> set (db_jobs db)" for j
  proof -
    have "mj_id j \<in> mj_id ` set (take n (claimable_live now db))" using that(1) by (simp add: P_def)
    then obtain k where k: "k \<in> set (claimable_live now db)" "mj_id k = mj_id j" using in_set_takeD by fastforce
    then have "k \<in> set (db_jobs db)" using claimable_live_lane by blast
    then have "k = j" using jobs_keyed_unique [OF keyed _ that(2)] k(2) by blast
    with k(1) show ?thesis using claimable_live_lane by blast
  qed
  have free: False if "lane_free now db s" "k \<in> set (db_jobs db)" "mj_sessionId k = s" "in_flight k" for s k
    using that by (auto simp: lane_free_def list_ex_iff)
  have fields: "mj_id (g j) = mj_id j" "mj_sessionId (g j) = mj_sessionId j" for j by (simp_all add: g_def)
  have flying: "in_flight j \<or> P j" if "in_flight (g j)" for j using that by (auto simp: g_def split: if_splits)
  have "\<not> clash (g j) (g k)" if j: "j \<in> set (db_jobs db)" and k: "k \<in> set (db_jobs db)" for j k
  proof
    assume c: "clash (g j) (g k)"
    then have same: "mj_sessionId j = mj_sessionId k" "mj_id j \<noteq> mj_id k" and fly: "in_flight j \<or> P j" "in_flight k \<or> P k"
      using flying [of j] flying [of k] fields [of j] fields [of k] unfolding clash_def by metis+
    show False
    proof (cases "P j")
      case True
      note cj = claimed [OF True j]
      show False
      proof (cases "P k")
        case True
        from claimed [OF True k] cj same show False by auto
      next
        case False
        then show False using fly(2) free [OF _ k] cj same(1) by auto
      qed
    next
      case False
      then have fj: "in_flight j" using fly(1) by blast
      show False
      proof (cases "P k")
        case True
        with claimed [OF True k] free [OF _ j] fj same(1) show False by auto
      next
        case False
        then show False using fly(2) fj no [OF j k] same by (auto simp: clash_def)
      qed
    qed
  qed
  then show ?thesis by (intro lanes_map [OF jobs fields(1) keyed])
qed

lemma claimable_dry_rows: "j \<in> set (claimable_dry now db) \<Longrightarrow> j \<in> set (db_jobs db) \<and> mj_dryRun j"
  by (auto simp: claimable_dry_def)

lemma lanes_queue_dry:
  assumes I: "one_in_flight db" and q: "queue_jobs now (take n (claimable_dry now db)) db = Inr (rows, db')"
  shows "one_in_flight db'"
proof -
  define P where "P = (\<lambda>j :: message_job. mj_id j \<in> set (map mj_id (take n (claimable_dry now db))) \<and> mj_status j = SCHEDULED)"
  define g where "g = (\<lambda>j :: message_job. if P j then j\<lparr>mj_status := QUEUED, mj_deferReason := None, mj_updatedAt := now\<rparr> else j)"
  have jobs: "db_jobs db' = map g (db_jobs db)" using q by (simp add: queue_jobs_def update_jobs_ok update_where_def P_def g_def)
  have keyed: "jobs_keyed db" and no: "\<And>j k. j \<in> set (db_jobs db) \<Longrightarrow> k \<in> set (db_jobs db) \<Longrightarrow> \<not> clash j k"
    using I by (auto simp: one_in_flight_iff)
  have dry: "mj_dryRun j" if "P j" "j \<in> set (db_jobs db)" for j
  proof -
    have "mj_id j \<in> mj_id ` set (take n (claimable_dry now db))" using that(1) by (simp add: P_def)
    then obtain k where k: "k \<in> set (claimable_dry now db)" "mj_id k = mj_id j" using in_set_takeD by fastforce
    then have "k = j" using jobs_keyed_unique [OF keyed _ that(2)] claimable_dry_rows by blast
    with k(1) show ?thesis using claimable_dry_rows by blast
  qed
  have fields: "mj_id (g j) = mj_id j" "mj_sessionId (g j) = mj_sessionId j" for j by (simp_all add: g_def)
  have flying: "in_flight j" if "j \<in> set (db_jobs db)" "in_flight (g j)" for j
    using that dry [of j] by (cases "P j") (auto simp: in_flight_def g_def)
  have "\<not> clash (g j) (g k)" if "j \<in> set (db_jobs db)" "k \<in> set (db_jobs db)" for j k
    using no [OF that] flying [OF that(1)] flying [OF that(2)] fields [of j] fields [of k] unfolding clash_def by metis
  then show ?thesis by (intro lanes_map [OF jobs fields(1) keyed])
qed

interpretation lanes: runtime_parts one_in_flight "\<lambda>_. True" "\<lambda>_. True" "\<lambda>_. True"
proof unfold_locales
  show "one_in_flight (governor_step op db)" if "one_in_flight db" for db op
  proof -
    have "lanes_view (map job_row (db_jobs db), ms, db_evidence db)" for ms
      using that by (simp add: lanes_view_def message_view_def)
    then show ?thesis using governor_view [of op db] that by auto
  qed
  show "tx_keeps one_in_flight (record_attempt_outcome now a oc)" for now a oc
    by (rule view_kept) (rule outcome_view)
  show "tx_keeps one_in_flight (create_message_job now i m)" for now i m
    unfolding tx_keeps_def one_in_flight_iff
    by (auto simp: create_message_job_def find_job_def new_job_def find_None_iff jobs_keyed_def clash_def in_flight_def
        split: option.splits if_splits)
  show "tx_keeps one_in_flight (update_jobs P f)" if "\<And>j. P j \<Longrightarrow> keeps_job f j" for P f
    unfolding tx_keeps_def using lanes_update that by blast
  have up: "tx_keeps one_in_flight (update_attempts Q g)" if "keeps_identity g" for Q g
    unfolding tx_keeps_def one_in_flight_iff jobs_keyed_def using attempts_kept(2) [OF that] by auto
  then show "tx_keeps one_in_flight (update_attempts Q g)" if "keeps_attempt g" for Q g
    using that by (simp add: keeps_attempt_def)
  note dispatch = dispatch_kept [OF up]
  show "tx_keeps one_in_flight (claim_commands now lease n ms maximum only)" for now lease n ms maximum only
    by (rule dispatch)
  show "tx_keeps one_in_flight (reschedule_command now c msg k d)" for now c msg k d by (rule dispatch)
  show "tx_keeps one_in_flight (defer_for_dispatch_readiness now c d)" for now c d by (rule dispatch)
  show "tx_keeps one_in_flight (upsert_attempt ids r out err extra)" if "keeps_attempt extra" for ids r out err extra
    unfolding one_in_flight_iff jobs_keyed_def by (rule tx_keeps_frame [where g = db_jobs]) simp
  show "tx_keeps one_in_flight (claim_due now limit)" for now limit
    unfolding tx_keeps_def
  proof (intro allI impI)
    fix db x db' assume I: "one_in_flight db" and c: "claim_due now limit db = Inr (x, db')"
    have o: "one_in_flight (opened now db)" using I by (simp add: message_view_def)
    from c show "one_in_flight db'"
      by (cases rule: claim_due_cases) (use I lanes_queue_live [OF o] lanes_queue_dry in blast)+
  qed
qed (auto simp: tx_keeps_def one_in_flight_iff jobs_keyed_def mark_event_def store_evidence_def)

end
