(* ===== verification/Evidence_Theorems.thy ===== *)
theory Evidence_Theorems
  imports Message_Invariants
begin

text \<open>
  Evidence of the connector: once projected it stays projected (a third invariant of the send path), which
  transitions it can ask of a job, and the order of transport states.
\<close>

section \<open>Recorded evidence\<close>

lemma find_append_first: "List.find p xs = Some x \<Longrightarrow> List.find p (xs @ ys) = Some x"
  by (induction xs) (auto split: if_splits)

text \<open>The attempt and the job the evidence belongs to, and, with a state, that it is recorded in that state.\<close>

definition evidence_owner :: "evidence \<Rightarrow> string \<Rightarrow> message_attempt \<Rightarrow> bool" where
  "evidence_owner ev i a \<longleftrightarrow> ma_jobId a = i \<and> ma_binding a = Some (ev_bindingGeneration ev)
     \<and> truthy (ma_payloadSha256 a) \<and> ma_payloadSha256 a = Some (ev_payloadSha256 ev)"

definition is_target :: "evidence \<Rightarrow> message_attempt \<Rightarrow> bool" where
  "is_target ev a \<longleftrightarrow> ma_attemptId a = ev_attemptId ev \<and> ma_commandId a = ev_commandId ev"

definition stored_as :: "evidence \<Rightarrow> projection_state option \<Rightarrow> stored_evidence list \<Rightarrow> bool" where
  "stored_as ev so es \<longleftrightarrow> (case so of None \<Rightarrow> True
     | Some st \<Rightarrow> List.find (\<lambda>x. ev_eventId (se_evidence x) = ev_eventId ev) es = Some \<lparr>se_evidence = ev, se_state = st\<rparr>)"

lemma stored_None [simp]: "stored_as ev None es"
  by (simp add: stored_as_def)

lemma stored_Some [simp]: "stored_as ev (Some st) (db_evidence db) \<longleftrightarrow> find_evidence db (ev_eventId ev) = Some \<lparr>se_evidence = ev, se_state = st\<rparr>"
  by (simp add: stored_as_def find_evidence_def)

lemma stored_append: "stored_as ev so es \<Longrightarrow> stored_as ev so (es @ xs)"
  by (auto simp: stored_as_def find_append_first split: option.splits)

definition recorded_view ::
  "evidence \<Rightarrow> projection_state option \<Rightarrow> string \<Rightarrow> (string \<times> string \<times> bool \<times> job_status) list \<times> message_attempt list \<times> stored_evidence list \<Rightarrow> bool" where
  "recorded_view ev so i v \<longleftrightarrow> (case v of (js, ms, es) \<Rightarrow>
     stored_as ev so es
     \<and> (\<exists>a. List.find (is_target ev) ms = Some a \<and> evidence_owner ev i a)
     \<and> (\<exists>r. List.find (\<lambda>r. fst r = i) js = Some (i, ev_sessionId ev, r)))"

abbreviation evidence_recorded :: "evidence \<Rightarrow> projection_state option \<Rightarrow> string \<Rightarrow> runtime_db \<Rightarrow> bool" where
  "evidence_recorded ev so i db \<equiv> recorded_view ev so i (message_view db)"

lemma find_job_row: "List.find (\<lambda>r. fst r = i) (map job_row js) = map_option job_row (List.find (\<lambda>j. mj_id j = i) js)"
  by (rule find_map) (simp add: job_row_def)

lemma find_Some_prop: "List.find p xs = Some x \<Longrightarrow> p x"
  by (auto simp: find_Some_iff)

lemma recorded_iff: "evidence_recorded ev so i db \<longleftrightarrow>
     stored_as ev so (db_evidence db)
     \<and> (\<exists>a. List.find (is_target ev) (db_attempts db) = Some a \<and> evidence_owner ev i a)
     \<and> (\<exists>j. find_job db i = Some j \<and> mj_sessionId j = ev_sessionId ev)"
  unfolding recorded_view_def message_view_def find_evidence_def find_job_def
  by (auto simp: find_job_row job_row_def dest: find_Some_prop)

lemma recorded_append: "recorded_view ev so i (js, ms, es) \<Longrightarrow> recorded_view ev so i (js, ms @ [a], es)"
  by (auto simp: recorded_view_def intro: find_append_first)

lemma recorded_attempts:
  assumes "evidence_recorded ev so i db" "keeps_identity g" "update_attempts Q g db = Inr (x, db')"
  shows "evidence_recorded ev so i db'"
proof -
  have db': "db' = db\<lparr>db_attempts := update_where Q g (db_attempts db)\<rparr>" using assms(3) by (simp add: update_attempts_def)
  obtain a where a: "List.find (is_target ev) (db_attempts db) = Some a" "evidence_owner ev i a"
    using assms(1) by (auto simp: recorded_iff)
  have "List.find (is_target ev) (update_where Q g (db_attempts db)) = Some (if Q a then g a else a)"
    using assms(2) a(1) by (subst find_update_where) (auto simp: is_target_def keeps_identity_def)
  moreover have "evidence_owner ev i (if Q a then g a else a)"
    using a(2) assms(2) by (auto simp: evidence_owner_def keeps_identity_def)
  ultimately show ?thesis using assms(1) by (auto simp: recorded_iff db' find_evidence_def find_job_def)
qed

lemma recorded_jobs:
  assumes "evidence_recorded ev so i db" "update_jobs P f db = Inr (rows, db')"
    "\<And>j. P j \<Longrightarrow> mj_id (f j) = mj_id j \<and> mj_sessionId (f j) = mj_sessionId j"
  shows "evidence_recorded ev so i db'"
proof -
  have db': "db' = db\<lparr>db_jobs := update_where P f (db_jobs db)\<rparr>" using assms(2) by (simp add: update_jobs_ok)
  obtain j where j: "find_job db i = Some j" "mj_sessionId j = ev_sessionId ev" using assms(1) by (auto simp: recorded_iff)
  have "find_job db' i = Some (if P j then f j else j)"
  proof -
    have "List.find (\<lambda>j. mj_id j = i) (update_where P f (db_jobs db))
        = map_option (\<lambda>j. if P j then f j else j) (List.find (\<lambda>j. mj_id j = i) (db_jobs db))"
      by (rule find_update_where) (simp add: assms(3))
    then show ?thesis using j(1) by (simp add: find_job_def db')
  qed
  moreover have "mj_sessionId (if P j then f j else j) = ev_sessionId ev" using j(2) assms(3) by simp
  ultimately show ?thesis using assms(1) by (auto simp: recorded_iff db' find_evidence_def)
qed

interpretation recorded: runtime_parts "evidence_recorded ev so i" "\<lambda>_. True" "\<lambda>_. True" "\<lambda>_. True" for ev so i
proof unfold_locales
  show "evidence_recorded ev so i (governor_step op db)" if "evidence_recorded ev so i db" for db op
  proof -
    have "recorded_view ev so i (map job_row (db_jobs db), db_attempts db @ [a], db_evidence db)" for a
      using that by (intro recorded_append) (simp add: message_view_def)
    then show ?thesis using governor_view [of op db] that by auto
  qed
  show "tx_keeps (evidence_recorded ev so i) (record_attempt_outcome now a oc)" for now a oc
    by (rule view_kept) (rule outcome_view)
  show "tx_keeps (evidence_recorded ev so i) (create_message_job now j m)" for now j m
    unfolding tx_keeps_def recorded_iff
    by (auto simp: create_message_job_def find_job_def find_evidence_def find_append_first split: option.splits if_splits)
  show "tx_keeps (evidence_recorded ev so i) (update_jobs P f)" if "\<And>j. P j \<Longrightarrow> keeps_job f j" for P f
    unfolding tx_keeps_def using recorded_jobs that by (auto simp: keeps_job_def)
  have up: "tx_keeps (evidence_recorded ev so i) (update_attempts Q g)" if "keeps_identity g" for Q g
    unfolding tx_keeps_def using recorded_attempts that by blast
  then show "tx_keeps (evidence_recorded ev so i) (update_attempts Q g)" if "keeps_attempt g" for Q g
    using that by (simp add: keeps_attempt_def)
  note dispatch = dispatch_kept [OF up]
  show "tx_keeps (evidence_recorded ev so i) (claim_commands now lease n ms maximum only)" for now lease n ms maximum only
    by (rule dispatch)
  show "tx_keeps (evidence_recorded ev so i) (reschedule_command now c msg k d)" for now c msg k d by (rule dispatch)
  show "tx_keeps (evidence_recorded ev so i) (defer_for_dispatch_readiness now c d)" for now c d by (rule dispatch)
  show "tx_keeps (evidence_recorded ev so i) (upsert_attempt ids r out err extra)" if "keeps_attempt extra" for ids r out err extra
    unfolding tx_keeps_def
  proof (intro allI impI)
    fix db x db' assume s: "evidence_recorded ev so i db" and u: "upsert_attempt ids r out err extra db = Inr (x, db')"
    have "evidence_recorded ev so i (db\<lparr>db_attempts := db_attempts db @ [a]\<rparr>)" for a
      using recorded_append [of ev so i "map job_row (db_jobs db)" "db_attempts db" "db_evidence db" a] s
      by (simp add: message_view_def)
    with upsert_ok [OF u that] s show "evidence_recorded ev so i db'"
      using recorded_attempts unfolding keeps_attempt_def by blast
  qed
  show "tx_keeps (evidence_recorded ev so i) (claim_due now limit)" for now limit
    unfolding tx_keeps_def
  proof (intro allI impI)
    fix db x db' assume s: "evidence_recorded ev so i db" and c: "claim_due now limit db = Inr (x, db')"
    have step: "evidence_recorded ev so i d'" if "evidence_recorded ev so i d" "queue_jobs now js d = Inr (r, d')" for d d' js r
      by (rule recorded_jobs [OF that(1) that(2) [unfolded queue_jobs_def]]) simp
    have o: "evidence_recorded ev so i (opened now db)" using s by (simp add: message_view_def)
    from c show "evidence_recorded ev so i db'"
      by (cases rule: claim_due_cases) (use s o step in blast)+
  qed
qed (auto simp: tx_keeps_def recorded_iff mark_event_def store_evidence_def find_job_def stored_append)

lemma target_found:
  "evidence_target db ev = Some (a, j) \<longleftrightarrow> List.find (is_target ev) (db_attempts db) = Some a \<and> find_job db (ma_jobId a) = Some j"
  unfolding evidence_target_def is_target_def [abs_def] by (auto split: option.splits)

lemma no_mismatch: "evidence_mismatch a j ev = None \<longleftrightarrow> mj_sessionId j = ev_sessionId ev \<and> evidence_owner ev (ma_jobId a) a"
  by (auto simp: evidence_mismatch_def evidence_owner_def)

lemma recorded_repeats:
  assumes "evidence_recorded ev (Some st) i db"
  shows "project_evidence now ev db = Inr (\<lparr>pj_state = result_state_of st, pj_statusAdvanced = False, pj_jobId = Some i\<rparr>, db)"
proof -
  obtain a j where r: "List.find (is_target ev) (db_attempts db) = Some a" "evidence_owner ev i a" "find_job db i = Some j"
    "mj_sessionId j = ev_sessionId ev" "find_evidence db (ev_eventId ev) = Some \<lparr>se_evidence = ev, se_state = st\<rparr>"
    using assms by (auto simp: recorded_iff)
  have i: "ma_jobId a = i" "mj_id j = i" using r(2,3) by (auto simp: evidence_owner_def find_job_def dest: find_Some_prop)
  have "evidence_target db ev = Some (a, j)" using r i by (simp add: target_found)
  moreover have "evidence_mismatch a j ev = None" using r i by (simp add: no_mismatch)
  ultimately show ?thesis using r(5) i by (simp add: project_evidence_def)
qed

subsection \<open>A projection without an error leaves such a record\<close>

lemma frame_iter: "(\<And>x. frame g (f x)) \<Longrightarrow> frame g (tx_iter f xs)"
proof (induction xs)
  case (Cons x xs)
  then show ?case unfolding tx_iter.simps by (intro frame_bind) blast+
qed (simp add: frame_def)

lemma frame_evidence [simp]: "frame db_evidence (update_jobs P f)" "frame db_evidence (update_attempts Q g)"
    "frame db_evidence (tx_return x)"
  by (auto simp: frame_def update_jobs_ok update_attempts_def)

lemma frame_outcome_evidence [simp]: "frame db_evidence (record_attempt_outcome now a oc)"
  unfolding frame_def
proof (intro allI impI)
  fix db x db' assume "record_attempt_outcome now a oc db = Inr (x, db')"
  from outcome_view [OF this] show "db_evidence db' = db_evidence db" by (simp add: message_view_def)
qed

lemma find_append_last: "List.find p xs = None \<Longrightarrow> p y \<Longrightarrow> List.find p (xs @ [y]) = Some y"
  by (induction xs) (auto split: if_splits)

lemma frame_moves: "frame db_evidence (tx_iter (move_job now i ev) ms)"
  unfolding move_job_def by (intro frame_iter frame_bind) simp_all

lemma frame_bind_message: "frame db_evidence (bind_message now i ev)"
  unfolding bind_message_def by (intro frame_bind) simp_all

lemma frame_attempt_evidence: "frame db_evidence (attempt_evidence now ev nxt s)"
proof -
  have "frame db_evidence (tx_bind (record_attempt_outcome now (ev_attemptId ev) out) (\<lambda>_. tx_return ()))" for out
    by (rule frame_bind) simp_all
  then show ?thesis unfolding attempt_evidence_def by (intro frame_bind) (simp_all split: option.split)
qed

lemma apply_records:
  assumes run: "apply_evidence now ev a j db = Inr (r, db')" and none: "find_evidence db (ev_eventId ev) = None"
    and start: "evidence_recorded ev None i db" and i: "mj_id j = i"
  shows "\<exists>st. evidence_recorded ev (Some st) i db' \<and> pj_state r = result_state_of st \<and> pj_jobId r = Some i"
proof -
  define moves where "moves = (if ma_lastSequence a < ev_sequence ev then connector_job_status_transitions (mj_status j) (ev_kind ev) else [])"
  have moved: "tx_keeps (evidence_recorded ev None i) (tx_iter (move_job now (mj_id j) ev) moves)"
    by (intro tx_rules recorded.keeps_move) (auto simp: moves_def dest: recorded.moves_status split: if_splits)
  define nxt where "nxt = (if ma_lastSequence a < ev_sequence ev
    then next_transport_state (ma_transport a) (transport_state_from_evidence (ev_kind ev))
    else (case ma_transport a of Some t \<Rightarrow> t | None \<Rightarrow> transport_state_from_evidence (ev_kind ev)))"
  have dispatched: "ma_lastSequence a < ev_sequence ev \<Longrightarrow> nxt \<noteq> DISPATCH_STARTED"
    by (simp add: nxt_def recorded.evidence_dispatched)
  obtain d1 d2 d3 b s st where chain: "tx_iter (move_job now (mj_id j) ev) moves db = Inr ((), d1)"
    "(if moves = [] \<and> b then bind_message now (mj_id j) ev else tx_return ()) d1 = Inr ((), d2)"
    "(if ma_lastSequence a < ev_sequence ev then attempt_evidence now ev nxt s else tx_return ()) d2 = Inr ((), d3)"
    "db' = d3\<lparr>db_evidence := db_evidence d3 @ [\<lparr>se_evidence = ev, se_state = st\<rparr>]\<rparr>"
    "pj_state r = result_state_of st" "pj_jobId r = Some (mj_id j)"
    using run unfolding apply_evidence_def Let_def moves_def [symmetric] nxt_def [symmetric] tx_bind_ok store_evidence_def tx_modify_ok tx_return_ok
    by fastforce
  have "evidence_recorded ev None i d1" by (rule tx_keepsD [OF moved start chain(1)])
  then have "evidence_recorded ev None i d2"
    using chain(2) by (auto split: if_splits dest: tx_keepsD [OF recorded.keeps_bind_message])
  then have d3: "evidence_recorded ev None i d3"
    using chain(3) dispatched by (auto split: if_splits dest: tx_keepsD [OF recorded.keeps_attempt_evidence])
  have "db_evidence d1 = db_evidence db" using frame_moves chain(1) by (simp add: frame_def)
  moreover have "db_evidence d2 = db_evidence d1" using frame_bind_message chain(2) by (auto simp: frame_def split: if_splits)
  moreover have "db_evidence d3 = db_evidence d2" using frame_attempt_evidence chain(3) by (auto simp: frame_def split: if_splits)
  ultimately have "find_evidence d3 (ev_eventId ev) = None" using none by (simp add: find_evidence_def)
  then have "find_evidence db' (ev_eventId ev) = Some \<lparr>se_evidence = ev, se_state = st\<rparr>"
    unfolding chain(4) find_evidence_def by (simp add: find_append_last)
  then have "evidence_recorded ev (Some st) i db'"
    using d3 unfolding recorded_iff chain(4) by (simp add: find_job_def stored_as_def find_evidence_def)
  then show ?thesis using chain(5,6) i by blast
qed

lemma projection_records:
  assumes "project_evidence now ev db = Inr (r, db')"
  shows "\<exists>st i. evidence_recorded ev (Some st) i db' \<and> pj_state r = result_state_of st \<and> pj_jobId r = Some i"
proof -
  obtain a j where aj: "evidence_target db ev = Some (a, j)" "evidence_mismatch a j ev = None"
    using assms by (auto simp: project_evidence_def split: option.splits)
  then have i: "mj_id j = ma_jobId a" by (auto simp: target_found find_job_def dest: find_Some_prop)
  have start: "evidence_recorded ev None (ma_jobId a) db"
    using aj by (auto simp: recorded_iff target_found no_mismatch)
  show ?thesis
  proof (cases "find_evidence db (ev_eventId ev)")
    case None
    then have "apply_evidence now ev a j db = Inr (r, db')"
      using assms aj by (auto simp: project_evidence_def split: if_splits)
    from apply_records [OF this None start i] show ?thesis by blast
  next
    case (Some x)
    then have x: "x = \<lparr>se_evidence = ev, se_state = se_state x\<rparr>" "db' = db"
      "r = \<lparr>pj_state = result_state_of (se_state x), pj_statusAdvanced = False, pj_jobId = Some (mj_id j)\<rparr>"
      using assms aj by (auto simp: project_evidence_def split: if_splits)
    then have "evidence_recorded ev (Some (se_state x)) (ma_jobId a) db'"
      using start Some by (auto simp: recorded_iff)
    then show ?thesis using x(3) i by auto
  qed
qed

text \<open>C15: Evidence that was projected is projected once: whatever operations run in between, projecting it again
  answers with the recorded state, advances nothing and leaves the database as it is.\<close>

theorem evidence_projected_once:
  assumes "project_evidence now ev db = Inr (r, db')"
  shows "project_evidence now' ev (fold runtime_step ops db') =
    Inr (\<lparr>pj_state = pj_state r, pj_statusAdvanced = False, pj_jobId = pj_jobId r\<rparr>, fold runtime_step ops db')"
proof -
  obtain st i where st: "evidence_recorded ev (Some st) i db'" "pj_state r = result_state_of st" "pj_jobId r = Some i"
    using projection_records [OF assms] by blast
  have "evidence_recorded ev (Some st) i (fold runtime_step ops db')" by (rule recorded.runtime_run [OF st(1)]) simp_all
  then show ?thesis using recorded_repeats st(2,3) by simp
qed

section \<open>What evidence asks of a job\<close>

fun legal_chain :: "job_status \<Rightarrow> job_status list \<Rightarrow> bool" where
  "legal_chain cur [] \<longleftrightarrow> True"
| "legal_chain cur (s # ss) \<longleftrightarrow> legal_transition cur s \<and> legal_chain s ss"

lemmas transition_defs = connector_job_status_transitions_def status_by_evidence_def next_projected_message_status_def delivery_rank_def

lemma connector_chain_legal: "cur \<notin> {SCHEDULED, QUEUED} \<Longrightarrow> legal_chain cur (connector_job_status_transitions cur k)"
  by (cases cur; cases k) (simp_all add: transition_defs)

lemma connector_chain_illegal:
  "cur \<in> {SCHEDULED, QUEUED} \<Longrightarrow> k \<notin> {COMMAND_RECEIVED, EV_SEND_STARTED, EV_SEND_INDETERMINATE} \<Longrightarrow>
   \<exists>s. connector_job_status_transitions cur k = [s] \<and> \<not> legal_transition cur s"
  by (cases cur; cases k) (simp_all add: transition_defs)

lemma jobs_keyed_where: "(\<And>j. P j \<Longrightarrow> mj_id (f j) = mj_id j) \<Longrightarrow> jobs_keyed (db\<lparr>db_jobs := update_where P f (db_jobs db)\<rparr>) = jobs_keyed db"
proof -
  assume "\<And>j. P j \<Longrightarrow> mj_id (f j) = mj_id j"
  then have "map mj_id (update_where P f js) = map mj_id js" for js by (induction js) (auto simp: update_where_def)
  then show ?thesis by (simp add: jobs_keyed_def)
qed

lemma find_job_in: "find_job db i = Some j \<Longrightarrow> j \<in> set (db_jobs db) \<and> mj_id j = i"
  by (auto simp: find_job_def find_Some_iff)

text \<open>An update of one job by its id.\<close>

lemma update_one:
  assumes keyed: "jobs_keyed db" and j: "find_job db i = Some j" and legal: "legal_transition (mj_status j) (mj_status (f j))"
    and id: "\<And>r. mj_id (f r) = mj_id r"
  shows "\<exists>rows d. update_jobs (\<lambda>r. mj_id r = i) f db = Inr (rows, d) \<and> find_job d i = Some (f j) \<and> jobs_keyed d
    \<and> db_attempts d = db_attempts db"
proof -
  let ?d = "db\<lparr>db_jobs := update_where (\<lambda>r. mj_id r = i) f (db_jobs db)\<rparr>"
  have one: "r = j" if "r \<in> set (db_jobs db)" "mj_id r = i" for r
    using jobs_keyed_unique [OF keyed that(1)] find_job_in [OF j] that(2) by blast
  have "List.find (\<lambda>r. mj_id r = i) (update_where (\<lambda>r. mj_id r = i) f (db_jobs db)) = map_option (\<lambda>r. if mj_id r = i then f r else r) (Some j)"
    using j by (subst find_update_where) (simp_all add: id find_job_def)
  then have "find_job ?d i = Some (f j)" using find_job_in [OF j] by (simp add: find_job_def)
  moreover have "jobs_keyed ?d" using keyed by (subst jobs_keyed_where) (simp_all add: id)
  moreover have "\<forall>r \<in> set (db_jobs db). mj_id r = i \<longrightarrow> legal_transition (mj_status r) (mj_status (f r))"
    using one legal by blast
  ultimately show ?thesis unfolding update_jobs_ok by auto
qed

lemma legal_refl [simp]: "legal_transition s s"
  by (cases s) simp_all

lemma moves_run:
  "jobs_keyed d \<Longrightarrow> find_job d i = Some j \<Longrightarrow> legal_chain (mj_status j) ms \<Longrightarrow>
   \<exists>d' j'. tx_iter (move_job now i ev) ms d = Inr ((), d') \<and> find_job d' i = Some j' \<and> mj_status j' = last (mj_status j # ms)
     \<and> jobs_keyed d' \<and> db_attempts d' = db_attempts d"
proof (induction ms arbitrary: d j)
  case (Cons s ms)
  let ?f = "\<lambda>r. r\<lparr>mj_status := s, mj_messageId := coalesce (ev_openwaMessageId ev) (mj_messageId r),
        mj_lastError := connector_evidence_error ev, mj_updatedAt := now\<rparr>"
  from update_one [OF Cons.prems(1,2), of ?f] Cons.prems(3) obtain rows d1 where
    d1: "update_jobs (\<lambda>r. mj_id r = i) ?f d = Inr (rows, d1)" "find_job d1 i = Some (?f j)" "jobs_keyed d1" "db_attempts d1 = db_attempts d"
    by auto
  from Cons.IH [OF d1(3,2)] Cons.prems(3) obtain d' j' where
    "tx_iter (move_job now i ev) ms d1 = Inr ((), d')" "find_job d' i = Some j'" "mj_status j' = last (s # ms)" "jobs_keyed d'"
    "db_attempts d' = db_attempts d1" by auto
  moreover have "move_job now i ev s d = Inr ((), d1)" using d1(1) by (simp add: move_job_def tx_bind_def tx_return_def)
  ultimately show ?case using d1(4) by (simp add: tx_bind_def)
qed (simp add: tx_return_def)

definition succeeds :: "'a tx \<Rightarrow> bool" where
  "succeeds m \<longleftrightarrow> (\<forall>d. \<exists>x d'. m d = Inr (x, d'))"

lemma succeeds_bind: "succeeds m \<Longrightarrow> (\<And>x. succeeds (f x)) \<Longrightarrow> succeeds (tx_bind m f)"
  unfolding succeeds_def tx_bind_ok by blast

lemma succeeds_basic [simp]: "succeeds (tx_return x)" "succeeds (tx_modify f)" "succeeds (update_scopes S g)"
    "succeeds (update_buckets B h)" "succeeds (release_permit now p)" "succeeds (update_attempts Q u)"
  by (simp_all add: succeeds_def tx_return_def tx_modify_def update_scopes_def update_buckets_def release_permit_def update_attempts_def)

lemma outcome_total: "succeeds (record_attempt_outcome now a oc)"
proof -
  have "succeeds (record_success now p)" for p
    unfolding record_success_def by (intro succeeds_bind succeeds_basic) (auto simp: succeeds_def tx_bind_def update_scopes_def update_buckets_def tx_modify_def)
  then have "succeeds (outcome_effect now p oc)" for p
    by (cases oc) (simp_all add: outcome_effect_def record_rate_limit_def record_failure_def block_session_def succeeds_bind)
  moreover have "succeeds (record_receipt tok k)" for tok k
    by (auto simp: succeeds_def record_receipt_def split: option.split)
  ultimately have "succeeds (record_outcome now p oc)" for p
    unfolding record_outcome_def by (intro succeeds_bind) simp_all
  then have ok: "succeeds (tx_bind (record_outcome now p oc) (\<lambda>_. tx_return True))" for p
    by (intro succeeds_bind) simp_all
  have "\<exists>x d'. record_attempt_outcome now a oc d = Inr (x, d')" for d
    using ok unfolding succeeds_def record_attempt_outcome_def by (cases "attempt_ref d a") auto
  then show ?thesis by (simp add: succeeds_def)
qed

lemma view_find_job:
  "message_view d' = message_view d \<Longrightarrow> find_job d i = Some j \<Longrightarrow> \<exists>j'. find_job d' i = Some j' \<and> mj_status j' = mj_status j"
proof -
  assume v: "message_view d' = message_view d" and j: "find_job d i = Some j"
  have "map_option job_row (find_job d' i) = map_option job_row (find_job d i)"
    using v unfolding find_job_def message_view_def by (metis find_job_row fst_conv)
  then show ?thesis using j by (auto simp: job_row_def)
qed

lemma bind_message_run:
  assumes "jobs_keyed d" "find_job d i = Some j"
  shows "\<exists>d' j'. (if c then bind_message now i ev else tx_return ()) d = Inr ((), d') \<and> find_job d' i = Some j'
    \<and> mj_status j' = mj_status j \<and> db_attempts d' = db_attempts d"
proof (cases c)
  case True
  from update_one [OF assms, of "\<lambda>r. r\<lparr>mj_messageId := ev_openwaMessageId ev, mj_updatedAt := now\<rparr>"]
  obtain rows d' where "update_jobs (\<lambda>r. mj_id r = i) (\<lambda>r. r\<lparr>mj_messageId := ev_openwaMessageId ev, mj_updatedAt := now\<rparr>) d = Inr (rows, d')"
    "find_job d' i = Some (j\<lparr>mj_messageId := ev_openwaMessageId ev, mj_updatedAt := now\<rparr>)" "db_attempts d' = db_attempts d" by auto
  then show ?thesis using True by (simp add: bind_message_def tx_bind_def tx_return_def)
qed (use assms in \<open>simp add: tx_return_def\<close>)

lemma attempt_evidence_run:
  "\<exists>d'. attempt_evidence now ev nxt s d = Inr ((), d') \<and> message_view d' =
     message_view (d\<lparr>db_attempts := update_where (\<lambda>x. ma_attemptId x = ev_attemptId ev) (evidenced_attempt ev nxt s) (db_attempts d)\<rparr>)"
proof (cases "safety_outcome_from_connector_evidence (ev_kind ev) (ev_errorClass ev)")
  case None then show ?thesis by (simp add: attempt_evidence_def update_attempts_def tx_bind_def tx_return_def)
next
  case (Some out)
  let ?d = "d\<lparr>db_attempts := update_where (\<lambda>x. ma_attemptId x = ev_attemptId ev) (evidenced_attempt ev nxt s) (db_attempts d)\<rparr>"
  obtain x d' where "record_attempt_outcome now (ev_attemptId ev) out ?d = Inr (x, d')"
    using outcome_total unfolding succeeds_def by blast
  with Some outcome_view [OF this] show ?thesis by (simp add: attempt_evidence_def update_attempts_def tx_bind_def tx_return_def)
qed

lemma find_evidenced:
  assumes "List.find (is_target ev) ms = Some a"
  shows "List.find (is_target ev) (update_where (\<lambda>x. ma_attemptId x = ev_attemptId ev) (evidenced_attempt ev nxt s) ms)
    = Some (evidenced_attempt ev nxt s a)"
proof -
  have "List.find (is_target ev) (update_where (\<lambda>x. ma_attemptId x = ev_attemptId ev) (evidenced_attempt ev nxt s) ms)
      = map_option (\<lambda>x. if ma_attemptId x = ev_attemptId ev then evidenced_attempt ev nxt s x else x) (List.find (is_target ev) ms)"
    by (rule find_update_where) (simp add: is_target_def evidenced_attempt_def)
  then show ?thesis using assms find_Some_prop [OF assms] by (simp add: is_target_def)
qed

lemma apply_runs:
  fixes ev a j
  defines "ms \<equiv> connector_job_status_transitions (mj_status j) (ev_kind ev)"
  assumes keyed: "jobs_keyed db" and j: "find_job db (mj_id j) = Some j" and fresh: "ma_lastSequence a < ev_sequence ev"
    and chain: "legal_chain (mj_status j) ms" and a: "List.find (is_target ev) (db_attempts db) = Some a"
    and none: "find_evidence db (ev_eventId ev) = None"
  shows "\<exists>r db' j' s. apply_evidence now ev a j db = Inr (r, db') \<and> find_job db' (mj_id j) = Some j' \<and> mj_status j' = last (mj_status j # ms)
    \<and> List.find (is_target ev) (db_attempts db') = Some (evidenced_attempt ev
        (next_transport_state (ma_transport a) (transport_state_from_evidence (ev_kind ev))) s a)"
proof -
  let ?nxt = "next_transport_state (ma_transport a) (transport_state_from_evidence (ev_kind ev))"
  obtain d1 j1 where d1: "tx_iter (move_job now (mj_id j) ev) ms db = Inr ((), d1)" "find_job d1 (mj_id j) = Some j1"
    "mj_status j1 = last (mj_status j # ms)" "jobs_keyed d1" "db_attempts d1 = db_attempts db"
    using moves_run [OF keyed j chain] by blast
  define c where "c = (ms = [] \<and> truthy (ev_openwaMessageId ev) \<and> \<not> truthy (coalesce (mj_messageId j) (ma_messageId a)))"
  obtain d2 j2 where d2: "(if c then bind_message now (mj_id j) ev else tx_return ()) d1 = Inr ((), d2)" "find_job d2 (mj_id j) = Some j2"
    "mj_status j2 = mj_status j1" "db_attempts d2 = db_attempts d1"
    using bind_message_run [OF d1(4,2)] by blast
  define s where "s = (if ms = [] then mj_status j else last ms)"
  obtain d3 where d3: "attempt_evidence now ev ?nxt s d2 = Inr ((), d3)" "message_view d3 =
     message_view (d2\<lparr>db_attempts := update_where (\<lambda>x. ma_attemptId x = ev_attemptId ev) (evidenced_attempt ev ?nxt s) (db_attempts d2)\<rparr>)"
    using attempt_evidence_run by blast
  have "find_job (d2\<lparr>db_attempts := ms'\<rparr>) (mj_id j) = Some j2" for ms' using d2(2) by (simp add: find_job_def)
  from view_find_job [OF d3(2) this] obtain j3 where j3: "find_job d3 (mj_id j) = Some j3" "mj_status j3 = mj_status j2" by blast
  have a3: "List.find (is_target ev) (db_attempts d3) = Some (evidenced_attempt ev ?nxt s a)"
    using d3(2) find_evidenced [OF a] d1(5) d2(4) by (simp add: message_view_def)
  have "\<exists>r st. apply_evidence now ev a j db = Inr (r, d3\<lparr>db_evidence := db_evidence d3 @ [\<lparr>se_evidence = ev, se_state = st\<rparr>]\<rparr>)"
    unfolding apply_evidence_def Let_def ms_def [symmetric] if_P [OF fresh] s_def [symmetric] c_def [symmetric]
    using d1(1) d2(1) d3(1) by (auto simp: tx_bind_def store_evidence_def tx_modify_def tx_return_def)
  then show ?thesis using j3 a3 d1(3) d2(3) by (auto simp: find_job_def)
qed

text \<open>Evidence that matches its attempt, is new, newer than the last, and names no other message moves the job along
  the transitions of its kind and the attempt to the next transport state, and is recorded.\<close>

theorem evidence_effect:
  assumes "evidence_target db ev = Some (a, j)" "evidence_mismatch a j ev = None" "find_evidence db (ev_eventId ev) = None"
    "\<not> sequence_taken db ev" "ma_lastSequence a < ev_sequence ev" "jobs_keyed db" "mj_status j \<noteq> SCHEDULED" "mj_status j \<noteq> QUEUED"
    "truthy (coalesce (mj_messageId j) (ma_messageId a)) \<Longrightarrow> truthy (ev_openwaMessageId ev) \<Longrightarrow>
       coalesce (mj_messageId j) (ma_messageId a) = ev_openwaMessageId ev"
  shows "\<exists>r db' j' a' st. project_evidence now ev db = Inr (r, db')
    \<and> find_job db' (mj_id j) = Some j'
    \<and> mj_status j' = last (mj_status j # connector_job_status_transitions (mj_status j) (ev_kind ev))
    \<and> List.find (is_target ev) (db_attempts db') = Some a' \<and> ma_lastSequence a' = ev_sequence ev
    \<and> ma_transport a' = Some (next_transport_state (ma_transport a) (transport_state_from_evidence (ev_kind ev)))
    \<and> find_evidence db' (ev_eventId ev) = Some \<lparr>se_evidence = ev, se_state = st\<rparr>"
proof -
  have t: "find_job db (mj_id j) = Some j" "List.find (is_target ev) (db_attempts db) = Some a"
    using assms(1) find_job_in [of db "ma_jobId a" j] by (auto simp: target_found)
  have chain: "legal_chain (mj_status j) (connector_job_status_transitions (mj_status j) (ev_kind ev))"
    using assms(7,8) by (intro connector_chain_legal) simp
  have eq: "project_evidence now ev db = apply_evidence now ev a j db"
    using assms(1-4,9) by (auto simp: project_evidence_def)
  from apply_runs [OF assms(6) t(1) assms(5) chain t(2) assms(3)] obtain r db' j' s where
    r: "project_evidence now ev db = Inr (r, db')" "find_job db' (mj_id j) = Some j'"
    "mj_status j' = last (mj_status j # connector_job_status_transitions (mj_status j) (ev_kind ev))"
    "List.find (is_target ev) (db_attempts db') = Some (evidenced_attempt ev
        (next_transport_state (ma_transport a) (transport_state_from_evidence (ev_kind ev))) s a)"
    unfolding eq by blast
  moreover obtain st where "find_evidence db' (ev_eventId ev) = Some \<lparr>se_evidence = ev, se_state = st\<rparr>"
    using projection_records [OF r(1)] by (auto simp: recorded_iff)
  ultimately show ?thesis by (force simp: evidenced_attempt_def)
qed

section \<open>Evidence for a job that was rescheduled\<close>

lemma moves_rejected:
  assumes "find_job db i = Some j" "\<not> legal_transition (mj_status j) s"
  shows "\<exists>x y. move_job now i ev s db = Inl (Illegal_Transition x y)"
proof -
  let ?f = "\<lambda>r. r\<lparr>mj_status := s, mj_messageId := coalesce (ev_openwaMessageId ev) (mj_messageId r),
        mj_lastError := connector_evidence_error ev, mj_updatedAt := now\<rparr>"
  have "illegal_update (\<lambda>r. mj_id r = i) ?f j" using assms find_job_in by (auto simp: illegal_update_def)
  then have "List.find (illegal_update (\<lambda>r. mj_id r = i) ?f) (db_jobs db) \<noteq> None"
    using find_job_in [OF assms(1)] by (auto simp: find_None_iff)
  then obtain k where "List.find (illegal_update (\<lambda>r. mj_id r = i) ?f) (db_jobs db) = Some k" by blast
  then have "update_jobs (\<lambda>r. mj_id r = i) ?f db = Inl (Illegal_Transition (mj_status k) s)" by (simp add: update_jobs_def)
  then show ?thesis by (simp add: move_job_def tx_bind_def)
qed

text \<open>C36: Evidence of acceptance, delivery or rejection for a job that was scheduled again is never recorded: the status
  transition it asks for is one the database refuses, so the projection fails and leaves nothing, however often
  it is repeated.\<close>

theorem late_evidence_rejected:
  assumes "evidence_target db ev = Some (a, j)" "evidence_mismatch a j ev = None" "find_evidence db (ev_eventId ev) = None"
    "\<not> sequence_taken db ev" "ma_lastSequence a < ev_sequence ev" "mj_status j \<in> {SCHEDULED, QUEUED}"
    "ev_kind ev \<notin> {COMMAND_RECEIVED, EV_SEND_STARTED, EV_SEND_INDETERMINATE}"
    "truthy (coalesce (mj_messageId j) (ma_messageId a)) \<Longrightarrow> truthy (ev_openwaMessageId ev) \<Longrightarrow>
       coalesce (mj_messageId j) (ma_messageId a) = ev_openwaMessageId ev"
  shows "\<exists>s t. transaction (project_evidence now ev) db = (Inl (Illegal_Transition s t), db)"
proof -
  have t: "find_job db (mj_id j) = Some j" using assms(1) find_job_in [of db "ma_jobId a" j] by (auto simp: target_found)
  obtain s where s: "connector_job_status_transitions (mj_status j) (ev_kind ev) = [s]" "\<not> legal_transition (mj_status j) s"
    using connector_chain_illegal [OF assms(6,7)] by blast
  obtain x y where "move_job now (mj_id j) ev s db = Inl (Illegal_Transition x y)" using moves_rejected [OF t s(2)] by blast
  then have "apply_evidence now ev a j db = Inl (Illegal_Transition x y)"
    using s(1) assms(5) by (simp add: apply_evidence_def Let_def tx_bind_def)
  moreover have "project_evidence now ev db = apply_evidence now ev a j db"
    using assms(1-4,8) by (auto simp: project_evidence_def)
  ultimately show ?thesis by (simp add: transaction_def)
qed

section \<open>The order of transport states\<close>

fun transport_progress :: "transport_state \<Rightarrow> nat" where
  "transport_progress DISPATCH_STARTED = 0"
| "transport_progress INGRESS_ACCEPTED = 1"
| "transport_progress TS_SEND_STARTED = 2"
| "transport_progress INDETERMINATE = 3"
| "transport_progress TS_SEND_ACCEPTED = 4"
| "transport_progress TS_SENT = 5"
| "transport_progress TS_DELIVERED = 6"
| "transport_progress TS_READ = 7"
| "transport_progress FAILED_DEFINITIVE = 8"

text \<open>The transport state never goes back, applying the same state again changes nothing, and READ and
  FAILED_DEFINITIVE are final; states other than a failure may arrive in any order.\<close>

theorem transport_monotone:
  "transport_progress t \<le> transport_progress (next_transport_state (Some t) x)
   \<and> next_transport_state (Some (next_transport_state (Some t) x)) x = next_transport_state (Some t) x
   \<and> next_transport_state (Some TS_READ) x = TS_READ \<and> next_transport_state (Some FAILED_DEFINITIVE) x = FAILED_DEFINITIVE
   \<and> (x = FAILED_DEFINITIVE \<or> y = FAILED_DEFINITIVE \<or>
      next_transport_state (Some (next_transport_state (Some t) x)) y = next_transport_state (Some (next_transport_state (Some t) y)) x)"
  by (cases t; cases x; cases y) (simp_all add: next_transport_state_def transport_rank_def)

end
