(* ===== verification/Message_Theorems.thy ===== *)
theory Message_Theorems
  imports Evidence_Theorems
begin

text \<open>
  What the message modules promise over any interleaving: a settled job is never sent again, a session has one live
  message in flight, a free lane with due work is claimed, an expired processing lease is released, and creating
  a job twice under one key creates it once.
\<close>

section \<open>Settled jobs\<close>

lemma settled_not_committed:
  assumes "settled_job i as db" "mpt_jobId p = i"
  shows "commit_message_start now aid cid p required cmd rr age db \<noteq> Inr (Some c, db')"
proof
  assume c: "commit_message_start now aid cid p required cmd rr age db = Inr (Some c, db')"
  obtain j where "j \<in> set (db_jobs db)" "fence_passes now p required cmd rr age j db" using commit_ok [OF c] by metis
  with assms show False by (auto simp: settled_job_iff fence_passes_def job_commits_def settled_status_def)
qed

lemma settled_start:
  "jobs_keyed db \<Longrightarrow> find_job db i = Some j \<Longrightarrow> settled_status (mj_status j) \<Longrightarrow>
   settled_job i (map ma_attemptId (filter (\<lambda>a. ma_jobId a = i) (db_attempts db))) db"
  unfolding settled_job_iff using find_job_in jobs_keyed_unique by blast

lemma settled_found: "settled_job i as db \<Longrightarrow> \<exists>j. find_job db i = Some j \<and> settled_status (mj_status j)"
  unfolding settled_job_iff find_job_def
  by (cases "List.find (\<lambda>j. mj_id j = i) (db_jobs db)") (auto simp: find_None_iff find_Some_iff)

text \<open>C3: A job whose outcome is known or given up (any status but SCHEDULED, QUEUED and PROCESSING) is never sent again:
  whatever operations follow, it stays settled, gets no further attempt, and the final fence opens for no permit
  of it.\<close>

theorem settled_never_resent:
  assumes "jobs_keyed db" "find_job db i = Some j" "settled_status (mj_status j)"
  shows "(\<exists>j'. find_job (fold runtime_step ops db) i = Some j' \<and> settled_status (mj_status j'))
    \<and> map ma_attemptId (filter (\<lambda>a. ma_jobId a = i) (db_attempts (fold runtime_step ops db)))
      = map ma_attemptId (filter (\<lambda>a. ma_jobId a = i) (db_attempts db))
    \<and> commit_message_start now aid cid (p\<lparr>mpt_jobId := i\<rparr>) required cmd rr age (fold runtime_step ops db) \<noteq> Inr (Some c, db')"
proof -
  note run = settle.runtime_run [OF settled_start [OF assms], of ops]
  from run show ?thesis using settled_found [OF run] settled_not_committed [OF run] by (simp add: settled_job_iff)
qed

section \<open>Lanes\<close>

text \<open>C4: A session never has two live messages queued or being processed, whatever operations run.\<close>

theorem one_live_message_per_session:
  assumes "jobs_keyed db" "\<And>j k. j \<in> set (db_jobs db) \<Longrightarrow> k \<in> set (db_jobs db) \<Longrightarrow> \<not> clash j k"
    "j \<in> set (db_jobs (fold runtime_step ops db))" "k \<in> set (db_jobs (fold runtime_step ops db))"
    "in_flight j" "in_flight k" "mj_sessionId j = mj_sessionId k"
  shows "j = k"
proof -
  have "one_in_flight db" using assms(1,2) by (simp add: one_in_flight_iff)
  then have I: "one_in_flight (fold runtime_step ops db)" by (rule lanes.runtime_run) simp_all
  then have keyed: "jobs_keyed (fold runtime_step ops db)" and "\<not> clash j k" using assms(3,4) unfolding one_in_flight_iff by blast+
  then have "mj_id j = mj_id k" using assms(5-7) by (simp add: clash_def)
  then show ?thesis by (rule jobs_keyed_unique [OF keyed assms(3,4)])
qed

lemma queue_jobs_runs:
  "queue_jobs now js db = Inr (map (\<lambda>j. j\<lparr>mj_status := QUEUED, mj_deferReason := None, mj_updatedAt := now\<rparr>)
      (filter (\<lambda>j. mj_id j \<in> mj_id ` set js \<and> mj_status j = SCHEDULED) (db_jobs db)),
    db\<lparr>db_jobs := update_where (\<lambda>j. mj_id j \<in> mj_id ` set js \<and> mj_status j = SCHEDULED)
      (\<lambda>j. j\<lparr>mj_status := QUEUED, mj_deferReason := None, mj_updatedAt := now\<rparr>) (db_jobs db)\<rparr>)"
  unfolding queue_jobs_def by (simp add: update_jobs_ok)

lemma length_somes: "length (somes xs) \<le> length xs"
  by (simp add: somes_def)

lemma claimable_live_bound: "length (claimable_live now db) \<le> length (db_lanes db)"
proof -
  have "length (claimable_live now db)
      = length (somes (map (\<lambda>s. if lane_free now db s then lane_due now db s else None) (db_lanes db)))"
    by (simp only: claimable_live_def length_sort)
  also have "\<dots> \<le> length (db_lanes db)" using length_somes by (metis length_map)
  finally show ?thesis .
qed

lemma lane_due_exists:
  assumes "j \<in> set (db_jobs db)" "lane_candidate now j" "run_allows db (mj_id j)"
  shows "\<exists>k. lane_due now db (mj_sessionId j) = Some k"
proof -
  let ?js = "filter (\<lambda>k. mj_sessionId k = mj_sessionId j \<and> lane_candidate now k \<and> run_allows db (mj_id k)) (db_jobs db)"
  have "j \<in> set (sort_key due_key ?js)" using assms by (simp only: set_sort) simp
  then show ?thesis by (cases "sort_key due_key ?js") (auto simp: lane_due_def)
qed

lemma lane_due_prop: "lane_due now db s = Some k \<Longrightarrow> k \<in> set (db_jobs db) \<and> mj_sessionId k = s \<and> lane_candidate now k"
proof -
  let ?js = "filter (\<lambda>k. mj_sessionId k = s \<and> lane_candidate now k \<and> run_allows db (mj_id k)) (db_jobs db)"
  assume "lane_due now db s = Some k"
  then obtain rest where "sort_key due_key ?js = k # rest" by (auto simp: lane_due_def split: list.splits)
  then have "k \<in> set (sort_key due_key ?js)" by (simp only: list.set_intros)
  then have "k \<in> set ?js" by (simp only: set_sort)
  then show ?thesis by auto
qed

lemma claim_due_takes:
  assumes "queue_jobs now (take (nat limit) (claimable_live now (opened now db))) (opened now db) = Inr (live, d)" "0 < limit"
  shows "\<exists>more d'. claim_due now limit db = Inr (live @ more, d')"
proof -
  have open_run: "open_lanes now db = Inr ((), opened now db)" by (simp add: open_lanes_def opened_def)
  obtain dry d' where "queue_jobs now (take (nat limit - length live) (claimable_dry now d)) d = Inr (dry, d')"
    using queue_jobs_runs by blast
  then have "claim_due now limit db = Inr (live @ (if limit - int (length live) \<le> 0 then [] else dry), if limit - int (length live) \<le> 0 then d else d')"
    using assms open_run by (simp add: claim_due_def)
  then show ?thesis by blast
qed

text \<open>C32: A due live message of a session with a free lane is not passed over: a claim whose limit reaches every lane
  always succeeds and takes a message of that session.\<close>

theorem due_lane_claimed:
  assumes "j \<in> set (db_jobs db)" "lane_candidate now j" "run_allows db (mj_id j)" "lane_free now db (mj_sessionId j)"
    "int (length (db_lanes db) + length (db_jobs db)) \<le> limit"
  shows "\<exists>js db' k. claim_due now limit db = Inr (js, db') \<and> k \<in> set js \<and> mj_sessionId k = mj_sessionId j \<and> mj_status k = QUEUED"
proof -
  let ?s = "mj_sessionId j" and ?o = "opened now db"
  define live where "live = take (nat limit) (claimable_live now ?o)"
  have eq: "lane_due now ?o s = lane_due now db s" "lane_free now ?o s = lane_free now db s" for s
    by (simp_all add: lane_due_def lane_free_def run_allows_def)
  have lanes: "db_lanes ?o = db_lanes db @ filter (\<lambda>s. s \<notin> set (db_lanes db)) (remdups (map mj_sessionId (filter (lane_candidate now) (db_jobs db))))"
    by (simp add: opened_def)
  have "length (filter (\<lambda>s. s \<notin> set (db_lanes db)) (remdups (map mj_sessionId (filter (lane_candidate now) (db_jobs db))))) \<le> length (db_jobs db)"
    by (rule le_trans [OF length_filter_le], rule le_trans [OF length_remdups_leq]) simp
  then have "length (db_lanes ?o) \<le> nat limit" using assms(5) by (simp add: lanes)
  then have all: "live = claimable_live now ?o" using claimable_live_bound [of now ?o] by (simp add: live_def)
  obtain k where k: "lane_due now db ?s = Some k" using lane_due_exists assms(1-3) by blast
  have "?s \<in> set (db_lanes ?o)" using assms(1,2) by (auto simp: lanes)
  then have "k \<in> set live" using k assms(4) by (force simp: all claimable_live_def set_somes eq)
  moreover have kp: "k \<in> set (db_jobs db)" "mj_sessionId k = ?s" "mj_status k = SCHEDULED"
    using lane_due_prop [OF k] by (auto simp: lane_candidate_def)
  ultimately have queued: "k\<lparr>mj_status := QUEUED, mj_deferReason := None, mj_updatedAt := now\<rparr> \<in> set (map (\<lambda>j. j\<lparr>mj_status := QUEUED, mj_deferReason := None, mj_updatedAt := now\<rparr>)
      (filter (\<lambda>j. mj_id j \<in> mj_id ` set live \<and> mj_status j = SCHEDULED) (db_jobs ?o)))" (is "?k \<in> set ?js") by simp
  have "0 < limit" using assms(1,5) by (cases "db_jobs db") auto
  from claim_due_takes [OF queue_jobs_runs this, of now db] obtain more d' where "claim_due now limit db = Inr (?js @ more, d')"
    unfolding live_def by blast
  moreover have "?k \<in> set (?js @ more)" "mj_sessionId ?k = ?s" "mj_status ?k = QUEUED" using queued kp(2) by simp_all
  ultimately show ?thesis by blast
qed

section \<open>One job\<close>

text \<open>The update of a job that is being processed, by its id.\<close>

lemma processing_update:
  assumes "jobs_keyed d" "find_job d i = Some j" "mj_status j = PROCESSING" "legal_transition PROCESSING (mj_status (f j))"
    "\<And>r. mj_id (f r) = mj_id r"
  shows "\<exists>d'. update_jobs (\<lambda>r. mj_id r = i \<and> mj_status r = PROCESSING) f d = Inr ([f j], d') \<and> find_job d' i = Some (f j)
    \<and> db_attempts d' = db_attempts d"
proof -
  have j: "j \<in> set (db_jobs d)" "mj_id j = i" using find_job_in [OF assms(2)] by auto
  have one: "r = j" if "r \<in> set (db_jobs d)" "mj_id r = i" for r
    using jobs_keyed_unique [OF assms(1) that(1) j(1)] that(2) j(2) by simp
  have rows: "filter (\<lambda>r. mj_id r = i \<and> mj_status r = PROCESSING) (db_jobs d) = [j]"
  proof -
    have inner: "filter (\<lambda>r. mj_id r = i \<and> mj_status r = PROCESSING) js = [j]" if "distinct (map mj_id js)" "j \<in> set js"
      "\<And>r. r \<in> set js \<Longrightarrow> mj_id r = i \<Longrightarrow> r = j" for js
      using that
    proof (induction js)
      case (Cons x js)
      show ?case
      proof (cases "x = j")
        case True
        then have "mj_id r \<noteq> i" if "r \<in> set js" for r using Cons.prems(1) that j(2) by (metis distinct.simps(2) imageI list.map(2) list.set_map)
        then show ?thesis using True assms(3) j(2) by (simp add: filter_empty_conv)
      next
        case False
        then show ?thesis using Cons j(2) by auto
      qed
    qed simp
    show ?thesis by (rule inner [OF _ j(1) one]) (use assms(1) in \<open>simp_all add: jobs_keyed_def\<close>)
  qed
  let ?P = "\<lambda>r. mj_id r = i \<and> mj_status r = PROCESSING"
  have "List.find (\<lambda>r. mj_id r = i) (update_where ?P f (db_jobs d)) = map_option (\<lambda>r. if ?P r then f r else r) (Some j)"
    using assms(2,5) by (subst find_update_where) (simp_all add: find_job_def)
  then have "find_job (d\<lparr>db_jobs := update_where ?P f (db_jobs d)\<rparr>) i = Some (f j)" using j assms(3) by (simp add: find_job_def)
  moreover have "\<forall>r \<in> set (db_jobs d). ?P r \<longrightarrow> legal_transition (mj_status r) (mj_status (f r))"
    using one assms(3,4) by metis
  ultimately show ?thesis unfolding update_jobs_ok using rows by auto
qed

section \<open>Lost leases\<close>

lemma update_jobs_member:
  "update_jobs P f db = Inr (rows, d) \<Longrightarrow> r \<in> set (db_jobs d) \<Longrightarrow> \<exists>j \<in> set (db_jobs db). r = (if P j then f j else j)"
  by (auto simp: update_jobs_ok update_where_def)

text \<open>C33: The recovery of expired processing leases decides by the start of the send. A job in processing whose lease is over
  and whose send had not started is scheduled again, due at once and without a lease, so the next claim sends it
  (\<open>failure-model.md\<close>, \<open>operations.md\<close> and ADR 001 say that an expired job in processing becomes UNKNOWN and is never
  sent again automatically); one whose send had started is UNKNOWN, without a lease, and every other job is untouched.\<close>

theorem lost_leases_released:
  assumes "mark_expired_processing_unknown now ids db = (Inr n, db')" "r \<in> set (db_jobs db')"
  shows "\<exists>j \<in> set (db_jobs db). mj_id r = mj_id j \<and>
    (if mj_status j = PROCESSING \<and> (\<exists>t. mj_leaseExpiresAt j = Some t \<and> t < now)
     then mj_leaseExpiresAt r = None \<and> mj_leaseToken r = None
       \<and> mj_upstreamStartedAt r = mj_upstreamStartedAt j \<and> mj_dryRun r = mj_dryRun j
       \<and> (if mj_upstreamStartedAt j = None
          then mj_status r = SCHEDULED \<and> mj_scheduledAt r = now \<and> (mj_dryRun r \<or> lane_candidate now r)
          else mj_status r = UNKNOWN \<and> mj_scheduledAt r = mj_scheduledAt j)
     else r = j)"
proof -
  obtain x d where d: "recover_unstarted now db = Inr (x, d)" and u: "mark_started_unknown now ids d = Inr (n, db')"
    using assms(1) by (auto simp: mark_expired_processing_unknown_def transaction_def split: sum.splits prod.splits)
  obtain rows d2 where u2: "update_jobs (\<lambda>j. mj_status j = PROCESSING \<and> lease_expired now j \<and> mj_upstreamStartedAt j \<noteq> None)
        (\<lambda>j. j\<lparr>mj_status := UNKNOWN, mj_lastError := Some lease_lost_error, mj_leaseExpiresAt := None,
           mj_leaseToken := None, mj_updatedAt := now\<rparr>) d = Inr (rows, d2)"
    and rest: "tx_iter (\<lambda>j. upsert_attempt (ids (mj_id j)) j (Outcome UNKNOWN) (Some lease_lost_error)
        (\<lambda>a. a\<lparr>ma_transport := Some INDETERMINATE\<rparr>)) rows d2 = Inr ((), db')"
    using u unfolding mark_started_unknown_def tx_bind_ok by auto
  have "frame db_jobs (tx_iter (\<lambda>j. upsert_attempt (ids (mj_id j)) j (Outcome UNKNOWN) (Some lease_lost_error)
        (\<lambda>a. a\<lparr>ma_transport := Some INDETERMINATE\<rparr>)) rows)" by (rule frame_iter) simp
  then have "r \<in> set (db_jobs d2)" using rest assms(2) by (auto simp: frame_def)
  from update_jobs_member [OF u2 this] obtain j1 where j1: "j1 \<in> set (db_jobs d)"
    "r = (if mj_status j1 = PROCESSING \<and> lease_expired now j1 \<and> mj_upstreamStartedAt j1 \<noteq> None
      then j1\<lparr>mj_status := UNKNOWN, mj_lastError := Some lease_lost_error, mj_leaseExpiresAt := None, mj_leaseToken := None, mj_updatedAt := now\<rparr> else j1)"
    by blast
  obtain rows1 where u1: "update_jobs (\<lambda>j. mj_status j = PROCESSING \<and> lease_expired now j \<and> mj_upstreamStartedAt j = None)
        (\<lambda>j. j\<lparr>mj_status := SCHEDULED, mj_scheduledAt := now,
           mj_lastError := Some ''Recovered processing job before upstream start'', mj_leaseExpiresAt := None,
           mj_leaseToken := None, mj_updatedAt := now\<rparr>) db = Inr (rows1, d)"
    using d unfolding recover_unstarted_def tx_bind_ok by auto
  from update_jobs_member [OF this j1(1)] obtain j where "j \<in> set (db_jobs db)"
    "j1 = (if mj_status j = PROCESSING \<and> lease_expired now j \<and> mj_upstreamStartedAt j = None
      then j\<lparr>mj_status := SCHEDULED, mj_scheduledAt := now,
           mj_lastError := Some ''Recovered processing job before upstream start'', mj_leaseExpiresAt := None,
           mj_leaseToken := None, mj_updatedAt := now\<rparr> else j)" by blast
  then show ?thesis using j1(2)
    by (intro bexI [of _ j]) (cases "mj_leaseExpiresAt j"; auto simp: lease_expired_def lane_candidate_def)+
qed

section \<open>Creation\<close>

definition job_key :: "message_job \<Rightarrow> (string \<times> string) \<times> string \<times> string" where
  "job_key j = ((mj_scope j, mj_key j), mj_id j, mj_requestHash j)"

abbreviation job_keys :: "runtime_db \<Rightarrow> ((string \<times> string) \<times> string \<times> string) list" where
  "job_keys db \<equiv> map job_key (db_jobs db)"

lemma frame_keys: "frame db_jobs m \<Longrightarrow> tx_keeps (\<lambda>db. job_keys db = v) m"
  by (rule tx_keeps_frame)

lemma job_keys_update: "(\<And>j. P j \<Longrightarrow> job_key (f j) = job_key j) \<Longrightarrow> tx_keeps (\<lambda>db. job_keys db = v) (update_jobs P f)"
  by (auto simp: tx_keeps_def update_jobs_ok update_where_def)

interpretation keyed: governor_parts "\<lambda>db. job_keys db = v" "\<lambda>_. True" "\<lambda>_. True" for v
proof unfold_locales
  show "tx_keeps (\<lambda>db. job_keys db = v) (attach_permit now tok job)" for now tok job
    unfolding attach_permit_def by (intro tx_rules job_keys_update) (simp add: job_key_def)
  show "tx_keeps (\<lambda>db. job_keys db = v) (update_jobs Q (\<lambda>j. j\<lparr>mj_upstreamStartedAt := Some now, mj_attemptCount := Suc (mj_attemptCount j),
               mj_leaseExpiresAt := (if required then None else mj_leaseExpiresAt j), mj_updatedAt := now\<rparr>))" for Q now required
    by (rule job_keys_update) (simp add: job_key_def)
  show "tx_keeps (\<lambda>db. job_keys db = v) (release_permit now p)" for now p
    unfolding release_permit_def Let_def
    by (intro tx_keeps_modify) (auto simp: update_where_def job_key_def split: option.split)
qed (simp_all add: frame_keys)

text \<open>The job of a key is job \<open>i\<close> with the request hash \<open>h\<close>.\<close>

definition key_taken :: "string \<Rightarrow> string \<Rightarrow> string \<times> string \<Rightarrow> runtime_db \<Rightarrow> bool" where
  "key_taken scope key x db \<longleftrightarrow> map_of (job_keys db) (scope, key) = Some x"

lemma key_taken_find: "key_taken scope key (i, h) db \<longleftrightarrow> (\<exists>j. find_by_key scope key db = Some j \<and> mj_id j = i \<and> mj_requestHash j = h)"
proof -
  have "map_of (map job_key js) (scope, key) = Some (i, h)
    \<longleftrightarrow> (\<exists>j. List.find (\<lambda>j. mj_scope j = scope \<and> mj_key j = key) js = Some j \<and> mj_id j = i \<and> mj_requestHash j = h)" for js
    by (induction js) (auto simp: job_key_def)
  then show ?thesis by (simp add: key_taken_def find_by_key_def)
qed

lemma key_taken_update: "(\<And>j. P j \<Longrightarrow> job_key (f j) = job_key j) \<Longrightarrow> tx_keeps (key_taken scope key x) (update_jobs P f)"
proof -
  assume id: "\<And>j. P j \<Longrightarrow> job_key (f j) = job_key j"
  have "map job_key (update_where P f js) = map job_key js" for js using id by (simp add: update_where_def)
  then show ?thesis by (auto simp: tx_keeps_def key_taken_def update_jobs_ok)
qed

lemma key_taken_jobs: "frame db_jobs m \<Longrightarrow> tx_keeps (key_taken scope key x) m"
  unfolding key_taken_def [abs_def] by (rule tx_keeps_frame)

lemma key_taken_claim: "key_taken scope key x db \<Longrightarrow> claim_due now limit db = Inr (r, db') \<Longrightarrow> key_taken scope key x db'"
proof -
  have step: "key_taken scope key x d'" if "key_taken scope key x d" "queue_jobs now js d = Inr (r, d')" for d d' js r
    by (rule tx_keepsD [OF key_taken_update that(1) that(2) [unfolded queue_jobs_def]]) (simp add: job_key_def)
  assume t: "key_taken scope key x db" and c: "claim_due now limit db = Inr (r, db')"
  have o: "key_taken scope key x (opened now db)" using t by (simp add: key_taken_def)
  from c show ?thesis by (cases rule: claim_due_cases) (use t o step in blast)+
qed

interpretation taken: runtime_parts "key_taken scope key x" "\<lambda>_. True" "\<lambda>_. True" "\<lambda>_. True" for scope key x
proof unfold_locales
  show "key_taken scope key x (governor_step op db)" if "key_taken scope key x db" for db op
  proof -
    have "job_keys (governor_step op db) = job_keys db" by (rule keyed.governor_keeps) simp_all
    with that show ?thesis unfolding key_taken_def by simp
  qed
  show "tx_keeps (key_taken scope key x) (record_attempt_outcome now a oc)" for now a oc
  proof -
    have "job_keys db' = job_keys db" if "record_attempt_outcome now a oc db = Inr (y, db')" for db y db'
      by (rule keyed.keeps_attempt_outcome [OF _ refl that]) simp
    then show ?thesis unfolding tx_keeps_def key_taken_def by (intro allI impI) simp
  qed
  show "tx_keeps (key_taken scope key x) (create_message_job now i m)" for now i m
    by (auto simp: tx_keeps_def key_taken_def create_message_job_def map_add_Some_iff split: option.splits if_splits)
  show "tx_keeps (key_taken scope key x) (update_jobs P f)" if "\<And>j. P j \<Longrightarrow> keeps_job f j" for P f
    by (rule key_taken_update) (use that in \<open>auto simp: keeps_job_def job_key_def\<close>)
  have up: "tx_keeps (key_taken scope key x) (update_attempts Q g)" for Q g
    by (rule key_taken_jobs) (simp add: frame_def update_attempts_def)
  then show "tx_keeps (key_taken scope key x) (update_attempts Q g)" for Q g .
  show "tx_keeps (key_taken scope key x) (claim_commands now lease n ms maximum only)" for now lease n ms maximum only
    by (rule dispatch_kept) (rule up)
  show "tx_keeps (key_taken scope key x) (reschedule_command now c msg k d)" for now c msg k d
    by (rule dispatch_kept) (rule up)
  show "tx_keeps (key_taken scope key x) (defer_for_dispatch_readiness now c d)" for now c d
    by (rule dispatch_kept) (rule up)
  show "tx_keeps (key_taken scope key x) (upsert_attempt ids r out err extra)" for ids r out err extra
    by (rule key_taken_jobs) simp
  show "tx_keeps (key_taken scope key x) (claim_due now limit)" for now limit
    unfolding tx_keeps_def using key_taken_claim by blast
qed (auto simp: tx_keeps_def key_taken_def mark_event_def store_evidence_def)

text \<open>C34: A key names one message for good: whatever operations run after a message was created under it, creating again
  under the key changes nothing; the same request gets the first job, another request is a conflict.\<close>

theorem creation_idempotent:
  assumes "create_message_job now i m db = Inr (r, db')" "nm_scope m' = nm_scope m" "nm_key m' = nm_key m"
  shows "\<exists>j. mj_id j = mj_id (cj_job r) \<and> create_message_job now' i' m' (fold runtime_step ops db')
    = Inr (\<lparr>cj_job = j, cj_created = False, cj_conflict = mj_requestHash (cj_job r) \<noteq> nm_requestHash m'\<rparr>, fold runtime_step ops db')"
proof -
  have "key_taken (nm_scope m) (nm_key m) (mj_id (cj_job r), mj_requestHash (cj_job r)) db'"
    using assms(1) unfolding key_taken_find
    by (auto simp: create_message_job_def find_by_key_def new_job_def find_append_last split: option.splits if_splits)
  then have "key_taken (nm_scope m) (nm_key m) (mj_id (cj_job r), mj_requestHash (cj_job r)) (fold runtime_step ops db')"
    by (rule taken.runtime_run) simp_all
  then show ?thesis using assms(2,3) unfolding key_taken_find by (auto simp: create_message_job_def)
qed

end
