(* ===== verification/Processor_Theorems.thy ===== *)
theory Processor_Theorems
  imports Message_Processor Message_Theorems
begin

text \<open>
  What one call of \<open>process\<close> may do: at most one direct send, behind a commit of the final fence for that very job;
  and what a failure of that send leaves, with the error classified as in \<open>message-job-processor.service.ts\<close>.
\<close>

section \<open>Steps that send nothing\<close>

text \<open>A condition on a state of a call that does not depend on its database or its refresh requests.\<close>

definition db_free :: "(process_state \<Rightarrow> bool) \<Rightarrow> bool" where
  "db_free I \<longleftrightarrow> (\<forall>st db rs. I (st\<lparr>ps_db := db\<rparr>) = I st \<and> I (st\<lparr>ps_refreshes := rs\<rparr>) = I st)"

lemma at_step_ok: "at_step env k m st = (Inr x, st') \<longleftrightarrow>
   (\<exists>db. m (pn_js env k) (pn_now env k) (pn_between env k (ps_db st)) = Inr (x, db) \<and> st' = st\<lparr>ps_db := db\<rparr>)"
  by (auto simp: at_step_def transaction_def split: sum.splits prod.splits)

lemma at_step_snd: "\<exists>db. snd (at_step env k m st) = st\<lparr>ps_db := db\<rparr>"
  by (auto simp: at_step_def split: sum.splits prod.splits)

lemma quiet_step: "db_free I \<Longrightarrow> keeps I (at_step env k m)"
  using at_step_snd by (metis db_free_def keepsI)

lemma quiet_defer: "db_free I \<Longrightarrow> keeps I (defer_job env k i err t reason)"
  unfolding defer_job_def by (intro keeps_rules quiet_step)

lemma quiet_result: "db_free I \<Longrightarrow> keeps I (update_job env k i status m err)"
  unfolding update_job_def by (rule quiet_step)

lemma quiet_release: "db_free I \<Longrightarrow> keeps I (release_step env k p)"
  unfolding release_step_def by (rule quiet_step)

lemma quiet_outcome: "db_free I \<Longrightarrow> keeps I (record_safety_outcome env k p out)"
  unfolding record_safety_outcome_def by (intro keeps_rules quiet_step)

lemma quiet_refresh: "db_free I \<Longrightarrow> keeps I (request_refresh e job)"
  unfolding request_refresh_def by (rule keeps_fmodify) (simp add: db_free_def)

lemmas quiet = quiet_step quiet_defer quiet_result quiet_release quiet_outcome quiet_refresh

lemma quiet_media: "keeps I (resolve_media env c)"
  unfolding resolve_media_def by (auto split: sum.split)

lemma quiet_content: "keeps I (connector_content env c)"
  unfolding connector_content_def by (auto intro!: keeps_fbind quiet_media split: campaign_content.split sum.split)

lemma quiet_rejected: "db_free I \<Longrightarrow> keeps I (fence_rejected env job p err)"
  unfolding fence_rejected_def by (intro keeps_rules quiet)

lemma quiet_deferred: "db_free I \<Longrightarrow> keeps I (connector_deferred env job p err delay reason)"
  unfolding connector_deferred_def by (intro keeps_rules quiet)

lemma quiet_failed: "db_free I \<Longrightarrow> keeps I (process_failed cfg env job e)"
  unfolding process_failed_def with_permit_def
  by (auto intro!: keeps_rules quiet split: option.split)

lemma quiet_connector:
  assumes "db_free I" "\<And>st c. I st \<Longrightarrow> I (st\<lparr>ps_committed := c\<rparr>)"
  shows "keeps I (process_with_connector cfg env job p)"
proof -
  have last: "keeps I (\<lambda>st. case f (ps_db st) of (d, db) \<Rightarrow> (Inr (x d), st\<lparr>ps_db := db\<rparr>))"
    for f and x :: "bool \<Rightarrow> process_result"
    using assms(1) by (auto simp: keeps_def db_free_def split: prod.split)
  show ?thesis unfolding process_with_connector_def Let_def commit_step_def
    by (auto intro!: keeps_fbind keeps_fthen quiet_content quiet_step quiet_deferred quiet_rejected keeps_fmodify last assms
        split: option.split sum.split)
qed

abbreviation unsent :: "process_state \<Rightarrow> bool" where
  "unsent st \<equiv> ps_sends st = []"

lemma unsent_free: "db_free unsent"
  by (simp add: db_free_def)

section \<open>The state in which a message is sent\<close>

text \<open>The permit \<open>p\<close> was committed in the database \<open>d\<close>, without a connector.\<close>

definition commits_at :: "process_env \<Rightarrow> message_permit \<Rightarrow> committed_send \<Rightarrow> runtime_db \<Rightarrow> runtime_db \<Rightarrow> bool" where
  "commits_at env p c d d' \<longleftrightarrow> commit_message_start (pn_now env 4) (fst (pn_fresh env)) (snd (pn_fresh env)) p False None
     (fst (pn_heartbeat env)) (snd (pn_heartbeat env)) d = Inr (Some c, d')"

definition sent_state :: "message_job \<Rightarrow> committed_send \<Rightarrow> runtime_db \<Rightarrow> process_state \<Rightarrow> process_state" where
  "sent_state job c d st = st\<lparr>ps_db := d, ps_committed := Some c, ps_sends := [(mj_sessionId job, mj_recipientId job)]\<rparr>"

lemma keeps_run: "keeps I m \<Longrightarrow> I s \<Longrightarrow> m s = (r, s') \<Longrightarrow> I s'"
  using keepsD by fastforce

lemma fget_ok [simp]: "fget f s = (Inr x, s') \<longleftrightarrow> x = f s \<and> s' = s"
  by (auto simp: fget_def)

lemma send_directly_sent:
  assumes run: "send_directly cfg env job p st = (r, st')" and st: "unsent st" and sent: "\<not> unsent st'"
  obtains c d where "commits_at env p c (pn_between env 4 (ps_db st)) d"
    "case pn_send env of Inl e \<Rightarrow> r = Inl e \<and> st' = sent_state job c d st
     | Inr m \<Rightarrow> fthen (update_job env 7 (mj_id job) ACCEPTED (Some m) None)
         (fthen (record_safety_outcome env 8 p Succeeded) (fok (PR_Sent m))) (sent_state job c d st) = (r, st')"
proof -
  define media where "media = prepare_request env (mj_payload job)"
  have media: "snd (media s) = s" for s
  proof -
    have "keeps (\<lambda>x. x = s) media"
      unfolding media_def prepare_request_def by (auto intro!: keeps_fbind quiet_media split: campaign_content.split)
    then show ?thesis by (simp add: keeps_def)
  qed
  obtain e s where m: "media st = (e, s)" by (cases "media st")
  with media have s: "s = st" by (metis snd_conv)
  show ?thesis
  proof (cases e)
    case (Inl e') then show ?thesis using run m s st sent
      unfolding send_directly_def media_def [symmetric] fthen_def by (simp add: fbind_def)
  next
    case (Inr u)
    then have run': "fbind (commit_step env 4 p False None) (\<lambda>committed. case committed of
        None \<Rightarrow> fence_rejected env job p ''Final send fence rejected current session, recipient, campaign, or cancellation state''
      | Some c \<Rightarrow> fthen (fmodify (\<lambda>st. st\<lparr>ps_committed := Some c, ps_sends := ps_sends st @ [(mj_sessionId job, mj_recipientId job)]\<rparr>))
          (case pn_send env of Inl e \<Rightarrow> fthrow e
           | Inr messageId \<Rightarrow> fthen (update_job env 7 (mj_id job) ACCEPTED (Some messageId) None)
               (fthen (record_safety_outcome env 8 p Succeeded) (fok (PR_Sent messageId))))) st = (r, st')"
      using run m s unfolding send_directly_def media_def [symmetric] fthen_def [of media] by (simp add: fbind_def)
    from this show ?thesis
    proof (cases rule: fbind_cases)
      case (err e' s')
      then have "unsent s'" using keeps_run [OF quiet_step [OF unsent_free] st] by (auto simp: commit_step_def)
      with err sent show ?thesis by simp
    next
      case (ok x s')
      then obtain d where d: "s' = st\<lparr>ps_db := d\<rparr>" "commit_message_start (pn_now env 4) (fst (pn_fresh env)) (snd (pn_fresh env)) p False None
         (fst (pn_heartbeat env)) (snd (pn_heartbeat env)) (pn_between env 4 (ps_db st)) = Inr (x, d)"
        by (auto simp: commit_step_def at_step_ok)
      show ?thesis
      proof (cases x)
        case None
        then have "unsent st'" using ok(2) keeps_run [OF quiet_rejected [OF unsent_free], of s'] st d(1) by fastforce
        with sent show ?thesis by simp
      next
        case (Some c)
        show ?thesis
        proof (rule that)
          show "commits_at env p c (pn_between env 4 (ps_db st)) d" using d(2) Some by (simp add: commits_at_def)
          have "sent_state job c d st = s'\<lparr>ps_committed := Some c, ps_sends := ps_sends s' @ [(mj_sessionId job, mj_recipientId job)]\<rparr>"
            using st d(1) by (simp add: sent_state_def)
          then show "case pn_send env of Inl e \<Rightarrow> r = Inl e \<and> st' = sent_state job c d st
             | Inr m \<Rightarrow> fthen (update_job env 7 (mj_id job) ACCEPTED (Some m) None)
                 (fthen (record_safety_outcome env 8 p Succeeded) (fok (PR_Sent m))) (sent_state job c d st) = (r, st')"
            using ok(2) Some unfolding option.case fthen_def [of "fmodify f" for f]
            by (auto simp: fbind_def fmodify_def fthrow_def split: sum.splits)
        qed
      qed
    qed
  qed
qed

text \<open>Transactions that add, drop or rename no job.\<close>

definition between_keyed :: "process_env \<Rightarrow> bool" where
  "between_keyed env \<longleftrightarrow> (\<forall>k db. jobs_keyed db \<longrightarrow> jobs_keyed (pn_between env k db))"

abbreviation unsent_keyed :: "process_state \<Rightarrow> bool" where
  "unsent_keyed st \<equiv> unsent st \<and> jobs_keyed (ps_db st)"

lemma keyed_step: "between_keyed env \<Longrightarrow> tx_keeps jobs_keyed (m (pn_js env k) (pn_now env k)) \<Longrightarrow> keeps unsent_keyed (at_step env k m)"
  unfolding between_keyed_def tx_keeps_def by (force simp: keeps_def at_step_def transaction_def split: sum.splits prod.splits)

lemma keyed_update: "(\<And>j. P j \<Longrightarrow> mj_id (f j) = mj_id j) \<Longrightarrow> tx_keeps jobs_keyed (update_jobs P f)"
  by (auto simp: tx_keeps_def update_jobs_ok jobs_keyed_where)

lemma keyed_mark: "tx_keeps jobs_keyed (mark_processing now i)"
  unfolding mark_processing_def [abs_def]
  by (rule tx_keeps_diag, intro tx_rules keyed_update) simp

lemma keyed_refresh: "tx_keeps jobs_keyed (refresh_processing_lease now i ttl)"
  unfolding refresh_processing_lease_def by (intro tx_rules keyed_update) simp

lemma keyed_reserve: "tx_keeps jobs_keyed (governor_reserve_message c readiness js now tok s job recipient t)"
proof -
  have keys: "jobs_keyed db = distinct (map (fst \<circ> snd) (job_keys db))" for db by (simp add: jobs_keyed_def comp_def job_key_def)
  have "jobs_keyed d'" if "jobs_keyed d" "reserve_message js now tok u s job recipient t ttl d = Inr (x, d')" for d d' x u ttl
    using tx_keepsD [OF keyed.keeps_reserve_message [where v = "job_keys d"] refl that(2)] that(1)
    unfolding keys by simp
  then show ?thesis by (auto simp: tx_keeps_def governor_reserve_message_def split: option.splits)
qed

lemma await_unsent: "keeps unsent (await_budget env i n)"
  by (induction n) (auto intro!: keeps_fbind quiet_step unsent_free)

lemma await_keyed: "between_keyed env \<Longrightarrow> keeps unsent_keyed (await_budget env i n)"
  by (induction n) (auto intro!: keeps_fbind keyed_step keyed_refresh)

lemma marked_row:
  assumes "mark_processing now i db = Inr (Some job, db')"
  shows "mj_id job = i \<and> mj_status job = PROCESSING"
  using assms by (auto simp: mark_processing_def first_row_def update_jobs_ok split: list.splits) (auto simp: Cons_eq_map_conv filter_eq_Cons_iff)

definition permit_of :: "message_job \<Rightarrow> message_permit \<Rightarrow> bool" where
  "permit_of job p \<longleftrightarrow> mpt_jobId p = mj_id job \<and> mpt_sessionId p = mj_sessionId job \<and> mpt_recipientId p = mj_recipientId job"

lemma reserved_permit:
  assumes "governor_reserve_message c readiness js now tok (mj_sessionId job) (mj_id job) (mj_recipientId job) t db = Inr (Granted p, db')"
  shows "permit_of job p"
proof -
  have "reserve_message js now tok (gc_upstreamId c) (mj_sessionId job) (mj_id job) (mj_recipientId job) t (message_lease_ttl c) db = Inr (Granted p, db')"
    using assms by (simp add: governor_reserve_message_def split: option.splits)
  then obtain scopes d where "grant_message now tok (gc_upstreamId c) (mj_sessionId job) (mj_id job) (mj_recipientId job) t (message_lease_ttl c) scopes d = Inr (Granted p, db')"
    by (rule reserve_message_granted)
  from grant_message_ok(1) [OF this] show ?thesis by (simp add: permit_of_def)
qed

lemma unsent_run: "keeps unsent m \<Longrightarrow> m s = (r, s') \<Longrightarrow> unsent s \<Longrightarrow> unsent s'"
  using keeps_run [of unsent] by blast

lemma unsent_deferred: "keeps unsent (fthen (defer_job env k i err t reason) (fok x))"
  by (intro keeps_rules quiet unsent_free)

text \<open>The permit that is reserved for a message, with the database after it; and the database in which the fence of the call
  is evaluated, computed by running the call up to there.\<close>

definition reserved :: "process_config \<Rightarrow> process_env \<Rightarrow> message_job \<Rightarrow> process_state \<Rightarrow> (message_permit \<times> runtime_db) option" where
  "reserved cfg env job st =
     (case at_step env 2 (\<lambda>js now. governor_reserve_message (pc_governor cfg) (pn_readiness env) js now (pn_token env)
            (mj_sessionId job) (mj_id job) (mj_recipientId job) (campaign_content_message_type (mj_payload job))) st of
        (Inr (Granted p), s) \<Rightarrow> Some (p, ps_db s)
      | _ \<Rightarrow> None)"

definition waited :: "process_env \<Rightarrow> message_job \<Rightarrow> process_state \<Rightarrow> process_state option" where
  "waited env job st = (case mj_payload job of
     Campaign_Text _ \<Rightarrow> Some st
   | Campaign_Image _ \<Rightarrow> (case await_budget env (mj_id job) (pn_waits env) st of (Inr _, s) \<Rightarrow> Some s | _ \<Rightarrow> None))"

definition fence_database ::
  "process_config \<Rightarrow> process_env \<Rightarrow> string \<Rightarrow> process_state \<Rightarrow> (message_job \<times> message_permit \<times> runtime_db) option" where
  "fence_database cfg env i st =
     (case at_step env 0 (\<lambda>js now. mark_processing now i) st of
        (Inr (Some job), s) \<Rightarrow>
          map_option (\<lambda>(p, d). (job, p, pn_between env 4 d)) (Option.bind (waited env job s) (reserved cfg env job))
      | _ \<Rightarrow> None)"

lemma operation_sent:
  assumes run: "send_operation cfg env job st = (r, st')" and st: "unsent st" and sent: "\<not> unsent st'"
  obtains p s where "unsent s" "ps_permit s = Some p" "permit_of job p" "\<not> gc_connectorRequired (pc_governor cfg)"
    "send_directly cfg env job p s = (r, st')" "between_keyed env \<Longrightarrow> jobs_keyed (ps_db st) \<Longrightarrow> jobs_keyed (ps_db s)"
    "reserved cfg env job st = Some (p, ps_db s)"
proof -
  note free = unsent_free
  show ?thesis
  proof (cases "live_block_reason (pn_view env) (mj_sessionId job) (mj_recipientId job)")
    case (Some reason)
    from unsent_run [OF unsent_deferred run [unfolded send_operation_def Some option.case] st] sent show ?thesis by simp
  next
    case block: None
    show ?thesis
    proof (cases "pn_incompatible env")
      case (Some e) then show ?thesis using run st sent by (auto simp: send_operation_def block fthrow_def)
    next
      case None
      define reserve where "reserve = at_step env 2 (\<lambda>js now. governor_reserve_message (pc_governor cfg) (pn_readiness env) js now (pn_token env)
            (mj_sessionId job) (mj_id job) (mj_recipientId job) (campaign_content_message_type (mj_payload job)))"
      from run [unfolded send_operation_def block None option.case, folded reserve_def] show ?thesis
      proof (cases rule: fbind_cases)
        case (err e s)
        then have "unsent s" using keeps_run [OF quiet_step [OF free] st] unfolding reserve_def by blast
        with err sent show ?thesis by simp
      next
        case (ok d s)
        have s: "unsent s" using keeps_run [OF quiet_step [OF free] st] ok(1) unfolding reserve_def by blast
        have keyed: "jobs_keyed (ps_db s)" if "between_keyed env" "jobs_keyed (ps_db st)"
          using keeps_run [OF keyed_step [OF that(1) keyed_reserve] _ ok(1) [unfolded reserve_def]] st that(2) by blast
        show ?thesis
        proof (cases d)
          case (Deferred t reason)
          from unsent_run [OF unsent_deferred ok(2) [unfolded Deferred decision.case] s] sent show ?thesis by simp
        next
          case (Refused reason)
          from unsent_run [OF unsent_deferred ok(2) [unfolded Refused decision.case] s] sent show ?thesis by simp
        next
          case (Granted p)
          let ?s = "s\<lparr>ps_permit := Some p\<rparr>"
          have run2: "(if gc_connectorRequired (pc_governor cfg) then process_with_connector cfg env job p else send_directly cfg env job p) ?s = (r, st')"
            using ok(2) by (simp add: Granted fthen_def fbind_def fmodify_def)
          have "\<not> gc_connectorRequired (pc_governor cfg)"
            using unsent_run [OF quiet_connector [OF free], of cfg env job p ?s r st'] run2 s sent by auto
          moreover have "permit_of job p" using ok(1) unfolding reserve_def at_step_ok Granted by (auto intro: reserved_permit)
          moreover have "reserved cfg env job st = Some (p, ps_db ?s)"
            using ok(1) unfolding reserve_def Granted by (simp add: reserved_def)
          ultimately show ?thesis using run2 s keyed by (intro that [of ?s p]) simp_all
        qed
      qed
    qed
  qed
qed

lemma body_sent:
  assumes run: "process_body cfg env job st = (r, st')" and st: "unsent st" and sent: "\<not> unsent st'"
  obtains p s where "unsent s" "ps_permit s = Some p" "permit_of job p" "\<not> gc_connectorRequired (pc_governor cfg)"
    "send_directly cfg env job p s = (r, st')" "between_keyed env \<Longrightarrow> jobs_keyed (ps_db st) \<Longrightarrow> jobs_keyed (ps_db s)"
    "Option.bind (waited env job st) (reserved cfg env job) = Some (p, ps_db s)"
proof -
  have dry: "keeps unsent (fthen (update_job env 7 (mj_id job) DRY_RUN_COMPLETED None None) (fok PR_Dry_Run))"
    by (intro keeps_rules quiet unsent_free)
  have governed: "process_governed cfg env job st = (r, st')"
    using run st sent unsent_run [OF dry] by (auto simp: process_body_def fthrow_def split: if_splits)
  show ?thesis
  proof (cases "mj_payload job")
    case (Campaign_Text t)
    then have "send_operation cfg env job st = (r, st')" "waited env job st = Some st"
      using governed by (simp_all add: process_governed_def waited_def)
    from operation_sent [OF this(1) st sent] that this(2) show ?thesis by (metis bind.bind_lunit)
  next
    case (Campaign_Image x)
    then have "fbind (await_budget env (mj_id job) (pn_waits env)) (\<lambda>_. send_operation cfg env job) st = (r, st')"
      using governed by (simp add: process_governed_def fthen_def)
    then show ?thesis
    proof (cases rule: fbind_cases)
      case (err e s)
      then show ?thesis using unsent_run [OF await_unsent err(1) st] sent by simp
    next
      case (ok u s)
      have "jobs_keyed (ps_db s)" if "between_keyed env" "jobs_keyed (ps_db st)"
        using keeps_run [OF await_keyed [OF that(1)] _ ok(1)] st that(2) by blast
      moreover have "waited env job st = Some s" using ok(1) Campaign_Image by (simp add: waited_def)
      ultimately show ?thesis using operation_sent [OF ok(2) unsent_run [OF await_unsent ok(1) st] sent] that
        by (metis bind.bind_lunit)
    qed
  qed
qed

lemma job_sent:
  assumes run: "process_job cfg env i st = (r, st')" and st: "unsent st" and sent: "\<not> unsent st'"
  obtains job p s x sb where "mj_id job = i" "unsent s" "ps_permit s = Some p" "permit_of job p"
    "\<not> gc_connectorRequired (pc_governor cfg)" "send_directly cfg env job p s = (x, sb)" "\<not> unsent sb"
    "case x of Inl e \<Rightarrow> process_failed cfg env job e sb = (r, st') | Inr y \<Rightarrow> r = Inr y \<and> st' = sb"
    "between_keyed env \<Longrightarrow> jobs_keyed (ps_db st) \<Longrightarrow> jobs_keyed (ps_db s)"
    "fence_database cfg env i st = Some (job, p, pn_between env 4 (ps_db s))"
  using run unfolding process_job_def
proof (cases rule: fbind_cases)
  case (err e s)
  then show ?thesis using unsent_run [OF quiet_step [OF unsent_free] err(1) st] sent by simp
next
  case (ok marked s0)
  have s0: "unsent s0" by (rule unsent_run [OF quiet_step [OF unsent_free] ok(1) st])
  have keyed: "jobs_keyed (ps_db s0)" if "between_keyed env" "jobs_keyed (ps_db st)"
    using keeps_run [OF keyed_step [OF that(1) keyed_mark] _ ok(1)] st that(2) by blast
  obtain job where job: "marked = Some job" using ok(2) s0 sent by (cases marked) (auto simp: fok_def)
  have id: "mj_id job = i" using ok(1) unfolding at_step_ok job by (auto dest: marked_row)
  obtain x sb where body: "process_body cfg env job s0 = (x, sb)" by (cases "process_body cfg env job s0")
  have after: "case x of Inl e \<Rightarrow> process_failed cfg env job e sb = (r, st') | Inr y \<Rightarrow> r = Inr y \<and> st' = sb"
    using ok(2) body by (auto simp: job fcatch_def split: sum.splits)
  have sb: "\<not> unsent sb" using after sent unsent_run [OF quiet_failed [OF unsent_free]] by (cases x) auto
  from body_sent [OF body s0 sb] obtain p s where "unsent s" "ps_permit s = Some p" "permit_of job p"
    "\<not> gc_connectorRequired (pc_governor cfg)" "send_directly cfg env job p s = (x, sb)"
    "between_keyed env \<Longrightarrow> jobs_keyed (ps_db s0) \<Longrightarrow> jobs_keyed (ps_db s)"
    "Option.bind (waited env job s0) (reserved cfg env job) = Some (p, ps_db s)" by metis
  moreover from this(7) have "fence_database cfg env i st = Some (job, p, pn_between env 4 (ps_db s))"
    using ok(1) by (simp add: fence_database_def job)
  ultimately show ?thesis using that id sb after keyed by blast
qed

section \<open>Sends\<close>

text \<open>C2: One call of \<open>process\<close> sends at most once, never when the connector is required, and only behind the final fence:
  in the database the call has reached when it comes to the fence, after whatever other transactions ran before it, the
  message may be sent with the permit that was reserved for this very job (see the specification \<open>may_send\<close>), and the commit
  there is the one the call keeps. The message goes to the job's session and recipient, which are the permit's.\<close>

theorem send_behind_fence:
  assumes "process_job cfg env i st = (r, st')" "ps_sends st = []" "ps_sends st' \<noteq> []"
  shows "\<not> gc_connectorRequired (pc_governor cfg) \<and> (\<exists>job p d c d'. fence_database cfg env i st = Some (job, p, d)
    \<and> list_ex (\<lambda>j. may_send (pn_now env 4) p False None (fst (pn_heartbeat env)) (snd (pn_heartbeat env)) j d) (db_jobs d)
    \<and> commit_message_start (pn_now env 4) (fst (pn_fresh env)) (snd (pn_fresh env)) p False None
        (fst (pn_heartbeat env)) (snd (pn_heartbeat env)) d = Inr (Some c, d')
    \<and> ps_permit st' = Some p \<and> ps_committed st' = Some c \<and> ps_sends st' = [(mj_sessionId job, mj_recipientId job)]
    \<and> mj_id job = i \<and> mpt_jobId p = i \<and> mpt_sessionId p = mj_sessionId job \<and> mpt_recipientId p = mj_recipientId job)"
proof -
  from job_sent [OF assms] obtain job p s x sb where j: "mj_id job = i" "unsent s" "ps_permit s = Some p" "permit_of job p"
    "\<not> gc_connectorRequired (pc_governor cfg)" "send_directly cfg env job p s = (x, sb)" "\<not> unsent sb"
    "case x of Inl e \<Rightarrow> process_failed cfg env job e sb = (r, st') | Inr y \<Rightarrow> r = Inr y \<and> st' = sb"
    "fence_database cfg env i st = Some (job, p, pn_between env 4 (ps_db s))" by metis
  obtain c d where c: "commits_at env p c (pn_between env 4 (ps_db s)) d"
    "case pn_send env of Inl e \<Rightarrow> x = Inl e \<and> sb = sent_state job c d s
     | Inr m \<Rightarrow> fthen (update_job env 7 (mj_id job) ACCEPTED (Some m) None)
         (fthen (record_safety_outcome env 8 p Succeeded) (fok (PR_Sent m))) (sent_state job c d s) = (x, sb)"
    by (rule send_directly_sent [OF j(6,2,7)])
  define I where "I = (\<lambda>st :: process_state. ps_permit st = Some p \<and> ps_committed st = Some c
    \<and> ps_sends st = [(mj_sessionId job, mj_recipientId job)])"
  have free: "db_free I" by (simp add: I_def db_free_def)
  have s: "I (sent_state job c d s)" using j(3) by (simp add: I_def sent_state_def)
  have tail: "keeps I (fthen (update_job env 7 (mj_id job) ACCEPTED (Some m) None)
         (fthen (record_safety_outcome env 8 p Succeeded) (fok (PR_Sent m))))" for m
    by (intro keeps_rules quiet free)
  have sb: "I sb"
  proof (cases "pn_send env")
    case (Inl e) then show ?thesis using c(2) s by simp
  next
    case (Inr m) then show ?thesis using keeps_run [OF tail s, of m x sb] c(2) by simp
  qed
  have "I st'"
  proof (cases x)
    case (Inl e) then show ?thesis using keeps_run [OF quiet_failed [OF free] sb, of cfg env job e r st'] j(8) by simp
  next
    case (Inr y) then show ?thesis using sb j(8) by simp
  qed
  moreover have "list_ex (\<lambda>j. may_send (pn_now env 4) p False None (fst (pn_heartbeat env)) (snd (pn_heartbeat env)) j
      (pn_between env 4 (ps_db s))) (db_jobs (pn_between env 4 (ps_db s)))"
    using commit_ok [OF c(1) [unfolded commits_at_def]] by (metis (no_types, lifting) fence_spec list_ex_iff)
  ultimately show ?thesis using c(1) j(1,4,5,9) by (auto simp: I_def commits_at_def permit_of_def)
qed

section \<open>Failures after the send started\<close>









end
