(* ===== verification/Command_Theorems.thy ===== *)
theory Command_Theorems
  imports Message_Invariants
begin

text \<open>
  Delivering commands to the connector: a claimed command belongs to its dispatcher until the lease ends (a fourth
  invariant of the send path), what a dispatcher without the lease can do, and the bounds of the backoff.
\<close>

section \<open>Command leases\<close>

definition lease_row :: "string \<Rightarrow> string \<Rightarrow> millis \<Rightarrow> message_attempt \<Rightarrow> bool" where
  "lease_row x lid T a \<longleftrightarrow> (ma_attemptId a = x \<and> awaits_dispatch a \<longrightarrow> ma_leaseId a = Some lid \<and> ma_leaseExpiresAt a = Some T)"

definition leased_view :: "string \<Rightarrow> string \<Rightarrow> millis \<Rightarrow> 'v \<times> message_attempt list \<times> 'w \<Rightarrow> bool" where
  "leased_view x lid T v \<longleftrightarrow> (case v of (_, ms, _) \<Rightarrow> x \<in> ma_attemptId ` set ms \<and> list_all (lease_row x lid T) ms)"

abbreviation command_leased :: "string \<Rightarrow> string \<Rightarrow> millis \<Rightarrow> runtime_db \<Rightarrow> bool" where
  "command_leased x lid T db \<equiv> leased_view x lid T (message_view db)"

lemma command_leased_iff: "command_leased x lid T db \<longleftrightarrow> x \<in> ma_attemptId ` set (db_attempts db)
   \<and> (\<forall>a \<in> set (db_attempts db). lease_row x lid T a)"
  by (simp add: leased_view_def message_view_def list_all_iff)

lemma leased_update:
  assumes "command_leased x lid T db" "update_attempts Q g db = Inr (rows, db')"
    "\<And>a. Q a \<Longrightarrow> ma_attemptId (g a) = ma_attemptId a" "\<And>a. Q a \<Longrightarrow> lease_row x lid T a \<Longrightarrow> lease_row x lid T (g a)"
  shows "command_leased x lid T db'"
proof -
  have eq: "db_attempts db' = map (\<lambda>a. if Q a then g a else a) (db_attempts db)"
    using assms(2) by (auto simp: update_attempts_def update_where_def)
  have "map ma_attemptId (db_attempts db') = map ma_attemptId (db_attempts db)"
    unfolding eq map_map by (rule map_cong) (simp_all add: assms(3))
  then have "ma_attemptId ` set (db_attempts db') = ma_attemptId ` set (db_attempts db)" by (metis set_map)
  moreover have "lease_row x lid T b" if "b \<in> set (db_attempts db')" for b
    using that assms(1,4) unfolding eq by (auto simp: command_leased_iff)
  ultimately show ?thesis using assms(1) by (simp add: command_leased_iff)
qed

lemma leased_quiet:
  assumes "\<And>a. Q a \<Longrightarrow> ma_attemptId (g a) = ma_attemptId a" "\<And>a. Q a \<Longrightarrow> lease_row x lid T a \<Longrightarrow> lease_row x lid T (g a)"
  shows "tx_keeps (command_leased x lid T) (update_attempts Q g)"
  unfolding tx_keeps_def using leased_update [of x lid T _ Q g] assms by blast

lemma keeps_lease_row: "keeps_attempt g \<Longrightarrow> lease_row x lid T a \<Longrightarrow> lease_row x lid T (g a)"
  by (auto simp: lease_row_def keeps_attempt_def keeps_identity_def keeps_lease_def)

lemma due_selected: "a \<in> set (due_commands now n maximum only db) \<Longrightarrow> a \<in> set (db_attempts db) \<and> command_due now maximum only a"
  by (auto simp: due_commands_def dest!: in_set_takeD)

lemma leased_not_due:
  assumes "command_leased x lid T db" "now < T"
  shows "x \<notin> ma_attemptId ` set (due_commands now n maximum only db)"
proof
  assume "x \<in> ma_attemptId ` set (due_commands now n maximum only db)"
  then obtain a where a: "a \<in> set (db_attempts db)" "command_due now maximum only a" "ma_attemptId a = x" using due_selected by blast
  then have "ma_leaseId a = Some lid" "ma_leaseExpiresAt a = Some T"
    using assms(1) by (auto simp: command_leased_iff lease_row_def command_due_def)
  with a(2) assms(2) show False by (simp add: command_due_def lease_open_def time_reached_def)
qed

interpretation commands: runtime_parts "command_leased x lid T" "\<lambda>_. True" "\<lambda>now. now < T"
  "\<lambda>c. \<not> (cl_attemptId c = x \<and> cl_leaseId c = lid)" for x lid T
proof unfold_locales
  show "command_leased x lid T (governor_step op db)" if I: "command_leased x lid T db" for db op
    using governor_view [of op db]
  proof (elim disjE exE conjE)
    fix a j assume "ma_attemptId a \<notin> ma_attemptId ` set (db_attempts db)"
      and v: "message_view (governor_step op db) = (map job_row (db_jobs db), db_attempts db @ [a], db_evidence db)"
    then have "lease_row x lid T a" using I by (auto simp: command_leased_iff lease_row_def)
    then show ?thesis using I [unfolded command_leased_iff] by (simp add: v leased_view_def list_all_iff)
  qed (use I in simp)
  show "tx_keeps (command_leased x lid T) (record_attempt_outcome now a oc)" for now a oc
    by (rule view_kept) (rule outcome_view)
  show "tx_keeps (command_leased x lid T) (create_message_job now i m)" for now i m
    unfolding tx_keeps_def command_leased_iff by (auto simp: create_message_job_def split: option.splits if_splits)
  show "tx_keeps (command_leased x lid T) (claim_due now limit)" for now limit
    unfolding tx_keeps_def
  proof (intro allI impI)
    fix db r db' assume I: "command_leased x lid T db" and c: "claim_due now limit db = Inr (r, db')"
    from c have "db_attempts db' = db_attempts db"
      by (cases rule: claim_due_cases) (auto dest!: queue_view)
    then show "command_leased x lid T db'" using I by (simp add: command_leased_iff)
  qed
  show "tx_keeps (command_leased x lid T) (update_jobs P f)" for P f
    unfolding tx_keeps_def command_leased_iff by (auto simp: update_jobs_ok)
  show "tx_keeps (command_leased x lid T) (update_attempts Q g)" if "keeps_attempt g" for Q g
    by (rule leased_quiet) (use that keeps_lease_row in \<open>auto simp: keeps_attempt_def keeps_identity_def\<close>)
  show "tx_keeps (command_leased x lid T) (upsert_attempt ids r out err extra)" if "keeps_attempt extra" for ids r out err extra
    unfolding tx_keeps_def
  proof (intro allI impI)
    fix db y db' assume I: "command_leased x lid T db" and u: "upsert_attempt ids r out err extra db = Inr (y, db')"
    from upsert_ok [OF u that] show "command_leased x lid T db'"
    proof (elim disjE exE conjE)
      fix Q g z assume "keeps_attempt g" "update_attempts Q g db = Inr (z, db')"
      then show ?thesis
        using leased_update [OF I] keeps_lease_row by (auto simp: keeps_attempt_def keeps_identity_def)
    qed (use I in \<open>auto simp: command_leased_iff lease_row_def\<close>)
  qed
  show "tx_keeps (command_leased x lid T) (claim_commands now lease n ms maximum only)" if "now < T" for now lease n ms maximum only
    unfolding tx_keeps_def claim_commands_def tx_bind_ok
  proof (intro allI impI, elim exE conjE)
    fix db r db' rows d assume I: "command_leased x lid T db"
      and u: "update_attempts (\<lambda>a. ma_attemptId a \<in> set (map ma_attemptId (due_commands now n maximum only db)))
        (\<lambda>a. a\<lparr>ma_leaseId := Some (lease (ma_attemptId a)), ma_leaseExpiresAt := Some (now + ms),
           ma_deliveries := Suc (ma_deliveries a)\<rparr>) db = Inr (rows, d)"
      and "tx_return (map claimed_row rows) d = Inr (r, db')"
    moreover have "command_leased x lid T d"
      by (rule leased_update [OF I u]) (use leased_not_due [OF I that] in \<open>auto simp: lease_row_def\<close>)
    ultimately show "command_leased x lid T db'" by simp
  qed
  show "tx_keeps (command_leased x lid T) (reschedule_command now c msg k d)"
    "tx_keeps (command_leased x lid T) (defer_for_dispatch_readiness now c d)"
    if "\<not> (cl_attemptId c = x \<and> cl_leaseId c = lid)" for now c msg k d
    unfolding reschedule_command_def defer_for_dispatch_readiness_def
    by (intro tx_keeps_bind leased_quiet; use that in \<open>auto simp: leased_to_def lease_row_def awaits_dispatch_def intro: tx_rules\<close>)+
qed (auto simp: tx_keeps_def command_leased_iff mark_event_def store_evidence_def)

text \<open>The operation claims no command at or after the time, and does not give up the lease of \<open>c\<close>.\<close>

definition respects_lease :: "claimed_command \<Rightarrow> millis \<Rightarrow> runtime_op \<Rightarrow> bool" where
  "respects_lease c T op \<longleftrightarrow> (case claim_time op of None \<Rightarrow> True | Some t \<Rightarrow> t < T)
     \<and> (case gives_up op of None \<Rightarrow> True | Some d \<Rightarrow> \<not> (cl_attemptId d = cl_attemptId c \<and> cl_leaseId d = cl_leaseId c))"

lemma leased_run:
  "command_leased (cl_attemptId c) (cl_leaseId c) T db \<Longrightarrow> list_all (respects_lease c T) ops \<Longrightarrow>
   command_leased (cl_attemptId c) (cl_leaseId c) T (fold runtime_step ops db)"
proof (induction ops arbitrary: db)
  case (Cons op ops)
  then have "command_leased (cl_attemptId c) (cl_leaseId c) T (runtime_step op db)"
    by (intro commands.runtime_keeps) (auto simp: respects_lease_def)
  with Cons show ?case by simp
qed simp

lemma claim_ok:
  assumes "claim_commands now lease n ms maximum only db = Inr (cs, db')"
  obtains "db_attempts db' = update_where (\<lambda>a. ma_attemptId a \<in> ma_attemptId ` set (due_commands now n maximum only db))
      (\<lambda>a. a\<lparr>ma_leaseId := Some (lease (ma_attemptId a)), ma_leaseExpiresAt := Some (now + ms), ma_deliveries := Suc (ma_deliveries a)\<rparr>)
      (db_attempts db)"
    "\<And>c. c \<in> set cs \<Longrightarrow> cl_attemptId c \<in> ma_attemptId ` set (due_commands now n maximum only db)
       \<and> cl_leaseId c = lease (cl_attemptId c)"
proof -
  let ?Q = "\<lambda>a. ma_attemptId a \<in> ma_attemptId ` set (due_commands now n maximum only db)"
  let ?g = "\<lambda>a. a\<lparr>ma_leaseId := Some (lease (ma_attemptId a)), ma_leaseExpiresAt := Some (now + ms), ma_deliveries := Suc (ma_deliveries a)\<rparr>"
  have eq: "db' = db\<lparr>db_attempts := update_where ?Q ?g (db_attempts db)\<rparr>" "cs = map claimed_row (map ?g (filter ?Q (db_attempts db)))"
    using assms unfolding claim_commands_def tx_bind_ok update_attempts_def by auto
  show ?thesis by (rule that) (auto simp: eq claimed_row_def)
qed

text \<open>C16: A command claimed by one dispatcher is not claimed by another before the lease ends, whatever operations run in
  between, unless the first gives the lease up.\<close>

theorem command_lease_excludes:
  assumes "claim_commands now lease n ms maximum only db = Inr (cs, db')" "c \<in> set cs"
    "list_all (respects_lease c (now + ms)) ops" "now' < now + ms"
    "claim_commands now' lease' n' ms' maximum' only' (fold runtime_step ops db') = Inr (cs', db'')"
  shows "cl_attemptId c \<notin> cl_attemptId ` set cs'"
proof -
  have "command_leased (cl_attemptId c) (cl_leaseId c) (now + ms) db'"
  proof (rule claim_ok [OF assms(1)])
    assume u: "db_attempts db' = update_where (\<lambda>a. ma_attemptId a \<in> ma_attemptId ` set (due_commands now n maximum only db))
      (\<lambda>a. a\<lparr>ma_leaseId := Some (lease (ma_attemptId a)), ma_leaseExpiresAt := Some (now + ms), ma_deliveries := Suc (ma_deliveries a)\<rparr>)
      (db_attempts db)"
      and cs: "\<And>c. c \<in> set cs \<Longrightarrow> cl_attemptId c \<in> ma_attemptId ` set (due_commands now n maximum only db)
       \<and> cl_leaseId c = lease (cl_attemptId c)"
    obtain a where a: "a \<in> set (db_attempts db)" "ma_attemptId a = cl_attemptId c" using cs [OF assms(2)] due_selected by force
    define D where "D = ma_attemptId ` set (due_commands now n maximum only db)"
    define g where "g = (\<lambda>a :: message_attempt. if ma_attemptId a \<in> D then a\<lparr>ma_leaseId := Some (lease (ma_attemptId a)), ma_leaseExpiresAt := Some (now + ms),
        ma_deliveries := Suc (ma_deliveries a)\<rparr> else a)"
    have eq: "set (db_attempts db') = g ` set (db_attempts db)" unfolding u update_where_def D_def g_def set_map ..
    have c: "cl_attemptId c \<in> D" "cl_leaseId c = lease (cl_attemptId c)" using cs [OF assms(2)] by (simp_all add: D_def)
    have id: "ma_attemptId (g b) = ma_attemptId b" for b by (simp add: g_def)
    then have "cl_attemptId c \<in> ma_attemptId ` set (db_attempts db')" unfolding eq image_image id using a by (metis imageI)
    moreover have "lease_row (cl_attemptId c) (cl_leaseId c) (now + ms) (g b)" for b
      using c by (simp add: lease_row_def id) (simp add: g_def)
    then have "lease_row (cl_attemptId c) (cl_leaseId c) (now + ms) b" if "b \<in> set (db_attempts db')" for b
      using that unfolding eq by blast
    ultimately show ?thesis by (simp add: command_leased_iff)
  qed
  from leased_not_due [OF leased_run [OF this assms(3)] assms(4)]
  have "cl_attemptId c \<notin> ma_attemptId ` set (due_commands now' n' maximum' only' (fold runtime_step ops db'))" .
  moreover have "cl_attemptId d \<in> ma_attemptId ` set (due_commands now' n' maximum' only' (fold runtime_step ops db'))" if "d \<in> set cs'" for d
    using claim_ok [OF assms(5)] that by metis
  ultimately show ?thesis by (metis imageE)
qed

section \<open>A dispatcher that lost its lease\<close>

lemma attempts_unchanged:
  assumes "\<And>a. a \<in> set (db_attempts db) \<Longrightarrow> \<not> Q a"
  shows "update_attempts Q g db = Inr ([], db)"
proof -
  have "update_where Q g (db_attempts db) = db_attempts db" using assms by (intro update_where_id) blast
  moreover have "filter Q (db_attempts db) = []" using assms by (simp add: filter_empty_conv)
  ultimately show ?thesis by (simp add: update_attempts_def)
qed

text \<open>Whatever the ingress answered, a dispatcher whose lease on the command is gone, or whose attempt was settled
  meanwhile, changes nothing.\<close>

theorem stale_dispatch_no_effect:
  assumes "\<not> list_ex (leased_to c) (db_attempts db)"
  shows "run_tx (dispatch sha cfg seed e c) db = db"
proof -
  have none: "update_attempts (leased_to c) g db = Inr ([], db)" for g
    using assms by (intro attempts_unchanged) (auto simp: list_ex_iff)
  have quiet: "run_tx (tx_bind (update_attempts (leased_to c) g) k) db = db" if "\<And>x d'. k [] db = Inr (x, d') \<Longrightarrow> d' = db" for g and k :: "message_attempt list \<Rightarrow> bool tx"
    using that by (auto simp: run_tx_def transaction_def tx_bind_def none split: sum.split)
  have parts: "run_tx (mark_ingress_accepted now c) db = db" "run_tx (reschedule_command now c err k d) db = db"
      "run_tx (defer_for_dispatch_readiness now c d) db = db" "run_tx (settle_definitive now c err) db = db"
      "run_tx (settle_indeterminate now c err) db = db" "run_tx (reschedule_safe_rejection now c err d) db = db" for now err k d
    unfolding mark_ingress_accepted_def reschedule_command_def defer_for_dispatch_readiness_def settle_definitive_def
      settle_indeterminate_def settle_command_def reschedule_safe_rejection_def
    by (rule quiet, simp)+
  have retry: "run_tx (retry_or_settle cfg seed js now c k r m) db = db" for js now k r m
    by (simp add: retry_or_settle_def Let_def parts)
  show ?thesis by (auto simp: dispatch_def parts retry split: sum.split submit_error.split)
qed

section \<open>Backoff\<close>

text \<open>The delay before a command is delivered again is between one and 32 seconds: the exponential part, which
  doubles from one second up to 30, and at most half of it, or two seconds, of jitter.\<close>

theorem ingress_backoff_bounds:
  "min 30000 (1000 * 2 ^ min (n - 1) 5) \<le> connector_ingress_backoff_ms seed c n
   \<and> connector_ingress_backoff_ms seed c n \<le> min 30000 (1000 * 2 ^ min (n - 1) 5) + min 2000 (min 30000 (1000 * 2 ^ min (n - 1) 5) div 2)
   \<and> 1000 \<le> connector_ingress_backoff_ms seed c n \<and> connector_ingress_backoff_ms seed c n \<le> 32000"
proof -
  define b :: int where "b = min 30000 (1000 * 2 ^ min (n - 1) 5)"
  define m where "m = min 2000 (b div 2)"
  let ?u = "uint (seed c n)"
  have b: "1000 \<le> b" "b \<le> 30000" by (simp_all add: b_def)
  have m: "0 \<le> m" "m \<le> 2000" using b by (simp_all add: m_def)
  have u: "0 \<le> ?u" "?u \<le> 65535" using uint_lt2p [of "seed c n"] by simp_all
  have "?u * m \<le> 65535 * m" using u m by (intro mult_right_mono) auto
  then have "?u * m div 65535 \<le> m" by linarith
  moreover have "0 \<le> ?u * m div 65535" using u m by (simp add: pos_imp_zdiv_nonneg_iff)
  moreover have "connector_ingress_backoff_ms seed c n = b + ?u * m div 65535"
    by (simp add: connector_ingress_backoff_ms_def Let_def b_def m_def)
  ultimately show ?thesis using b m unfolding b_def [symmetric] m_def [symmetric] by linarith
qed

end
