(* ===== verification/Command_Retries.thy ===== *)
theory Command_Retries
  imports Message_Theorems
begin

text \<open>What a dispatcher does with a command whose deliveries are used up.\<close>

lemma view_keyed: "message_view d' = message_view d \<Longrightarrow> jobs_keyed d' = jobs_keyed d"
proof -
  have "map mj_id js = map fst (map job_row js)" for js by (simp add: job_row_def)
  then show "message_view d' = message_view d \<Longrightarrow> jobs_keyed d' = jobs_keyed d"
    unfolding jobs_keyed_def message_view_def by (metis fst_conv)
qed

text \<open>C35: When the last delivery of a command is refused as rate limited, its job is due again and may be started again,
  whatever an earlier delivery of the same command was answered: also when that one was ambiguous and the ingress may
  have accepted it.\<close>

theorem exhausted_rate_limit_reschedules:
  assumes "distinct (map ma_attemptId (db_attempts db))" "a \<in> set (db_attempts db)" "leased_to c a" "jobs_keyed db"
    "find_job db (ma_jobId a) = Some j" "mj_status j = PROCESSING"
    "is_dispatch_ready cfg (de_ready e)" "sha (cl_body c) = cl_payloadSha256 c"
    "de_answer e = Inl (Ingress_Error RATE_LIMITED_SAFE status retry msg)" "dc_maximumAttempts cfg \<le> cl_deliveryAttempt c"
  shows "\<exists>db' j'. dispatch sha cfg seed e c db = Inr (True, db') \<and> find_job db' (ma_jobId a) = Some j'
    \<and> mj_status j' = SCHEDULED \<and> mj_upstreamStartedAt j' = None \<and> mj_leaseToken j' = None"
proof -
  define delay where "delay = max (case retry of None \<Rightarrow> 0 | Some r \<Rightarrow> r) (connector_ingress_backoff_ms seed (cl_commandId c) (cl_deliveryAttempt c))"
  let ?f = "\<lambda>a :: message_attempt. a\<lparr>ma_outcome := Retried, ma_transport := Some FAILED_DEFINITIVE, ma_error := Some (take 1024 msg),
           ma_ingressError := Some (take 1024 msg), ma_failureKind := Some RATE_LIMITED_SAFE, ma_leaseId := None, ma_leaseExpiresAt := None\<rparr>"
  let ?g = "\<lambda>j :: message_job. j\<lparr>mj_status := SCHEDULED, mj_scheduledAt := de_now e + delay, mj_lastError := Some (take 1024 msg),
                 mj_leaseExpiresAt := None, mj_upstreamStartedAt := None, mj_leaseToken := None, mj_updatedAt := de_now e\<rparr>"
  have eq: "dispatch sha cfg seed e c db = reschedule_safe_rejection (de_now e) c msg delay db"
    using assms(7-10) by (simp add: dispatch_def retry_or_settle_def delay_def)
  obtain rest where rows: "filter (leased_to c) (db_attempts db) = a # rest"
  proof (cases "filter (leased_to c) (db_attempts db)")
    case Nil then show ?thesis using assms(2,3) by (auto simp: filter_empty_conv)
  next
    case (Cons b bs)
    then have "b \<in> set (filter (leased_to c) (db_attempts db))" by simp
    then have b: "b \<in> set (db_attempts db)" "leased_to c b" by auto
    then have "b = a" using assms(1-3) by (auto simp: distinct_map inj_on_def leased_to_def)
    with Cons that show ?thesis by simp
  qed
  define d where "d = db\<lparr>db_attempts := update_where (leased_to c) ?f (db_attempts db)\<rparr>"
  have u: "update_attempts (leased_to c) ?f db = Inr (?f a # map ?f rest, d)" by (simp add: update_attempts_def rows d_def)
  obtain x d1 where o: "record_attempt_outcome (de_now e) (cl_attemptId c) (Rate_Limited (Some delay)) d = Inr (x, d1)"
    using outcome_total unfolding succeeds_def by blast
  note v = outcome_view [OF o]
  have "find_job d (ma_jobId a) = Some j" "jobs_keyed d" using assms(4,5) by (simp_all add: d_def find_job_def jobs_keyed_def)
  then obtain j1 where j1: "find_job d1 (ma_jobId a) = Some j1" "mj_status j1 = PROCESSING" "jobs_keyed d1"
    using view_find_job [OF v] view_keyed [OF v] assms(6) by metis
  obtain d2 where d2: "update_jobs (\<lambda>r. mj_id r = ma_jobId a \<and> mj_status r = PROCESSING) ?g d1 = Inr ([?g j1], d2)"
    "find_job d2 (ma_jobId a) = Some (?g j1)"
    using processing_update [OF j1(3,1,2), of ?g] by auto
  have "reschedule_safe_rejection (de_now e) c msg delay db = Inr (True, d2)"
    using u o d2(1) by (simp add: reschedule_safe_rejection_def tx_bind_def tx_return_def)
  then show ?thesis unfolding eq using d2(2) by simp
qed

end
