(* ===== verification/Governor_Budgets.thy ===== *)
theory Governor_Budgets
  imports Governor_Theorems Runtime_Demo
begin

text \<open>
  How much a session may send: every budget of \<open>messageBucketPolicies\<close> that belongs to a session satisfies the contract
  \<open>rate_budget\<close> over the operations of the governor. The intervals used are those of STANDARD, the faster profile, so
  the bounds hold whatever the profile is changed to in between.
\<close>

definition session_budget :: "string \<Rightarrow> string \<Rightarrow> bucket_window \<Rightarrow> bucket_key" where
  "session_budget u s w = (session_key u s, MESSAGE_SEND_ALL, w)"

fun window_floor :: "bucket_window \<Rightarrow> int" where
  "window_floor PACING = 10000"
| "window_floor MINUTE = 12000"
| "window_floor HOUR = 90000"
| "window_floor DAY = 864000"

fun window_burst :: "bucket_window \<Rightarrow> int" where
  "window_burst PACING = 1"
| "window_burst MINUTE = 1"
| "window_burst HOUR = 3"
| "window_burst DAY = 10"

text \<open>An image costs two units of a limit, and one of the pacing.\<close>

definition budget_cost :: "bucket_window \<Rightarrow> message_type \<Rightarrow> int" where
  "budget_cost w t = (if w = PACING then 1 else case t of Text_Message \<Rightarrow> 1 | Image_Message \<Rightarrow> 2)"

fun op_cost :: "bucket_window \<Rightarrow> governor_op \<Rightarrow> int" where
  "op_cost w (Reserve_Message js now tok u s job recipient t ttl) = budget_cost w t"
| "op_cost w _ = 0"

fun op_js :: "governor_op \<Rightarrow> millis" where
  "op_js (Reserve_Message js now tok u s job recipient t ttl) = js"
| "op_js op = op_now op"

text \<open>How far ahead of the process clock the budget's arrival time may be, after the operation.\<close>

definition op_tolerance :: "string \<Rightarrow> string \<Rightarrow> bucket_window \<Rightarrow> governor_op \<Rightarrow> runtime_db \<Rightarrow> int" where
  "op_tolerance u s w op db = (window_burst w - 1)
     * (case map_of (db_buckets (governor_step op db)) (session_budget u s w) of None \<Rightarrow> 0 | Some r \<Rightarrow> bk_emission r)"

lemma window_policy:
  "\<exists>q \<in> set (message_bucket_policies profile t). bucket_key_of u s q = session_budget u s w \<and> bp_cost q = budget_cost w t
     \<and> window_floor w \<le> emission_interval_ms q \<and> bp_burst q = window_burst w"
  by (cases profile; cases t; cases w)
    (simp_all add: message_bucket_policies_def Let_def mk_bucket_policy_def bucket_key_of_def session_budget_def bucket_scope_def
      session_key_def budget_cost_def emission_interval_ms_def ceil_div_def message_cost_def pacing_ms_def minute_ms_def hour_ms_def day_ms_def)

text \<open>What a grant does to each of the session's budgets.\<close>

lemma grant_spends:
  assumes "grants_message u s op db"
  obtains r where "map_of (db_buckets (governor_step op db)) (session_budget u s w) = Some (spend (op_now op) (op_cost w op) r)"
    "bk_arrivalAt r - (window_burst w - 1) * bk_emission r \<le> op_js op" "window_floor w \<le> bk_emission r"
    "\<And>t. arrived (db_buckets db) (session_budget u s w) t \<Longrightarrow> t \<le> bk_arrivalAt r"
proof -
  obtain js now tok job recipient t ttl p db' where op: "op = Reserve_Message js now tok u s job recipient t ttl"
    "reserve_message js now tok u s job recipient t ttl db = Inr (Granted p, db')"
    using assms by (cases op) (auto split: sum.splits prod.splits decision.splits)
  obtain scopes db1 rows where r: "check_loop js now u s None (message_bucket_policies (permit_profile scopes) t) (db_buckets db) = (None, rows)"
    "grant_message now tok u s job recipient t ttl scopes (db1\<lparr>db_buckets := rows\<rparr>) = Inr (Granted p, db')"
    by (rule reserve_message_granted [OF op(2)]) (use that in metis)
  let ?ps = "message_bucket_policies (permit_profile scopes) t" and ?k = "session_budget u s w"
  obtain q where q: "q \<in> set ?ps" "bucket_key_of u s q = ?k" "bp_cost q = budget_cost w t"
    "window_floor w \<le> emission_interval_ms q" "bp_burst q = window_burst w" using window_policy by blast
  define r0 where "r0 = upserted now ?k q (db_buckets db)"
  have checked: "map_of rows ?k = Some r0" "allowed_at r0 \<le> js"
    using check_loop_None [OF r(1) message_keys_distinct] q(1) unfolding r0_def q(2) [symmetric] by blast+
  have "db_buckets db' = spend_all now u s ?ps rows" using grant_message_ok(2) [OF r(2)] by simp
  then have "map_of (db_buckets db') ?k = Some (spend now (bp_cost q) r0)"
    using find_key [OF message_keys_distinct [of u s "permit_profile scopes" t] q(1), unfolded q(2)] checked(1)
    by (simp add: spend_all_def fold_update_keyed [OF message_keys_distinct] q(2))
  moreover have "governor_step op db = db'" using op by (simp add: run_tx_def transaction_def)
  moreover have "bk_burst r0 = window_burst w" "window_floor w \<le> bk_emission r0"
    using q(4,5) by (auto simp: r0_def upserted_def fresh_bucket_def refresh_bucket_def split: option.split)
  moreover have "t' \<le> bk_arrivalAt r0" if "arrived (db_buckets db) ?k t'" for t'
    using that by (auto simp: arrived_def r0_def upserted_def refresh_bucket_def)
  ultimately show ?thesis using that [of r0] checked(2) op(1) q(3) by (simp add: allowed_at_def)
qed

lemma budget_cost_pos: "0 < budget_cost w t"
  by (simp add: budget_cost_def split: message_type.split)

interpretation budget: rate_budget governor_step buckets_ok "grants_message u s" "op_cost w" op_js op_now
  "\<lambda>t db. arrived (db_buckets db) (session_budget u s w) t" "op_tolerance u s w" "window_floor w" for u s w
proof unfold_locales
  fix db op assume "buckets_ok db"
  then show "buckets_ok (governor_step op db)"
    using budgets.governor_keeps [of "{}" db op] by (simp add: budgets_hold_def)
next
  fix db t op assume "buckets_ok db" "arrived (db_buckets db) (session_budget u s w) t"
  then show "arrived (db_buckets (governor_step op db)) (session_budget u s w) t"
    using budgets.governor_keeps [of "{(session_budget u s w, t)}" db op] by (simp add: budgets_hold_def)
next
  fix db t op assume ok: "arrived (db_buckets db) (session_budget u s w) t" and g: "grants_message u s op db"
  obtain r where r: "map_of (db_buckets (governor_step op db)) (session_budget u s w) = Some (spend (op_now op) (op_cost w op) r)"
    "window_floor w \<le> bk_emission r" "\<And>t. arrived (db_buckets db) (session_budget u s w) t \<Longrightarrow> t \<le> bk_arrivalAt r"
    using grant_spends [OF g] by metis
  have "op_cost w op * window_floor w \<le> op_cost w op * bk_emission r"
    using r(2) g budget_cost_pos by (cases op) (auto intro!: mult_left_mono simp: less_imp_le)
  then show "arrived (db_buckets (governor_step op db)) (session_budget u s w) (t + op_cost w op * window_floor w)"
    using r(1) r(3) [OF ok] by (simp add: arrived_def spend_def)
next
  fix db op assume g: "grants_message u s op db"
  obtain r where r: "map_of (db_buckets (governor_step op db)) (session_budget u s w) = Some (spend (op_now op) (op_cost w op) r)"
    "window_floor w \<le> bk_emission r" using grant_spends [OF g] by metis
  have "op_cost w op * window_floor w \<le> op_cost w op * bk_emission r"
    using r(2) g budget_cost_pos by (cases op) (auto intro!: mult_left_mono simp: less_imp_le)
  then show "arrived (db_buckets (governor_step op db)) (session_budget u s w) (op_now op + op_cost w op * window_floor w)"
    using r(1) by (simp add: arrived_def spend_def)
next
  fix db t op assume ok: "arrived (db_buckets db) (session_budget u s w) t" and g: "grants_message u s op db"
  obtain r where r: "map_of (db_buckets (governor_step op db)) (session_budget u s w) = Some (spend (op_now op) (op_cost w op) r)"
    "bk_arrivalAt r - (window_burst w - 1) * bk_emission r \<le> op_js op"
    "\<And>t. arrived (db_buckets db) (session_budget u s w) t \<Longrightarrow> t \<le> bk_arrivalAt r"
    using grant_spends [OF g] by metis
  then show "t \<le> op_js op + op_tolerance u s w op db" using r(3) [OF ok] by (simp add: op_tolerance_def spend_def)
qed

section \<open>Properties\<close>

text \<open>The units a sequence of operations is granted for a session.\<close>

fun granted_units :: "string \<Rightarrow> string \<Rightarrow> bucket_window \<Rightarrow> governor_op list \<Rightarrow> runtime_db \<Rightarrow> int" where
  "granted_units u s w [] db = 0"
| "granted_units u s w (op # ops) db =
     (if grants_message u s op db then op_cost w op else 0) + granted_units u s w ops (governor_step op db)"

lemma granted_units_spent: "granted_units u s w ops db = budget.spent u s w ops db"
  by (induction ops arbitrary: db) simp_all

text \<open>C24: Between two message permits granted to a session, at least 12 s pass for every unit granted from the first on
  (an image is two units), however operations of other sessions, outcomes and operator changes interleave.\<close>

theorem minute_budget:
  assumes "buckets_ok db" "grants_message u s op db"
    "grants_message u s op' (fold governor_step ops (governor_step op db))"
  shows "op_now op + (op_cost MINUTE op + granted_units u s MINUTE ops (governor_step op db)) * 12000 \<le> op_js op'"
  using budget.spent_bound [OF assms, of MINUTE] by (simp add: granted_units_spent op_tolerance_def)

text \<open>The same with the day budget: 864 s per unit, ahead of the clock by at most nine of its current intervals.\<close>

theorem day_budget:
  assumes "buckets_ok db" "grants_message u s op db"
    "grants_message u s op' (fold governor_step ops (governor_step op db))"
  shows "op_now op + (op_cost DAY op + granted_units u s DAY ops (governor_step op db)) * 864000
    \<le> op_js op' + op_tolerance u s DAY op' (fold governor_step ops (governor_step op db))"
  using budget.spent_bound [OF assms, of DAY] by (simp add: granted_units_spent)

text \<open>Whatever the outcomes, every budget keeps its interval between its base and a day, so that doubling it on
  a rate limit fits the 32-bit column; its base never exceeds its period.\<close>

theorem budgets_bounded:
  assumes "buckets_ok db" "map_of (db_buckets (fold governor_step ops db)) k = Some r"
  shows "0 < bk_base r \<and> bk_base r \<le> bk_emission r \<and> bk_base r \<le> bk_period r \<and> bk_emission r \<le> day_ms
    \<and> bk_emission r * 2 < 2 ^ 31"
proof -
  have "buckets_ok (fold governor_step ops db)" using assms(1) budget.inv_run by (induction ops arbitrary: db) auto
  then have "bucket_row_ok r" using assms(2) unfolding buckets_ok_def by blast
  then show ?thesis using bucket_int32 [of r] by (simp add: bucket_row_ok_def)
qed

end
