(* ===== verification/Governor_Outcomes.thy ===== *)
theory Governor_Outcomes
  imports Governor_Theorems
begin

text \<open>
  Outcomes, circuits, operators: an outcome is counted once per permit, repeated failures open the circuits, a
  restriction blocks the session, the operator sees the most restrictive scope, a repeated mutation changes nothing;
  and an expired recovery lease stops the operations that would probe a half-open circuit.
\<close>

section \<open>Outcomes are counted once\<close>



lemma release_frames: "release_permit now p db = Inr (x, db') \<Longrightarrow>
    db_scopes db' = db_scopes db \<and> db_buckets db' = db_buckets db \<and> db_outcomes db' = db_outcomes db"
  by (auto simp: release_permit_def Let_def split: option.splits)

lemma map_of_append_new: "map_of xs k = None \<Longrightarrow> map_of (xs @ [(k, v)]) k = Some v"
  by (simp add: map_add_def)




section \<open>Failures open the circuits\<close>

definition fresh_token :: "permit_ref \<Rightarrow> runtime_db \<Rightarrow> bool" where
  "fresh_token p db \<longleftrightarrow> map_of (db_outcomes db) (pr_token p) = None"

text \<open>A failed outcome of a fresh permit, at the level of the scopes.\<close>

lemma failure_scopes:
  assumes "fresh_token p db" "out = (if ambiguous then Ambiguous else Transient_Failure)"
    "record_outcome now p out db = Inr (x, db')"
  shows "map_of (db_scopes db') k = map_option (\<lambda>r. if k \<in> set (ref_keys p) then failed_scope now ambiguous r else r) (map_of (db_scopes db) k)"
    "map_of (db_outcomes db') tok = (if tok = pr_token p then Some (kind_of_outcome out) else map_of (db_outcomes db) tok)"
proof -
  have r: "record_receipt (pr_token p) (kind_of_outcome out) db = Inr (True, db\<lparr>db_outcomes := db_outcomes db @ [(pr_token p, kind_of_outcome out)]\<rparr>)"
    using assms(1) by (simp add: fresh_token_def record_receipt_def)
  have e: "outcome_effect now p out = record_failure now p ambiguous" using assms(2) by (simp add: outcome_effect_def)
  have "release_permit now p (db\<lparr>db_outcomes := db_outcomes db @ [(pr_token p, kind_of_outcome out)],
      db_scopes := update_keyed (\<lambda>k _. k \<in> set (ref_keys p)) (failed_scope now ambiguous) (db_scopes db)\<rparr>) = Inr (x, db')"
    using assms(3) unfolding record_outcome_def tx_bind_def r by (simp add: e record_failure_def update_scopes_def tx_modify_def)
  from release_frames [OF this] show "map_of (db_scopes db') k = map_option (\<lambda>r. if k \<in> set (ref_keys p) then failed_scope now ambiguous r else r) (map_of (db_scopes db) k)"
    "map_of (db_outcomes db') tok = (if tok = pr_token p then Some (kind_of_outcome out) else map_of (db_outcomes db) tok)"
    using assms(1) by (auto simp: map_of_update_keyed map_add_def fresh_token_def split: option.split)
qed

definition same_scopes :: "permit_ref \<Rightarrow> permit_ref \<Rightarrow> bool" where
  "same_scopes p q \<longleftrightarrow> pr_upstreamId p = pr_upstreamId q \<and> pr_sessionId p = pr_sessionId q"

definition failures :: "bool \<Rightarrow> scope_row \<Rightarrow> nat" where
  "failures ambiguous r = (if ambiguous then sc_ambiguousOutcomes r else sc_transientFailures r)"

lemma failed_scope_counts:
  "failures ambiguous (failed_scope t ambiguous r) = Suc (failures ambiguous r)"
  "sc_circuit r \<noteq> MANUAL_BLOCKED \<Longrightarrow> sc_circuit (failed_scope t ambiguous r) \<noteq> MANUAL_BLOCKED"
  by (simp_all add: failures_def failed_scope_def Let_def touch_scope_def)

lemma failed_scope_opens:
  "sc_circuit r \<noteq> MANUAL_BLOCKED \<Longrightarrow> 2 \<le> failures ambiguous r \<Longrightarrow>
   sc_circuit (failed_scope t ambiguous r) = OPEN \<and> sc_cooldownUntil (failed_scope t ambiguous r) = Some (t + 15 * minute_ms)"
  by (simp add: failures_def failed_scope_def Let_def touch_scope_def failure_cooldown_ms_def)

text \<open>Three ambiguous outcomes in a row (or three transient failures) open the circuit of each scope of the
  session that is not manually blocked, for fifteen minutes from the third.\<close>

theorem third_failure_opens:
  assumes "same_scopes p1 p2" "same_scopes p1 p3" "distinct [pr_token p1, pr_token p2, pr_token p3]"
    "fresh_token p1 db" "fresh_token p2 db" "fresh_token p3 db"
    and out: "out = (if ambiguous then Ambiguous else Transient_Failure)"
    and r1: "record_outcome t1 p1 out db = Inr (x1, db1)" and r2: "record_outcome t2 p2 out db1 = Inr (x2, db2)"
    and r3: "record_outcome t3 p3 out db2 = Inr (x3, db3)"
    and k: "k \<in> set (ref_keys p1)" "map_of (db_scopes db) k = Some r" "sc_circuit r \<noteq> MANUAL_BLOCKED"
  shows "\<exists>r'. map_of (db_scopes db3) k = Some r' \<and> sc_circuit r' = OPEN \<and> sc_cooldownUntil r' = Some (t3 + 15 * minute_ms)"
proof -
  have keys: "ref_keys p2 = ref_keys p1" "ref_keys p3 = ref_keys p1" using assms(1,2) by (simp_all add: same_scopes_def ref_keys_def)
  note s1 = failure_scopes [OF assms(4) out r1]
  have f2: "fresh_token p2 db1" using assms(3,5) s1(2) [of "pr_token p2"] by (auto simp: fresh_token_def)
  note s2 = failure_scopes [OF f2 out r2]
  have f3: "fresh_token p3 db2" using assms(3,6) s1(2) [of "pr_token p3"] s2(2) [of "pr_token p3"] by (auto simp: fresh_token_def)
  note s3 = failure_scopes [OF f3 out r3]
  have "map_of (db_scopes db3) k = Some (failed_scope t3 ambiguous (failed_scope t2 ambiguous (failed_scope t1 ambiguous r)))"
    using s1(1) [of k] s2(1) [of k] s3(1) [of k] k keys by simp
  then show ?thesis
    using failed_scope_opens [of "failed_scope t2 ambiguous (failed_scope t1 ambiguous r)" ambiguous t3] k(3)
    by (simp add: failed_scope_counts)
qed

section \<open>Restrictions\<close>

text \<open>The scope \<open>k\<close> is blocked; only a resume of it by the operator takes the block away.\<close>

definition scope_blocked :: "scope_key \<Rightarrow> runtime_db \<Rightarrow> bool" where
  "scope_blocked k db \<longleftrightarrow> (case map_of (db_scopes db) k of None \<Rightarrow> False | Some r \<Rightarrow> sc_blockedAt r \<noteq> None)"

fun resumes_scope :: "scope_key \<Rightarrow> governor_op \<Rightarrow> bool" where
  "resumes_scope k (Mutate_Workspace js now m) \<longleftrightarrow> mu_type m \<in> {WORKSPACE_RESUME, SESSION_RESUME} \<and> mutation_scope m = k"
| "resumes_scope k (Mutate_Session js now m) \<longleftrightarrow> mu_type m \<in> {WORKSPACE_RESUME, SESSION_RESUME} \<and> mutation_scope m = k"
| "resumes_scope k op \<longleftrightarrow> False"

lemma blocked_frame: "frame db_scopes m \<Longrightarrow> tx_keeps (scope_blocked k) m"
  unfolding scope_blocked_def by (rule tx_keeps_frame)

lemma blocked_scopes: "(\<And>r. k = k' \<Longrightarrow> sc_blockedAt r \<noteq> None \<Longrightarrow> sc_blockedAt (f r) \<noteq> None) \<Longrightarrow> (\<And>k'' r. P k'' r \<Longrightarrow> k'' = k \<Longrightarrow> k = k')
    \<Longrightarrow> tx_keeps (scope_blocked k) (update_scopes P f)"
  by (auto simp: tx_keeps_def scope_blocked_def update_scopes_def map_of_update_keyed split: option.splits)

lemma blocked_update: "(\<And>r. sc_blockedAt r \<noteq> None \<Longrightarrow> sc_blockedAt (f r) \<noteq> None) \<Longrightarrow> tx_keeps (scope_blocked k) (update_scopes P f)"
  by (rule blocked_scopes) auto

lemma blocked_ensure: "tx_keeps (scope_blocked k) (ensure_scopes now u s)"
  by (auto simp: tx_keeps_def scope_blocked_def ensure_scopes_def Let_def map_of_insert_new split: option.splits)

lemma blocked_transition: "tx_keeps (scope_blocked k) (transition_expired js now scopes)"
  by (auto simp: tx_keeps_def scope_blocked_def transition_expired_def Let_def map_of_update_keyed half_open_def split: option.splits)

lemma frame_rest: "frame db_scopes (take_lease now lk l)" "frame db_scopes (insert_lease lk l)"
    "frame db_scopes (check_buckets js now u s ps)" "frame db_scopes (consume_bucket now u s p)" "frame db_scopes (update_jobs Q f)"
    "frame db_scopes (attach_permit now tok job)" "frame db_scopes (insert_attempt a)" "frame db_scopes (record_receipt tok new)"
    "frame db_scopes (update_buckets B g)" "frame db_scopes (release_permit now pr)" "frame db_scopes (append_activity d e)"
    "frame db_scopes (insert_receipt mk mr)"
  by (auto simp: frame_def take_lease_def insert_lease_def check_buckets_def consume_bucket_def update_jobs_ok attach_permit_def
      insert_attempt_def record_receipt_def update_buckets_def release_permit_def append_activity_def insert_receipt_def Let_def
      split: option.splits if_splits prod.splits)

lemmas blocked_rest = frame_rest [THEN blocked_frame] frame_lock [THEN blocked_frame] frame_effective [THEN blocked_frame]
  blocked_ensure blocked_transition

lemma blocked_reserve: "tx_keeps (scope_blocked k) (reserve_message js now tok u s job recipient t ttl)"
proof -
  have grant: "tx_keeps (scope_blocked k) (grant_message now tok u s job recipient t ttl locked)" for locked
    unfolding grant_message_def Let_def by (intro tx_rules blocked_rest)
  show ?thesis unfolding reserve_message_def by (intro tx_rules blocked_rest tx_keeps_deferred grant)
qed

lemma blocked_operation: "tx_keeps (scope_blocked k) (reserve_operation js now tok u s c ht hid ttl cost)"
  unfolding reserve_operation_def Let_def by (intro tx_rules blocked_rest tx_keeps_deferred1)

lemma blocked_outcome: "tx_keeps (scope_blocked k) (record_outcome now pr out)"
proof -
  have up: "tx_keeps (scope_blocked k) (update_scopes P (success_scope now))" "tx_keeps (scope_blocked k) (update_scopes P (rate_limited_scope now d))"
    "tx_keeps (scope_blocked k) (update_scopes P (failed_scope now b))"
    "tx_keeps (scope_blocked k) (update_scopes P (\<lambda>r. r\<lparr>sc_successStreak := sc_successStreak r - 20, sc_updatedAt := now\<rparr>))"
    "tx_keeps (scope_blocked k) (update_scopes P (\<lambda>r. touch_scope now (r\<lparr>sc_rateMode := NORMAL, sc_reason := None, sc_cooldownUntil := None\<rparr>)))"
    "tx_keeps (scope_blocked k) (update_scopes P (\<lambda>r. touch_scope now (r\<lparr>sc_blockedAt := Some now, sc_blockReason := Some reason, sc_lastFailureAt := Some now\<rparr>)))"
    for P d b reason
    by (rule blocked_update; simp add: success_scope_def rate_limited_scope_def failed_scope_def touch_scope_def Let_def)+
  have success: "tx_keeps (scope_blocked k) (record_success now pr)"
  proof -
    have norm: "tx_keeps (scope_blocked k) (\<lambda>db'. update_scopes (normalizes now pr db')
            (\<lambda>r. touch_scope now (r\<lparr>sc_rateMode := NORMAL, sc_reason := None, sc_cooldownUntil := None\<rparr>)) db')"
      by (rule tx_keeps_diag [where m = "\<lambda>d. update_scopes (normalizes now pr d)
            (\<lambda>r. touch_scope now (r\<lparr>sc_rateMode := NORMAL, sc_reason := None, sc_cooldownUntil := None\<rparr>))"]) (rule up)
    have relaxed: "tx_keeps (scope_blocked k) (tx_bind (update_buckets (\<lambda>k _. relaxes pr db0 k) relax_bucket) (\<lambda>_.
         tx_bind (update_scopes (\<lambda>k r. k \<in> set (ref_keys pr) \<and> 20 \<le> sc_successStreak r)
            (\<lambda>r. r\<lparr>sc_successStreak := sc_successStreak r - 20, sc_updatedAt := now\<rparr>)) (\<lambda>_ db'.
         update_scopes (normalizes now pr db')
            (\<lambda>r. touch_scope now (r\<lparr>sc_rateMode := NORMAL, sc_reason := None, sc_cooldownUntil := None\<rparr>)) db')))" for db0
      by (intro tx_rules blocked_rest up norm)
    have tail: "tx_keeps (scope_blocked k) (\<lambda>db. if \<not> list_ex (streak_ready db) (ref_keys pr) then Inr ((), db)
       else tx_bind (update_buckets (\<lambda>k _. relaxes pr db k) relax_bucket) (\<lambda>_.
         tx_bind (update_scopes (\<lambda>k r. k \<in> set (ref_keys pr) \<and> 20 \<le> sc_successStreak r)
            (\<lambda>r. r\<lparr>sc_successStreak := sc_successStreak r - 20, sc_updatedAt := now\<rparr>)) (\<lambda>_ db'.
         update_scopes (normalizes now pr db')
            (\<lambda>r. touch_scope now (r\<lparr>sc_rateMode := NORMAL, sc_reason := None, sc_cooldownUntil := None\<rparr>)) db')) db)"
      unfolding tx_keeps_def
    proof (intro allI impI)
      fix db x db' assume "scope_blocked k db" and r: "(if \<not> list_ex (streak_ready db) (ref_keys pr) then Inr ((), db)
       else tx_bind (update_buckets (\<lambda>k _. relaxes pr db k) relax_bucket) (\<lambda>_.
         tx_bind (update_scopes (\<lambda>k r. k \<in> set (ref_keys pr) \<and> 20 \<le> sc_successStreak r)
            (\<lambda>r. r\<lparr>sc_successStreak := sc_successStreak r - 20, sc_updatedAt := now\<rparr>)) (\<lambda>_ db'.
         update_scopes (normalizes now pr db')
            (\<lambda>r. touch_scope now (r\<lparr>sc_rateMode := NORMAL, sc_reason := None, sc_cooldownUntil := None\<rparr>)) db')) db) = Inr (x, db')"
      then show "scope_blocked k db'"
        using tx_keepsD [OF relaxed, of db db x db'] by (cases "list_ex (streak_ready db) (ref_keys pr)") (simp_all del: tx_bind_ok)
    qed
    show ?thesis unfolding record_success_def by (intro tx_rules up tail)
  qed
  show ?thesis unfolding record_outcome_def outcome_effect_def record_rate_limit_def record_failure_def block_session_def
    by (intro tx_rules blocked_rest) (cases out; simp; intro tx_rules success up blocked_rest)
qed

lemma blocked_mutation:
  assumes "\<not> (mu_type m \<in> {WORKSPACE_RESUME, SESSION_RESUME} \<and> mutation_scope m = k)"
  shows "tx_keeps (scope_blocked k) (apply_mutation now m)"
proof -
  have "tx_keeps (scope_blocked k) (update_scopes (\<lambda>k' _. k' = mutation_scope m) (mutated_scope now m))"
    by (rule blocked_scopes [where k' = "mutation_scope m"])
      (use assms in \<open>auto simp: mutated_scope_def touch_scope_def split: mutation_type.splits\<close>)
  moreover have "tx_keeps (scope_blocked k) (\<lambda>db. insert_receipt mk (r db) db)" for mk r
    by (rule tx_keeps_diag) (rule blocked_rest)
  ultimately show ?thesis unfolding apply_mutation_def by (intro tx_rules blocked_rest)
qed

lemma blocked_step:
  assumes "scope_blocked k db" "\<not> resumes_scope k op"
  shows "scope_blocked k (governor_step op db)"
proof -
  have commit: "tx_keeps (scope_blocked k) (commit_message_start now aid cid p required cmd rr age)" for now aid cid p required cmd rr age
  proof (cases "required \<and> cmd = None")
    case True then show ?thesis by (simp add: commit_message_start_def tx_keeps_throw)
  next
    case False
    have inner: "tx_keeps (scope_blocked k) (case rows of [] \<Rightarrow> tx_return None
        | j # js' \<Rightarrow> tx_bind (insert_attempt (h j)) (\<lambda>_. tx_return (Some (r j))))"
      for rows :: "message_job list" and h and r :: "message_job \<Rightarrow> committed_send"
      by (cases rows) (auto intro!: tx_rules blocked_rest)
    show ?thesis unfolding commit_message_start_def Let_def if_not_P [OF False]
      by (rule tx_keeps_diag, rule tx_keeps_bind, rule blocked_rest, rule inner)
  qed
  have attempt: "tx_keeps (scope_blocked k) (record_attempt_outcome now a out)" for now a out
    using blocked_outcome unfolding tx_keeps_def record_attempt_outcome_def by (fastforce split: option.splits)
  have workspace: "tx_keeps (scope_blocked k) (mutate_workspace js now m)"
    if "\<not> (mu_type m \<in> {WORKSPACE_RESUME, SESSION_RESUME} \<and> mutation_scope m = k)" for js now m
    unfolding mutate_workspace_def Let_def
    by (rule tx_keeps_lookup [where h = "\<lambda>db. map_of (db_mutations db) (mu_type m, mu_key m)"],
        intro tx_rules blocked_rest blocked_mutation that)
  have session: "tx_keeps (scope_blocked k) (mutate_session js now m)"
    if "\<not> (mu_type m \<in> {WORKSPACE_RESUME, SESSION_RESUME} \<and> mutation_scope m = k)" for js now m
    unfolding mutate_session_def Let_def
    by (rule tx_keeps_lookup [where h = "\<lambda>db. map_of (db_mutations db) (mu_type m, mu_key m)"],
        intro tx_rules blocked_rest blocked_mutation that)
  have snapshot: "tx_keeps (scope_blocked k) (session_snapshot js now u s)" for js now u s
    unfolding session_snapshot_def by (intro tx_rules blocked_rest)
  show ?thesis
  proof (cases op)
    case (Mutate_Workspace js now m)
    then show ?thesis using assms(2) workspace assms(1) by (simp add: run_tx_keeps)
  next
    case (Mutate_Session js now m)
    then show ?thesis using assms(2) session assms(1) by (simp add: run_tx_keeps)
  qed (use assms(1) in \<open>simp_all add: run_tx_keeps blocked_reserve blocked_operation commit blocked_outcome attempt snapshot
      frame_rest(10) [THEN blocked_frame]\<close>)
qed

lemma blocked_fold: "scope_blocked k db \<Longrightarrow> list_all (\<lambda>op. \<not> resumes_scope k op) ops \<Longrightarrow> scope_blocked k (fold governor_step ops db)"
  by (induction ops arbitrary: db) (auto intro: blocked_step)

lemma restriction_recorded:
  assumes "map_of (db_outcomes db) (pr_token p) \<in> {None, Some OK_SUCCESS}"
    "map_of (db_scopes db) (session_key (pr_upstreamId p) (pr_sessionId p)) \<noteq> None"
    "record_outcome now p Session_Restricted db = Inr (x, db')"
  shows "scope_blocked (session_key (pr_upstreamId p) (pr_sessionId p)) db'"
proof -
  let ?k = "session_key (pr_upstreamId p) (pr_sessionId p)"
  obtain d where r: "record_receipt (pr_token p) OK_SESSION_RESTRICTED db = Inr (True, d)" "db_scopes d = db_scopes db"
    using assms(1) by (auto simp: record_receipt_def corrects_def)
  have "release_permit now p (d\<lparr>db_scopes := update_keyed (\<lambda>k _. k = ?k)
         (\<lambda>r. touch_scope now (r\<lparr>sc_blockedAt := Some now, sc_blockReason := Some ''SESSION_RESTRICTED'', sc_lastFailureAt := Some now\<rparr>))
         (db_scopes d)\<rparr>) = Inr (x, db')"
    using assms(3) unfolding record_outcome_def kind_of_outcome.simps tx_bind_def r(1)
    by (simp add: outcome_effect_def block_session_def update_scopes_def tx_modify_def)
  from release_frames [OF this] show ?thesis
    using assms(2) r(2) by (auto simp: scope_blocked_def map_of_update_keyed touch_scope_def)
qed

text \<open>C26: Once it is recorded that OpenWA restricted a session - as the permit's first outcome, or as the correction of a
  success, when the session's scope row exists - no message permit of that session is granted any more, whatever operations
  of the governor follow, until an operator's mutation resumes the session.\<close>

theorem restriction_blocks:
  assumes "map_of (db_outcomes db) (pr_token p) \<in> {None, Some OK_SUCCESS}"
    "map_of (db_scopes db) (session_key (pr_upstreamId p) (pr_sessionId p)) \<noteq> None"
    "record_outcome now p Session_Restricted db = Inr (x, db')"
    "list_all (\<lambda>op. \<not> resumes_scope (session_key (pr_upstreamId p) (pr_sessionId p)) op) ops"
  shows "reserve_message js now' tok (pr_upstreamId p) (pr_sessionId p) job recipient t ttl (fold governor_step ops db')
    \<noteq> Inr (Granted g, db'')"
proof
  assume g: "reserve_message js now' tok (pr_upstreamId p) (pr_sessionId p) job recipient t ttl (fold governor_step ops db')
    = Inr (Granted g, db'')"
  have "scope_blocked (session_key (pr_upstreamId p) (pr_sessionId p)) (fold governor_step ops db')"
    by (rule blocked_fold [OF restriction_recorded [OF assms(1-3)] assms(4)])
  then show False using granted_facts [OF g]
    by (auto simp: scope_blocked_def scope_keys_def scope_admits_def manually_blocked_def split: option.splits)
qed

section \<open>Recovery leases\<close>

lemma insert_lease_clash:
  "map_of (db_leases db) k \<noteq> None \<Longrightarrow> insert_lease k l db = Inl Unique_Violation"
  by (auto simp: insert_lease_def)

lemma iter_insert_clash:
  "k \<in> set ks \<Longrightarrow> map_of (db_leases db) (g k) \<noteq> None \<Longrightarrow> tx_iter (\<lambda>k. insert_lease (g k) l) ks db = Inl Unique_Violation"
proof (induction ks arbitrary: db)
  case (Cons k' ks)
  show ?case
  proof (cases "map_of (db_leases db) (g k')")
    case (Some old) then show ?thesis by (simp add: tx_bind_def insert_lease_clash)
  next
    case None
    then have i: "insert_lease (g k') l db = Inr ((), db\<lparr>db_leases := db_leases db @ [(g k', l)]\<rparr>)" by (simp add: insert_lease_def)
    have "k \<noteq> k'" using None Cons.prems by auto
    then have "k \<in> set ks" using Cons.prems by simp
    from Cons.IH [OF this, of "db\<lparr>db_leases := db_leases db @ [(g k', l)]\<rparr>"] Cons.prems(2) show ?thesis
      by (auto simp: tx_bind_def i map_add_def)
  qed
qed simp

text \<open>C27: A recovery lease that has expired without being released stops every operation that would probe the
  half-open circuit: once the budgets admit it, \<open>reserveOperation\<close> fails on the lease's primary key, every time.\<close>

theorem expired_recovery_lease_blocks:
  assumes "1 \<le> cost \<and> cost \<le> 10" "k \<in> set (scope_keys u s)" "map_of (db_scopes db) k = Some r" "sc_circuit r = HALF_OPEN"
    "map_of (db_leases db) (k, RECOVERY_LANE) = Some l" "sl_expiresAt l \<le> now"
    and granted: "reserve_operation js now tok u s c ht hid ttl cost (db\<lparr>db_leases := []\<rparr>) = Inr (Granted p, db')"
    and alone: "recovery_until now u s db = None"
  shows "reserve_operation js now tok u s c ht hid ttl cost db = Inl Unique_Violation"
proof -
  have cost: "\<not> (cost < 1 \<or> 10 < cost)" using assms(1) by simp
  let ?ps = "operation_bucket_policies c (s \<noteq> []) cost" and ?e = "db\<lparr>db_leases := []\<rparr>"
  obtain d0 where e: "ensure_scopes now u s db = Inr ((), d0)" "ensure_scopes now u s ?e = Inr ((), d0\<lparr>db_leases := []\<rparr>)"
    "db_leases d0 = db_leases db"
    by (auto simp: ensure_scopes_def tx_modify_def)
  obtain locked where lk: "lock_scopes u s d0 = Inr (locked, d0)" "lock_scopes u s (d0\<lparr>db_leases := []\<rparr>) = Inr (locked, d0\<lparr>db_leases := []\<rparr>)"
    by (auto simp: lock_scopes_def)
  obtain scopes d1 where tr: "transition_expired js now locked d0 = Inr (scopes, d1)"
    "transition_expired js now locked (d0\<lparr>db_leases := []\<rparr>) = Inr (scopes, d1\<lparr>db_leases := []\<rparr>)" "db_leases d1 = db_leases d0"
    by (auto simp: transition_expired_def Let_def)
  have none: "recovery_until now u s (d1\<lparr>db_leases := []\<rparr>) = None"
    by (simp add: recovery_until_def somes_def Let_def)
  have alone1: "recovery_until now u s d1 = None" using alone e(3) tr(3) by (simp add: recovery_until_def)
  obtain w rows where ck: "check_loop js now u s None ?ps (db_buckets d1) = (w, rows)" by fastforce
  have r: "decide (circuit_decision js scopes) (\<lambda>db.
      case recovery_until now u s db of
        Some t \<Rightarrow> Inr (Deferred t ''RECOVERY_PROBE_IN_FLIGHT'', db)
      | None \<Rightarrow>
           tx_bind (check_buckets js now u s ?ps) (\<lambda>wait.
           decide wait (
           tx_bind (tx_iter (\<lambda>k. insert_lease (k, RECOVERY_LANE) (new_lease tok ht hid now ttl)) (recovering scopes)) (\<lambda>_.
           tx_bind (tx_iter (consume_bucket now u s) ?ps) (\<lambda>_.
           tx_return (Granted \<lparr>opt_token = tok, opt_upstreamId = u, opt_sessionId = s, opt_class = c,
             opt_profile = permit_profile scopes, opt_policyVersion = safety_policy_version, opt_reservedAt = js\<rparr>))))) db)
      (d1\<lparr>db_leases := []\<rparr>) = Inr (Granted p, db')"
    using granted unfolding reserve_operation_def if_not_P [OF cost] Let_def by (simp add: tx_bind_def e lk tr)
  have circuit: "circuit_decision js scopes = (None :: operation_permit decision option)"
    using r by (cases "circuit_decision js scopes :: operation_permit decision option") (auto simp: decide_def circuit_decision_not_granted)
  have "w = None"
    using r none ck circuit by (cases w) (auto simp: decide_def check_buckets_def tx_bind_def split: prod.splits)
  have "(k, r) \<in> set locked"
    using assms(2) ensure_scopes_kept [OF e(1) assms(3)] lock_scopes_agree [OF lk(1)] scopes_agree_mem [of u s locked d0 k r] by simp
  then have "(k, r) \<in> set scopes" using tr(1) assms(4)
    by (auto simp: transition_expired_def Let_def update_keyed_def cooled_down_def image_iff intro!: bexI [of _ "(k, r)"])
  then have mem: "k \<in> set (recovering scopes)" using assms(4) by (force simp: recovering_def)
  have "tx_iter (\<lambda>k. insert_lease (k, RECOVERY_LANE) (new_lease tok ht hid now ttl)) (recovering scopes) (d1\<lparr>db_buckets := rows\<rparr>) = Inl Unique_Violation"
    by (rule iter_insert_clash [OF mem]) (use assms(5) e(3) tr(3) in simp)
  then show ?thesis unfolding reserve_operation_def if_not_P [OF cost] Let_def
    using alone1 ck circuit \<open>w = None\<close> by (simp add: tx_bind_def e lk tr decide_def check_buckets_def)
qed

section \<open>What operators see and do\<close>

lemma effective_session_ok: "effective_session js scopes db = Inr (snap, db') \<longleftrightarrow> db' = db \<and> map_effective_session js scopes = Inr snap"
  by (auto simp: effective_session_def split: sum.splits)

text \<open>The snapshot of a session shows the status of its most restrictive scope: workspace, upstream or session.\<close>

theorem snapshot_shows_worst:
  assumes "session_snapshot js now u s db = Inr (snap, db')"
  shows "(\<forall>k \<in> set (scope_keys u s). \<forall>r. map_of (db_scopes db') k = Some r \<longrightarrow>
      status_priority (scope_status js r) \<le> status_priority (ss_status snap))
    \<and> (\<exists>k \<in> set (scope_keys u s). \<exists>r. map_of (db_scopes db') k = Some r \<and> ss_status snap = scope_status js r
         \<and> ss_effectiveScopeType snap = fst k)"
proof -
  obtain x d0 locked d1 scopes d2 where s: "lock_scopes u s d0 = Inr (locked, d1)"
    "transition_expired js now locked d1 = Inr (scopes, d2)" "effective_session js scopes d2 = Inr (snap, db')"
    using assms unfolding session_snapshot_def by (elim tx_bind_elim) blast
  then have l: "lock_scopes u s d0 = Inr (locked, d0)" and tr: "transition_expired js now locked d0 = Inr (scopes, db')"
    and m: "map_effective_session js scopes = Inr snap"
    by (auto simp: effective_session_ok lock_scopes_def)
  have agree: "scopes_agree u s scopes db'" using lock_scopes_agree [OF l] transition_expired_agree [OF _ tr] by blast
  obtain k r where f: "List.find (\<lambda>(k, r). fst k = SESSION) scopes = Some (k, r)"
    using m by (auto simp: map_effective_session_def split: option.splits)
  let ?w = "foldl (worse_scope js) (k, r) scopes"
  have mem: "(k, r) \<in> set scopes" using f unfolding find_Some_iff by (metis nth_mem)
  have w: "?w \<in> set scopes" "\<And>x. x \<in> set scopes \<Longrightarrow> status_priority (scope_status js (snd x)) \<le> status_priority (scope_status js (snd ?w))"
    using foldl_worse [of js "(k, r)" scopes] mem by (auto simp: insert_absorb)
  have snap: "ss_status snap = scope_status js (snd ?w)" "ss_effectiveScopeType snap = fst (fst ?w)"
    using m f by (auto simp: map_effective_session_def Let_def case_prod_beta)
  show ?thesis
  proof (intro conjI ballI allI impI)
    fix k' r' assume "k' \<in> set (scope_keys u s)" "map_of (db_scopes db') k' = Some r'"
    then have "(k', r') \<in> set scopes" using scopes_agree_mem [OF agree] by blast
    from w(2) [OF this] show "status_priority (scope_status js r') \<le> status_priority (ss_status snap)" by (simp add: snap)
  next
    have "fst ?w \<in> set (scope_keys u s) \<and> map_of (db_scopes db') (fst ?w) = Some (snd ?w)"
      using scopes_agree_mem [OF agree, of "fst ?w" "snd ?w"] w(1) by simp
    then show "\<exists>k \<in> set (scope_keys u s). \<exists>r. map_of (db_scopes db') k = Some r \<and> ss_status snap = scope_status js r
         \<and> ss_effectiveScopeType snap = fst k" using snap by blast
  qed
qed

lemma keeps_receipts:
  "tx_keeps (\<lambda>db. db_mutations db = ms \<and> db_activity db = as) (ensure_scopes now u s)"
  "tx_keeps (\<lambda>db. db_mutations db = ms \<and> db_activity db = as) (lock_scopes u s)"
  "tx_keeps (\<lambda>db. db_mutations db = ms \<and> db_activity db = as) (transition_expired js now scopes)"
  "tx_keeps (\<lambda>db. db_mutations db = ms \<and> db_activity db = as) (effective_session js scopes)"
  by (auto simp: tx_keeps_def ensure_scopes_def lock_scopes_def transition_expired_def effective_session_def Let_def split: sum.splits)

lemma apply_mutation_receipt:
  assumes "apply_mutation now m db = Inr (x, db')"
  shows "\<exists>r. map_of (db_mutations db') (mu_type m, mu_key m) = Some r \<and> \<not> receipt_conflicts m r \<and> mr_requestHash r = mu_requestHash m"
  using assms by (auto simp: apply_mutation_def insert_receipt_def receipt_conflicts_def map_add_def split: option.splits)

lemma mutate_session_receipt:
  assumes "mutate_session js now m db = Inr (snap, db')"
  shows "\<exists>r. map_of (db_mutations db') (mu_type m, mu_key m) = Some r \<and> \<not> receipt_conflicts m r"
proof (cases "map_of (db_mutations db) (mu_type m, mu_key m)")
  case None
  obtain d0 x d1 where a: "apply_mutation now m d0 = Inr (x, d1)"
    "tx_bind (lock_scopes (mu_upstreamId m) (mu_sessionId m)) (effective_session js) d1 = Inr (snap, db')"
    using assms None by (auto simp: mutate_session_def)
  have "tx_keeps (\<lambda>db. db_mutations db = db_mutations d1 \<and> db_activity db = db_activity d1)
      (tx_bind (lock_scopes (mu_upstreamId m) (mu_sessionId m)) (effective_session js))"
    by (intro tx_rules keeps_receipts)
  from tx_keepsD [OF this _ a(2)] have "db_mutations db' = db_mutations d1" by simp
  then show ?thesis using apply_mutation_receipt [OF a(1)] by auto
next
  case (Some r)
  then have ok: "\<not> receipt_conflicts m r" using assms by (auto simp: mutate_session_def split: if_splits)
  have "tx_keeps (\<lambda>d. db_mutations d = db_mutations db \<and> db_activity d = db_activity db)
      (tx_bind (ensure_scopes now (mu_upstreamId m) (mu_sessionId m)) (\<lambda>_.
       tx_bind (lock_scopes (mu_upstreamId m) (mu_sessionId m)) (\<lambda>locked.
             tx_bind (transition_expired js now locked) (effective_session js))))"
    by (intro tx_rules keeps_receipts)
  from tx_keepsD [OF this, of db snap db'] assms Some ok
  have "db_mutations db' = db_mutations db" by (simp add: mutate_session_def)
  then show ?thesis using Some ok by simp
qed

text \<open>C28: Repeating an operator's mutation of a session under the same idempotency key answers without a second
  effect: no receipt, no activity event, and no scope changes but the half opening of expired circuits; the
  same key with another request is refused.\<close>

theorem mutation_idempotent:
  assumes "mutate_session js now m db = Inr (snap, db1)"
  shows "(\<forall>snap' db2. mutate_session js' now' m db1 = Inr (snap', db2) \<longrightarrow>
      db_mutations db2 = db_mutations db1 \<and> db_activity db2 = db_activity db1 \<and> scopes_moved js' now' db1 db2)
    \<and> (\<forall>h. h \<noteq> mu_requestHash m \<longrightarrow> mutate_session js' now' (m\<lparr>mu_requestHash := h\<rparr>) db1 = Inl Mutation_Conflict)"
proof (intro conjI allI impI)
  obtain r where r: "map_of (db_mutations db1) (mu_type m, mu_key m) = Some r" "\<not> receipt_conflicts m r"
    using mutate_session_receipt [OF assms] by blast
  fix snap' db2 assume again: "mutate_session js' now' m db1 = Inr (snap', db2)"
  let ?t = "tx_bind (ensure_scopes now' (mu_upstreamId m) (mu_sessionId m)) (\<lambda>_.
       tx_bind (lock_scopes (mu_upstreamId m) (mu_sessionId m)) (\<lambda>locked.
             tx_bind (transition_expired js' now' locked) (effective_session js')))"
  have t: "?t db1 = Inr (snap', db2)" using again r by (simp add: mutate_session_def)
  have "tx_keeps (\<lambda>d. db_mutations d = db_mutations db1 \<and> db_activity d = db_activity db1) ?t" by (intro tx_rules keeps_receipts)
  from tx_keepsD [OF this _ t]
  show "db_mutations db2 = db_mutations db1" "db_activity db2 = db_activity db1" by simp_all
  obtain x d0 locked d1 scopes d2 where e: "ensure_scopes now' (mu_upstreamId m) (mu_sessionId m) db1 = Inr (x, d0)"
    "lock_scopes (mu_upstreamId m) (mu_sessionId m) d0 = Inr (locked, d1)"
    "transition_expired js' now' locked d1 = Inr (scopes, d2)" "effective_session js' scopes d2 = Inr (snap', db2)"
    using t by (elim tx_bind_elim) blast
  have "d1 = d0" "d2 = db2" using e(2,4) by (simp_all add: lock_scopes_def effective_session_ok)
  then show "scopes_moved js' now' db1 db2" using expiry_moves [OF e(1)] e(2,3) by blast
next
  obtain r where "map_of (db_mutations db1) (mu_type m, mu_key m) = Some r" "\<not> receipt_conflicts m r"
    using mutate_session_receipt [OF assms] by blast
  then show "mutate_session js' now' (m\<lparr>mu_requestHash := h\<rparr>) db1 = Inl Mutation_Conflict" if "h \<noteq> mu_requestHash m" for h
    using that by (simp add: mutate_session_def receipt_conflicts_def mutation_subject_def)
qed

end
