(* ===== verification/Governor_Demo.thy ===== *)
theory Governor_Demo
  imports Governor_Budgets Governor_Outcomes
begin

text \<open>
  The governor's properties at concrete inputs: one session of a healthy Runtime with one job, its permit, its
  commit and outcomes, evaluated by the simplifier.
\<close>

definition demo_permit :: message_permit where
  "demo_permit = \<lparr>mpt_leaseToken = ''t'', mpt_upstreamId = ''u'', mpt_sessionId = ''s'', mpt_jobId = ''j'', mpt_recipientId = ''g'',
     mpt_type = Text_Message, mpt_profile = CANARY, mpt_policyVersion = 5, mpt_reservedAt = 0, mpt_expiresAt = 60000\<rparr>"

definition result_db :: "(db_error + ('a \<times> runtime_db)) \<Rightarrow> runtime_db" where
  "result_db r = (case r of Inr (x, db) \<Rightarrow> db | Inl e \<Rightarrow> empty_db)"

definition granted_db :: runtime_db where
  "granted_db = result_db (reserve_message 0 0 ''t'' ''u'' ''s'' ''j'' ''g'' Text_Message 60000 demo_db)"

lemma result_dbI: "(case r of Inr (y, db) \<Rightarrow> y = x | Inl e \<Rightarrow> False) \<Longrightarrow> r = Inr (x, result_db r)"
  by (auto simp: result_db_def split: sum.splits)

lemma demo_granted: "reserve_message 0 0 ''t'' ''u'' ''s'' ''j'' ''g'' Text_Message 60000 demo_db = Inr (Granted demo_permit, granted_db)"
  unfolding granted_db_def by (rule result_dbI) code_simp

theorem grant_conditions_witness:
  "session_lease ''u'' ''s'' granted_db = Some (new_lease ''t'' ''MESSAGE_JOB'' ''j'' 0 60000)
   \<and> length (recent_starts 0 (6 * hour_ms) ''s'' ''g'' demo_db) < 1"
  using grant_conditions [OF demo_granted] by (simp add: demo_permit_def)

theorem permit_excludes_witness:
  "\<not> grants_message ''u'' ''s'' (Reserve_Message 20000 20000 ''t2'' ''u'' ''s'' ''j'' ''g'' Text_Message 60000) granted_db"
  using permit_excludes [OF demo_granted, of "[]" "Reserve_Message 20000 20000 ''t2'' ''u'' ''s'' ''j'' ''g'' Text_Message 60000"] by simp

definition demo_commit :: connector_commit where
  "demo_commit = \<lparr>cc_attemptId = ''a'', cc_commandId = ''c'', cc_generation = 1, cc_payloadSha256 = ''d'', cc_body = ''b'', cc_expiresAt = 100000\<rparr>"

definition demo_committed :: committed_send where
  "demo_committed = \<lparr>cms_attemptId = ''a'', cms_commandId = ''c'', cms_generation = Some 1, cms_startedAt = 10, cms_attemptNumber = 1\<rparr>"

definition committed_db :: runtime_db where
  "committed_db = result_db (commit_message_start 10 ''x'' ''y'' demo_permit True (Some demo_commit) True 30000 granted_db)"

lemma demo_commits: "commit_message_start 10 ''x'' ''y'' demo_permit True (Some demo_commit) True 30000 granted_db = Inr (Some demo_committed, committed_db)"
  unfolding committed_db_def by (rule result_dbI) code_simp

theorem commit_fence_witness:
  "list_ex (\<lambda>j. may_send 10 demo_permit True (Some demo_commit) True 30000 j granted_db) (db_jobs granted_db)
   \<and> length (db_attempts committed_db) = Suc (length (db_attempts granted_db))"
  using commit_fence [OF demo_commits] by auto

lemma granted_keyed: "jobs_keyed granted_db"
  by code_simp

theorem commit_once_witness:
  "commit_message_start 20 ''x'' ''y'' demo_permit True (Some demo_commit) True 30000
     (fold governor_step [Release_Permit 15 (message_ref demo_permit)] committed_db) \<noteq> Inr (Some demo_committed, committed_db)"
  by (rule commit_once [OF demo_commits granted_keyed refl])

definition demo_first :: governor_op where
  "demo_first = Reserve_Message 0 0 ''t'' ''u'' ''s'' ''j'' ''g'' Text_Message 60000"

definition demo_second :: governor_op where
  "demo_second = Reserve_Message 20000 20000 ''t2'' ''u'' ''s'' ''j'' ''g'' Text_Message 60000"

definition demo_release :: governor_op where
  "demo_release = Release_Permit 1 (message_ref demo_permit)"

lemma demo_buckets_ok: "buckets_ok demo_db"
  by (simp add: buckets_ok_def demo_db_def empty_db_def)

lemma demo_first_grants: "grants_message ''u'' ''s'' demo_first demo_db"
  by (simp add: demo_first_def demo_granted)

lemma demo_second_grants: "grants_message ''u'' ''s'' demo_second (fold governor_step [demo_release] (governor_step demo_first demo_db))"
  by code_simp

theorem minute_budget_witness:
  "op_now demo_first + (op_cost MINUTE demo_first
     + granted_units ''u'' ''s'' MINUTE [demo_release] (governor_step demo_first demo_db)) * 12000 \<le> op_js demo_second"
  by (rule minute_budget [OF demo_buckets_ok demo_first_grants demo_second_grants])

theorem day_budget_witness:
  "op_now demo_first + (op_cost DAY demo_first
     + granted_units ''u'' ''s'' DAY [demo_release] (governor_step demo_first demo_db)) * 864000
   \<le> op_js demo_second + op_tolerance ''u'' ''s'' DAY demo_second (fold governor_step [demo_release] (governor_step demo_first demo_db))"
  by (rule day_budget [OF demo_buckets_ok demo_first_grants demo_second_grants])

definition demo_day_row :: bucket_row where
  "demo_day_row = \<lparr>bk_arrivalAt = 1728000, bk_base = 1728000, bk_emission = 1728000, bk_burst = 10, bk_limit = 50,
     bk_period = 86400000, bk_policyVersion = 5\<rparr>"

lemma demo_day: "map_of (db_buckets (fold governor_step [demo_first] demo_db)) (session_budget ''u'' ''s'' DAY) = Some demo_day_row"
  by code_simp

theorem budgets_bounded_witness: "bk_base demo_day_row \<le> bk_emission demo_day_row \<and> bk_emission demo_day_row * 2 < 2 ^ 31"
  using budgets_bounded [OF demo_buckets_ok demo_day] by simp

section \<open>Outcomes\<close>

definition demo_ref :: "string \<Rightarrow> permit_ref" where
  "demo_ref tok = \<lparr>pr_token = tok, pr_upstreamId = ''u'', pr_sessionId = ''s'', pr_jobId = None\<rparr>"

definition failed_db :: "millis \<Rightarrow> string \<Rightarrow> runtime_db \<Rightarrow> runtime_db" where
  "failed_db now tok db = result_db (record_outcome now (demo_ref tok) Ambiguous db)"

lemma record_outcome_total: "\<exists>db'. record_outcome now p out db = Inr ((), db')"
proof -
  have "\<exists>db'. outcome_effect now p out d = Inr ((), db')" for d
    unfolding outcome_effect_def record_success_def record_rate_limit_def record_failure_def block_session_def
    by (cases out) (auto simp: tx_bind_def tx_modify_def tx_return_def update_scopes_def update_buckets_def)
  then show ?thesis
    by (auto simp: record_outcome_def record_receipt_def tx_bind_def tx_return_def release_permit_def tx_modify_def
        split: option.split sum.split) (metis Inr_not_Inl sum.inject(2) prod.inject)+
qed

lemma failed: "record_outcome now (demo_ref tok) Ambiguous db = Inr ((), failed_db now tok db)"
  using record_outcome_total [of now "demo_ref tok" Ambiguous db] by (auto simp: failed_db_def result_db_def)



lemma granted_scopes: "map_of (db_scopes granted_db) (session_key ''u'' ''s'') = Some (fresh_scope 0)"
    "db_outcomes granted_db = []"
  by code_simp+

theorem third_failure_opens_witness:
  "\<exists>r. map_of (db_scopes (failed_db 3 ''t3'' (failed_db 2 ''t2'' (failed_db 1 ''t1'' granted_db)))) (session_key ''u'' ''s'') = Some r
     \<and> sc_circuit r = OPEN \<and> sc_cooldownUntil r = Some (3 + 15 * minute_ms)"
proof (rule third_failure_opens [where out = Ambiguous and ambiguous = True and r = "fresh_scope 0", OF _ _ _ _ _ _ _ failed failed failed])
  show "map_of (db_scopes granted_db) (session_key ''u'' ''s'') = Some (fresh_scope 0)" by (rule granted_scopes)
qed (simp_all add: same_scopes_def demo_ref_def fresh_token_def granted_scopes ref_keys_def scope_keys_def fresh_scope_def)

definition restricted_db :: runtime_db where
  "restricted_db = result_db (record_outcome 5 (demo_ref ''t1'') Session_Restricted granted_db)"

lemma restricted: "record_outcome 5 (demo_ref ''t1'') Session_Restricted granted_db = Inr ((), restricted_db)"
  using record_outcome_total [of 5 "demo_ref ''t1''" Session_Restricted granted_db] by (auto simp: restricted_db_def result_db_def)

definition unpausing :: mutation where
  "unpausing = \<lparr>mu_type = OUTBOUND_RESUME, mu_key = ''k'', mu_requestHash = ''h'', mu_upstreamId = ''u'', mu_sessionId = ''s'',
     mu_reason = None, mu_profile = CANARY\<rparr>"

theorem restriction_blocks_witness:
  "reserve_message 100000 100000 ''t9'' ''u'' ''s'' ''j'' ''g'' Text_Message 60000
     (fold governor_step [Mutate_Session 6 6 unpausing, Record_Outcome 7 (demo_ref ''t2'') Succeeded] restricted_db)
   \<noteq> Inr (Granted demo_permit, restricted_db)"
  using restriction_blocks [OF _ _ restricted, of "[Mutate_Session 6 6 unpausing, Record_Outcome 7 (demo_ref ''t2'') Succeeded]"
      100000 100000 "''t9''" "''j''" "''g''" Text_Message 60000 demo_permit restricted_db]
  by (simp add: demo_ref_def unpausing_def granted_scopes)

text \<open>A session whose probe never reported: the circuit is half open, the recovery lease expired at 50000.\<close>

definition probing_db :: runtime_db where
  "probing_db = demo_db\<lparr>db_scopes := [(session_key ''u'' ''s'', (fresh_scope 0)\<lparr>sc_circuit := HALF_OPEN\<rparr>)],
     db_leases := [((session_key ''u'' ''s'', RECOVERY_LANE), new_lease ''p'' ''PROBE'' ''h'' 0 50000)]\<rparr>"

definition probe_permit :: operation_permit where
  "probe_permit = \<lparr>opt_token = ''q'', opt_upstreamId = ''u'', opt_sessionId = ''s'', opt_class = RECOVERY_PROBE, opt_profile = CANARY,
     opt_policyVersion = 5, opt_reservedAt = 60000\<rparr>"

definition probed_db :: runtime_db where
  "probed_db = result_db (reserve_operation 60000 60000 ''q'' ''u'' ''s'' RECOVERY_PROBE ''PROBE'' ''h'' 1000 1 (probing_db\<lparr>db_leases := []\<rparr>))"

lemma probe_without_lease:
  "reserve_operation 60000 60000 ''q'' ''u'' ''s'' RECOVERY_PROBE ''PROBE'' ''h'' 1000 1 (probing_db\<lparr>db_leases := []\<rparr>)
     = Inr (Granted probe_permit, probed_db)"
  unfolding probed_db_def by (rule result_dbI) code_simp

lemma probing_facts: "map_of (db_scopes probing_db) (session_key ''u'' ''s'') = Some ((fresh_scope 0)\<lparr>sc_circuit := HALF_OPEN\<rparr>)"
    "map_of (db_leases probing_db) (session_key ''u'' ''s'', RECOVERY_LANE) = Some (new_lease ''p'' ''PROBE'' ''h'' 0 50000)"
    "recovery_until 60000 ''u'' ''s'' probing_db = None"
  by code_simp+

theorem expired_recovery_lease_blocks_witness:
  "reserve_operation 60000 60000 ''q'' ''u'' ''s'' RECOVERY_PROBE ''PROBE'' ''h'' 1000 1 probing_db = Inl Unique_Violation"
  by (rule expired_recovery_lease_blocks [OF _ _ probing_facts(1) _ probing_facts(2) _ probe_without_lease probing_facts(3)])
    (simp_all add: scope_keys_def new_lease_def)

definition shown_db :: runtime_db where
  "shown_db = result_db (session_snapshot 60000 60000 ''u'' ''s'' probing_db)"

definition shown :: safety_snapshot where
  "shown = (map_scope 60000 (session_key ''u'' ''s'') ((fresh_scope 0)\<lparr>sc_circuit := HALF_OPEN\<rparr>))"

lemma demo_shown: "session_snapshot 60000 60000 ''u'' ''s'' probing_db = Inr (shown, shown_db)"
  unfolding shown_db_def by (rule result_dbI) code_simp

theorem snapshot_shows_worst_witness:
  "ss_status shown = St_RECOVERY \<and> status_priority (scope_status 60000 (fresh_scope 60000)) \<le> status_priority (ss_status shown)"
proof -
  have "map_of (db_scopes shown_db) workspace_key = Some (fresh_scope 60000)" by code_simp
  moreover have "ss_status shown = St_RECOVERY" by code_simp
  ultimately show ?thesis using snapshot_shows_worst [OF demo_shown] by (auto simp: scope_keys_def)
qed

definition demo_pause :: mutation where
  "demo_pause = \<lparr>mu_type = OUTBOUND_PAUSE, mu_key = ''k'', mu_requestHash = ''h'', mu_upstreamId = ''u'', mu_sessionId = ''s'',
     mu_reason = None, mu_profile = CANARY\<rparr>"

definition paused_db :: runtime_db where
  "paused_db = result_db (mutate_session 0 7 demo_pause granted_db)"

definition paused_snapshot :: safety_snapshot where
  "paused_snapshot = map_scope 0 (session_key ''u'' ''s'') (mutated_scope 7 demo_pause (fresh_scope 0))"

lemma demo_paused: "mutate_session 0 7 demo_pause granted_db = Inr (paused_snapshot, paused_db)"
  unfolding paused_db_def by (rule result_dbI) code_simp

theorem mutation_idempotent_witness:
  "mutate_session 0 8 (demo_pause\<lparr>mu_requestHash := ''other''\<rparr>) paused_db = Inl Mutation_Conflict"
  using mutation_idempotent [OF demo_paused, of 0 8] by (simp add: demo_pause_def)

end
