(* ===== verification/Message_Demo.thy ===== *)
theory Message_Demo
  imports Processor_Theorems Command_Theorems Command_Retries Governor_Demo
begin

text \<open>The properties of the message modules at concrete inputs, evaluated by the simplifier.\<close>

section \<open>Jobs\<close>

lemma settled_demo: "jobs_keyed (empty_db\<lparr>db_jobs := [demo_job ''j'' UNKNOWN]\<rparr>)"
    "find_job (empty_db\<lparr>db_jobs := [demo_job ''j'' UNKNOWN]\<rparr>) ''j'' = Some (demo_job ''j'' UNKNOWN)"
    "settled_status (mj_status (demo_job ''j'' UNKNOWN))"
  by code_simp+

theorem settled_never_resent_witness:
  "\<exists>j'. find_job (fold runtime_step [Claim_Due 10 5, Recover_Stale 20] (empty_db\<lparr>db_jobs := [demo_job ''j'' UNKNOWN]\<rparr>)) ''j'' = Some j'
     \<and> settled_status (mj_status j')"
  using settled_never_resent [OF settled_demo, of "[Claim_Due 10 5, Recover_Stale 20]"] by blast

text \<open>Two due messages of one session: a claim queues one of them.\<close>

definition two_jobs :: runtime_db where
  "two_jobs = empty_db\<lparr>db_jobs := [demo_job ''j'' SCHEDULED, demo_job ''k'' SCHEDULED]\<rparr>"

definition claimed_jobs :: runtime_db where
  "claimed_jobs = fold runtime_step [Claim_Due 10 5] two_jobs"

lemma claimed_one: "filter in_flight (db_jobs claimed_jobs) = [(demo_job ''j'' QUEUED)\<lparr>mj_updatedAt := 10\<rparr>]"
  by code_simp

theorem one_live_message_per_session_witness:
  "{k \<in> set (db_jobs claimed_jobs). in_flight k} = {(demo_job ''j'' QUEUED)\<lparr>mj_updatedAt := 10\<rparr>}"
proof -
  let ?k = "(demo_job ''j'' QUEUED)\<lparr>mj_updatedAt := 10\<rparr>"
  have k: "?k \<in> set (db_jobs claimed_jobs)" "in_flight ?k" 
  proof -
    have "?k \<in> set (filter in_flight (db_jobs claimed_jobs))" by (simp only: claimed_one) simp
    then show "?k \<in> set (db_jobs claimed_jobs)" "in_flight ?k" unfolding set_filter by blast+
  qed
  have session: "mj_sessionId r = ''s''" if "r \<in> set (db_jobs claimed_jobs)" for r
  proof -
    have "list_all (\<lambda>r. mj_sessionId r = ''s'') (db_jobs claimed_jobs)" by code_simp
    then show ?thesis using that by (simp add: list_all_iff)
  qed
  have keyed: "jobs_keyed two_jobs" by code_simp
  have "\<not> clash r r'" if "r \<in> set (db_jobs two_jobs)" for r r'
    using that by (auto simp: two_jobs_def clash_def in_flight_def demo_job_def)
  then have "r = ?k" if "r \<in> set (db_jobs claimed_jobs)" "in_flight r" for r
    using one_live_message_per_session [OF keyed, of r "[Claim_Due 10 5]" ?k] that k session [OF that(1)] session [OF k(1)]
    by (simp add: claimed_jobs_def)
  then show ?thesis using k by blast
qed

theorem due_lane_claimed_witness:
  "\<exists>js db' k. claim_due 10 5 two_jobs = Inr (js, db') \<and> k \<in> set js \<and> mj_sessionId k = ''s'' \<and> mj_status k = QUEUED"
proof -
  have "demo_job ''k'' SCHEDULED \<in> set (db_jobs two_jobs)" by (simp add: two_jobs_def)
  moreover have "lane_candidate 10 (demo_job ''k'' SCHEDULED)" "run_allows two_jobs (mj_id (demo_job ''k'' SCHEDULED))"
    "lane_free 10 two_jobs (mj_sessionId (demo_job ''k'' SCHEDULED))" "int (length (db_lanes two_jobs) + length (db_jobs two_jobs)) \<le> 5"
    by code_simp+
  moreover have "mj_sessionId (demo_job ''k'' SCHEDULED) = ''s''" by (simp add: demo_job_def)
  ultimately show ?thesis using due_lane_claimed by metis
qed

text \<open>Two jobs whose leases ended, one before and one after its send had started.\<close>

definition lost_db :: runtime_db where
  "lost_db = empty_db\<lparr>db_jobs := [(demo_job ''k'' PROCESSING)\<lparr>mj_leaseExpiresAt := Some 5\<rparr>,
     (demo_job ''j'' PROCESSING)\<lparr>mj_leaseExpiresAt := Some 5, mj_upstreamStartedAt := Some 1\<rparr>]\<rparr>"

definition released_db :: runtime_db where
  "released_db = snd (mark_expired_processing_unknown 10 (\<lambda>i. (i, i)) lost_db)"

lemma released: "mark_expired_processing_unknown 10 (\<lambda>i. (i, i)) lost_db = (Inr 1, released_db)"
proof -
  have "fst (mark_expired_processing_unknown 10 (\<lambda>i. (i, i)) lost_db) = Inr 1" by code_simp
  then show ?thesis unfolding released_db_def by (metis prod.collapse)
qed

theorem lost_leases_released_witness:
  "map mj_status (db_jobs released_db) = [SCHEDULED, UNKNOWN] \<and> lane_candidate 10 (hd (db_jobs released_db))"
proof -
  have jobs: "map mj_status (db_jobs released_db) = [SCHEDULED, UNKNOWN] \<and> mj_id (hd (db_jobs released_db)) = ''k''" by code_simp
  then have "hd (db_jobs released_db) \<in> set (db_jobs released_db)" by (cases "db_jobs released_db") auto
  from lost_leases_released [OF released this] show ?thesis
    using jobs by (auto simp: lost_db_def demo_job_def)
qed

definition demo_message :: new_message where
  "demo_message = \<lparr>nm_scope = ''runtime-api'', nm_key = ''k'', nm_requestHash = ''h'', nm_sessionId = ''s'', nm_recipientId = ''g'',
     nm_text = None, nm_content = Some (Campaign_Text ''hello''), nm_scheduledAt = 0, nm_dryRun = False\<rparr>"

lemma demo_created: "create_message_job 0 ''i'' demo_message empty_db
    = Inr (\<lparr>cj_job = new_job 0 ''i'' demo_message, cj_created = True, cj_conflict = False\<rparr>,
        empty_db\<lparr>db_jobs := [new_job 0 ''i'' demo_message]\<rparr>)"
  by (simp add: create_message_job_def find_by_key_def find_job_def empty_db_def)

theorem creation_idempotent_witness:
  "\<exists>j. mj_id j = ''i'' \<and> create_message_job 9 ''i2'' demo_message
     (fold runtime_step [Claim_Due 5 1] (empty_db\<lparr>db_jobs := [new_job 0 ''i'' demo_message]\<rparr>))
   = Inr (\<lparr>cj_job = j, cj_created = False, cj_conflict = False\<rparr>,
       fold runtime_step [Claim_Due 5 1] (empty_db\<lparr>db_jobs := [new_job 0 ''i'' demo_message]\<rparr>))"
  using creation_idempotent [OF demo_created refl refl, of 9 "''i2''" "[Claim_Due 5 1]"] by (simp add: new_job_def demo_message_def)

section \<open>Evidence\<close>

definition demo_evidence :: "nat \<Rightarrow> evidence_kind \<Rightarrow> evidence" where
  "demo_evidence n k = \<lparr>ev_protocolVersion = 1, ev_eventId = replicate n CHR ''e'', ev_commandId = ''c'', ev_attemptId = ''a'', ev_sessionId = ''s'',
     ev_sequence = n, ev_kind = k, ev_openwaMessageId = Some ''m'', ev_deliveryStatus = DS_ACCEPTED, ev_errorClass = None,
     ev_errorCode = None, ev_bindingGeneration = 1, ev_pluginVersion = ''1'', ev_occurredAt = 15, ev_payloadSha256 = ''d''\<rparr>"

definition accepted_db :: runtime_db where
  "accepted_db = result_db (project_evidence 20 (demo_evidence 1 EV_SEND_ACCEPTED) committed_db)"

lemma accepted: "project_evidence 20 (demo_evidence 1 EV_SEND_ACCEPTED) committed_db
    = Inr (\<lparr>pj_state = RS_Applied, pj_statusAdvanced = True, pj_jobId = Some ''j''\<rparr>, accepted_db)"
  unfolding accepted_db_def by (rule result_dbI) code_simp

theorem evidence_projected_once_witness:
  "project_evidence 40 (demo_evidence 1 EV_SEND_ACCEPTED) (fold runtime_step [Project_Evidence 30 (demo_evidence 2 ACK_READ)] accepted_db)
   = Inr (\<lparr>pj_state = RS_Applied, pj_statusAdvanced = False, pj_jobId = Some ''j''\<rparr>,
       fold runtime_step [Project_Evidence 30 (demo_evidence 2 ACK_READ)] accepted_db)"
  using evidence_projected_once [OF accepted, of 40 "[Project_Evidence 30 (demo_evidence 2 ACK_READ)]"] by simp

lemma target_of: "evidence_target db ev \<noteq> None \<Longrightarrow> evidence_target db ev = Some (fst (the (evidence_target db ev)), snd (the (evidence_target db ev)))"
  by auto

abbreviation demo_target :: "runtime_db \<Rightarrow> message_attempt \<times> message_job" where
  "demo_target db \<equiv> the (evidence_target db (demo_evidence 1 EV_SEND_ACCEPTED))"

theorem evidence_effect_witness:
  "\<exists>r db' j'. project_evidence 20 (demo_evidence 1 EV_SEND_ACCEPTED) committed_db = Inr (r, db')
     \<and> find_job db' ''j'' = Some j' \<and> mj_status j' = ACCEPTED"
proof -
  have target: "evidence_target committed_db (demo_evidence 1 EV_SEND_ACCEPTED) = Some (fst (demo_target committed_db), snd (demo_target committed_db))"
    by (rule target_of) code_simp
  have facts: "evidence_mismatch (fst (demo_target committed_db)) (snd (demo_target committed_db)) (demo_evidence 1 EV_SEND_ACCEPTED) = None"
    "find_evidence committed_db (ev_eventId (demo_evidence 1 EV_SEND_ACCEPTED)) = None" "\<not> sequence_taken committed_db (demo_evidence 1 EV_SEND_ACCEPTED)"
    "ma_lastSequence (fst (demo_target committed_db)) < ev_sequence (demo_evidence 1 EV_SEND_ACCEPTED)" "jobs_keyed committed_db"
    by code_simp+
  have job: "mj_status (snd (demo_target committed_db)) = PROCESSING" "mj_id (snd (demo_target committed_db)) = ''j''"
    "coalesce (mj_messageId (snd (demo_target committed_db))) (ma_messageId (fst (demo_target committed_db))) = None"
    by code_simp+
  have chain: "last (PROCESSING # connector_job_status_transitions PROCESSING (ev_kind (demo_evidence 1 EV_SEND_ACCEPTED))) = ACCEPTED"
    by code_simp
  from evidence_effect [OF target facts, of 20] show ?thesis unfolding job(1,3) chain job(2) by (simp add: truthy_def) blast
qed

text \<open>The job was scheduled again after its command had been rejected as rate limited: the acceptance arrives late.\<close>

definition rescheduled_db :: runtime_db where
  "rescheduled_db = run_tx (reschedule_processing 20 (''x'', ''y'') ''j'' ''429'' 5000) committed_db"

theorem late_evidence_rejected_witness:
  "\<exists>s t. transaction (project_evidence 30 (demo_evidence 1 EV_SEND_ACCEPTED)) rescheduled_db = (Inl (Illegal_Transition s t), rescheduled_db)"
proof -
  have target: "evidence_target rescheduled_db (demo_evidence 1 EV_SEND_ACCEPTED) = Some (fst (demo_target rescheduled_db), snd (demo_target rescheduled_db))"
    by (rule target_of) code_simp
  have facts: "evidence_mismatch (fst (demo_target rescheduled_db)) (snd (demo_target rescheduled_db)) (demo_evidence 1 EV_SEND_ACCEPTED) = None"
    "find_evidence rescheduled_db (ev_eventId (demo_evidence 1 EV_SEND_ACCEPTED)) = None" "\<not> sequence_taken rescheduled_db (demo_evidence 1 EV_SEND_ACCEPTED)"
    "ma_lastSequence (fst (demo_target rescheduled_db)) < ev_sequence (demo_evidence 1 EV_SEND_ACCEPTED)"
    by code_simp+
  have job: "mj_status (snd (demo_target rescheduled_db)) = SCHEDULED"
    "coalesce (mj_messageId (snd (demo_target rescheduled_db))) (ma_messageId (fst (demo_target rescheduled_db))) = None"
    by code_simp+
  have kind: "ev_kind (demo_evidence 1 EV_SEND_ACCEPTED) = EV_SEND_ACCEPTED" by (simp add: demo_evidence_def)
  show ?thesis by (rule late_evidence_rejected [OF target facts]) (simp_all add: job kind truthy_def del: One_nat_def)
qed

section \<open>Commands\<close>

definition claimed_db :: runtime_db where
  "claimed_db = result_db (claim_commands 20 (\<lambda>a. ''l'') 10 30000 5 None committed_db)"

definition demo_claim :: "string \<Rightarrow> nat \<Rightarrow> claimed_command" where
  "demo_claim l n = \<lparr>cl_attemptId = ''a'', cl_commandId = ''c'', cl_jobId = ''j'', cl_leaseId = l, cl_body = ''b'', cl_payloadSha256 = ''d'',
     cl_expiresAt = 100000, cl_deliveryAttempt = n\<rparr>"

lemma claimed: "claim_commands 20 (\<lambda>a. ''l'') 10 30000 5 None committed_db = Inr ([demo_claim ''l'' 1], claimed_db)"
  unfolding claimed_db_def by (rule result_dbI) code_simp

theorem command_lease_excludes_witness:
  "claim_commands 40 (\<lambda>a. ''l2'') 10 30000 5 None (fold runtime_step [Claim_Commands 30 (\<lambda>a. ''l3'') 1 10 5 None] claimed_db)
   \<noteq> Inr ([demo_claim ''l2'' 2], claimed_db)"
proof
  assume again: "claim_commands 40 (\<lambda>a. ''l2'') 10 30000 5 None (fold runtime_step [Claim_Commands 30 (\<lambda>a. ''l3'') 1 10 5 None] claimed_db)
   = Inr ([demo_claim ''l2'' 2], claimed_db)"
  have "cl_attemptId (demo_claim ''l'' 1) \<notin> cl_attemptId ` set [demo_claim ''l2'' 2]"
    by (rule command_lease_excludes [OF claimed _ _ _ again]) (simp_all add: respects_lease_def)
  then show False by (simp add: demo_claim_def)
qed

definition demo_dispatch_config :: dispatch_config where
  "demo_dispatch_config = \<lparr>dc_required = True, dc_batchSize = 10, dc_leaseMs = 30000, dc_maximumAttempts = 2, dc_evidenceTimeoutSeconds = 60,
     dc_inboxConfigured = False, dc_inboxPollMs = 1000\<rparr>"

definition demo_answer :: "submit_error + bool \<Rightarrow> dispatch_env" where
  "demo_answer r = \<lparr>de_ready = None, de_answer = r, de_js = 50, de_now = 50\<rparr>"

theorem stale_dispatch_no_effect_witness:
  "run_tx (dispatch (\<lambda>b. ''d'') demo_dispatch_config (\<lambda>c n. 0) (demo_answer (Inr False)) (demo_claim ''l0'' 1)) claimed_db = claimed_db"
proof -
  have "\<not> list_ex (leased_to (demo_claim ''l0'' 1)) (db_attempts claimed_db)" by code_simp
  then show ?thesis by (rule stale_dispatch_no_effect)
qed

text \<open>The first delivery ended ambiguously, the second and last is refused with 429.\<close>

definition ambiguous_db :: runtime_db where
  "ambiguous_db = run_tx (dispatch (\<lambda>b. ''d'') demo_dispatch_config (\<lambda>c n. 0) (demo_answer (Inl (Other_Error ''timeout''))) (demo_claim ''l'' 1)) claimed_db"

definition second_db :: runtime_db where
  "second_db = result_db (claim_commands 5000 (\<lambda>a. ''l2'') 10 30000 2 None ambiguous_db)"

lemma second_claim: "claim_commands 5000 (\<lambda>a. ''l2'') 10 30000 2 None ambiguous_db = Inr ([demo_claim ''l2'' 2], second_db)"
  unfolding second_db_def by (rule result_dbI) code_simp

theorem exhausted_rate_limit_reschedules_witness:
  "map ma_failureKind (db_attempts ambiguous_db) = [Some AMBIGUOUS_RETRYABLE] \<and>
   (\<exists>db' j'. dispatch (\<lambda>b. ''d'') demo_dispatch_config (\<lambda>c n. 0) (demo_answer (Inl (Ingress_Error RATE_LIMITED_SAFE (Some 429) None ''429''))) (demo_claim ''l2'' 2) second_db
     = Inr (True, db') \<and> find_job db' ''j'' = Some j' \<and> mj_status j' = SCHEDULED \<and> mj_upstreamStartedAt j' = None \<and> mj_leaseToken j' = None)"
proof -
  have facts: "map ma_failureKind (db_attempts ambiguous_db) = [Some AMBIGUOUS_RETRYABLE]" "distinct (map ma_attemptId (db_attempts second_db))"
    "length (db_attempts second_db) = 1" "leased_to (demo_claim ''l2'' 2) (hd (db_attempts second_db))" "jobs_keyed second_db"
    "ma_jobId (hd (db_attempts second_db)) = ''j''" "map_option mj_status (find_job second_db ''j'') = Some PROCESSING"
    by code_simp+
  have a: "hd (db_attempts second_db) \<in> set (db_attempts second_db)" using facts(3) by (cases "db_attempts second_db") auto
  obtain j where j: "find_job second_db (ma_jobId (hd (db_attempts second_db))) = Some j" "mj_status j = PROCESSING"
    using facts(7) unfolding facts(6) by auto
  show ?thesis using facts(1) exhausted_rate_limit_reschedules [OF facts(2) a facts(4,5) j, of demo_dispatch_config
      "demo_answer (Inl (Ingress_Error RATE_LIMITED_SAFE (Some 429) None ''429''))" "\<lambda>b. ''d''"]
    unfolding facts(6) by (simp add: demo_answer_def demo_dispatch_config_def demo_claim_def is_dispatch_ready_def)
qed

section \<open>Processing\<close>

text \<open>A queued message to a group, sent directly; OpenWA answers with the status \<open>n\<close>.\<close>

definition queued_db :: runtime_db where
  "queued_db = demo_db\<lparr>db_jobs := [(demo_job ''j'' QUEUED)\<lparr>mj_recipientId := ''g@g.us''\<rparr>],
     db_groups := [((''s'', ''g@g.us''), \<lparr>gg_active = True, gg_sendAllowed = True, gg_invalidated = False\<rparr>)]\<rparr>"

definition demo_process_config :: process_config where
  "demo_process_config = \<lparr>pc_allowLive = True, pc_safeRetryMax = 3, pc_connectorPollMs = 1000, pc_commandTtlSeconds = 60,
     pc_governor = \<lparr>gc_upstreamId = ''u'', gc_requestDeadlineMs = 30000, gc_evidenceTimeoutSeconds = 60, gc_connectorRequired = False,
       gc_inboxConfigured = False, gc_inboxPollMs = 1000\<rparr>, pc_dispatch = demo_dispatch_config\<rparr>"

definition demo_process_env :: "int \<Rightarrow> process_env" where
  "demo_process_env n = \<lparr>pn_between = (\<lambda>k db. db), pn_js = (\<lambda>k. int k), pn_now = (\<lambda>k. int k), pn_safety = True, pn_snapshot = True,
     pn_waits = 0, pn_view = \<lparr>gv_allowed = (\<lambda>s. True), gv_sendable = (\<lambda>s. True), gv_group = (\<lambda>s r. Some (True, []))\<rparr>,
     pn_incompatible = None, pn_readiness = None, pn_heartbeat = (False, 0), pn_token = ''t'', pn_attemptId = ''a'', pn_commandId = ''c'',
     pn_fresh = (''x'', ''y''), pn_media = Inl PE_Transport, pn_commandPath = True, pn_relay = Inl PE_Transport, pn_encode = (\<lambda>v. None),
     pn_fmt = (\<lambda>t. []), pn_send = Inl (PE_Http n None), pn_sha = (\<lambda>b. ''d''), pn_seed = (\<lambda>c n. 0), pn_ingress = (\<lambda>c. demo_answer (Inr False)),
     pn_lease = (\<lambda>a. ''l''), pn_dispatchReady = None, pn_describe = (\<lambda>e. ''error''),
     pn_lower = (\<lambda>x. x)\<rparr>"

definition demo_start :: process_state where
  "demo_start = \<lparr>ps_db = queued_db, ps_permit = None, ps_committed = None, ps_sends = [], ps_refreshes = []\<rparr>"

definition demo_end :: "int \<Rightarrow> process_state" where
  "demo_end n = snd (process_job demo_process_config (demo_process_env n) ''j'' demo_start)"

lemma demo_ran: "process_job demo_process_config (demo_process_env n) ''j'' demo_start
    = (fst (process_job demo_process_config (demo_process_env n) ''j'' demo_start), demo_end n)"
  by (simp add: demo_end_def)

lemma demo_sent: "ps_sends (demo_end 500) = [(''s'', ''g@g.us'')]" "ps_sends (demo_end 429) = [(''s'', ''g@g.us'')]"
    "map_option cms_attemptNumber (ps_committed (demo_end 429)) = Some 1"
  by code_simp+

lemma demo_unsent: "ps_sends demo_start = []" "jobs_keyed (ps_db demo_start)"
  by code_simp+

theorem send_behind_fence_witness:
  "\<exists>job p d. fence_database demo_process_config (demo_process_env 500) ''j'' demo_start = Some (job, p, d)
     \<and> list_ex (\<lambda>j. may_send 4 p False None False 0 j d) (db_jobs d)
     \<and> ps_sends (demo_end 500) = [(mpt_sessionId p, mpt_recipientId p)]"
proof -
  have "ps_sends (demo_end 500) \<noteq> []" by (simp add: demo_sent)
  from send_behind_fence [OF demo_ran demo_unsent(1) this] show ?thesis by (auto simp: demo_process_env_def)
qed


end
