(* ===== verification/Campaign_Preflight.thy ===== *)
theory Campaign_Preflight
  imports Safety_Forecast
begin

text \<open>
  The review of a campaign before it is launched (\<open>campaigns/campaign-preflight.ts\<close>), the service that
  gathers its input (\<open>campaign-preflight.service.ts\<close>) and the signed proof of a passing LIVE review
  (\<open>campaign-live-preflight-token.service.ts\<close>). HMAC, base64url, the text of JSON and the UUID schema of the
  validation library are arguments of the definitions that use them.
\<close>

section \<open>The data\<close>

datatype execution_mode = Dry_Run | Live

datatype preflight_status = PF_Pass | PF_Warn | PF_Block

datatype check_code =
    Content_Valid | Media_Ready | Targets_Valid | Session_Sendable | Group_Capability | Live_Send_Allowed
  | Safety_Ready

datatype target_issue_reason = Target_Capability_Denied | Target_Capability_Unknown | Target_Capability_Stale

datatype send_capability = Cap_Allowed | Cap_Denied | Cap_Unknown

record capability_view =
  cv_status :: send_capability
  cv_reason :: string
  cv_checkedAt :: "millis option"
  cv_invalidatedAt :: "millis option"
  cv_revision :: int

record campaign_target =
  ct_groupId :: string
  ct_groupName :: string
  ct_enabled :: bool
  ct_capability :: capability_view

record preflight_session =
  pf_status :: string
  pf_engineLoaded :: bool
  pf_restricted :: bool

record preflight_check =
  pc_code :: check_code
  pc_status :: preflight_status
  pc_message :: string

record target_issue =
  ti_groupId :: string
  ti_groupName :: string
  ti_capability :: send_capability
  ti_reason :: target_issue_reason

text \<open>\<open>outboundState\<close> is \<open>Some True\<close> for PAUSED.\<close>

record preflight_input =
  pi_mode :: execution_mode
  pi_content :: "campaign_content option"
  pi_text :: "string option"
  pi_mediaReady :: bool
  pi_targets :: "campaign_target list"
  pi_session :: preflight_session
  pi_liveSendsEnabled :: bool
  pi_safetyStatus :: "safety_status option"
  pi_outboundPaused :: "bool option"
  pi_forecast :: "message_forecast option"
  pi_campaignRevision :: int
  pi_targetsRevision :: int
  pi_checkedAt :: "millis option"

record preflight_report =
  pr_status :: preflight_status
  pr_policyVersion :: int
  pr_campaignRevision :: int
  pr_targetsRevision :: int
  pr_mode :: execution_mode
  pr_checkedAt :: millis
  pr_totalTargets :: nat
  pr_allowedTargets :: nat
  pr_deniedTargets :: nat
  pr_unknownTargets :: nat
  pr_checks :: "preflight_check list"
  pr_issues :: "target_issue list"
  pr_forecast :: "message_forecast option"

definition campaign_preflight_policy_version :: int where
  "campaign_preflight_policy_version = 6"

section \<open>The checks\<close>

definition effective_capability :: "capability_view \<Rightarrow> send_capability" where
  "effective_capability c = (if cv_invalidatedAt c = None then cv_status c else Cap_Unknown)"

definition issue_reason :: "capability_view \<Rightarrow> target_issue_reason" where
  "issue_reason c =
     (if cv_invalidatedAt c \<noteq> None then Target_Capability_Stale
      else if effective_capability c = Cap_Denied then Target_Capability_Denied
      else Target_Capability_Unknown)"

definition target_issues :: "campaign_target list \<Rightarrow> target_issue list" where
  "target_issues ts = map (\<lambda>t. \<lparr>ti_groupId = ct_groupId t, ti_groupName = ct_groupName t,
       ti_capability = effective_capability (ct_capability t), ti_reason = issue_reason (ct_capability t)\<rparr>)
     (filter (\<lambda>t. effective_capability (ct_capability t) \<noteq> Cap_Allowed) ts)"

definition pass_or_block :: "bool \<Rightarrow> preflight_status" where
  "pass_or_block b = (if b then PF_Pass else PF_Block)"

definition preflight_content :: "preflight_input \<Rightarrow> campaign_content" where
  "preflight_content i = (case pi_content i of Some c \<Rightarrow> c
     | None \<Rightarrow> Campaign_Text (case pi_text i of Some t \<Rightarrow> t | None \<Rightarrow> []))"

definition content_valid :: "campaign_content \<Rightarrow> bool" where
  "content_valid c = (case c of
       Campaign_Text t \<Rightarrow> trim t \<noteq> [] \<and> length t \<le> 4096
     | Campaign_Image i \<Rightarrow> length (case ci_caption i of Some x \<Rightarrow> x | None \<Rightarrow> []) \<le> 1024)"

definition content_check :: "campaign_content \<Rightarrow> preflight_check" where
  "content_check c = \<lparr>pc_code = Content_Valid, pc_status = pass_or_block (content_valid c),
     pc_message = (case c of
         Campaign_Text _ \<Rightarrow> if content_valid c then ''Text content is valid'' else ''Text content is invalid''
       | Campaign_Image _ \<Rightarrow> if content_valid c then ''Image content is valid'' else ''Image caption is invalid'')\<rparr>"

definition forecast_blocked :: "preflight_input \<Rightarrow> bool" where
  "forecast_blocked i = (case pi_forecast i of None \<Rightarrow> False | Some f \<Rightarrow> mf_status f = Forecast_Blocked)"

definition safety_ready :: "preflight_input \<Rightarrow> bool" where
  "safety_ready i \<longleftrightarrow> pi_mode i \<noteq> Live
     \<or> ((pi_safetyStatus i = None \<or> pi_safetyStatus i = Some St_READY)
        \<and> pi_outboundPaused i \<noteq> Some True \<and> \<not> forecast_blocked i)"

fun status_word :: "safety_status option \<Rightarrow> string" where
  "status_word None = ''undefined''"
| "status_word (Some St_READY) = ''ready''"
| "status_word (Some St_THROTTLED) = ''throttled''"
| "status_word (Some St_COOLDOWN) = ''cooldown''"
| "status_word (Some St_RECOVERY) = ''recovery''"
| "status_word (Some St_BLOCKED) = ''blocked''"

definition safety_check :: "preflight_input \<Rightarrow> preflight_check" where
  "safety_check i = \<lparr>pc_code = Safety_Ready, pc_status = pass_or_block (safety_ready i),
     pc_message =
       (if pi_mode i \<noteq> Live then ''Dry-run does not consume the live safety budget''
        else if safety_ready i then ''Session safety controls are ready''
        else if pi_outboundPaused i = Some True then ''Outbound sends are paused by the operator''
        else if forecast_blocked i
        then ''Outbound admission is blocked: '' @ first_some [Option.bind (pi_forecast i) mf_reason] ''SAFETY_BLOCKED''
        else ''Session safety controls are '' @ status_word (pi_safetyStatus i))\<rparr>"

definition media_check :: "bool \<Rightarrow> preflight_check" where
  "media_check ready = \<lparr>pc_code = Media_Ready, pc_status = pass_or_block ready,
     pc_message = (if ready then ''Image asset is ready and immutable'' else ''Image asset is missing or changed'')\<rparr>"

definition targets_check :: "campaign_target list \<Rightarrow> preflight_check" where
  "targets_check ts = \<lparr>pc_code = Targets_Valid, pc_status = pass_or_block (ts \<noteq> []),
     pc_message = (if ts \<noteq> [] then text_of_int (int (length ts)) @ '' target groups selected''
                   else ''At least one target group is required'')\<rparr>"

definition session_sendable :: "preflight_session \<Rightarrow> bool" where
  "session_sendable s \<longleftrightarrow> pf_status s = ''ready'' \<and> pf_engineLoaded s \<and> \<not> pf_restricted s"

definition session_check :: "preflight_session \<Rightarrow> preflight_check" where
  "session_check s = \<lparr>pc_code = Session_Sendable, pc_status = pass_or_block (session_sendable s),
     pc_message = (if session_sendable s then ''Session is ready'' else ''Session is not ready or is restricted'')\<rparr>"

definition capability_check :: "execution_mode \<Rightarrow> target_issue list \<Rightarrow> preflight_check" where
  "capability_check m issues = \<lparr>pc_code = Group_Capability,
     pc_status = (if issues \<noteq> [] then (if m = Dry_Run then PF_Warn else PF_Block) else PF_Pass),
     pc_message = (if issues \<noteq> [] then text_of_int (int (length issues)) @ '' targets are denied or unknown''
                   else ''All targets have current send capability'')\<rparr>"

definition live_check :: "execution_mode \<Rightarrow> bool \<Rightarrow> preflight_check" where
  "live_check m enabled = \<lparr>pc_code = Live_Send_Allowed,
     pc_status = (if m = Live \<and> \<not> enabled then PF_Block else PF_Pass),
     pc_message = (if m = Live then (if enabled then ''Live sends are enabled'' else ''Live sends are disabled'')
                   else ''Dry-run does not require live sends'')\<rparr>"

definition is_text :: "campaign_content \<Rightarrow> bool" where
  "is_text c = (case c of Campaign_Text _ \<Rightarrow> True | Campaign_Image _ \<Rightarrow> False)"

definition preflight_checks :: "preflight_input \<Rightarrow> preflight_check list" where
  "preflight_checks i =
     content_check (preflight_content i) # safety_check i
     # (if is_text (preflight_content i) then [] else [media_check (pi_mediaReady i)])
     @ [targets_check (pi_targets i), session_check (pi_session i),
        capability_check (pi_mode i) (target_issues (pi_targets i)),
        live_check (pi_mode i) (pi_liveSendsEnabled i)]"

definition overall_status :: "preflight_check list \<Rightarrow> preflight_status" where
  "overall_status cs =
     (if list_ex (\<lambda>c. pc_status c = PF_Block) cs then PF_Block
      else if list_ex (\<lambda>c. pc_status c = PF_Warn) cs then PF_Warn else PF_Pass)"

definition evaluate_campaign_preflight :: "millis \<Rightarrow> preflight_input \<Rightarrow> preflight_report" where
  "evaluate_campaign_preflight js i =
     (let issues = target_issues (pi_targets i); checks = preflight_checks i
      in \<lparr>pr_status = overall_status checks, pr_policyVersion = campaign_preflight_policy_version,
          pr_campaignRevision = pi_campaignRevision i, pr_targetsRevision = pi_targetsRevision i,
          pr_mode = pi_mode i, pr_checkedAt = (case pi_checkedAt i of Some t \<Rightarrow> t | None \<Rightarrow> js),
          pr_totalTargets = length (pi_targets i),
          pr_allowedTargets = length (pi_targets i) - length issues,
          pr_deniedTargets = length (filter (\<lambda>t. ti_capability t = Cap_Denied) issues),
          pr_unknownTargets = length (filter (\<lambda>t. ti_capability t = Cap_Unknown) issues),
          pr_checks = checks, pr_issues = issues, pr_forecast = pi_forecast i\<rparr>)"

section \<open>The service\<close>

text \<open>\<open>CampaignPreflightService.evaluate\<close>: \<open>session\<close> is the gateway's row, \<open>snapshot\<close> the governor's answer and
  \<open>forecast\<close> its forecast, read only for a LIVE review of some targets.\<close>

record preflight_env =
  pe_session :: "string \<Rightarrow> preflight_session option"
  pe_mediaMatches :: "campaign_content \<Rightarrow> string \<Rightarrow> bool"
  pe_safety :: "string \<Rightarrow> safety_status \<times> bool"
  pe_forecast :: "string \<Rightarrow> string list \<Rightarrow> message_type \<Rightarrow> message_forecast"
  pe_liveSends :: bool

definition evaluate_preflight ::
  "preflight_env \<Rightarrow> millis \<Rightarrow> execution_mode \<Rightarrow> string \<Rightarrow> campaign_content \<Rightarrow> campaign_target list \<Rightarrow> int \<Rightarrow> int
     \<Rightarrow> preflight_report" where
  "evaluate_preflight env js m s c ts revision targetsRevision =
     evaluate_campaign_preflight js
       \<lparr>pi_mode = m, pi_content = Some c, pi_text = None,
        pi_mediaReady = (is_text c \<or> pe_mediaMatches env c s), pi_targets = ts,
        pi_session = (case pe_session env s of Some x \<Rightarrow> x
          | None \<Rightarrow> \<lparr>pf_status = ''missing'', pf_engineLoaded = False, pf_restricted = True\<rparr>),
        pi_liveSendsEnabled = pe_liveSends env, pi_safetyStatus = Some (fst (pe_safety env s)),
        pi_outboundPaused = Some (snd (pe_safety env s)),
        pi_forecast = (if m = Live \<and> ts \<noteq> []
          then Some (pe_forecast env s (map ct_groupId ts) (if is_text c then Text_Message else Image_Message))
          else None),
        pi_campaignRevision = revision, pi_targetsRevision = targetsRevision, pi_checkedAt = None\<rparr>"

section \<open>The LIVE launch token\<close>

record launch_claims =
  lc_version :: int
  lc_campaignId :: string
  lc_sessionId :: string
  lc_campaignRevision :: int
  lc_targetsRevision :: int
  lc_policyVersion :: int
  lc_issuedAt :: int
  lc_expiresAt :: int
  lc_nonce :: string

datatype token_error = Token_Expired | Token_Malformed | Token_Mismatch | Not_A_Passing_Live_Preflight

text \<open>\<open>tc_sign\<close> is the HMAC of a text with the Runtime's key, in base64url, \<open>tc_encode\<close> the text of an object in
  base64url, \<open>tc_decode\<close> the value read back from it and \<open>tc_bytes\<close> the bytes of a base64url text.\<close>

record token_codec =
  tc_sign :: "string \<Rightarrow> string"
  tc_encode :: "js_value \<Rightarrow> string"
  tc_decode :: "string \<Rightarrow> js_value option"
  tc_bytes :: "string \<Rightarrow> string"
  tc_text :: "string \<Rightarrow> string"
  tc_uuid :: "string \<Rightarrow> bool"
  tc_ttl :: int

definition token_prefix :: string where
  "token_prefix = ''clp1''"

definition signature_context :: string where
  "signature_context = ''campaign-live-preflight:v1:''"

definition launch_claims_fields :: "string list" where
  "launch_claims_fields = [''version'', ''campaignId'', ''sessionId'', ''campaignRevision'', ''targetsRevision'',
     ''policyVersion'', ''issuedAt'', ''expiresAt'', ''nonce'']"

definition claims_value :: "launch_claims \<Rightarrow> js_value" where
  "claims_value c = JObject
     [(''version'', JNumber (of_int (lc_version c))), (''campaignId'', JString (lc_campaignId c)),
      (''sessionId'', JString (lc_sessionId c)), (''campaignRevision'', JNumber (of_int (lc_campaignRevision c))),
      (''targetsRevision'', JNumber (of_int (lc_targetsRevision c))),
      (''policyVersion'', JNumber (of_int (lc_policyVersion c))), (''issuedAt'', JNumber (of_int (lc_issuedAt c))),
      (''expiresAt'', JNumber (of_int (lc_expiresAt c))), (''nonce'', JString (lc_nonce c))]"

text \<open>\<open>z.number().int().min(lo)\<close> (a safe integer) and \<open>z.uuid()\<close>.\<close>

fun schema_int :: "int \<Rightarrow> js_value \<Rightarrow> int option" where
  "schema_int lo (JNumber q) = (if is_safe_integer q \<and> lo \<le> \<lfloor>q\<rfloor> then Some \<lfloor>q\<rfloor> else None)"
| "schema_int lo _ = None"

fun schema_uuid :: "token_codec \<Rightarrow> js_value \<Rightarrow> string option" where
  "schema_uuid T (JString s) = (if tc_uuid T s then Some s else None)"
| "schema_uuid T _ = None"

text \<open>\<open>claimsSchema.parse\<close>; \<open>strict\<close> refuses any other field.\<close>

definition parse_claims :: "token_codec \<Rightarrow> js_value \<Rightarrow> launch_claims option" where
  "parse_claims T v =
     (case v of JObject ps \<Rightarrow>
        if \<not> list_all (\<lambda>(k, _). k \<in> set launch_claims_fields) ps then None
        else (case (js_field v ''version'', schema_uuid T (js_field v ''campaignId''),
            schema_uuid T (js_field v ''sessionId''), schema_int 1 (js_field v ''campaignRevision''),
            schema_int 0 (js_field v ''targetsRevision''), schema_int 1 (js_field v ''policyVersion''),
            schema_int 0 (js_field v ''issuedAt''), schema_int 1 (js_field v ''expiresAt''),
            schema_uuid T (js_field v ''nonce'')) of
          (JNumber n, Some campaign, Some session, Some revision, Some targets, Some policy, Some issued, Some expires, Some nonce) \<Rightarrow>
            if n = 1 then Some \<lparr>lc_version = 1, lc_campaignId = campaign, lc_sessionId = session,
              lc_campaignRevision = revision, lc_targetsRevision = targets, lc_policyVersion = policy,
              lc_issuedAt = issued, lc_expiresAt = expires, lc_nonce = nonce\<rparr>
            else None
        | _ \<Rightarrow> None)
      | _ \<Rightarrow> None)"

definition sign_payload :: "token_codec \<Rightarrow> string \<Rightarrow> string" where
  "sign_payload T payload = tc_sign T (signature_context @ payload)"

definition issued_claims :: "token_codec \<Rightarrow> string \<Rightarrow> string \<Rightarrow> string \<Rightarrow> preflight_report \<Rightarrow> launch_claims" where
  "issued_claims T nonce campaign session r =
     (let issued = pr_checkedAt r div 1000
      in \<lparr>lc_version = 1, lc_campaignId = campaign, lc_sessionId = session,
          lc_campaignRevision = pr_campaignRevision r, lc_targetsRevision = pr_targetsRevision r,
          lc_policyVersion = pr_policyVersion r, lc_issuedAt = issued, lc_expiresAt = issued + tc_ttl T,
          lc_nonce = nonce\<rparr>)"

definition issue_token ::
  "token_codec \<Rightarrow> string \<Rightarrow> string \<Rightarrow> string \<Rightarrow> preflight_report \<Rightarrow> token_error + (string \<times> millis)" where
  "issue_token T nonce campaign session r =
     (if pr_mode r \<noteq> Live \<or> pr_status r \<noteq> PF_Pass then Inl Not_A_Passing_Live_Preflight
      else (let c = issued_claims T nonce campaign session r; payload = tc_encode T (claims_value c)
            in Inr (join_with ''.'' [token_prefix, payload, sign_payload T payload], lc_expiresAt c * 1000)))"

record expected_launch =
  el_campaignId :: string
  el_sessionId :: string
  el_campaignRevision :: int
  el_targetsRevision :: int

definition signature_matches :: "token_codec \<Rightarrow> string \<Rightarrow> string \<Rightarrow> bool" where
  "signature_matches T payload signature \<longleftrightarrow>
     signature = tc_text T (tc_bytes T signature)
     \<and> length (tc_bytes T signature) = length (tc_bytes T (sign_payload T payload))
     \<and> tc_bytes T signature = tc_bytes T (sign_payload T payload)"

definition claims_expected :: "expected_launch \<Rightarrow> bool \<Rightarrow> launch_claims \<Rightarrow> bool" where
  "claims_expected e allow_expired c \<longleftrightarrow> lc_campaignId c = el_campaignId e \<and> lc_sessionId c = el_sessionId e
     \<and> lc_campaignRevision c = el_campaignRevision e \<and> lc_targetsRevision c = el_targetsRevision e
     \<and> (allow_expired \<or> lc_policyVersion c = campaign_preflight_policy_version)"

definition verify_token ::
  "token_codec \<Rightarrow> millis \<Rightarrow> bool \<Rightarrow> expected_launch \<Rightarrow> string \<Rightarrow> token_error + launch_claims" where
  "verify_token T js allow_expired e token =
     (case split_on CHR ''.'' token of
        [prefix, payload, signature] \<Rightarrow>
          if prefix \<noteq> token_prefix \<or> payload = [] \<or> signature = [] \<or> \<not> signature_matches T payload signature
          then Inl Token_Malformed
          else (case Option.bind (tc_decode T payload) (parse_claims T) of
             None \<Rightarrow> Inl Token_Malformed
           | Some c \<Rightarrow>
               if (\<not> allow_expired \<and> lc_expiresAt c \<le> js div 1000) \<or> js div 1000 + 30 < lc_issuedAt c then Inl Token_Expired
               else if \<not> claims_expected e allow_expired c then Inl Token_Mismatch
               else Inr c)
      | _ \<Rightarrow> Inl Token_Malformed)"

text \<open>\<open>withLiveLaunchToken\<close>: the token and its expiry, both null without a passing LIVE review.\<close>

definition with_live_launch_token ::
  "token_codec \<Rightarrow> string \<Rightarrow> string \<Rightarrow> string \<Rightarrow> preflight_report \<Rightarrow> preflight_report \<times> (string \<times> millis) option" where
  "with_live_launch_token T nonce campaign session r =
     (case issue_token T nonce campaign session r of Inl _ \<Rightarrow> (r, None) | Inr x \<Rightarrow> (r, Some x))"

end
