(* ===== verification/Campaign_Tables.thy ===== *)
theory Campaign_Tables
  imports Message_Jobs Campaign_Preflight
begin

text \<open>
  The campaign tables: campaigns with their targets, runs with the snapshot of the targets, deliveries, the groups of
  the gateway, activity and action receipts. They live in the same database as the message jobs, which is the field
  \<open>cb_runtime\<close>; what the message modules read of the runs is \<open>runs_view\<close>. The two triggers that guard the status of a
  run and of a delivery are part of every update of those tables, and the unique indexes of the runs part of an insert.
\<close>

section \<open>Rows\<close>

datatype campaign_status = CS_DRAFT | CS_ACTIVE | CS_PAUSED | CS_ARCHIVED

record audience_source =
  as_groupListId :: "string option"
  as_groupListName :: "string option"
  as_membershipRevision :: "int option"
  as_appliedAt :: "millis option"

record campaign_row =
  cp_id :: string
  cp_name :: string
  cp_sessionId :: string
  cp_content :: campaign_content
  cp_once :: bool
  cp_scheduledAt :: "millis option"
  cp_status :: campaign_status
  cp_revision :: int
  cp_targetsRevision :: int
  cp_source :: audience_source
  cp_deleted :: bool
  cp_updatedAt :: millis

text \<open>The report stands for the columns \<open>preflight_status\<close>, \<open>preflight_policy_version\<close> and \<open>preflight_report\<close>.\<close>

record run_row =
  cr_id :: string
  cr_campaignId :: string
  cr_campaignName :: string
  cr_sessionId :: string
  cr_key :: string
  cr_mode :: execution_mode
  cr_status :: run_status
  cr_reason :: "string option"
  cr_content :: campaign_content
  cr_campaignRevision :: int
  cr_targetsRevision :: int
  cr_source :: audience_source
  cr_report :: "preflight_report option"
  cr_scheduledAt :: millis
  cr_deadline :: "millis option"
  cr_startedAt :: "millis option"
  cr_completedAt :: "millis option"
  cr_attempts :: nat
  cr_nextAttemptAt :: millis
  cr_leaseToken :: "string option"
  cr_leaseExpiresAt :: "millis option"
  cr_error :: "string option"
  cr_createdAt :: millis
  cr_updatedAt :: millis

record run_target =
  rt_runId :: string
  rt_sessionId :: string
  rt_groupId :: string
  rt_groupName :: string
  rt_capability :: send_capability
  rt_reason :: string
  rt_revision :: int
  rt_checkedAt :: "millis option"
  rt_participants :: "int option"

datatype campaign_delivery_status =
    CD_PENDING | CD_MATERIALIZED | CD_PROCESSING | CD_DRY_RUN_COMPLETED | CD_ACCEPTED | CD_SENT | CD_DELIVERED
  | CD_READ | CD_FAILED | CD_UNKNOWN | CD_BLOCKED | CD_CANCELLED

record delivery =
  cd_id :: string
  cd_runId :: string
  cd_groupId :: string
  cd_jobId :: "string option"
  cd_status :: campaign_delivery_status
  cd_failure :: "string option"
  cd_createdAt :: millis
  cd_updatedAt :: millis

record group_row =
  gr_sessionId :: string
  gr_id :: string
  gr_name :: string
  gr_capability :: send_capability
  gr_reason :: string
  gr_checkedAt :: "millis option"
  gr_invalidatedAt :: "millis option"
  gr_revision :: int
  gr_participants :: "int option"

record campaign_audience =
  ca_campaignId :: string
  ca_sessionId :: string
  ca_groupId :: string
  ca_enabled :: bool

datatype activity_severity = Sev_Info | Sev_Success | Sev_Warning | Sev_Error
datatype activity_origin = From_Studio | From_Runtime

record run_activity =
  ra_runId :: string
  ra_eventType :: string
  ra_severity :: activity_severity
  ra_origin :: activity_origin
  ra_sessionId :: string
  ra_campaignId :: string
  ra_label :: string
  ra_mode :: execution_mode
  ra_status :: run_status
  ra_statusReason :: "string option"
  ra_metadata :: "(string \<times> string) list"
  ra_dedupeKey :: "string option"

datatype run_action = Pause_Run | Resume_Run | Cancel_Run

text \<open>A receipt of a rejection keeps the code, the message and the review that rejected it.\<close>

record action_receipt =
  ar_requestHash :: string
  ar_sessionId :: string
  ar_subjectId :: string
  ar_resultId :: string
  ar_rejection :: "(string \<times> string \<times> preflight_report option) option"

record campaign_db =
  cb_campaigns :: "campaign_row list"
  cb_audience :: "campaign_audience list"
  cb_runs :: "run_row list"
  cb_runTargets :: "run_target list"
  cb_deliveries :: "delivery list"
  cb_groups :: "group_row list"
  cb_activity :: "run_activity list"
  cb_receipts :: "((run_action \<times> string) \<times> action_receipt) list"
  cb_runtime :: runtime_db

section \<open>The guards\<close>

datatype campaign_db_error =
    Illegal_Run_Transition run_status run_status | Completion_Required run_status | Completion_Forbidden run_status
  | Illegal_Delivery_Transition campaign_delivery_status campaign_delivery_status | Delivery_Without_Job campaign_delivery_status
  | Delivery_With_Job campaign_delivery_status | Runtime_Failed db_error | Receipt_Conflict | Receipt_Run_Missing
  | Receipt_Incomplete | Receipt_Exists

type_synonym 'a ctx = "(campaign_db, campaign_db_error, 'a) rollback"

text \<open>\<open>enforce_campaign_run_status_transition\<close> (migration 079).\<close>

fun run_moves :: "run_status \<Rightarrow> run_status set" where
  "run_moves RS_PREPARING = {RS_BLOCKED, RS_SCHEDULED, RS_RUNNING, RS_PAUSED, RS_FAILED, RS_CANCELLED, RS_CANCELLING}"
| "run_moves RS_BLOCKED = {RS_SCHEDULED, RS_RUNNING, RS_CANCELLED, RS_CANCELLING}"
| "run_moves RS_SCHEDULED = {RS_RUNNING, RS_PAUSED, RS_CANCELLED, RS_CANCELLING}"
| "run_moves RS_RUNNING = {RS_PAUSED, RS_COMPLETED, RS_PARTIAL_FAILED, RS_CANCELLED, RS_CANCELLING}"
| "run_moves RS_PAUSED = {RS_BLOCKED, RS_SCHEDULED, RS_RUNNING, RS_CANCELLED, RS_CANCELLING}"
| "run_moves RS_CANCELLING = {RS_CANCELLED}"
| "run_moves RS_COMPLETED = {RS_PARTIAL_FAILED}"
| "run_moves RS_PARTIAL_FAILED = {RS_COMPLETED}"
| "run_moves _ = {}"

definition terminal_run :: "run_status \<Rightarrow> bool" where
  "terminal_run s \<longleftrightarrow> s \<in> {RS_COMPLETED, RS_PARTIAL_FAILED, RS_CANCELLED, RS_FAILED}"

definition run_guard :: "run_row \<Rightarrow> run_row \<Rightarrow> campaign_db_error option" where
  "run_guard old new =
     (if cr_status old \<noteq> cr_status new \<and> cr_status new \<notin> run_moves (cr_status old)
      then Some (Illegal_Run_Transition (cr_status old) (cr_status new))
      else if terminal_run (cr_status new) \<and> cr_completedAt new = None then Some (Completion_Required (cr_status new))
      else if \<not> terminal_run (cr_status new) \<and> cr_completedAt new \<noteq> None then Some (Completion_Forbidden (cr_status new))
      else None)"

text \<open>\<open>enforce_campaign_delivery_status_transition\<close> (migration 080).\<close>

fun delivery_moves :: "campaign_delivery_status \<Rightarrow> campaign_delivery_status set" where
  "delivery_moves CD_PENDING = {CD_MATERIALIZED, CD_BLOCKED, CD_CANCELLED}"
| "delivery_moves CD_MATERIALIZED = {CD_PROCESSING, CD_DRY_RUN_COMPLETED, CD_ACCEPTED, CD_SENT, CD_DELIVERED, CD_READ,
     CD_FAILED, CD_UNKNOWN, CD_CANCELLED}"
| "delivery_moves CD_PROCESSING = {CD_DRY_RUN_COMPLETED, CD_ACCEPTED, CD_SENT, CD_DELIVERED, CD_READ, CD_FAILED, CD_UNKNOWN}"
| "delivery_moves CD_ACCEPTED = {CD_SENT, CD_DELIVERED, CD_READ, CD_FAILED}"
| "delivery_moves CD_SENT = {CD_DELIVERED, CD_READ, CD_FAILED}"
| "delivery_moves CD_DELIVERED = {CD_READ}"
| "delivery_moves CD_UNKNOWN = {CD_ACCEPTED, CD_SENT, CD_DELIVERED, CD_READ, CD_FAILED}"
| "delivery_moves _ = {}"

definition delivery_guard :: "delivery \<Rightarrow> delivery \<Rightarrow> campaign_db_error option" where
  "delivery_guard old new =
     (if cd_status old \<noteq> cd_status new \<and> cd_status new \<notin> delivery_moves (cd_status old)
      then Some (Illegal_Delivery_Transition (cd_status old) (cd_status new))
      else if cd_status new \<in> {CD_PENDING, CD_BLOCKED} \<and> cd_jobId new \<noteq> None then Some (Delivery_With_Job (cd_status new))
      else if cd_status new \<notin> {CD_PENDING, CD_BLOCKED, CD_CANCELLED} \<and> cd_jobId new = None
      then Some (Delivery_Without_Job (cd_status new))
      else None)"

text \<open>An \<open>UPDATE\<close> of a guarded table: the rows it changed, or the exception of the trigger for the first of them.\<close>

definition guard_fails :: "('r \<Rightarrow> 'r \<Rightarrow> 'e option) \<Rightarrow> ('r \<Rightarrow> bool) \<Rightarrow> ('r \<Rightarrow> 'r) \<Rightarrow> 'r \<Rightarrow> bool" where
  "guard_fails G P f r \<longleftrightarrow> P r \<and> G r (f r) \<noteq> None"

definition guarded_update ::
  "('r \<Rightarrow> 'r \<Rightarrow> 'e option) \<Rightarrow> ('r \<Rightarrow> bool) \<Rightarrow> ('r \<Rightarrow> 'r) \<Rightarrow> 'r list \<Rightarrow> 'e + ('r list \<times> 'r list)" where
  "guarded_update G P f rs =
     (case List.find (guard_fails G P f) rs of
        Some r \<Rightarrow> Inl (the (G r (f r)))
      | None \<Rightarrow> Inr (map f (filter P rs), update_where P f rs))"

definition update_runs :: "(run_row \<Rightarrow> bool) \<Rightarrow> (run_row \<Rightarrow> run_row) \<Rightarrow> run_row list ctx" where
  "update_runs P f db = (case guarded_update run_guard P f (cb_runs db) of Inl e \<Rightarrow> Inl e
     | Inr (xs, ys) \<Rightarrow> Inr (xs, db\<lparr>cb_runs := ys\<rparr>))"

definition update_deliveries :: "(delivery \<Rightarrow> bool) \<Rightarrow> (delivery \<Rightarrow> delivery) \<Rightarrow> delivery list ctx" where
  "update_deliveries P f db = (case guarded_update delivery_guard P f (cb_deliveries db) of Inl e \<Rightarrow> Inl e
     | Inr (xs, ys) \<Rightarrow> Inr (xs, db\<lparr>cb_deliveries := ys\<rparr>))"

text \<open>A statement on the message tables, in the same transaction.\<close>

definition on_runtime :: "'a tx \<Rightarrow> 'a ctx" where
  "on_runtime m db = (case m (cb_runtime db) of Inl e \<Rightarrow> Inl (Runtime_Failed e)
     | Inr (x, rt) \<Rightarrow> Inr (x, db\<lparr>cb_runtime := rt\<rparr>))"

definition move_campaigns :: "millis \<Rightarrow> string set \<Rightarrow> campaign_status set \<Rightarrow> campaign_status \<Rightarrow> unit ctx" where
  "move_campaigns now ids from_status to_status = tx_modify (\<lambda>db. db\<lparr>cb_campaigns :=
     update_where (\<lambda>c. cp_id c \<in> ids \<and> cp_status c \<in> from_status)
       (\<lambda>c. c\<lparr>cp_status := to_status, cp_updatedAt := now\<rparr>) (cb_campaigns db)\<rparr>)"

definition find_run :: "campaign_db \<Rightarrow> string \<Rightarrow> run_row option" where
  "find_run db i = List.find (\<lambda>r. cr_id r = i) (cb_runs db)"

definition find_group :: "campaign_db \<Rightarrow> string \<Rightarrow> string \<Rightarrow> group_row option" where
  "find_group db s g = List.find (\<lambda>r. gr_sessionId r = s \<and> gr_id r = g) (cb_groups db)"

definition run_deliveries :: "campaign_db \<Rightarrow> string \<Rightarrow> delivery list" where
  "run_deliveries db i = filter (\<lambda>d. cd_runId d = i) (cb_deliveries db)"

text \<open>The message jobs of a run: \<open>SELECT message_job_id FROM campaign_deliveries WHERE run_id = $1\<close>.\<close>

definition run_jobs :: "campaign_db \<Rightarrow> string \<Rightarrow> string set" where
  "run_jobs db i = set (concat (map (\<lambda>d. case cd_jobId d of None \<Rightarrow> [] | Some j \<Rightarrow> [j]) (run_deliveries db i)))"

definition job_status_of :: "campaign_db \<Rightarrow> delivery \<Rightarrow> job_status option" where
  "job_status_of db d = (case cd_jobId d of None \<Rightarrow> None | Some j \<Rightarrow> map_option mj_status (find_job (cb_runtime db) j))"

text \<open>The join of deliveries and runs that the message modules read as \<open>db_runs\<close>.\<close>

definition runs_view :: "campaign_db \<Rightarrow> (string \<times> run_status) list" where
  "runs_view db = concat (map (\<lambda>d. case (cd_jobId d, find_run db (cd_runId d)) of
     (Some j, Some r) \<Rightarrow> [(j, cr_status r)] | _ \<Rightarrow> []) (cb_deliveries db))"

definition runtime_view :: "campaign_db \<Rightarrow> runtime_db" where
  "runtime_view db = (cb_runtime db)\<lparr>db_runs := runs_view db\<rparr>"

section \<open>Activity\<close>

text \<open>\<open>appendCampaignRunActivity\<close>: the run as it is now; \<open>ON CONFLICT (dedupe_key) DO NOTHING\<close>.\<close>

definition append_run_activity ::
  "string \<Rightarrow> string \<Rightarrow> activity_severity \<Rightarrow> activity_origin \<Rightarrow> (string \<times> string) list \<Rightarrow> string option \<Rightarrow> unit ctx" where
  "append_run_activity i ev sev origin meta dedupe = tx_modify (\<lambda>db.
     case find_run db i of None \<Rightarrow> db
     | Some r \<Rightarrow>
         if dedupe \<noteq> None \<and> list_ex (\<lambda>a. ra_dedupeKey a = dedupe) (cb_activity db) then db
         else db\<lparr>cb_activity := cb_activity db @ [\<lparr>ra_runId = i, ra_eventType = ev, ra_severity = sev,
           ra_origin = origin, ra_sessionId = cr_sessionId r, ra_campaignId = cr_campaignId r,
           ra_label = cr_campaignName r, ra_mode = cr_mode r, ra_status = cr_status r,
           ra_statusReason = cr_reason r, ra_metadata = meta, ra_dedupeKey = dedupe\<rparr>]\<rparr>)"

section \<open>Facts\<close>

lemma guarded_update_cases:
  assumes "guarded_update G P f rs = x"
  obtains (ok) "\<forall>r \<in> set rs. P r \<longrightarrow> G r (f r) = None" "x = Inr (map f (filter P rs), update_where P f rs)"
  | (failed) r e where "r \<in> set rs" "P r" "G r (f r) = Some e" "x = Inl e"
proof (cases "List.find (guard_fails G P f) rs")
  case None
  then have "\<forall>r \<in> set rs. P r \<longrightarrow> G r (f r) = None" by (auto simp: find_None_iff guard_fails_def)
  moreover have "x = Inr (map f (filter P rs), update_where P f rs)" using assms None by (simp add: guarded_update_def)
  ultimately show thesis by (rule ok)
next
  case (Some r)
  then have "r \<in> set rs" "guard_fails G P f r" by (auto simp: find_Some_iff)
  moreover have "x = Inl (the (G r (f r)))" using assms Some by (simp add: guarded_update_def)
  ultimately show thesis using failed by (auto simp: guard_fails_def)
qed

lemma update_runs_cases:
  assumes "update_runs P f db = x"
  obtains (ok) "\<forall>r \<in> set (cb_runs db). P r \<longrightarrow> run_guard r (f r) = None"
    "x = Inr (map f (filter P (cb_runs db)), db\<lparr>cb_runs := update_where P f (cb_runs db)\<rparr>)"
  | (failed) r e where "r \<in> set (cb_runs db)" "P r" "run_guard r (f r) = Some e" "x = Inl e"
  using assms by (cases rule: guarded_update_cases [OF refl, where G = run_guard and P = P and f = f and rs = "cb_runs db"])
    (auto simp: update_runs_def)

lemma update_deliveries_cases:
  assumes "update_deliveries P f db = x"
  obtains (ok) "\<forall>r \<in> set (cb_deliveries db). P r \<longrightarrow> delivery_guard r (f r) = None"
    "x = Inr (map f (filter P (cb_deliveries db)), db\<lparr>cb_deliveries := update_where P f (cb_deliveries db)\<rparr>)"
  | (failed) r e where "r \<in> set (cb_deliveries db)" "P r" "delivery_guard r (f r) = Some e" "x = Inl e"
  using assms by (cases rule: guarded_update_cases [OF refl, where G = delivery_guard and P = P and f = f and rs = "cb_deliveries db"])
    (auto simp: update_deliveries_def)

lemma update_runs_ok:
  "update_runs P f db = Inr (xs, db') \<longleftrightarrow>
     (\<forall>r \<in> set (cb_runs db). P r \<longrightarrow> run_guard r (f r) = None) \<and> xs = map f (filter P (cb_runs db))
     \<and> db' = db\<lparr>cb_runs := update_where P f (cb_runs db)\<rparr>"
  by (cases rule: update_runs_cases [OF refl, where P = P and f = f and db = db]) auto

lemma update_deliveries_ok:
  "update_deliveries P f db = Inr (xs, db') \<longleftrightarrow>
     (\<forall>r \<in> set (cb_deliveries db). P r \<longrightarrow> delivery_guard r (f r) = None) \<and> xs = map f (filter P (cb_deliveries db))
     \<and> db' = db\<lparr>cb_deliveries := update_where P f (cb_deliveries db)\<rparr>"
  by (cases rule: update_deliveries_cases [OF refl, where P = P and f = f and db = db]) auto

lemma on_runtime_ok [simp]:
  "on_runtime m db = Inr (x, db') \<longleftrightarrow> (\<exists>rt. m (cb_runtime db) = Inr (x, rt) \<and> db' = db\<lparr>cb_runtime := rt\<rparr>)"
  by (auto simp: on_runtime_def split: sum.splits)

lemma find_run_in: "find_run db i = Some r \<Longrightarrow> r \<in> set (cb_runs db) \<and> cr_id r = i"
  by (auto simp: find_run_def find_Some_iff)

lemma find_run_update:
  assumes "\<And>r. P r \<Longrightarrow> cr_id (f r) = cr_id r"
  shows "find_run (db\<lparr>cb_runs := update_where P f (cb_runs db)\<rparr>) i =
    map_option (\<lambda>r. if P r then f r else r) (find_run db i)"
  using assms by (simp add: find_run_def find_update_where)

end
