(* ===== verification/Campaign_Runs.thy ===== *)
theory Campaign_Runs
  imports Campaign_Tables
begin

text \<open>
  \<open>CampaignRunRepository\<close> (\<open>campaign-run.repository.ts\<close>): creating a run, claiming and applying its preparation;
  and \<open>CampaignDeliveryRepository\<close> (\<open>campaign-delivery.repository.ts\<close>): following the message jobs of the deliveries
  and turning pending deliveries into jobs. \<open>now\<close> is the database's \<open>now()\<close>, \<open>js\<close> the process's clock, generated ids
  are arguments. The rows stand for the DTOs that \<open>mapCampaignRun\<close> makes of them.
\<close>

section \<open>Creating a run\<close>

record run_request =
  cq_campaignId :: string
  cq_key :: string
  cq_mode :: execution_mode
  cq_campaignRevision :: "int option"
  cq_targetsRevision :: "int option"

record created_run =
  cu_run :: "run_row option"
  cu_created :: bool
  cu_campaignFound :: bool
  cu_idempotencyConflict :: bool
  cu_notLaunchable :: bool
  cu_revisionConflict :: "(int \<times> int) option"
  cu_scheduleExpired :: bool

definition expects :: "int option \<Rightarrow> int \<Rightarrow> bool" where
  "expects e n \<longleftrightarrow> e = None \<or> e = Some n"

definition run_intent_changed :: "run_row \<Rightarrow> run_request \<Rightarrow> bool" where
  "run_intent_changed r q \<longleftrightarrow> cr_mode r \<noteq> cq_mode q \<or> \<not> expects (cq_campaignRevision q) (cr_campaignRevision r)
     \<or> \<not> expects (cq_targetsRevision q) (cr_targetsRevision r)"

definition find_idempotent :: "string \<Rightarrow> string \<Rightarrow> campaign_db \<Rightarrow> run_row option" where
  "find_idempotent c k db = List.find (\<lambda>r. cr_campaignId r = c \<and> cr_key r = k) (cb_runs db)"

definition active_run :: "run_status \<Rightarrow> bool" where
  "active_run s \<longleftrightarrow> s \<in> {RS_PREPARING, RS_BLOCKED, RS_SCHEDULED, RS_RUNNING, RS_PAUSED, RS_CANCELLING}"

definition active_live :: "string \<Rightarrow> run_row \<Rightarrow> bool" where
  "active_live s r \<longleftrightarrow> cr_sessionId r = s \<and> cr_mode r = Live \<and> active_run (cr_status r)"

text \<open>The unique indexes of \<open>campaign_runs\<close>.\<close>

definition run_conflicts :: "run_row \<Rightarrow> run_row \<Rightarrow> bool" where
  "run_conflicts new r \<longleftrightarrow> cr_id r = cr_id new
     \<or> (cr_campaignId r = cr_campaignId new \<and> cr_key r = cr_key new)
     \<or> (cr_mode new = Live \<and> cr_mode r = Live \<and> cr_campaignId r = cr_campaignId new)
     \<or> (cr_mode new = Live \<and> active_live (cr_sessionId new) r)"

definition new_run :: "millis \<Rightarrow> millis \<Rightarrow> string \<Rightarrow> int \<Rightarrow> run_request \<Rightarrow> campaign_row \<Rightarrow> run_row" where
  "new_run js now i grace_seconds q c =
     (let once = (if cp_once c then cp_scheduledAt c else None)
      in \<lparr>cr_id = i, cr_campaignId = cp_id c, cr_campaignName = cp_name c, cr_sessionId = cp_sessionId c,
          cr_key = cq_key q, cr_mode = cq_mode q, cr_status = RS_PREPARING, cr_reason = None,
          cr_content = cp_content c, cr_campaignRevision = cp_revision c, cr_targetsRevision = cp_targetsRevision c,
          cr_source = cp_source c, cr_report = None,
          cr_scheduledAt = (case once of Some t \<Rightarrow> t | None \<Rightarrow> js),
          cr_deadline = (if cq_mode q = Live then map_option (\<lambda>t. t + grace_seconds * 1000) once else None),
          cr_startedAt = None, cr_completedAt = None, cr_attempts = 0, cr_nextAttemptAt = now, cr_leaseToken = None,
          cr_leaseExpiresAt = None, cr_error = None, cr_createdAt = now, cr_updatedAt = now\<rparr>)"

text \<open>The snapshot of the enabled targets whose group the gateway knows.\<close>

definition target_snapshot :: "string \<Rightarrow> campaign_db \<Rightarrow> campaign_audience \<Rightarrow> run_target list" where
  "target_snapshot i db a = (case find_group db (ca_sessionId a) (ca_groupId a) of None \<Rightarrow> []
     | Some g \<Rightarrow> [\<lparr>rt_runId = i, rt_sessionId = ca_sessionId a, rt_groupId = ca_groupId a, rt_groupName = gr_name g,
         rt_capability = gr_capability g, rt_reason = gr_reason g, rt_revision = gr_revision g,
         rt_checkedAt = gr_checkedAt g, rt_participants = gr_participants g\<rparr>])"

definition snapshot_targets :: "string \<Rightarrow> string \<Rightarrow> unit ctx" where
  "snapshot_targets i campaign = tx_modify (\<lambda>db. db\<lparr>cb_runTargets := cb_runTargets db
     @ concat (map (target_snapshot i db) (filter (\<lambda>a. ca_campaignId a = campaign \<and> ca_enabled a) (cb_audience db)))\<rparr>)"

definition no_run :: "bool \<Rightarrow> created_run" where
  "no_run found = \<lparr>cu_run = None, cu_created = False, cu_campaignFound = found, cu_idempotencyConflict = False,
     cu_notLaunchable = False, cu_revisionConflict = None, cu_scheduleExpired = False\<rparr>"

definition replayed_run :: "run_request \<Rightarrow> run_row \<Rightarrow> created_run" where
  "replayed_run q r = (no_run True)\<lparr>cu_run := Some r, cu_idempotencyConflict := run_intent_changed r q\<rparr>"

text \<open>From the \<open>INSERT ... ON CONFLICT DO NOTHING\<close> on.\<close>

definition insert_run :: "millis \<Rightarrow> run_request \<Rightarrow> run_row \<Rightarrow> created_run ctx" where
  "insert_run now q new db =
     (if list_ex (run_conflicts new) (cb_runs db)
      then (case find_idempotent (cr_campaignId new) (cq_key q) db of
          None \<Rightarrow> Inr ((no_run True)\<lparr>cu_notLaunchable := True\<rparr>, db)
        | Some r \<Rightarrow> Inr (replayed_run q r, db))
      else tx_bind (tx_modify (\<lambda>db. db\<lparr>cb_runs := cb_runs db @ [new]\<rparr>)) (\<lambda>_.
           tx_bind (snapshot_targets (cr_id new) (cr_campaignId new)) (\<lambda>_.
           tx_bind (if cq_mode q = Live then move_campaigns now {cr_campaignId new} {CS_DRAFT} CS_ACTIVE else tx_return ()) (\<lambda>_.
           tx_bind (append_run_activity (cr_id new) ''campaign_run.created'' Sev_Info From_Studio []
             (Some (''campaign-run:'' @ cr_id new @ '':created''))) (\<lambda>_.
           tx_return ((no_run True)\<lparr>cu_run := Some new, cu_created := True\<rparr>))))) db)"

definition find_campaign :: "campaign_db \<Rightarrow> string \<Rightarrow> campaign_row option" where
  "find_campaign db i = List.find (\<lambda>c. cp_id c = i \<and> \<not> cp_deleted c) (cb_campaigns db)"

definition schedule_passed :: "millis \<Rightarrow> run_request \<Rightarrow> campaign_row \<Rightarrow> bool" where
  "schedule_passed js q c \<longleftrightarrow> cq_mode q = Live \<and> cp_once c
     \<and> (case cp_scheduledAt c of None \<Rightarrow> False | Some t \<Rightarrow> t \<le> js)"

definition create_run :: "millis \<Rightarrow> millis \<Rightarrow> string \<Rightarrow> int \<Rightarrow> run_request \<Rightarrow> created_run ctx" where
  "create_run js now i grace_seconds q db =
     (case find_campaign db (cq_campaignId q) of
        None \<Rightarrow> Inr (no_run False, db)
      | Some c \<Rightarrow>
     (case find_idempotent (cp_id c) (cq_key q) db of
        Some r \<Rightarrow> Inr (replayed_run q r, db)
      | None \<Rightarrow>
     (if list_ex (\<lambda>r. cr_campaignId r = cp_id c \<and> cr_mode r = Live) (cb_runs db)
         \<or> (cq_mode q = Live \<and> list_ex (active_live (cp_sessionId c)) (cb_runs db))
      then Inr ((no_run True)\<lparr>cu_notLaunchable := True\<rparr>, db)
      else if \<not> expects (cq_campaignRevision q) (cp_revision c) \<or> \<not> expects (cq_targetsRevision q) (cp_targetsRevision c)
      then Inr ((no_run True)\<lparr>cu_revisionConflict := Some (cp_revision c, cp_targetsRevision c)\<rparr>, db)
      else if cp_status c \<noteq> CS_DRAFT then Inr ((no_run True)\<lparr>cu_notLaunchable := True\<rparr>, db)
      else if schedule_passed js q c then Inr ((no_run True)\<lparr>cu_scheduleExpired := True\<rparr>, db)
      else insert_run now q (new_run js now i grace_seconds q c) db)))"

section \<open>Preparing a run\<close>

definition max_preparation_attempts :: nat where
  "max_preparation_attempts = 3"

definition preparation_due :: "millis \<Rightarrow> run_row \<Rightarrow> bool" where
  "preparation_due now r \<longleftrightarrow> cr_status r = RS_PREPARING \<and> cr_nextAttemptAt r \<le> now
     \<and> cr_attempts r < max_preparation_attempts
     \<and> (cr_leaseToken r = None \<or> (case cr_leaseExpiresAt r of None \<Rightarrow> False | Some t \<Rightarrow> t < now))"

definition list_preparing :: "millis \<Rightarrow> nat \<Rightarrow> campaign_db \<Rightarrow> string list" where
  "list_preparing now n db = map cr_id (take n (sort_key (\<lambda>r. (cr_nextAttemptAt r, cr_createdAt r))
     (filter (preparation_due now) (cb_runs db))))"

text \<open>An \<open>UPDATE\<close> that sets neither the status nor \<open>completed_at\<close> does not fire the trigger.\<close>

definition touch_runs :: "(run_row \<Rightarrow> bool) \<Rightarrow> (run_row \<Rightarrow> run_row) \<Rightarrow> run_row list ctx" where
  "touch_runs P f db = Inr (map f (filter P (cb_runs db)), db\<lparr>cb_runs := update_where P f (cb_runs db)\<rparr>)"

definition claim_preparation :: "millis \<Rightarrow> string \<Rightarrow> string \<Rightarrow> (string \<times> nat) option ctx" where
  "claim_preparation now token i =
     tx_bind (touch_runs (\<lambda>r. cr_id r = i \<and> preparation_due now r)
       (\<lambda>r. r\<lparr>cr_attempts := Suc (cr_attempts r), cr_leaseToken := Some token,
          cr_leaseExpiresAt := Some (now + 120000), cr_error := None, cr_updatedAt := now\<rparr>))
     (\<lambda>rows. tx_return (case rows of [] \<Rightarrow> None | r # _ \<Rightarrow> Some (token, cr_attempts r)))"

definition exhausted :: "run_row \<Rightarrow> bool" where
  "exhausted r \<longleftrightarrow> max_preparation_attempts \<le> cr_attempts r"

definition give_up_or_retry :: "millis \<Rightarrow> string \<Rightarrow> millis \<Rightarrow> run_row \<Rightarrow> run_row" where
  "give_up_or_retry now err next_at r = r\<lparr>cr_status := (if exhausted r then RS_FAILED else RS_PREPARING),
     cr_reason := (if exhausted r then Some ''PREPARATION_FAILED'' else cr_reason r),
     cr_nextAttemptAt := next_at, cr_leaseToken := None, cr_leaseExpiresAt := None, cr_error := Some err,
     cr_completedAt := (if exhausted r then Some now else cr_completedAt r), cr_updatedAt := now\<rparr>"

definition failed_live :: "run_row list \<Rightarrow> string set" where
  "failed_live rows = cr_campaignId ` set (filter (\<lambda>r. cr_mode r = Live \<and> cr_status r = RS_FAILED) rows)"

definition preparation_failed_activity :: "run_row \<Rightarrow> unit ctx" where
  "preparation_failed_activity r = append_run_activity (cr_id r) ''campaign_run.failed'' Sev_Error From_Runtime
     [(''reason'', ''PREPARATION_FAILED'')] None"

definition archive_campaigns :: "millis \<Rightarrow> string set \<Rightarrow> unit ctx" where
  "archive_campaigns now ids = move_campaigns now ids {CS_ACTIVE, CS_PAUSED} CS_ARCHIVED"

definition pause_campaigns :: "millis \<Rightarrow> string set \<Rightarrow> unit ctx" where
  "pause_campaigns now ids = move_campaigns now ids {CS_ACTIVE} CS_PAUSED"

definition lease_lost :: "millis \<Rightarrow> run_row \<Rightarrow> bool" where
  "lease_lost now r \<longleftrightarrow> cr_status r = RS_PREPARING
     \<and> ((cr_leaseToken r \<noteq> None \<and> (case cr_leaseExpiresAt r of None \<Rightarrow> False | Some t \<Rightarrow> t < now))
        \<or> (cr_leaseToken r = None \<and> exhausted r))"

definition recover_expired_preparations :: "millis \<Rightarrow> nat ctx" where
  "recover_expired_preparations now =
     tx_bind (update_runs (lease_lost now) (give_up_or_retry now ''Recovered expired campaign preparation lease'' now))
     (\<lambda>rows.
     tx_bind (archive_campaigns now (failed_live rows)) (\<lambda>_.
     tx_bind (tx_iter preparation_failed_activity (filter (\<lambda>r. cr_status r = RS_FAILED) rows)) (\<lambda>_.
     tx_return (length rows))))"

text \<open>\<open>preparation_lease_expires_at > now()\<close>.\<close>

definition holds_preparation :: "millis \<Rightarrow> string \<Rightarrow> string \<Rightarrow> run_row \<Rightarrow> bool" where
  "holds_preparation now i token r \<longleftrightarrow> cr_id r = i \<and> cr_status r = RS_PREPARING \<and> cr_leaseToken r = Some token
     \<and> (case cr_leaseExpiresAt r of None \<Rightarrow> False | Some t \<Rightarrow> now < t)"

text \<open>\<open>LEAST(300, 5 * power(2, n - 1))\<close> seconds.\<close>

definition preparation_backoff :: "nat \<Rightarrow> millis" where
  "preparation_backoff n = (if n = 0 then 2500 else min 300000 (5000 * 2 ^ (n - 1)))"

definition fail_preparation_attempt :: "millis \<Rightarrow> string \<Rightarrow> string \<Rightarrow> string \<Rightarrow> run_status option ctx" where
  "fail_preparation_attempt now i token err =
     tx_bind (update_runs (holds_preparation now i token) (\<lambda>r. give_up_or_retry now err
       (if exhausted r then cr_nextAttemptAt r else now + preparation_backoff (cr_attempts r)) r)) (\<lambda>rows.
     tx_bind (archive_campaigns now (failed_live (take 1 rows))) (\<lambda>_.
     tx_bind (tx_iter preparation_failed_activity (filter (\<lambda>r. cr_status r = RS_FAILED) (take 1 rows))) (\<lambda>_.
     tx_return (case rows of [] \<Rightarrow> None | r # _ \<Rightarrow> Some (cr_status r)))))"

text \<open>\<open>capabilitySnapshotChanged\<close>: a target the review saw is no longer in the run or its group has changed.\<close>

definition find_run_target :: "campaign_db \<Rightarrow> string \<Rightarrow> string \<Rightarrow> run_target option" where
  "find_run_target db i g = List.find (\<lambda>t. rt_runId t = i \<and> rt_groupId t = g) (cb_runTargets db)"

definition target_changed :: "campaign_db \<Rightarrow> string \<Rightarrow> campaign_target \<Rightarrow> bool" where
  "target_changed db i t =
     (case find_run_target db i (ct_groupId t) of None \<Rightarrow> True
      | Some crt \<Rightarrow> (case find_group db (rt_sessionId crt) (rt_groupId crt) of None \<Rightarrow> True
          | Some g \<Rightarrow> gr_revision g \<noteq> cv_revision (ct_capability t)))"

definition capability_snapshot_changed :: "campaign_db \<Rightarrow> string \<Rightarrow> campaign_target list \<Rightarrow> bool" where
  "capability_snapshot_changed db i ts = list_ex (target_changed db i) ts"

definition refresh_target :: "group_row \<Rightarrow> run_target \<Rightarrow> run_target" where
  "refresh_target g t = t\<lparr>rt_capability := gr_capability g, rt_reason := gr_reason g, rt_revision := gr_revision g,
     rt_checkedAt := gr_checkedAt g, rt_participants := gr_participants g\<rparr>"

definition refresh_targets :: "string \<Rightarrow> (campaign_db \<Rightarrow> run_target \<Rightarrow> bool) \<Rightarrow> unit ctx" where
  "refresh_targets i P = tx_modify (\<lambda>db. db\<lparr>cb_runTargets := map (\<lambda>t.
     if rt_runId t = i \<and> P db t
     then (case find_group db (rt_sessionId t) (rt_groupId t) of None \<Rightarrow> t | Some g \<Rightarrow> refresh_target g t)
     else t) (cb_runTargets db)\<rparr>)"

text \<open>\<open>INSERT INTO campaign_deliveries ... ON CONFLICT (run_id, group_id) DO NOTHING\<close>.\<close>

definition new_delivery :: "millis \<Rightarrow> (string \<Rightarrow> string) \<Rightarrow> run_target \<Rightarrow> delivery" where
  "new_delivery now ids t = \<lparr>cd_id = ids (rt_groupId t), cd_runId = rt_runId t, cd_groupId = rt_groupId t,
     cd_jobId = None, cd_status = CD_PENDING, cd_failure = None, cd_createdAt = now, cd_updatedAt = now\<rparr>"

definition insert_deliveries :: "millis \<Rightarrow> (string \<Rightarrow> string) \<Rightarrow> string \<Rightarrow> unit ctx" where
  "insert_deliveries now ids i = tx_modify (\<lambda>db. db\<lparr>cb_deliveries := cb_deliveries db
     @ map (new_delivery now ids) (filter (\<lambda>t. rt_runId t = i
         \<and> \<not> list_ex (\<lambda>d. cd_runId d = i \<and> cd_groupId d = rt_groupId t) (cb_deliveries db)) (cb_runTargets db))\<rparr>)"

datatype apply_result = Preflight_Applied | Stale_Input | Lost_Ownership

definition keep_report :: "millis \<Rightarrow> preflight_report \<Rightarrow> run_row \<Rightarrow> run_row" where
  "keep_report now report r = r\<lparr>cr_report := Some report, cr_leaseToken := None, cr_leaseExpiresAt := None,
     cr_updatedAt := now\<rparr>"

definition report_metadata :: "preflight_report \<Rightarrow> (string \<times> string) list" where
  "report_metadata report = [(''preflightStatus'',
       (case pr_status report of PF_Pass \<Rightarrow> ''PASS'' | PF_Warn \<Rightarrow> ''WARN'' | PF_Block \<Rightarrow> ''BLOCK'')),
     (''policyVersion'', text_of_int (pr_policyVersion report))]"

definition schedule_missed :: "string \<Rightarrow> run_row \<Rightarrow> unit ctx" where
  "schedule_missed reason r = append_run_activity (cr_id r) ''campaign_run.schedule_missed'' Sev_Warning From_Runtime
     [(''reason'', reason), (''scheduledAt'', text_of_int (cr_scheduledAt r)),
      (''startDeadlineAt'', (case cr_deadline r of None \<Rightarrow> [] | Some t \<Rightarrow> text_of_int t))] None"

definition apply_preflight ::
  "millis \<Rightarrow> millis \<Rightarrow> (string \<Rightarrow> string) \<Rightarrow> string \<Rightarrow> string \<Rightarrow> preflight_report \<Rightarrow> campaign_target list \<Rightarrow> apply_result ctx" where
  "apply_preflight js now ids i token report observed db =
     (case List.find (holds_preparation now i token) (cb_runs db) of
        None \<Rightarrow> Inr (Lost_Ownership, db)
      | Some run \<Rightarrow>
     (if capability_snapshot_changed db i observed
      then tx_bind (touch_runs (\<lambda>r. cr_id r = i \<and> cr_status r = RS_PREPARING \<and> cr_leaseToken r = Some token)
             (\<lambda>r. r\<lparr>cr_leaseToken := None, cr_leaseExpiresAt := None, cr_nextAttemptAt := now,
                cr_attempts := cr_attempts r - 1, cr_updatedAt := now\<rparr>)) (\<lambda>_. tx_return Stale_Input) db
      else if cr_deadline run \<noteq> None \<and> cr_scheduledAt run \<le> now
      then tx_bind (update_runs (\<lambda>r. cr_id r = i) (\<lambda>r. (keep_report now report r)\<lparr>cr_status := RS_PAUSED,
             cr_reason := Some ''MISSED_SCHEDULE''\<rparr>)) (\<lambda>_.
           tx_bind (pause_campaigns now {cr_campaignId run}) (\<lambda>_.
           tx_bind (schedule_missed ''PREPARATION_NOT_READY_AT_SCHEDULE'' run) (\<lambda>_.
           tx_return Preflight_Applied))) db
      else if pr_status report = PF_Block
      then tx_bind (update_runs (\<lambda>r. cr_id r = i) (\<lambda>r. (keep_report now report r)\<lparr>cr_status := RS_BLOCKED,
             cr_reason := Some ''PREFLIGHT_BLOCKED''\<rparr>)) (\<lambda>_.
           tx_bind (append_run_activity i ''campaign_run.blocked'' Sev_Warning From_Runtime (report_metadata report) None) (\<lambda>_.
           tx_return Preflight_Applied)) db
      else (let starts = cr_scheduledAt run \<le> js in
           tx_bind (refresh_targets i (\<lambda>_ _. True)) (\<lambda>_.
           tx_bind (insert_deliveries now ids i) (\<lambda>_.
           tx_bind (update_runs (\<lambda>r. cr_id r = i) (\<lambda>r. (keep_report now report r)\<lparr>
             cr_status := (if starts then RS_RUNNING else RS_SCHEDULED), cr_reason := None,
             cr_startedAt := (if starts then Some now else None)\<rparr>)) (\<lambda>_.
           tx_bind (append_run_activity i (if starts then ''campaign_run.started'' else ''campaign_run.scheduled'')
             Sev_Info From_Runtime (report_metadata report) None) (\<lambda>_.
           tx_return Preflight_Applied))))) db))"

section \<open>Deliveries\<close>

fun delivery_of_job :: "job_status \<Rightarrow> campaign_delivery_status option" where
  "delivery_of_job PROCESSING = Some CD_PROCESSING"
| "delivery_of_job DRY_RUN_COMPLETED = Some CD_DRY_RUN_COMPLETED"
| "delivery_of_job ACCEPTED = Some CD_ACCEPTED"
| "delivery_of_job SENT = Some CD_SENT"
| "delivery_of_job DELIVERED = Some CD_DELIVERED"
| "delivery_of_job READ = Some CD_READ"
| "delivery_of_job FAILED = Some CD_FAILED"
| "delivery_of_job UNKNOWN = Some CD_UNKNOWN"
| "delivery_of_job CANCELLED = Some CD_CANCELLED"
| "delivery_of_job _ = None"

definition delivery_job :: "campaign_db \<Rightarrow> delivery \<Rightarrow> message_job option" where
  "delivery_job db d = (case cd_jobId d of None \<Rightarrow> None | Some j \<Rightarrow> find_job (cb_runtime db) j)"

definition job_failure :: "delivery \<Rightarrow> message_job \<Rightarrow> string option" where
  "job_failure d j = (if mj_status j \<in> {FAILED, UNKNOWN} then mj_lastError j
     else if mj_status j = CANCELLED then cd_failure d else None)"

definition out_of_date :: "campaign_db \<Rightarrow> delivery \<Rightarrow> bool" where
  "out_of_date db d = (case delivery_job db d of None \<Rightarrow> False
     | Some j \<Rightarrow> (case delivery_of_job (mj_status j) of None \<Rightarrow> False
         | Some st \<Rightarrow> cd_status d \<noteq> st \<or> cd_failure d \<noteq> job_failure d j))"

definition follow_job :: "millis \<Rightarrow> campaign_db \<Rightarrow> delivery \<Rightarrow> delivery" where
  "follow_job now db d = (case delivery_job db d of None \<Rightarrow> d
     | Some j \<Rightarrow> d\<lparr>cd_status := (case delivery_of_job (mj_status j) of None \<Rightarrow> cd_status d | Some st \<Rightarrow> st),
         cd_failure := job_failure d j, cd_updatedAt := now\<rparr>)"

definition reconcile :: "millis \<Rightarrow> nat ctx" where
  "reconcile now db = tx_bind (update_deliveries (out_of_date db) (follow_job now db)) (\<lambda>rows. tx_return (length rows)) db"

definition session_sends :: "campaign_db \<Rightarrow> string \<Rightarrow> bool" where
  "session_sends db s = (case map_of (db_sessions (cb_runtime db)) s of None \<Rightarrow> False
     | Some g \<Rightarrow> gs_ready g \<and> gs_engineLoaded g \<and> \<not> gs_restricted g)"

definition buffered :: "campaign_db \<Rightarrow> string \<Rightarrow> nat" where
  "buffered db i = length (filter (\<lambda>d. case delivery_job db d of None \<Rightarrow> False
     | Some j \<Rightarrow> mj_status j \<in> {SCHEDULED, QUEUED, PROCESSING}) (run_deliveries db i))"

record pending_delivery =
  pd_id :: string
  pd_groupId :: string
  pd_snapshotRevision :: int
  pd_currentRevision :: int
  pd_capability :: send_capability

text \<open>The joined rows of the pending deliveries.\<close>

definition pending_row :: "campaign_db \<Rightarrow> delivery \<Rightarrow> pending_delivery list" where
  "pending_row db d =
     (case find_run_target db (cd_runId d) (cd_groupId d) of None \<Rightarrow> []
      | Some t \<Rightarrow> (case find_group db (rt_sessionId t) (rt_groupId t) of None \<Rightarrow> []
          | Some g \<Rightarrow> [\<lparr>pd_id = cd_id d, pd_groupId = cd_groupId d, pd_snapshotRevision = rt_revision t,
              pd_currentRevision = gr_revision g, pd_capability = gr_capability g\<rparr>]))"

definition pending_deliveries :: "nat \<Rightarrow> string \<Rightarrow> campaign_db \<Rightarrow> pending_delivery list" where
  "pending_deliveries n i db = take n (concat (map (pending_row db)
     (sort_key (\<lambda>d. (cd_createdAt d, cd_id d)) (filter (\<lambda>d. cd_status d = CD_PENDING) (run_deliveries db i)))))"

definition capability_changed :: "pending_delivery \<Rightarrow> bool" where
  "capability_changed p \<longleftrightarrow> pd_snapshotRevision p \<noteq> pd_currentRevision p \<or> pd_capability p \<noteq> Cap_Allowed"

text \<open>\<open>mz_hash\<close> is \<open>messageRequestHash\<close> without a schedule, \<open>mz_jobId\<close> the generated id of a new job.\<close>

record materialize_env =
  mz_hash :: "string \<Rightarrow> string \<Rightarrow> campaign_content \<Rightarrow> bool \<Rightarrow> string"
  mz_jobId :: "string \<Rightarrow> string"

definition run_message :: "materialize_env \<Rightarrow> millis \<Rightarrow> run_row \<Rightarrow> string \<Rightarrow> new_message" where
  "run_message E js run g = \<lparr>nm_scope = ''campaign-run:'' @ cr_id run, nm_key = g,
     nm_requestHash = mz_hash E (cr_sessionId run) g (cr_content run) (cr_mode run = Dry_Run),
     nm_sessionId = cr_sessionId run, nm_recipientId = g, nm_text = None, nm_content = Some (cr_content run),
     nm_scheduledAt = js, nm_dryRun = (cr_mode run = Dry_Run)\<rparr>"

definition block_delivery :: "millis \<Rightarrow> string \<Rightarrow> nat ctx" where
  "block_delivery now d = tx_bind (update_deliveries (\<lambda>x. cd_id x = d)
     (\<lambda>x. x\<lparr>cd_status := CD_BLOCKED, cd_failure := Some ''Group capability changed after preflight'', cd_updatedAt := now\<rparr>))
     (\<lambda>_. tx_return 0)"

definition materialize :: "materialize_env \<Rightarrow> millis \<Rightarrow> millis \<Rightarrow> run_row \<Rightarrow> pending_delivery \<Rightarrow> nat ctx" where
  "materialize E js now run p =
     (if cr_mode run = Live \<and> capability_changed p then block_delivery now (pd_id p)
      else tx_bind (on_runtime (create_message_job now (mz_jobId E (pd_id p)) (run_message E js run (pd_groupId p)))) (\<lambda>m.
           tx_bind (update_deliveries (\<lambda>d. cd_id d = pd_id p \<and> cd_status d = CD_PENDING)
             (\<lambda>d. d\<lparr>cd_jobId := Some (mj_id (cj_job m)), cd_status := CD_MATERIALIZED, cd_updatedAt := now\<rparr>)) (\<lambda>_.
           tx_return 1)))"

fun materialize_all :: "materialize_env \<Rightarrow> millis \<Rightarrow> millis \<Rightarrow> run_row \<Rightarrow> pending_delivery list \<Rightarrow> nat ctx" where
  "materialize_all E js now run [] = tx_return 0"
| "materialize_all E js now run (p # ps) =
     tx_bind (materialize E js now run p) (\<lambda>n. tx_bind (materialize_all E js now run ps) (\<lambda>m. tx_return (n + m)))"

definition free_slots :: "nat \<Rightarrow> run_row \<Rightarrow> campaign_db \<Rightarrow> nat" where
  "free_slots max_buffered run db = (if cr_mode run = Live then min max_buffered 1 else max_buffered) - buffered db (cr_id run)"

definition pause_unsendable :: "millis \<Rightarrow> run_row \<Rightarrow> nat ctx" where
  "pause_unsendable now run =
     tx_bind (update_runs (\<lambda>r. cr_id r = cr_id run \<and> cr_status r = RS_RUNNING) (\<lambda>r. r\<lparr>cr_status := RS_PAUSED,
       cr_reason := Some ''SESSION_NOT_SENDABLE'', cr_updatedAt := now\<rparr>)) (\<lambda>_.
     tx_bind (pause_campaigns now {cr_campaignId run}) (\<lambda>_.
     tx_bind (append_run_activity (cr_id run) ''campaign_run.paused'' Sev_Warning From_Runtime
       [(''reason'', ''SESSION_NOT_SENDABLE'')] None) (\<lambda>_. tx_return 0)))"

definition materialize_pending :: "materialize_env \<Rightarrow> millis \<Rightarrow> millis \<Rightarrow> string \<Rightarrow> nat \<Rightarrow> nat ctx" where
  "materialize_pending E js now i max_buffered db =
     (case find_run db i of
        None \<Rightarrow> Inr (0, db)
      | Some run \<Rightarrow>
          if cr_status run \<noteq> RS_RUNNING then Inr (0, db)
          else if cr_mode run = Live \<and> \<not> session_sends db (cr_sessionId run) then pause_unsendable now run db
          else materialize_all E js now run (pending_deliveries (free_slots max_buffered run db) i db) db)"

section \<open>Read models\<close>

record run_progress =
  rp_total :: nat
  rp_pending :: nat
  rp_materialized :: nat
  rp_processing :: nat
  rp_dryRunCompleted :: nat
  rp_accepted :: nat
  rp_sent :: nat
  rp_delivered :: nat
  rp_read :: nat
  rp_failed :: nat
  rp_unknown :: nat
  rp_blocked :: nat
  rp_cancelled :: nat

definition delivery_count :: "campaign_db \<Rightarrow> string \<Rightarrow> campaign_delivery_status \<Rightarrow> nat" where
  "delivery_count db i st = length (filter (\<lambda>d. cd_status d = st) (run_deliveries db i))"

definition all_delivery_statuses :: "campaign_delivery_status list" where
  "all_delivery_statuses = [CD_PENDING, CD_MATERIALIZED, CD_PROCESSING, CD_DRY_RUN_COMPLETED, CD_ACCEPTED, CD_SENT,
     CD_DELIVERED, CD_READ, CD_FAILED, CD_UNKNOWN, CD_BLOCKED, CD_CANCELLED]"

definition map_progress :: "campaign_db \<Rightarrow> string \<Rightarrow> run_progress" where
  "map_progress db i = (let n = delivery_count db i in
     \<lparr>rp_total = sum_list (map n all_delivery_statuses), rp_pending = n CD_PENDING, rp_materialized = n CD_MATERIALIZED,
      rp_processing = n CD_PROCESSING, rp_dryRunCompleted = n CD_DRY_RUN_COMPLETED, rp_accepted = n CD_ACCEPTED,
      rp_sent = n CD_SENT, rp_delivered = n CD_DELIVERED, rp_read = n CD_READ, rp_failed = n CD_FAILED,
      rp_unknown = n CD_UNKNOWN, rp_blocked = n CD_BLOCKED, rp_cancelled = n CD_CANCELLED\<rparr>)"

text \<open>\<open>getPreflightContext\<close> and \<open>mapPreflightTarget\<close>.\<close>

definition preflight_target :: "campaign_db \<Rightarrow> run_target \<Rightarrow> campaign_target list" where
  "preflight_target db t = (case find_group db (rt_sessionId t) (rt_groupId t) of None \<Rightarrow> []
     | Some g \<Rightarrow> [\<lparr>ct_groupId = rt_groupId t, ct_groupName = rt_groupName t, ct_enabled = True,
         ct_capability = \<lparr>cv_status = gr_capability g, cv_reason = gr_reason g, cv_checkedAt = gr_checkedAt g,
           cv_invalidatedAt = gr_invalidatedAt g, cv_revision = gr_revision g\<rparr>\<rparr>])"

definition get_preflight_context :: "string \<Rightarrow> campaign_db \<Rightarrow> (run_row \<times> campaign_target list) option" where
  "get_preflight_context i db = (case find_run db i of None \<Rightarrow> None
     | Some r \<Rightarrow> Some (r, concat (map (preflight_target db)
         (sort_key (\<lambda>t. (rt_groupName t, rt_groupId t)) (filter (\<lambda>t. rt_runId t = i) (cb_runTargets db))))))"

datatype wait_kind = Wait_Session_Lane | Wait_Rate_Budget | Wait_Connector | Wait_Safety_Policy

definition delivery_wait :: "campaign_db \<Rightarrow> delivery \<Rightarrow> wait_kind option" where
  "delivery_wait db d = (case delivery_job db d of None \<Rightarrow> None
     | Some j \<Rightarrow> (case mj_deferReason j of None \<Rightarrow> None
         | Some reason \<Rightarrow> if mj_status j \<noteq> SCHEDULED then None
             else Some (if reason = ''SESSION_OPERATION_IN_FLIGHT'' then Wait_Session_Lane
               else if reason \<in> {''RATE_BUDGET'', ''RECIPIENT_FREQUENCY_LIMIT''} then Wait_Rate_Budget
               else if reason \<in> {''CONNECTOR_UNHEALTHY'', ''MEDIA_RELAY_UNAVAILABLE''} then Wait_Connector
               else Wait_Safety_Policy)))"

definition delivery_next_attempt :: "campaign_db \<Rightarrow> delivery \<Rightarrow> millis option" where
  "delivery_next_attempt db d = (case delivery_job db d of None \<Rightarrow> None
     | Some j \<Rightarrow> (case mj_deferReason j of None \<Rightarrow> None
         | Some reason \<Rightarrow> if mj_status j = SCHEDULED \<and> reason \<noteq> ''SESSION_OPERATION_IN_FLIGHT''
             then Some (mj_scheduledAt j) else None))"

text \<open>\<open>auditLifecycle\<close>.\<close>

record lifecycle_drift =
  ld_draftWithLive :: nat
  ld_activeWithoutLive :: nat
  ld_pausedWithoutPaused :: nat
  ld_archivedWithLive :: nat
  ld_multipleLive :: nat

definition live_runs :: "campaign_db \<Rightarrow> campaign_row \<Rightarrow> run_row list" where
  "live_runs db c = filter (\<lambda>r. cr_campaignId r = cp_id c \<and> cr_mode r = Live) (cb_runs db)"

definition has_live_in :: "run_status set \<Rightarrow> campaign_db \<Rightarrow> campaign_row \<Rightarrow> bool" where
  "has_live_in S db c = list_ex (\<lambda>r. cr_status r \<in> S) (live_runs db c)"

definition audit_lifecycle :: "campaign_db \<Rightarrow> lifecycle_drift" where
  "audit_lifecycle db =
     (let count = (\<lambda>P. length (filter P (cb_campaigns db)));
          live = has_live_in {RS_PREPARING, RS_BLOCKED, RS_SCHEDULED, RS_RUNNING, RS_PAUSED} db
      in \<lparr>ld_draftWithLive = count (\<lambda>c. cp_status c = CS_DRAFT \<and> live_runs db c \<noteq> []),
          ld_activeWithoutLive = count (\<lambda>c. cp_status c = CS_ACTIVE \<and> \<not> live c),
          ld_pausedWithoutPaused = count (\<lambda>c. cp_status c = CS_PAUSED \<and> \<not> has_live_in {RS_PAUSED, RS_BLOCKED} db c),
          ld_archivedWithLive = count (\<lambda>c. cp_status c = CS_ARCHIVED \<and> live c),
          ld_multipleLive = count (\<lambda>c. 1 < length (live_runs db c))\<rparr>)"

end
