(* ===== verification/Run_Lifecycle.thy ===== *)
theory Run_Lifecycle
  imports Campaign_Runs Fault_Monad
begin

text \<open>
  \<open>CampaignRunLifecycleRepository\<close> (\<open>campaign-run-lifecycle.repository.ts\<close>): the schedule, the end of a run, and the
  operator's pause, resume and cancel with their receipts; the preparation of a run
  (\<open>CampaignRunService.prepare\<close>) and the scheduler's campaign tick (\<open>campaign-dispatch.tick.ts\<close>).
\<close>

section \<open>The schedule\<close>

definition hold_run :: "millis \<Rightarrow> run_row \<Rightarrow> run_row" where
  "hold_run now r = r\<lparr>cr_status := RS_PAUSED, cr_reason := Some ''MISSED_SCHEDULE'', cr_leaseToken := None,
     cr_leaseExpiresAt := None, cr_updatedAt := now\<rparr>"

definition hold_runs :: "millis \<Rightarrow> string \<Rightarrow> (run_row \<Rightarrow> bool) \<Rightarrow> nat ctx" where
  "hold_runs now reason P =
     tx_bind (update_runs P (hold_run now)) (\<lambda>held.
     tx_bind (pause_campaigns now (cr_campaignId ` set held)) (\<lambda>_.
     tx_bind (tx_iter (schedule_missed reason) held) (\<lambda>_. tx_return (length held))))"

definition hold_due_at_scheduler_startup :: "millis \<Rightarrow> nat ctx" where
  "hold_due_at_scheduler_startup now = hold_runs now ''RUNTIME_RESTART'' (\<lambda>r. cr_mode r = Live
     \<and> cr_status r \<in> {RS_PREPARING, RS_SCHEDULED} \<and> cr_deadline r \<noteq> None \<and> cr_scheduledAt r \<le> now)"

definition window_missed :: "millis \<Rightarrow> run_row \<Rightarrow> bool" where
  "window_missed now r \<longleftrightarrow> cr_mode r = Live \<and> (case cr_deadline r of None \<Rightarrow> False
     | Some t \<Rightarrow> (cr_status r = RS_PREPARING \<and> cr_scheduledAt r \<le> now) \<or> (cr_status r = RS_SCHEDULED \<and> t < now))"

definition run_due :: "millis \<Rightarrow> run_row \<Rightarrow> bool" where
  "run_due now r \<longleftrightarrow> cr_status r = RS_SCHEDULED \<and> cr_scheduledAt r \<le> now
     \<and> (case cr_deadline r of None \<Rightarrow> True | Some t \<Rightarrow> now \<le> t)"

definition start_run :: "millis \<Rightarrow> run_row \<Rightarrow> run_row" where
  "start_run now r = r\<lparr>cr_status := RS_RUNNING, cr_reason := None,
     cr_startedAt := Some (case cr_startedAt r of Some t \<Rightarrow> t | None \<Rightarrow> now), cr_updatedAt := now\<rparr>"

definition activate_due :: "millis \<Rightarrow> (nat \<times> nat) ctx" where
  "activate_due now =
     tx_bind (hold_runs now ''START_WINDOW_EXPIRED'' (window_missed now)) (\<lambda>held.
     tx_bind (update_runs (run_due now) (start_run now)) (\<lambda>started.
     tx_bind (tx_iter (\<lambda>r. append_run_activity (cr_id r) ''campaign_run.started'' Sev_Info From_Runtime [] None) started) (\<lambda>_.
     tx_return (held, length started))))"

section \<open>The end of a run\<close>

definition sending :: "campaign_db \<Rightarrow> string \<Rightarrow> bool" where
  "sending db i \<longleftrightarrow> list_ex (\<lambda>d. job_status_of db d = Some PROCESSING) (run_deliveries db i)"

definition cancelled_run :: "millis \<Rightarrow> run_row \<Rightarrow> run_row" where
  "cancelled_run now r = r\<lparr>cr_status := RS_CANCELLED, cr_reason := Some ''CANCELLED_BY_OPERATOR'',
     cr_completedAt := Some now, cr_updatedAt := now\<rparr>"

definition cancel_finalizable :: "nat \<Rightarrow> campaign_db \<Rightarrow> string list" where
  "cancel_finalizable n db = map cr_id (take n (sort_key (\<lambda>r. (cr_updatedAt r, cr_id r))
     (filter (\<lambda>r. cr_status r = RS_CANCELLING \<and> \<not> sending db (cr_id r)) (cb_runs db))))"

definition live_campaigns :: "run_row list \<Rightarrow> string set" where
  "live_campaigns rows = cr_campaignId ` set (filter (\<lambda>r. cr_mode r = Live) rows)"

definition finalize_cancelled :: "millis \<Rightarrow> nat \<Rightarrow> nat ctx" where
  "finalize_cancelled now n db =
     tx_bind (update_runs (\<lambda>r. cr_id r \<in> set (cancel_finalizable n db)) (cancelled_run now)) (\<lambda>rows.
     tx_bind (archive_campaigns now (live_campaigns rows)) (\<lambda>_.
     tx_bind (tx_iter (\<lambda>r. append_run_activity (cr_id r) ''campaign_run.cancelled'' Sev_Warning From_Runtime
       [(''reason'', ''CANCELLED_BY_OPERATOR'')] None) rows) (\<lambda>_. tx_return (length rows)))) db"

definition failed_delivery :: "campaign_delivery_status \<Rightarrow> bool" where
  "failed_delivery s \<longleftrightarrow> s \<in> {CD_FAILED, CD_UNKNOWN, CD_BLOCKED, CD_CANCELLED}"

definition open_delivery :: "campaign_delivery_status \<Rightarrow> bool" where
  "open_delivery s \<longleftrightarrow> s \<in> {CD_PENDING, CD_MATERIALIZED, CD_PROCESSING}"

definition has_failure :: "campaign_db \<Rightarrow> run_row \<Rightarrow> bool" where
  "has_failure db r \<longleftrightarrow> list_ex (\<lambda>d. failed_delivery (cd_status d)) (run_deliveries db (cr_id r))"

definition desired_status :: "campaign_db \<Rightarrow> run_row \<Rightarrow> run_status" where
  "desired_status db r = (if has_failure db r then RS_PARTIAL_FAILED else RS_COMPLETED)"

text \<open>\<open>min(cr.started_at)\<close> sorts a run that never started last.\<close>

definition started_key :: "run_row \<Rightarrow> (nat \<times> int) \<times> string" where
  "started_key r = ((case cr_startedAt r of Some t \<Rightarrow> (0, t) | None \<Rightarrow> (1, 0)), cr_id r)"

definition run_finished :: "campaign_db \<Rightarrow> run_row \<Rightarrow> bool" where
  "run_finished db r \<longleftrightarrow> cr_status r \<in> {RS_RUNNING, RS_COMPLETED, RS_PARTIAL_FAILED}
     \<and> run_deliveries db (cr_id r) \<noteq> [] \<and> list_all (\<lambda>d. \<not> open_delivery (cd_status d)) (run_deliveries db (cr_id r))
     \<and> cr_status r \<noteq> desired_status db r"

definition finalizable :: "nat \<Rightarrow> campaign_db \<Rightarrow> run_row list" where
  "finalizable n db = take n (sort_key started_key (filter (run_finished db) (cb_runs db)))"

definition finish_run :: "millis \<Rightarrow> campaign_db \<Rightarrow> run_row \<Rightarrow> run_row" where
  "finish_run now db r = r\<lparr>cr_status := desired_status db r,
     cr_reason := (if has_failure db r then Some ''ONE_OR_MORE_DELIVERIES_FAILED'' else None),
     cr_completedAt := Some (case cr_completedAt r of Some t \<Rightarrow> t | None \<Rightarrow> now), cr_updatedAt := now\<rparr>"

definition previous_status :: "run_row list \<Rightarrow> run_row \<Rightarrow> run_status" where
  "previous_status before r = (case List.find (\<lambda>b. cr_id b = cr_id r) before of Some b \<Rightarrow> cr_status b | None \<Rightarrow> cr_status r)"

definition finished_metadata :: "run_status \<Rightarrow> run_row \<Rightarrow> (string \<times> string) list" where
  "finished_metadata previous r =
     (if previous = RS_RUNNING then []
      else [(''previousStatus'', if previous = RS_COMPLETED then ''COMPLETED'' else ''PARTIAL_FAILED''),
            (''reason'', if cr_status r = RS_PARTIAL_FAILED then ''LATE_DELIVERY_FAILURE'' else ''LATE_DELIVERY_RESOLUTION'')])"

definition finished_activity :: "run_row list \<Rightarrow> run_row \<Rightarrow> unit ctx" where
  "finished_activity before r = append_run_activity (cr_id r)
     (if cr_status r = RS_COMPLETED then ''campaign_run.completed'' else ''campaign_run.partial_failed'')
     (if cr_status r = RS_COMPLETED then Sev_Success else Sev_Warning) From_Runtime
     (finished_metadata (previous_status before r) r) None"

definition finalize_finished :: "millis \<Rightarrow> nat \<Rightarrow> nat ctx" where
  "finalize_finished now n db =
     (let fs = finalizable n db in
      tx_bind (update_runs (\<lambda>r. cr_id r \<in> cr_id ` set fs \<and> run_finished db r) (finish_run now db)) (\<lambda>rows.
      tx_bind (archive_campaigns now (live_campaigns rows)) (\<lambda>_.
      tx_bind (tx_iter (finished_activity fs) rows) (\<lambda>_. tx_return (length rows)))) db)"

definition finalize :: "millis \<Rightarrow> nat \<Rightarrow> nat ctx" where
  "finalize now n = tx_bind (finalize_cancelled now n) (\<lambda>c. tx_bind (finalize_finished now n) (\<lambda>f. tx_return (c + f)))"

section \<open>Receipts of the operator's actions\<close>

record action_request =
  aq_operation :: run_action
  aq_key :: string
  aq_hash :: string

datatype action_result =
    Action_Succeeded run_row bool
  | Action_Rejected run_row bool string string "preflight_report option"

definition receipt_mismatch :: "string \<Rightarrow> action_request \<Rightarrow> action_receipt \<Rightarrow> bool" where
  "receipt_mismatch i q r \<longleftrightarrow> ar_requestHash r \<noteq> aq_hash q \<or> ar_subjectId r \<noteq> i \<or> ar_resultId r \<noteq> i"

definition receipt_answer :: "action_receipt \<Rightarrow> run_row \<Rightarrow> bool \<Rightarrow> campaign_db_error + action_result" where
  "receipt_answer receipt run replayed =
     (case ar_rejection receipt of
        None \<Rightarrow> Inr (Action_Succeeded run replayed)
      | Some (code, message, report) \<Rightarrow>
          if code \<noteq> ''CAMPAIGN_RUN_STATE_CONFLICT'' \<or> message = [] then Inl Receipt_Incomplete
          else Inr (Action_Rejected run replayed code message report))"

definition answer :: "action_receipt \<Rightarrow> string \<Rightarrow> bool \<Rightarrow> action_result ctx" where
  "answer receipt i replayed db =
     (case find_run db i of None \<Rightarrow> Inl Receipt_Run_Missing
      | Some run \<Rightarrow> (case receipt_answer receipt run replayed of Inl e \<Rightarrow> Inl e | Inr x \<Rightarrow> Inr (x, db)))"

text \<open>\<open>findActionResult\<close> and \<open>replayInTransaction\<close>: the stored answer of the same request.\<close>

definition replay_action :: "string \<Rightarrow> action_request \<Rightarrow> action_result option ctx" where
  "replay_action i q db =
     (case map_of (cb_receipts db) (aq_operation q, aq_key q) of
        None \<Rightarrow> Inr (None, db)
      | Some r \<Rightarrow> if receipt_mismatch i q r then Inl Receipt_Conflict
          else tx_bind (answer r i True) (\<lambda>x. tx_return (Some x)) db)"

definition record_receipt_of ::
  "string \<Rightarrow> string \<Rightarrow> (string \<times> string \<times> preflight_report option) option \<Rightarrow> action_request \<Rightarrow> action_receipt ctx" where
  "record_receipt_of i s rejection q db =
     (let r = \<lparr>ar_requestHash = aq_hash q, ar_sessionId = s, ar_subjectId = i, ar_resultId = i, ar_rejection = rejection\<rparr>
      in if map_of (cb_receipts db) (aq_operation q, aq_key q) \<noteq> None then Inl Receipt_Exists
         else Inr (r, db\<lparr>cb_receipts := cb_receipts db @ [((aq_operation q, aq_key q), r)]\<rparr>))"

definition record_action_success :: "string \<Rightarrow> string \<Rightarrow> action_request \<Rightarrow> action_receipt ctx" where
  "record_action_success i s q = record_receipt_of i s None q"

definition with_replay :: "string \<Rightarrow> action_request \<Rightarrow> action_result option ctx \<Rightarrow> action_result option ctx" where
  "with_replay i q m = tx_bind (replay_action i q) (\<lambda>x. case x of Some y \<Rightarrow> tx_return (Some y) | None \<Rightarrow> m)"

definition dedupe_key :: "string \<Rightarrow> string \<Rightarrow> action_request \<Rightarrow> string option" where
  "dedupe_key i verb q = Some (''campaign-run:'' @ i @ '':'' @ verb @ '':'' @ aq_key q)"

definition succeed :: "string \<Rightarrow> string \<Rightarrow> action_request \<Rightarrow> action_result option ctx" where
  "succeed i s q = tx_bind (record_action_success i s q) (\<lambda>r. tx_bind (answer r i False) (\<lambda>x. tx_return (Some x)))"

section \<open>Pause\<close>

text \<open>The jobs of the run that have not started upstream, and the leases of their tokens.\<close>

definition unstarted :: "job_status set \<Rightarrow> message_job \<Rightarrow> bool" where
  "unstarted S j \<longleftrightarrow> mj_status j \<in> S \<or> (mj_status j = PROCESSING \<and> mj_upstreamStartedAt j = None)"

definition take_back :: "(message_job \<Rightarrow> bool) \<Rightarrow> (message_job \<Rightarrow> message_job) \<Rightarrow> unit tx" where
  "take_back P f rt =
     (let candidates = filter P (db_jobs rt) in
      tx_bind (update_jobs P f) (\<lambda>_. tx_modify (\<lambda>rt. rt\<lparr>db_leases :=
        filter (\<lambda>(k, l). \<not> list_ex (\<lambda>j. mj_leaseToken j = Some (sl_token l)) candidates) (db_leases rt)\<rparr>)) rt)"

definition paused_job :: "millis \<Rightarrow> message_job \<Rightarrow> message_job" where
  "paused_job now j = j\<lparr>mj_status := SCHEDULED, mj_scheduledAt := now,
     mj_lastError := Some ''Campaign run paused before upstream start'', mj_leaseExpiresAt := None,
     mj_leaseToken := None, mj_updatedAt := now\<rparr>"

definition paused_run :: "millis \<Rightarrow> run_row \<Rightarrow> run_row" where
  "paused_run now r = r\<lparr>cr_status := RS_PAUSED, cr_reason := Some ''MANUAL_PAUSE'', cr_updatedAt := now\<rparr>"

definition pause :: "millis \<Rightarrow> string \<Rightarrow> action_request \<Rightarrow> action_result option ctx" where
  "pause now i q = with_replay i q
     (tx_bind (update_runs (\<lambda>r. cr_id r = i \<and> cr_status r \<in> {RS_SCHEDULED, RS_RUNNING}) (paused_run now)) (\<lambda>rows.
      case rows of
        [] \<Rightarrow> tx_return None
      | run # _ \<Rightarrow>
          tx_bind (\<lambda>db. on_runtime (take_back (\<lambda>j. mj_id j \<in> run_jobs db i \<and> unstarted {QUEUED} j) (paused_job now)) db) (\<lambda>_.
          tx_bind (if cr_mode run = Live then pause_campaigns now {cr_campaignId run} else tx_return ()) (\<lambda>_.
          tx_bind (append_run_activity i ''campaign_run.paused'' Sev_Warning From_Studio
            [(''reason'', ''MANUAL_PAUSE'')] (dedupe_key i ''pause'' q)) (\<lambda>_.
          succeed i (cr_sessionId run) q)))))"

section \<open>Resume\<close>

definition reject_resume :: "millis \<Rightarrow> string \<Rightarrow> preflight_report \<Rightarrow> action_request \<Rightarrow> action_result option ctx" where
  "reject_resume now i report q = with_replay i q
     (tx_bind (update_runs (\<lambda>r. cr_id r = i \<and> cr_status r \<in> {RS_PAUSED, RS_BLOCKED}) (\<lambda>r. r\<lparr>cr_status := RS_BLOCKED,
        cr_reason := Some ''PREFLIGHT_BLOCKED'', cr_report := Some report, cr_updatedAt := now\<rparr>)) (\<lambda>rows.
      case rows of
        [] \<Rightarrow> tx_return None
      | run # _ \<Rightarrow>
          tx_bind (append_run_activity i ''campaign_run.blocked'' Sev_Warning From_Studio
            [(''reason'', ''PREFLIGHT_BLOCKED''), (''policyVersion'', text_of_int (pr_policyVersion report))]
            (dedupe_key i ''resume-blocked'' q)) (\<lambda>_.
          tx_bind (record_receipt_of i (cr_sessionId run)
            (Some (''CAMPAIGN_RUN_STATE_CONFLICT'', ''Campaign run is still blocked by preflight'', Some report)) q) (\<lambda>r.
          tx_bind (answer r i False) (\<lambda>x. tx_return (Some x))))))"

datatype resume_result = Resume_Stale | Resume_Answer "action_result option"

definition resumed_run :: "millis \<Rightarrow> run_status \<Rightarrow> preflight_report \<Rightarrow> run_row \<Rightarrow> run_row" where
  "resumed_run now st report r = r\<lparr>cr_status := st, cr_reason := None, cr_report := Some report,
     cr_startedAt := (if st = RS_RUNNING then Some (case cr_startedAt r of Some t \<Rightarrow> t | None \<Rightarrow> now) else cr_startedAt r),
     cr_completedAt := None, cr_updatedAt := now\<rparr>"

text \<open>A target is read again unless its delivery has left PENDING.\<close>

definition still_pending :: "campaign_db \<Rightarrow> run_target \<Rightarrow> bool" where
  "still_pending db t \<longleftrightarrow> \<not> list_ex (\<lambda>d. cd_runId d = rt_runId t \<and> cd_groupId d = rt_groupId t \<and> cd_status d \<noteq> CD_PENDING)
     (cb_deliveries db)"

definition resume_run ::
  "millis \<Rightarrow> millis \<Rightarrow> (string \<Rightarrow> string) \<Rightarrow> string \<Rightarrow> preflight_report \<Rightarrow> action_request \<Rightarrow> run_row \<Rightarrow> action_result option ctx" where
  "resume_run js now ids i report q run =
     (let st = (if js < cr_scheduledAt run then RS_SCHEDULED else RS_RUNNING) in
      tx_bind (refresh_targets i still_pending) (\<lambda>_.
      tx_bind (insert_deliveries now ids i) (\<lambda>_.
      tx_bind (update_runs (\<lambda>r. cr_id r = i) (resumed_run now st report)) (\<lambda>_.
      tx_bind (if cr_mode run = Live then move_campaigns now {cr_campaignId run} {CS_PAUSED} CS_ACTIVE else tx_return ()) (\<lambda>_.
      tx_bind (append_run_activity i ''campaign_run.resumed'' Sev_Info From_Studio
        [(''resumedStatus'', if st = RS_SCHEDULED then ''SCHEDULED'' else ''RUNNING'')] (dedupe_key i ''resume'' q)) (\<lambda>_.
      succeed i (cr_sessionId run) q))))))"

definition resume ::
  "millis \<Rightarrow> millis \<Rightarrow> (string \<Rightarrow> string) \<Rightarrow> string \<Rightarrow> preflight_report \<Rightarrow> campaign_target list \<Rightarrow> action_request
     \<Rightarrow> resume_result ctx" where
  "resume js now ids i report observed q =
     tx_bind (replay_action i q) (\<lambda>x. case x of
       Some y \<Rightarrow> tx_return (Resume_Answer (Some y))
     | None \<Rightarrow> (\<lambda>db. case find_run db i of
         None \<Rightarrow> Inr (Resume_Answer None, db)
       | Some run \<Rightarrow>
           if cr_status run \<notin> {RS_PAUSED, RS_BLOCKED} then Inr (Resume_Answer None, db)
           else if capability_snapshot_changed db i observed then Inr (Resume_Stale, db)
           else tx_bind (resume_run js now ids i report q run) (\<lambda>y. tx_return (Resume_Answer y)) db))"

section \<open>Cancel\<close>

definition cancelled_job :: "millis \<Rightarrow> message_job \<Rightarrow> message_job" where
  "cancelled_job now j = j\<lparr>mj_status := CANCELLED, mj_leaseExpiresAt := None, mj_leaseToken := None,
     mj_lastError := Some ''Campaign run cancelled before upstream start'', mj_updatedAt := now\<rparr>"

definition request_cancellation :: "millis \<Rightarrow> string set \<Rightarrow> unit tx" where
  "request_cancellation now js = tx_modify (\<lambda>rt. rt\<lparr>db_jobs := update_where
     (\<lambda>j. mj_id j \<in> js \<and> mj_status j \<in> {SCHEDULED, QUEUED, PROCESSING})
     (\<lambda>j. j\<lparr>mj_cancelRequestedAt := Some now, mj_updatedAt := now\<rparr>) (db_jobs rt)\<rparr>)"

definition cancelling_run :: "millis \<Rightarrow> run_row \<Rightarrow> run_row" where
  "cancelling_run now r = r\<lparr>cr_status := RS_CANCELLING, cr_reason := Some ''CANCEL_REQUESTED'', cr_completedAt := None,
     cr_updatedAt := now\<rparr>"

definition cancel_delivery :: "millis \<Rightarrow> delivery \<Rightarrow> delivery" where
  "cancel_delivery now d = d\<lparr>cd_status := CD_CANCELLED, cd_failure := Some ''Campaign run cancelled'', cd_updatedAt := now\<rparr>"

definition cancel_deliveries :: "millis \<Rightarrow> string \<Rightarrow> delivery list ctx" where
  "cancel_deliveries now i db = update_deliveries (\<lambda>d. cd_runId d = i
     \<and> (cd_status d = CD_PENDING \<or> job_status_of db d = Some CANCELLED)) (cancel_delivery now) db"

text \<open>What a run has to be to be cancelled, and the end of the transaction.\<close>

definition cancellable :: "run_status \<Rightarrow> bool" where
  "cancellable s \<longleftrightarrow> s \<in> {RS_PREPARING, RS_BLOCKED, RS_SCHEDULED, RS_RUNNING, RS_PAUSED}"

definition cancel_end :: "millis \<Rightarrow> string \<Rightarrow> action_request \<Rightarrow> run_row \<Rightarrow> action_result option ctx" where
  "cancel_end now i q run db =
     (let flying = sending db i in
      tx_bind (if flying then tx_return [] else update_runs (\<lambda>r. cr_id r = i) (cancelled_run now)) (\<lambda>_.
      tx_bind (if cr_mode run = Live
        then move_campaigns now {cr_campaignId run} {CS_ACTIVE, CS_PAUSED} (if flying then CS_PAUSED else CS_ARCHIVED)
        else tx_return ()) (\<lambda>_.
      tx_bind (append_run_activity i (if flying then ''campaign_run.cancellation_requested'' else ''campaign_run.cancelled'')
        Sev_Warning From_Studio [(''reason'', if flying then ''IN_FLIGHT_SEND'' else ''CANCELLED_BY_OPERATOR'')]
        (dedupe_key i ''cancel'' q)) (\<lambda>_.
      succeed i (cr_sessionId run) q))) db)"

definition cancel_run :: "millis \<Rightarrow> (string \<Rightarrow> string) \<Rightarrow> string \<Rightarrow> action_request \<Rightarrow> run_row \<Rightarrow> action_result option ctx" where
  "cancel_run now ids i q run =
     tx_bind (insert_deliveries now ids i) (\<lambda>_.
     tx_bind (update_runs (\<lambda>r. cr_id r = i) (cancelling_run now)) (\<lambda>_.
     tx_bind (\<lambda>db. on_runtime (request_cancellation now (run_jobs db i)) db) (\<lambda>_.
     tx_bind (\<lambda>db. on_runtime (take_back (\<lambda>j. mj_id j \<in> run_jobs db i \<and> unstarted {SCHEDULED, QUEUED} j)
       (cancelled_job now)) db) (\<lambda>_.
     tx_bind (cancel_deliveries now i) (\<lambda>_.
     cancel_end now i q run)))))"

definition cancel :: "millis \<Rightarrow> (string \<Rightarrow> string) \<Rightarrow> string \<Rightarrow> action_request \<Rightarrow> action_result option ctx" where
  "cancel now ids i q = with_replay i q (\<lambda>db. case find_run db i of
     None \<Rightarrow> Inr (None, db)
   | Some run \<Rightarrow> if \<not> cancellable (cr_status run) then Inr (None, db) else cancel_run now ids i q run db)"

definition list_running_ids :: "nat \<Rightarrow> campaign_db \<Rightarrow> string list" where
  "list_running_ids n db = map cr_id (take n (sort_key started_key (filter (\<lambda>r. cr_status r = RS_RUNNING) (cb_runs db))))"

section \<open>Preparation and the scheduler's tick\<close>

text \<open>\<open>CampaignRunService.prepare\<close>: \<open>evaluate\<close> is the review, which may throw; \<open>describe\<close> the text of a database error.
  Its times are the database's and the process's clock at each of its statements.\<close>

record prepare_env =
  px_now :: "nat \<Rightarrow> millis"
  px_js :: millis
  px_token :: string
  px_ids :: "string \<Rightarrow> string"
  px_evaluate :: "run_row \<Rightarrow> campaign_target list \<Rightarrow> string + preflight_report"
  px_describe :: "campaign_db_error \<Rightarrow> string"

datatype prepare_error = Prepare_Database campaign_db_error | Prepare_Threw string

definition in_db :: "('a ctx) \<Rightarrow> (campaign_db, prepare_error, 'a) fm" where
  "in_db m db = (case transaction m db of (Inl e, db') \<Rightarrow> (Inl (Prepare_Database e), db') | (Inr x, db') \<Rightarrow> (Inr x, db'))"

definition prepare_failed :: "prepare_env \<Rightarrow> string \<Rightarrow> string \<Rightarrow> prepare_error \<Rightarrow> (campaign_db, prepare_error, unit) fm" where
  "prepare_failed E i token e = fbind (in_db (fail_preparation_attempt (px_now E 2) i token
     (case e of Prepare_Threw m \<Rightarrow> m | Prepare_Database d \<Rightarrow> px_describe E d))) (\<lambda>_. fthrow e)"

definition prepare_body :: "prepare_env \<Rightarrow> string \<Rightarrow> string \<Rightarrow> (campaign_db, prepare_error, unit) fm" where
  "prepare_body E i token = fbind (fget (get_preflight_context i)) (\<lambda>context.
     case context of
       None \<Rightarrow> fok ()
     | Some (run, targets) \<Rightarrow>
         if cr_status run \<noteq> RS_PREPARING then fok ()
         else (case px_evaluate E run targets of
            Inl m \<Rightarrow> fthrow (Prepare_Threw m)
          | Inr report \<Rightarrow> fbind (in_db (apply_preflight (px_js E) (px_now E 1) (px_ids E) i token report targets)) (\<lambda>_. fok ())))"

definition prepare :: "prepare_env \<Rightarrow> string \<Rightarrow> (campaign_db, prepare_error, unit) fm" where
  "prepare E i = fbind (in_db (claim_preparation (px_now E 0) (px_token E) i)) (\<lambda>claim.
     case claim of
       None \<Rightarrow> fok ()
     | Some (token, attempt) \<Rightarrow> fcatch (prepare_body E i token) (prepare_failed E i token))"

text \<open>\<open>CampaignDispatchTick.run\<close>, where the publication of the preparations is the queue's. A run whose
  materialization throws does not stop the others.\<close>

definition materialize_caught :: "materialize_env \<Rightarrow> millis \<Rightarrow> millis \<Rightarrow> string \<Rightarrow> (campaign_db, campaign_db_error, unit) fm" where
  "materialize_caught E js now i = fcatch (fbind (transaction (materialize_pending E js now i 5)) (\<lambda>_. fok ())) (\<lambda>_. fok ())"

definition campaign_tick ::
  "materialize_env \<Rightarrow> bool \<Rightarrow> millis \<Rightarrow> millis \<Rightarrow> (campaign_db, campaign_db_error, string list) fm" where
  "campaign_tick E initialized js now =
     fbind (if initialized then fok 0 else transaction (hold_due_at_scheduler_startup now)) (\<lambda>_.
     fbind (transaction (recover_expired_preparations now)) (\<lambda>_.
     fbind (transaction (activate_due now)) (\<lambda>_.
     fbind (fget (list_preparing now 100)) (\<lambda>preparing.
     fbind (transaction (reconcile now)) (\<lambda>_.
     fbind (transaction (finalize now 100)) (\<lambda>_.
     fbind (fget (list_running_ids 100)) (\<lambda>running.
     fthen (fiter (materialize_caught E js now) running) (fok preparing))))))))"

end
