(* ===== verification/Campaign_System.thy ===== *)
theory Campaign_System
  imports Run_Lifecycle Message_System
begin

text \<open>
  Campaign runs as a system of transactions, interleaved with every operation of the message modules, which read the
  runs through \<open>runs_view\<close>. \<open>campaign_parts\<close> collects what an invariant needs of the statements that write the
  campaign tables; every operation then keeps it (\<open>campaign_keeps\<close>). An operation that resumes a run is the only one
  that may take it from PAUSED or BLOCKED towards sending, so it needs the run to be \<open>resumable\<close>.
\<close>

datatype campaign_op =
    Create_Run millis millis string int run_request
  | Claim_Preparation millis string string
  | Recover_Preparations millis
  | Fail_Preparation millis string string string
  | Apply_Preflight millis millis "string \<Rightarrow> string" string string preflight_report "campaign_target list"
  | Reconcile millis
  | Materialize materialize_env millis millis string nat
  | Hold_Due millis
  | Activate_Due millis
  | Finalize millis nat
  | Pause millis string action_request
  | Reject_Resume millis string preflight_report action_request
  | Resume millis millis "string \<Rightarrow> string" string preflight_report "campaign_target list" action_request
  | Cancel millis "string \<Rightarrow> string" string action_request
  | Messages runtime_op

definition run_ctx :: "'a ctx \<Rightarrow> campaign_db \<Rightarrow> campaign_db" where
  "run_ctx m db = snd (transaction m db)"

fun campaign_step :: "campaign_op \<Rightarrow> campaign_db \<Rightarrow> campaign_db" where
  "campaign_step (Create_Run js now i grace q) = run_ctx (create_run js now i grace q)"
| "campaign_step (Claim_Preparation now token i) = run_ctx (claim_preparation now token i)"
| "campaign_step (Recover_Preparations now) = run_ctx (recover_expired_preparations now)"
| "campaign_step (Fail_Preparation now i token err) = run_ctx (fail_preparation_attempt now i token err)"
| "campaign_step (Apply_Preflight js now ids i token report ts) = run_ctx (apply_preflight js now ids i token report ts)"
| "campaign_step (Reconcile now) = run_ctx (reconcile now)"
| "campaign_step (Materialize E js now i n) = run_ctx (materialize_pending E js now i n)"
| "campaign_step (Hold_Due now) = run_ctx (hold_due_at_scheduler_startup now)"
| "campaign_step (Activate_Due now) = run_ctx (activate_due now)"
| "campaign_step (Finalize now n) = run_ctx (finalize now n)"
| "campaign_step (Pause now i q) = run_ctx (pause now i q)"
| "campaign_step (Reject_Resume now i report q) = run_ctx (reject_resume now i report q)"
| "campaign_step (Resume js now ids i report ts q) = run_ctx (resume js now ids i report ts q)"
| "campaign_step (Cancel now ids i q) = run_ctx (cancel now ids i q)"
| "campaign_step (Messages op) = (\<lambda>db. db\<lparr>cb_runtime := runtime_step op (runtime_view db)\<rparr>)"

fun resumes :: "campaign_op \<Rightarrow> string option" where
  "resumes (Resume js now ids i report ts q) = Some i"
| "resumes _ = None"

text \<open>What no update of a run changes, and the direction of its status without a resume.\<close>

definition same_run :: "run_row \<Rightarrow> run_row \<Rightarrow> bool" where
  "same_run r r' \<longleftrightarrow> cr_id r' = cr_id r \<and> cr_campaignId r' = cr_campaignId r \<and> cr_key r' = cr_key r
     \<and> cr_sessionId r' = cr_sessionId r \<and> cr_mode r' = cr_mode r"

definition held_status :: "run_status \<Rightarrow> bool" where
  "held_status s \<longleftrightarrow> s \<notin> {RS_PREPARING, RS_SCHEDULED, RS_RUNNING}"

definition stays_held :: "run_row \<Rightarrow> run_row \<Rightarrow> bool" where
  "stays_held r r' \<longleftrightarrow> (held_status (cr_status r) \<longrightarrow> held_status (cr_status r'))"

text \<open>An update of a delivery keeps what it is for, and gives it a job only while it is pending.\<close>

definition same_delivery :: "delivery \<Rightarrow> delivery \<Rightarrow> bool" where
  "same_delivery d d' \<longleftrightarrow> cd_id d' = cd_id d \<and> cd_runId d' = cd_runId d \<and> cd_groupId d' = cd_groupId d
     \<and> (cd_status d \<noteq> CD_PENDING \<longrightarrow> cd_jobId d' = cd_jobId d \<and> cd_status d' \<noteq> CD_PENDING)"

definition fresh_delivery :: "delivery \<Rightarrow> bool" where
  "fresh_delivery d \<longleftrightarrow> cd_status d = CD_PENDING \<and> cd_jobId d = None"

lemma delivery_of_job_open: "delivery_of_job s = Some st \<Longrightarrow> st \<noteq> CD_PENDING"
  by (cases s) auto

lemma same_follow: "same_delivery d (follow_job now db d)"
  by (auto simp: same_delivery_def follow_job_def split: option.splits dest: delivery_of_job_open)

locale campaign_parts =
  fixes I :: "campaign_db \<Rightarrow> bool" and resumable :: "string \<Rightarrow> bool"
  assumes distinct_runs: "I db \<Longrightarrow> distinct (map cr_id (cb_runs db))"
    and campaigns: "I db \<Longrightarrow> I (db\<lparr>cb_campaigns := cs\<rparr>)"
    and activity: "I db \<Longrightarrow> I (db\<lparr>cb_activity := as\<rparr>)"
    and receipts: "I db \<Longrightarrow> I (db\<lparr>cb_receipts := rs\<rparr>)"
    and run_targets: "I db \<Longrightarrow> I (db\<lparr>cb_runTargets := ts\<rparr>)"
    and runtime: "I db \<Longrightarrow> I (db\<lparr>cb_runtime := rt\<rparr>)"
    and new_runs: "I db \<Longrightarrow> \<not> list_ex (run_conflicts r) (cb_runs db) \<Longrightarrow> cr_status r = RS_PREPARING
      \<Longrightarrow> cr_completedAt r = None \<Longrightarrow> I (db\<lparr>cb_runs := cb_runs db @ [r]\<rparr>)"
    and leases: "I db \<Longrightarrow> (\<And>r. same_run r (f r) \<and> cr_status (f r) = cr_status r \<and> cr_completedAt (f r) = cr_completedAt r)
      \<Longrightarrow> I (db\<lparr>cb_runs := update_where P f (cb_runs db)\<rparr>)"
    and runs: "I db \<Longrightarrow> (\<And>r. r \<in> set (cb_runs db) \<Longrightarrow> P r \<Longrightarrow>
        run_guard r (f r) = None \<and> same_run r (f r) \<and> (stays_held r (f r) \<or> resumable (cr_id r)))
      \<Longrightarrow> I (db\<lparr>cb_runs := update_where P f (cb_runs db)\<rparr>)"
    and deliveries: "I db \<Longrightarrow> (\<And>d. d \<in> set (cb_deliveries db) \<Longrightarrow> Q d \<Longrightarrow> delivery_guard d (g d) = None \<and> same_delivery d (g d))
      \<Longrightarrow> I (db\<lparr>cb_deliveries := update_where Q g (cb_deliveries db)\<rparr>)"
    and new_deliveries: "I db \<Longrightarrow> (\<And>d. d \<in> set ds \<Longrightarrow> fresh_delivery d) \<Longrightarrow> I (db\<lparr>cb_deliveries := cb_deliveries db @ ds\<rparr>)"
begin

lemma keeps_move [tx_rules]: "tx_keeps I (move_campaigns now ids S t)"
  unfolding move_campaigns_def by (intro tx_rules campaigns)

lemma keeps_archive [tx_rules]: "tx_keeps I (archive_campaigns now ids)"
  unfolding archive_campaigns_def by (rule keeps_move)

lemma keeps_pause_campaigns [tx_rules]: "tx_keeps I (pause_campaigns now ids)"
  unfolding pause_campaigns_def by (rule keeps_move)

lemma keeps_activity [tx_rules]: "tx_keeps I (append_run_activity i ev sev origin meta dedupe)"
  unfolding append_run_activity_def by (intro tx_rules) (auto intro: activity split: option.split)

lemma keeps_failed_activity [tx_rules]: "tx_keeps I (preparation_failed_activity r)"
  unfolding preparation_failed_activity_def by (rule keeps_activity)

lemma keeps_missed [tx_rules]: "tx_keeps I (schedule_missed reason r)"
  unfolding schedule_missed_def by (rule keeps_activity)

lemma keeps_finished [tx_rules]: "tx_keeps I (finished_activity fs r)"
  unfolding finished_activity_def by (rule keeps_activity)

lemma keeps_runtime [tx_rules]: "tx_keeps I (on_runtime m)"
  unfolding tx_keeps_def on_runtime_ok by (auto intro: runtime)

lemma keeps_runtime_of [tx_rules]: "tx_keeps I (\<lambda>db. on_runtime (m db) db)"
  unfolding tx_keeps_def on_runtime_ok by (auto intro: runtime)

lemma keeps_touch [tx_rules]:
  "(\<And>r. same_run r (f r) \<and> cr_status (f r) = cr_status r \<and> cr_completedAt (f r) = cr_completedAt r)
   \<Longrightarrow> tx_keeps I (touch_runs P f)"
  unfolding tx_keeps_def touch_runs_def by (auto intro: leases)

lemma keeps_update_runs:
  assumes "\<And>r. P r \<Longrightarrow> same_run r (f r) \<and> (stays_held r (f r) \<or> resumable (cr_id r))"
  shows "tx_keeps I (update_runs P f)"
  unfolding tx_keeps_def update_runs_ok using assms by (auto intro!: runs)

lemma keeps_update_deliveries:
  assumes "\<And>d. Q d \<Longrightarrow> delivery_guard d (g d) = None \<Longrightarrow> same_delivery d (g d)"
  shows "tx_keeps I (update_deliveries Q g)"
  unfolding tx_keeps_def update_deliveries_ok using assms by (auto intro!: deliveries)

lemma keeps_new_deliveries [tx_rules]: "tx_keeps I (insert_deliveries now ids i)"
  unfolding insert_deliveries_def
  by (intro tx_rules) (auto intro!: new_deliveries simp: new_delivery_def fresh_delivery_def)

lemma keeps_refresh [tx_rules]: "tx_keeps I (refresh_targets i P)"
  unfolding refresh_targets_def by (intro tx_rules run_targets)

lemma keeps_snapshot [tx_rules]: "tx_keeps I (snapshot_targets i c)"
  unfolding snapshot_targets_def by (intro tx_rules run_targets)

lemma keeps_receipt [tx_rules]: "tx_keeps I (record_receipt_of i s rejection q)"
  by (auto simp: tx_keeps_def record_receipt_of_def Let_def intro: receipts split: if_splits)

lemma keeps_answer [tx_rules]: "tx_keeps I (answer r i replayed)"
  by (auto simp: tx_keeps_def answer_def split: option.splits sum.splits)

lemma keeps_replay [tx_rules]: "tx_keeps I (replay_action i q)"
proof -
  have "I db'" if "I db" "replay_action i q db = Inr (x, db')" for db x db'
    using that tx_keepsD [OF keeps_answer] by (auto simp: replay_action_def split: option.splits if_splits)
  then show ?thesis unfolding tx_keeps_def by blast
qed

lemma keeps_with_replay [tx_rules]: "tx_keeps I m \<Longrightarrow> tx_keeps I (with_replay i q m)"
  unfolding with_replay_def by (intro tx_rules) simp_all

lemma keeps_succeed [tx_rules]: "tx_keeps I (succeed i s q)"
  unfolding succeed_def record_action_success_def by (intro tx_rules)

lemma keeps_if [tx_rules]: "tx_keeps I m \<Longrightarrow> tx_keeps I m' \<Longrightarrow> tx_keeps I (if b then m else m')"
  by simp

lemma keeps_at: "(\<And>db. tx_keeps I (m db)) \<Longrightarrow> tx_keeps I (\<lambda>db. m db db)"
  unfolding tx_keeps_def by blast

text \<open>Creating and preparing.\<close>

lemma keeps_append_run:
  assumes "\<not> list_ex (run_conflicts r) (cb_runs db0)" "cr_status r = RS_PREPARING" "cr_completedAt r = None" "I db0"
    and "tx_modify (\<lambda>db. db\<lparr>cb_runs := cb_runs db @ [r]\<rparr>) db0 = Inr (x, db)"
  shows "I db"
  using new_runs [OF assms(4,1-3)] assms(5) by simp

lemma keeps_insert_run:
  assumes "cr_status r = RS_PREPARING" "cr_completedAt r = None"
  shows "tx_keeps I (insert_run now q r)"
proof -
  have rest: "tx_keeps I (\<lambda>db. tx_bind (snapshot_targets (cr_id r) (cr_campaignId r)) (\<lambda>_.
      tx_bind (if cq_mode q = Live then move_campaigns now {cr_campaignId r} {CS_DRAFT} CS_ACTIVE else tx_return ()) (\<lambda>_.
      tx_bind (append_run_activity (cr_id r) ''campaign_run.created'' Sev_Info From_Studio []
        (Some (''campaign-run:'' @ cr_id r @ '':created''))) (\<lambda>_.
      tx_return ((no_run True)\<lparr>cu_run := Some r, cu_created := True\<rparr>)))) db)"
    by (intro tx_rules)
  have "I db'" if "I db" "insert_run now q r db = Inr (x, db')" for db x db'
  proof (cases "list_ex (run_conflicts r) (cb_runs db)")
    case True
    then show ?thesis using that by (auto simp: insert_run_def split: option.splits)
  next
    case False
    then have "I (db\<lparr>cb_runs := cb_runs db @ [r]\<rparr>)" using new_runs [OF that(1) _ assms] by simp
    then show ?thesis using that(2) False tx_keepsD [OF rest]
      unfolding insert_run_def by (fastforce simp del: snapshot_targets_def)
  qed
  then show ?thesis unfolding tx_keeps_def by blast
qed

lemma keeps_create [tx_rules]: "tx_keeps I (create_run js now i grace q)"
proof -
  have "tx_keeps I (insert_run now q (new_run js now i grace q c))" for c
    by (rule keeps_insert_run) (simp_all add: new_run_def Let_def)
  then have "I db'" if "I db" "create_run js now i grace q db = Inr (x, db')" for db x db'
    using that unfolding create_run_def tx_keeps_def by (auto split: option.splits if_splits)
  then show ?thesis unfolding tx_keeps_def by blast
qed

lemma keeps_claim [tx_rules]: "tx_keeps I (claim_preparation now token i)"
  unfolding claim_preparation_def by (intro tx_rules) (simp add: same_run_def)

lemma give_up_step: "P r \<Longrightarrow> (\<And>r. P r \<Longrightarrow> cr_status r = RS_PREPARING) \<Longrightarrow>
    same_run r (give_up_or_retry now err t r) \<and> stays_held r (give_up_or_retry now err t r)"
  by (simp add: same_run_def stays_held_def held_status_def give_up_or_retry_def)

lemma keeps_recover [tx_rules]: "tx_keeps I (recover_expired_preparations now)"
  unfolding recover_expired_preparations_def
  by (intro tx_rules keeps_update_runs conjI disjI1 conjunct1 [OF give_up_step] conjunct2 [OF give_up_step])
    (auto simp: lease_lost_def)

lemma keeps_fail [tx_rules]: "tx_keeps I (fail_preparation_attempt now i token err)"
  unfolding fail_preparation_attempt_def
  by (intro tx_rules keeps_update_runs)
    (auto simp: holds_preparation_def same_run_def stays_held_def held_status_def give_up_or_retry_def)

lemma keeps_by_status:
  assumes "\<And>r. same_run r (f r)" "\<And>r. P r \<Longrightarrow> held_status (cr_status r) \<Longrightarrow> held_status (cr_status (f r))"
  shows "tx_keeps I (update_runs P f)"
  using assms by (intro keeps_update_runs) (auto simp: stays_held_def)

lemma keeps_update_found:
  assumes "I db" "\<And>r. r \<in> set (cb_runs db) \<Longrightarrow> cr_id r = i \<Longrightarrow> \<not> held_status (cr_status r)" "\<And>r. same_run r (f r)"
    and "update_runs (\<lambda>r. cr_id r = i) f db = Inr (x, db')"
  shows "I db'"
  using assms unfolding update_runs_ok by (auto intro!: runs simp: stays_held_def)

lemma found_unheld:
  assumes "I db" "List.find (holds_preparation now i token) (cb_runs db) = Some run" "r \<in> set (cb_runs db)" "cr_id r = i"
  shows "\<not> held_status (cr_status r)"
proof -
  have "run \<in> set (cb_runs db)" "holds_preparation now i token run" using assms(2) by (auto simp: find_Some_iff)
  then have "r = run"
    using distinct_runs [OF assms(1)] assms(3,4) by (auto simp: holds_preparation_def distinct_map dest: inj_onD)
  then show ?thesis using \<open>holds_preparation now i token run\<close> by (simp add: holds_preparation_def held_status_def)
qed

lemma keeps_start:
  assumes "I db" "\<And>r. r \<in> set (cb_runs db) \<Longrightarrow> cr_id r = i \<Longrightarrow> \<not> held_status (cr_status r)" "\<And>r. same_run r (f r)"
    and rest: "tx_keeps I m"
    and "tx_bind (refresh_targets i P) (\<lambda>_. tx_bind (insert_deliveries now ids i) (\<lambda>_. tx_bind (update_runs (\<lambda>r. cr_id r = i) f) (\<lambda>_. m))) db = Inr (x, db')"
  shows "I db'"
proof -
  from assms(5) obtain db1 db2 rows db3 where d: "refresh_targets i P db = Inr ((), db1)" "insert_deliveries now ids i db1 = Inr ((), db2)"
    "update_runs (\<lambda>r. cr_id r = i) f db2 = Inr (rows, db3)" "m db3 = Inr (x, db')" by auto
  have "cb_runs db2 = cb_runs db" using d(1,2) by (auto simp: refresh_targets_def insert_deliveries_def)
  moreover have "I db2" using tx_keepsD [OF keeps_refresh assms(1) d(1)] tx_keepsD [OF keeps_new_deliveries _ d(2)] by blast
  ultimately have "I db3" using keeps_update_found [OF _ _ assms(3) d(3)] assms(2) by simp
  then show ?thesis using tx_keepsD [OF rest _ d(4)] by blast
qed

lemma keeps_apply [tx_rules]: "tx_keeps I (apply_preflight js now ids i token report ts)"
proof -
  have "I db'" if I: "I db" and a: "apply_preflight js now ids i token report ts db = Inr (x, db')" for db x db'
  proof (cases "List.find (holds_preparation now i token) (cb_runs db)")
    case None
    then show ?thesis using I a by (simp add: apply_preflight_def)
  next
    case (Some run)
    note unheld = found_unheld [OF I Some]
    have stale: "tx_keeps I (tx_bind (touch_runs P (\<lambda>r. r\<lparr>cr_leaseToken := None, cr_leaseExpiresAt := None,
        cr_nextAttemptAt := now, cr_attempts := cr_attempts r - 1, cr_updatedAt := now\<rparr>)) (\<lambda>_. tx_return Stale_Input))" for P
      by (intro tx_rules) (simp add: same_run_def)
    have miss: "tx_keeps I (tx_bind (pause_campaigns now C) (\<lambda>_. tx_bind (schedule_missed reason run) (\<lambda>_. tx_return Preflight_Applied)))"
      for C reason by (intro tx_rules)
    have block: "tx_keeps I (tx_bind (append_run_activity i ev sev origin meta dedupe) (\<lambda>_. tx_return Preflight_Applied))"
      for ev sev origin meta dedupe by (intro tx_rules)
    have same: "same_run r ((keep_report now report r)\<lparr>cr_status := st, cr_reason := w\<rparr>)"
      "same_run r ((keep_report now report r)\<lparr>cr_status := st, cr_reason := w, cr_startedAt := s\<rparr>)" for r st w s
      by (simp_all add: same_run_def keep_report_def)
    consider "capability_snapshot_changed db i ts"
      | (missed) "\<not> capability_snapshot_changed db i ts" "cr_deadline run \<noteq> None \<and> cr_scheduledAt run \<le> now"
      | (blocked) "\<not> capability_snapshot_changed db i ts" "\<not> (cr_deadline run \<noteq> None \<and> cr_scheduledAt run \<le> now)" "pr_status report = PF_Block"
      | (starts) "\<not> capability_snapshot_changed db i ts" "\<not> (cr_deadline run \<noteq> None \<and> cr_scheduledAt run \<le> now)" "pr_status report \<noteq> PF_Block"
      by blast
    then show ?thesis
    proof cases
      case 1
      then show ?thesis using a Some tx_keepsD [OF stale I] by (simp add: apply_preflight_def del: tx_bind_ok)
    next
      case missed
      then obtain rows d where u: "update_runs (\<lambda>r. cr_id r = i) (\<lambda>r. (keep_report now report r)\<lparr>cr_status := RS_PAUSED,
          cr_reason := Some ''MISSED_SCHEDULE''\<rparr>) db = Inr (rows, d)"
        and k: "tx_bind (pause_campaigns now {cr_campaignId run}) (\<lambda>_.
           tx_bind (schedule_missed ''PREPARATION_NOT_READY_AT_SCHEDULE'' run) (\<lambda>_. tx_return Preflight_Applied)) d = Inr (x, db')"
        using a Some unfolding apply_preflight_def by auto
      have "I d" by (rule keeps_update_found [OF I _ same(1) u]) (rule unheld)
      then show ?thesis using tx_keepsD [OF miss _ k] by blast
    next
      case blocked
      then obtain rows d where u: "update_runs (\<lambda>r. cr_id r = i) (\<lambda>r. (keep_report now report r)\<lparr>cr_status := RS_BLOCKED,
          cr_reason := Some ''PREFLIGHT_BLOCKED''\<rparr>) db = Inr (rows, d)"
        and k: "tx_bind (append_run_activity i ''campaign_run.blocked'' Sev_Warning From_Runtime (report_metadata report) None)
           (\<lambda>_. tx_return Preflight_Applied) d = Inr (x, db')"
        using a Some unfolding apply_preflight_def by auto
      have "I d" by (rule keeps_update_found [OF I _ same(1) u]) (rule unheld)
      then show ?thesis using tx_keepsD [OF block _ k] by blast
    next
      case starts
      then have st: "tx_bind (refresh_targets i (\<lambda>_ _. True)) (\<lambda>_. tx_bind (insert_deliveries now ids i) (\<lambda>_.
         tx_bind (update_runs (\<lambda>r. cr_id r = i) (\<lambda>r. (keep_report now report r)\<lparr>
             cr_status := (if cr_scheduledAt run \<le> js then RS_RUNNING else RS_SCHEDULED), cr_reason := None,
             cr_startedAt := (if cr_scheduledAt run \<le> js then Some now else None)\<rparr>)) (\<lambda>_.
         tx_bind (append_run_activity i (if cr_scheduledAt run \<le> js then ''campaign_run.started'' else ''campaign_run.scheduled'')
             Sev_Info From_Runtime (report_metadata report) None) (\<lambda>_. tx_return Preflight_Applied)))) db = Inr (x, db')"
        using a Some unfolding apply_preflight_def Let_def
        by (cases "cr_deadline run") (simp_all del: tx_bind_ok split del: if_split)
      show ?thesis by (rule keeps_start [OF I _ same(2) block st]) (rule unheld)
    qed
  qed
  then show ?thesis unfolding tx_keeps_def by blast
qed

text \<open>Deliveries.\<close>

lemma keeps_reconcile [tx_rules]: "tx_keeps I (reconcile now)"
  unfolding reconcile_def [abs_def]
  by (rule keeps_at) (intro tx_rules keeps_update_deliveries same_follow)

lemma keeps_block [tx_rules]: "tx_keeps I (block_delivery now d)"
  unfolding block_delivery_def by (intro tx_rules keeps_update_deliveries) (simp add: same_delivery_def)

lemma keeps_materialize [tx_rules]: "tx_keeps I (materialize E js now run p)"
  unfolding materialize_def by (intro tx_rules keeps_update_deliveries) (simp add: same_delivery_def)

lemma keeps_materialize_all [tx_rules]: "tx_keeps I (materialize_all E js now run ps)"
  by (induction ps) (auto intro!: tx_rules)

lemma keeps_unsendable [tx_rules]: "tx_keeps I (pause_unsendable now run)"
  unfolding pause_unsendable_def by (intro tx_rules keeps_by_status) (simp_all add: same_run_def held_status_def)

lemma keeps_pending [tx_rules]: "tx_keeps I (materialize_pending E js now i n)"
proof -
  have "I db'" if I: "I db" and m: "materialize_pending E js now i n db = Inr (x, db')" for db x db'
  proof -
    consider "db' = db" | run where "pause_unsendable now run db = Inr (x, db')"
      | run ps where "materialize_all E js now run ps db = Inr (x, db')"
      using m unfolding materialize_pending_def by (auto split: option.splits if_splits)
    then show ?thesis
      using I tx_keepsD [OF keeps_unsendable I] tx_keepsD [OF keeps_materialize_all I] by cases auto
  qed
  then show ?thesis unfolding tx_keeps_def by blast
qed

text \<open>The lifecycle.\<close>

lemma keeps_hold [tx_rules]: "tx_keeps I (hold_runs now reason P)"
  unfolding hold_runs_def
  by (intro tx_rules keeps_by_status) (simp_all add: same_run_def held_status_def hold_run_def)

lemma keeps_startup [tx_rules]: "tx_keeps I (hold_due_at_scheduler_startup now)"
  unfolding hold_due_at_scheduler_startup_def by (rule keeps_hold)

lemma keeps_activate [tx_rules]: "tx_keeps I (activate_due now)"
  unfolding activate_due_def
  by (intro tx_rules keeps_by_status) (auto simp: same_run_def held_status_def start_run_def run_due_def)

lemma keeps_finalize_cancelled [tx_rules]: "tx_keeps I (finalize_cancelled now n)"
  unfolding finalize_cancelled_def [abs_def]
  by (rule keeps_at) (intro tx_rules keeps_by_status, simp_all add: same_run_def held_status_def cancelled_run_def)

lemma keeps_finalize_finished [tx_rules]: "tx_keeps I (finalize_finished now n)"
  unfolding finalize_finished_def [abs_def] Let_def
  by (rule keeps_at)
    (intro tx_rules keeps_by_status, simp_all add: same_run_def held_status_def finish_run_def desired_status_def)

lemma keeps_finalize [tx_rules]: "tx_keeps I (finalize now n)"
  unfolding finalize_def by (intro tx_rules)

lemma keeps_pause [tx_rules]: "tx_keeps I (pause now i q)"
  unfolding pause_def
  by (intro tx_rules keeps_by_status) (simp_all add: same_run_def held_status_def paused_run_def)

lemma keeps_reject [tx_rules]: "tx_keeps I (reject_resume now i report q)"
  unfolding reject_resume_def by (intro tx_rules keeps_by_status) (simp_all add: same_run_def held_status_def)

lemma keeps_resume:
  assumes "resumable i"
  shows "tx_keeps I (resume js now ids i report ts q)"
proof -
  have run: "tx_keeps I (resume_run js now ids i report q run)" for run
    unfolding resume_run_def Let_def using assms
    by (intro tx_rules keeps_update_runs) (simp add: same_run_def resumed_run_def)
  have "tx_keeps I (\<lambda>db. case find_run db i of None \<Rightarrow> Inr (Resume_Answer None, db)
      | Some run \<Rightarrow> if cr_status run \<notin> {RS_PAUSED, RS_BLOCKED} then Inr (Resume_Answer None, db)
          else if capability_snapshot_changed db i ts then Inr (Resume_Stale, db)
          else tx_bind (resume_run js now ids i report q run) (\<lambda>y. tx_return (Resume_Answer y)) db)"
    using run unfolding tx_keeps_def by (auto split: option.splits if_splits)
  then show ?thesis unfolding resume_def by (intro tx_rules)
qed

lemma keeps_cancel_deliveries [tx_rules]: "tx_keeps I (cancel_deliveries now i)"
proof -
  have "tx_keeps I (update_deliveries Q (cancel_delivery now))" for Q
    by (rule keeps_update_deliveries) (simp add: same_delivery_def cancel_delivery_def)
  then show ?thesis unfolding cancel_deliveries_def [abs_def] by (rule keeps_at)
qed

lemma keeps_cancel_end [tx_rules]: "tx_keeps I (cancel_end now i q run)"
  unfolding cancel_end_def [abs_def] Let_def
  by (rule keeps_at) (intro tx_rules keeps_by_status, simp_all add: same_run_def held_status_def cancelled_run_def)

lemma keeps_cancel_run: "tx_keeps I (cancel_run now ids i q run)"
  unfolding cancel_run_def
  by (intro tx_rules keeps_by_status) (simp_all add: same_run_def held_status_def cancelling_run_def)

lemma keeps_cancel [tx_rules]: "tx_keeps I (cancel now ids i q)"
proof -
  have "tx_keeps I (\<lambda>db. case find_run db i of None \<Rightarrow> Inr (None, db)
      | Some run \<Rightarrow> if \<not> cancellable (cr_status run) then Inr (None, db) else cancel_run now ids i q run db)"
    using keeps_cancel_run unfolding tx_keeps_def by (auto split: option.splits if_splits)
  then show ?thesis unfolding cancel_def by (intro tx_rules)
qed

theorem campaign_keeps:
  assumes "I db" "case resumes op of None \<Rightarrow> True | Some i \<Rightarrow> resumable i"
  shows "I (campaign_step op db)"
proof -
  have tx: "I (run_ctx m db)" if "tx_keeps I m" for m :: "'a ctx"
    unfolding run_ctx_def using that assms(1) by (rule transaction_keeps)
  show ?thesis
    using assms by (cases op) (auto intro!: tx tx_rules keeps_resume runtime)
qed

lemma campaign_keeps_all:
  "I db \<Longrightarrow> list_all (\<lambda>op. case resumes op of None \<Rightarrow> True | Some i \<Rightarrow> resumable i) ops \<Longrightarrow> I (fold campaign_step ops db)"
  by (induction ops arbitrary: db) (auto intro: campaign_keeps)

end

end
