(* ===== verification/Campaign_Theorems.thy ===== *)
theory Campaign_Theorems
  imports Campaign_System
begin

text \<open>
  Campaign runs in any interleaving with the message modules: the invariant of the tables, that a stopped run sends
  nothing until it is resumed, that a run never starts after its window, that a LIVE run has one message at a time, and
  where cancelling fails.
\<close>

section \<open>The invariant of the tables\<close>

definition completed_iff_terminal :: "run_row \<Rightarrow> bool" where
  "completed_iff_terminal r \<longleftrightarrow> (cr_completedAt r \<noteq> None \<longleftrightarrow> terminal_run (cr_status r))"

definition delivery_wf :: "delivery \<Rightarrow> bool" where
  "delivery_wf d \<longleftrightarrow> (cd_status d \<in> {CD_PENDING, CD_BLOCKED} \<longrightarrow> cd_jobId d = None)
     \<and> (cd_status d \<notin> {CD_PENDING, CD_BLOCKED, CD_CANCELLED} \<longrightarrow> cd_jobId d \<noteq> None)"

definition live_of :: "string \<Rightarrow> run_row \<Rightarrow> bool" where
  "live_of c r \<longleftrightarrow> cr_campaignId r = c \<and> cr_mode r = Live"

definition at_most_one :: "('r \<Rightarrow> bool) \<Rightarrow> 'r list \<Rightarrow> bool" where
  "at_most_one Q rs \<longleftrightarrow> length (filter Q rs) \<le> 1"

definition campaign_wf :: "campaign_db \<Rightarrow> bool" where
  "campaign_wf db \<longleftrightarrow> distinct (map cr_id (cb_runs db)) \<and> list_all completed_iff_terminal (cb_runs db)
     \<and> list_all delivery_wf (cb_deliveries db)
     \<and> (\<forall>s. at_most_one (active_live s) (cb_runs db)) \<and> (\<forall>c. at_most_one (live_of c) (cb_runs db))"

lemma wf_frames:
  "campaign_wf (db\<lparr>cb_campaigns := cs\<rparr>) = campaign_wf db" "campaign_wf (db\<lparr>cb_activity := as\<rparr>) = campaign_wf db"
  "campaign_wf (db\<lparr>cb_receipts := rs\<rparr>) = campaign_wf db" "campaign_wf (db\<lparr>cb_runTargets := ts\<rparr>) = campaign_wf db"
  "campaign_wf (db\<lparr>cb_runtime := rt\<rparr>) = campaign_wf db"
  by (simp_all add: campaign_wf_def)

lemma at_most_one_update:
  assumes "at_most_one Q rs" "\<And>r. r \<in> set rs \<Longrightarrow> P r \<Longrightarrow> Q (f r) \<Longrightarrow> Q r"
  shows "at_most_one Q (update_where P f rs)"
proof -
  have "length (filter Q (update_where P f rs)) \<le> length (filter Q rs)"
    using assms(2) by (induction rs) (auto simp: update_where_def intro: le_SucI)
  then show ?thesis using assms(1) by (simp add: at_most_one_def)
qed

lemma at_most_one_append: "at_most_one Q rs \<Longrightarrow> (Q r \<Longrightarrow> \<not> list_ex Q rs) \<Longrightarrow> at_most_one Q (rs @ [r])"
  by (auto simp: at_most_one_def list_ex_iff filter_empty_conv)

lemma ids_update: "(\<And>r. r \<in> set rs \<Longrightarrow> P r \<Longrightarrow> g (f r) = g r) \<Longrightarrow> map g (update_where P f rs) = map g rs"
  by (auto simp: update_where_def)

lemma list_all_update: "list_all Q rs \<Longrightarrow> (\<And>r. r \<in> set rs \<Longrightarrow> P r \<Longrightarrow> Q r \<Longrightarrow> Q (f r)) \<Longrightarrow> list_all Q (update_where P f rs)"
  by (auto simp: list_all_iff update_where_def)

lemma guard_completed: "run_guard r r' = None \<Longrightarrow> completed_iff_terminal r'"
  by (auto simp: run_guard_def completed_iff_terminal_def split: if_splits)

lemma guard_active: "run_guard r r' = None \<Longrightarrow> active_run (cr_status r') \<Longrightarrow> active_run (cr_status r)"
  by (cases "cr_status r") (auto simp: run_guard_def active_run_def split: if_splits)

lemma guard_delivery: "delivery_guard d d' = None \<Longrightarrow> delivery_wf d'"
  by (auto simp: delivery_guard_def delivery_wf_def split: if_splits)

lemma wf_runs:
  assumes "campaign_wf db" "\<And>r. r \<in> set (cb_runs db) \<Longrightarrow> P r \<Longrightarrow> run_guard r (f r) = None \<and> same_run r (f r)"
  shows "campaign_wf (db\<lparr>cb_runs := update_where P f (cb_runs db)\<rparr>)"
proof -
  note wf = assms(1) [unfolded campaign_wf_def]
  have "at_most_one (active_live s) (update_where P f (cb_runs db))" for s
    by (rule at_most_one_update) (use wf assms(2) guard_active in \<open>auto simp: active_live_def same_run_def\<close>)
  moreover have "at_most_one (live_of c) (update_where P f (cb_runs db))" for c
    by (rule at_most_one_update) (use wf assms(2) in \<open>auto simp: live_of_def same_run_def\<close>)
  moreover have "map cr_id (update_where P f (cb_runs db)) = map cr_id (cb_runs db)"
    by (rule ids_update) (use assms(2) in \<open>auto simp: same_run_def\<close>)
  moreover have "list_all completed_iff_terminal (update_where P f (cb_runs db))"
    by (rule list_all_update) (use wf assms(2) guard_completed in auto)
  ultimately show ?thesis using wf by (simp add: campaign_wf_def)
qed

lemma wf_leases:
  assumes "campaign_wf db" "\<And>r. same_run r (f r) \<and> cr_status (f r) = cr_status r \<and> cr_completedAt (f r) = cr_completedAt r"
  shows "campaign_wf (db\<lparr>cb_runs := update_where P f (cb_runs db)\<rparr>)"
  using assms by (intro wf_runs) (auto simp: campaign_wf_def run_guard_def completed_iff_terminal_def list_all_iff)

lemma wf_new_run:
  assumes "campaign_wf db" "\<not> list_ex (run_conflicts r) (cb_runs db)" "cr_status r = RS_PREPARING" "cr_completedAt r = None"
  shows "campaign_wf (db\<lparr>cb_runs := cb_runs db @ [r]\<rparr>)"
proof -
  note wf = assms(1) [unfolded campaign_wf_def]
  have no: "\<not> run_conflicts r x" if "x \<in> set (cb_runs db)" for x using assms(2) that by (auto simp: list_ex_iff)
  have "at_most_one (active_live s) (cb_runs db @ [r])" for s
    by (rule at_most_one_append) (use wf no in \<open>auto simp: list_ex_iff run_conflicts_def active_live_def\<close>)
  moreover have "at_most_one (live_of c) (cb_runs db @ [r])" for c
    by (rule at_most_one_append) (use wf no in \<open>auto simp: list_ex_iff run_conflicts_def live_of_def\<close>)
  moreover have "cr_id r \<notin> cr_id ` set (cb_runs db)" using no by (force simp: run_conflicts_def)
  ultimately show ?thesis
    using wf assms(3,4) by (simp add: campaign_wf_def completed_iff_terminal_def terminal_run_def)
qed

interpretation wfdb: campaign_parts campaign_wf "\<lambda>_. True"
proof
  show "campaign_wf (db\<lparr>cb_runs := update_where P f (cb_runs db)\<rparr>)" if "campaign_wf db"
    "\<And>r. r \<in> set (cb_runs db) \<Longrightarrow> P r \<Longrightarrow> run_guard r (f r) = None \<and> same_run r (f r) \<and> (stays_held r (f r) \<or> True)"
    for db P f using that by (intro wf_runs) auto
  show "campaign_wf (db\<lparr>cb_deliveries := update_where Q g (cb_deliveries db)\<rparr>)" if "campaign_wf db"
    "\<And>d. d \<in> set (cb_deliveries db) \<Longrightarrow> Q d \<Longrightarrow> delivery_guard d (g d) = None \<and> same_delivery d (g d)" for db Q g
    using that guard_delivery unfolding campaign_wf_def by (auto intro!: list_all_update)
  show "campaign_wf (db\<lparr>cb_deliveries := cb_deliveries db @ ds\<rparr>)" if "campaign_wf db" "\<And>d. d \<in> set ds \<Longrightarrow> fresh_delivery d"
    for db ds using that by (auto simp: campaign_wf_def list_all_iff fresh_delivery_def delivery_wf_def)
qed (auto simp: wf_frames intro: wf_new_run wf_leases, simp add: campaign_wf_def)

text \<open>C6: However creation, preparation, the schedule, the operator's actions and the message modules interleave, each
  session has at most one active LIVE run and each campaign at most one LIVE run, a run has a completion time exactly
  when its status is terminal, and a delivery has a message job exactly when its status says so.\<close>

theorem runs_stay_wf:
  assumes "campaign_wf db"
  shows "campaign_wf (fold campaign_step ops db)"
  using assms by (rule wfdb.campaign_keeps_all) (simp add: list_all_iff split: option.split)

section \<open>A stopped run\<close>

text \<open>The run \<open>i\<close> is held and the job \<open>j\<close> is one of its deliveries.\<close>

definition run_held :: "string \<Rightarrow> campaign_db \<Rightarrow> bool" where
  "run_held i db \<longleftrightarrow> (\<exists>r. find_run db i = Some r \<and> held_status (cr_status r))"

definition delivers :: "string \<Rightarrow> string \<Rightarrow> campaign_db \<Rightarrow> bool" where
  "delivers i j db \<longleftrightarrow> list_ex (\<lambda>d. cd_runId d = i \<and> cd_jobId d = Some j \<and> cd_status d \<noteq> CD_PENDING) (cb_deliveries db)"

definition delivers_for :: "string \<Rightarrow> string \<Rightarrow> campaign_db \<Rightarrow> bool" where
  "delivers_for i j db \<longleftrightarrow> campaign_wf db \<and> delivers i j db"

definition held_for :: "string \<Rightarrow> string \<Rightarrow> campaign_db \<Rightarrow> bool" where
  "held_for i j db \<longleftrightarrow> campaign_wf db \<and> delivers i j db \<and> run_held i db"

lemma held_frames:
  "delivers i j (db\<lparr>cb_campaigns := cs\<rparr>) = delivers i j db" "delivers i j (db\<lparr>cb_activity := as\<rparr>) = delivers i j db"
  "delivers i j (db\<lparr>cb_receipts := rs\<rparr>) = delivers i j db" "delivers i j (db\<lparr>cb_runTargets := ts\<rparr>) = delivers i j db"
  "delivers i j (db\<lparr>cb_runtime := rt\<rparr>) = delivers i j db" "delivers i j (db\<lparr>cb_runs := runs\<rparr>) = delivers i j db"
  "run_held i (db\<lparr>cb_campaigns := cs\<rparr>) = run_held i db" "run_held i (db\<lparr>cb_activity := as\<rparr>) = run_held i db"
  "run_held i (db\<lparr>cb_receipts := rs\<rparr>) = run_held i db" "run_held i (db\<lparr>cb_runTargets := ts\<rparr>) = run_held i db"
  "run_held i (db\<lparr>cb_runtime := rt\<rparr>) = run_held i db" "run_held i (db\<lparr>cb_deliveries := ds\<rparr>) = run_held i db"
  by (simp_all add: delivers_def run_held_def find_run_def)

lemma delivers_update:
  assumes "delivers i j db" "\<And>d. d \<in> set (cb_deliveries db) \<Longrightarrow> Q d \<Longrightarrow> delivery_guard d (g d) = None \<and> same_delivery d (g d)"
  shows "delivers i j (db\<lparr>cb_deliveries := update_where Q g (cb_deliveries db)\<rparr>)"
proof -
  obtain d where d: "d \<in> set (cb_deliveries db)" "cd_runId d = i" "cd_jobId d = Some j" "cd_status d \<noteq> CD_PENDING"
    using assms(1) by (auto simp: delivers_def list_ex_iff)
  then have "(if Q d then g d else d) \<in> set (update_where Q g (cb_deliveries db))" by (auto simp: update_where_def)
  moreover have "cd_runId (if Q d then g d else d) = i \<and> cd_jobId (if Q d then g d else d) = Some j
      \<and> cd_status (if Q d then g d else d) \<noteq> CD_PENDING"
    using assms(2) [OF d(1)] d by (auto simp: same_delivery_def)
  ultimately show ?thesis by (auto simp: delivers_def list_ex_iff)
qed

lemma delivers_append: "delivers i j db \<Longrightarrow> delivers i j (db\<lparr>cb_deliveries := cb_deliveries db @ ds\<rparr>)"
  by (auto simp: delivers_def)

lemma find_update_in:
  "(\<And>x. x \<in> set xs \<Longrightarrow> Q x \<Longrightarrow> p (f x) = p x) \<Longrightarrow>
   List.find p (update_where Q f xs) = map_option (\<lambda>x. if Q x then f x else x) (List.find p xs)"
  by (induction xs) (auto simp: update_where_def)

lemma held_update:
  assumes "run_held i db" "\<And>r. r \<in> set (cb_runs db) \<Longrightarrow> P r \<Longrightarrow> same_run r (f r) \<and> (stays_held r (f r) \<or> cr_id r \<noteq> i)"
  shows "run_held i (db\<lparr>cb_runs := update_where P f (cb_runs db)\<rparr>)"
proof -
  obtain r where r: "find_run db i = Some r" "held_status (cr_status r)" using assms(1) by (auto simp: run_held_def)
  have "find_run (db\<lparr>cb_runs := update_where P f (cb_runs db)\<rparr>) i = Some (if P r then f r else r)"
    using r(1) find_update_in [of "cb_runs db" P "\<lambda>r. cr_id r = i" f] assms(2) by (simp add: find_run_def same_run_def)
  then show ?thesis using r assms(2) find_run_in [OF r(1)] by (auto simp: run_held_def stays_held_def)
qed

lemma held_append: "run_held i db \<Longrightarrow> run_held i (db\<lparr>cb_runs := cb_runs db @ rs\<rparr>)"
proof -
  have "List.find p xs = Some x \<Longrightarrow> List.find p (xs @ ys) = Some x" for p and xs ys :: "run_row list" and x
    by (induction xs) (auto split: if_splits)
  then show "run_held i db \<Longrightarrow> run_held i (db\<lparr>cb_runs := cb_runs db @ rs\<rparr>)"
    by (auto simp: run_held_def find_run_def)
qed

lemma wf_runs_of:
  "campaign_wf db \<Longrightarrow> (\<And>r. r \<in> set (cb_runs db) \<Longrightarrow> P r \<Longrightarrow> run_guard r (f r) = None \<and> same_run r (f r) \<and> C r)
   \<Longrightarrow> campaign_wf (db\<lparr>cb_runs := update_where P f (cb_runs db)\<rparr>)"
  by (rule wf_runs) auto

interpretation deliv: campaign_parts "delivers_for i j" "\<lambda>_. True"
proof
  show "delivers_for i j (db\<lparr>cb_deliveries := update_where Q g (cb_deliveries db)\<rparr>)" if "delivers_for i j db"
    "\<And>d. d \<in> set (cb_deliveries db) \<Longrightarrow> Q d \<Longrightarrow> delivery_guard d (g d) = None \<and> same_delivery d (g d)" for db Q g
    using that wfdb.deliveries delivers_update unfolding delivers_for_def by blast
  show "delivers_for i j (db\<lparr>cb_deliveries := cb_deliveries db @ ds\<rparr>)"
    if "delivers_for i j db" "\<And>d. d \<in> set ds \<Longrightarrow> fresh_delivery d" for db ds
    using that wfdb.new_deliveries delivers_append unfolding delivers_for_def by blast
  show "delivers_for i j (db\<lparr>cb_runs := update_where P f (cb_runs db)\<rparr>)" if "delivers_for i j db"
    "\<And>r. r \<in> set (cb_runs db) \<Longrightarrow> P r \<Longrightarrow> run_guard r (f r) = None \<and> same_run r (f r) \<and> (stays_held r (f r) \<or> True)"
    for db P f using that wf_runs_of unfolding delivers_for_def held_frames by blast
qed (auto simp: delivers_for_def held_frames wf_frames intro: wf_new_run wf_leases wfdb.distinct_runs)

interpretation held: campaign_parts "held_for i j" "\<lambda>k. k \<noteq> i"
proof
  show "held_for i j (db\<lparr>cb_deliveries := update_where Q g (cb_deliveries db)\<rparr>)" if "held_for i j db"
    "\<And>d. d \<in> set (cb_deliveries db) \<Longrightarrow> Q d \<Longrightarrow> delivery_guard d (g d) = None \<and> same_delivery d (g d)" for db Q g
    using that wfdb.deliveries delivers_update unfolding held_for_def held_frames by blast
  show "held_for i j (db\<lparr>cb_deliveries := cb_deliveries db @ ds\<rparr>)"
    if "held_for i j db" "\<And>d. d \<in> set ds \<Longrightarrow> fresh_delivery d" for db ds
    using that wfdb.new_deliveries delivers_append unfolding held_for_def held_frames by blast
  show "held_for i j (db\<lparr>cb_runs := update_where P f (cb_runs db)\<rparr>)" if I: "held_for i j db"
    and u: "\<And>r. r \<in> set (cb_runs db) \<Longrightarrow> P r \<Longrightarrow> run_guard r (f r) = None \<and> same_run r (f r) \<and> (stays_held r (f r) \<or> cr_id r \<noteq> i)"
    for db P f using I wf_runs_of [of db P f, OF _ u] held_update [of i db P f] u unfolding held_for_def held_frames by blast
  show "held_for i j (db\<lparr>cb_runs := update_where P f (cb_runs db)\<rparr>)" if "held_for i j db"
    "\<And>r. same_run r (f r) \<and> cr_status (f r) = cr_status r \<and> cr_completedAt (f r) = cr_completedAt r" for db P f
    using that wf_leases [of db f P] held_update [of i db P f] unfolding held_for_def held_frames by (auto simp: stays_held_def)
qed (auto simp: held_for_def held_frames wf_frames intro: wf_new_run held_append wfdb.distinct_runs)

lemma held_blocks: "held_for i j db \<Longrightarrow> \<not> run_allows (runtime_view db) j"
proof -
  assume "held_for i j db"
  then obtain d r where d: "d \<in> set (cb_deliveries db)" "cd_runId d = i" "cd_jobId d = Some j" "find_run db i = Some r"
    "held_status (cr_status r)" by (auto simp: held_for_def delivers_def run_held_def list_ex_iff)
  then have "(j, cr_status r) \<in> set (runs_view db)" by (force simp: runs_view_def)
  moreover have "cr_status r \<noteq> RS_RUNNING" using d(5) by (auto simp: held_status_def)
  ultimately show ?thesis by (auto simp: run_allows_def runtime_view_def)
qed

lemma blocked_commit:
  assumes "\<not> run_allows db (mpt_jobId p)"
  shows "commit_message_start now aid cid p required cmd ready age db \<noteq> Inr (Some c, db')"
proof
  assume "commit_message_start now aid cid p required cmd ready age db = Inr (Some c, db')"
  then obtain j where "fence_passes now p required cmd ready age j db"
    by (auto simp: commit_message_start_def update_jobs_ok Let_def filter_empty_conv split: if_splits list.splits)
      (metis filter_eq_ConsD)+
  then show False using assms by (auto simp: fence_passes_def job_commits_def)
qed

text \<open>Pausing or cancelling takes the run out of the statuses that can send.\<close>

lemma find_distinct: "distinct (map g xs) \<Longrightarrow> x \<in> set xs \<Longrightarrow> List.find (\<lambda>y. g y = g x) xs = Some x"
  by (induction xs) auto

lemma held_after:
  assumes "campaign_wf db" "delivers i j db" "update_runs P f db = Inr (rows, d1)" "\<And>r. same_run r (f r)"
    and "\<And>r. held_status (cr_status (f r))" "r0 \<in> set (cb_runs db)" "cr_id r0 = i" "P r0"
  shows "held_for i j d1"
proof -
  have d1: "d1 = db\<lparr>cb_runs := update_where P f (cb_runs db)\<rparr>"
    and ok: "\<And>r. r \<in> set (cb_runs db) \<Longrightarrow> P r \<Longrightarrow> run_guard r (f r) = None"
    using assms(3) by (auto simp: update_runs_ok)
  have "find_run db i = Some r0"
    using find_distinct [OF wfdb.distinct_runs [OF assms(1)] assms(6)] assms(7) by (simp add: find_run_def)
  then have "find_run d1 i = Some (f r0)"
    unfolding d1 using find_run_update [of P f db i] assms(4,8) by (simp add: same_run_def)
  then have "run_held i d1" using assms(5) by (simp add: run_held_def)
  moreover have "campaign_wf d1" unfolding d1 by (rule wf_runs [OF assms(1)]) (simp add: ok assms(4))
  ultimately show ?thesis using assms(2) by (simp add: held_for_def d1 held_frames)
qed

lemma answer_replayed: "answer r i b db = Inr (Action_Succeeded run b', db') \<Longrightarrow> b' = b"
  by (auto simp: answer_def receipt_answer_def split: option.splits sum.splits if_splits prod.splits)

lemma with_replay_new:
  assumes "with_replay i q m db = Inr (Some (Action_Succeeded run False), db')"
  shows "m db = Inr (Some (Action_Succeeded run False), db')"
proof -
  obtain x d where x: "replay_action i q db = Inr (x, d)"
    "(case x of Some y \<Rightarrow> tx_return (Some y) | None \<Rightarrow> m) d = Inr (Some (Action_Succeeded run False), db')"
    using assms unfolding with_replay_def by auto
  show ?thesis
  proof (cases "map_of (cb_receipts db) (aq_operation q, aq_key q)")
    case None
    then show ?thesis using x by (simp add: replay_action_def)
  next
    case (Some r)
    then obtain y where "answer r i True db = Inr (y, d)" "x = Some y"
      using x(1) by (auto simp: replay_action_def split: if_splits)
    then show ?thesis using x(2) answer_replayed [of r i True db run False d] by auto
  qed
qed

lemma paused_held:
  assumes "campaign_wf db" "delivers i j db" "pause now i q db = Inr (Some (Action_Succeeded run False), db')"
  shows "held_for i j db'"
proof -
  obtain rows d1 where u: "update_runs (\<lambda>r. cr_id r = i \<and> cr_status r \<in> {RS_SCHEDULED, RS_RUNNING}) (paused_run now) db = Inr (rows, d1)"
    and rest: "(case rows of [] \<Rightarrow> tx_return None | run # _ \<Rightarrow>
          tx_bind (\<lambda>db. on_runtime (take_back (\<lambda>j. mj_id j \<in> run_jobs db i \<and> unstarted {QUEUED} j) (paused_job now)) db) (\<lambda>_.
          tx_bind (if cr_mode run = Live then pause_campaigns now {cr_campaignId run} else tx_return ()) (\<lambda>_.
          tx_bind (append_run_activity i ''campaign_run.paused'' Sev_Warning From_Studio
            [(''reason'', ''MANUAL_PAUSE'')] (dedupe_key i ''pause'' q)) (\<lambda>_.
          succeed i (cr_sessionId run) q)))) d1 = Inr (Some (Action_Succeeded run False), db')"
    using with_replay_new [OF assms(3) [unfolded pause_def]] by (auto simp del: update_runs_ok)
  have keep: "tx_keeps (held_for i j) (case rows of [] \<Rightarrow> tx_return None | run # _ \<Rightarrow>
          tx_bind (\<lambda>db. on_runtime (take_back (\<lambda>j. mj_id j \<in> run_jobs db i \<and> unstarted {QUEUED} j) (paused_job now)) db) (\<lambda>_.
          tx_bind (if cr_mode run = Live then pause_campaigns now {cr_campaignId run} else tx_return ()) (\<lambda>_.
          tx_bind (append_run_activity i ''campaign_run.paused'' Sev_Warning From_Studio
            [(''reason'', ''MANUAL_PAUSE'')] (dedupe_key i ''pause'' q)) (\<lambda>_.
          succeed i (cr_sessionId run) q))))"
    by (intro tx_rules)
  obtain r0 where "r0 \<in> set (cb_runs db)" "cr_id r0 = i" "cr_status r0 \<in> {RS_SCHEDULED, RS_RUNNING}"
  proof -
    have "rows \<noteq> []" using rest by auto
    then have "filter (\<lambda>r. cr_id r = i \<and> cr_status r \<in> {RS_SCHEDULED, RS_RUNNING}) (cb_runs db) \<noteq> []"
      using u by (simp add: update_runs_ok)
    then show thesis using that by (auto simp: filter_empty_conv)
  qed
  then have "held_for i j d1"
    by (intro held_after [OF assms(1,2) u]) (auto simp: same_run_def paused_run_def held_status_def)
  then show ?thesis using tx_keepsD [OF keep _ rest] by blast
qed

lemma cancelled_held:
  assumes "campaign_wf db" "delivers i j db" "cancel now ids i q db = Inr (Some (Action_Succeeded run False), db')"
  shows "held_for i j db'"
proof -
  obtain r0 where r0: "find_run db i = Some r0" and c: "cancel_run now ids i q r0 db = Inr (Some (Action_Succeeded run False), db')"
    using with_replay_new [OF assms(3) [unfolded cancel_def]] by (auto split: option.splits if_splits)
  define rest where "rest = tx_bind (\<lambda>db. on_runtime (request_cancellation now (run_jobs db i)) db) (\<lambda>_.
     tx_bind (\<lambda>db. on_runtime (take_back (\<lambda>j. mj_id j \<in> run_jobs db i \<and> unstarted {SCHEDULED, QUEUED} j)
       (cancelled_job now)) db) (\<lambda>_. tx_bind (cancel_deliveries now i) (\<lambda>_. cancel_end now i q r0)))"
  obtain d1 rows d2 where d: "insert_deliveries now ids i db = Inr ((), d1)"
    "update_runs (\<lambda>r. cr_id r = i) (cancelling_run now) d1 = Inr (rows, d2)" "rest d2 = Inr (Some (Action_Succeeded run False), db')"
    using c unfolding cancel_run_def rest_def by auto
  have "delivers_for i j d1"
    using tx_keepsD [OF deliv.keeps_new_deliveries _ d(1)] assms(1,2) by (simp add: delivers_for_def)
  moreover have "r0 \<in> set (cb_runs d1)" "cr_id r0 = i"
    using find_run_in [OF r0] d(1) by (auto simp: insert_deliveries_def)
  ultimately have "held_for i j d2"
    by (intro held_after [OF _ _ d(2), where ?r0.0 = r0])
      (simp_all add: delivers_for_def same_run_def cancelling_run_def held_status_def)
  moreover have keep: "tx_keeps (held_for i j) rest" unfolding rest_def by (intro tx_rules)
  note tx_keepsD [OF keep]
  ultimately show ?thesis using d(3) by simp
qed

text \<open>C5: Once pausing or cancelling a run has returned, no message of the run passes the final fence, whatever campaign
  and message operations follow, until the run itself is resumed.\<close>

theorem stopped_run_sends_nothing:
  assumes "campaign_wf db" "delivers i (mpt_jobId p) db" "m = pause now i q \<or> m = cancel now ids i q"
    and "m db = Inr (Some (Action_Succeeded run False), db')" "list_all (\<lambda>op. resumes op \<noteq> Some i) ops"
  shows "commit_message_start now' aid cid p required cmd ready age (runtime_view (fold campaign_step ops db')) \<noteq> Inr (Some c, x)"
proof -
  have "held_for i (mpt_jobId p) db'" using assms(3,4) paused_held [OF assms(1,2)] cancelled_held [OF assms(1,2)] by blast
  moreover have "list_all (\<lambda>op. case resumes op of None \<Rightarrow> True | Some k \<Rightarrow> k \<noteq> i) ops"
    using assms(5) by (auto simp: list_all_iff split: option.split)
  ultimately have "held_for i (mpt_jobId p) (fold campaign_step ops db')" by (rule held.campaign_keeps_all)
  then show ?thesis by (rule blocked_commit [OF held_blocks])
qed

section \<open>Cancelling a run with a delivery in processing\<close>

lemma find_job_update:
  "(\<And>j. P j \<Longrightarrow> mj_id (f j) = mj_id j) \<Longrightarrow>
   find_job (rt\<lparr>db_jobs := update_where P f (db_jobs rt)\<rparr>) k = map_option (\<lambda>j. if P j then f j else j) (find_job rt k)"
  by (simp add: find_job_def find_update_where)

lemma find_job_id: "find_job rt k = Some j \<Longrightarrow> mj_id j = k"
  by (auto simp: find_job_def find_Some_iff)

lemma in_run_jobs: "d \<in> set (cb_deliveries db) \<Longrightarrow> cd_jobId d = Some k \<Longrightarrow> k \<in> run_jobs db (cd_runId d)"
  by (force simp: run_jobs_def run_deliveries_def)

lemma requested_job:
  assumes "request_cancellation now K rt = Inr (x, rt')" "find_job rt k = Some j" "unstarted S j"
  shows "\<exists>j'. find_job rt' k = Some j' \<and> unstarted S j'"
  using assms find_job_update [of "\<lambda>j. mj_id j \<in> K \<and> mj_status j \<in> {SCHEDULED, QUEUED, PROCESSING}"
      "\<lambda>j. j\<lparr>mj_cancelRequestedAt := Some now, mj_updatedAt := now\<rparr>" rt k]
  by (auto simp: request_cancellation_def unstarted_def)

lemma taken_back_job:
  assumes "take_back (\<lambda>j. mj_id j \<in> K \<and> unstarted S j) (cancelled_job now) rt = Inr (x, rt')"
    and "find_job rt k = Some j" "unstarted S j" "k \<in> K"
  shows "map_option mj_status (find_job rt' k) = Some CANCELLED"
proof -
  define P where "P = (\<lambda>j. mj_id j \<in> K \<and> unstarted S j)"
  have "find_job rt' k = find_job (rt\<lparr>db_jobs := update_where P (cancelled_job now) (db_jobs rt)\<rparr>) k"
    using assms(1) by (auto simp: take_back_def Let_def update_jobs_ok P_def find_job_def)
  also have "\<dots> = map_option (\<lambda>j. if P j then cancelled_job now j else j) (find_job rt k)"
    by (rule find_job_update) (simp add: cancelled_job_def)
  finally show ?thesis using assms(2-4) find_job_id by (auto simp: P_def cancelled_job_def)
qed

text \<open>C37: A run cannot be cancelled while one of its deliveries has been seen in processing and the job of that delivery
  has not started upstream (it waits, for instance, for the next attempt): the transaction cancels the job and then the
  delivery, the trigger of the deliveries has no move from PROCESSING to CANCELLED, and everything is rolled back.\<close>

theorem cancel_fails_on_processing_delivery:
  assumes "map_of (cb_receipts db) (aq_operation q, aq_key q) = None" "find_run db i = Some run"
    and "cancellable (cr_status run)" "d \<in> set (cb_deliveries db)" "cd_runId d = i" "cd_status d = CD_PROCESSING"
    and "cd_jobId d = Some k" "find_job (cb_runtime db) k = Some j" "unstarted {SCHEDULED, QUEUED} j"
  shows "\<exists>e. transaction (cancel now ids i q) db = (Inl e, db)"
proof (rule ccontr)
  assume "\<not> ?thesis"
  then obtain x db' where "cancel now ids i q db = Inr (x, db')"
    by (cases "cancel now ids i q db") (auto simp: transaction_def)
  then have "cancel_run now ids i q run db = Inr (x, db')"
    using assms(1-3) by (auto simp: cancel_def with_replay_def replay_action_def)
  then obtain d1 rows d2 rt3 rt4 z where s: "insert_deliveries now ids i db = Inr ((), d1)"
    "update_runs (\<lambda>r. cr_id r = i) (cancelling_run now) d1 = Inr (rows, d2)"
    "request_cancellation now (run_jobs d2 i) (cb_runtime d2) = Inr ((), rt3)"
    "take_back (\<lambda>j. mj_id j \<in> run_jobs (d2\<lparr>cb_runtime := rt3\<rparr>) i \<and> unstarted {SCHEDULED, QUEUED} j) (cancelled_job now) rt3 = Inr ((), rt4)"
    "cancel_deliveries now i (d2\<lparr>cb_runtime := rt4\<rparr>) = Inr z"
    unfolding cancel_run_def by auto
  have d: "d \<in> set (cb_deliveries d2)" "cb_runtime d2 = cb_runtime db"
    using s(1,2) assms(4) by (auto simp: insert_deliveries_def update_runs_ok)
  obtain j' where j': "find_job rt3 k = Some j'" "unstarted {SCHEDULED, QUEUED} j'"
    using requested_job [OF s(3) _ assms(9), of k] assms(8) d(2) by auto
  have "k \<in> run_jobs (d2\<lparr>cb_runtime := rt3\<rparr>) i"
    using in_run_jobs [of d "d2\<lparr>cb_runtime := rt3\<rparr>" k] d(1) assms(5,7) by simp
  from taken_back_job [OF s(4) j' this]
  have "job_status_of (d2\<lparr>cb_runtime := rt4\<rparr>) d = Some CANCELLED" by (simp add: job_status_of_def assms(7))
  then have "delivery_guard d (cancel_delivery now d) = None"
    using s(5) d(1) assms(5) by (cases z) (auto simp: cancel_deliveries_def update_deliveries_ok)
  then show False using assms(6) by (simp add: delivery_guard_def cancel_delivery_def)
qed

section \<open>The schedule\<close>

lemma keeps_runs [tx_rules]:
  "tx_keeps (\<lambda>d. cb_runs d = X) (append_run_activity i ev sev origin meta dedupe)"
  "tx_keeps (\<lambda>d. cb_runs d = X) (move_campaigns now ids S st)"
  by (simp_all add: tx_keeps_def append_run_activity_def move_campaigns_def split: option.split)





section \<open>Materializing\<close>




end
