(* ===== verification/Preflight_Theorems.thy ===== *)
theory Preflight_Theorems
  imports Campaign_Preflight
begin

text \<open>
  What a review decides, as one closed formula over its input instead of the list of checks; what a LIVE launch
  token proves; and that a token, once issued, is accepted for the same campaign, session and revisions until it
  expires.
\<close>

section \<open>The verdict\<close>

definition sendable_target :: "campaign_target \<Rightarrow> bool" where
  "sendable_target t \<longleftrightarrow> cv_invalidatedAt (ct_capability t) = None \<and> cv_status (ct_capability t) = Cap_Allowed"

definition preflight_blocked :: "preflight_input \<Rightarrow> bool" where
  "preflight_blocked i \<longleftrightarrow> \<not> content_valid (preflight_content i)
     \<or> (\<not> is_text (preflight_content i) \<and> \<not> pi_mediaReady i)
     \<or> pi_targets i = [] \<or> \<not> session_sendable (pi_session i)
     \<or> (pi_mode i = Live \<and> (\<not> pi_liveSendsEnabled i \<or> \<not> safety_ready i \<or> \<not> list_all sendable_target (pi_targets i)))"

lemma effective_allowed: "effective_capability (ct_capability t) = Cap_Allowed \<longleftrightarrow> sendable_target t"
  by (simp add: effective_capability_def sendable_target_def)

lemma no_issues: "target_issues ts = [] \<longleftrightarrow> list_all sendable_target ts"
  by (auto simp: target_issues_def filter_empty_conv effective_allowed list_all_iff)

lemma list_ex_app: "list_ex P (xs @ ys) \<longleftrightarrow> list_ex P xs \<or> list_ex P ys"
  by (simp add: list_ex_iff Bex_def) blast

lemmas check_defs = content_check_def safety_check_def media_check_def targets_check_def session_check_def
  capability_check_def live_check_def pass_or_block_def

lemma blocked_check:
  "list_ex (\<lambda>c. pc_status c = PF_Block) (preflight_checks i) \<longleftrightarrow> preflight_blocked i"
  by (cases "pi_mode i")
    (auto simp: preflight_checks_def check_defs preflight_blocked_def no_issues safety_ready_def list_ex_app)

lemma warned_check:
  "list_ex (\<lambda>c. pc_status c = PF_Warn) (preflight_checks i) \<longleftrightarrow>
     pi_mode i = Dry_Run \<and> \<not> list_all sendable_target (pi_targets i)"
  by (cases "pi_mode i") (auto simp: preflight_checks_def check_defs no_issues list_ex_app)

lemma count_issues:
  "length (target_issues ts) = length (filter (\<lambda>t. \<not> sendable_target t) ts)"
  "length (filter (\<lambda>x. ti_capability x = c) (target_issues ts)) =
     length (filter (\<lambda>t. \<not> sendable_target t \<and> effective_capability (ct_capability t) = c) ts)"
  by (simp_all add: target_issues_def effective_allowed filter_map comp_def conj_commute)

lemma filter_split: "length (filter P xs) + length (filter (\<lambda>x. \<not> P x) xs) = length xs"
  by (induction xs) auto

lemma allowed_count: "length ts - length (target_issues ts) = length (filter sendable_target ts)"
  using filter_split [of sendable_target ts] by (simp add: count_issues)

lemma denied_unknown:
  "length (filter (\<lambda>t. \<not> sendable_target t \<and> effective_capability (ct_capability t) = Cap_Denied) ts)
   + length (filter (\<lambda>t. \<not> sendable_target t \<and> effective_capability (ct_capability t) = Cap_Unknown) ts)
   = length (filter (\<lambda>t. \<not> sendable_target t) ts)"
proof (induction ts)
  case (Cons t ts)
  then show ?case
    by (cases "effective_capability (ct_capability t)") (auto simp: effective_allowed [symmetric])
qed simp

lemma preflight_verdict_status:
  "pr_status (evaluate_campaign_preflight js i) =
     (if preflight_blocked i then PF_Block
      else if pi_mode i = Dry_Run \<and> \<not> list_all sendable_target (pi_targets i) then PF_Warn else PF_Pass)"
  by (simp add: evaluate_campaign_preflight_def Let_def overall_status_def blocked_check warned_check)

text \<open>C31: A review blocks exactly when the content, the image, the target list or the session fail, or, for a LIVE
  review, when live sends are off, the safety controls are not ready or a target cannot be sent to now; otherwise it
  warns exactly for a dry run with such a target, and passes. Its three counts add up to the number of targets.\<close>

theorem preflight_verdict:
  "pr_status (evaluate_campaign_preflight js i) =
     (if preflight_blocked i then PF_Block
      else if pi_mode i = Dry_Run \<and> \<not> list_all sendable_target (pi_targets i) then PF_Warn else PF_Pass)
   \<and> pr_allowedTargets (evaluate_campaign_preflight js i) = length (filter sendable_target (pi_targets i))
   \<and> pr_allowedTargets (evaluate_campaign_preflight js i) + pr_deniedTargets (evaluate_campaign_preflight js i)
       + pr_unknownTargets (evaluate_campaign_preflight js i) = pr_totalTargets (evaluate_campaign_preflight js i)"
proof -
  have "pr_allowedTargets (evaluate_campaign_preflight js i) = length (filter sendable_target (pi_targets i))"
    by (simp add: evaluate_campaign_preflight_def Let_def allowed_count)
  moreover have "pr_deniedTargets (evaluate_campaign_preflight js i) + pr_unknownTargets (evaluate_campaign_preflight js i)
      = length (filter (\<lambda>t. \<not> sendable_target t) (pi_targets i))"
    by (simp add: evaluate_campaign_preflight_def Let_def count_issues denied_unknown)
  moreover have "pr_totalTargets (evaluate_campaign_preflight js i) = length (pi_targets i)"
    by (simp add: evaluate_campaign_preflight_def Let_def)
  ultimately show ?thesis
    using filter_split [of sendable_target "pi_targets i"] by (simp add: preflight_verdict_status)
qed

section \<open>The token\<close>

lemma split_on_free: "c \<notin> set xs \<Longrightarrow> split_on c xs = [xs]"
  by (induction xs) auto

lemma split_on_append: "c \<notin> set xs \<Longrightarrow> split_on c (xs @ c # ys) = xs # split_on c ys"
  by (induction xs) auto

lemma split_token:
  assumes "CHR ''.'' \<notin> set p" "CHR ''.'' \<notin> set s"
  shows "split_on CHR ''.'' (join_with ''.'' [token_prefix, p, s]) = [token_prefix, p, s]"
proof -
  have "CHR ''.'' \<notin> set token_prefix" by (simp add: token_prefix_def)
  then have "split_on CHR ''.'' (token_prefix @ CHR ''.'' # p @ CHR ''.'' # s) = [token_prefix, p, s]"
    using assms by (simp add: split_on_append split_on_free)
  then show ?thesis by simp
qed

lemma le_div_seconds: "e \<le> t div 1000 \<longleftrightarrow> e * 1000 \<le> t" for e t :: int
  by linarith

text \<open>What the claims must satisfy to pass their own schema.\<close>

definition wf_claims :: "token_codec \<Rightarrow> launch_claims \<Rightarrow> bool" where
  "wf_claims T c \<longleftrightarrow> lc_version c = 1 \<and> tc_uuid T (lc_campaignId c) \<and> tc_uuid T (lc_sessionId c) \<and> tc_uuid T (lc_nonce c)
     \<and> list_all safe_int [lc_campaignRevision c, lc_targetsRevision c, lc_policyVersion c, lc_issuedAt c, lc_expiresAt c]
     \<and> 1 \<le> lc_campaignRevision c \<and> 0 \<le> lc_targetsRevision c \<and> 1 \<le> lc_policyVersion c \<and> 0 \<le> lc_issuedAt c
     \<and> 1 \<le> lc_expiresAt c"

lemma schema_int_of_int: "schema_int lo (JNumber (of_int n)) = (if safe_int n \<and> lo \<le> n then Some n else None)"
  by (simp add: is_safe_integer_def safe_int_def)

lemma parse_claims_value: "wf_claims T c \<Longrightarrow> parse_claims T (claims_value c) = Some c"
  by (simp add: wf_claims_def parse_claims_def claims_value_def launch_claims_fields_def schema_int_of_int
      del: schema_int.simps(1))

text \<open>What the token relies on: the encodings keep their value, and base64url has no dot.\<close>

definition codec_keeps :: "token_codec \<Rightarrow> js_value \<Rightarrow> bool" where
  "codec_keeps T v \<longleftrightarrow> (let payload = tc_encode T v; signature = sign_payload T payload in
     tc_decode T payload = Some v \<and> payload \<noteq> [] \<and> signature \<noteq> []
     \<and> CHR ''.'' \<notin> set payload \<and> CHR ''.'' \<notin> set signature \<and> tc_text T (tc_bytes T signature) = signature)"

definition launch_of :: "launch_claims \<Rightarrow> expected_launch" where
  "launch_of c = \<lparr>el_campaignId = lc_campaignId c, el_sessionId = lc_sessionId c,
     el_campaignRevision = lc_campaignRevision c, el_targetsRevision = lc_targetsRevision c\<rparr>"

text \<open>C12: A token issued for a passing LIVE review is accepted for the same campaign, session and revisions, with the
  claims it was issued with, until the second it expires, and is refused as expired from then on.\<close>

theorem launch_token_roundtrip:
  assumes "issue_token T nonce campaign session r = Inr (token, expires)"
    and "codec_keeps T (claims_value (issued_claims T nonce campaign session r))"
    and "wf_claims T (issued_claims T nonce campaign session r)"
    and "pr_policyVersion r = campaign_preflight_policy_version" "pr_checkedAt r \<le> js"
  shows "verify_token T js False (launch_of (issued_claims T nonce campaign session r)) token =
     (if js < expires then Inr (issued_claims T nonce campaign session r) else Inl Token_Expired)"
proof -
  define c where "c = issued_claims T nonce campaign session r"
  define p where "p = tc_encode T (claims_value c)"
  have tok: "token = join_with ''.'' [token_prefix, p, sign_payload T p]" and expires: "expires = lc_expiresAt c * 1000"
    using assms(1) by (auto simp: issue_token_def Let_def p_def c_def split: if_splits)
  have k: "tc_decode T p = Some (claims_value c)" "p \<noteq> []" "sign_payload T p \<noteq> []" "CHR ''.'' \<notin> set p"
    "CHR ''.'' \<notin> set (sign_payload T p)" "tc_text T (tc_bytes T (sign_payload T p)) = sign_payload T p"
    using assms(2) by (auto simp: codec_keeps_def Let_def p_def c_def)
  have split: "split_on CHR ''.'' token = [token_prefix, p, sign_payload T p]"
    unfolding tok using k(4,5) by (rule split_token)
  have parse: "parse_claims T (claims_value c) = Some c" using assms(3) by (simp add: c_def parse_claims_value)
  have at: "lc_issuedAt c = pr_checkedAt r div 1000" "lc_policyVersion c = campaign_preflight_policy_version"
    using assms(4) by (simp_all add: c_def issued_claims_def Let_def)
  have fresh: "\<not> js div 1000 + 30 < lc_issuedAt c"
    using zdiv_mono1 [OF assms(5), of 1000] by (simp add: at(1))
  have due: "lc_expiresAt c \<le> js div 1000 \<longleftrightarrow> \<not> js < expires" by (simp add: expires le_div_seconds not_less)
  have sig: "signature_matches T p (sign_payload T p)" by (simp add: signature_matches_def k(6))
  have claims: "Option.bind (tc_decode T p) (parse_claims T) = Some c" by (simp add: k(1) parse)
  have ours: "claims_expected (launch_of c) False c" by (simp add: claims_expected_def launch_of_def at(2))
  have "verify_token T js False (launch_of c) token =
      (if lc_expiresAt c \<le> js div 1000 then Inl Token_Expired else Inr c)"
    unfolding verify_token_def split using k(2,3) fresh sig claims ours by simp
  then show ?thesis unfolding due c_def [symmetric] by simp
qed

text \<open>C9: A launch token is only given out by a review in which every condition of a LIVE launch held: the content and the
  image are valid, there are targets and every one can be sent to now, the session can send, live sends are on, the
  safety controls are ready and not paused, and the forecast is not blocked.\<close>

theorem launch_token_proves_review:
  assumes "issue_token T nonce campaign s (evaluate_preflight env js m s c ts revision targets) = Inr x"
  shows "m = Live \<and> content_valid c \<and> (is_text c \<or> pe_mediaMatches env c s) \<and> ts \<noteq> [] \<and> list_all sendable_target ts
    \<and> map_option session_sendable (pe_session env s) = Some True
    \<and> pe_liveSends env \<and> pe_safety env s = (St_READY, False)
    \<and> mf_status (pe_forecast env s (map ct_groupId ts) (if is_text c then Text_Message else Image_Message)) \<noteq> Forecast_Blocked"
proof -
  define i where "i = \<lparr>pi_mode = m, pi_content = Some c, pi_text = None,
        pi_mediaReady = (is_text c \<or> pe_mediaMatches env c s), pi_targets = ts,
        pi_session = (case pe_session env s of Some x \<Rightarrow> x
          | None \<Rightarrow> \<lparr>pf_status = ''missing'', pf_engineLoaded = False, pf_restricted = True\<rparr>),
        pi_liveSendsEnabled = pe_liveSends env, pi_safetyStatus = Some (fst (pe_safety env s)),
        pi_outboundPaused = Some (snd (pe_safety env s)),
        pi_forecast = (if m = Live \<and> ts \<noteq> []
          then Some (pe_forecast env s (map ct_groupId ts) (if is_text c then Text_Message else Image_Message))
          else None),
        pi_campaignRevision = revision, pi_targetsRevision = targets, pi_checkedAt = None\<rparr>"
  have e: "evaluate_preflight env js m s c ts revision targets = evaluate_campaign_preflight js i"
    by (simp add: evaluate_preflight_def i_def)
  have "pr_mode (evaluate_campaign_preflight js i) = Live" "pr_status (evaluate_campaign_preflight js i) = PF_Pass"
    using assms by (auto simp: issue_token_def e split: if_splits)
  then have live: "m = Live" and ok: "\<not> preflight_blocked i"
    using preflight_verdict_status [of js i] by (auto simp: evaluate_campaign_preflight_def Let_def i_def split: if_splits)
  then show ?thesis
    by (cases "pe_safety env s")
      (auto simp: preflight_blocked_def i_def preflight_content_def safety_ready_def forecast_blocked_def
        session_sendable_def split: option.splits)
qed

end
