(* ===== verification/Campaign_Demo.thy ===== *)
theory Campaign_Demo
  imports Campaign_Theorems Preflight_Theorems Runtime_Demo
begin

text \<open>
  The properties of the campaign modules at concrete inputs, evaluated by the simplifier: one LIVE campaign of one group,
  from the launch to the processing of its message.
\<close>

section \<open>One campaign\<close>

definition demo_campaign :: campaign_row where
  "demo_campaign = \<lparr>cp_id = ''c'', cp_name = ''n'', cp_sessionId = ''s'', cp_content = Campaign_Text ''hello'', cp_once = False,
     cp_scheduledAt = None, cp_status = CS_DRAFT, cp_revision = 1, cp_targetsRevision = 1,
     cp_source = \<lparr>as_groupListId = None, as_groupListName = None, as_membershipRevision = None, as_appliedAt = None\<rparr>,
     cp_deleted = False, cp_updatedAt = 0\<rparr>"

definition demo_group :: group_row where
  "demo_group = \<lparr>gr_sessionId = ''s'', gr_id = ''g'', gr_name = ''G'', gr_capability = Cap_Allowed, gr_reason = ''SEND_ALLOWED'',
     gr_checkedAt = Some 0, gr_invalidatedAt = None, gr_revision = 1, gr_participants = None\<rparr>"

definition campaign_db0 :: campaign_db where
  "campaign_db0 = \<lparr>cb_campaigns = [demo_campaign],
     cb_audience = [\<lparr>ca_campaignId = ''c'', ca_sessionId = ''s'', ca_groupId = ''g'', ca_enabled = True\<rparr>],
     cb_runs = [], cb_runTargets = [], cb_deliveries = [], cb_groups = [demo_group], cb_activity = [], cb_receipts = [],
     cb_runtime = empty_db\<lparr>db_sessions := [(''s'', \<lparr>gs_ready = True, gs_engineLoaded = True, gs_restricted = False\<rparr>)]\<rparr>\<rparr>"

definition demo_target :: campaign_target where
  "demo_target = \<lparr>ct_groupId = ''g'', ct_groupName = ''G'', ct_enabled = True,
     ct_capability = \<lparr>cv_status = Cap_Allowed, cv_reason = ''SEND_ALLOWED'', cv_checkedAt = Some 0, cv_invalidatedAt = None,
       cv_revision = 1\<rparr>\<rparr>"

definition demo_forecast :: message_forecast where
  "demo_forecast = \<lparr>mf_status = Forecast_Ready, mf_reason = None, mf_targetCount = 1, mf_messageUnits = 1, mf_queuedAhead = 0,
     mf_recipientDeferred = 0, mf_firstAt = Some 0, mf_lastAt = Some 0, mf_spanSeconds = Some 0, mf_calculatedAt = 0\<rparr>"

definition review_env :: preflight_env where
  "review_env = \<lparr>pe_session = (\<lambda>s. if s = ''s'' then Some \<lparr>pf_status = ''ready'', pf_engineLoaded = True, pf_restricted = False\<rparr> else None),
     pe_mediaMatches = (\<lambda>_ _. True), pe_safety = (\<lambda>_. (St_READY, False)), pe_forecast = (\<lambda>_ _ _. demo_forecast),
     pe_liveSends = True\<rparr>"

definition demo_report :: preflight_report where
  "demo_report = evaluate_preflight review_env 1000 Live ''s'' (Campaign_Text ''hello'') [demo_target] 1 1"

definition launch_request :: run_request where
  "launch_request = \<lparr>cq_campaignId = ''c'', cq_key = ''k'', cq_mode = Live, cq_campaignRevision = Some 1, cq_targetsRevision = Some 1\<rparr>"

definition demo_materialize :: materialize_env where
  "demo_materialize = \<lparr>mz_hash = (\<lambda>s g c d. ''h''), mz_jobId = (\<lambda>d. ''j'')\<rparr>"

definition launch_ops :: "campaign_op list" where
  "launch_ops = [Create_Run 1000 1000 ''r'' 30 launch_request, Claim_Preparation 1001 ''t'' ''r'',
     Apply_Preflight 1002 1002 (\<lambda>g. ''d'') ''r'' ''t'' demo_report [demo_target]]"

definition send_ops :: "campaign_op list" where
  "send_ops = [Materialize demo_materialize 1003 1003 ''r'' 5, Messages (Claim_Due 1004 5), Messages (Mark_Processing 1005 ''j'')]"

definition running_db :: campaign_db where
  "running_db = fold campaign_step launch_ops campaign_db0"

definition processing_db :: campaign_db where
  "processing_db = fold campaign_step send_ops running_db"

lemma campaign_demo_wf: "campaign_wf campaign_db0"
  by (simp add: campaign_wf_def campaign_db0_def at_most_one_def)

lemma running_wf: "campaign_wf running_db"
  unfolding running_db_def by (rule wfdb.campaign_keeps_all [OF campaign_demo_wf]) (simp add: list_all_iff split: option.split)

lemma processing_wf: "campaign_wf processing_db"
  unfolding processing_db_def by (rule wfdb.campaign_keeps_all [OF running_wf]) (simp add: list_all_iff split: option.split)

theorem runs_stay_wf_witness:
  "campaign_wf processing_db \<and> map cr_status (cb_runs processing_db) = [RS_RUNNING]
     \<and> map cd_status (cb_deliveries processing_db) = [CD_MATERIALIZED] \<and> map mj_status (db_jobs (cb_runtime processing_db)) = [PROCESSING]"
proof -
  have "campaign_wf processing_db"
    using runs_stay_wf [OF campaign_demo_wf, of "launch_ops @ send_ops"] by (simp add: processing_db_def running_db_def)
  moreover have "map cr_status (cb_runs processing_db) = [RS_RUNNING]" by code_simp
  moreover have "map cd_status (cb_deliveries processing_db) = [CD_MATERIALIZED]" by code_simp
  moreover have "map mj_status (db_jobs (cb_runtime processing_db)) = [PROCESSING]" by code_simp
  ultimately show ?thesis by blast
qed

section \<open>Stopping\<close>

definition pause_request :: action_request where
  "pause_request = \<lparr>aq_operation = Pause_Run, aq_key = ''p'', aq_hash = ''h''\<rparr>"

definition run_permit :: message_permit where
  "run_permit = \<lparr>mpt_leaseToken = ''l'', mpt_upstreamId = ''u'', mpt_sessionId = ''s'', mpt_jobId = ''j'', mpt_recipientId = ''g'',
     mpt_type = Text_Message, mpt_profile = STANDARD, mpt_policyVersion = 5, mpt_reservedAt = 0, mpt_expiresAt = 60000\<rparr>"

definition pause_answer :: "campaign_db_error + (action_result option \<times> campaign_db)" where
  "pause_answer = pause 1006 ''r'' pause_request processing_db"

lemma pause_answered: "\<exists>run db'. pause_answer = Inr (Some (Action_Succeeded run False), db')"
proof -
  have "(case pause_answer of Inr (Some (Action_Succeeded run False), db') \<Rightarrow> True | _ \<Rightarrow> False)" by code_simp
  then show ?thesis by (auto split: sum.splits prod.splits option.splits action_result.splits bool.splits)
qed

theorem stopped_run_sends_nothing_witness:
  "\<exists>run db'. pause 1006 ''r'' pause_request processing_db = Inr (Some (Action_Succeeded run False), db')
     \<and> (\<nexists>c x. commit_message_start 1008 ''a'' ''b'' run_permit False None False 0
          (runtime_view (fold campaign_step [Activate_Due 1007, Messages (Claim_Due 1007 5)] db')) = Inr (Some c, x))"
proof -
  obtain run db' where p: "pause 1006 ''r'' pause_request processing_db = Inr (Some (Action_Succeeded run False), db')"
    using pause_answered by (auto simp: pause_answer_def)
  have d: "delivers ''r'' (mpt_jobId run_permit) processing_db" by code_simp
  have "list_all (\<lambda>op. resumes op \<noteq> Some ''r'') [Activate_Due 1007, Messages (Claim_Due 1007 5)]" by simp
  then have "\<nexists>c x. commit_message_start 1008 ''a'' ''b'' run_permit False None False 0
      (runtime_view (fold campaign_step [Activate_Due 1007, Messages (Claim_Due 1007 5)] db')) = Inr (Some c, x)"
    using stopped_run_sends_nothing [OF processing_wf d disjI1 [OF refl] p] by blast
  then show ?thesis using p by blast
qed

text \<open>The message is being processed when the deliveries are reconciled, and then waits for its rate budget: the run can
  no longer be cancelled.\<close>

definition deferred_db :: campaign_db where
  "deferred_db = fold campaign_step [Reconcile 1006, Messages (Defer_Processing 1007 ''j'' ''wait'' 2000 (Some ''RATE_BUDGET''))]
     processing_db"

definition cancel_request :: action_request where
  "cancel_request = \<lparr>aq_operation = Cancel_Run, aq_key = ''x'', aq_hash = ''h''\<rparr>"

theorem cancel_fails_on_processing_delivery_witness:
  "transaction (cancel 1008 (\<lambda>g. ''d'') ''r'' cancel_request) deferred_db =
     (Inl (Illegal_Delivery_Transition CD_PROCESSING CD_CANCELLED), deferred_db)"
proof -
  have receipts: "map_of (cb_receipts deferred_db) (aq_operation cancel_request, aq_key cancel_request) = None" by code_simp
  have "(case find_run deferred_db ''r'' of None \<Rightarrow> False | Some run \<Rightarrow> cancellable (cr_status run))" by code_simp
  then obtain run where run: "find_run deferred_db ''r'' = Some run" "cancellable (cr_status run)" by (auto split: option.splits)
  have "(case cb_deliveries deferred_db of [d] \<Rightarrow> cd_runId d = ''r'' \<and> cd_status d = CD_PROCESSING \<and> cd_jobId d = Some ''j'' | _ \<Rightarrow> False)"
    by code_simp
  then obtain d where d: "d \<in> set (cb_deliveries deferred_db)" "cd_runId d = ''r''" "cd_status d = CD_PROCESSING" "cd_jobId d = Some ''j''"
    by (auto split: list.splits)
  have "(case find_job (cb_runtime deferred_db) ''j'' of None \<Rightarrow> False | Some j \<Rightarrow> unstarted {SCHEDULED, QUEUED} j)" by code_simp
  then obtain j where j: "find_job (cb_runtime deferred_db) ''j'' = Some j" "unstarted {SCHEDULED, QUEUED} j"
    by (auto split: option.splits)
  obtain e where e: "transaction (cancel 1008 (\<lambda>g. ''d'') ''r'' cancel_request) deferred_db = (Inl e, deferred_db)"
    using cancel_fails_on_processing_delivery [OF receipts run d j] by blast
  have "fst (transaction (cancel 1008 (\<lambda>g. ''d'') ''r'' cancel_request) deferred_db) =
      Inl (Illegal_Delivery_Transition CD_PROCESSING CD_CANCELLED)" by code_simp
  then show ?thesis using e by simp
qed

section \<open>The schedule and the deliveries\<close>





section \<open>The launch token\<close>

text \<open>A codec that keeps the claims of the demonstration.\<close>

definition demo_claims :: launch_claims where
  "demo_claims = \<lparr>lc_version = 1, lc_campaignId = ''c'', lc_sessionId = ''s'', lc_campaignRevision = 1, lc_targetsRevision = 1,
     lc_policyVersion = 6, lc_issuedAt = 1, lc_expiresAt = 301, lc_nonce = ''n''\<rparr>"

definition demo_codec :: token_codec where
  "demo_codec = \<lparr>tc_sign = (\<lambda>t. ''sig''), tc_encode = (\<lambda>v. ''payload''), tc_decode = (\<lambda>t. Some (claims_value demo_claims)),
     tc_bytes = (\<lambda>t. t), tc_text = (\<lambda>b. b), tc_uuid = (\<lambda>s. True), tc_ttl = 300\<rparr>"

lemma demo_report_simps: "pr_mode demo_report = Live" "pr_status demo_report = PF_Pass" "pr_policyVersion demo_report = 6"
  "pr_campaignRevision demo_report = 1" "pr_targetsRevision demo_report = 1" "pr_checkedAt demo_report = 1000"
  by code_simp+

lemma demo_issued_claims: "issued_claims demo_codec ''n'' ''c'' ''s'' demo_report = demo_claims"
  by (simp add: issued_claims_def demo_report_simps demo_claims_def demo_codec_def)

lemma demo_issued: "\<exists>token. issue_token demo_codec ''n'' ''c'' ''s'' demo_report = Inr (token, 301000)"
  by (simp add: issue_token_def demo_report_simps demo_issued_claims Let_def demo_claims_def)

theorem launch_token_roundtrip_witness:
  "\<exists>token. issue_token demo_codec ''n'' ''c'' ''s'' demo_report = Inr (token, 301000)
     \<and> verify_token demo_codec 2000 False (launch_of demo_claims) token = Inr demo_claims"
proof -
  obtain token where t: "issue_token demo_codec ''n'' ''c'' ''s'' demo_report = Inr (token, 301000)" using demo_issued by blast
  have "codec_keeps demo_codec (claims_value (issued_claims demo_codec ''n'' ''c'' ''s'' demo_report))"
    "wf_claims demo_codec (issued_claims demo_codec ''n'' ''c'' ''s'' demo_report)"
    unfolding demo_issued_claims
    by (simp_all add: codec_keeps_def sign_payload_def wf_claims_def demo_codec_def demo_claims_def safe_int_def max_safe_integer_def Let_def)
  from launch_token_roundtrip [OF t this, of 2000] show ?thesis
    using t by (simp add: demo_issued_claims demo_report_simps campaign_preflight_policy_version_def)
qed

theorem launch_token_proves_review_witness:
  "\<exists>x. issue_token demo_codec ''n'' ''c'' ''s'' (evaluate_preflight review_env 1000 Live ''s'' (Campaign_Text ''hello'') [demo_target] 1 1) = Inr x
     \<and> pe_safety review_env ''s'' = (St_READY, False)"
proof -
  obtain x where "issue_token demo_codec ''n'' ''c'' ''s'' (evaluate_preflight review_env 1000 Live ''s'' (Campaign_Text ''hello'') [demo_target] 1 1) = Inr x"
    using demo_issued by (auto simp: demo_report_def)
  then show ?thesis using launch_token_proves_review by blast
qed

end
