(* ===== verification/Inbox_Store.thy ===== *)
theory Inbox_Store
  imports Runtime_Tables "HOL-Library.Product_Lexorder" "HOL-Library.List_Lexorder" "HOL-Library.Char_ord"
begin

text \<open>
  The Event Inbox: the tables of its database (\<open>event-inbox-migrations\<close>), the durable queue of events
  (\<open>modules/event-inbox/event-inbox.repository.ts\<close>) and the devices that own sessions
  (\<open>event-inbox-device.repository.ts\<close>). The operations that write the usage row lock it first, and the others change the
  queue by single statements, so each is one atomic transaction. (Authorizing a device or a connector, the limit of pairing
  attempts, a heartbeat and the receipt of a connector's event run two or three statements on their connection without a
  transaction; they are one step here, which leaves out what could come between those statements.) \<open>now\<close> is the
  database's \<open>now()\<close>, \<open>js\<close> the process's clock, the SHA-256 of a body and generated ids are arguments. Bodies are their
  bytes.
\<close>

section \<open>Tables\<close>

text \<open>The four lease columns are set together (\<open>event_inbox_events_lease_complete\<close>).\<close>

record inbox_lease =
  il_id :: string
  il_owner :: string
  il_generation :: nat
  il_expiresAt :: millis

record inbox_event =
  ie_key :: string
  ie_deliveryId :: string
  ie_type :: string
  ie_sessionId :: string
  ie_body :: string
  ie_signature :: string
  ie_receivedAt :: millis
  ie_expiresAt :: millis
  ie_bytes :: nat
  ie_availableAt :: millis
  ie_lease :: "inbox_lease option"
  ie_attempts :: nat
  ie_deadAt :: "millis option"
  ie_deadReason :: "string option"
  ie_sequence :: nat

record inbox_receipt =
  ir_sessionId :: string
  ir_hash :: string
  ir_acceptedAt :: millis
  ir_expiresAt :: millis

record inbox_usage =
  iu_events :: nat
  iu_bytes :: nat
  iu_receipts :: nat

record inbox_device =
  dv_version :: nat
  dv_generation :: nat
  dv_pairedAt :: millis
  dv_expiresAt :: millis
  dv_revokedAt :: "millis option"
  dv_authenticatedAt :: "millis option"

record session_owner =
  so_device :: string
  so_generation :: nat
  so_acquiredAt :: millis

record inbox_rate =
  rl_startedAt :: millis
  rl_attempts :: nat
  rl_blocked :: nat
  rl_expiresAt :: millis

text \<open>Connectors, their sessions, bindings, the history of bindings and heartbeats.\<close>

record inbox_connector =
  ic_device :: string
  ic_generation :: nat
  ic_hash :: string
  ic_hashVersion :: nat
  ic_revokedAt :: "millis option"
  ic_authenticatedAt :: "millis option"

record inbox_binding =
  ib_device :: string
  ib_connector :: string
  ib_webhook :: string
  ib_generation :: nat
  ib_updatedAt :: millis

record session_report =
  sr_sessionId :: string
  sr_generation :: nat
  sr_pending :: nat
  sr_oldestSeconds :: "nat option"
  sr_utilization :: rat
  sr_blockedReason :: "string option"

record inbox_heartbeat =
  hb_generation :: nat
  hb_pluginVersion :: string
  hb_protocol :: nat
  hb_schema :: nat
  hb_report :: session_report
  hb_observedAt :: millis

record inbox_db =
  in_events :: "inbox_event list"
  in_nextSequence :: nat
  in_usage :: "inbox_usage option"
  in_receipts :: "(string \<times> inbox_receipt) list"
  in_devices :: "(string \<times> inbox_device) list"
  in_owners :: "(string \<times> session_owner) list"
  in_rates :: "((string \<times> string) \<times> inbox_rate) list"
  in_connectors :: "(string \<times> inbox_connector) list"
  in_scopes :: "(string \<times> string) list"
  in_bindings :: "(string \<times> inbox_binding) list"
  in_history :: "((string \<times> nat) \<times> inbox_binding) list"
  in_heartbeats :: "((string \<times> string) \<times> inbox_heartbeat) list"

datatype store_error =
    Usage_Unavailable | Affects_Row_Twice | Inbox_Unauthorized string | Inbox_Conflict string

type_synonym 'a itx = "(inbox_db, store_error, 'a) rollback"

record inbox_config =
  xc_retentionDays :: nat
  xc_receiptDays :: nat
  xc_maxEvents :: nat
  xc_maxBytes :: nat
  xc_batchMax :: nat
  xc_leaseSeconds :: nat
  xc_maxAttempts :: nat
  xc_tokenDays :: nat
  xc_acceptUntil :: "millis option"
  xc_allowedSessions :: "string list"

definition days :: "nat \<Rightarrow> millis" where
  "days n = int n * 86400000"

definition seconds :: "nat \<Rightarrow> millis" where
  "seconds n = int n * 1000"

section \<open>Ownership\<close>

definition device_current :: "millis \<Rightarrow> inbox_db \<Rightarrow> string \<Rightarrow> nat \<Rightarrow> bool" where
  "device_current now db d g = (case map_of (in_devices db) d of None \<Rightarrow> False
     | Some v \<Rightarrow> dv_generation v = g \<and> dv_revokedAt v = None \<and> now < dv_expiresAt v)"

definition owns :: "inbox_db \<Rightarrow> string \<Rightarrow> nat \<Rightarrow> string \<Rightarrow> bool" where
  "owns db d g s = (case map_of (in_owners db) s of None \<Rightarrow> False | Some o' \<Rightarrow> so_device o' = d \<and> so_generation o' = g)"

text \<open>\<open>ACTIVE_DEVICE_OWNERSHIP_SQL\<close>.\<close>

definition active_owner :: "millis \<Rightarrow> inbox_db \<Rightarrow> string \<Rightarrow> nat \<Rightarrow> string \<Rightarrow> bool" where
  "active_owner now db d g s \<longleftrightarrow> owns db d g s \<and> device_current now db d g"

section \<open>Storing an event\<close>

definition lock_usage :: "inbox_usage itx" where
  "lock_usage db = (case in_usage db of None \<Rightarrow> Inl Usage_Unavailable | Some u \<Rightarrow> Inr (u, db))"

text \<open>\<open>decrementUsage\<close>, with \<open>GREATEST(0, ...)\<close>.\<close>

definition decrement_usage :: "inbox_event list \<Rightarrow> unit itx" where
  "decrement_usage removed = tx_modify (\<lambda>db. db\<lparr>in_usage := map_option (\<lambda>u. u\<lparr>
     iu_events := iu_events u - length removed, iu_bytes := iu_bytes u - sum_list (map ie_bytes removed)\<rparr>) (in_usage db)\<rparr>)"

datatype insert_result = Created | Duplicate | Conflict | Capacity

record inbox_envelope =
  ne_event :: string
  ne_sessionId :: string
  ne_key :: string
  ne_deliveryId :: string

definition new_event :: "inbox_config \<Rightarrow> millis \<Rightarrow> string \<Rightarrow> string \<Rightarrow> inbox_envelope \<Rightarrow> nat \<Rightarrow> inbox_event" where
  "new_event X now body sig env n = \<lparr>ie_key = ne_key env, ie_deliveryId = ne_deliveryId env, ie_type = ne_event env,
     ie_sessionId = ne_sessionId env, ie_body = body, ie_signature = sig, ie_receivedAt = now,
     ie_expiresAt = now + days (xc_retentionDays X), ie_bytes = length body + length sig, ie_availableAt = now,
     ie_lease = None, ie_attempts = 0, ie_deadAt = None, ie_deadReason = None, ie_sequence = n\<rparr>"

definition find_inbox_event :: "inbox_db \<Rightarrow> string \<Rightarrow> inbox_event option" where
  "find_inbox_event db k = List.find (\<lambda>e. ie_key e = k) (in_events db)"

definition retained :: "millis \<Rightarrow> inbox_db \<Rightarrow> string \<Rightarrow> inbox_receipt option" where
  "retained now db k = (case map_of (in_receipts db) k of None \<Rightarrow> None | Some r \<Rightarrow> if now < ir_expiresAt r then Some r else None)"

text \<open>A capacity refusal rolls back: neither the event nor its sequence is stored (an identity value may be skipped).\<close>

definition insert_event ::
  "(string \<Rightarrow> string) \<Rightarrow> inbox_config \<Rightarrow> millis \<Rightarrow> string \<Rightarrow> string \<Rightarrow> inbox_envelope \<Rightarrow> insert_result itx" where
  "insert_event H X now body sig env = tx_bind lock_usage (\<lambda>u db.
     case retained now db (ne_key env) of
       Some r \<Rightarrow> Inr (if ir_hash r = H body then Duplicate else Conflict, db)
     | None \<Rightarrow>
         (case find_inbox_event db (ne_key env) of
            Some e \<Rightarrow> Inr (if H (ie_body e) = H body then Duplicate else Conflict, db)
          | None \<Rightarrow>
              (let e = new_event X now body sig env (in_nextSequence db) in
               if xc_maxEvents X < iu_events u + 1 \<or> xc_maxBytes X < iu_bytes u + ie_bytes e then Inr (Capacity, db)
               else Inr (Created, db\<lparr>in_events := in_events db @ [e], in_nextSequence := in_nextSequence db + 1,
                 in_usage := Some (u\<lparr>iu_events := iu_events u + 1, iu_bytes := iu_bytes u + ie_bytes e\<rparr>)\<rparr>))))"

section \<open>Claiming\<close>

definition claimable :: "millis \<Rightarrow> string list \<Rightarrow> nat option \<Rightarrow> inbox_event \<Rightarrow> bool" where
  "claimable now sessions through e \<longleftrightarrow> ie_sessionId e \<in> set sessions \<and> ie_deadAt e = None \<and> now < ie_expiresAt e
     \<and> ie_availableAt e \<le> now \<and> (case ie_lease e of None \<Rightarrow> True | Some l \<Rightarrow> il_expiresAt l \<le> now)
     \<and> (case through of None \<Rightarrow> True | Some n \<Rightarrow> ie_sequence e \<le> n)"

definition claim_candidates ::
  "inbox_config \<Rightarrow> millis \<Rightarrow> string \<Rightarrow> nat \<Rightarrow> string list \<Rightarrow> nat \<Rightarrow> nat option \<Rightarrow> inbox_db \<Rightarrow> inbox_event list" where
  "claim_candidates X now d g sessions n through db =
     (if device_current now db d g \<and> list_all (owns db d g) sessions
      then take (min n (xc_batchMax X)) (sort_key ie_sequence (filter (claimable now sessions through) (in_events db)))
      else [])"

definition lease_event :: "inbox_config \<Rightarrow> millis \<Rightarrow> string \<Rightarrow> string \<Rightarrow> nat \<Rightarrow> inbox_event \<Rightarrow> inbox_event" where
  "lease_event X now lease d g e = e\<lparr>ie_lease := Some \<lparr>il_id = lease, il_owner = d, il_generation = g,
     il_expiresAt = now + seconds (xc_leaseSeconds X)\<rparr>, ie_attempts := ie_attempts e + 1\<rparr>"

record claimed_event =
  ce_key :: string
  ce_leaseId :: string
  ce_rawBody :: string
  ce_signature :: string

text \<open>The receipt handle \<open>encodeEventInboxReceipt\<close> makes of a claimed event stands for its key and the lease id.\<close>

definition claim_events ::
  "inbox_config \<Rightarrow> millis \<Rightarrow> string \<Rightarrow> string \<Rightarrow> nat \<Rightarrow> string list \<Rightarrow> nat \<Rightarrow> nat option \<Rightarrow> claimed_event list itx" where
  "claim_events X now lease d g sessions n through db =
     (let ks = map ie_key (claim_candidates X now d g sessions n through db)
      in Inr (map (\<lambda>e. \<lparr>ce_key = ie_key e, ce_leaseId = lease, ce_rawBody = ie_body e, ce_signature = ie_signature e\<rparr>)
             (filter (\<lambda>e. ie_key e \<in> set ks) (in_events db)),
           db\<lparr>in_events := update_where (\<lambda>e. ie_key e \<in> set ks) (lease_event X now lease d g) (in_events db)\<rparr>))"

text \<open>\<open>recovery\<close>: the watermark of the owned events and how many are left up to it.\<close>

definition recovery_status :: "millis \<Rightarrow> string \<Rightarrow> nat \<Rightarrow> string list \<Rightarrow> nat option \<Rightarrow> inbox_db \<Rightarrow> nat \<times> nat" where
  "recovery_status now d g sessions requested db =
     (let owned = filter (\<lambda>e. active_owner now db d g (ie_sessionId e) \<and> ie_sessionId e \<in> set sessions
            \<and> ie_deadAt e = None \<and> now < ie_expiresAt e) (in_events db);
          w = (case requested of Some n \<Rightarrow> n | None \<Rightarrow> fold max (map ie_sequence owned) 0)
      in (w, length (filter (\<lambda>e. ie_sequence e \<le> w) owned)))"

section \<open>Acknowledging\<close>

type_synonym receipt_handle = "string \<times> string"

definition holds_lease :: "millis \<Rightarrow> inbox_db \<Rightarrow> string \<Rightarrow> nat \<Rightarrow> receipt_handle \<Rightarrow> inbox_event \<Rightarrow> bool" where
  "holds_lease now db d g h e \<longleftrightarrow> ie_key e = fst h
     \<and> (case ie_lease e of None \<Rightarrow> False | Some l \<Rightarrow> il_id l = snd h \<and> il_owner l = d \<and> il_generation l = g)
     \<and> active_owner now db d g (ie_sessionId e)"

text \<open>The join of the events with the receipts of the request: one row per pair.\<close>

definition acknowledged :: "millis \<Rightarrow> string \<Rightarrow> nat \<Rightarrow> receipt_handle list \<Rightarrow> inbox_db \<Rightarrow> inbox_event list" where
  "acknowledged now d g hs db = concat (map (\<lambda>h. filter (holds_lease now db d g h) (in_events db)) hs)"

definition new_receipt :: "(string \<Rightarrow> string) \<Rightarrow> inbox_config \<Rightarrow> millis \<Rightarrow> inbox_event \<Rightarrow> inbox_receipt" where
  "new_receipt H X now e = \<lparr>ir_sessionId = ie_sessionId e, ir_hash = H (ie_body e), ir_acceptedAt = now,
     ir_expiresAt = now + days (xc_receiptDays X)\<rparr>"

text \<open>A change of the number of receipts, as the triggers of migration 016 count them.\<close>

definition count_receipts :: "(nat \<Rightarrow> nat) \<Rightarrow> inbox_db \<Rightarrow> inbox_db" where
  "count_receipts f db = db\<lparr>in_usage := map_option (\<lambda>u. u\<lparr>iu_receipts := f (iu_receipts u)\<rparr>) (in_usage db)\<rparr>"

definition delete_receipts :: "(string \<Rightarrow> inbox_receipt \<Rightarrow> bool) \<Rightarrow> nat itx" where
  "delete_receipts P db =
     (let gone = length (filter (\<lambda>(k, r). P k r) (in_receipts db))
      in Inr (gone, count_receipts (\<lambda>n. n - gone) (db\<lparr>in_receipts := filter (\<lambda>(k, r). \<not> P k r) (in_receipts db)\<rparr>)))"

text \<open>The \<open>INSERT ... ON CONFLICT DO UPDATE\<close> of the receipts: a receipt that is already there has not expired (the
  statement before deletes the expired ones), so it stays; a key that appears twice in the statement would be inserted
  and updated by it, which PostgreSQL refuses.\<close>

definition store_receipts :: "(string \<Rightarrow> string) \<Rightarrow> inbox_config \<Rightarrow> millis \<Rightarrow> inbox_event list \<Rightarrow> unit itx" where
  "store_receipts H X now es db =
     (let new = filter (\<lambda>e. map_of (in_receipts db) (ie_key e) = None) es in
      if \<not> distinct (map ie_key new) then Inl Affects_Row_Twice
      else Inr ((), count_receipts (\<lambda>n. n + length new)
        (db\<lparr>in_receipts := in_receipts db @ map (\<lambda>e. (ie_key e, new_receipt H X now e)) new\<rparr>)))"

definition delete_events :: "(inbox_event \<Rightarrow> bool) \<Rightarrow> nat itx" where
  "delete_events P db =
     (let removed = filter P (in_events db) in
      tx_bind (tx_modify (\<lambda>db. db\<lparr>in_events := filter (\<lambda>e. \<not> P e) (in_events db)\<rparr>)) (\<lambda>_.
      tx_bind (decrement_usage removed) (\<lambda>_. tx_return (length removed))) db)"

definition acknowledge ::
  "(string \<Rightarrow> string) \<Rightarrow> inbox_config \<Rightarrow> millis \<Rightarrow> string \<Rightarrow> nat \<Rightarrow> receipt_handle list \<Rightarrow> nat itx" where
  "acknowledge H X now d g hs = tx_bind lock_usage (\<lambda>_ db.
     let es = acknowledged now d g hs db; ks = map ie_key es in
     tx_bind (delete_receipts (\<lambda>k r. k \<in> set ks \<and> ir_expiresAt r \<le> now)) (\<lambda>_.
     tx_bind (store_receipts H X now es) (\<lambda>_.
     delete_events (\<lambda>e. ie_key e \<in> set ks))) db)"

section \<open>Refusing an event\<close>

record nack_item =
  nk_handle :: receipt_handle
  nk_dead :: bool
  nk_reason :: "string option"

definition unlease :: "inbox_event \<Rightarrow> inbox_event" where
  "unlease e = e\<lparr>ie_lease := None\<rparr>"

definition nack_event :: "inbox_config \<Rightarrow> millis \<Rightarrow> nack_item \<Rightarrow> inbox_event \<Rightarrow> inbox_event" where
  "nack_event X now i e =
     (if nk_dead i
      then unlease (e\<lparr>ie_deadAt := Some now,
        ie_deadReason := Some (case nk_reason i of Some r \<Rightarrow> r | None \<Rightarrow> ''consumer_rejected'')\<rparr>)
      else if xc_maxAttempts X \<le> ie_attempts e
      then unlease (e\<lparr>ie_deadAt := Some now, ie_deadReason := Some ''max_delivery_attempts''\<rparr>)
      else unlease (e\<lparr>ie_deadAt := None, ie_deadReason := None,
        ie_availableAt := now + min 300000 (1000 * 2 ^ (ie_attempts e - 1))\<rparr>))"

definition nack_one :: "inbox_config \<Rightarrow> millis \<Rightarrow> string \<Rightarrow> nat \<Rightarrow> nack_item \<Rightarrow> inbox_db \<Rightarrow> inbox_event list \<times> inbox_db" where
  "nack_one X now d g i db =
     (map (nack_event X now i) (filter (holds_lease now db d g (nk_handle i)) (in_events db)),
      db\<lparr>in_events := update_where (holds_lease now db d g (nk_handle i)) (nack_event X now i) (in_events db)\<rparr>)"

fun negatively_acknowledge ::
  "inbox_config \<Rightarrow> millis \<Rightarrow> string \<Rightarrow> nat \<Rightarrow> nack_item list \<Rightarrow> (nat \<times> nat) itx" where
  "negatively_acknowledge X now d g [] = tx_return (0, 0)"
| "negatively_acknowledge X now d g (i # is) = (\<lambda>db.
     case nack_one X now d g i db of (rows, db') \<Rightarrow>
     tx_bind (negatively_acknowledge X now d g is) (\<lambda>(retried, dead). tx_return
       (case rows of [] \<Rightarrow> (retried, dead)
        | e # _ \<Rightarrow> if ie_deadAt e \<noteq> None then (retried, dead + 1) else (retried + 1, dead))) db')"

section \<open>Expiry\<close>

definition remove_expired :: "millis \<Rightarrow> nat \<Rightarrow> nat itx" where
  "remove_expired now n = tx_bind lock_usage (\<lambda>_ db.
     let ks = map ie_key (take n (sort_key (\<lambda>e. (ie_expiresAt e, ie_key e)) (filter (\<lambda>e. ie_expiresAt e \<le> now) (in_events db))))
     in delete_events (\<lambda>e. ie_key e \<in> set ks) db)"

definition remove_expired_receipts :: "millis \<Rightarrow> nat \<Rightarrow> nat itx" where
  "remove_expired_receipts now n = tx_bind lock_usage (\<lambda>_ db.
     let ks = map fst (take n (sort_key (\<lambda>(k, r). (ir_expiresAt r, k)) (filter (\<lambda>(k, r). ir_expiresAt r \<le> now) (in_receipts db))))
     in delete_receipts (\<lambda>k r. k \<in> set ks) db)"

section \<open>The rate limit of pairing attempts\<close>

definition bump_rate :: "millis \<Rightarrow> nat \<Rightarrow> nat \<Rightarrow> inbox_rate option \<Rightarrow> inbox_rate" where
  "bump_rate now max_attempts window r =
     (case r of
        None \<Rightarrow> \<lparr>rl_startedAt = now, rl_attempts = 1, rl_blocked = 0, rl_expiresAt = now + seconds window\<rparr>
      | Some r \<Rightarrow>
          if rl_expiresAt r \<le> now
          then \<lparr>rl_startedAt = now, rl_attempts = 1, rl_blocked = 0, rl_expiresAt = now + seconds window\<rparr>
          else r\<lparr>rl_attempts := rl_attempts r + 1,
            rl_blocked := (if max_attempts < rl_attempts r + 1 then rl_blocked r + 1 else rl_blocked r)\<rparr>)"

record rate_decision =
  rd_allowed :: bool
  rd_retryAfter :: int

definition consume_rate_limit :: "millis \<Rightarrow> string \<Rightarrow> string \<Rightarrow> nat \<Rightarrow> nat \<Rightarrow> rate_decision itx" where
  "consume_rate_limit now scope key max_attempts window db =
     (let r = bump_rate now max_attempts window (map_of (in_rates db) (scope, key))
      in Inr (\<lparr>rd_allowed = (rl_attempts r \<le> max_attempts), rd_retryAfter = max 1 (ceil_div (rl_expiresAt r - now) 1000)\<rparr>,
              db\<lparr>in_rates := AList.update (scope, key) r (in_rates db)\<rparr>))"

text \<open>\<open>EventInboxPairRateLimitService.consume\<close>; \<open>hash\<close> is the HMAC of a value.\<close>

record pair_limits =
  pl_global :: nat
  pl_source :: nat
  pl_window :: nat

definition normalize_source_ip :: "string \<Rightarrow> string" where
  "normalize_source_ip ip = (let n = to_lower (trim ip) in if n \<noteq> [] then take 128 n else ''unknown'')"

definition consume_pairing :: "(string \<Rightarrow> string) \<Rightarrow> pair_limits \<Rightarrow> millis \<Rightarrow> millis \<Rightarrow> string \<Rightarrow> rate_decision itx" where
  "consume_pairing hash L now now' ip =
     tx_bind (consume_rate_limit now ''pair-global'' (hash ''global'') (pl_global L) (pl_window L)) (\<lambda>g.
     if \<not> rd_allowed g then tx_return g
     else consume_rate_limit now' ''pair-ip'' (hash (normalize_source_ip ip)) (pl_source L) (pl_window L))"

definition remove_expired_rate_limits :: "millis \<Rightarrow> nat \<Rightarrow> nat itx" where
  "remove_expired_rate_limits now n db =
     (let ks = map fst (take n (sort_key (\<lambda>(k, r). (rl_expiresAt r, k)) (filter (\<lambda>(k, r). rl_expiresAt r \<le> now) (in_rates db))))
      in Inr (length ks, db\<lparr>in_rates := filter (\<lambda>(k, r). k \<notin> set ks) (in_rates db)\<rparr>))"

end
