(* ===== verification/Inbox_Devices.thy ===== *)
theory Inbox_Devices
  imports Inbox_Store
begin

text \<open>
  \<open>EventInboxDeviceRepository\<close> (\<open>event-inbox-device.repository.ts\<close>): pairing a device, which moves the ownership of its
  sessions and releases their leases, the authorization of a token's claims, revocation, and the removal of inactive
  devices with everything that references them. And \<open>EventInboxTokenService\<close> (\<open>core/event-inbox/event-inbox-token.service.ts\<close>),
  whose HMAC, base64url text and schemas are arguments.
\<close>

section \<open>Pairing\<close>

text \<open>\<open>releaseLeases\<close>.\<close>

definition release_leases :: "string \<Rightarrow> string list \<Rightarrow> unit itx" where
  "release_leases d sessions = tx_modify (\<lambda>db. db\<lparr>in_events := update_where
     (\<lambda>e. (case ie_lease e of None \<Rightarrow> False | Some l \<Rightarrow> il_owner l = d) \<or> ie_sessionId e \<in> set sessions) unlease (in_events db)\<rparr>)"

definition paired_device :: "millis \<Rightarrow> millis \<Rightarrow> inbox_device option \<Rightarrow> inbox_device" where
  "paired_device now expires old = \<lparr>dv_version = 2,
     dv_generation = (case old of None \<Rightarrow> 1 | Some v \<Rightarrow> max 1 (dv_generation v + 1)), dv_pairedAt = now,
     dv_expiresAt = expires, dv_revokedAt = None, dv_authenticatedAt = Option.bind old dv_authenticatedAt\<rparr>"

text \<open>The upsert of the owners; a session that is listed twice would be updated twice by one statement.\<close>

definition take_sessions :: "millis \<Rightarrow> string \<Rightarrow> nat \<Rightarrow> string list \<Rightarrow> unit itx" where
  "take_sessions now d g sessions db =
     (if \<not> distinct sessions then Inl Affects_Row_Twice
      else Inr ((), db\<lparr>in_owners := foldl (\<lambda>os s. AList.update s \<lparr>so_device = d, so_generation = g, so_acquiredAt = now\<rparr> os)
             (in_owners db) sessions\<rparr>))"

record device_pairing =
  dp_generation :: nat
  dp_issuedAt :: millis
  dp_expiresAt :: millis

definition pair_device :: "inbox_config \<Rightarrow> millis \<Rightarrow> millis \<Rightarrow> string \<Rightarrow> string list \<Rightarrow> device_pairing itx" where
  "pair_device X js now d sessions db =
     (let v = paired_device now (js + days (xc_tokenDays X)) (map_of (in_devices db) d) in
      tx_bind (tx_modify (\<lambda>db. db\<lparr>in_devices := AList.update d v (in_devices db)\<rparr>)) (\<lambda>_.
      tx_bind (take_sessions now d (dv_generation v) sessions) (\<lambda>_.
      tx_bind (release_leases d sessions) (\<lambda>_.
      tx_return \<lparr>dp_generation = dv_generation v, dp_issuedAt = now, dp_expiresAt = dv_expiresAt v\<rparr>))) db)"

section \<open>Authorization\<close>

datatype device_claims = Legacy_Claims string "string list" | Claims_V2 string nat millis

record device_authorization =
  da_device :: string
  da_generation :: nat
  da_version :: nat
  da_sessions :: "string list"

definition owned_sessions :: "inbox_db \<Rightarrow> string \<Rightarrow> nat \<Rightarrow> string list" where
  "owned_sessions db d g = sort (map fst (filter (\<lambda>(s, o'). so_device o' = d \<and> so_generation o' = g) (in_owners db)))"

definition mark_authenticated :: "millis \<Rightarrow> string \<Rightarrow> nat \<Rightarrow> unit itx" where
  "mark_authenticated now d g = tx_modify (\<lambda>db. db\<lparr>in_devices := update_keyed
     (\<lambda>k v. k = d \<and> dv_generation v = g \<and> (case dv_authenticatedAt v of None \<Rightarrow> True | Some t \<Rightarrow> t < now - 300000))
     (\<lambda>v. v\<lparr>dv_authenticatedAt := Some now\<rparr>) (in_devices db)\<rparr>)"

definition token_current :: "millis \<Rightarrow> inbox_db \<Rightarrow> string \<Rightarrow> nat \<Rightarrow> millis \<Rightarrow> bool" where
  "token_current now db d g expires = (case map_of (in_devices db) d of None \<Rightarrow> False
     | Some v \<Rightarrow> dv_version v = 2 \<and> dv_generation v = g \<and> dv_expiresAt v = expires \<and> now < dv_expiresAt v
         \<and> dv_revokedAt v = None)"

text \<open>\<open>authorizeV2\<close> needs an owned session, \<open>authorizeV2Retirement\<close> does not.\<close>

definition authorize_v2 :: "bool \<Rightarrow> millis \<Rightarrow> string \<Rightarrow> nat \<Rightarrow> millis \<Rightarrow> device_authorization option itx" where
  "authorize_v2 retiring now d g expires db =
     (let sessions = owned_sessions db d g in
      if \<not> token_current now db d g expires \<or> (\<not> retiring \<and> sessions = []) then Inr (None, db)
      else tx_bind (mark_authenticated now d g) (\<lambda>_. tx_return (Some
        \<lparr>da_device = d, da_generation = g, da_version = 2, da_sessions = sessions\<rparr>)) db)"

definition legacy_device :: "millis \<Rightarrow> millis \<Rightarrow> inbox_device" where
  "legacy_device now until = \<lparr>dv_version = 1, dv_generation = 0, dv_pairedAt = now, dv_expiresAt = until,
     dv_revokedAt = None, dv_authenticatedAt = None\<rparr>"

definition legacy_current :: "millis \<Rightarrow> inbox_db \<Rightarrow> string \<Rightarrow> bool" where
  "legacy_current now db d = (case map_of (in_devices db) d of None \<Rightarrow> False
     | Some v \<Rightarrow> dv_version v = 1 \<and> dv_generation v = 0 \<and> now < dv_expiresAt v \<and> dv_revokedAt v = None)"

text \<open>\<open>authorizeLegacy\<close>: an unknown device of the first protocol is entered and takes the sessions nobody owns.\<close>

definition authorize_legacy :: "inbox_config \<Rightarrow> millis \<Rightarrow> millis \<Rightarrow> string \<Rightarrow> string list \<Rightarrow> device_authorization option itx" where
  "authorize_legacy X js now d claimed db =
     (let sessions = filter (\<lambda>s. s \<in> set (xc_allowedSessions X)) claimed in
      case xc_acceptUntil X of
        None \<Rightarrow> Inr (None, db)
      | Some until \<Rightarrow>
          if until \<le> js \<or> sessions = [] then Inr (None, db)
          else (let db1 = db\<lparr>in_devices := insert_new d (legacy_device now until) (in_devices db)\<rparr> in
            if \<not> legacy_current now db1 d then Inr (None, db)
            else (let db2 = db1\<lparr>in_owners := foldl (\<lambda>os s. insert_new s \<lparr>so_device = d, so_generation = 0, so_acquiredAt = now\<rparr> os)
                     (in_owners db1) sessions\<rparr>;
                   owned = filter (\<lambda>s. s \<in> set sessions) (owned_sessions db2 d 0)
              in if owned = [] then Inr (None, db2)
                 else Inr (Some \<lparr>da_device = d, da_generation = 0, da_version = 1, da_sessions = owned\<rparr>,
                   db2\<lparr>in_devices := update_keyed (\<lambda>k v. k = d) (\<lambda>v. v\<lparr>dv_authenticatedAt := Some now\<rparr>) (in_devices db2)\<rparr>))))"

definition authorize_device :: "inbox_config \<Rightarrow> bool \<Rightarrow> millis \<Rightarrow> millis \<Rightarrow> device_claims \<Rightarrow> device_authorization option itx" where
  "authorize_device X retiring js now c = (case c of
       Claims_V2 d g expires \<Rightarrow> authorize_v2 retiring now d g expires
     | Legacy_Claims d sessions \<Rightarrow> authorize_legacy X js now d sessions)"

section \<open>Revocation and cleanup\<close>

definition revoke_device :: "millis \<Rightarrow> string \<Rightarrow> nat \<Rightarrow> bool itx" where
  "revoke_device now d g db =
     (let revocable = (case map_of (in_devices db) d of None \<Rightarrow> False | Some v \<Rightarrow> dv_generation v = g \<and> dv_revokedAt v = None) in
      if \<not> revocable then Inr (False, db)
      else tx_bind (tx_modify (\<lambda>db. db\<lparr>in_devices := update_keyed (\<lambda>k v. k = d) (\<lambda>v. v\<lparr>dv_revokedAt := Some now\<rparr>) (in_devices db)\<rparr>)) (\<lambda>_.
           tx_bind (release_leases d []) (\<lambda>_. tx_return True)) db)"

text \<open>Rows of an inactive device; a lease or an owner of a device that is not there is not joined.\<close>

definition outdated :: "millis \<Rightarrow> inbox_db \<Rightarrow> string \<Rightarrow> nat \<Rightarrow> bool" where
  "outdated now db d g = (case map_of (in_devices db) d of None \<Rightarrow> False
     | Some v \<Rightarrow> dv_revokedAt v \<noteq> None \<or> dv_expiresAt v \<le> now \<or> g \<noteq> dv_generation v)"

text \<open>\<open>ON DELETE CASCADE\<close> of the connectors, their sessions and heartbeats, the bindings and their history (migration 011).\<close>

definition delete_devices :: "string set \<Rightarrow> inbox_db \<Rightarrow> inbox_db" where
  "delete_devices D db =
     (let gone = fst ` set (filter (\<lambda>(c, r). ic_device r \<in> D) (in_connectors db)) in
      db\<lparr>in_devices := filter (\<lambda>(d, v). d \<notin> D) (in_devices db),
         in_connectors := filter (\<lambda>(c, r). c \<notin> gone) (in_connectors db),
         in_scopes := filter (\<lambda>(c, s). c \<notin> gone) (in_scopes db),
         in_heartbeats := filter (\<lambda>((c, s), h). c \<notin> gone) (in_heartbeats db),
         in_bindings := filter (\<lambda>(s, b). ib_device b \<notin> D \<and> ib_connector b \<notin> gone) (in_bindings db),
         in_history := filter (\<lambda>(k, b). ib_device b \<notin> D \<and> ib_connector b \<notin> gone) (in_history db)\<rparr>)"

definition cleanup_inactive :: "inbox_config \<Rightarrow> millis \<Rightarrow> millis \<Rightarrow> (nat \<times> nat) itx" where
  "cleanup_inactive X js now db =
     (if (case xc_acceptUntil X of None \<Rightarrow> False | Some t \<Rightarrow> js < t) then Inr ((0, 0), db)
      else (let db1 = db\<lparr>in_events := update_where (\<lambda>e. case ie_lease e of None \<Rightarrow> False
                  | Some l \<Rightarrow> outdated now db (il_owner l) (il_generation l)) unlease (in_events db)\<rparr>;
                fences = filter (\<lambda>(s, o'). outdated now db (so_device o') (so_generation o')) (in_owners db);
                db2 = db1\<lparr>in_owners := filter (\<lambda>(s, o'). \<not> outdated now db (so_device o') (so_generation o')) (in_owners db)\<rparr>;
                gone = map fst (filter (\<lambda>(d, v). dv_expiresAt v \<le> now
                  \<and> \<not> list_ex (\<lambda>(s, o'). so_device o' = d) (in_owners db2)) (in_devices db2))
            in Inr ((length fences, length gone), delete_devices (set gone) db2)))"

section \<open>Device tokens\<close>

text \<open>\<open>dc_encode\<close> is the base64url text of a value's JSON, \<open>dc_decode\<close> the value read back, \<open>dc_date\<close> is \<open>Date.parse\<close>,
  \<open>dc_iso\<close> is \<open>toISOString\<close>, \<open>dc_datetime\<close> and \<open>dc_uuid\<close> the schemas of \<open>zod\<close>.\<close>

record device_codec =
  dc_sign :: "string \<Rightarrow> string"
  dc_encode :: "js_value \<Rightarrow> string"
  dc_decode :: "string \<Rightarrow> js_value option"
  dc_date :: "string \<Rightarrow> js_date"
  dc_iso :: "millis \<Rightarrow> string"
  dc_datetime :: "string \<Rightarrow> bool"
  dc_uuid :: "string \<Rightarrow> bool"

record device_claims_v2 =
  dt_device :: string
  dt_generation :: nat
  dt_issuedAt :: string
  dt_expiresAt :: string

definition device_claims_value :: "device_claims_v2 \<Rightarrow> js_value" where
  "device_claims_value c = JObject [(''version'', JNumber 2), (''deviceId'', JString (dt_device c)),
     (''tokenGeneration'', JNumber (of_nat (dt_generation c))), (''issuedAt'', JString (dt_issuedAt c)),
     (''expiresAt'', JString (dt_expiresAt c))]"

definition issue_device_token :: "device_codec \<Rightarrow> string \<Rightarrow> nat \<Rightarrow> millis \<Rightarrow> millis \<Rightarrow> string" where
  "issue_device_token K d g issued expires =
     (let payload = dc_encode K (device_claims_value \<lparr>dt_device = d, dt_generation = g, dt_issuedAt = dc_iso K issued,
            dt_expiresAt = dc_iso K expires\<rparr>)
      in join_with ''.'' [''v2'', payload, dc_sign K (''device-token:v2:'' @ payload)])"

definition parse_device_claims :: "device_codec \<Rightarrow> js_value \<Rightarrow> device_claims_v2 option" where
  "parse_device_claims K v =
     (case (js_field v ''version'', js_field v ''deviceId'', js_field v ''tokenGeneration'', js_field v ''issuedAt'',
        js_field v ''expiresAt'') of
        (JNumber n, JString d, JNumber g, JString i, JString e) \<Rightarrow>
          if n = 2 \<and> dc_uuid K d \<and> is_safe_integer g \<and> 0 < g \<and> dc_datetime K i \<and> dc_datetime K e
          then Some \<lparr>dt_device = d, dt_generation = nat \<lfloor>g\<rfloor>, dt_issuedAt = i, dt_expiresAt = e\<rparr> else None
      | _ \<Rightarrow> None)"

text \<open>A comparison with \<open>NaN\<close> is false, so an invalid date is not refused by the comparisons; the schema refuses it.\<close>

definition date_le :: "js_date \<Rightarrow> js_date \<Rightarrow> bool" where
  "date_le a b = (case (a, b) of (Some x, Some y) \<Rightarrow> x \<le> y | _ \<Rightarrow> False)"

definition authenticate_v2 :: "device_codec \<Rightarrow> millis \<Rightarrow> string \<Rightarrow> device_claims_v2 option" where
  "authenticate_v2 K js supplied =
     (case split_on CHR ''.'' supplied of
        prefix # payload # signature # rest \<Rightarrow>
          if prefix \<noteq> ''v2'' \<or> payload = [] \<or> signature = [] \<or> (case rest of [] \<Rightarrow> False | x # _ \<Rightarrow> x \<noteq> [])
             \<or> signature \<noteq> dc_sign K (''device-token:v2:'' @ payload)
          then None
          else (case Option.bind (dc_decode K payload) (parse_device_claims K) of
             None \<Rightarrow> None
           | Some c \<Rightarrow>
               let i = dc_date K (dt_issuedAt c); e = dc_date K (dt_expiresAt c) in
               if date_le e (Some js) \<or> date_le (Some (js + 60001)) i \<or> date_le e i then None else Some c)
      | _ \<Rightarrow> None)"

definition bearer :: "string option \<Rightarrow> string option" where
  "bearer authorization = (case authorization of None \<Rightarrow> None
     | Some a \<Rightarrow> if starts_with ''Bearer '' a then Some (drop 7 a) else None)"

definition legacy_claims :: "device_codec \<Rightarrow> js_value \<Rightarrow> (string \<times> string list) option" where
  "legacy_claims K v =
     (case (js_field v ''version'', js_field v ''deviceId'', js_field v ''sessionIds'') of
        (JNumber n, JString d, JArray xs) \<Rightarrow>
          if n = 1 \<and> dc_uuid K d \<and> 1 \<le> length xs \<and> length xs \<le> 1000
             \<and> list_all (\<lambda>x. case x of JString s \<Rightarrow> dc_uuid K s | _ \<Rightarrow> False) xs
          then Some (d, map (\<lambda>x. case x of JString s \<Rightarrow> s | _ \<Rightarrow> []) xs) else None
      | _ \<Rightarrow> None)"

definition authenticate_legacy :: "device_codec \<Rightarrow> inbox_config \<Rightarrow> millis \<Rightarrow> string \<Rightarrow> (string \<times> string list) option" where
  "authenticate_legacy K X js supplied =
     (if (case xc_acceptUntil X of None \<Rightarrow> True | Some t \<Rightarrow> t \<le> js) then None
      else (case split_on CHR ''.'' supplied of
        payload # signature # rest \<Rightarrow>
          if payload = [] \<or> signature = [] \<or> (case rest of [] \<Rightarrow> False | x # _ \<Rightarrow> x \<noteq> [])
             \<or> signature \<noteq> dc_sign K (''device-token:v1:'' @ payload)
          then None else Option.bind (dc_decode K payload) (legacy_claims K)
      | _ \<Rightarrow> None))"

definition authenticate_device :: "device_codec \<Rightarrow> inbox_config \<Rightarrow> millis \<Rightarrow> string option \<Rightarrow> device_claims option" where
  "authenticate_device K X js authorization =
     (case bearer authorization of
        None \<Rightarrow> None
      | Some supplied \<Rightarrow>
          if supplied = [] \<or> 4096 < length supplied then None
          else if starts_with ''v2.'' supplied
          then (case authenticate_v2 K js supplied of None \<Rightarrow> None
             | Some c \<Rightarrow> (case dc_date K (dt_expiresAt c) of None \<Rightarrow> None | Some t \<Rightarrow> Some (Claims_V2 (dt_device c) (dt_generation c) t)))
          else map_option (\<lambda>(d, ss). Legacy_Claims d ss) (authenticate_legacy K X js supplied))"

end
