(* ===== verification/Inbox_Connectors.thy ===== *)
theory Inbox_Connectors
  imports Inbox_Devices Connector_Protocol
begin

text \<open>
  \<open>EventInboxConnectorRepository\<close> (\<open>event-inbox-connector.repository.ts\<close>): the credentials of connector plugins, the
  binding of a session to a webhook with its generations, heartbeats, and the authorization of a delivery; and the
  admission of a connector's event (\<open>event-inbox-connector.controller.ts\<close>). Hashes are arguments.
\<close>

section \<open>Checks\<close>

definition assert_session_subset :: "string list \<Rightarrow> string list \<Rightarrow> unit itx" where
  "assert_session_subset allowed requested =
     (if \<not> distinct requested \<or> \<not> list_all (\<lambda>s. s \<in> set allowed) requested
      then tx_throw (Inbox_Unauthorized ''Connector session scope is invalid'') else tx_return ())"

definition assert_device_owns :: "string \<Rightarrow> nat \<Rightarrow> string list \<Rightarrow> unit itx" where
  "assert_device_owns d g sessions = (\<lambda>db.
     if list_all (owns db d g) sessions then Inr ((), db)
     else Inl (Inbox_Unauthorized ''Connector sessions are not owned by this device''))"

definition connector_active :: "inbox_db \<Rightarrow> string \<Rightarrow> string \<Rightarrow> bool" where
  "connector_active db d c = (case map_of (in_connectors db) c of None \<Rightarrow> False
     | Some r \<Rightarrow> ic_device r = d \<and> ic_revokedAt r = None)"

definition assert_no_overlap :: "string \<Rightarrow> (string \<Rightarrow> bool) \<Rightarrow> string list \<Rightarrow> unit itx" where
  "assert_no_overlap d other sessions = (\<lambda>db.
     if list_ex (\<lambda>(c, s). other c \<and> s \<in> set sessions \<and> connector_active db d c) (in_scopes db)
     then Inl (Inbox_Conflict ''An active connector already owns this session'') else Inr ((), db))"

section \<open>Credentials\<close>

definition encode_connector_token :: "string \<Rightarrow> nat \<Rightarrow> string \<Rightarrow> string" where
  "encode_connector_token c g secret = join_with ''.'' [''wac1'', c, text_of_int (int g), secret]"

definition uuid_v4 :: "string \<Rightarrow> bool" where
  "uuid_v4 s = matches (uuid_pattern ((=) CHR ''4'')) s"

definition secret_char :: "char \<Rightarrow> bool" where
  "secret_char c \<longleftrightarrow> is_letter c \<or> is_digit c \<or> c = CHR ''_'' \<or> c = CHR ''-''"

record connector_token =
  kt_connector :: string
  kt_generation :: int
  kt_secret :: string

text \<open>\<open>Number\<close> of digits that exceed the safe integers is no safe integer, whatever it is rounded to.\<close>

definition decode_connector_token :: "string option \<Rightarrow> connector_token option" where
  "decode_connector_token authorization =
     (case bearer authorization of
        None \<Rightarrow> None
      | Some supplied \<Rightarrow>
          if supplied = [] \<or> 4096 < length supplied then None
          else (case split_on CHR ''.'' supplied of
            prefix # c # generation # secret # rest \<Rightarrow>
              if prefix \<noteq> ''wac1'' \<or> generation = [] \<or> (case rest of [] \<Rightarrow> False | x # _ \<Rightarrow> x \<noteq> [])
                 \<or> \<not> uuid_v4 c \<or> \<not> list_all is_digit generation \<or> length secret \<noteq> 43 \<or> \<not> list_all secret_char secret
              then None
              else (let g = nat_of_digits generation in
                if \<not> safe_int g \<or> g < 1 then None
                else Some \<lparr>kt_connector = c, kt_generation = g, kt_secret = secret\<rparr>)
          | _ \<Rightarrow> None))"

record connector_credential =
  cc_connector :: string
  cc_token :: string
  cc_sessions :: "string list"

text \<open>\<open>tokenHash\<close> is the server's HMAC of a secret (version 1), \<open>sha\<close> the SHA-256 of one (version 2).\<close>

record connector_hashes =
  kh_token :: "string \<Rightarrow> string"
  kh_sha :: "string \<Rightarrow> string"

definition insert_connector :: "string \<Rightarrow> inbox_connector \<Rightarrow> string list \<Rightarrow> unit itx" where
  "insert_connector c r sessions = tx_modify (\<lambda>db. db\<lparr>in_connectors := in_connectors db @ [(c, r)],
     in_scopes := in_scopes db @ map (\<lambda>s. (c, s)) sessions\<rparr>)"

definition provision :: "connector_hashes \<Rightarrow> string \<Rightarrow> string \<Rightarrow> device_authorization \<Rightarrow> string list \<Rightarrow> connector_credential itx" where
  "provision K c secret device sessions =
     tx_bind (assert_session_subset (da_sessions device) sessions) (\<lambda>_.
     tx_bind (assert_device_owns (da_device device) (da_generation device) sessions) (\<lambda>_.
     tx_bind (assert_no_overlap (da_device device) (\<lambda>_. True) sessions) (\<lambda>_.
     tx_bind (insert_connector c \<lparr>ic_device = da_device device, ic_generation = 1, ic_hash = kh_token K secret,
       ic_hashVersion = 1, ic_revokedAt = None, ic_authenticatedAt = None\<rparr> sessions) (\<lambda>_.
     tx_return \<lparr>cc_connector = c, cc_token = encode_connector_token c 1 secret, cc_sessions = sessions\<rparr>))))"

definition scope_of :: "inbox_db \<Rightarrow> string \<Rightarrow> string list" where
  "scope_of db c = sort (map snd (filter (\<lambda>(c', s). c' = c) (in_scopes db)))"

datatype prepared_outcome = Prepared_Created | Prepared_Unchanged | Prepared_Rotated

definition update_connector :: "string \<Rightarrow> (inbox_connector \<Rightarrow> inbox_connector) \<Rightarrow> unit itx" where
  "update_connector c f = tx_modify (\<lambda>db. db\<lparr>in_connectors := update_keyed (\<lambda>k r. k = c) f (in_connectors db)\<rparr>)"

definition put_prepared_credential ::
  "device_authorization \<Rightarrow> string \<Rightarrow> nat \<Rightarrow> string \<Rightarrow> string list \<Rightarrow> prepared_outcome itx" where
  "put_prepared_credential device c g verifier sessions =
     tx_bind (assert_session_subset (da_sessions device) sessions) (\<lambda>_.
     tx_bind (assert_device_owns (da_device device) (da_generation device) sessions) (\<lambda>_ db.
     case map_of (in_connectors db) c of
       None \<Rightarrow>
         if g \<noteq> 1 then Inl (Inbox_Conflict ''A new prepared connector credential must start at generation 1'')
         else tx_bind (assert_no_overlap (da_device device) (\<lambda>k. k \<noteq> c) sessions) (\<lambda>_.
              tx_bind (insert_connector c \<lparr>ic_device = da_device device, ic_generation = g, ic_hash = verifier,
                ic_hashVersion = 2, ic_revokedAt = None, ic_authenticatedAt = None\<rparr> sessions) (\<lambda>_.
              tx_return Prepared_Created)) db
     | Some r \<Rightarrow>
         if ic_device r \<noteq> da_device device then Inl (Inbox_Unauthorized ''Connector is not owned by this device'')
         else if scope_of db c \<noteq> sort sessions
         then Inl (Inbox_Conflict ''Prepared connector credential cannot change connector scope'')
         else if g = ic_generation r
         then (if ic_revokedAt r \<noteq> None \<or> ic_hashVersion r \<noteq> 2 \<or> ic_hash r \<noteq> verifier
               then Inl (Inbox_Conflict ''Prepared connector credential conflicts with its generation'')
               else Inr (Prepared_Unchanged, db))
         else if g \<noteq> ic_generation r + 1
         then Inl (Inbox_Conflict ''Prepared connector credential generation is not the next generation'')
         else tx_bind (assert_no_overlap (da_device device) (\<lambda>k. k \<noteq> c) sessions) (\<lambda>_.
              tx_bind (update_connector c (\<lambda>r. r\<lparr>ic_generation := g, ic_hash := verifier, ic_hashVersion := 2,
                ic_revokedAt := None\<rparr>)) (\<lambda>_.
              tx_return Prepared_Rotated)) db))"

definition rotate_connector ::
  "connector_hashes \<Rightarrow> string \<Rightarrow> device_authorization \<Rightarrow> string \<Rightarrow> connector_credential option itx" where
  "rotate_connector K secret device c db =
     (case map_of (in_connectors db) c of
        None \<Rightarrow> Inr (None, db)
      | Some r \<Rightarrow>
          if ic_device r \<noteq> da_device device
             \<or> list_ex (\<lambda>(c', s). c' = c \<and> \<not> owns db (ic_device r) (da_generation device) s) (in_scopes db)
          then Inr (None, db)
          else (let g = ic_generation r + 1 in
            tx_bind (update_connector c (\<lambda>r. r\<lparr>ic_generation := g, ic_hash := kh_token K secret, ic_hashVersion := 1,
              ic_revokedAt := None\<rparr>)) (\<lambda>_.
            tx_return (Some \<lparr>cc_connector = c, cc_token = encode_connector_token c g secret, cc_sessions = scope_of db c\<rparr>)) db))"

definition revoke_connector :: "millis \<Rightarrow> device_authorization \<Rightarrow> string \<Rightarrow> bool itx" where
  "revoke_connector now device c db =
     (if connector_active db (da_device device) c
      then tx_bind (update_connector c (\<lambda>r. r\<lparr>ic_revokedAt := Some now\<rparr>)) (\<lambda>_. tx_return True) db
      else Inr (False, db))"

record connector_authorization =
  ka_connector :: string
  ka_device :: string
  ka_generation :: int
  ka_sessions :: "string list"

definition authenticate_connector :: "connector_hashes \<Rightarrow> millis \<Rightarrow> string option \<Rightarrow> connector_authorization itx" where
  "authenticate_connector K now authorization db =
     (let refused = Inl (Inbox_Unauthorized ''Invalid Event Inbox connector token'') in
      case decode_connector_token authorization of
        None \<Rightarrow> refused
      | Some t \<Rightarrow>
          (case map_of (in_connectors db) (kt_connector t) of
             None \<Rightarrow> refused
           | Some r \<Rightarrow>
               if int (ic_generation r) \<noteq> kt_generation t \<or> ic_revokedAt r \<noteq> None
                  \<or> ic_hash r \<noteq> (if ic_hashVersion r = 2 then kh_sha K (kt_secret t) else kh_token K (kt_secret t))
               then refused
               else (let sessions = filter (\<lambda>s. case map_of (in_owners db) s of None \<Rightarrow> False
                        | Some o' \<Rightarrow> so_device o' = ic_device r \<and> device_current now db (so_device o') (so_generation o'))
                        (scope_of db (kt_connector t)) in
                 if sessions = [] then refused
                 else tx_bind (tx_modify (\<lambda>db. db\<lparr>in_connectors := update_keyed (\<lambda>k r. k = kt_connector t
                          \<and> (case ic_authenticatedAt r of None \<Rightarrow> True | Some a \<Rightarrow> a < now - 300000))
                        (\<lambda>r. r\<lparr>ic_authenticatedAt := Some now\<rparr>) (in_connectors db)\<rparr>)) (\<lambda>_.
                   tx_return \<lparr>ka_connector = kt_connector t, ka_device = ic_device r, ka_generation = kt_generation t,
                     ka_sessions = sessions\<rparr>) db)))"

section \<open>Bindings\<close>

definition binding_for :: "millis \<Rightarrow> string \<Rightarrow> string \<Rightarrow> string \<Rightarrow> nat \<Rightarrow> inbox_binding" where
  "binding_for now d c w g = \<lparr>ib_device = d, ib_connector = c, ib_webhook = w, ib_generation = g, ib_updatedAt = now\<rparr>"

definition same_binding :: "inbox_binding \<Rightarrow> inbox_binding \<Rightarrow> bool" where
  "same_binding a b \<longleftrightarrow> ib_device a = ib_device b \<and> ib_connector a = ib_connector b \<and> ib_webhook a = ib_webhook b"

text \<open>The upsert of the binding: the row it leaves, or none when its \<open>WHERE\<close> fails.\<close>

definition upsert_binding :: "inbox_binding \<Rightarrow> inbox_binding option \<Rightarrow> inbox_binding option" where
  "upsert_binding new old =
     (case old of
        None \<Rightarrow> Some new
      | Some b \<Rightarrow>
          if ib_device b \<noteq> ib_device new then None
          else if ib_generation b < ib_generation new then Some new
          else if ib_generation b = ib_generation new \<and> same_binding b new then Some b
          else None)"

definition record_history :: "string \<Rightarrow> inbox_binding \<Rightarrow> unit itx" where
  "record_history s b db =
     (case map_of (in_history db) (s, ib_generation b) of
        None \<Rightarrow> Inr ((), db\<lparr>in_history := in_history db @ [((s, ib_generation b), b)]\<rparr>)
      | Some h \<Rightarrow> if same_binding h b then Inr ((), db)
          else Inl (Inbox_Conflict ''Connector binding generation conflicts with retained history''))"

definition set_binding ::
  "millis \<Rightarrow> device_authorization \<Rightarrow> string \<Rightarrow> string \<Rightarrow> string \<Rightarrow> nat \<Rightarrow> inbox_binding itx" where
  "set_binding now device s c w g =
     (if s \<notin> set (da_sessions device) then tx_throw (Inbox_Unauthorized ''Session is not owned by this device'')
      else tx_bind (assert_device_owns (da_device device) (da_generation device) [s]) (\<lambda>_ db.
        let new = binding_for now (da_device device) c w g in
        case (if connector_active db (da_device device) c \<and> (c, s) \<in> set (in_scopes db)
              then upsert_binding new (map_of (in_bindings db) s) else None) of
          None \<Rightarrow> Inl (Inbox_Conflict ''Connector binding generation is stale or conflicts with an existing binding'')
        | Some b \<Rightarrow>
            tx_bind (tx_modify (\<lambda>db. db\<lparr>in_bindings := AList.update s b (in_bindings db)\<rparr>)) (\<lambda>_.
            tx_bind (record_history s new) (\<lambda>_. tx_return b)) db))"

section \<open>Heartbeats and deliveries\<close>

record heartbeat_report =
  hr_pluginVersion :: string
  hr_protocol :: nat
  hr_schema :: nat
  hr_sessions :: "session_report list"

definition connector_bindings :: "inbox_db \<Rightarrow> connector_authorization \<Rightarrow> (string \<times> inbox_binding) list" where
  "connector_bindings db k = sort_key fst (filter (\<lambda>(s, b). (ka_connector k, s) \<in> set (in_scopes db)
     \<and> ib_device b = ka_device k \<and> ib_connector b = ka_connector k) (in_bindings db))"

definition record_heartbeat ::
  "millis \<Rightarrow> connector_authorization \<Rightarrow> heartbeat_report \<Rightarrow> (string \<times> inbox_binding) list itx" where
  "record_heartbeat now k h =
     tx_bind (assert_session_subset (ka_sessions k) (map sr_sessionId (hr_sessions h))) (\<lambda>_ db.
     let db' = db\<lparr>in_heartbeats := foldl (\<lambda>hs r. AList.update (ka_connector k, sr_sessionId r)
            \<lparr>hb_generation = nat (ka_generation k), hb_pluginVersion = hr_pluginVersion h, hb_protocol = hr_protocol h,
             hb_schema = hr_schema h, hb_report = r, hb_observedAt = now\<rparr> hs) (in_heartbeats db)
            (filter (\<lambda>r. (ka_connector k, sr_sessionId r) \<in> set (in_scopes db)) (hr_sessions h))\<rparr>
     in Inr (connector_bindings db' k, db'))"

definition authorize_delivery :: "connector_authorization \<Rightarrow> string \<Rightarrow> nat \<Rightarrow> string \<Rightarrow> string \<Rightarrow> inbox_db \<Rightarrow> bool" where
  "authorize_delivery k s g delivery key db \<longleftrightarrow> s \<in> set (ka_sessions k)
     \<and> (case map_of (in_history db) (s, g) of None \<Rightarrow> False
        | Some b \<Rightarrow> ib_device b = ka_device k \<and> ib_connector b = ka_connector k \<and> ib_webhook b \<noteq> []
            \<and> key = delivery @ ''_'' @ ib_webhook b)"

section \<open>Admission of a connector's event\<close>

text \<open>\<open>receiveEvent\<close> of an envelope the schema accepts: \<open>decode_evidence\<close> is the schema of the data of an evidence,
  \<open>body\<close> and \<open>sign\<close> the JSON text of the envelope and its signature.\<close>

definition evidence_matches :: "inbox_envelope \<Rightarrow> evidence \<Rightarrow> bool" where
  "evidence_matches env ev \<longleftrightarrow> ev_sessionId ev = ne_sessionId env \<and> ne_deliveryId env = ev_eventId ev
     \<and> starts_with (ev_eventId ev @ ''_'') (ne_key env)"

datatype event_answer = Event_Accepted bool | Event_Invalid | Event_Conflict | Event_No_Capacity

definition receive_event ::
  "(string \<Rightarrow> string) \<Rightarrow> inbox_config \<Rightarrow> millis \<Rightarrow> connector_authorization \<Rightarrow> nat \<Rightarrow> inbox_envelope \<Rightarrow> evidence option
     \<Rightarrow> string \<Rightarrow> string \<Rightarrow> event_answer itx" where
  "receive_event H X now k g env ev body sig db =
     (let is_evidence = ne_event env = ''wa-studio.connector.evidence'' in
      if is_evidence \<and> ev = None then Inr (Event_Invalid, db)
      else if is_evidence \<and> \<not> evidence_matches env (the ev) then Inr (Event_Conflict, db)
      else if \<not> authorize_delivery k (ne_sessionId env) g (ne_deliveryId env) (ne_key env) db then Inr (Event_Conflict, db)
      else tx_bind (insert_event H X now body sig env) (\<lambda>r. tx_return (case r of
          Conflict \<Rightarrow> Event_Conflict | Capacity \<Rightarrow> Event_No_Capacity | Duplicate \<Rightarrow> Event_Accepted True
        | Created \<Rightarrow> Event_Accepted False)) db)"

section \<open>The status of the connectors\<close>

text \<open>The latest heartbeat of a session from an active connector of its owner, and of the bound one when there is one.\<close>

definition latest_heartbeat :: "inbox_db \<Rightarrow> string \<Rightarrow> string \<Rightarrow> inbox_binding option \<Rightarrow> (string \<times> inbox_heartbeat) option" where
  "latest_heartbeat db d s b =
     (case sort_key (\<lambda>(c, h). (- hb_observedAt h, c)) (map (\<lambda>((c, s'), h). (c, h)) (filter (\<lambda>((c, s'), h). s' = s
          \<and> connector_active db d c \<and> (case b of None \<Rightarrow> True | Some x \<Rightarrow> c = ib_connector x)) (in_heartbeats db))) of
        [] \<Rightarrow> None | x # _ \<Rightarrow> Some x)"

record session_status =
  ss_session :: string
  ss_binding :: "inbox_binding option"
  ss_connector :: "(string \<times> inbox_heartbeat) option"

definition status_of :: "inbox_db \<Rightarrow> device_authorization \<Rightarrow> string \<Rightarrow> session_status" where
  "status_of db device s =
     (let b = (case map_of (in_bindings db) s of None \<Rightarrow> None
            | Some b \<Rightarrow> if ib_device b = da_device device then Some b else None)
      in \<lparr>ss_session = s, ss_binding = b, ss_connector = latest_heartbeat db (da_device device) s b\<rparr>)"

definition connector_status :: "inbox_db \<Rightarrow> device_authorization \<Rightarrow> session_status list" where
  "connector_status db device = map (status_of db device)
     (filter (\<lambda>s. s \<in> set (da_sessions device)) (owned_sessions db (da_device device) (da_generation device)))"

end
