(* ===== verification/Inbox_System.thy ===== *)
theory Inbox_System
  imports Inbox_Connectors
begin

text \<open>
  The Event Inbox as a system of transactions: every operation of its repositories is a step. \<open>inbox_parts\<close> collects what
  an invariant of the queue needs: it may read the events, the receipts and the usage row, and the operations that write
  them keep it when they are allowed; every step then keeps it (\<open>inbox_keeps\<close>). \<open>inbox_queue\<close> is the contract of an
  invariant that does not read leases.
\<close>

datatype inbox_op =
    Insert_Event millis string string inbox_envelope
  | Receive_Event millis connector_authorization nat inbox_envelope "evidence option" string string
  | Claim_Events millis string string nat "string list" nat "nat option"
  | Acknowledge millis string nat "receipt_handle list"
  | Refuse millis string nat "nack_item list"
  | Remove_Expired millis nat
  | Remove_Expired_Receipts millis nat
  | Consume_Pairing "string \<Rightarrow> string" pair_limits millis millis string
  | Remove_Rate_Limits millis nat
  | Pair_Device millis millis string "string list"
  | Authorize_Device bool millis millis device_claims
  | Revoke_Device millis string nat
  | Cleanup_Inactive millis millis
  | Provision string string device_authorization "string list"
  | Put_Prepared device_authorization string nat string "string list"
  | Rotate_Connector string device_authorization string
  | Revoke_Connector millis device_authorization string
  | Authenticate_Connector millis "string option"
  | Set_Binding millis device_authorization string string string nat
  | Record_Heartbeat millis connector_authorization heartbeat_report

record inbox_env =
  xe_hash :: "string \<Rightarrow> string"
  xe_connector :: connector_hashes
  xe_config :: inbox_config

definition run_itx :: "'a itx \<Rightarrow> inbox_db \<Rightarrow> inbox_db" where
  "run_itx m db = snd (transaction m db)"

fun inbox_step :: "inbox_env \<Rightarrow> inbox_op \<Rightarrow> inbox_db \<Rightarrow> inbox_db" where
  "inbox_step E (Insert_Event now body sig env) = run_itx (insert_event (xe_hash E) (xe_config E) now body sig env)"
| "inbox_step E (Receive_Event now k g env ev body sig) =
     run_itx (receive_event (xe_hash E) (xe_config E) now k g env ev body sig)"
| "inbox_step E (Claim_Events now lease d g sessions n through) =
     run_itx (claim_events (xe_config E) now lease d g sessions n through)"
| "inbox_step E (Acknowledge now d g hs) = run_itx (acknowledge (xe_hash E) (xe_config E) now d g hs)"
| "inbox_step E (Refuse now d g is) = run_itx (negatively_acknowledge (xe_config E) now d g is)"
| "inbox_step E (Remove_Expired now n) = run_itx (remove_expired now n)"
| "inbox_step E (Remove_Expired_Receipts now n) = run_itx (remove_expired_receipts now n)"
| "inbox_step E (Consume_Pairing hash L now now' ip) = run_itx (consume_pairing hash L now now' ip)"
| "inbox_step E (Remove_Rate_Limits now n) = run_itx (remove_expired_rate_limits now n)"
| "inbox_step E (Pair_Device js now d sessions) = run_itx (pair_device (xe_config E) js now d sessions)"
| "inbox_step E (Authorize_Device retiring js now c) = run_itx (authorize_device (xe_config E) retiring js now c)"
| "inbox_step E (Revoke_Device now d g) = run_itx (revoke_device now d g)"
| "inbox_step E (Cleanup_Inactive js now) = run_itx (cleanup_inactive (xe_config E) js now)"
| "inbox_step E (Provision c secret device sessions) = run_itx (provision (xe_connector E) c secret device sessions)"
| "inbox_step E (Put_Prepared device c g verifier sessions) = run_itx (put_prepared_credential device c g verifier sessions)"
| "inbox_step E (Rotate_Connector secret device c) = run_itx (rotate_connector (xe_connector E) secret device c)"
| "inbox_step E (Revoke_Connector now device c) = run_itx (revoke_connector now device c)"
| "inbox_step E (Authenticate_Connector now authorization) =
     run_itx (authenticate_connector (xe_connector E) now authorization)"
| "inbox_step E (Set_Binding now device s c w g) = run_itx (set_binding now device s c w g)"
| "inbox_step E (Record_Heartbeat now k h) = run_itx (record_heartbeat now k h)"

text \<open>The database's clock at a step that writes or reads the queue.\<close>

fun queue_time :: "inbox_op \<Rightarrow> millis option" where
  "queue_time (Insert_Event now body sig env) = Some now"
| "queue_time (Receive_Event now k g env ev body sig) = Some now"
| "queue_time (Claim_Events now lease d g sessions n through) = Some now"
| "queue_time (Acknowledge now d g hs) = Some now"
| "queue_time (Refuse now d g is) = Some now"
| "queue_time (Remove_Expired now n) = Some now"
| "queue_time (Remove_Expired_Receipts now n) = Some now"
| "queue_time _ = None"

text \<open>What an update of leases leaves of an event, and of the queue.\<close>

definition stored_event :: "inbox_event \<Rightarrow> inbox_event" where
  "stored_event e = e\<lparr>ie_lease := None, ie_attempts := 0, ie_availableAt := 0, ie_deadAt := None, ie_deadReason := None\<rparr>"

definition same_queue :: "inbox_db \<Rightarrow> inbox_db \<Rightarrow> bool" where
  "same_queue db db' \<longleftrightarrow> map stored_event (in_events db') = map stored_event (in_events db)
     \<and> in_receipts db' = in_receipts db \<and> in_usage db' = in_usage db"

definition untouched_queue :: "inbox_db \<Rightarrow> inbox_db \<Rightarrow> bool" where
  "untouched_queue db db' \<longleftrightarrow> in_events db' = in_events db \<and> in_receipts db' = in_receipts db \<and> in_usage db' = in_usage db"

lemma same_queueI: "untouched_queue db db' \<Longrightarrow> same_queue db db'"
  by (simp add: untouched_queue_def same_queue_def)

lemma same_queue_trans: "same_queue a b \<Longrightarrow> same_queue b c \<Longrightarrow> same_queue a c"
  by (simp add: same_queue_def)

lemma same_queue_update:
  "(\<And>e. P e \<Longrightarrow> stored_event (f e) = stored_event e) \<Longrightarrow> same_queue db (db\<lparr>in_events := update_where P f (in_events db)\<rparr>)"
  by (simp add: same_queue_def update_where_def)

lemma stored_unlease [simp]: "stored_event (unlease e) = stored_event e"
  by (simp add: stored_event_def unlease_def)

lemma stored_lease [simp]: "stored_event (lease_event X now l d g e) = stored_event e"
  by (simp add: stored_event_def lease_event_def)

lemma stored_nack [simp]: "stored_event (nack_event X now i e) = stored_event e"
  by (simp add: stored_event_def nack_event_def unlease_def)

locale inbox_parts =
  fixes I :: "inbox_db \<Rightarrow> bool" and E :: inbox_env and may :: "inbox_op \<Rightarrow> bool"
  assumes untouched: "I db \<Longrightarrow> untouched_queue db db' \<Longrightarrow> I db'"
    and may_receive: "may (Receive_Event now k g env ev body sig) \<Longrightarrow> may (Insert_Event now body sig env)"
    and insert: "may (Insert_Event now body sig env) \<Longrightarrow> tx_keeps I (insert_event (xe_hash E) (xe_config E) now body sig env)"
    and claim: "may (Claim_Events now l d g ss n w) \<Longrightarrow> tx_keeps I (claim_events (xe_config E) now l d g ss n w)"
    and ack: "may (Acknowledge now d g hs) \<Longrightarrow> tx_keeps I (acknowledge (xe_hash E) (xe_config E) now d g hs)"
    and refuse: "may (Refuse now d g is) \<Longrightarrow> tx_keeps I (negatively_acknowledge (xe_config E) now d g is)"
    and expire: "may (Remove_Expired now n) \<Longrightarrow> tx_keeps I (remove_expired now n)"
    and expire_receipts: "may (Remove_Expired_Receipts now n) \<Longrightarrow> tx_keeps I (remove_expired_receipts now n)"
    and pair: "may (Pair_Device js now d ss) \<Longrightarrow> tx_keeps I (release_leases d ss)"
    and revoke: "may (Revoke_Device now d g) \<Longrightarrow> tx_keeps I (release_leases d [])"
    and cleanup: "may (Cleanup_Inactive js now) \<Longrightarrow> I db \<Longrightarrow> I (db\<lparr>in_events := update_where (\<lambda>e. case ie_lease e of
      None \<Rightarrow> False | Some l \<Rightarrow> outdated now db (il_owner l) (il_generation l)) unlease (in_events db)\<rparr>)"
begin

lemma keeps_untouched: "(\<And>db x db'. m db = Inr (x, db') \<Longrightarrow> untouched_queue db db') \<Longrightarrow> tx_keeps I m"
  unfolding tx_keeps_def by (blast intro: untouched)

lemma keeps_modify: "(\<And>db. untouched_queue db (f db)) \<Longrightarrow> tx_keeps I (tx_modify f)"
  by (auto intro!: tx_rules intro: untouched)

lemma keeps_receive:
  assumes "may (Receive_Event now k g env ev body sig)"
  shows "tx_keeps I (receive_event (xe_hash E) (xe_config E) now k g env ev body sig)"
  using tx_keepsD [OF insert [OF may_receive [OF assms]]]
  by (auto simp: tx_keeps_def receive_event_def Let_def split: if_splits)

lemma keeps_rate [tx_rules]: "tx_keeps I (consume_rate_limit now scope key n w)"
  by (rule keeps_untouched) (auto simp: consume_rate_limit_def Let_def untouched_queue_def)

lemma keeps_consume [tx_rules]: "tx_keeps I (consume_pairing hash L now now' ip)"
  unfolding consume_pairing_def by (intro tx_rules) (auto intro: tx_rules)

lemma keeps_rates [tx_rules]: "tx_keeps I (remove_expired_rate_limits now n)"
  by (rule keeps_untouched) (auto simp: remove_expired_rate_limits_def Let_def untouched_queue_def)

lemma keeps_take [tx_rules]: "tx_keeps I (take_sessions now d g ss)"
  by (rule keeps_untouched) (auto simp: take_sessions_def untouched_queue_def split: if_splits)

lemma keeps_at_db: "(\<And>db. tx_keeps I (m db)) \<Longrightarrow> tx_keeps I (\<lambda>db. m db db)"
  unfolding tx_keeps_def by blast

lemma keeps_pair: "may (Pair_Device js now d ss) \<Longrightarrow> tx_keeps I (pair_device X js now d ss)"
  unfolding pair_device_def [abs_def] Let_def
  by (rule keeps_at_db) (intro tx_rules pair keeps_modify, simp_all add: untouched_queue_def)

lemma keeps_authorize [tx_rules]: "tx_keeps I (authorize_device X retiring js now c)"
  by (rule keeps_untouched)
    (auto simp: authorize_device_def authorize_v2_def authorize_legacy_def mark_authenticated_def Let_def
      untouched_queue_def split: device_claims.splits option.splits if_splits)

lemma keeps_revoke:
  assumes "may (Revoke_Device now d g)"
  shows "tx_keeps I (revoke_device now d g)"
proof -
  have m: "tx_keeps I (tx_bind (tx_modify (\<lambda>db. db\<lparr>in_devices := update_keyed (\<lambda>k v. k = d)
      (\<lambda>v. v\<lparr>dv_revokedAt := Some now\<rparr>) (in_devices db)\<rparr>)) (\<lambda>_. tx_bind (release_leases d []) (\<lambda>_. tx_return True)))"
    by (intro tx_rules revoke [OF assms] keeps_modify) (simp add: untouched_queue_def)
  have "I db'" if "I db" "revoke_device now d g db = Inr (x, db')" for db x db'
    using that tx_keepsD [OF m] unfolding revoke_device_def Let_def by (auto split: if_splits simp del: tx_bind_ok)
  then show ?thesis unfolding tx_keeps_def by blast
qed

lemma keeps_cleanup:
  assumes "may (Cleanup_Inactive js now)"
  shows "tx_keeps I (cleanup_inactive X js now)"
proof -
  have "I db'" if I: "I db" and c: "cleanup_inactive X js now db = Inr (x, db')" for db x db'
  proof -
    have "db' = db \<or> untouched_queue (db\<lparr>in_events := update_where (\<lambda>e. case ie_lease e of
      None \<Rightarrow> False | Some l \<Rightarrow> outdated now db (il_owner l) (il_generation l)) unlease (in_events db)\<rparr>) db'"
      using c by (auto simp: cleanup_inactive_def Let_def untouched_queue_def delete_devices_def split: if_splits)
    then show ?thesis using I untouched cleanup [OF assms I] by blast
  qed
  then show ?thesis unfolding tx_keeps_def by blast
qed

text \<open>The repository of connectors does not touch the queue.\<close>

lemma keeps_checks [tx_rules]:
  "tx_keeps I (assert_session_subset a b)" "tx_keeps I (assert_device_owns d g ss)" "tx_keeps I (assert_no_overlap d P ss)"
  by (rule keeps_untouched; auto simp: assert_session_subset_def assert_device_owns_def assert_no_overlap_def
      untouched_queue_def split: if_splits)+

lemma keeps_insert_connector [tx_rules]: "tx_keeps I (insert_connector c r ss)"
  unfolding insert_connector_def by (rule keeps_modify) (simp add: untouched_queue_def)

lemma keeps_update_connector [tx_rules]: "tx_keeps I (update_connector c f)"
  unfolding update_connector_def by (rule keeps_modify) (simp add: untouched_queue_def)

lemma keeps_provision [tx_rules]: "tx_keeps I (provision K c secret device ss)"
  unfolding provision_def by (intro tx_rules)

lemma keeps_prepared [tx_rules]: "tx_keeps I (put_prepared_credential device c g v ss)"
  by (rule keeps_untouched) (auto simp: put_prepared_credential_def assert_session_subset_def assert_device_owns_def
      assert_no_overlap_def insert_connector_def update_connector_def untouched_queue_def split: if_splits option.splits)

lemma keeps_rotate [tx_rules]: "tx_keeps I (rotate_connector K secret device c)"
  by (rule keeps_untouched)
    (auto simp: rotate_connector_def update_connector_def untouched_queue_def Let_def split: if_splits option.splits)

lemma keeps_revoke_connector [tx_rules]: "tx_keeps I (revoke_connector now device c)"
  by (rule keeps_untouched) (auto simp: revoke_connector_def update_connector_def untouched_queue_def split: if_splits)

lemma keeps_authenticate [tx_rules]: "tx_keeps I (authenticate_connector K now a)"
  by (rule keeps_untouched)
    (auto simp: authenticate_connector_def untouched_queue_def Let_def split: if_splits option.splits)

lemma keeps_history [tx_rules]: "tx_keeps I (record_history s b)"
  by (rule keeps_untouched) (auto simp: record_history_def untouched_queue_def split: if_splits option.splits)

lemma keeps_binding [tx_rules]: "tx_keeps I (set_binding now device s c w g)"
  by (rule keeps_untouched) (auto simp: set_binding_def assert_device_owns_def record_history_def untouched_queue_def Let_def
      split: if_splits option.splits)

lemma keeps_heartbeat [tx_rules]: "tx_keeps I (record_heartbeat now k h)"
  by (rule keeps_untouched)
    (auto simp: record_heartbeat_def assert_session_subset_def untouched_queue_def Let_def split: if_splits)

lemma inbox_keeps:
  assumes "I db" "may op"
  shows "I (inbox_step E op db)"
proof -
  have tx: "I (run_itx m db)" if "tx_keeps I m" for m :: "'a itx"
    unfolding run_itx_def using that assms(1) by (rule transaction_keeps)
  show ?thesis
    using assms(2) by (cases op) (auto intro!: tx tx_rules intro: insert keeps_receive claim ack refuse expire
      expire_receipts keeps_pair keeps_revoke keeps_cleanup)
qed

lemma inbox_keeps_all: "I db \<Longrightarrow> list_all may ops \<Longrightarrow> I (fold (inbox_step E) ops db)"
  by (induction ops arbitrary: db) (auto intro: inbox_keeps)

end

text \<open>An invariant of the stored events, the receipts and the usage, at the times \<open>clock\<close> allows.\<close>

locale inbox_queue =
  fixes I :: "inbox_db \<Rightarrow> bool" and E :: inbox_env and clock :: "millis \<Rightarrow> bool"
  assumes same: "I db \<Longrightarrow> same_queue db db' \<Longrightarrow> I db'"
    and q_insert: "clock now \<Longrightarrow> tx_keeps I (insert_event (xe_hash E) (xe_config E) now body sig env)"
    and q_ack: "clock now \<Longrightarrow> tx_keeps I (acknowledge (xe_hash E) (xe_config E) now d g hs)"
    and q_expire: "clock now \<Longrightarrow> tx_keeps I (remove_expired now n)"
    and q_expire_receipts: "clock now \<Longrightarrow> tx_keeps I (remove_expired_receipts now n)"

lemma same_queue_nack: "same_queue db (snd (nack_one X now d g i db))"
  by (simp add: nack_one_def same_queue_update)

lemma same_queue_refuse: "negatively_acknowledge X now d g is db = Inr (x, db') \<Longrightarrow> same_queue db db'"
proof (induction "is" arbitrary: db x)
  case Nil
  then show ?case by (simp add: same_queue_def)
next
  case (Cons i "is")
  then show ?case using same_queue_nack [of db X now d g i]
    by (auto split: prod.splits intro: same_queue_trans)
qed

definition queue_clock :: "(millis \<Rightarrow> bool) \<Rightarrow> inbox_op \<Rightarrow> bool" where
  "queue_clock clock op = (case queue_time op of None \<Rightarrow> True | Some t \<Rightarrow> clock t)"

sublocale inbox_queue \<subseteq> parts: inbox_parts I E "queue_clock clock"
proof (unfold_locales, goal_cases)
  case 1
  then show ?case using same same_queueI by blast
next
  case (4 now l d g ss n w)
  show ?case unfolding tx_keeps_def claim_events_def Let_def
    by (auto intro!: same [OF _ same_queue_update])
next
  case (6 now d g "is")
  show ?case unfolding tx_keeps_def by (blast intro: same same_queue_refuse)
next
  case (9 js now d ss)
  show ?case unfolding release_leases_def by (auto intro!: tx_rules same [OF _ same_queue_update])
next
  case (10 now d g)
  show ?case unfolding release_leases_def by (auto intro!: tx_rules same [OF _ same_queue_update])
next
  case (11 js now db)
  then show ?case by (auto intro!: same [OF _ same_queue_update])
qed (simp_all add: queue_clock_def q_insert q_ack q_expire q_expire_receipts)

end
