(* ===== verification/Inbox_Theorems.thy ===== *)
theory Inbox_Theorems
  imports Inbox_System
begin

text \<open>
  What holds of the Event Inbox whatever its operations do: the usage row counts the stored events, bytes and receipts
  exactly, and an event that was stored is answered as a duplicate for as long as it or its receipt is kept.
\<close>

section \<open>Statements of the queue\<close>

lemma delete_events_ok:
  "delete_events P db = Inr (n, db') \<longleftrightarrow> n = length (filter P (in_events db))
     \<and> db' = db\<lparr>in_events := filter (\<lambda>e. \<not> P e) (in_events db), in_usage := map_option (\<lambda>u. u\<lparr>
          iu_events := iu_events u - length (filter P (in_events db)),
          iu_bytes := iu_bytes u - sum_list (map ie_bytes (filter P (in_events db)))\<rparr>) (in_usage db)\<rparr>"
  by (auto simp: delete_events_def decrement_usage_def Let_def)

lemma insert_event_ok:
  assumes "insert_event H X now body sig env db = Inr (r, db')"
  shows "(r \<noteq> Created \<and> db' = db) \<or> (r = Created \<and> retained now db (ne_key env) = None \<and> find_inbox_event db (ne_key env) = None
     \<and> (\<exists>u. in_usage db = Some u \<and> iu_events u + 1 \<le> xc_maxEvents X
        \<and> iu_bytes u + (length body + length sig) \<le> xc_maxBytes X
        \<and> db' = db\<lparr>in_events := in_events db @ [new_event X now body sig env (in_nextSequence db)],
             in_nextSequence := in_nextSequence db + 1,
             in_usage := Some (u\<lparr>iu_events := iu_events u + 1, iu_bytes := iu_bytes u + (length body + length sig)\<rparr>)\<rparr>))"
  using assms by (auto simp: insert_event_def lock_usage_def tx_bind_def Let_def new_event_def split: option.splits if_splits)

lemma find_inbox_event_none: "find_inbox_event db k = None \<longleftrightarrow> k \<notin> ie_key ` set (in_events db)"
  by (auto simp: find_inbox_event_def find_None_iff)

definition live_receipts :: "millis \<Rightarrow> string set \<Rightarrow> inbox_db \<Rightarrow> (string \<times> inbox_receipt) list" where
  "live_receipts now K db = filter (\<lambda>(k, r). \<not> (k \<in> K \<and> ir_expiresAt r \<le> now)) (in_receipts db)"

text \<open>An acknowledgement that commits: the events it names go, and each has a receipt.\<close>

lemma acknowledge_ok:
  assumes "acknowledge H X now d g hs db = Inr (n, db')"
  defines "es \<equiv> acknowledged now d g hs db"
  defines "K \<equiv> set (map ie_key es)"
  defines "new \<equiv> filter (\<lambda>e. map_of (live_receipts now K db) (ie_key e) = None) es"
  shows "distinct (map ie_key new)"
    and "in_events db' = filter (\<lambda>e. ie_key e \<notin> K) (in_events db)"
    and "in_receipts db' = live_receipts now K db @ map (\<lambda>e. (ie_key e, new_receipt H X now e)) new"
    and "in_usage db' = map_option (\<lambda>u. u\<lparr>
          iu_receipts := iu_receipts u - (length (in_receipts db) - length (live_receipts now K db)) + length new,
          iu_events := iu_events u - length (filter (\<lambda>e. ie_key e \<in> K) (in_events db)),
          iu_bytes := iu_bytes u - sum_list (map ie_bytes (filter (\<lambda>e. ie_key e \<in> K) (in_events db)))\<rparr>) (in_usage db)"
    and "set es \<subseteq> set (in_events db)" and "n = length (filter (\<lambda>e. ie_key e \<in> K) (in_events db))"
proof -
  have len: "length (filter (\<lambda>(k, r). k \<in> K \<and> ir_expiresAt r \<le> now) rs)
      = length rs - length (filter (\<lambda>(k, r). \<not> (k \<in> K \<and> ir_expiresAt r \<le> now)) rs)" for rs
    using sum_length_filter_compl [of "\<lambda>(k, r). k \<in> K \<and> ir_expiresAt r \<le> now" rs] by (simp add: case_prod_unfold)
  from assms(1) obtain u db1 m db2 where "lock_usage db = Inr (u, db1)"
    and rest: "delete_receipts (\<lambda>k r. k \<in> K \<and> ir_expiresAt r \<le> now) db = Inr (m, db2)"
      "tx_bind (store_receipts H X now es) (\<lambda>_. delete_events (\<lambda>e. ie_key e \<in> K)) db2 = Inr (n, db')"
    unfolding acknowledge_def by (auto simp: lock_usage_def es_def K_def Let_def split: option.splits)
  note d = rest(1) [unfolded delete_receipts_def Let_def count_receipts_def len, folded live_receipts_def, simplified]
  from rest(2) d show "distinct (map ie_key new)"
      "in_events db' = filter (\<lambda>e. ie_key e \<notin> K) (in_events db)"
      "in_receipts db' = live_receipts now K db @ map (\<lambda>e. (ie_key e, new_receipt H X now e)) new"
      "in_usage db' = map_option (\<lambda>u. u\<lparr>
          iu_receipts := iu_receipts u - (length (in_receipts db) - length (live_receipts now K db)) + length new,
          iu_events := iu_events u - length (filter (\<lambda>e. ie_key e \<in> K) (in_events db)),
          iu_bytes := iu_bytes u - sum_list (map ie_bytes (filter (\<lambda>e. ie_key e \<in> K) (in_events db)))\<rparr>) (in_usage db)"
      "n = length (filter (\<lambda>e. ie_key e \<in> K) (in_events db))"
    by (auto simp: store_receipts_def delete_events_ok count_receipts_def Let_def new_def option.map_comp comp_def
        split: if_splits)
  show "set es \<subseteq> set (in_events db)" by (auto simp: es_def acknowledged_def)
qed

lemma remove_expired_ok:
  assumes "remove_expired now n db = Inr (m, db')"
  obtains K where "delete_events (\<lambda>e. ie_key e \<in> K) db = Inr (m, db')"
    and "K \<subseteq> ie_key ` {e \<in> set (in_events db). ie_expiresAt e \<le> now}"
proof
  define ks where "ks = map ie_key (take n (sort_key (\<lambda>e. (ie_expiresAt e, ie_key e))
     (filter (\<lambda>e. ie_expiresAt e \<le> now) (in_events db))))"
  show "delete_events (\<lambda>e. ie_key e \<in> set ks) db = Inr (m, db')"
    using assms by (auto simp: remove_expired_def lock_usage_def ks_def Let_def split: option.splits)
  show "set ks \<subseteq> ie_key ` {e \<in> set (in_events db). ie_expiresAt e \<le> now}"
    using set_take_subset [of n "sort_key (\<lambda>e. (ie_expiresAt e, ie_key e)) (filter (\<lambda>e. ie_expiresAt e \<le> now) (in_events db))"]
    by (auto simp: ks_def)
qed

lemma remove_expired_receipts_ok:
  assumes "remove_expired_receipts now n db = Inr (m, db')"
  obtains K where "delete_receipts (\<lambda>k r. k \<in> K) db = Inr (m, db')"
    and "K \<subseteq> fst ` {x \<in> set (in_receipts db). ir_expiresAt (snd x) \<le> now}"
proof
  define rs where "rs = sort_key (\<lambda>(k, r). (ir_expiresAt r, k)) (filter (\<lambda>(k, r). ir_expiresAt r \<le> now) (in_receipts db))"
  show "delete_receipts (\<lambda>k r. k \<in> set (map fst (take n rs))) db = Inr (m, db')"
    using assms by (auto simp: remove_expired_receipts_def lock_usage_def rs_def Let_def split: option.splits)
  show "set (map fst (take n rs)) \<subseteq> fst ` {x \<in> set (in_receipts db). ir_expiresAt (snd x) \<le> now}"
    using set_take_subset [of n rs] by (force simp: rs_def)
qed

section \<open>The usage row\<close>

definition usage_exact :: "inbox_config \<Rightarrow> inbox_db \<Rightarrow> bool" where
  "usage_exact X db \<longleftrightarrow> distinct (map ie_key (in_events db)) \<and> distinct (map fst (in_receipts db))
     \<and> (case in_usage db of None \<Rightarrow> False | Some u \<Rightarrow>
          iu_events u = length (in_events db) \<and> iu_bytes u = sum_list (map ie_bytes (in_events db))
          \<and> iu_receipts u = length (in_receipts db) \<and> iu_events u \<le> xc_maxEvents X \<and> iu_bytes u \<le> xc_maxBytes X)"

lemma usage_exactE:
  assumes "usage_exact X db"
  obtains u where "in_usage db = Some u" "iu_events u = length (in_events db)"
    "iu_bytes u = sum_list (map ie_bytes (in_events db))" "iu_receipts u = length (in_receipts db)"
    "iu_events u \<le> xc_maxEvents X" "iu_bytes u \<le> xc_maxBytes X"
    "distinct (map ie_key (in_events db))" "distinct (map fst (in_receipts db))"
  using assms by (auto simp: usage_exact_def split: option.splits)

lemma split_events:
  "length es - length (filter P es) = length (filter (\<lambda>e. \<not> P e) es)"
  "sum_list (map ie_bytes es) - sum_list (map ie_bytes (filter P es)) = sum_list (map ie_bytes (filter (\<lambda>e. \<not> P e) es))"
  "length (filter P es) \<le> length es" "sum_list (map ie_bytes (filter P es)) \<le> sum_list (map ie_bytes es)"
proof -
  have "length es = length (filter P es) + length (filter (\<lambda>e. \<not> P e) es)"
    "sum_list (map ie_bytes es) = sum_list (map ie_bytes (filter P es)) + sum_list (map ie_bytes (filter (\<lambda>e. \<not> P e) es))"
    by (induction es) auto
  then show "length es - length (filter P es) = length (filter (\<lambda>e. \<not> P e) es)"
    "sum_list (map ie_bytes es) - sum_list (map ie_bytes (filter P es)) = sum_list (map ie_bytes (filter (\<lambda>e. \<not> P e) es))"
    "length (filter P es) \<le> length es" "sum_list (map ie_bytes (filter P es)) \<le> sum_list (map ie_bytes es)" by linarith+
qed

lemma filtered_within:
  "length es \<le> n \<Longrightarrow> length (filter P es) \<le> n"
  "sum_list (map ie_bytes es) \<le> n \<Longrightarrow> sum_list (map ie_bytes (filter P es)) \<le> n"
  by (rule order_trans, rule split_events, assumption)+

lemma usage_delete:
  assumes "usage_exact X db" "delete_events P db = Inr (n, db')"
  shows "usage_exact X db'"
proof (rule usage_exactE [OF assms(1)])
  fix u
  assume u: "in_usage db = Some u" "iu_events u = length (in_events db)"
    "iu_bytes u = sum_list (map ie_bytes (in_events db))" "iu_receipts u = length (in_receipts db)"
    "iu_events u \<le> xc_maxEvents X" "iu_bytes u \<le> xc_maxBytes X"
    "distinct (map ie_key (in_events db))" "distinct (map fst (in_receipts db))"
  then show ?thesis
    using assms(2) by (simp add: usage_exact_def delete_events_ok distinct_map_filter split_events filtered_within)
qed

lemma usage_delete_receipts:
  assumes "usage_exact X db" "delete_receipts P db = Inr (n, db')"
  shows "usage_exact X db'"
proof -
  have "length rs = length (filter (\<lambda>(k, r). P k r) rs) + length (filter (\<lambda>(k, r). \<not> P k r) rs)" for rs
    using sum_length_filter_compl [of "\<lambda>(k, r). P k r" rs] by (simp add: case_prod_unfold)
  then have "length rs - length (filter (\<lambda>(k, r). P k r) rs) = length (filter (\<lambda>(k, r). \<not> P k r) rs)" for rs
    by (metis add_diff_cancel_left')
  then show ?thesis
    using assms by (auto simp: usage_exact_def delete_receipts_def count_receipts_def Let_def distinct_map_filter
        split: option.splits)
qed

lemma usage_acknowledge:
  assumes "usage_exact X db" "acknowledge H X' now d g hs db = Inr (n, db')"
  shows "usage_exact X db'"
proof -
  define K where "K = set (map ie_key (acknowledged now d g hs db))"
  define live where "live = live_receipts now K db"
  define new where "new = filter (\<lambda>e. map_of live (ie_key e) = None) (acknowledged now d g hs db)"
  note ok = acknowledge_ok [OF assms(2), folded K_def, folded live_def, folded new_def]
  have le: "length live \<le> length (in_receipts db)" by (simp add: live_def live_receipts_def)
  have "distinct (map fst live)" using assms(1) by (simp add: usage_exact_def live_def live_receipts_def distinct_map_filter)
  moreover have "ie_key e \<notin> fst ` set live" if "e \<in> set new" for e
    using that by (simp add: new_def map_of_eq_None_iff)
  ultimately have "distinct (map fst (in_receipts db'))"
    using ok(1) unfolding ok(3) by (force simp: comp_def image_iff)
  moreover have "distinct (map ie_key (in_events db'))"
    using assms(1) by (simp add: ok(2) usage_exact_def distinct_map_filter)
  moreover obtain u where "in_usage db = Some u" "iu_events u = length (in_events db)"
    "iu_bytes u = sum_list (map ie_bytes (in_events db))" "iu_receipts u = length (in_receipts db)"
    "iu_events u \<le> xc_maxEvents X" "iu_bytes u \<le> xc_maxBytes X"
    by (rule usage_exactE [OF assms(1)])
  ultimately show ?thesis
    using le by (simp add: usage_exact_def ok(2,4) split_events filtered_within) (simp add: ok(3))
qed

lemma usage_insert:
  assumes "usage_exact X db" "insert_event H X now body sig env db = Inr (r, db')"
  shows "usage_exact X db'"
  using insert_event_ok [OF assms(2)] assms(1) by (auto simp: usage_exact_def new_event_def find_inbox_event_none)

lemma same_queue_map:
  assumes "same_queue db db'" "\<And>e. f (stored_event e) = f e"
  shows "map f (in_events db') = map f (in_events db)"
proof -
  have "map f es = map f (map stored_event es)" for es by (simp add: assms(2))
  then show ?thesis using assms(1) by (metis same_queue_def)
qed

lemma usage_same:
  assumes "usage_exact X db" "same_queue db db'"
  shows "usage_exact X db'"
proof -
  have m: "map ie_key (in_events db') = map ie_key (in_events db)" "map ie_bytes (in_events db') = map ie_bytes (in_events db)"
    by (rule same_queue_map [OF assms(2)], simp add: stored_event_def)+
  have "length (in_events db') = length (in_events db)" using arg_cong [OF m(1), of length] by simp
  then show ?thesis using assms m by (auto simp: usage_exact_def same_queue_def split: option.splits)
qed

interpretation usage: inbox_queue "usage_exact (xe_config E)" E "\<lambda>_. True"
  by unfold_locales
    (auto simp: tx_keeps_def elim!: remove_expired_ok remove_expired_receipts_ok
      intro: usage_same usage_insert usage_acknowledge usage_delete usage_delete_receipts)

definition empty_inbox :: inbox_db where
  "empty_inbox = \<lparr>in_events = [], in_nextSequence = 1, in_usage = Some \<lparr>iu_events = 0, iu_bytes = 0, iu_receipts = 0\<rparr>,
     in_receipts = [], in_devices = [], in_owners = [], in_rates = [], in_connectors = [], in_scopes = [], in_bindings = [],
     in_history = [], in_heartbeats = []\<rparr>"

lemma usage_empty: "usage_exact X empty_inbox"
  by (simp add: usage_exact_def empty_inbox_def)

lemma usage_reached: "usage_exact (xe_config E) (fold (inbox_step E) ops empty_inbox)"
  by (rule usage.parts.inbox_keeps_all) (simp_all add: usage_empty list_all_iff queue_clock_def split: option.split)

text \<open>C40: Whatever the Event Inbox does from its empty database on - storing events, claims, acknowledgements and refusals,
  expiry, pairing, revocation and cleanup of devices, every operation on connectors - its usage row always counts the
  stored events, their bytes and the receipts exactly, and events and bytes stay within the capacity of the
  configuration. No key is stored twice.\<close>

theorem inbox_usage_exact: "usage_exact (xe_config E) (fold (inbox_step E) ops empty_inbox)"
  by (rule usage_reached)

section \<open>Deduplication\<close>

text \<open>The event of key \<open>k\<close> whose body has hash \<open>h\<close> is stored, with no live receipt since \<open>t0\<close>, or it has a receipt; either
  is kept up to \<open>T\<close>.\<close>

definition remembered :: "(string \<Rightarrow> string) \<Rightarrow> string \<Rightarrow> string \<Rightarrow> millis \<Rightarrow> millis \<Rightarrow> inbox_db \<Rightarrow> bool" where
  "remembered H k h t0 T db \<longleftrightarrow> distinct (map ie_key (in_events db)) \<and> distinct (map fst (in_receipts db)) \<and> in_usage db \<noteq> None
     \<and> ((case map_of (in_receipts db) k of None \<Rightarrow> True | Some r \<Rightarrow> ir_expiresAt r \<le> t0)
         \<and> list_ex (\<lambda>e. ie_key e = k \<and> H (ie_body e) = h \<and> T \<le> ie_expiresAt e) (in_events db)
       \<or> (case map_of (in_receipts db) k of None \<Rightarrow> False | Some r \<Rightarrow> ir_hash r = h \<and> T \<le> ir_expiresAt r))"

lemma rememberedE:
  assumes "remembered H k h t0 T db"
  obtains (event) e where "e \<in> set (in_events db)" "ie_key e = k" "H (ie_body e) = h" "T \<le> ie_expiresAt e"
      "\<And>r. map_of (in_receipts db) k = Some r \<Longrightarrow> ir_expiresAt r \<le> t0"
    | (receipt) r where "map_of (in_receipts db) k = Some r" "ir_hash r = h" "T \<le> ir_expiresAt r"
proof -
  from assms consider
      "case map_of (in_receipts db) k of None \<Rightarrow> True | Some r \<Rightarrow> ir_expiresAt r \<le> t0"
      "list_ex (\<lambda>e. ie_key e = k \<and> H (ie_body e) = h \<and> T \<le> ie_expiresAt e) (in_events db)"
    | "case map_of (in_receipts db) k of None \<Rightarrow> False | Some r \<Rightarrow> ir_hash r = h \<and> T \<le> ir_expiresAt r"
    unfolding remembered_def by blast
  then show thesis
  proof cases
    case 1
    then obtain e where "e \<in> set (in_events db)" "ie_key e = k" "H (ie_body e) = h" "T \<le> ie_expiresAt e"
      by (auto simp: list_ex_iff)
    then show thesis using 1(1) event by fastforce
  next
    case 2
    then show thesis using receipt by (simp split: option.splits)
  qed
qed

lemma remembered_event:
  assumes "distinct (map ie_key (in_events db))" "distinct (map fst (in_receipts db))" "in_usage db \<noteq> None"
    "e \<in> set (in_events db)" "ie_key e = k" "H (ie_body e) = h" "T \<le> ie_expiresAt e"
    "\<And>r. map_of (in_receipts db) k = Some r \<Longrightarrow> ir_expiresAt r \<le> t0"
  shows "remembered H k h t0 T db"
  using assms by (auto simp: remembered_def list_ex_iff split: option.splits)

lemma remembered_receipt:
  assumes "distinct (map ie_key (in_events db))" "distinct (map fst (in_receipts db))" "in_usage db \<noteq> None"
    "map_of (in_receipts db) k = Some r" "ir_hash r = h" "T \<le> ir_expiresAt r"
  shows "remembered H k h t0 T db"
  using assms by (simp add: remembered_def)

lemma remembered_parts:
  assumes "remembered H k h t0 T db"
  shows "distinct (map ie_key (in_events db))" "distinct (map fst (in_receipts db))" "in_usage db \<noteq> None"
  using assms by (simp_all add: remembered_def)

lemma remembered_same:
  assumes "remembered H k h t0 T db" "same_queue db db'"
  shows "remembered H k h t0 T db'"
proof -
  have keys: "map ie_key (in_events db') = map ie_key (in_events db)"
    by (rule same_queue_map [OF assms(2)]) (simp add: stored_event_def)
  define P where "P = (\<lambda>e::inbox_event. ie_key e = k \<and> H (ie_body e) = h \<and> T \<le> ie_expiresAt e)"
  have "map P (in_events db') = map P (in_events db)"
    by (rule same_queue_map [OF assms(2)]) (simp add: P_def stored_event_def)
  then have "set (map P (in_events db')) = set (map P (in_events db))" by (rule arg_cong)
  moreover have "list_ex P es = (True \<in> set (map P es))" for es by (auto simp: list_ex_iff)
  ultimately have "list_ex P (in_events db') = list_ex P (in_events db)" by (simp del: set_map)
  then show ?thesis using assms keys by (simp add: remembered_def same_queue_def P_def)
qed

lemma remembered_answer:
  assumes "remembered H k h t0 T db" "t0 \<le> now" "now < T" "ne_key env = k"
  shows "insert_event H X now body sig env db = Inr (if H body = h then Duplicate else Conflict, db)"
proof -
  obtain u where u: "in_usage db = Some u" using remembered_parts(3) [OF assms(1)] by blast
  show ?thesis using assms(1)
  proof (cases rule: rememberedE)
    case (event e)
    have "retained now db k = None"
    proof (cases "map_of (in_receipts db) k")
      case (Some r)
      then show ?thesis using event(5) [OF Some] assms(2) by (simp add: retained_def)
    qed (simp add: retained_def)
    moreover have "find_inbox_event db k = Some e"
    proof (cases "find_inbox_event db k")
      case None
      then show ?thesis using event(1,2) by (auto simp: find_inbox_event_none)
    next
      case (Some e')
      then have "e' \<in> set (in_events db)" "ie_key e' = k" by (auto simp: find_inbox_event_def find_Some_iff)
      then show ?thesis
        using Some event(1,2) remembered_parts(1) [OF assms(1)] by (auto simp: distinct_map dest: inj_onD)
    qed
    ultimately show ?thesis
      unfolding assms(4) [symmetric] event(3) [symmetric] using u by (simp add: insert_event_def lock_usage_def tx_bind_def)
  next
    case (receipt r)
    then have "retained now db k = Some r" using assms(3) by (simp add: retained_def)
    then show ?thesis
      unfolding assms(4) [symmetric] receipt(2) [symmetric] using u by (simp add: insert_event_def lock_usage_def tx_bind_def)
  qed
qed

lemma remembered_insert:
  assumes "remembered H k h t0 T db" "t0 \<le> now" "now < T" "insert_event H X now body sig env db = Inr (r, db')"
  shows "remembered H k h t0 T db'"
proof (cases "ne_key env = k")
  case True
  then show ?thesis using remembered_answer [OF assms(1-3) True, of X body sig] assms(1,4) by simp
next
  case False
  note parts = remembered_parts [OF assms(1)]
  consider "db' = db" | u where "find_inbox_event db (ne_key env) = None"
      "in_events db' = in_events db @ [new_event X now body sig env (in_nextSequence db)]"
      "in_receipts db' = in_receipts db" "in_usage db' = Some u"
    using insert_event_ok [OF assms(4)] by auto
  then show ?thesis
  proof cases
    case 1
    then show ?thesis using assms(1) by simp
  next
    case 2
    then have "ie_key (new_event X now body sig env (in_nextSequence db)) \<notin> ie_key ` set (in_events db)"
      by (simp add: find_inbox_event_none new_event_def)
    then show ?thesis using assms(1) 2 by (auto simp: remembered_def)
  qed
qed

lemma remembered_expire:
  assumes "remembered H k h t0 T db" "now < T" "remove_expired now n db = Inr (m, db')"
  shows "remembered H k h t0 T db'"
proof (rule remove_expired_ok [OF assms(3)])
  fix K
  assume d: "delete_events (\<lambda>e. ie_key e \<in> K) db = Inr (m, db')"
    and K: "K \<subseteq> ie_key ` {e \<in> set (in_events db). ie_expiresAt e \<le> now}"
  note parts = remembered_parts [OF assms(1)]
  have rest: "distinct (map ie_key (in_events db'))" "in_receipts db' = in_receipts db" "in_usage db' \<noteq> None"
    "in_events db' = filter (\<lambda>e. ie_key e \<notin> K) (in_events db)"
    using d parts by (simp_all add: delete_events_ok distinct_map_filter)
  show ?thesis using assms(1)
  proof (cases rule: rememberedE)
    case (event e)
    have "k \<notin> K"
    proof
      assume "k \<in> K"
      then obtain e' where "e' \<in> set (in_events db)" "ie_key e' = k" "ie_expiresAt e' \<le> now" using K by auto
      moreover from this have "e' = e" using event parts(1) by (auto simp: distinct_map dest: inj_onD)
      ultimately show False using event assms(2) by simp
    qed
    then show ?thesis using event rest parts by (intro remembered_event [of _ e]) simp_all
  next
    case receipt
    then show ?thesis using rest parts by (intro remembered_receipt) simp_all
  qed
qed

lemma map_of_dropped: "map_of (filter (\<lambda>(k, r). k \<notin> K) rs) k = (if k \<in> K then None else map_of rs k)"
  by (induction rs) auto

lemma remembered_expire_receipts:
  assumes "remembered H k h t0 T db" "now < T" "remove_expired_receipts now n db = Inr (m, db')"
  shows "remembered H k h t0 T db'"
proof (rule remove_expired_receipts_ok [OF assms(3)])
  fix K
  assume d: "delete_receipts (\<lambda>k r. k \<in> K) db = Inr (m, db')"
    and K: "K \<subseteq> fst ` {x \<in> set (in_receipts db). ir_expiresAt (snd x) \<le> now}"
  note parts = remembered_parts [OF assms(1)]
  have rest: "distinct (map fst (in_receipts db'))" "in_events db' = in_events db" "in_usage db' \<noteq> None"
    and rs: "in_receipts db' = filter (\<lambda>(k, r). k \<notin> K) (in_receipts db)"
    using d parts by (auto simp: delete_receipts_def count_receipts_def Let_def distinct_map_filter)
  have of: "map_of (in_receipts db') k = (if k \<in> K then None else map_of (in_receipts db) k)" for k
    unfolding rs by (rule map_of_dropped)
  show ?thesis using assms(1)
  proof (cases rule: rememberedE)
    case (event e)
    then show ?thesis using rest parts of by (intro remembered_event [of _ e]) (auto split: if_splits)
  next
    case (receipt r)
    have "k \<notin> K"
    proof
      assume "k \<in> K"
      then obtain r' where "(k, r') \<in> set (in_receipts db)" "ir_expiresAt r' \<le> now" using K by auto
      then show False using receipt assms(2) parts(2) by (simp add: map_of_eq_Some_iff)
    qed
    then show ?thesis using receipt rest parts of by (intro remembered_receipt) simp_all
  qed
qed

text \<open>An acknowledgement replaces the event by its receipt.\<close>

lemma remembered_acknowledge:
  assumes rem: "remembered H k h t0 T db" and time: "t0 \<le> now" "now < T" and kept: "T \<le> t0 + days (xc_receiptDays X)"
    and a: "acknowledge H X now d g hs db = Inr (n, db')"
  shows "remembered H k h t0 T db'"
proof -
  define es where "es = acknowledged now d g hs db"
  define K where "K = set (map ie_key es)"
  define live where "live = live_receipts now K db"
  define new where "new = filter (\<lambda>e. map_of live (ie_key e) = None) es"
  note ok = acknowledge_ok [OF a, folded es_def, folded K_def, folded live_def, folded new_def]
  note parts = remembered_parts [OF rem]
  have dl: "distinct (map fst live)" using parts(2) by (simp add: live_def live_receipts_def distinct_map_filter)
  have "ie_key e \<notin> fst ` set live" if "e \<in> set new" for e
    using that by (simp add: new_def map_of_eq_None_iff)
  then have rest: "distinct (map fst (in_receipts db'))" "distinct (map ie_key (in_events db'))" "in_usage db' \<noteq> None"
    using ok(1) dl parts unfolding ok(2-4) by (force simp: comp_def image_iff distinct_map_filter)+
  have live: "map_of live k' = Some r \<longleftrightarrow> map_of (in_receipts db) k' = Some r \<and> \<not> (k' \<in> K \<and> ir_expiresAt r \<le> now)" for k' r
    using dl parts(2) by (auto simp: live_def live_receipts_def)
  have of: "map_of (in_receipts db') k = (case map_of live k of Some r \<Rightarrow> Some r
      | None \<Rightarrow> map_of (map (\<lambda>e. (ie_key e, new_receipt H X now e)) new) k)"
    by (simp add: ok(3) map_add_def split: option.split)
  show ?thesis using rem
  proof (cases rule: rememberedE)
    case (event e)
    show ?thesis
    proof (cases "k \<in> K")
      case False
      then have "map_of (map (\<lambda>e. (ie_key e, new_receipt H X now e)) new) k = None"
        by (auto simp: map_of_eq_None_iff K_def new_def)
      then have "ir_expiresAt r \<le> t0" if "map_of (in_receipts db') k = Some r" for r
        using that of live event(5) by (auto split: option.splits)
      then show ?thesis using event(1-4) False rest by (intro remembered_event [of _ e]) (simp_all add: ok(2))
    next
      case True
      then obtain e' where e': "e' \<in> set es" "ie_key e' = k" by (auto simp: K_def)
      moreover from this have "e' = e" using event(1,2) ok(5) parts(1) by (auto simp: distinct_map dest: inj_onD)
      moreover have none: "map_of live k = None"
      proof (cases "map_of live k")
        case (Some r)
        then have "map_of (in_receipts db) k = Some r" "now < ir_expiresAt r" using live True by auto
        then show ?thesis using event(5) time by fastforce
      qed
      ultimately have "e \<in> set new" by (simp add: new_def)
      then have "map_of (map (\<lambda>e. (ie_key e, new_receipt H X now e)) new) k = Some (new_receipt H X now e)"
        using event(2) ok(1) by (auto simp: map_of_eq_Some_iff comp_def)
      then show ?thesis
        using none of rest kept time event(3)
        by (intro remembered_receipt [of _ k "new_receipt H X now e"]) (simp_all add: new_receipt_def)
    qed
  next
    case (receipt r)
    then have "map_of live k = Some r" using live time by auto
    then show ?thesis using receipt rest of by (intro remembered_receipt) simp_all
  qed
qed

lemma remembered_queue:
  assumes "T \<le> t0 + days (xc_receiptDays (xe_config E))"
  shows "inbox_queue (remembered (xe_hash E) k h t0 T) E (\<lambda>now. t0 \<le> now \<and> now < T)"
  using assms
  by unfold_locales (auto simp: tx_keeps_def intro: remembered_same remembered_insert remembered_acknowledge
      remembered_expire remembered_expire_receipts)

text \<open>While an event and its receipt are kept, which is up to\<close>

definition answered_until :: "inbox_config \<Rightarrow> millis \<Rightarrow> millis" where
  "answered_until X t0 = t0 + min (days (xc_retentionDays X)) (days (xc_receiptDays X))"

interpretation dedupe: inbox_queue "remembered (xe_hash E) k h t0 (answered_until (xe_config E) t0)" E
    "\<lambda>now. t0 \<le> now \<and> now < answered_until (xe_config E) t0"
  by (rule remembered_queue) (simp add: answered_until_def)

lemma remembered_created:
  assumes "usage_exact X db" "insert_event H X t0 body sig env db = Inr (Created, db')"
  shows "remembered H (ne_key env) (H body) t0 (answered_until X t0) db'"
proof (rule remembered_event)
  have new: "retained t0 db (ne_key env) = None" "in_usage db' \<noteq> None" "in_receipts db' = in_receipts db"
    "in_events db' = in_events db @ [new_event X t0 body sig env (in_nextSequence db)]"
    using insert_event_ok [OF assms(2)] by auto
  then show "new_event X t0 body sig env (in_nextSequence db) \<in> set (in_events db')" "in_usage db' \<noteq> None" by simp_all
  show "ir_expiresAt r \<le> t0" if "map_of (in_receipts db') (ne_key env) = Some r" for r
    using that new by (auto simp: retained_def split: if_splits)
  have "usage_exact X db'" using assms by (rule usage_insert)
  then show "distinct (map ie_key (in_events db'))" "distinct (map fst (in_receipts db'))"
    by (simp_all add: usage_exact_def)
qed (simp_all add: new_event_def answered_until_def)

text \<open>The operations of a period, seen by the queue.\<close>

definition in_period :: "millis \<Rightarrow> millis \<Rightarrow> inbox_op \<Rightarrow> bool" where
  "in_period t0 T op = queue_clock (\<lambda>now. t0 \<le> now \<and> now < T) op"

text \<open>C38: The Event Inbox stores an event once: when the insert of an envelope answered that it was created, then for as
  long as the event and its receipt are kept (the smaller of the two retention periods), every later insert of its
  idempotency key changes nothing and answers that it is a duplicate if the body has the same hash, a conflict otherwise -
  whatever happens between the two, acknowledgement of the event and expiry of others included.\<close>

theorem accepted_event_answered:
  assumes "insert_event (xe_hash E) (xe_config E) t0 body sig env (fold (inbox_step E) before empty_inbox) = Inr (Created, db1)"
    and "db2 = fold (inbox_step E) between db1" "list_all (in_period t0 (answered_until (xe_config E) t0)) between"
    and "ne_key env' = ne_key env" "t0 \<le> now" "now < answered_until (xe_config E) t0"
  shows "insert_event (xe_hash E) (xe_config E) now body' sig' env' db2
     = Inr (if xe_hash E body' = xe_hash E body then Duplicate else Conflict, db2)"
proof (rule remembered_answer [OF _ assms(5,6,4)])
  have "usage_exact (xe_config E) (fold (inbox_step E) before empty_inbox)"
    by (rule usage_reached)
  then have "remembered (xe_hash E) (ne_key env) (xe_hash E body) t0 (answered_until (xe_config E) t0) db1"
    using assms(1) by (rule remembered_created)
  then show "remembered (xe_hash E) (ne_key env) (xe_hash E body) t0 (answered_until (xe_config E) t0) db2"
    unfolding assms(2) by (rule dedupe.parts.inbox_keeps_all) (use assms(3) in \<open>simp add: in_period_def [abs_def]\<close>)
qed

end
