(* ===== verification/Inbox_Leases.thy ===== *)
theory Inbox_Leases
  imports Inbox_Theorems
begin

text \<open>
  Claims of the Event Inbox: which events a claim hands out, that a leased event is not handed out again, and what an
  acknowledgement that names a handle twice does.
\<close>

section \<open>Which events a claim returns\<close>

lemma claim_events_ok:
  "claim_events X now l d g ss n w db = Inr (es, db') \<longleftrightarrow>
     (let ks = ie_key ` set (claim_candidates X now d g ss n w db)
      in es = map (\<lambda>e. \<lparr>ce_key = ie_key e, ce_leaseId = l, ce_rawBody = ie_body e, ce_signature = ie_signature e\<rparr>)
             (filter (\<lambda>e. ie_key e \<in> ks) (in_events db))
       \<and> db' = db\<lparr>in_events := update_where (\<lambda>e. ie_key e \<in> ks) (lease_event X now l d g) (in_events db)\<rparr>)"
  by (auto simp: claim_events_def Let_def)

lemma candidates_sub:
  "set (claim_candidates X now d g ss n w db) \<subseteq> {e \<in> set (in_events db). claimable now ss w e}"
  using set_take_subset [of "min n (xc_batchMax X)" "sort_key ie_sequence (filter (claimable now ss w) (in_events db))"]
  by (auto simp: claim_candidates_def)

lemma claimed_keys:
  assumes "claim_events X now l d g ss n w db = Inr (es, db')"
  shows "ce_key ` set es = ie_key ` set (claim_candidates X now d g ss n w db)"
  using assms candidates_sub [of X now d g ss n w db] by (auto simp: claim_events_ok Let_def image_image)

lemma key_inj: "distinct (map ie_key (in_events db)) \<Longrightarrow> e \<in> set (in_events db) \<Longrightarrow> e' \<in> set (in_events db)
    \<Longrightarrow> ie_key e = ie_key e' \<Longrightarrow> e = e'"
  by (auto simp: distinct_map dest: inj_onD)

lemma take_sorted_below:
  assumes "sorted (map f xs)" "x \<in> set (take n xs)" "y \<in> set xs" "f y < f x"
  shows "y \<in> set (take n xs)"
proof (rule ccontr)
  assume "y \<notin> set (take n xs)"
  then have "y \<in> set (drop n xs)" using assms(3) by (metis Un_iff append_take_drop_id set_append)
  moreover have "sorted (map f (take n xs) @ map f (drop n xs))" using assms(1) by (metis append_take_drop_id map_append)
  ultimately have "f x \<le> f y" using assms(2) by (simp add: sorted_append)
  then show False using assms(4) by simp
qed

text \<open>A claim by a device hands out only events that are claimable now - of the requested sessions, not dead, not
  expired, available, not leased - and only if the device's pairing is current and owns every requested session; it hands
  out as many as the request and the batch limit allow, oldest first: a claimable event with a smaller sequence number
  than a claimed one is claimed as well.\<close>

theorem claim_oldest_first:
  assumes "db = fold (inbox_step E) ops empty_inbox" "claim_events X now l d g ss n w db = Inr (es, db')"
  shows "length es = (if device_current now db d g \<and> list_all (owns db d g) ss
       then min (min n (xc_batchMax X)) (length (filter (claimable now ss w) (in_events db))) else 0)
    \<and> ce_key ` set es \<subseteq> ie_key ` set (filter (claimable now ss w) (in_events db))
    \<and> list_all (\<lambda>e. list_all (\<lambda>e'. claimable now ss w e \<and> ie_key e' \<in> ce_key ` set es \<and> ie_sequence e < ie_sequence e'
         \<longrightarrow> ie_key e \<in> ce_key ` set es) (in_events db)) (in_events db)"
proof (intro conjI)
  have u: "distinct (map ie_key (in_events db))"
    using usage_reached [of E ops] by (simp add: usage_exact_def assms(1))
  define cs where "cs = claim_candidates X now d g ss n w db"
  define all where "all = sort_key ie_sequence (filter (claimable now ss w) (in_events db))"
  note keys = claimed_keys [OF assms(2), folded cs_def]
  have cs: "cs = (if device_current now db d g \<and> list_all (owns db d g) ss then take (min n (xc_batchMax X)) all else [])"
    by (simp add: cs_def claim_candidates_def all_def)
  have "distinct (map ie_key (filter (claimable now ss w) (in_events db)))" by (simp add: distinct_map_filter u)
  then have "distinct (map ie_key all)" by (simp add: all_def distinct_map)
  then have "distinct (map ie_key cs)" by (auto simp: cs take_map [symmetric])
  moreover have "distinct (map ce_key es)"
    using assms(2) u by (auto simp: claim_events_ok Let_def comp_def distinct_map_filter)
  moreover have "set (map ce_key es) = set (map ie_key cs)" using keys by simp
  ultimately have "length es = length cs" by (metis distinct_card length_map)
  then show "length es = (if device_current now db d g \<and> list_all (owns db d g) ss
       then min (min n (xc_batchMax X)) (length (filter (claimable now ss w) (in_events db))) else 0)"
    by (simp add: cs all_def min.commute)
  show "ce_key ` set es \<subseteq> ie_key ` set (filter (claimable now ss w) (in_events db))"
    using candidates_sub [of X now d g ss n w db] unfolding keys cs_def by auto
  have "ie_key e \<in> ce_key ` set es" if h: "e \<in> set (in_events db)" "e' \<in> set (in_events db)" "claimable now ss w e"
    "ie_key e' \<in> ce_key ` set es" "ie_sequence e < ie_sequence e'" for e e'
  proof -
    obtain c where "c \<in> set cs" "ie_key c = ie_key e'" using h(4) keys by auto
    moreover from this have "c \<in> set (in_events db)" using candidates_sub [of X now d g ss n w db] by (auto simp: cs_def)
    ultimately have e': "e' \<in> set cs" using key_inj [OF u _ h(2)] by metis
    then have "e \<in> set cs"
      using take_sorted_below [of ie_sequence all e' "min n (xc_batchMax X)" e] h by (auto simp: cs all_def split: if_splits)
    then show ?thesis using keys by auto
  qed
  then show "list_all (\<lambda>e. list_all (\<lambda>e'. claimable now ss w e \<and> ie_key e' \<in> ce_key ` set es \<and> ie_sequence e < ie_sequence e'
         \<longrightarrow> ie_key e \<in> ce_key ` set es) (in_events db)) (in_events db)"
    unfolding list_all_iff by blast
qed

section \<open>Leases exclude\<close>

definition held :: "string \<Rightarrow> string \<Rightarrow> string \<Rightarrow> string \<Rightarrow> millis \<Rightarrow> inbox_event \<Rightarrow> bool" where
  "held k l d s T e \<longleftrightarrow> ie_key e = k \<and> ie_sessionId e = s \<and> T \<le> ie_expiresAt e
     \<and> (case ie_lease e of None \<Rightarrow> False | Some L \<Rightarrow> il_id L = l \<and> il_owner L = d \<and> T \<le> il_expiresAt L)"

definition leased :: "string \<Rightarrow> string \<Rightarrow> string \<Rightarrow> string \<Rightarrow> millis \<Rightarrow> inbox_db \<Rightarrow> bool" where
  "leased k l d s T db \<longleftrightarrow> distinct (map ie_key (in_events db)) \<and> list_ex (held k l d s T) (in_events db)"

text \<open>The operations that leave the lease \<open>l\<close> of the event \<open>k\<close> to its holder up to \<open>T\<close>: all but its own acknowledgement or
  refusal, a pairing that takes its session or pairs its device again, the device's revocation, and the cleanup.\<close>

fun leaves_lease :: "string \<Rightarrow> string \<Rightarrow> string \<Rightarrow> string \<Rightarrow> millis \<Rightarrow> inbox_op \<Rightarrow> bool" where
  "leaves_lease k l d s T (Claim_Events now l' d' g ss n w) \<longleftrightarrow> now < T"
| "leaves_lease k l d s T (Acknowledge now d' g hs) \<longleftrightarrow> (k, l) \<notin> set hs"
| "leaves_lease k l d s T (Refuse now d' g is) \<longleftrightarrow> (k, l) \<notin> set (map nk_handle is)"
| "leaves_lease k l d s T (Remove_Expired now n) \<longleftrightarrow> now < T"
| "leaves_lease k l d s T (Pair_Device js now d' ss) \<longleftrightarrow> d' \<noteq> d \<and> s \<notin> set ss"
| "leaves_lease k l d s T (Revoke_Device now d' g) \<longleftrightarrow> d' \<noteq> d"
| "leaves_lease k l d s T (Cleanup_Inactive js now) \<longleftrightarrow> False"
| "leaves_lease k l d s T op \<longleftrightarrow> True"

lemma leased_kept:
  assumes "leased k l d s T db" "\<And>e. e \<in> set (in_events db) \<Longrightarrow> held k l d s T e \<Longrightarrow> \<not> P e" "\<And>e. ie_key (f e) = ie_key e"
  shows "leased k l d s T (db\<lparr>in_events := update_where P f (in_events db)\<rparr>)"
proof -
  have "map ie_key (update_where P f (in_events db)) = map ie_key (in_events db)"
    by (simp add: update_where_def assms(3))
  moreover obtain e where "e \<in> set (in_events db)" "held k l d s T e"
    using assms(1) by (auto simp: leased_def list_ex_iff)
  moreover from this have "e \<in> set (update_where P f (in_events db))"
    using assms(2) by (force simp: update_where_def)
  ultimately show ?thesis using assms(1) by (auto simp: leased_def list_ex_iff)
qed

lemma leased_filter:
  assumes "leased k l d s T db" "\<And>e. e \<in> set (in_events db) \<Longrightarrow> held k l d s T e \<Longrightarrow> Q e" "in_events db' = filter Q (in_events db)"
  shows "leased k l d s T db'"
  using assms by (auto simp: leased_def list_ex_iff distinct_map_filter)

lemma leased_insert:
  assumes "leased k l d s T db" "insert_event H X now body sig env db = Inr (r, db')"
  shows "leased k l d s T db'"
  using insert_event_ok [OF assms(2)] assms(1) by (auto simp: leased_def find_inbox_event_none new_event_def)

lemma leased_claim:
  assumes "leased k l d s T db" "now < T" "claim_events X now l' d' g ss n w db = Inr (es, db')"
  shows "leased k l d s T db'"
proof -
  have "ie_key e \<notin> ie_key ` set (claim_candidates X now d' g ss n w db)"
    if e: "e \<in> set (in_events db)" "held k l d s T e" for e
  proof
    assume "ie_key e \<in> ie_key ` set (claim_candidates X now d' g ss n w db)"
    then obtain c where "c \<in> set (in_events db)" "claimable now ss w c" "ie_key c = ie_key e"
      using candidates_sub [of X now d' g ss n w db] by auto
    then have "claimable now ss w e" using key_inj e(1) assms(1) by (metis leased_def)
    then show False using e(2) assms(2) by (auto simp: claimable_def held_def split: option.splits)
  qed
  then show ?thesis
    using assms(1,3) by (auto simp: claim_events_ok Let_def lease_event_def intro!: leased_kept)
qed

lemma leased_acknowledge:
  assumes "leased k l d s T db" "(k, l) \<notin> set hs" "acknowledge H X now d' g hs db = Inr (n, db')"
  shows "leased k l d s T db'"
proof (rule leased_filter [OF assms(1) _ acknowledge_ok(2) [OF assms(3)]])
  fix e
  assume e: "e \<in> set (in_events db)" "held k l d s T e"
  show "ie_key e \<notin> set (map ie_key (acknowledged now d' g hs db))"
  proof
    assume "ie_key e \<in> set (map ie_key (acknowledged now d' g hs db))"
    then obtain h c where "h \<in> set hs" "c \<in> set (in_events db)" "holds_lease now db d' g h c" "ie_key c = ie_key e"
      by (auto simp: acknowledged_def)
    moreover from this have "c = e" using key_inj e(1) assms(1) by (metis leased_def)
    ultimately show False using e(2) assms(2) by (cases h) (auto simp: holds_lease_def held_def split: option.splits)
  qed
qed

lemma leased_refuse:
  assumes "leased k l d s T db" "(k, l) \<notin> nk_handle ` set is" "negatively_acknowledge X now d' g is db = Inr (x, db')"
  shows "leased k l d s T db'"
  using assms
proof (induction "is" arbitrary: db x)
  case (Cons i "is")
  have "leased k l d s T (snd (nack_one X now d' g i db))"
    unfolding nack_one_def snd_conv
  proof (rule leased_kept [OF Cons.prems(1)])
    show "\<not> holds_lease now db d' g (nk_handle i) e" if "held k l d s T e" for e
      using that Cons.prems(2) by (cases "nk_handle i") (auto simp: holds_lease_def held_def split: option.splits)
  qed (simp add: nack_event_def unlease_def)
  then show ?case using Cons by (auto split: prod.splits)
qed simp

lemma leased_expire:
  assumes "leased k l d s T db" "now < T" "remove_expired now n db = Inr (m, db')"
  shows "leased k l d s T db'"
proof (rule remove_expired_ok [OF assms(3)])
  fix K
  assume d: "delete_events (\<lambda>e. ie_key e \<in> K) db = Inr (m, db')"
    and K: "K \<subseteq> ie_key ` {e \<in> set (in_events db). ie_expiresAt e \<le> now}"
  show ?thesis
  proof (rule leased_filter [OF assms(1), of "\<lambda>e. ie_key e \<notin> K"])
    show "ie_key e \<notin> K" if e: "e \<in> set (in_events db)" "held k l d s T e" for e
    proof
      assume "ie_key e \<in> K"
      then obtain c where "c \<in> set (in_events db)" "ie_expiresAt c \<le> now" "ie_key c = ie_key e" using K by auto
      moreover from this have "c = e" using key_inj e(1) assms(1) by (metis leased_def)
      ultimately show False using e(2) assms(2) by (simp add: held_def)
    qed
  qed (use d in \<open>simp add: delete_events_ok\<close>)
qed

lemma leased_release:
  assumes "d' \<noteq> d" "s \<notin> set ss"
  shows "tx_keeps (leased k l d s T) (release_leases d' ss)"
  using assms unfolding release_leases_def
  by (intro tx_rules leased_kept) (auto simp: held_def unlease_def split: option.splits)

lemma leased_untouched: "leased k l d s T db \<Longrightarrow> untouched_queue db db' \<Longrightarrow> leased k l d s T db'"
  by (simp add: leased_def untouched_queue_def)

interpretation leases: inbox_parts "leased k l d s T" E "leaves_lease k l d s T"
proof (unfold_locales, goal_cases)
  case (8 now n)
  show ?case by (auto simp: tx_keeps_def leased_def elim!: remove_expired_receipts_ok
      simp: delete_receipts_def count_receipts_def Let_def)
next
  case (9 js now d' ss)
  then show ?case by (intro leased_release) simp_all
next
  case (10 now d' g)
  then show ?case by (intro leased_release) simp_all
qed (auto simp: tx_keeps_def intro: leased_untouched leased_insert leased_claim leased_acknowledge leased_refuse leased_expire)

lemma leased_claimed:
  assumes "distinct (map ie_key (in_events db))" "claim_events X t l d g ss n w db = Inr (es, db')" "c \<in> set es"
    "find_inbox_event db' (ce_key c) = Some e" "T \<le> ie_expiresAt e" "T \<le> t + seconds (xc_leaseSeconds X)"
  shows "leased (ce_key c) l d (ie_sessionId e) T db'"
proof -
  have e: "e \<in> set (in_events db')" "ie_key e = ce_key c"
    using assms(4) by (auto simp: find_inbox_event_def find_Some_iff)
  have "ce_key c \<in> ie_key ` set (claim_candidates X t d g ss n w db)"
    using claimed_keys [OF assms(2)] assms(3) by auto
  then have "held (ce_key c) l d (ie_sessionId e) T e"
    using e assms(2,5,6) by (auto simp: claim_events_ok Let_def update_where_def held_def lease_event_def split: if_splits)
  moreover have "distinct (map ie_key (in_events db'))"
    using assms(1,2) by (auto simp: claim_events_ok Let_def update_where_def comp_def lease_event_def if_distrib cong: if_cong)
  ultimately show ?thesis using e(1) by (auto simp: leased_def list_ex_iff)
qed

lemma leased_not_claimed:
  assumes "leased k l d s T db" "now < T" "claim_events X now l' d' g ss n w db = Inr (es, db')"
  shows "k \<notin> ce_key ` set es"
proof
  assume "k \<in> ce_key ` set es"
  then obtain c where c: "c \<in> set (in_events db)" "claimable now ss w c" "ie_key c = k"
    using claimed_keys [OF assms(3)] candidates_sub [of X now d' g ss n w db] by auto
  obtain e where e: "e \<in> set (in_events db)" "held k l d s T e" "distinct (map ie_key (in_events db))"
    using assms(1) by (auto simp: leased_def list_ex_iff)
  then have "e = c" using key_inj [OF e(3,1) c(1)] c(3) by (simp add: held_def)
  then show False using e(2) c(2) assms(2) by (auto simp: claimable_def held_def split: option.splits)
qed

text \<open>C39: A claimed event is its holder's: until its lease ends (or the event expires), no claim by any device - also the
  same one - hands it out again, whatever else the Event Inbox does in between, unless the lease itself is acknowledged or
  refused, its device is paired again, revoked or its session taken by a pairing, or the cleanup of devices runs.\<close>

theorem leased_event_excluded:
  assumes "claim_events (xe_config E) t l d g ss n w (fold (inbox_step E) before empty_inbox) = Inr (es, db1)" "c \<in> set es"
    and "find_inbox_event db1 (ce_key c) = Some e" "T = min (ie_expiresAt e) (t + seconds (xc_leaseSeconds (xe_config E)))"
    and "list_all (leaves_lease (ce_key c) l d (ie_sessionId e) T) between"
    and "claim_events (xe_config E) now l' d' g' ss' n' w' (fold (inbox_step E) between db1) = Inr (es', db2)" "now < T"
  shows "ce_key c \<notin> ce_key ` set es'"
proof -
  have "distinct (map ie_key (in_events (fold (inbox_step E) before empty_inbox)))"
    using usage_reached [of E before] by (simp add: usage_exact_def)
  then have "leased (ce_key c) l d (ie_sessionId e) T db1"
    using assms(1-3) by (rule leased_claimed) (simp_all add: assms(4))
  then have "leased (ce_key c) l d (ie_sessionId e) T (fold (inbox_step E) between db1)"
    using assms(5) by (rule leases.inbox_keeps_all)
  then show ?thesis using assms(7,6) by (rule leased_not_claimed)
qed

section \<open>An acknowledgement that names a handle twice\<close>

text \<open>An acknowledgement whose list of receipt handles holds the handle of a leased event twice fails and changes
  nothing: the join returns the event twice, and the insert of its receipts would insert and then update one row in a single
  statement, which the database refuses. The other handles of the request are not acknowledged either.\<close>

theorem repeated_handle_fails:
  assumes "holds_lease now db d g h e" "e \<in> set (in_events db)" "in_usage db \<noteq> None" "map_of (in_receipts db) (fst h) = None"
  shows "transaction (acknowledge H X now d g (hs1 @ h # hs2 @ h # hs3)) db = (Inl Affects_Row_Twice, db)"
proof -
  obtain u where u: "in_usage db = Some u" using assms(3) by blast
  define es where "es = acknowledged now d g (hs1 @ h # hs2 @ h # hs3) db"
  obtain n db1 where db1: "delete_receipts (\<lambda>k r. k \<in> ie_key ` set es \<and> ir_expiresAt r \<le> now) db = Inr (n, db1)"
    and rs: "in_receipts db1 = filter (\<lambda>(k, r). \<not> (k \<in> ie_key ` set es \<and> ir_expiresAt r \<le> now)) (in_receipts db)"
    by (simp add: delete_receipts_def count_receipts_def Let_def)
  have k: "ie_key e = fst h" using assms(1) by (simp add: holds_lease_def)
  have "map_of (in_receipts db1) (ie_key e) = None"
    using assms(4) unfolding rs k by (auto simp: map_of_eq_None_iff)
  moreover have "e \<in> set (filter (holds_lease now db d g h) (in_events db))" using assms(1,2) by simp
  ultimately have "\<not> distinct (map ie_key (filter (\<lambda>e. map_of (in_receipts db1) (ie_key e) = None) es))"
    by (auto simp: es_def acknowledged_def)
  then have "store_receipts H X now es db1 = Inl Affects_Row_Twice" by (simp add: store_receipts_def)
  then show ?thesis
    using db1 u by (simp add: transaction_def acknowledge_def lock_usage_def tx_bind_def Let_def es_def [symmetric])
qed

end
