(* ===== verification/Inbox_Demo.thy ===== *)
theory Inbox_Demo
  imports Inbox_Leases
begin

text \<open>
  The Event Inbox on concrete data: a device is paired, an event is stored, claimed, delivered again and acknowledged.
\<close>

definition inbox_demo_env :: inbox_env where
  "inbox_demo_env = \<lparr>xe_hash = (\<lambda>t. t), xe_connector = \<lparr>kh_token = (\<lambda>t. t), kh_sha = (\<lambda>t. t)\<rparr>,
     xe_config = \<lparr>xc_retentionDays = 7, xc_receiptDays = 3, xc_maxEvents = 10, xc_maxBytes = 1000, xc_batchMax = 5,
       xc_leaseSeconds = 60, xc_maxAttempts = 8, xc_tokenDays = 90, xc_acceptUntil = None, xc_allowedSessions = []\<rparr>\<rparr>"

definition demo_envelope :: "string \<Rightarrow> inbox_envelope" where
  "demo_envelope k = \<lparr>ne_event = ''message.received'', ne_sessionId = ''s'', ne_key = k, ne_deliveryId = ''x''\<rparr>"

definition paired :: "inbox_op list" where
  "paired = [Pair_Device 0 0 ''d'' [''s''], Insert_Event 5 ''other'' ''sig'' (demo_envelope ''k0'')]"

abbreviation paired_inbox :: inbox_db where
  "paired_inbox \<equiv> fold (inbox_step inbox_demo_env) paired empty_inbox"

definition stored_inbox :: inbox_db where
  "stored_inbox = (case insert_event (xe_hash inbox_demo_env) (xe_config inbox_demo_env) 10 ''body'' ''sig'' (demo_envelope ''k'')
     paired_inbox of Inl _ \<Rightarrow> empty_inbox | Inr (_, db) \<Rightarrow> db)"

lemma demo_stored: "insert_event (xe_hash inbox_demo_env) (xe_config inbox_demo_env) 10 ''body'' ''sig'' (demo_envelope ''k'') paired_inbox
    = Inr (Created, stored_inbox)"
proof -
  have "(case insert_event (xe_hash inbox_demo_env) (xe_config inbox_demo_env) 10 ''body'' ''sig'' (demo_envelope ''k'') paired_inbox of
      Inr (Created, db) \<Rightarrow> True | _ \<Rightarrow> False)" by code_simp
  then show ?thesis unfolding stored_inbox_def by (auto split: sum.splits prod.splits insert_result.splits)
qed

text \<open>The event is claimed and acknowledged, and its delivery is repeated with the same and with another body.\<close>

definition acknowledged_then :: "inbox_op list" where
  "acknowledged_then = [Claim_Events 20 ''l'' ''d'' 1 [''s''] 5 None, Acknowledge 30 ''d'' 1 [(''k'', ''l'')], Remove_Expired 40 10]"

theorem accepted_event_answered_witness:
  "\<exists>db. db = fold (inbox_step inbox_demo_env) acknowledged_then stored_inbox \<and> map ie_key (in_events db) = [''k0'']
     \<and> insert_event (xe_hash inbox_demo_env) (xe_config inbox_demo_env) 50 ''body'' ''sig'' (demo_envelope ''k'') db = Inr (Duplicate, db)
     \<and> insert_event (xe_hash inbox_demo_env) (xe_config inbox_demo_env) 60 ''changed'' ''sig'' (demo_envelope ''k'') db = Inr (Conflict, db)"
proof -
  define db where "db = fold (inbox_step inbox_demo_env) acknowledged_then stored_inbox"
  have period: "list_all (in_period 10 (answered_until (xe_config inbox_demo_env) 10)) acknowledged_then" by code_simp
  have until: "answered_until (xe_config inbox_demo_env) 10 = 259200010" by code_simp
  have key: "ne_key (demo_envelope ''k'') = ne_key (demo_envelope ''k'')" by (rule refl)
  have answer: "insert_event (xe_hash inbox_demo_env) (xe_config inbox_demo_env) now body ''sig'' (demo_envelope ''k'') db =
      Inr (if xe_hash inbox_demo_env body = xe_hash inbox_demo_env ''body'' then Duplicate else Conflict, db)"
    if "10 \<le> now" "now < 259200010" for now body
    by (rule accepted_event_answered [OF demo_stored db_def period key that(1)]) (unfold until, rule that(2))
  have hash: "xe_hash inbox_demo_env t = t" for t by (simp add: inbox_demo_env_def)
  have "map ie_key (in_events db) = [''k0'']" unfolding db_def by code_simp
  moreover have "insert_event (xe_hash inbox_demo_env) (xe_config inbox_demo_env) 50 ''body'' ''sig'' (demo_envelope ''k'') db = Inr (Duplicate, db)"
    by (subst answer) (simp_all add: hash)
  moreover have "insert_event (xe_hash inbox_demo_env) (xe_config inbox_demo_env) 60 ''changed'' ''sig'' (demo_envelope ''k'') db = Inr (Conflict, db)"
    by (subst answer) (simp_all add: hash)
  ultimately show ?thesis by (intro exI [of _ db] conjI db_def)
qed

text \<open>The event is claimed; it is not claimed again while the lease runs.\<close>

definition claimed_inbox :: inbox_db where
  "claimed_inbox = inbox_step inbox_demo_env (Claim_Events 20 ''l'' ''d'' 1 [''s''] 5 None) paired_inbox"

definition inbox_demo_claimed :: claimed_event where
  "inbox_demo_claimed = \<lparr>ce_key = ''k0'', ce_leaseId = ''l'', ce_rawBody = ''other'', ce_signature = ''sig''\<rparr>"

lemma inbox_demo_claim: "claim_events (xe_config inbox_demo_env) 20 ''l'' ''d'' 1 [''s''] 5 None paired_inbox = Inr ([inbox_demo_claimed], claimed_inbox)"
proof -
  have "(case claim_events (xe_config inbox_demo_env) 20 ''l'' ''d'' 1 [''s''] 5 None paired_inbox of
      Inl _ \<Rightarrow> False | Inr (es, db) \<Rightarrow> es = [inbox_demo_claimed])" by code_simp
  then show ?thesis unfolding claimed_inbox_def by (auto simp: run_itx_def transaction_def split: sum.splits)
qed

theorem leased_event_excluded_witness:
  "\<exists>es db. claim_events (xe_config inbox_demo_env) 1020 ''m'' ''d'' 1 [''s''] 5 None
       (fold (inbox_step inbox_demo_env) [Claim_Events 30 ''n'' ''d'' 1 [''s''] 5 None, Remove_Expired 40 10] claimed_inbox) = Inr (es, db)
     \<and> ''k0'' \<notin> ce_key ` set es"
proof -
  have "(case find_inbox_event claimed_inbox ''k0'' of None \<Rightarrow> False | Some e \<Rightarrow> ie_sessionId e = ''s'' \<and> ie_expiresAt e = 604800005)"
    by code_simp
  then obtain e where e: "find_inbox_event claimed_inbox (ce_key inbox_demo_claimed) = Some e" "ie_sessionId e = ''s''" "ie_expiresAt e = 604800005"
    by (auto simp: inbox_demo_claimed_def split: option.splits)
  have T: "60020 = min (ie_expiresAt e) (20 + seconds (xc_leaseSeconds (xe_config inbox_demo_env)))"
    by (simp add: e(3) inbox_demo_env_def seconds_def)
  have b: "list_all (leaves_lease (ce_key inbox_demo_claimed) ''l'' ''d'' (ie_sessionId e) 60020)
      [Claim_Events 30 ''n'' ''d'' 1 [''s''] 5 None, Remove_Expired 40 10]" by simp
  obtain es db where c: "claim_events (xe_config inbox_demo_env) 1020 ''m'' ''d'' 1 [''s''] 5 None
       (fold (inbox_step inbox_demo_env) [Claim_Events 30 ''n'' ''d'' 1 [''s''] 5 None, Remove_Expired 40 10] claimed_inbox) = Inr (es, db)"
    by (simp add: claim_events_def Let_def)
  have "ce_key inbox_demo_claimed \<notin> ce_key ` set es"
    using leased_event_excluded [of inbox_demo_env 20 "''l''" "''d''" 1 "[''s'']" 5 None paired "[inbox_demo_claimed]" claimed_inbox
        inbox_demo_claimed e 60020, OF inbox_demo_claim _ e(1) T b c] by simp
  then show ?thesis using c by (auto simp: inbox_demo_claimed_def)
qed

end
