(* ===== verification/Spec2Isabelle.thy ===== *)
theory Spec2Isabelle
  imports Connector_Properties Message_Demo Campaign_Demo Inbox_Demo
begin

text \<open>
  WA Studio sends WhatsApp messages through OpenWA. This development models the parts of the
  repository that decide whether and how often a message is sent, and what is known about it
  afterwards: the Runtime service, which keeps jobs, attempts and safety budgets in PostgreSQL, and the connector
  plugin, which runs inside OpenWA and sends.

  A message takes this way. A campaign is reviewed and launched (\<open>Campaign_Preflight\<close>, \<open>Campaign_Runs\<close>), and each of its
  deliveries becomes a job when the run has a free slot. A job is created (\<open>Message_Jobs\<close>), claimed by the scheduler, and processed
  (\<open>Message_Processor\<close>): the safety governor grants a permit (\<open>Safety_*\<close>), the final fence commits the start and
  writes an attempt, and the message is sent directly or handed to the connector as a command
  (\<open>Connector_Commands\<close>). The plugin journals the command, sends once (\<open>Connector_Runtime\<close>) and reports evidence,
  which moves the attempt and the job (\<open>Delivery_Evidence\<close>); events of the gateway do so too
  (\<open>Status_Projection\<close>). Evidence and events reach the Runtime through the durable queue of the Event Inbox
  (\<open>Inbox_Store\<close>).

  The OpenWA connector plugin (\<open>packages/openwa-connector-plugin/src\<close>):

  \<bullet> \<open>Connector_Protocol\<close>, \<open>Connector_Config\<close>, \<open>Connector_Bindings\<close>: commands and evidence
    (\<open>protocol.ts\<close>), the configuration (\<open>config.ts\<close>), the binding generations (\<open>bindings.ts\<close>).
  \<bullet> \<open>Connector_Journal\<close>, \<open>Journal_Operations\<close>: the durable command journal (\<open>journal.ts\<close>). The state is the
    plugin storage (an association list from keys to buckets), the active send races and two
    counters that feed the UUID source and the storage fault schedule. A method is a computation of
    \<open>Fault_Monad\<close>: it returns or throws, and what it wrote before a throw stays written.
  \<bullet> \<open>Event_Inbox_Client\<close>, \<open>Connector_Runtime\<close>, \<open>Connector_Lifecycle\<close>: the HTTP client and the plugin
    (\<open>event-inbox-client.ts\<close>, \<open>connector.ts\<close>). Asynchronous methods are phases: one step runs an \<open>execute\<close>, an ingress,
    an \<open>onEnable\<close>, a \<open>stop\<close>, a flush or the tick from one call of the journal, the network or the host to the next, and
    any number of them may be in flight. Two things are coarser: a hook's acknowledgement and its look at the pending
    records are one step, and there is one journal object, so that commands in flight over a re-enabling (which hold the
    old one) are excluded where it matters.

  Its lemmas: \<open>Journal_Logic\<close> is a program logic for computations whose intermediate states must all
  satisfy an invariant (a storage fault can stop a method anywhere); \<open>Journal_Invariant\<close>,
  \<open>Journal_Wf\<close> and \<open>Journal_Safety\<close> state the invariant of the stored data and the order in which records
  progress; \<open>Journal_Methods\<close>, \<open>Journal_Acks\<close> and \<open>Journal_Recovery\<close> prove every method against them;
  \<open>Journal_Theorems\<close> instantiates the locale \<open>ordered_system\<close> of \<open>Step_Systems\<close> with the journal, and
  \<open>Connector_Safety\<close> the locale \<open>step_system\<close> with the plugin; \<open>Connector_Properties\<close> has the rest.

  The Runtime's database and safety governor (\<open>services/runtime/src/integrations/openwa/safety\<close>):

  \<bullet> \<open>Runtime_Tables\<close>: the tables as lists of rows, transactions as functions that fail (and leave the database) or give
    a result and the new database, and the trigger that guards the status of a job. A transaction is atomic: the
    sources lock the rows they read (\<open>FOR UPDATE\<close>, \<open>SKIP LOCKED\<close>). \<open>now\<close> is the clock of the database, \<open>js\<close> that of
    the process; nothing relates them. UUIDs are arguments.
  \<bullet> \<open>Safety_Policy\<close>, \<open>Safety_Scopes\<close>, \<open>Safety_Buckets\<close>, \<open>Safety_Governor\<close>, \<open>Safety_Outcomes\<close>, \<open>Safety_Forecast\<close>:
    policies and hints, scopes and circuits, the durable rate budgets, reservations and the final fence, outcomes and the
    operator's mutations, the forecast.
  \<bullet> \<open>Governor_System\<close>: one operation per writing method, in any order. The locales \<open>governor_core\<close> and
    \<open>governor_parts\<close> collect what an invariant needs of the statements the operations are made of; they are
    interpreted for the budgets, the leases and the started jobs. The locale \<open>rate_budget\<close> is the contract of a
    budget. \<open>Governor_Theorems\<close>, \<open>Governor_Budgets\<close>, \<open>Governor_Outcomes\<close> and \<open>Forecast_Theorems\<close> hold the theorems:
    \<open>may_send\<close> is the specification of the final fence over the rows of the tables, which the fence implements and the
    processor is proved to send behind; a permit, a started job, a pause and a restriction last over any sequence of operations.

  The Runtime's message modules (\<open>services/runtime/src/modules/messages\<close>):

  \<bullet> \<open>Message_Jobs\<close>: creation, claiming, processing leases and results (\<open>message-job.repository.ts\<close>,
    \<open>message-job.service.ts\<close>, \<open>message-idempotency.ts\<close>, \<open>message-send-policy.service.ts\<close>).
  \<bullet> \<open>Status_Projection\<close>, \<open>Delivery_Evidence\<close>: what events and evidence do to a job.
  \<bullet> \<open>Connector_Commands\<close>: the ingress client, the command outbox with its leases, and the dispatcher.
  \<bullet> \<open>Message_Processor\<close>: one call of \<open>process\<close> in \<open>Fault_Monad\<close>. Before each await other transactions may have run
    (\<open>pn_between\<close>, an argument); the answers of OpenWA, the media service and the gateway are arguments.
  \<bullet> \<open>Message_System\<close>: all operations of governor and message modules, in any order, and the locale \<open>runtime_parts\<close>,
    which proves each of them once from thirteen laws of statements. \<open>Message_Invariants\<close>, \<open>Evidence_Theorems\<close>,
    \<open>Command_Theorems\<close> and \<open>Message_Theorems\<close> interpret it: settled jobs, lanes, recorded evidence, command leases,
    idempotency keys. \<open>Processor_Theorems\<close> is about one call of \<open>process\<close>, \<open>Command_Retries\<close> about used-up deliveries;
    \<open>Runtime_Demo\<close>, \<open>Governor_Demo\<close> and \<open>Message_Demo\<close> evaluate the theorems at concrete inputs.

  The Runtime's campaign modules (\<open>services/runtime/src/modules/campaigns\<close>):

  \<bullet> \<open>Campaign_Preflight\<close>: the review of a campaign, the service that gathers its input, and the signed token that a
    passing LIVE review gives out (\<open>campaign-preflight.ts\<close>, \<open>campaign-preflight.service.ts\<close>,
    \<open>campaign-live-preflight-token.service.ts\<close>); HMAC, base64url and the text of JSON are arguments.
    \<open>Preflight_Theorems\<close>: what the verdict says, and what a token proves.
  \<bullet> \<open>Campaign_Tables\<close>: the campaign tables around the message tables, and the triggers of runs and deliveries (migrations
    079 and 080), which fail an update that makes a move they do not know.
  \<bullet> \<open>Campaign_Runs\<close>: creation, preparation, deliveries and read models (\<open>campaign-run.repository.ts\<close>,
    \<open>campaign-delivery.repository.ts\<close>, \<open>campaign-run.persistence.ts\<close>). \<open>Run_Lifecycle\<close>: the schedule, the end of a run, the
    operator's pause, resume and cancel with their receipts (\<open>campaign-run-lifecycle.repository.ts\<close>), the preparation of
    a run in \<open>Fault_Monad\<close> and the scheduler's tick (\<open>campaign-dispatch.tick.ts\<close>).
  \<bullet> \<open>Campaign_System\<close>: all campaign operations and, through the join \<open>runtime_view\<close>, all message operations in any order;
    the locale \<open>campaign_parts\<close> proves each of them once from the laws of the statements. \<open>Campaign_Theorems\<close> interprets
    it for the unique runs, for the deliveries of a run, for a stopped run and for one that missed its start; \<open>Campaign_Demo\<close> evaluates one campaign
    from its launch to the processing of its message.

  The Event Inbox (\<open>services/runtime/src/modules/event-inbox\<close>):

  \<bullet> \<open>Inbox_Store\<close>: its tables and the queue of events: storing, claiming, acknowledging, refusing, expiry, and the limit of
    pairing attempts (\<open>event-inbox.repository.ts\<close>, \<open>event-inbox-rate-limit.service.ts\<close>). \<open>Inbox_Devices\<close>: pairing,
    authorization, revocation and cleanup of devices, and their tokens (\<open>event-inbox-device.repository.ts\<close>,
    \<open>event-inbox-token.service.ts\<close>). \<open>Inbox_Connectors\<close>: credentials, bindings and heartbeats of connectors and the
    admission of their events (\<open>event-inbox-connector.repository.ts\<close>, \<open>event-inbox-connector.controller.ts\<close>).
  \<bullet> \<open>Inbox_System\<close>: all these operations in any order; the locales \<open>inbox_parts\<close> (an invariant of the queue) and
    \<open>inbox_queue\<close> (one that does not read leases, a sublocale) prove each of them once. \<open>Inbox_Theorems\<close> interprets them
    for the usage row and for deduplication, \<open>Inbox_Leases\<close> for a lease; \<open>Inbox_Demo\<close> evaluates them.

  Fuel is used nowhere: loops are structural, or their termination is proved (the forecast returns \<open>None\<close> when its outer
  loop does not end, and a theorem says it does not).

  Not modelled: the desktop application (\<open>apps/studio\<close>, screens and process management), the editing of campaigns,
  contacts, groups, webhooks, the media and metrics of the Event Inbox, the gateway's synchronisation, the rest of the orchestration and
  the media storage of the Runtime (they feed the message path with rows that are arguments here), HTTP controllers,
  generated contracts, SQL migrations apart from the triggers and unique indexes named above, build and release tooling.
\<close>

end
